(* ===== verification/Prelude.thy ===== *)
theory Prelude
  imports Main "HOL-Library.Word"
begin

text \<open>
  The shared prelude of the development: names for the machine integers of the server,
  the two collections of rewrite rules the component proofs use, and the generic lemmas on
  lists, sums and words that several components need.

  \<^item> \<open>bank_simps\<close> collects the frame facts of the operations (which fields of the state an
    operation leaves alone);
  \<^item> \<open>word_nat\<close> collects the rules that turn a comparison or an arithmetic operation on
    32-bit and 8-bit words into one on \<open>nat\<close>.
\<close>

section \<open>Machine integers\<close>

type_synonym uint8 = "8 word"
type_synonym uint16 = "16 word"
type_synonym uint32 = "32 word"
type_synonym int32 = "32 word"  \<comment> \<open>a signed 32-bit integer, read with \<^const>\<open>sint\<close>\<close>

named_theorems bank_simps \<open>frame facts of the modelled operations\<close>
named_theorems word_nat \<open>word operations as operations on natural numbers\<close>

lemma word32_le [word_nat]: "(a :: uint32) \<le> b \<longleftrightarrow> unat a \<le> unat b"
  by (rule word_le_nat_alt)

lemma word32_less [word_nat]: "(a :: uint32) < b \<longleftrightarrow> unat a < unat b"
  by (rule word_less_nat_alt)

lemma unat32_lt: "unat (a :: uint32) < 4294967296"
  using unsigned_less [of a, where 'a = nat] by simp

lemma unat8_lt: "unat (a :: uint8) < 256"
  using unsigned_less [of a, where 'a = nat] by simp

lemma unat_add32: "unat a + unat b < 4294967296 \<Longrightarrow> unat (a + b) = unat a + unat b"
  for a b :: uint32
  by (simp add: unat_word_ariths)

lemma unat_sub32: "unat b \<le> unat a \<Longrightarrow> unat (a - b) = unat a - unat b"
  for a b :: uint32
  by (simp add: unat_sub word_le_nat_alt)

lemma unat_add32_wrap: "unat (a + b) = (unat a + unat b) mod 4294967296"
  for a b :: uint32
  by (simp add: unat_word_ariths)

lemma unat_eq_iff32: "(a :: uint32) = b \<longleftrightarrow> unat a = unat b"
  by (simp add: word_unat_eq_iff)

lemma unat_ucast_8_32 [simp]: "unat (ucast (a :: uint8) :: uint32) = unat a"
  by (simp add: unsigned_ucast_eq take_bit_nat_eq_self unat8_lt [THEN less_trans])

lemma unat_ucast_32_8: "unat (ucast (a :: uint32) :: uint8) = unat a mod 256"
  by (simp add: unsigned_ucast_eq take_bit_eq_mod)

lemma ucast_32_8_id: "unat (a :: uint32) < 256 \<Longrightarrow> unat (ucast a :: uint8) = unat a"
  by (simp add: unat_ucast_32_8)

section \<open>Lists and sums\<close>

text \<open>A store written at one address of a duplicate-free list of addresses changes one
  summand of a sum over the list.\<close>

lemma sum_list_upd_notin:
  "p \<notin> set ps \<Longrightarrow> (\<Sum>q\<leftarrow>ps. f ((h(p := x)) q)) = (\<Sum>q\<leftarrow>ps. f (h q))"
  by (induction ps) auto

lemma sum_list_upd_in:
  fixes f :: "'a \<Rightarrow> nat"
  assumes "distinct ps" and "p \<in> set ps"
  shows "(\<Sum>q\<leftarrow>ps. f ((h(p := x)) q)) + f (h p) = (\<Sum>q\<leftarrow>ps. f (h q)) + f x"
  using assms
proof (induction ps)
  case Nil
  then show ?case by simp
next
  case (Cons a ps)
  show ?case
  proof (cases "a = p")
    case True
    with Cons.prems have "p \<notin> set ps" by simp
    then have "(\<Sum>q\<leftarrow>ps. f ((h(p := x)) q)) = (\<Sum>q\<leftarrow>ps. f (h q))"
      by (rule sum_list_upd_notin)
    with True show ?thesis by simp
  next
    case False
    with Cons have "(\<Sum>q\<leftarrow>ps. f ((h(p := x)) q)) + f (h p) = (\<Sum>q\<leftarrow>ps. f (h q)) + f x"
      by simp
    with False show ?thesis by simp
  qed
qed

lemma sum_list_remove1:
  fixes f :: "'a \<Rightarrow> nat"
  shows "p \<in> set ps \<Longrightarrow> (\<Sum>q\<leftarrow>remove1 p ps. f q) + f p = (\<Sum>q\<leftarrow>ps. f q)"
  by (induction ps) auto

lemma sum_list_cong: "(\<And>q. q \<in> set ps \<Longrightarrow> f q = g q) \<Longrightarrow> (\<Sum>q\<leftarrow>ps. f q) = (\<Sum>q\<leftarrow>ps. g q)"
  by (induction ps) auto

lemma sum_list_change:
  fixes f g :: "'a \<Rightarrow> nat"
  assumes "distinct xs" and "a \<in> set xs" and "\<And>x. x \<in> set xs \<Longrightarrow> x \<noteq> a \<Longrightarrow> f x = g x"
  shows "(\<Sum>x\<leftarrow>xs. f x) + g a = (\<Sum>x\<leftarrow>xs. g x) + f a"
  using assms
proof (induction xs)
  case (Cons x xs)
  show ?case
  proof (cases "x = a")
    case True
    with Cons.prems have "(\<Sum>x\<leftarrow>xs. f x) = (\<Sum>x\<leftarrow>xs. g x)" by (intro sum_list_cong) auto
    with True show ?thesis by simp
  next
    case False
    with Cons show ?thesis by simp
  qed
qed simp

lemma find_Some_in: "find P xs = Some x \<Longrightarrow> x \<in> set xs \<and> P x"
  by (auto simp: find_Some_iff)

lemma find_None_all: "find P xs = None \<longleftrightarrow> (\<forall>x \<in> set xs. \<not> P x)"
  by (auto simp: find_None_iff)

end
