(* ===== verification/Text_Util.thy ===== *)
theory Text_Util
  imports Prelude
begin

text \<open>
  The text layer of the addon protocol: the server's \<open>Tokenizer\<close> (src/shared/Util.cpp) and
  the C++ library conversions the message handlers call: \<open>std::to_string\<close>, \<open>atoi\<close>,
  \<open>strtoul\<close> and \<open>strstr\<close>. A \<open>std::string\<close> is a \<^typ>\<open>string\<close>; where the code works on
  its \<open>c_str()\<close> the text ends at the first NUL character.

  \<open>atoi\<close> is glibc's (\<open>strtol\<close> on a 64-bit \<open>long\<close>, which saturates, and a cast), and
  \<open>strtoul\<close> works on a 64-bit \<open>unsigned long\<close>.

  The lemmas show that what the server prints it reads back: numbers through \<open>to_string\<close> and
  \<open>atoi\<close> or \<open>strtoul\<close>, and token lists through joining and the tokenizer.
\<close>

section \<open>Tokenizer\<close>

fun tokenizer_loop :: "char \<Rightarrow> string \<Rightarrow> string \<Rightarrow> string list" where
  "tokenizer_loop sep [] cur = (if cur = [] then [] else [cur])"
| "tokenizer_loop sep (c # cs) cur =
     (if c = sep then cur # tokenizer_loop sep cs []
      else if c = CHR 0x00 then (if cur = [] then [] else [cur])
      else tokenizer_loop sep cs (cur @ [c]))"

definition Tokenizer :: "string \<Rightarrow> char \<Rightarrow> string list" where
  "Tokenizer src sep = tokenizer_loop sep src []"

section \<open>Conversions of the C++ library\<close>

fun show_nat :: "nat \<Rightarrow> string" where
  "show_nat n = (if n < 10 then [char_of (48 + n)]
                 else show_nat (n div 10) @ [char_of (48 + n mod 10)])"

declare show_nat.simps [simp del]

definition to_string :: "'a::len word \<Rightarrow> string" where
  "to_string w = show_nat (unat w)"

definition to_string_int :: "'a::len word \<Rightarrow> string" where
  "to_string_int w = (if sint w < 0 then CHR ''-'' # show_nat (nat (- sint w))
                      else show_nat (nat (sint w)))"

definition is_digit :: "char \<Rightarrow> bool" where
  "is_digit c \<longleftrightarrow> 48 \<le> (of_char c :: nat) \<and> (of_char c :: nat) \<le> 57"

definition is_space :: "char \<Rightarrow> bool" where
  "is_space c \<longleftrightarrow> (of_char c :: nat) \<in> {9, 10, 11, 12, 13, 32}"

definition digits_val :: "string \<Rightarrow> nat" where
  "digits_val ds = foldl (\<lambda>a c. 10 * a + (of_char c - 48)) 0 ds"

text \<open>The part of a numeral that \<open>strtol\<close> and \<open>strtoul\<close> read: blanks, a sign, digits.\<close>

definition scan_number :: "string \<Rightarrow> bool \<times> string" where
  "scan_number s =
     (let t = dropWhile is_space s
      in case t of
           [] \<Rightarrow> (False, [])
         | c # cs \<Rightarrow>
             if c = CHR ''-'' then (True, takeWhile is_digit cs)
             else if c = CHR ''+'' then (False, takeWhile is_digit cs)
             else (False, takeWhile is_digit t))"

definition strtol :: "string \<Rightarrow> int" where
  "strtol s =
     (let (neg, ds) = scan_number s; v = int (digits_val ds)
      in if neg then max (- (2 ^ 63)) (- v) else min (2 ^ 63 - 1) v)"

definition atoi :: "string \<Rightarrow> 'a::len word" where
  "atoi s = word_of_int (strtol s)"

text \<open>\<open>strtoul\<close> gives the value and whether any digit was read (\<open>end != str\<close>).\<close>

definition strtoul :: "string \<Rightarrow> nat \<times> bool" where
  "strtoul s =
     (let (neg, ds) = scan_number s; v = digits_val ds
      in (if v \<ge> 2 ^ 64 then 2 ^ 64 - 1
          else if neg then (2 ^ 64 - v) mod 2 ^ 64
          else v, ds \<noteq> []))"

definition c_str :: "string \<Rightarrow> string" where
  "c_str s = takeWhile (\<lambda>c. c \<noteq> CHR 0x00) s"

fun is_prefix :: "string \<Rightarrow> string \<Rightarrow> bool" where
  "is_prefix [] t = True"
| "is_prefix (c # cs) [] = False"
| "is_prefix (c # cs) (d # ds) = (c = d \<and> is_prefix cs ds)"

fun strstr :: "string \<Rightarrow> string \<Rightarrow> bool" where
  "strstr [] needle = is_prefix needle []"
| "strstr (c # cs) needle = (is_prefix needle (c # cs) \<or> strstr cs needle)"

text \<open>\<open>getline\<close> on an \<open>istringstream\<close> with a delimiter: one string per line, none for a
  stream that is at its end.\<close>

fun getlines :: "char \<Rightarrow> string \<Rightarrow> string \<Rightarrow> string list" where
  "getlines sep [] cur = (if cur = [] then [] else [cur])"
| "getlines sep (c # cs) cur =
     (if c = sep then cur # getlines sep cs [] else getlines sep cs (cur @ [c]))"

text \<open>Tokens written out the way the clients and the server write them: a separator after
  every token but the last.\<close>

fun join :: "char \<Rightarrow> string list \<Rightarrow> string" where
  "join sep [] = []"
| "join sep [t] = t"
| "join sep (t # u # ts) = t @ [sep] @ join sep (u # ts)"

text \<open>Tokens each followed by the separator, as \<open>ostringstream << x << ' '\<close> writes them.\<close>

definition join_term :: "char \<Rightarrow> string list \<Rightarrow> string" where
  "join_term sep ts = concat (map (\<lambda>t. t @ [sep]) ts)"

section \<open>Lemmas: the tokenizer\<close>

definition plain_token :: "char \<Rightarrow> string \<Rightarrow> bool" where
  "plain_token sep t \<longleftrightarrow> sep \<notin> set t \<and> CHR 0x00 \<notin> set t"

lemma tokenizer_loop_run:
  "plain_token sep t \<Longrightarrow> tokenizer_loop sep (t @ rest) cur = tokenizer_loop sep rest (cur @ t)"
  by (induction t arbitrary: cur) (auto simp: plain_token_def)

lemma tokenizer_loop_sep: "tokenizer_loop sep (sep # rest) cur = cur # tokenizer_loop sep rest []"
  by simp

lemma Tokenizer_join:
  assumes "\<forall>t \<in> set ts. plain_token sep t" and "ts \<noteq> [] \<longrightarrow> last ts \<noteq> []"
  shows "Tokenizer (join sep ts) sep = ts"
  using assms
proof (induction sep ts rule: join.induct)
  case (1 sep)
  then show ?case by (simp add: Tokenizer_def)
next
  case (2 sep t)
  then show ?case using tokenizer_loop_run [of sep t "[]" "[]"] by (simp add: Tokenizer_def)
next
  case (3 sep t u ts)
  then have IH: "tokenizer_loop sep (join sep (u # ts)) [] = u # ts"
    by (simp add: Tokenizer_def)
  have "tokenizer_loop sep (t @ (sep # join sep (u # ts))) [] = t # tokenizer_loop sep (join sep (u # ts)) []"
    using "3.prems"(1) by (simp add: tokenizer_loop_run)
  then show ?case by (simp add: Tokenizer_def IH)
qed

lemma Tokenizer_join_term:
  assumes "\<forall>t \<in> set ts. plain_token sep t"
  shows "Tokenizer (join_term sep ts) sep = ts"
proof -
  have "tokenizer_loop sep (join_term sep ts) [] = ts"
    using assms
  proof (induction ts)
    case Nil
    then show ?case by (simp add: join_term_def)
  next
    case (Cons t ts)
    then have "tokenizer_loop sep (t @ (sep # join_term sep ts)) [] = t # ts"
      by (simp add: tokenizer_loop_run)
    then show ?case by (simp add: join_term_def)
  qed
  then show ?thesis by (simp add: Tokenizer_def)
qed

section \<open>Lemmas: numerals\<close>

lemma of_char_digit: "d < 10 \<Longrightarrow> (of_char (char_of (48 + d :: nat)) :: nat) = 48 + d"
  by simp

lemma digits_val_snoc: "digits_val (ds @ [c]) = 10 * digits_val ds + (of_char c - 48)"
  by (simp add: digits_val_def)

lemma digits_val_show_nat: "digits_val (show_nat n) = n"
proof (induction n rule: show_nat.induct)
  case (1 n)
  show ?case
  proof (cases "n < 10")
    case True
    then show ?thesis
      by (simp add: show_nat.simps [of n] digits_val_def)
  next
    case False
    with "1.IH" have "digits_val (show_nat (n div 10)) = n div 10" by simp
    with False show ?thesis
      by (simp add: show_nat.simps [of n] digits_val_snoc)
  qed
qed

lemma show_nat_digits: "\<forall>c \<in> set (show_nat n). is_digit c"
proof (induction n rule: show_nat.induct)
  case (1 n)
  show ?case
  proof (cases "n < 10")
    case True
    then show ?thesis by (simp add: show_nat.simps [of n] is_digit_def)
  next
    case False
    with "1.IH" show ?thesis by (auto simp: show_nat.simps [of n] is_digit_def)
  qed
qed

lemma show_nat_nonempty: "show_nat n \<noteq> []"
  by (simp add: show_nat.simps [of n])

lemma takeWhile_show_nat: "takeWhile is_digit (show_nat n) = show_nat n"
  using show_nat_digits by (simp add: takeWhile_eq_all_conv)

lemma digit_not_space: "is_digit c \<Longrightarrow> \<not> is_space c"
  by (auto simp: is_digit_def is_space_def)

lemma digit_not_sign: "is_digit c \<Longrightarrow> c \<noteq> CHR ''-'' \<and> c \<noteq> CHR ''+''"
  by (auto simp: is_digit_def)

lemma scan_number_show_nat: "scan_number (show_nat n) = (False, show_nat n)"
proof (cases "show_nat n")
  case Nil
  then show ?thesis using show_nat_nonempty by simp
next
  case (Cons c cs)
  then have "is_digit c" using show_nat_digits [of n] by simp
  moreover have "takeWhile is_digit (c # cs) = c # cs"
    using takeWhile_show_nat [of n] Cons by simp
  ultimately show ?thesis
    using digit_not_space digit_not_sign by (simp add: scan_number_def Cons)
qed

lemma scan_number_minus: "scan_number (CHR ''-'' # show_nat n) = (True, show_nat n)"
  by (simp add: scan_number_def is_space_def takeWhile_show_nat)

lemma strtol_show_nat: "n < 2 ^ 63 \<Longrightarrow> strtol (show_nat n) = int n"
  by (simp add: strtol_def scan_number_show_nat digits_val_show_nat)

lemma strtol_minus: "n \<le> 2 ^ 63 \<Longrightarrow> strtol (CHR ''-'' # show_nat n) = - int n"
  by (simp add: strtol_def scan_number_minus digits_val_show_nat)

lemma strtoul_show_nat: "n < 2 ^ 64 \<Longrightarrow> strtoul (show_nat n) = (n, True)"
  by (simp add: strtoul_def scan_number_show_nat digits_val_show_nat show_nat_nonempty)

lemma atoi_to_string32: "atoi (to_string (w :: uint32)) = w"
  using unat32_lt [of w] by (simp add: atoi_def to_string_def strtol_show_nat)

lemma atoi_to_string8: "atoi (to_string (w :: uint8)) = w"
  using unat8_lt [of w] by (simp add: atoi_def to_string_def strtol_show_nat)

lemma strtoul_to_string32: "strtoul (to_string (w :: uint32)) = (unat w, True)"
  using unat32_lt [of w] by (simp add: to_string_def strtoul_show_nat)

lemma atoi_to_string_int32: "atoi (to_string_int (w :: int32)) = w"
proof -
  have lo: "- (2 ^ 31) \<le> sint w" and hi: "sint w < 2 ^ 31"
    using sint_greater_eq [of w] sint_less [of w] by simp_all
  have "word_of_int (sint w) = w" by simp
  moreover have "strtol (to_string_int w) = sint w"
  proof (cases "sint w < 0")
    case True
    with lo have "nat (- sint w) \<le> 2 ^ 63" by simp
    with True show ?thesis by (simp add: to_string_int_def strtol_minus)
  next
    case False
    with hi have "nat (sint w) < 2 ^ 63" by simp
    with False show ?thesis by (simp add: to_string_int_def strtol_show_nat)
  qed
  ultimately show ?thesis by (simp add: atoi_def)
qed

lemma digit_plain: "\<forall>c \<in> set t. is_digit c \<or> c = CHR ''-'' \<Longrightarrow> \<not> is_digit sep \<Longrightarrow> sep \<noteq> CHR ''-'' \<Longrightarrow>
  plain_token sep t"
  by (auto simp: plain_token_def is_digit_def)

lemma to_string_plain: "\<not> is_digit sep \<Longrightarrow> sep \<noteq> CHR ''-'' \<Longrightarrow> plain_token sep (to_string w)"
  by (rule digit_plain) (use show_nat_digits in \<open>auto simp: to_string_def\<close>)

lemma to_string_int_plain: "\<not> is_digit sep \<Longrightarrow> sep \<noteq> CHR ''-'' \<Longrightarrow> plain_token sep (to_string_int w)"
  by (rule digit_plain) (use show_nat_digits in \<open>auto simp: to_string_int_def split: if_splits\<close>)

lemma to_string_nonempty: "to_string w \<noteq> []"
  by (simp add: to_string_def show_nat_nonempty)

end
