(* ===== verification/Item_Model.thy ===== *)
theory Item_Model
  imports Text_Util
begin

unbundle bit_operations_syntax

text \<open>
  Items, bags and the item slots of a player (src/game/Objects: ItemPrototype.h, Item.h,
  Item.cpp, Bag.h, Bag.cpp, Player.h, Player.cpp).

  An \<open>Item*\<close> is an address (\<open>iptr\<close>); the objects live in \<open>iheap\<close>, allocation takes the next
  address and \<open>delete\<close> records the address in \<open>ifreed\<close>, so that using a freed item is visible.
  \<open>m_items\<close> is the player's slot array, \<open>i_bagslot\<close> the slot array of a bag. The item carries
  the back pointers the code keeps: its slot and the bag that contains it.

  The item templates and the random-property table come from the world database and the client
  data files: they are fields of the environment. Update fields that only mirror a pointer for the
  client (\<open>ITEM_FIELD_CONTAINED\<close>, \<open>PLAYER_FIELD_INV_SLOT_HEAD\<close>) and object guids are left
  out: nothing modelled reads them.
\<close>

section \<open>Constants\<close>

abbreviation NULL_BAG :: uint8 where "NULL_BAG \<equiv> 0"
abbreviation NULL_SLOT :: uint8 where "NULL_SLOT \<equiv> 255"
abbreviation INVENTORY_SLOT_BAG_0 :: uint8 where "INVENTORY_SLOT_BAG_0 \<equiv> 255"
abbreviation EQUIPMENT_SLOT_END :: nat where "EQUIPMENT_SLOT_END \<equiv> 19"
abbreviation INVENTORY_SLOT_BAG_START :: nat where "INVENTORY_SLOT_BAG_START \<equiv> 19"
abbreviation INVENTORY_SLOT_BAG_END :: nat where "INVENTORY_SLOT_BAG_END \<equiv> 23"
abbreviation INVENTORY_SLOT_ITEM_START :: nat where "INVENTORY_SLOT_ITEM_START \<equiv> 23"
abbreviation INVENTORY_SLOT_ITEM_END :: nat where "INVENTORY_SLOT_ITEM_END \<equiv> 39"
abbreviation BANK_SLOT_ITEM_START :: nat where "BANK_SLOT_ITEM_START \<equiv> 39"
abbreviation BANK_SLOT_ITEM_END :: nat where "BANK_SLOT_ITEM_END \<equiv> 63"
abbreviation BANK_SLOT_BAG_START :: nat where "BANK_SLOT_BAG_START \<equiv> 63"
abbreviation BANK_SLOT_BAG_END :: nat where "BANK_SLOT_BAG_END \<equiv> 69"
abbreviation BUYBACK_SLOT_START :: nat where "BUYBACK_SLOT_START \<equiv> 69"
abbreviation BUYBACK_SLOT_END :: nat where "BUYBACK_SLOT_END \<equiv> 81"
abbreviation KEYRING_SLOT_START :: nat where "KEYRING_SLOT_START \<equiv> 81"
abbreviation KEYRING_SLOT_END :: nat where "KEYRING_SLOT_END \<equiv> 113"
abbreviation PLAYER_SLOT_END :: nat where "PLAYER_SLOT_END \<equiv> 118"
abbreviation MAX_BAG_SIZE :: nat where "MAX_BAG_SIZE \<equiv> 36"
abbreviation MAX_ENCHANTMENT_SLOT :: nat where "MAX_ENCHANTMENT_SLOT \<equiv> 7"
abbreviation MAX_ENCHANTMENT_OFFSET :: nat where "MAX_ENCHANTMENT_OFFSET \<equiv> 3"
abbreviation MAX_ITEM_PROTO_SPELLS :: nat where "MAX_ITEM_PROTO_SPELLS \<equiv> 5"

abbreviation ITEM_CLASS_CONSUMABLE :: uint32 where "ITEM_CLASS_CONSUMABLE \<equiv> 0"
abbreviation ITEM_CLASS_CONTAINER :: uint32 where "ITEM_CLASS_CONTAINER \<equiv> 1"
abbreviation ITEM_CLASS_QUIVER :: uint32 where "ITEM_CLASS_QUIVER \<equiv> 11"
abbreviation INVTYPE_BAG :: uint32 where "INVTYPE_BAG \<equiv> 18"
abbreviation BAG_FAMILY_KEYS :: uint32 where "BAG_FAMILY_KEYS \<equiv> 9"
abbreviation ITEM_DYNFLAG_BINDED :: uint32 where "ITEM_DYNFLAG_BINDED \<equiv> 1"
abbreviation ITEM_DYNFLAG_WRAPPED :: uint32 where "ITEM_DYNFLAG_WRAPPED \<equiv> 8"
abbreviation ITEM_DYNFLAG_UNK6 :: uint32 where "ITEM_DYNFLAG_UNK6 \<equiv> 0x40"
abbreviation ITEM_DYNFLAG_UNK13 :: uint32 where "ITEM_DYNFLAG_UNK13 \<equiv> 0x2000"
abbreviation ITEM_DYNFLAG_BOA :: uint32 where "ITEM_DYNFLAG_BOA \<equiv> 0x40000"
abbreviation BIND_WHEN_PICKED_UP :: uint32 where "BIND_WHEN_PICKED_UP \<equiv> 1"
abbreviation BIND_WHEN_EQUIPPED :: uint32 where "BIND_WHEN_EQUIPPED \<equiv> 2"
abbreviation BIND_QUEST_ITEM :: uint32 where "BIND_QUEST_ITEM \<equiv> 4"
abbreviation BIND_ACCOUNT :: uint32 where "BIND_ACCOUNT \<equiv> 6"

section \<open>Data\<close>

text \<open>The results of the storage checks (a part of the enumeration of Item.h).\<close>

datatype InventoryResult =
    EQUIP_ERR_OK
  | EQUIP_ERR_ITEM_DOESNT_GO_TO_SLOT
  | EQUIP_ERR_NONEMPTY_BAG_OVER_OTHER_BAG
  | EQUIP_ERR_ITEM_DOESNT_GO_INTO_BAG
  | EQUIP_ERR_CANT_CARRY_MORE_OF_THIS
  | EQUIP_ERR_ITEM_CANT_STACK
  | EQUIP_ERR_ITEMS_CANT_BE_SWAPPED
  | EQUIP_ERR_ITEM_NOT_FOUND
  | EQUIP_ERR_CAN_ONLY_DO_WITH_EMPTY_BAGS
  | EQUIP_ERR_DONT_OWN_THAT_ITEM
  | EQUIP_ERR_ALREADY_LOOTED
  | EQUIP_ERR_INVENTORY_FULL

datatype ItemUpdateState = ITEM_UNCHANGED | ITEM_CHANGED | ITEM_NEW | ITEM_REMOVED | ITEM_STASHED

datatype ItemLootUpdateState =
  ITEM_LOOT_NONE | ITEM_LOOT_TEMPORARY | ITEM_LOOT_UNCHANGED | ITEM_LOOT_CHANGED | ITEM_LOOT_NEW | ITEM_LOOT_REMOVED

record ItemPrototype =
  pr_ItemId :: uint32
  pr_Class :: uint32
  pr_SubClass :: uint32
  pr_Name1 :: string
  pr_Quality :: uint32
  pr_Flags :: uint32
  pr_BuyCount :: uint32
  pr_InventoryType :: uint32
  pr_MaxCount :: uint32
  pr_Stackable :: uint32
  pr_ContainerSlots :: uint32
  pr_SpellCharges :: "int32 list"
  pr_Bonding :: uint32
  pr_MaxDurability :: uint32
  pr_BagFamily :: uint32
  pr_Duration :: uint32
  pr_ExtraFlags :: uint32
  pr_RandomProperty :: uint32
  pr_ItemSet :: uint32

type_synonym iptr = nat

record Item =
  i_entry :: uint32
  i_count :: uint32
  i_owner :: uint32
  i_creator :: uint32
  i_giftcreator :: uint32
  i_duration :: uint32
  i_charges :: "int32 list"
  i_flags :: uint32
  i_enchant :: "uint32 list"
  i_randprop :: int32
  i_text :: uint32
  i_durability :: uint32
  i_maxdurability :: uint32
  i_transmog :: uint32
  i_genloot :: bool
  i_lootempty :: bool
  i_lootstate :: ItemLootUpdateState
  i_slot :: uint8
  i_container :: "iptr option"
  i_state :: ItemUpdateState
  i_queuepos :: "nat option"
  i_numslots :: uint32
  i_bagslot :: "nat \<Rightarrow> iptr option"
  i_tradeUntil :: int

text \<open>What a row of the random-property table gives: its name suffix and three enchantments.\<close>

record RandomProperty =
  rp_ID :: uint32
  rp_suffix :: string
  rp_enchants :: "uint32 list"

text \<open>The world data the code consults: item templates, random properties, the random roll for a
  new item's property (\<open>GetItemEnchantMod\<close>), the game time, what the money hooks of the script
  registry make of an amount, the known petitions. \<open>e_nullproto\<close> and \<open>e_nullsuffix\<close> stand for
  what the code would read through a null template or property pointer: it never tests for one there,
  the behaviour is undefined and the model takes an arbitrary value.\<close>

record Env =
  e_protos :: "uint32 \<Rightarrow> ItemPrototype option"
  e_randprops :: "uint32 \<Rightarrow> RandomProperty option"
  e_roll :: "uint32 \<Rightarrow> uint32"
  e_gametime :: int
  e_moneyhook :: "int32 \<Rightarrow> int32"
  e_petition :: "uint32 \<Rightarrow> bool"
  e_nullproto :: ItemPrototype
  e_nullsuffix :: string

text \<open>What a player operation shows to the outside: packets, quest hooks, anticheat reports.\<close>

datatype pevent =
    ItemAddedQuestCheck uint32 uint32
  | ItemRemovedQuestCheck uint32 uint32
  | CreateUpdateToPlayer iptr
  | DestroyForPlayer iptr
  | AnticheatReport string
  | ItemModsRemoved iptr uint8
  | ItemSetRemoved uint32
  | ItemAurasRemoved iptr
  | ExtraAttacksReset
  | VisibleItemCleared uint8
  | GiftsDeleted iptr
  | PetitionDeleted uint32
  | EnchantTimeUpdate iptr nat uint32
  | ItemTimeUpdate iptr
  | MoneyChanged uint32

record Player =
  pl_guid :: uint32
  pl_name :: string
  pl_rank :: uint32
  pl_money :: uint32
  pl_inworld :: bool
  m_items :: "nat \<Rightarrow> iptr option"
  iheap :: "iptr \<Rightarrow> Item"
  inext :: iptr
  ifreed :: "iptr list"
  m_itemUpdateQueue :: "iptr option list"
  m_itemUpdateQueueBlocked :: bool
  m_enchantDuration :: "(iptr \<times> nat \<times> uint32) list"
  m_itemDuration :: "iptr list"
  pl_events :: "pevent list"

definition pemit :: "pevent \<Rightarrow> Player \<Rightarrow> Player" where
  "pemit e P = P\<lparr>pl_events := pl_events P @ [e]\<rparr>"

definition upd_item :: "iptr \<Rightarrow> (Item \<Rightarrow> Item) \<Rightarrow> Player \<Rightarrow> Player" where
  "upd_item p f P = P\<lparr>iheap := (iheap P)(p := f (iheap P p))\<rparr>"

section \<open>Prototypes and single items\<close>

definition GetMaxStackSize :: "ItemPrototype \<Rightarrow> uint32" where
  "GetMaxStackSize proto = pr_Stackable proto"

definition IsConjuredConsumable :: "ItemPrototype \<Rightarrow> bool" where
  "IsConjuredConsumable proto \<longleftrightarrow> pr_Class proto = ITEM_CLASS_CONSUMABLE \<and> pr_Flags proto AND 2 \<noteq> 0"

definition GetProto :: "'e Env_scheme \<Rightarrow> Item \<Rightarrow> ItemPrototype option" where
  "GetProto E it = e_protos E (i_entry it)"

definition the_proto :: "'e Env_scheme \<Rightarrow> Item \<Rightarrow> ItemPrototype" where
  "the_proto E it = (case GetProto E it of None \<Rightarrow> e_nullproto E | Some pr \<Rightarrow> pr)"

definition has_flag :: "Item \<Rightarrow> uint32 \<Rightarrow> bool" where
  "has_flag it f \<longleftrightarrow> i_flags it AND f \<noteq> 0"

definition ApplyModFlag :: "uint32 \<Rightarrow> bool \<Rightarrow> Item \<Rightarrow> Item" where
  "ApplyModFlag f on it =
     it\<lparr>i_flags := (if on then i_flags it OR f else i_flags it AND NOT f)\<rparr>"

definition IsSoulBound :: "Item \<Rightarrow> bool" where
  "IsSoulBound it \<longleftrightarrow> has_flag it ITEM_DYNFLAG_BINDED \<or> has_flag it ITEM_DYNFLAG_BOA"

definition IsBag :: "'e Env_scheme \<Rightarrow> Item \<Rightarrow> bool" where
  "IsBag E it \<longleftrightarrow> pr_InventoryType (the_proto E it) = INVTYPE_BAG"

definition HasGeneratedLoot :: "Item \<Rightarrow> bool" where
  "HasGeneratedLoot it \<longleftrightarrow> \<not> i_lootempty it \<and> i_lootstate it \<noteq> ITEM_LOOT_NONE \<and> i_lootstate it \<noteq> ITEM_LOOT_REMOVED"

definition HasTemporaryLoot :: "Item \<Rightarrow> bool" where
  "HasTemporaryLoot it \<longleftrightarrow> \<not> i_lootempty it \<and> i_lootstate it = ITEM_LOOT_TEMPORARY"

definition CanBeTradedEvenIfSoulBound :: "'e Env_scheme \<Rightarrow> Item \<Rightarrow> bool" where
  "CanBeTradedEvenIfSoulBound E it \<longleftrightarrow> i_tradeUntil it > e_gametime E"

definition IsBindedNotWith :: "'e Env_scheme \<Rightarrow> Item \<Rightarrow> Player \<Rightarrow> bool" where
  "IsBindedNotWith E it P =
     (if i_owner it = pl_guid P then False
      else if HasGeneratedLoot it then True
      else if \<not> IsSoulBound it \<or> CanBeTradedEvenIfSoulBound E it then False
      else True)"

definition IsInBag :: "Item \<Rightarrow> bool" where
  "IsInBag it \<longleftrightarrow> i_container it \<noteq> None"

definition IsEquipped :: "Item \<Rightarrow> bool" where
  "IsEquipped it \<longleftrightarrow> \<not> IsInBag it \<and> unat (i_slot it) < EQUIPMENT_SLOT_END"

definition IsCharter :: "Item \<Rightarrow> bool" where
  "IsCharter it \<longleftrightarrow> i_entry it = 5863"

text \<open>An item's fields for one enchantment slot: id, duration, charges.\<close>

definition GetEnchantmentId :: "Item \<Rightarrow> nat \<Rightarrow> uint32" where
  "GetEnchantmentId it sl = i_enchant it ! (sl * MAX_ENCHANTMENT_OFFSET)"

definition GetEnchantmentDuration :: "Item \<Rightarrow> nat \<Rightarrow> uint32" where
  "GetEnchantmentDuration it sl = i_enchant it ! (sl * MAX_ENCHANTMENT_OFFSET + 1)"

definition GetEnchantmentCharges :: "Item \<Rightarrow> nat \<Rightarrow> uint32" where
  "GetEnchantmentCharges it sl = i_enchant it ! (sl * MAX_ENCHANTMENT_OFFSET + 2)"

definition CanBeMergedPartlyWith :: "Item \<Rightarrow> ItemPrototype \<Rightarrow> InventoryResult" where
  "CanBeMergedPartlyWith it proto =
     (if i_entry it \<noteq> pr_ItemId proto then EQUIP_ERR_ITEM_CANT_STACK
      else if i_count it \<ge> GetMaxStackSize proto then EQUIP_ERR_ITEM_CANT_STACK
      else if HasGeneratedLoot it then EQUIP_ERR_ALREADY_LOOTED
      else EQUIP_ERR_OK)"

text \<open>Which bags take which items: ordinary containers take everything, the special containers,
  quivers and pouches only their own family.\<close>

definition ItemCanGoIntoBag :: "ItemPrototype \<Rightarrow> ItemPrototype \<Rightarrow> bool" where
  "ItemCanGoIntoBag pr bag =
     (if pr_Class bag = ITEM_CLASS_CONTAINER then
        (if pr_SubClass bag = 0 then True
         else if pr_SubClass bag = 1 then pr_BagFamily pr = 3
         else if pr_SubClass bag = 2 then pr_BagFamily pr = 6
         else if pr_SubClass bag = 3 then pr_BagFamily pr = 7
         else if pr_SubClass bag = 4 then pr_BagFamily pr = 8
         else if pr_SubClass bag = 6 then pr_BagFamily pr = 13
         else if pr_SubClass bag = 7 then pr_BagFamily pr = 12
         else if pr_SubClass bag = 8 then pr_BagFamily pr = 10
         else if pr_SubClass bag = 9 then pr_BagFamily pr = 11
         else False)
      else if pr_Class bag = ITEM_CLASS_QUIVER then
        (if pr_SubClass bag = 2 then pr_BagFamily pr = 1
         else if pr_SubClass bag = 3 then pr_BagFamily pr = 2
         else False)
      else False)"

end
