(* ===== verification/Item_Slots.thy ===== *)
theory Item_Slots
  imports Item_Model
begin

unbundle bit_operations_syntax

text \<open>
  Where items are: lookups by position, counting, the item's own update state, creation and
  cloning of items, and the slot arrays of bags (src/game/Objects: Player.cpp, Item.cpp, Bag.cpp).
\<close>

section \<open>Lookup\<close>

definition Bag_GetItemByPos :: "Item \<Rightarrow> uint8 \<Rightarrow> iptr option" where
  "Bag_GetItemByPos bag slot =
     (if unat slot < unat (i_numslots bag) then i_bagslot bag (unat slot) else None)"

definition is_bag_index :: "uint8 \<Rightarrow> bool" where
  "is_bag_index bag \<longleftrightarrow>
     (INVENTORY_SLOT_BAG_START \<le> unat bag \<and> unat bag < INVENTORY_SLOT_BAG_END) \<or>
     (BANK_SLOT_BAG_START \<le> unat bag \<and> unat bag < BANK_SLOT_BAG_END)"

definition GetItemByPos :: "Player \<Rightarrow> uint8 \<Rightarrow> uint8 \<Rightarrow> iptr option" where
  "GetItemByPos P bag slot =
     (if bag = INVENTORY_SLOT_BAG_0 \<and>
         (unat slot < BANK_SLOT_BAG_END \<or> (KEYRING_SLOT_START \<le> unat slot \<and> unat slot < KEYRING_SLOT_END))
      then m_items P (unat slot)
      else if is_bag_index bag then
        (case m_items P (unat bag) of
           None \<Rightarrow> None
         | Some pb \<Rightarrow> Bag_GetItemByPos (iheap P pb) slot)
      else None)"

definition GetBagSlot :: "Player \<Rightarrow> iptr \<Rightarrow> uint8" where
  "GetBagSlot P p = (case i_container (iheap P p) of
     Some c \<Rightarrow> i_slot (iheap P c) | None \<Rightarrow> INVENTORY_SLOT_BAG_0)"

definition IsEmptyBag :: "Item \<Rightarrow> bool" where
  "IsEmptyBag bag \<longleftrightarrow> (\<forall>i \<in> set [0..<unat (i_numslots bag)]. i_bagslot bag i = None)"

definition IsInventoryPos :: "uint8 \<Rightarrow> uint8 \<Rightarrow> bool" where
  "IsInventoryPos bag slot \<longleftrightarrow>
     (bag = INVENTORY_SLOT_BAG_0 \<and> slot = NULL_SLOT) \<or>
     (bag = INVENTORY_SLOT_BAG_0 \<and> INVENTORY_SLOT_ITEM_START \<le> unat slot \<and> unat slot < INVENTORY_SLOT_ITEM_END) \<or>
     (INVENTORY_SLOT_BAG_START \<le> unat bag \<and> unat bag < INVENTORY_SLOT_BAG_END) \<or>
     (bag = INVENTORY_SLOT_BAG_0 \<and> KEYRING_SLOT_START \<le> unat slot \<and> unat slot < KEYRING_SLOT_END)"

definition IsEquipmentPos :: "uint8 \<Rightarrow> uint8 \<Rightarrow> bool" where
  "IsEquipmentPos bag slot \<longleftrightarrow>
     (bag = INVENTORY_SLOT_BAG_0 \<and> unat slot < EQUIPMENT_SLOT_END) \<or>
     (bag = INVENTORY_SLOT_BAG_0 \<and> INVENTORY_SLOT_BAG_START \<le> unat slot \<and> unat slot < INVENTORY_SLOT_BAG_END)"

definition IsBagPos :: "uint16 \<Rightarrow> bool" where
  "IsBagPos pos \<longleftrightarrow>
     (let bag = ucast (drop_bit 8 pos) :: uint8; slot = ucast (pos AND 255) :: uint8
      in bag = INVENTORY_SLOT_BAG_0 \<and> is_bag_index slot)"

text \<open>\<open>Player::ApplyForAllItems\<close> as the list of the items it visits, in its order.\<close>

definition bag_items :: "Player \<Rightarrow> nat \<Rightarrow> iptr list" where
  "bag_items P i =
     (case m_items P i of
        None \<Rightarrow> []
      | Some pb \<Rightarrow> List.map_filter (i_bagslot (iheap P pb)) [0..<unat (i_numslots (iheap P pb))])"

definition ApplyForAllItems :: "Player \<Rightarrow> bool \<Rightarrow> iptr list" where
  "ApplyForAllItems P inBank =
     List.map_filter (m_items P) [0..<INVENTORY_SLOT_ITEM_END] @
     List.map_filter (m_items P) [KEYRING_SLOT_START..<KEYRING_SLOT_END] @
     concat (map (bag_items P) [INVENTORY_SLOT_BAG_START..<INVENTORY_SLOT_BAG_END]) @
     (if inBank then
        List.map_filter (m_items P) [BANK_SLOT_ITEM_START..<BANK_SLOT_BAG_END] @
        concat (map (bag_items P) [BANK_SLOT_BAG_START..<BANK_SLOT_BAG_END])
      else [])"

definition GetItemCount :: "Player \<Rightarrow> uint32 \<Rightarrow> bool \<Rightarrow> iptr option \<Rightarrow> uint32" where
  "GetItemCount P entry inBankAlso skipItem =
     foldl (\<lambda>c p. if Some p \<noteq> skipItem \<and> i_entry (iheap P p) = entry then c + i_count (iheap P p) else c)
       0 (ApplyForAllItems P inBankAlso)"

section \<open>Item state and allocation\<close>

text \<open>\<open>delete\<close>: the destructor of a bag deletes what its slots hold. (A bag inside a bag is empty,
  the storage check sees to that, so one level is all there is.)\<close>

definition delete_item :: "iptr \<Rightarrow> Player \<Rightarrow> Player" where
  "delete_item p P =
     P\<lparr>ifreed := p # List.map_filter (i_bagslot (iheap P p)) [0..<MAX_BAG_SIZE] @ ifreed P\<rparr>"

definition AddToUpdateQueueOf :: "iptr \<Rightarrow> Player \<Rightarrow> Player" where
  "AddToUpdateQueueOf p P =
     (if i_queuepos (iheap P p) \<noteq> None then P
      else if pl_guid P \<noteq> i_owner (iheap P p) then P
      else if m_itemUpdateQueueBlocked P then P
      else upd_item p (\<lambda>it. it\<lparr>i_queuepos := Some (length (m_itemUpdateQueue P))\<rparr>)
             (P\<lparr>m_itemUpdateQueue := m_itemUpdateQueue P @ [Some p]\<rparr>))"

definition RemoveFromUpdateQueueOf :: "iptr \<Rightarrow> Player \<Rightarrow> Player" where
  "RemoveFromUpdateQueueOf p P =
     (case i_queuepos (iheap P p) of
        None \<Rightarrow> P
      | Some k \<Rightarrow>
          if pl_guid P \<noteq> i_owner (iheap P p) then P
          else if m_itemUpdateQueueBlocked P then P
          else upd_item p (\<lambda>it. it\<lparr>i_queuepos := None\<rparr>)
                 (P\<lparr>m_itemUpdateQueue := (m_itemUpdateQueue P)[k := None]\<rparr>))"

definition SetState :: "iptr \<Rightarrow> ItemUpdateState \<Rightarrow> Player \<Rightarrow> Player" where
  "SetState p st P =
     (if i_state (iheap P p) = ITEM_NEW \<and> st = ITEM_REMOVED then
        delete_item p (RemoveFromUpdateQueueOf p P)
      else if st \<noteq> ITEM_UNCHANGED then
        AddToUpdateQueueOf p
          (upd_item p (\<lambda>it. if i_state it \<noteq> ITEM_NEW then it\<lparr>i_state := st\<rparr> else it) P)
      else upd_item p (\<lambda>it. it\<lparr>i_queuepos := None, i_state := ITEM_UNCHANGED\<rparr>) P)"

definition SetEnchantment :: "iptr \<Rightarrow> nat \<Rightarrow> uint32 \<Rightarrow> uint32 \<Rightarrow> uint32 \<Rightarrow> Player \<Rightarrow> Player" where
  "SetEnchantment p sl eid dur ch P =
     (let it = iheap P p in
      if GetEnchantmentId it sl = eid \<and> GetEnchantmentDuration it sl = dur \<and> GetEnchantmentCharges it sl = ch
      then P
      else SetState p ITEM_CHANGED
             (upd_item p (\<lambda>it. it\<lparr>i_enchant := (i_enchant it)
                [sl * MAX_ENCHANTMENT_OFFSET := eid, sl * MAX_ENCHANTMENT_OFFSET + 1 := dur,
                 sl * MAX_ENCHANTMENT_OFFSET + 2 := ch]\<rparr>) P))"

definition SetEnchantmentDuration :: "iptr \<Rightarrow> nat \<Rightarrow> uint32 \<Rightarrow> Player \<Rightarrow> Player" where
  "SetEnchantmentDuration p sl dur P =
     (if GetEnchantmentDuration (iheap P p) sl = dur then P
      else SetState p ITEM_CHANGED
             (upd_item p (\<lambda>it. it\<lparr>i_enchant := (i_enchant it)[sl * MAX_ENCHANTMENT_OFFSET + 1 := dur]\<rparr>) P))"

definition SetItemRandomProperties :: "'e Env_scheme \<Rightarrow> iptr \<Rightarrow> int32 \<Rightarrow> Player \<Rightarrow> Player" where
  "SetItemRandomProperties E p rid P =
     (if rid = 0 then P
      else if sint rid > 0 then
        (case e_randprops E rid of
           None \<Rightarrow> P
         | Some rp \<Rightarrow>
             (let P1 = (if i_randprop (iheap P p) \<noteq> rp_ID rp
                        then SetState p ITEM_CHANGED (upd_item p (\<lambda>it. it\<lparr>i_randprop := rp_ID rp\<rparr>) P)
                        else P)
              in fold (\<lambda>i Q. SetEnchantment p i (rp_enchants rp ! (i - 3)) 0 0 Q) [3..<6] P1))
      else P)"

definition GenerateItemRandomPropertyId :: "'e Env_scheme \<Rightarrow> uint32 \<Rightarrow> int32" where
  "GenerateItemRandomPropertyId E item_id =
     (case e_protos E item_id of
        None \<Rightarrow> 0
      | Some pr \<Rightarrow>
          if pr_RandomProperty pr \<noteq> 0 then
            (case e_randprops E (e_roll E (pr_RandomProperty pr)) of None \<Rightarrow> 0 | Some rp \<Rightarrow> rp_ID rp)
          else 0)"

definition ClearEnchantment :: "iptr \<Rightarrow> nat \<Rightarrow> Player \<Rightarrow> Player" where
  "ClearEnchantment p sl P =
     (if GetEnchantmentId (iheap P p) sl = 0 then P
      else SetState p ITEM_CHANGED
             (upd_item p (\<lambda>it. it\<lparr>i_enchant := (i_enchant it)
                [sl * MAX_ENCHANTMENT_OFFSET := 0, sl * MAX_ENCHANTMENT_OFFSET + 1 := 0,
                 sl * MAX_ENCHANTMENT_OFFSET + 2 := 0]\<rparr>) P))"

text \<open>The constructors and \<open>Item::Create\<close> / \<open>Bag::Create\<close>.\<close>

definition new_Item :: Item where
  "new_Item = \<lparr>i_entry = 0, i_count = 0, i_owner = 0, i_creator = 0, i_giftcreator = 0, i_duration = 0,
     i_charges = replicate 5 0, i_flags = 0, i_enchant = replicate 21 0, i_randprop = 0, i_text = 0,
     i_durability = 0, i_maxdurability = 0, i_transmog = 0, i_genloot = False, i_lootempty = True,
     i_lootstate = ITEM_LOOT_NONE, i_slot = 0, i_container = None, i_state = ITEM_NEW, i_queuepos = None,
     i_numslots = 0, i_bagslot = (\<lambda>_. None), i_tradeUntil = 0\<rparr>"

definition Item_Create :: "'e Env_scheme \<Rightarrow> uint32 \<Rightarrow> uint32 \<Rightarrow> Item option" where
  "Item_Create E itemid owner =
     (case e_protos E itemid of
        None \<Rightarrow> None
      | Some pr \<Rightarrow>
          let it = new_Item\<lparr>i_entry := itemid, i_owner := owner\<rparr>;
              it = ApplyModFlag ITEM_DYNFLAG_UNK6 (pr_Flags pr AND 0x40 \<noteq> 0) it;
              it = ApplyModFlag ITEM_DYNFLAG_UNK13 (pr_Flags pr AND 0x2000 \<noteq> 0) it;
              it = it\<lparr>i_count := 1, i_maxdurability := pr_MaxDurability pr,
                      i_durability := (if pr_ExtraFlags pr AND 8 \<noteq> 0 then 0 else pr_MaxDurability pr),
                      i_charges := pr_SpellCharges pr, i_duration := pr_Duration pr\<rparr>
          in Some (if pr_Bonding pr = BIND_ACCOUNT then ApplyModFlag ITEM_DYNFLAG_BOA True it else it))"

definition Bag_Create :: "'e Env_scheme \<Rightarrow> uint32 \<Rightarrow> uint32 \<Rightarrow> Item option" where
  "Bag_Create E itemid owner =
     (case e_protos E itemid of
        None \<Rightarrow> None
      | Some pr \<Rightarrow>
          if unat (pr_ContainerSlots pr) > MAX_BAG_SIZE then None
          else Some (new_Item\<lparr>i_entry := itemid, i_owner := owner,
                 i_maxdurability := pr_MaxDurability pr, i_durability := pr_MaxDurability pr,
                 i_count := 1, i_numslots := pr_ContainerSlots pr, i_bagslot := (\<lambda>_. None)\<rparr>))"

definition alloc_item :: "Item \<Rightarrow> Player \<Rightarrow> iptr \<times> Player" where
  "alloc_item it P = (inext P, P\<lparr>inext := Suc (inext P), iheap := (iheap P)(inext P := it)\<rparr>)"

definition CreateItem :: "'e Env_scheme \<Rightarrow> uint32 \<Rightarrow> uint32 \<Rightarrow> Player \<Rightarrow> iptr option \<times> Player" where
  "CreateItem E entry count P =
     (if count < 1 then (None, P)
      else case e_protos E entry of
        None \<Rightarrow> (None, P)
      | Some pr \<Rightarrow>
          let count = (if count > GetMaxStackSize pr then GetMaxStackSize pr else count)
          in case (if pr_InventoryType pr = INVTYPE_BAG then Bag_Create E entry (pl_guid P)
                   else Item_Create E entry (pl_guid P)) of
               None \<Rightarrow> (None, P)
             | Some it \<Rightarrow> (let (p, P') = alloc_item (it\<lparr>i_count := count\<rparr>) P in (Some p, P')))"

definition CloneItem :: "'e Env_scheme \<Rightarrow> iptr \<Rightarrow> uint32 \<Rightarrow> Player \<Rightarrow> iptr option \<times> Player" where
  "CloneItem E src count P =
     (case CreateItem E (i_entry (iheap P src)) count P of
        (None, P1) \<Rightarrow> (None, P1)
      | (Some p, P1) \<Rightarrow>
          let it = iheap P1 src;
              P2 = upd_item p (\<lambda>n. n\<lparr>i_creator := i_creator it, i_giftcreator := i_giftcreator it,
                                     i_flags := i_flags it, i_duration := i_duration it\<rparr>) P1;
              P3 = SetItemRandomProperties E p (i_randprop it) P2
          in (Some p, upd_item p (\<lambda>n. n\<lparr>i_genloot := i_genloot it\<rparr>) P3))"

section \<open>The slot array of a bag\<close>

definition Bag_RemoveItem :: "iptr \<Rightarrow> uint8 \<Rightarrow> Player \<Rightarrow> Player" where
  "Bag_RemoveItem pb slot P =
     (let P1 = (case i_bagslot (iheap P pb) (unat slot) of
                  None \<Rightarrow> P
                | Some q \<Rightarrow> upd_item q (\<lambda>it. it\<lparr>i_container := None\<rparr>) P)
      in upd_item pb (\<lambda>b. b\<lparr>i_bagslot := (i_bagslot b)(unat slot := None)\<rparr>) P1)"

definition Bag_StoreItem :: "iptr \<Rightarrow> uint8 \<Rightarrow> iptr \<Rightarrow> Player \<Rightarrow> Player" where
  "Bag_StoreItem pb slot p P =
     (let P1 = upd_item pb (\<lambda>b. b\<lparr>i_bagslot := (i_bagslot b)(unat slot := Some p)\<rparr>) P
      in upd_item p (\<lambda>it. it\<lparr>i_owner := i_owner (iheap P1 pb), i_container := Some pb, i_slot := slot\<rparr>) P1)"

section \<open>Timers of enchantments and items\<close>

definition RemoveEnchantmentDurations :: "iptr \<Rightarrow> Player \<Rightarrow> Player" where
  "RemoveEnchantmentDurations p P =
     (let P1 = fold (\<lambda>(q, sl, left) Q. if q = p then SetEnchantmentDuration p sl left Q else Q)
                 (m_enchantDuration P) P
      in P1\<lparr>m_enchantDuration := filter (\<lambda>(q, sl, left). q \<noteq> p) (m_enchantDuration P)\<rparr>)"

definition AddEnchantmentDuration :: "iptr \<Rightarrow> nat \<Rightarrow> uint32 \<Rightarrow> Player \<Rightarrow> Player" where
  "AddEnchantmentDuration p sl dur P =
     (if sl \<ge> MAX_ENCHANTMENT_SLOT then P
      else
        let P1 = (case find (\<lambda>(q, s, left). q = p \<and> s = sl) (m_enchantDuration P) of
                    None \<Rightarrow> P
                  | Some e \<Rightarrow> (SetEnchantmentDuration p sl (snd (snd e)) P)
                      \<lparr>m_enchantDuration := remove1 e (m_enchantDuration P)\<rparr>)
        in if dur > 0 then
             pemit (EnchantTimeUpdate p sl (dur div 1000))
               (P1\<lparr>m_enchantDuration := m_enchantDuration P1 @ [(p, sl, dur)]\<rparr>)
           else P1)"

definition AddEnchantmentDurations :: "iptr \<Rightarrow> Player \<Rightarrow> Player" where
  "AddEnchantmentDurations p P =
     fold (\<lambda>x Q. if GetEnchantmentId (iheap Q p) x = 0 then Q
                 else let d = GetEnchantmentDuration (iheap Q p) x
                      in if d > 0 then AddEnchantmentDuration p x d Q else Q)
       [0..<MAX_ENCHANTMENT_SLOT] P"

definition RemoveItemDurations :: "iptr \<Rightarrow> Player \<Rightarrow> Player" where
  "RemoveItemDurations p P = P\<lparr>m_itemDuration := remove1 p (m_itemDuration P)\<rparr>"

definition AddItemDurations :: "iptr \<Rightarrow> Player \<Rightarrow> Player" where
  "AddItemDurations p P =
     (if i_duration (iheap P p) \<noteq> 0
      then pemit (ItemTimeUpdate p) (P\<lparr>m_itemDuration := m_itemDuration P @ [p]\<rparr>) else P)"

end
