(* ===== verification/Store_Check.thy ===== *)
theory Store_Check
  imports Item_Slots
begin

unbundle bit_operations_syntax

text \<open>
  The storage check: where would \<open>count\<close> pieces of an item go? (Player.cpp:
  \<open>_CanTakeMoreSimilarItems\<close>, \<open>_CanStoreItem_InSpecificSlot\<close>, \<open>_CanStoreItem_InBag\<close>,
  \<open>_CanStoreItem_InInventorySlots\<close>, \<open>_CanStoreItem\<close>; Player.h: \<open>ItemPosCount\<close>,
  \<open>CanStoreNewItem\<close>.)

  A check returns its result, the destination list it extended and the count it could not place
  yet. \<open>_CanStoreItem\<close> is a sequence of stages; after each one the code has the same three lines
  (an error ends the check, a count of zero ends it with success, otherwise the next stage
  runs), which are \<open>finish_or\<close> here, with the next stage as continuation.

  \<open>need_space\<close> is stored in an 8-bit field of \<open>ItemPosCount\<close>: stacks above 255 are cut there.
  The theorem \<open>CanStoreNewItem_sound\<close> is therefore about templates that stack to at most 255.
\<close>

section \<open>Destinations\<close>

record ItemPosCount =
  ipc_pos :: uint16
  ipc_count :: uint8

type_synonym dest = "ItemPosCount list"

definition mk_pos :: "uint8 \<Rightarrow> uint8 \<Rightarrow> uint16" where
  "mk_pos bag slot = push_bit 8 (ucast bag) OR ucast slot"

definition pos_bag :: "uint16 \<Rightarrow> uint8" where
  "pos_bag pos = ucast (drop_bit 8 pos)"

definition pos_slot :: "uint16 \<Rightarrow> uint8" where
  "pos_slot pos = ucast (pos AND 255)"

definition isContainedIn :: "ItemPosCount \<Rightarrow> dest \<Rightarrow> bool" where
  "isContainedIn ipc vec \<longleftrightarrow> (\<exists>x \<in> set vec. ipc_pos x = ipc_pos ipc)"

text \<open>The step all placements share: cap the free room by what is left, record the position
  unless it is already used.\<close>

definition place_at :: "uint8 \<Rightarrow> uint8 \<Rightarrow> uint32 \<Rightarrow> dest \<Rightarrow> uint32 \<Rightarrow> dest \<times> uint32 \<times> bool" where
  "place_at bag slot room dest count =
     (let need = (if room > count then count else room);
          ipc = \<lparr>ipc_pos = mk_pos bag slot, ipc_count = ucast need\<rparr>
      in if isContainedIn ipc dest then (dest, count, False)
         else (dest @ [ipc], count - need, True))"

type_synonym placed = "InventoryResult \<times> dest \<times> uint32"
type_synonym check = "InventoryResult \<times> dest \<times> uint32 option"

section \<open>The single checks\<close>

definition CanTakeMoreSimilarItems :: "'e Env_scheme \<Rightarrow> Player \<Rightarrow> uint32 \<Rightarrow> uint32 \<Rightarrow> iptr option \<Rightarrow> InventoryResult \<times> uint32 option" where
  "CanTakeMoreSimilarItems E P entry count pItem =
     (case e_protos E entry of
        None \<Rightarrow> (EQUIP_ERR_CANT_CARRY_MORE_OF_THIS, Some count)
      | Some pr \<Rightarrow>
          if pr_MaxCount pr > 0 then
            let curcount = GetItemCount P (pr_ItemId pr) True pItem
            in if curcount + count > pr_MaxCount pr
               then (EQUIP_ERR_CANT_CARRY_MORE_OF_THIS, Some (count + curcount - pr_MaxCount pr))
               else (EQUIP_ERR_OK, None)
          else (EQUIP_ERR_OK, None))"

definition moves_nonempty_bag :: "'e Env_scheme \<Rightarrow> Player \<Rightarrow> iptr option \<Rightarrow> bool" where
  "moves_nonempty_bag E P src =
     (case src of None \<Rightarrow> False | Some p \<Rightarrow> IsBag E (iheap P p) \<and> \<not> IsEmptyBag (iheap P p))"

text \<open>The item a placement sees in a slot; the item that is being moved does not count.\<close>

definition other_item :: "Player \<Rightarrow> uint8 \<Rightarrow> uint8 \<Rightarrow> iptr option \<Rightarrow> iptr option" where
  "other_item P bag slot src =
     (let q = GetItemByPos P bag slot in if q = src then None else q)"

definition slot_fits :: "'e Env_scheme \<Rightarrow> Player \<Rightarrow> uint8 \<Rightarrow> uint8 \<Rightarrow> ItemPrototype \<Rightarrow> iptr option \<Rightarrow> bool" where
  "slot_fits E P bag slot pr src =
     (if bag = INVENTORY_SLOT_BAG_0 then
        \<not> (KEYRING_SLOT_START \<le> unat slot \<and> unat slot < KEYRING_SLOT_END \<and> pr_BagFamily pr \<noteq> BAG_FAMILY_KEYS) \<and>
        \<not> ((BUYBACK_SLOT_START \<le> unat slot \<and> unat slot < BUYBACK_SLOT_END) \<or> unat slot \<ge> PLAYER_SLOT_END)
      else case GetItemByPos P INVENTORY_SLOT_BAG_0 bag of
        None \<Rightarrow> False
      | Some pb \<Rightarrow>
          if Some pb = src then False
          else case GetProto E (iheap P pb) of
                 None \<Rightarrow> False
               | Some bp \<Rightarrow> unat slot < unat (pr_ContainerSlots bp) \<and> ItemCanGoIntoBag pr bp)"

definition CanStoreItem_InSpecificSlot ::
    "'e Env_scheme \<Rightarrow> Player \<Rightarrow> uint8 \<Rightarrow> uint8 \<Rightarrow> ItemPrototype \<Rightarrow> bool \<Rightarrow> iptr option \<Rightarrow> dest \<Rightarrow> uint32 \<Rightarrow> placed" where
  "CanStoreItem_InSpecificSlot E P bag slot pr swap src dest count =
     (if moves_nonempty_bag E P src then (EQUIP_ERR_CAN_ONLY_DO_WITH_EMPTY_BAGS, dest, count)
      else
        let put = (\<lambda>room. case place_at bag slot room dest count of (d, c, _) \<Rightarrow> (EQUIP_ERR_OK, d, c))
        in case (if swap then None else other_item P bag slot src) of
             None \<Rightarrow>
               if slot_fits E P bag slot pr src then put (pr_Stackable pr)
               else (EQUIP_ERR_ITEM_DOESNT_GO_INTO_BAG, dest, count)
           | Some q \<Rightarrow>
               let res = CanBeMergedPartlyWith (iheap P q) pr
               in if res \<noteq> EQUIP_ERR_OK then (res, dest, count)
                  else put (pr_Stackable pr - i_count (iheap P q)))"

text \<open>The loop of \<open>_CanStoreItem_InBag\<close> and of \<open>_CanStoreItem_InInventorySlots\<close> over the slots
  of one container.\<close>

fun store_loop ::
    "Player \<Rightarrow> uint8 \<Rightarrow> ItemPrototype \<Rightarrow> bool \<Rightarrow> iptr option \<Rightarrow> (nat \<Rightarrow> bool) \<Rightarrow> nat list \<Rightarrow> dest \<Rightarrow> uint32 \<Rightarrow> dest \<times> uint32" where
  "store_loop P bag pr merge src skip [] dest count = (dest, count)"
| "store_loop P bag pr merge src skip (j # js) dest count =
     (if skip j then store_loop P bag pr merge src skip js dest count
      else
        let slot = of_nat j :: uint8; other = other_item P bag slot src
        in if (other \<noteq> None) \<noteq> merge then store_loop P bag pr merge src skip js dest count
           else
             let mergeable = (case other of None \<Rightarrow> True
                                | Some q \<Rightarrow> CanBeMergedPartlyWith (iheap P q) pr = EQUIP_ERR_OK);
                 room = (case other of None \<Rightarrow> GetMaxStackSize pr
                           | Some q \<Rightarrow> GetMaxStackSize pr - i_count (iheap P q))
             in if \<not> mergeable then store_loop P bag pr merge src skip js dest count
                else case place_at bag slot room dest count of
                       (d, c, new) \<Rightarrow>
                         if new \<and> c = 0 then (d, c)
                         else store_loop P bag pr merge src skip js d c)"

definition CanStoreItem_InBag ::
    "'e Env_scheme \<Rightarrow> Player \<Rightarrow> uint8 \<Rightarrow> ItemPrototype \<Rightarrow> bool \<Rightarrow> bool \<Rightarrow> iptr option \<Rightarrow> uint8 \<Rightarrow> uint8 \<Rightarrow> dest \<Rightarrow> uint32 \<Rightarrow> placed" where
  "CanStoreItem_InBag E P bag pr merge non_specialized src skip_bag skip_slot dest count =
     (if bag = skip_bag then (EQUIP_ERR_ITEM_DOESNT_GO_INTO_BAG, dest, count)
      else case GetItemByPos P INVENTORY_SLOT_BAG_0 bag of
        None \<Rightarrow> (EQUIP_ERR_ITEM_DOESNT_GO_INTO_BAG, dest, count)
      | Some pb \<Rightarrow>
          if Some pb = src then (EQUIP_ERR_ITEM_DOESNT_GO_INTO_BAG, dest, count)
          else case GetProto E (iheap P pb) of
            None \<Rightarrow> (EQUIP_ERR_ITEM_DOESNT_GO_INTO_BAG, dest, count)
          | Some bp \<Rightarrow>
              if moves_nonempty_bag E P src then (EQUIP_ERR_CAN_ONLY_DO_WITH_EMPTY_BAGS, dest, count)
              else if non_specialized \<noteq> (pr_Class bp = ITEM_CLASS_CONTAINER \<and> pr_SubClass bp = 0)
              then (EQUIP_ERR_ITEM_DOESNT_GO_INTO_BAG, dest, count)
              else if \<not> ItemCanGoIntoBag pr bp then (EQUIP_ERR_ITEM_DOESNT_GO_INTO_BAG, dest, count)
              else (EQUIP_ERR_OK,
                    store_loop P bag pr merge src (\<lambda>j. j = unat skip_slot)
                      [0..<unat (i_numslots (iheap P pb))] dest count))"

definition CanStoreItem_InInventorySlots ::
    "'e Env_scheme \<Rightarrow> Player \<Rightarrow> nat \<Rightarrow> nat \<Rightarrow> ItemPrototype \<Rightarrow> bool \<Rightarrow> iptr option \<Rightarrow> uint8 \<Rightarrow> uint8 \<Rightarrow> dest \<Rightarrow> uint32 \<Rightarrow> placed" where
  "CanStoreItem_InInventorySlots E P slot_begin slot_end pr merge src skip_bag skip_slot dest count =
     (if moves_nonempty_bag E P src then (EQUIP_ERR_CAN_ONLY_DO_WITH_EMPTY_BAGS, dest, count)
      else (EQUIP_ERR_OK,
            store_loop P INVENTORY_SLOT_BAG_0 pr merge src
              (\<lambda>j. INVENTORY_SLOT_BAG_0 = skip_bag \<and> j = unat skip_slot)
              [slot_begin..<slot_end] dest count))"

section \<open>The sequence of stages\<close>

definition finish_or :: "uint32 \<Rightarrow> placed \<Rightarrow> (dest \<Rightarrow> uint32 \<Rightarrow> check) \<Rightarrow> check" where
  "finish_or nsim r k =
     (case r of (res, dest, count) \<Rightarrow>
        if res \<noteq> EQUIP_ERR_OK then (res, dest, Some (count + nsim))
        else if count = 0 then
          (if nsim = 0 then (EQUIP_ERR_OK, dest, None)
           else (EQUIP_ERR_CANT_CARRY_MORE_OF_THIS, dest, Some (count + nsim)))
        else k dest count)"

text \<open>The loops over the bag slots: a bag that does not take the item is passed over.\<close>

fun bag_loop :: "(uint8 \<Rightarrow> dest \<Rightarrow> uint32 \<Rightarrow> placed) \<Rightarrow> uint32 \<Rightarrow> uint8 list \<Rightarrow> dest \<Rightarrow> uint32 \<Rightarrow> (dest \<Rightarrow> uint32 \<Rightarrow> check) \<Rightarrow> check" where
  "bag_loop f nsim [] dest count k = k dest count"
| "bag_loop f nsim (i # is) dest count k =
     (case f i dest count of (res, d, c) \<Rightarrow>
        if res \<noteq> EQUIP_ERR_OK then bag_loop f nsim is d c k
        else finish_or nsim (res, d, c) (\<lambda>d c. bag_loop f nsim is d c k))"

abbreviation bag_slots :: "uint8 list" where "bag_slots \<equiv> [19, 20, 21, 22]"

definition store_specific_slot where
  "store_specific_slot E P bag slot pr swap pItem nsim dest count k =
     (if bag \<noteq> NULL_BAG \<and> slot \<noteq> NULL_SLOT then
        (if bag = INVENTORY_SLOT_BAG_0 \<and> unat slot > 112
         then (EQUIP_ERR_ITEM_DOESNT_GO_TO_SLOT, dest, None)
         else finish_or nsim (CanStoreItem_InSpecificSlot E P bag slot pr swap pItem dest count) k)
      else k dest count)"

text \<open>In a named bag: merge into its stacks, then take its free slots.\<close>

definition in_bag_either where
  "in_bag_either E P bag pr merge pItem slot dest count =
     (case CanStoreItem_InBag E P bag pr merge False pItem NULL_BAG slot dest count of
        (res, d, c) \<Rightarrow>
          if res \<noteq> EQUIP_ERR_OK then CanStoreItem_InBag E P bag pr merge True pItem NULL_BAG slot d c
          else (res, d, c))"

definition store_specific_bag_merge where
  "store_specific_bag_merge E P bag slot pr pItem nsim dest count k =
     (if pr_Stackable pr > 1 then
        (if bag = INVENTORY_SLOT_BAG_0 then
           finish_or nsim
             (CanStoreItem_InInventorySlots E P KEYRING_SLOT_START KEYRING_SLOT_END pr True pItem bag slot dest count)
             (\<lambda>d c. finish_or nsim
                (CanStoreItem_InInventorySlots E P INVENTORY_SLOT_ITEM_START INVENTORY_SLOT_ITEM_END pr True pItem bag slot d c)
                k)
         else finish_or nsim (in_bag_either E P bag pr True pItem slot dest count) k)
      else k dest count)"

definition store_specific_bag_free where
  "store_specific_bag_free E P bag slot pr pItem nsim dest count k =
     (if bag = INVENTORY_SLOT_BAG_0 then
        (let rest = (\<lambda>d c. finish_or nsim
                (CanStoreItem_InInventorySlots E P INVENTORY_SLOT_ITEM_START INVENTORY_SLOT_ITEM_END pr False pItem bag slot d c)
                k)
         in if pr_BagFamily pr = BAG_FAMILY_KEYS then
              finish_or nsim
                (CanStoreItem_InInventorySlots E P KEYRING_SLOT_START KEYRING_SLOT_END pr False pItem bag slot dest count)
                rest
            else rest dest count)
      else finish_or nsim (in_bag_either E P bag pr False pItem slot dest count) k)"

definition store_any_merge where
  "store_any_merge E P bag slot pr pItem nsim dest count k =
     (if pr_Stackable pr > 1 then
        finish_or nsim
          (CanStoreItem_InInventorySlots E P KEYRING_SLOT_START KEYRING_SLOT_END pr True pItem bag slot dest count)
          (\<lambda>d c. finish_or nsim
             (CanStoreItem_InInventorySlots E P INVENTORY_SLOT_ITEM_START INVENTORY_SLOT_ITEM_END pr True pItem bag slot d c)
             (\<lambda>d c.
                let plain = (\<lambda>d c. bag_loop (\<lambda>i d c. CanStoreItem_InBag E P i pr True True pItem bag slot d c) nsim bag_slots d c k)
                in if pr_BagFamily pr \<noteq> 0
                   then bag_loop (\<lambda>i d c. CanStoreItem_InBag E P i pr True False pItem bag slot d c) nsim bag_slots d c plain
                   else plain d c))
      else k dest count)"

definition store_any_special where
  "store_any_special E P bag slot pr pItem nsim dest count k =
     (if pr_BagFamily pr \<noteq> 0 then
        (let bags = (\<lambda>d c. bag_loop (\<lambda>i d c. CanStoreItem_InBag E P i pr False False pItem bag slot d c) nsim bag_slots d c k)
         in if pr_BagFamily pr = BAG_FAMILY_KEYS then
              finish_or nsim
                (CanStoreItem_InInventorySlots E P KEYRING_SLOT_START KEYRING_SLOT_END pr False pItem bag slot dest count)
                bags
            else bags dest count)
      else k dest count)"

definition store_any_free where
  "store_any_free E P bag slot pr pItem nsim dest count =
     (if moves_nonempty_bag E P pItem then (EQUIP_ERR_NONEMPTY_BAG_OVER_OTHER_BAG, dest, None)
      else finish_or nsim
        (CanStoreItem_InInventorySlots E P INVENTORY_SLOT_ITEM_START INVENTORY_SLOT_ITEM_END pr False pItem bag slot dest count)
        (\<lambda>d c. bag_loop (\<lambda>i d c. CanStoreItem_InBag E P i pr False True pItem bag slot d c) nsim bag_slots d c
           (\<lambda>d c. (EQUIP_ERR_INVENTORY_FULL, d, Some (c + nsim)))))"

definition store_stages where
  "store_stages E P bag slot pr swap pItem nsim dest count =
     (let anywhere = (\<lambda>d c. store_any_merge E P bag slot pr pItem nsim d c
            (\<lambda>d c. store_any_special E P bag slot pr pItem nsim d c
               (\<lambda>d c. store_any_free E P bag slot pr pItem nsim d c)))
      in store_specific_slot E P bag slot pr swap pItem nsim dest count
           (\<lambda>d c. if bag \<noteq> NULL_BAG then
                store_specific_bag_merge E P bag slot pr pItem nsim d c
                  (\<lambda>d c. store_specific_bag_free E P bag slot pr pItem nsim d c anywhere)
              else anywhere d c))"

definition CanStoreItem_impl :: "'e Env_scheme \<Rightarrow> Player \<Rightarrow> uint8 \<Rightarrow> uint8 \<Rightarrow> dest \<Rightarrow> uint32 \<Rightarrow> uint32 \<Rightarrow> iptr option \<Rightarrow> bool \<Rightarrow> check" where
  "CanStoreItem_impl E P bag slot dest entry count pItem swap =
     (case e_protos E entry of
        None \<Rightarrow> (if swap then EQUIP_ERR_ITEMS_CANT_BE_SWAPPED else EQUIP_ERR_ITEM_NOT_FOUND, dest, Some count)
      | Some pr \<Rightarrow>
          if (case pItem of None \<Rightarrow> False | Some p \<Rightarrow> HasTemporaryLoot (iheap P p))
          then (EQUIP_ERR_ALREADY_LOOTED, dest, Some count)
          else if (case pItem of None \<Rightarrow> False | Some p \<Rightarrow> IsBindedNotWith E (iheap P p) P)
          then (EQUIP_ERR_DONT_OWN_THAT_ITEM, dest, Some count)
          else
            case CanTakeMoreSimilarItems E P entry count pItem of
              (res, nsc) \<Rightarrow>
                let nsim = (case nsc of None \<Rightarrow> 0 | Some n \<Rightarrow> n)
                in if res \<noteq> EQUIP_ERR_OK \<and> count = nsim then (res, dest, Some nsim)
                   else store_stages E P bag slot pr swap pItem nsim dest
                          (if res \<noteq> EQUIP_ERR_OK then count - nsim else count))"

definition CanStoreNewItem :: "'e Env_scheme \<Rightarrow> Player \<Rightarrow> uint8 \<Rightarrow> uint8 \<Rightarrow> uint32 \<Rightarrow> uint32 \<Rightarrow> check" where
  "CanStoreNewItem E P bag slot item count = CanStoreItem_impl E P bag slot [] item count None False"

definition CanStoreItem :: "'e Env_scheme \<Rightarrow> Player \<Rightarrow> uint8 \<Rightarrow> uint8 \<Rightarrow> iptr option \<Rightarrow> bool \<Rightarrow> check" where
  "CanStoreItem E P bag slot pItem swap =
     (case pItem of
        None \<Rightarrow> (EQUIP_ERR_ITEM_NOT_FOUND, [], None)
      | Some p \<Rightarrow> CanStoreItem_impl E P bag slot [] (i_entry (iheap P p)) (i_count (iheap P p)) pItem swap)"

end
