(* ===== verification/Item_Store.thy ===== *)
theory Item_Store
  imports Store_Check
begin

unbundle bit_operations_syntax

text \<open>
  Putting items into the slots and taking them out (Player.cpp: \<open>StoreNewItem\<close>, \<open>StoreItem\<close>,
  \<open>_StoreItem\<close>, \<open>RemoveItem\<close>, \<open>MoveItemFromInventory\<close>, \<open>MoveItemToInventory\<close>, \<open>DestroyItem\<close>,
  \<open>DestroyItemCount\<close>) and the player's money (\<open>ModifyMoney\<close>).

  Operations return the new player; those that return an item return its address with it. The
  effects on combat statistics, auras and packets are events of the player. \<open>MANGOS_ASSERT\<close> (a
  bag slot below the maximal bag size) is not modelled: the lookups before it already keep the slot
  below the size of the bag.
\<close>

section \<open>Storing\<close>

definition bind_on_store :: "'e Env_scheme \<Rightarrow> uint16 \<Rightarrow> iptr \<Rightarrow> Player \<Rightarrow> Player" where
  "bind_on_store E pos p P =
     (let b = pr_Bonding (the_proto E (iheap P p));
          P1 = (if b = BIND_WHEN_PICKED_UP \<or> b = BIND_QUEST_ITEM \<or> (b = BIND_WHEN_EQUIPPED \<and> IsBagPos pos)
                then upd_item p (ApplyModFlag ITEM_DYNFLAG_BINDED True) P else P)
      in if b = BIND_ACCOUNT then upd_item p (ApplyModFlag ITEM_DYNFLAG_BOA True) P1 else P1)"

definition show_item :: "bool \<Rightarrow> iptr \<Rightarrow> Player \<Rightarrow> Player" where
  "show_item update p P = (if pl_inworld P \<and> update then pemit (CreateUpdateToPlayer p) P else P)"

text \<open>The branch of \<open>_StoreItem\<close> for a free position, after the item (or its clone) is there.\<close>

definition store_in_free :: "'e Env_scheme \<Rightarrow> uint16 \<Rightarrow> iptr \<Rightarrow> bool \<Rightarrow> Player \<Rightarrow> Player" where
  "store_in_free E pos p update P =
     (let bag = pos_bag pos; slot = pos_slot pos;
          P1 = bind_on_store E pos p P;
          P2 = (if bag = INVENTORY_SLOT_BAG_0 then
                  SetState p ITEM_CHANGED
                    (show_item update p
                      (upd_item p (\<lambda>it. it\<lparr>i_owner := pl_guid P, i_slot := slot, i_container := None\<rparr>)
                        (P1\<lparr>m_items := (m_items P1)(unat slot := Some p)\<rparr>)))
                else case GetItemByPos P1 INVENTORY_SLOT_BAG_0 bag of
                  None \<Rightarrow> P1
                | Some pb \<Rightarrow>
                    SetState pb ITEM_CHANGED
                      (SetState p ITEM_CHANGED (show_item update p (Bag_StoreItem pb slot p P1))))
      in AddItemDurations p (AddEnchantmentDurations p P2))"

text \<open>The branch for an occupied position: the stack grows, the item that came in is deleted.\<close>

definition discard_item :: "iptr \<Rightarrow> bool \<Rightarrow> Player \<Rightarrow> Player" where
  "discard_item p update P =
     SetState p ITEM_REMOVED
       (upd_item p (\<lambda>it. it\<lparr>i_owner := pl_guid P\<rparr>)
         (RemoveItemDurations p (RemoveEnchantmentDurations p
           (if pl_inworld P \<and> update then pemit (DestroyForPlayer p) P else P))))"

definition store_in_stack :: "'e Env_scheme \<Rightarrow> uint16 \<Rightarrow> iptr \<Rightarrow> iptr \<Rightarrow> uint32 \<Rightarrow> bool \<Rightarrow> bool \<Rightarrow> Player \<Rightarrow> Player" where
  "store_in_stack E pos q p count clone update P =
     (let P1 = bind_on_store E pos q P;
          P2 = show_item update q (upd_item q (\<lambda>it. it\<lparr>i_count := i_count it + count\<rparr>) P1);
          P3 = (if clone then P2 else discard_item p update P2)
      in SetState q ITEM_CHANGED (AddEnchantmentDurations q P3))"

definition StoreItem_at :: "'e Env_scheme \<Rightarrow> uint16 \<Rightarrow> iptr \<Rightarrow> uint32 \<Rightarrow> bool \<Rightarrow> bool \<Rightarrow> Player \<Rightarrow> iptr option \<times> Player" where
  "StoreItem_at E pos p count clone update P =
     (case GetItemByPos P (pos_bag pos) (pos_slot pos) of
        None \<Rightarrow>
          if clone then
            (case CloneItem E p count P of
               (None, P1) \<Rightarrow> (None, P1)
             | (Some c, P1) \<Rightarrow> (Some c, store_in_free E pos c update P1))
          else (Some p, store_in_free E pos p update (upd_item p (\<lambda>it. it\<lparr>i_count := count\<rparr>) P))
      | Some q \<Rightarrow> (Some q, store_in_stack E pos q p count clone update P))"

fun StoreItem :: "'e Env_scheme \<Rightarrow> dest \<Rightarrow> iptr \<Rightarrow> bool \<Rightarrow> Player \<Rightarrow> iptr option \<times> Player" where
  "StoreItem E [] p update P = (Some p, P)"
| "StoreItem E [d] p update P = StoreItem_at E (ipc_pos d) p (ucast (ipc_count d)) False update P"
| "StoreItem E (d # d' # ds) p update P =
     StoreItem E (d' # ds) p update (snd (StoreItem_at E (ipc_pos d) p (ucast (ipc_count d)) True update P))"

definition dest_count :: "dest \<Rightarrow> uint32" where
  "dest_count dest = foldl (\<lambda>c d. c + ucast (ipc_count d)) 0 dest"

definition StoreNewItem :: "'e Env_scheme \<Rightarrow> dest \<Rightarrow> uint32 \<Rightarrow> bool \<Rightarrow> int32 \<Rightarrow> Player \<Rightarrow> iptr option \<times> Player" where
  "StoreNewItem E dest item update randomPropertyId P =
     (let count = dest_count dest
      in case CreateItem E item count P of
           (None, P1) \<Rightarrow> (None, P1)
         | (Some p, P1) \<Rightarrow>
             let P2 = pemit (ItemAddedQuestCheck item count) P1;
                 P3 = (if randomPropertyId \<noteq> 0 then SetItemRandomProperties E p randomPropertyId P2 else P2)
             in StoreItem E dest p update P3)"

definition MoveItemToInventory :: "'e Env_scheme \<Rightarrow> dest \<Rightarrow> iptr \<Rightarrow> bool \<Rightarrow> bool \<Rightarrow> Player \<Rightarrow> iptr option \<times> Player" where
  "MoveItemToInventory E dest p update in_characterInventoryDB P =
     (let P1 = pemit (ItemAddedQuestCheck (i_entry (iheap P p)) (i_count (iheap P p))) P
      in case StoreItem E dest p update P1 of
           (lst, P2) \<Rightarrow>
             if lst = Some p then
               (lst, SetState p (if in_characterInventoryDB then ITEM_CHANGED else ITEM_NEW)
                 (upd_item p (\<lambda>it. it\<lparr>i_owner := pl_guid P2\<rparr>) P2))
             else (lst, P2))"

section \<open>Taking out\<close>

text \<open>What leaving an equipment or bag slot takes off the player.\<close>

definition remove_mods :: "'e Env_scheme \<Rightarrow> iptr \<Rightarrow> uint8 \<Rightarrow> Player \<Rightarrow> Player" where
  "remove_mods E p slot P =
     pemit (ItemModsRemoved p slot)
       (case GetProto E (iheap P p) of
          None \<Rightarrow> P
        | Some pr \<Rightarrow> if pr_ItemSet pr \<noteq> 0 then pemit (ItemSetRemoved (pr_ItemId pr)) P else P)"

definition unequip_effects :: "iptr \<Rightarrow> uint8 \<Rightarrow> Player \<Rightarrow> Player" where
  "unequip_effects p slot P =
     (let P1 = pemit (ItemAurasRemoved p) P;
          P2 = (if slot = 15 then ClearEnchantment p 6 P1 else P1)
      in if slot = 15 \<or> slot = 16 \<or> slot = 17 then pemit ExtraAttacksReset P2 else P2)"

definition RemoveItem :: "'e Env_scheme \<Rightarrow> uint8 \<Rightarrow> uint8 \<Rightarrow> bool \<Rightarrow> Player \<Rightarrow> Player" where
  "RemoveItem E bag slot update P =
     (case GetItemByPos P bag slot of
        None \<Rightarrow> P
      | Some p \<Rightarrow>
          let P1 = RemoveItemDurations p (RemoveEnchantmentDurations p P);
              P2 = (if bag = INVENTORY_SLOT_BAG_0 then
                      (let Q1 = (if unat slot < INVENTORY_SLOT_BAG_END then
                                   (let Q = remove_mods E p slot P1
                                    in if unat slot < EQUIPMENT_SLOT_END then unequip_effects p slot Q else Q)
                                 else P1);
                           Q2 = Q1\<lparr>m_items := (m_items Q1)(unat slot := None)\<rparr>
                       in if unat slot < EQUIPMENT_SLOT_END then pemit (VisibleItemCleared slot) Q2 else Q2)
                    else case GetItemByPos P1 INVENTORY_SLOT_BAG_0 bag of
                      None \<Rightarrow> P1
                    | Some pb \<Rightarrow> Bag_RemoveItem pb slot P1)
          in show_item update p (upd_item p (\<lambda>it. it\<lparr>i_slot := NULL_SLOT\<rparr>) P2))"

text \<open>An item of the inventory is in the world exactly when its player is, so the model reads the flag of the player.\<close>

definition MoveItemFromInventory :: "'e Env_scheme \<Rightarrow> uint8 \<Rightarrow> uint8 \<Rightarrow> bool \<Rightarrow> Player \<Rightarrow> Player" where
  "MoveItemFromInventory E bag slot update P =
     (case GetItemByPos P bag slot of
        None \<Rightarrow> P
      | Some p \<Rightarrow>
          let P1 = pemit (ItemRemovedQuestCheck (i_entry (iheap P p)) (i_count (iheap P p))) P;
              P2 = RemoveFromUpdateQueueOf p (RemoveItem E bag slot update P1)
          in if pl_inworld P2 then pemit (DestroyForPlayer p) P2 else P2)"

text \<open>\<open>Player::DestroyItem\<close> for one item, what it does after the items of an equipped bag: clear
  its timers, unlink it from its slot, mark it removed.\<close>

definition destroy_begin :: "iptr \<Rightarrow> Player \<Rightarrow> Player" where
  "destroy_begin p P =
     (let P1 = (if has_flag (iheap P p) ITEM_DYNFLAG_WRAPPED then pemit (GiftsDeleted p) P else P);
          P2 = RemoveItemDurations p (RemoveEnchantmentDurations p P1)
      in pemit (ItemRemovedQuestCheck (i_entry (iheap P2 p)) (i_count (iheap P2 p))) P2)"

definition destroy_unequip :: "'e Env_scheme \<Rightarrow> uint8 \<Rightarrow> iptr \<Rightarrow> Player \<Rightarrow> Player" where
  "destroy_unequip E slot p P =
     (let Q1 = (if unat slot < INVENTORY_SLOT_BAG_END then remove_mods E p slot P else P)
      in if unat slot < EQUIPMENT_SLOT_END
         then pemit (VisibleItemCleared slot) (pemit (ItemAurasRemoved p) Q1) else Q1)"

definition destroy_unlink :: "'e Env_scheme \<Rightarrow> uint8 \<Rightarrow> uint8 \<Rightarrow> iptr \<Rightarrow> Player \<Rightarrow> Player" where
  "destroy_unlink E bag slot p P =
     (if bag = INVENTORY_SLOT_BAG_0 then
        (let Q = destroy_unequip E slot p P in Q\<lparr>m_items := (m_items Q)(unat slot := None)\<rparr>)
      else case GetItemByPos P INVENTORY_SLOT_BAG_0 bag of
        None \<Rightarrow> P
      | Some pb \<Rightarrow> Bag_RemoveItem pb slot P)"

definition destroy_notify :: "'e Env_scheme \<Rightarrow> bool \<Rightarrow> iptr \<Rightarrow> Player \<Rightarrow> Player" where
  "destroy_notify E update p P =
     (let P5 = (if pl_inworld P \<and> update then pemit (DestroyForPlayer p) P else P);
          petitionId = GetEnchantmentId (iheap P5 p) 0
      in if IsCharter (iheap P5 p) \<and> e_petition E petitionId
         then pemit (PetitionDeleted petitionId) P5 else P5)"

definition destroy_one :: "'e Env_scheme \<Rightarrow> uint8 \<Rightarrow> uint8 \<Rightarrow> bool \<Rightarrow> iptr \<Rightarrow> Player \<Rightarrow> Player" where
  "destroy_one E bag slot update p P =
     SetState p ITEM_REMOVED
       (upd_item p (\<lambda>it. it\<lparr>i_slot := NULL_SLOT\<rparr>)
         (destroy_notify E update p (destroy_unlink E bag slot p (destroy_begin p P))))"

text \<open>\<open>DestroyItem\<close> calls itself on the slots of an equipped bag. The model bounds the depth of
  these calls by its first argument; in every well-formed inventory the inner calls find nothing
  and the depth does not matter (theory Inventory_Remove).\<close>

fun DestroyItem_upto :: "nat \<Rightarrow> 'e Env_scheme \<Rightarrow> uint8 \<Rightarrow> uint8 \<Rightarrow> bool \<Rightarrow> Player \<Rightarrow> Player" where
  "DestroyItem_upto 0 E bag slot update P = P"
| "DestroyItem_upto (Suc n) E bag slot update P =
     (case GetItemByPos P bag slot of
        None \<Rightarrow> P
      | Some p \<Rightarrow>
          let P1 = (if IsBag E (iheap P p) then
                      (if IsEquipped (iheap P p) then
                         fold (\<lambda>i Q. DestroyItem_upto n E slot (of_nat i) update Q) [0..<MAX_BAG_SIZE] P
                       else if \<not> IsEmptyBag (iheap P p)
                       then pemit (AnticheatReport ''Player::DestroyItem: destroying non equipped bag with items inside!'') P
                       else P)
                    else P)
          in destroy_one E bag slot update p P1)"

definition DestroyItem :: "'e Env_scheme \<Rightarrow> uint8 \<Rightarrow> uint8 \<Rightarrow> bool \<Rightarrow> Player \<Rightarrow> Player" where
  "DestroyItem E bag slot update P = DestroyItem_upto 3 E bag slot update P"

definition DestroyItemCount :: "'e Env_scheme \<Rightarrow> iptr \<Rightarrow> uint32 \<Rightarrow> bool \<Rightarrow> Player \<Rightarrow> uint32 \<times> Player" where
  "DestroyItemCount E p count update P =
     (if i_count (iheap P p) \<le> count then
        (count - i_count (iheap P p),
         DestroyItem E (GetBagSlot P p) (i_slot (iheap P p)) update P)
      else
        (0, SetState p ITEM_CHANGED
              (show_item update p
                (upd_item p (\<lambda>it. it\<lparr>i_count := i_count it - count\<rparr>)
                  (pemit (ItemRemovedQuestCheck (i_entry (iheap P p)) count) P)))))"

section \<open>Money\<close>

abbreviation MAX_MONEY_AMOUNT :: uint32 where "MAX_MONEY_AMOUNT \<equiv> 0x7FFFFFFE"

definition SetMoney :: "uint32 \<Rightarrow> Player \<Rightarrow> Player" where
  "SetMoney v P = pemit (MoneyChanged v) (P\<lparr>pl_money := v\<rparr>)"

definition ModifyMoney :: "'e Env_scheme \<Rightarrow> int32 \<Rightarrow> Player \<Rightarrow> Player" where
  "ModifyMoney E d P =
     (let amount = e_moneyhook E d
      in if sint amount < 0
         then SetMoney (if pl_money P > - amount then pl_money P + amount else 0) P
         else SetMoney (if pl_money P < MAX_MONEY_AMOUNT - amount then pl_money P + amount else MAX_MONEY_AMOUNT) P)"

end
