(* ===== verification/Bank_Model.thy ===== *)
theory Bank_Model
  imports Item_Store
begin

text \<open>
  The guild bank: its data and its helpers (src/game/GuildBank: GuildBank.h, GuildBank.cpp).

  A \<open>BankItem*\<close> is an address (\<open>bptr\<close>) into \<open>b_heap\<close>; \<open>b_items\<close> is the vector of item pointers,
  \<open>b_freed\<close> records deleted items. The item update queue holds copies, as in the code. \<open>b_log\<close> and
  \<open>b_moneyLog\<close> are maps from consecutive indices, so they are lists here.

  A handler works on a \<open>GState\<close>: the acting player, the bank, the database and what was sent so
  far. The database is modelled by its four tables and the effect of the SQL statements of the code
  on them, with the keys of sql/create_databases.sql; a statement takes effect where the code issues
  it (the asynchronous queue of the database layer and the atomicity of transactions are left out).
  The ranges of the columns of items, logs and money are part of the model; guild ids are taken to be
  below 2^31, as the tables for money and tabs need them.

  \<open>new BankItem\<close> leaves the members without an initialiser indeterminate: they come from
  \<open>be_junk\<close> of the environment.
\<close>

section \<open>Constants\<close>

abbreviation ACTION_WITHDRAW_ITEM :: uint8 where "ACTION_WITHDRAW_ITEM \<equiv> 0"
abbreviation ACTION_DEPOSIT_ITEM :: uint8 where "ACTION_DEPOSIT_ITEM \<equiv> 1"
abbreviation ACTION_UNLOCK_GUILD_BANK :: uint8 where "ACTION_UNLOCK_GUILD_BANK \<equiv> 2"
abbreviation ACTION_UNLOCK_TAB_PERSONAL_MONEY :: uint8 where "ACTION_UNLOCK_TAB_PERSONAL_MONEY \<equiv> 3"
abbreviation ACTION_WITHDRAW_MONEY :: uint8 where "ACTION_WITHDRAW_MONEY \<equiv> 4"
abbreviation ACTION_DEPOSIT_MONEY :: uint8 where "ACTION_DEPOSIT_MONEY \<equiv> 5"
abbreviation ACTION_UNLOCK_TAB_GUILD_MONEY :: uint8 where "ACTION_UNLOCK_TAB_GUILD_MONEY \<equiv> 6"
abbreviation ACTION_DESTROY_ITEM :: uint8 where "ACTION_DESTROY_ITEM \<equiv> 7"
abbreviation ACTION_SPLIT_ITEM :: uint8 where "ACTION_SPLIT_ITEM \<equiv> 8"
abbreviation ACTION_MOVE_ITEM :: uint8 where "ACTION_MOVE_ITEM \<equiv> 9"

abbreviation GOLD :: uint32 where "GOLD \<equiv> 10000"
abbreviation GUILD_BANK_COST :: uint32 where "GUILD_BANK_COST \<equiv> 20000000"
abbreviation TAB_2_COST :: uint32 where "TAB_2_COST \<equiv> 5000000"
abbreviation TAB_3_COST :: uint32 where "TAB_3_COST \<equiv> 10000000"
abbreviation TAB_4_COST :: uint32 where "TAB_4_COST \<equiv> 15000000"
abbreviation TAB_5_COST :: uint32 where "TAB_5_COST \<equiv> 20000000"
abbreviation TAB_MONEY :: uint32 where "TAB_MONEY \<equiv> 0"
abbreviation MAX_TABS :: nat where "MAX_TABS \<equiv> 5"
abbreviation MAX_WEEKLY_WITHDRAWALS :: nat where "MAX_WEEKLY_WITHDRAWALS \<equiv> 5"
abbreviation BANK_TAB_SIZE :: nat where "BANK_TAB_SIZE \<equiv> 98"
abbreviation LOG_LINES_LIMIT :: nat where "LOG_LINES_LIMIT \<equiv> 50"
abbreviation ADDON_MAX_PACKET_SIZE :: nat where "ADDON_MAX_PACKET_SIZE \<equiv> 2096"

definition DESTROY_ITEM_ALLOWED :: bool where "DESTROY_ITEM_ALLOWED = False"

section \<open>Data\<close>

record BankItem =
  bi_guildid :: uint32
  bi_guid :: uint32
  bi_Name :: string
  bi_tab :: uint32
  bi_slot :: uint32
  bi_item_template :: uint32
  bi_creatorGuid :: uint32
  bi_giftCreatorGuid :: uint32
  bi_count :: uint32
  bi_maxStackSize :: uint32
  bi_duration :: int32
  bi_charges :: string
  bi_flags :: uint8
  bi_enchantments :: string
  bi_enchant :: uint32
  bi_randomPropertyId :: int32
  bi_transmogrifyId :: uint32
  bi_durability :: uint8
  bi_text :: uint32
  bi_generated_loot :: uint8
  bi_is_inferno :: bool
  bi_quality :: uint32
  bi_state :: ItemUpdateState

record BankLog =
  bl_player :: uint32
  bl_action :: uint8
  bl_tab :: uint8
  bl_item :: uint32
  bl_enchant :: uint32
  bl_randomPropertyId :: uint32
  bl_count :: uint8
  bl_stamp :: uint32
  bl_playerName :: string
  bl_itemName :: string
  bl_itemQuality :: string
  bl_state :: ItemUpdateState

record MoneyLog =
  ml_player :: uint32
  ml_action :: uint8
  ml_money :: uint32
  ml_stamp :: uint32
  ml_playerName :: string
  ml_state :: ItemUpdateState

record BankTab =
  bt_name :: string
  bt_icon :: string
  bt_withdrawals :: uint8
  bt_minrank :: uint8

type_synonym bptr = nat

record Bank =
  b_tabs :: uint32
  b_items :: "bptr list"
  b_heap :: "bptr \<Rightarrow> BankItem"
  b_next :: bptr
  b_freed :: "bptr list"
  b_tabInfo :: "uint32 \<Rightarrow> BankTab"
  b_log :: "uint32 \<Rightarrow> BankLog list"
  b_moneyLog :: "MoneyLog list"
  b_itemUpdateQueue :: "BankItem list"
  b_saveLock :: bool
  b_tabs_changed :: bool
  b_money_changed :: bool
  b_moneyLog_changed :: bool
  b_log_changed :: bool
  b_infernoBank :: bool
  b_guildid :: uint32
  b_playerGuid :: uint32
  b_playerRankIndex :: uint32
  b_money :: uint32

text \<open>Value-initialised map entries.\<close>

definition zero_tab :: BankTab where
  "zero_tab = \<lparr>bt_name = [], bt_icon = [], bt_withdrawals = 0, bt_minrank = 0\<rparr>"

definition zero_log :: BankLog where
  "zero_log = \<lparr>bl_player = 0, bl_action = 0, bl_tab = 0, bl_item = 0, bl_enchant = 0, bl_randomPropertyId = 0,
     bl_count = 0, bl_stamp = 0, bl_playerName = [], bl_itemName = [], bl_itemQuality = [], bl_state = ITEM_UNCHANGED\<rparr>"

section \<open>The database\<close>

record ItemRow =
  ir_guildid :: uint32
  ir_guid :: uint32
  ir_isInferno :: bool
  ir_tab :: uint32
  ir_slot :: uint32
  ir_item_template :: uint32
  ir_creatorGuid :: uint32
  ir_giftCreatorGuid :: uint32
  ir_count :: uint32
  ir_duration :: int32
  ir_charges :: string
  ir_flags :: uint8
  ir_enchantments :: string
  ir_randomPropertyId :: int32
  ir_transmogrifyId :: uint32
  ir_durability :: uint8
  ir_text :: uint32
  ir_generated_loot :: uint8

record LogRow =
  lr_guildid :: uint32
  lr_isInferno :: bool
  lr_player :: uint32
  lr_action :: uint8
  lr_tab :: uint8
  lr_item :: uint32
  lr_randomPropertyId :: uint32
  lr_enchant :: uint32
  lr_count :: uint32
  lr_stamp :: uint32

record MoneyRow =
  mr_guildid :: uint32
  mr_isInferno :: bool
  mr_money :: uint32

record TabsRow =
  tr_guildid :: uint32
  tr_isInferno :: bool
  tr_tabs :: uint32
  tr_info :: "BankTab list"

record Db =
  db_items :: "ItemRow list"
  db_log :: "LogRow list"
  db_money :: "MoneyRow list"
  db_tabs :: "TabsRow list"

datatype sqlstmt =
    InsertItem ItemRow
  | UpdateItem ItemRow
  | DeleteItemRow uint32 uint32 bool
  | InsertLog LogRow
  | UpdateMoney uint32 uint32 bool
  | UpdateTabs uint32 "BankTab list" uint32 bool
  | InsertTabs uint32 bool uint32
  | InsertMoney uint32 bool uint32
  | DeleteAllItems uint32 bool
  | DeleteAllLog uint32 bool
  | DeleteAllMoney uint32 bool
  | DeleteAllTabs uint32 bool

text \<open>The columns of a bank item.\<close>

definition item_row :: "BankItem \<Rightarrow> ItemRow" where
  "item_row b = \<lparr>ir_guildid = bi_guildid b, ir_guid = bi_guid b, ir_isInferno = bi_is_inferno b, ir_tab = bi_tab b,
     ir_slot = bi_slot b, ir_item_template = bi_item_template b, ir_creatorGuid = bi_creatorGuid b,
     ir_giftCreatorGuid = bi_giftCreatorGuid b, ir_count = bi_count b, ir_duration = bi_duration b,
     ir_charges = bi_charges b, ir_flags = bi_flags b, ir_enchantments = bi_enchantments b,
     ir_randomPropertyId = bi_randomPropertyId b, ir_transmogrifyId = bi_transmogrifyId b,
     ir_durability = bi_durability b, ir_text = bi_text b, ir_generated_loot = bi_generated_loot b\<rparr>"

text \<open>What a new row of \<open>guild_bank_tabs\<close> gets from the column defaults.\<close>

definition default_tabs :: "BankTab list" where
  "default_tabs =
     map (\<lambda>(n, i). \<lparr>bt_name = n, bt_icon = i, bt_withdrawals = 0, bt_minrank = 0\<rparr>)
       [(''Tab1'', ''inv_misc_bag_08''), (''Tab2'', ''inv_misc_bag_05''), (''Tab3'', ''inv_misc_bag_03''),
        (''Tab4'', ''inv_misc_bag_06''), (''Tab5'', ''inv_misc_bag_02'')]"

text \<open>The ranges of the columns. The statements print every number as unsigned, so a negative duration, random
  property or loot flag becomes a large number. A statement with a value out of range fails and changes
  nothing: the strict mode that is the default of the database. The other columns hold every value of the fields of
  the bank (flags and durability have 8 bits there), and the names and icons of tabs are limited by \<open>UpdateTab\<close>.\<close>

definition int_fits :: "uint32 \<Rightarrow> bool" where
  "int_fits x \<longleftrightarrow> x < 0x80000000"

definition row_fits :: "ItemRow \<Rightarrow> bool" where
  "row_fits r \<longleftrightarrow> int_fits (ir_guid r) \<and> ir_slot r < 0x100 \<and> int_fits (ir_duration r) \<and>
     ir_randomPropertyId r < 0x8000 \<and> ir_generated_loot r < 0x80 \<and>
     int (length (ir_charges r)) < 0x100 \<and> int (length (ir_enchantments r)) < 0x10000"

definition log_fits :: "LogRow \<Rightarrow> bool" where
  "log_fits r \<longleftrightarrow> list_all int_fits [lr_guildid r, lr_player r, lr_item r, lr_randomPropertyId r, lr_enchant r, lr_count r]"

text \<open>An \<open>INSERT\<close> with a key that exists fails and changes nothing. The \<open>UPDATE\<close> of an item selects
  its rows by guild and guid only and writes the bank's \<open>isInferno\<close>; when it selects two rows they
  would get the same key, and it fails too.\<close>

definition same_item :: "ItemRow \<Rightarrow> ItemRow \<Rightarrow> bool" where
  "same_item r x \<longleftrightarrow> ir_guildid x = ir_guildid r \<and> ir_guid x = ir_guid r"

definition same_key :: "ItemRow \<Rightarrow> ItemRow \<Rightarrow> bool" where
  "same_key r x \<longleftrightarrow> same_item r x \<and> ir_isInferno x = ir_isInferno r"

fun exec_sql :: "sqlstmt \<Rightarrow> Db \<Rightarrow> Db" where
  "exec_sql (InsertItem r) db =
     (if \<not> row_fits r \<or> list_ex (same_key r) (db_items db) then db else db\<lparr>db_items := db_items db @ [r]\<rparr>)"
| "exec_sql (UpdateItem r) db =
     (if \<not> row_fits r \<or> length (filter (same_item r) (db_items db)) > 1 then db
      else db\<lparr>db_items := map (\<lambda>x. if same_item r x then r else x) (db_items db)\<rparr>)"
| "exec_sql (DeleteItemRow g guid isInf) db =
     db\<lparr>db_items := filter (\<lambda>x. \<not> (ir_guildid x = g \<and> ir_guid x = guid \<and> ir_isInferno x = isInf)) (db_items db)\<rparr>"
| "exec_sql (InsertLog r) db = (if log_fits r then db\<lparr>db_log := db_log db @ [r]\<rparr> else db)"
| "exec_sql (UpdateMoney m g isInf) db =
     (if int_fits m
      then db\<lparr>db_money := map (\<lambda>x. if mr_guildid x = g \<and> mr_isInferno x = isInf then x\<lparr>mr_money := m\<rparr> else x) (db_money db)\<rparr>
      else db)"
| "exec_sql (UpdateTabs n info g isInf) db =
     db\<lparr>db_tabs := map (\<lambda>x. if tr_guildid x = g \<and> tr_isInferno x = isInf then x\<lparr>tr_tabs := n, tr_info := info\<rparr> else x) (db_tabs db)\<rparr>"
| "exec_sql (InsertTabs g isInf n) db =
     db\<lparr>db_tabs := db_tabs db @ [\<lparr>tr_guildid = g, tr_isInferno = isInf, tr_tabs = n, tr_info = default_tabs\<rparr>]\<rparr>"
| "exec_sql (InsertMoney g isInf m) db =
     (if list_ex (\<lambda>x. mr_guildid x = g \<and> mr_isInferno x = isInf) (db_money db) then db
      else db\<lparr>db_money := db_money db @ [\<lparr>mr_guildid = g, mr_isInferno = isInf, mr_money = m\<rparr>]\<rparr>)"
| "exec_sql (DeleteAllItems g isInf) db =
     db\<lparr>db_items := filter (\<lambda>x. \<not> (ir_guildid x = g \<and> ir_isInferno x = isInf)) (db_items db)\<rparr>"
| "exec_sql (DeleteAllLog g isInf) db =
     db\<lparr>db_log := filter (\<lambda>x. \<not> (lr_guildid x = g \<and> lr_isInferno x = isInf)) (db_log db)\<rparr>"
| "exec_sql (DeleteAllMoney g isInf) db =
     db\<lparr>db_money := filter (\<lambda>x. \<not> (mr_guildid x = g \<and> mr_isInferno x = isInf)) (db_money db)\<rparr>"
| "exec_sql (DeleteAllTabs g isInf) db =
     db\<lparr>db_tabs := filter (\<lambda>x. \<not> (tr_guildid x = g \<and> tr_isInferno x = isInf)) (db_tabs db)\<rparr>"

section \<open>The environment and the state of a handler\<close>

record tm =
  tm_wday :: int
  tm_hour :: int
  tm_min :: int
  tm_sec :: int

text \<open>What the bank asks about the creature the player has selected.\<close>

record Creature =
  cr_entry :: uint32
  cr_npcflags :: uint32
  cr_gossipMenu :: uint32

record BankEnv = Env +
  be_now :: int
  be_localtime :: "int \<Rightarrow> tm"
  be_ranksSize :: uint32
  be_playerName :: "uint32 \<Rightarrow> string option"
  be_selected :: "Creature option"
  be_menuItems :: "uint32 \<Rightarrow> (uint32 \<times> uint32) list"
  be_near :: "uint32 \<Rightarrow> bool"
  be_horde :: bool
  be_npcAlliance :: string
  be_npcHorde :: string
  be_junk :: BankItem

datatype gevent =
    SendAddonMessage string
  | SendNotification string
  | SendBuyError
  | SendEquipError InventoryResult uint32
  | SendNewItem iptr uint32
  | BroadcastToGuild string

record GState =
  gs_pl :: Player
  gs_bk :: Bank
  gs_db :: Db
  gs_out :: "gevent list"

definition emit :: "gevent \<Rightarrow> GState \<Rightarrow> GState" where
  "emit e s = s\<lparr>gs_out := gs_out s @ [e]\<rparr>"

definition send :: "string \<Rightarrow> GState \<Rightarrow> GState" where
  "send m = emit (SendAddonMessage m)"

definition notify :: "string \<Rightarrow> GState \<Rightarrow> GState" where
  "notify m = emit (SendNotification m)"

definition bank :: "(Bank \<Rightarrow> Bank) \<Rightarrow> GState \<Rightarrow> GState" where
  "bank f s = s\<lparr>gs_bk := f (gs_bk s)\<rparr>"

definition player :: "(Player \<Rightarrow> Player) \<Rightarrow> GState \<Rightarrow> GState" where
  "player f s = s\<lparr>gs_pl := f (gs_pl s)\<rparr>"

definition sql :: "sqlstmt \<Rightarrow> GState \<Rightarrow> GState" where
  "sql st s = s\<lparr>gs_db := exec_sql st (gs_db s)\<rparr>"

definition bprefix :: string where "bprefix = ''TW_GUILDBANK''"

definition SendGuildMessage :: "string \<Rightarrow> GState \<Rightarrow> GState" where
  "SendGuildMessage message = emit (BroadcastToGuild (bprefix @ [CHR 0x09] @ message))"

end
