(* ===== verification/Bank_Items.thy ===== *)
theory Bank_Items
  imports Bank_Model
begin

text \<open>
  The item handlers of the bank (GuildBank.cpp, last part): lookup by tab and slot, new guids,
  adding and deleting items, and the two conversions between a player's item and a bank item.
  A bank item keeps charges and enchantments as text; what \<open>CloneItem_to_bank\<close> writes
  \<open>CloneItem_to_player\<close> reads back (theory Bank_Clone).
\<close>

section \<open>Items in memory\<close>

definition new_BankItem :: "'e BankEnv_scheme \<Rightarrow> BankItem" where
  "new_BankItem E = (be_junk E)\<lparr>bi_Name := [], bi_charges := [], bi_enchantments := [], bi_is_inferno := False\<rparr>"

definition balloc :: "BankItem \<Rightarrow> Bank \<Rightarrow> bptr \<times> Bank" where
  "balloc it B = (b_next B, B\<lparr>b_next := Suc (b_next B), b_heap := (b_heap B)(b_next B := it)\<rparr>)"

definition upd_bi :: "bptr \<Rightarrow> (BankItem \<Rightarrow> BankItem) \<Rightarrow> Bank \<Rightarrow> Bank" where
  "upd_bi q f B = B\<lparr>b_heap := (b_heap B)(q := f (b_heap B q))\<rparr>"

definition GetItem :: "Bank \<Rightarrow> uint32 \<Rightarrow> uint32 \<Rightarrow> bptr option" where
  "GetItem B tab slot = find (\<lambda>q. bi_tab (b_heap B q) = tab \<and> bi_slot (b_heap B q) = slot) (b_items B)"

definition GetNewGuid :: "Bank \<Rightarrow> uint32" where
  "GetNewGuid B = foldl (\<lambda>g q. if bi_guid (b_heap B q) > g then bi_guid (b_heap B q) else g) 0 (b_items B) + 1"

definition AddItem :: "bptr \<Rightarrow> Bank \<Rightarrow> Bank" where
  "AddItem q B = B\<lparr>b_items := b_items B @ [q]\<rparr>"

definition DeleteItem :: "bptr \<Rightarrow> Bank \<Rightarrow> Bank" where
  "DeleteItem q B =
     (if q \<in> set (b_items B) then B\<lparr>b_items := remove1 q (b_items B), b_freed := q # b_freed B\<rparr> else B)"

text \<open>\<open>b_itemUpdateQueue.push_back(*item)\<close>: the queue keeps a copy.\<close>

definition enqueue :: "bptr \<Rightarrow> Bank \<Rightarrow> Bank" where
  "enqueue q B = B\<lparr>b_itemUpdateQueue := b_itemUpdateQueue B @ [b_heap B q]\<rparr>"

definition CloneBankItem :: "'e BankEnv_scheme \<Rightarrow> bptr \<Rightarrow> Bank \<Rightarrow> bptr \<times> Bank" where
  "CloneBankItem E q B =
     (let sItem = b_heap B q
      in balloc ((new_BankItem E)\<lparr>bi_guildid := b_guildid B, bi_guid := GetNewGuid B, bi_tab := bi_tab sItem,
           bi_slot := bi_slot sItem, bi_item_template := bi_item_template sItem, bi_creatorGuid := bi_creatorGuid sItem,
           bi_giftCreatorGuid := bi_giftCreatorGuid sItem, bi_count := bi_count sItem, bi_maxStackSize := bi_maxStackSize sItem,
           bi_duration := bi_duration sItem, bi_charges := bi_charges sItem, bi_flags := bi_flags sItem,
           bi_enchantments := bi_enchantments sItem, bi_randomPropertyId := bi_randomPropertyId sItem,
           bi_enchant := bi_enchant sItem, bi_transmogrifyId := bi_transmogrifyId sItem, bi_durability := bi_durability sItem,
           bi_text := bi_text sItem, bi_generated_loot := bi_generated_loot sItem, bi_is_inferno := bi_is_inferno sItem\<rparr>) B)"

section \<open>Conversions\<close>

definition nameSuffix :: "'e Env_scheme \<Rightarrow> uint32 \<Rightarrow> string" where
  "nameSuffix E rid = (case e_randprops E rid of None \<Rightarrow> e_nullsuffix E | Some rp \<Rightarrow> rp_suffix rp)"

text \<open>The text of the charges and of the enchantments: every number followed by a blank.\<close>

definition charges_text :: "Item \<Rightarrow> string" where
  "charges_text it = join_term CHR '' '' (map (\<lambda>i. to_string_int (i_charges it ! i)) [0..<MAX_ITEM_PROTO_SPELLS])"

definition enchants_text :: "Item \<Rightarrow> string" where
  "enchants_text it =
     join_term CHR '' ''
       (concat (map (\<lambda>i. [to_string (GetEnchantmentId it i), to_string (GetEnchantmentDuration it i),
                          to_string (GetEnchantmentCharges it i)]) [0..<MAX_ENCHANTMENT_SLOT]))"

definition CloneItem_to_bank :: "'e Env_scheme \<Rightarrow> bool \<Rightarrow> Item \<Rightarrow> BankItem \<Rightarrow> BankItem" where
  "CloneItem_to_bank E inferno it b =
     (let pr = the_proto E it; rid = i_randprop it
      in b\<lparr>bi_Name := (if sint rid > 0 then pr_Name1 pr @ '' '' @ nameSuffix E rid else pr_Name1 pr),
           bi_item_template := pr_ItemId pr, bi_creatorGuid := i_creator it, bi_giftCreatorGuid := i_giftcreator it,
           bi_maxStackSize := GetMaxStackSize pr, bi_duration := i_duration it, bi_is_inferno := inferno,
           bi_charges := charges_text it, bi_flags := ucast (i_flags it), bi_enchantments := enchants_text it,
           bi_enchant := GetEnchantmentId it 0, bi_randomPropertyId := rid, bi_transmogrifyId := i_transmog it,
           bi_durability := ucast (i_durability it), bi_text := i_text it,
           bi_generated_loot := (if i_genloot it then 1 else 0), bi_quality := pr_Quality pr\<rparr>)"

text \<open>Reading token \<open>k\<close>; the code indexes without a bound, where there is no such token the model
  reads an empty one.\<close>

definition token :: "string list \<Rightarrow> nat \<Rightarrow> string" where
  "token ts k = (if k < length ts then ts ! k else [])"

definition CloneItem_to_player :: "uint32 \<Rightarrow> BankItem \<Rightarrow> Item \<Rightarrow> Item" where
  "CloneItem_to_player playerGuid b it =
     (let chr = Tokenizer (bi_charges b) CHR '' ''; ench = Tokenizer (bi_enchantments b) CHR '' ''
      in it\<lparr>i_owner := playerGuid, i_creator := bi_creatorGuid b, i_giftcreator := bi_giftCreatorGuid b,
            i_duration := bi_duration b,
            i_charges := (if length chr = MAX_ITEM_PROTO_SPELLS then map atoi chr else i_charges it),
            i_flags := ucast (bi_flags b),
            i_enchant := map (\<lambda>k. of_nat (fst (strtoul (token ench k)))) [0..<MAX_ENCHANTMENT_SLOT * MAX_ENCHANTMENT_OFFSET],
            i_randprop := bi_randomPropertyId b, i_transmog := bi_transmogrifyId b,
            i_durability := ucast (bi_durability b), i_text := bi_text b,
            i_genloot := (bi_generated_loot b = 1)\<rparr>)"

section \<open>Rows and bank items\<close>

text \<open>\<open>BankItem::LoadFromDB\<close>: the fields are read at the width of the accessor the code calls.\<close>

definition LoadFromDB :: "ItemRow \<Rightarrow> BankItem \<Rightarrow> BankItem" where
  "LoadFromDB r b =
     (let params = Tokenizer (ir_enchantments r) CHR '' ''
      in b\<lparr>bi_guildid := ir_guildid r, bi_guid := ir_guid r, bi_is_inferno := ir_isInferno r,
           bi_tab := ucast (ucast (ir_tab r) :: uint8), bi_slot := ucast (ucast (ir_slot r) :: uint8),
           bi_item_template := ir_item_template r, bi_creatorGuid := ir_creatorGuid r,
           bi_giftCreatorGuid := ir_giftCreatorGuid r, bi_count := ir_count r, bi_duration := ir_duration r,
           bi_charges := ir_charges r, bi_flags := ir_flags r, bi_enchantments := ir_enchantments r,
           bi_enchant := (if length params = MAX_ENCHANTMENT_SLOT * MAX_ENCHANTMENT_OFFSET then atoi (params ! 0) else 0),
           bi_randomPropertyId := scast (ucast (ir_randomPropertyId r) :: uint16), bi_transmogrifyId := ir_transmogrifyId r,
           bi_durability := ir_durability r, bi_text := ir_text r, bi_generated_loot := ir_generated_loot r\<rparr>)"

text \<open>\<open>AddToDB\<close>, \<open>SaveToDB\<close> and \<open>DeleteFromDB\<close> of a bank item.\<close>

definition BankItem_AddToDB :: "BankItem \<Rightarrow> sqlstmt" where
  "BankItem_AddToDB b = InsertItem (item_row b)"

definition BankItem_SaveToDB :: "BankItem \<Rightarrow> sqlstmt" where
  "BankItem_SaveToDB b = UpdateItem (item_row b)"

definition BankItem_DeleteFromDB :: "BankItem \<Rightarrow> sqlstmt" where
  "BankItem_DeleteFromDB b = DeleteItemRow (bi_guildid b) (bi_guid b) (bi_is_inferno b)"

end
