(* ===== verification/Bank_Log.thy ===== *)
theory Bank_Log
  imports Bank_Items
begin

unbundle bit_operations_syntax

text \<open>
  The bank's log, its persistence and its loading (GuildBank.cpp: \<open>LogAction\<close>, \<open>AppendLog\<close>,
  \<open>LoadLog\<close>, \<open>SaveToDB\<close>, \<open>DeleteFromDB\<close>, \<open>LoadBank\<close>, \<open>SetGuild\<close>, \<open>SetPlayer\<close>,
  \<open>UpdateMinranks\<close>).
\<close>

section \<open>Logging\<close>

definition stamp_now :: "'e BankEnv_scheme \<Rightarrow> uint32" where
  "stamp_now E = word_of_int (be_now E)"

definition log_money_entry :: "'e BankEnv_scheme \<Rightarrow> uint8 \<Rightarrow> uint32 \<Rightarrow> GState \<Rightarrow> MoneyLog" where
  "log_money_entry E action count s =
     \<lparr>ml_player = b_playerGuid (gs_bk s), ml_action = action, ml_money = count, ml_stamp = stamp_now E,
      ml_playerName = pl_name (gs_pl s), ml_state = ITEM_NEW\<rparr>"

definition log_item_entry :: "'e BankEnv_scheme \<Rightarrow> uint8 \<Rightarrow> uint32 \<Rightarrow> uint32 \<Rightarrow> uint32 \<Rightarrow> BankItem option \<Rightarrow> GState \<Rightarrow> BankLog" where
  "log_item_entry E action tab itemID count bItem s =
     (let named = (action = ACTION_WITHDRAW_ITEM \<or> action = ACTION_DEPOSIT_ITEM \<or> action = ACTION_DESTROY_ITEM)
      in \<lparr>bl_player = b_playerGuid (gs_bk s), bl_action = action, bl_tab = ucast tab, bl_item = itemID,
          bl_enchant = (case bItem of None \<Rightarrow> 0 | Some b \<Rightarrow> bi_enchant b),
          bl_randomPropertyId = (case bItem of None \<Rightarrow> 0 | Some b \<Rightarrow> bi_randomPropertyId b),
          bl_count = ucast count, bl_stamp = stamp_now E, bl_playerName = pl_name (gs_pl s),
          bl_itemName = (case bItem of None \<Rightarrow> ''Unknown'' | Some b \<Rightarrow> if named then bi_Name b else ''Unknown''),
          bl_itemQuality = (case bItem of None \<Rightarrow> ''1'' | Some b \<Rightarrow> if named then to_string (bi_quality b) else ''1''),
          bl_state = ITEM_NEW\<rparr>)"

definition LogAction :: "'e BankEnv_scheme \<Rightarrow> uint8 \<Rightarrow> uint32 \<Rightarrow> uint32 \<Rightarrow> uint32 \<Rightarrow> BankItem option \<Rightarrow> GState \<Rightarrow> GState" where
  "LogAction E action tab itemID count bItem s =
     (if unat tab > MAX_TABS then s
      else if tab = TAB_MONEY then
        (let index = length (b_moneyLog (gs_bk s)); e = log_money_entry E action count s;
             s1 = bank (\<lambda>B. B\<lparr>b_moneyLog := b_moneyLog B @ [e]\<rparr>) s;
             s2 = SendGuildMessage (''GMoneyLog:0:'' @ to_string (ml_stamp e) @ '';'' @ ml_playerName e @ '';'' @
                    to_string (ml_action e) @ '';'' @ to_string (ml_money e) @ '';'' @ show_nat index) s1
         in bank (\<lambda>B. B\<lparr>b_moneyLog_changed := True\<rparr>) s2)
      else
        (let e = log_item_entry E action tab itemID count bItem s;
             s1 = bank (\<lambda>B. B\<lparr>b_log := (b_log B)(tab := b_log B tab @ [e])\<rparr>) s;
             s2 = SendGuildMessage (''GTabLog:'' @ to_string tab @ '':'' @ to_string (bl_stamp e) @ '';'' @ bl_playerName e @
                    '';'' @ to_string action @ '';'' @ to_string itemID @ '';'' @ bl_itemName e @ '';'' @ bl_itemQuality e @
                    '';'' @ to_string count @ '';'' @ to_string (bl_randomPropertyId e) @ '';'' @ to_string (bl_enchant e)) s1
         in bank (\<lambda>B. B\<lparr>b_log_changed := True\<rparr>) s2))"

text \<open>Writing the entry of an index of a log: the loader counts the indices up from zero, so it
  overwrites an entry or adds the next one.\<close>

definition log_put :: "nat \<Rightarrow> 'a \<Rightarrow> 'a list \<Rightarrow> 'a list" where
  "log_put i x xs = (if i < length xs then xs[i := x] else xs @ [x])"

definition AppendLog :: "'e BankEnv_scheme \<Rightarrow> nat \<Rightarrow> uint32 \<Rightarrow> LogRow \<Rightarrow> ItemUpdateState \<Rightarrow> Bank \<Rightarrow> Bank" where
  "AppendLog E index tab r st B =
     (let playerName = (case be_playerName E (lr_player r) of None \<Rightarrow> ''Unknown'' | Some n \<Rightarrow> n)
      in if tab = TAB_MONEY then
           B\<lparr>b_moneyLog := log_put index \<lparr>ml_player = lr_player r, ml_action = lr_action r, ml_money = lr_count r,
               ml_stamp = lr_stamp r, ml_playerName = playerName, ml_state = st\<rparr> (b_moneyLog B)\<rparr>
         else
           (let old = (if index < length (b_log B tab) then b_log B tab ! index else zero_log);
                (itemName, itemQuality) =
                  (case e_protos E (lr_item r) of
                     None \<Rightarrow> (''Unknown'', ''1'')
                   | Some pr \<Rightarrow> (if lr_randomPropertyId r > 0 then pr_Name1 pr @ '' '' @ nameSuffix E (lr_randomPropertyId r)
                                else pr_Name1 pr, to_string (pr_Quality pr)));
                e = old\<lparr>bl_player := lr_player r, bl_action := lr_action r, bl_tab := ucast tab, bl_item := lr_item r,
                      bl_count := ucast (lr_count r), bl_randomPropertyId := lr_randomPropertyId r, bl_stamp := lr_stamp r,
                      bl_playerName := playerName, bl_itemName := itemName, bl_itemQuality := itemQuality, bl_state := st\<rparr>
            in B\<lparr>b_log := (b_log B)(tab := log_put index e (b_log B tab))\<rparr>))"

text \<open>The loop of \<open>LoadLog\<close>, with the next index of every tab.\<close>

fun load_log_rows :: "'e BankEnv_scheme \<Rightarrow> (uint8 \<Rightarrow> nat) \<Rightarrow> LogRow list \<Rightarrow> Bank \<Rightarrow> Bank" where
  "load_log_rows E index [] B = B"
| "load_log_rows E index (r # rs) B =
     load_log_rows E (index(lr_tab r := Suc (index (lr_tab r)))) rs
       (AppendLog E (index (lr_tab r)) (ucast (lr_tab r)) r ITEM_UNCHANGED B)"

definition query_log :: "'e BankEnv_scheme \<Rightarrow> uint32 \<Rightarrow> bool \<Rightarrow> Db \<Rightarrow> LogRow list" where
  "query_log E g inferno db =
     sort_key lr_stamp
       (filter (\<lambda>r. lr_guildid r = g \<and> lr_isInferno r = inferno \<and> lr_stamp r \<ge> word_of_int (be_now E - 604800)) (db_log db))"

definition LoadLog :: "'e BankEnv_scheme \<Rightarrow> GState \<Rightarrow> GState" where
  "LoadLog E s =
     (let B = gs_bk s; rows = query_log E (b_guildid B) (b_infernoBank B) (gs_db s)
      in if rows = [] then s
         else bank (\<lambda>B. (load_log_rows E (\<lambda>_. 0) rows B)\<lparr>b_moneyLog_changed := False, b_log_changed := False\<rparr>) s)"

section \<open>Saving\<close>

definition save_money :: "GState \<Rightarrow> GState" where
  "save_money s =
     (if b_money_changed (gs_bk s) then
        bank (\<lambda>B. B\<lparr>b_money_changed := False\<rparr>)
          (sql (UpdateMoney (b_money (gs_bk s)) (b_guildid (gs_bk s)) (b_infernoBank (gs_bk s))) s)
      else s)"

definition save_tabs :: "GState \<Rightarrow> GState" where
  "save_tabs s =
     (if b_tabs_changed (gs_bk s) then
        bank (\<lambda>B. B\<lparr>b_tabs_changed := False\<rparr>)
          (sql (UpdateTabs (b_tabs (gs_bk s)) (map (b_tabInfo (gs_bk s)) [1, 2, 3, 4, 5])
             (b_guildid (gs_bk s)) (b_infernoBank (gs_bk s))) s)
      else s)"

definition money_log_row :: "Bank \<Rightarrow> MoneyLog \<Rightarrow> LogRow" where
  "money_log_row B l = \<lparr>lr_guildid = b_guildid B, lr_isInferno = b_infernoBank B, lr_player = ml_player l,
     lr_action = ml_action l, lr_tab = 0, lr_item = 0, lr_randomPropertyId = 0, lr_enchant = 0,
     lr_count = ml_money l, lr_stamp = ml_stamp l\<rparr>"

definition item_log_row :: "Bank \<Rightarrow> BankLog \<Rightarrow> LogRow" where
  "item_log_row B l = \<lparr>lr_guildid = b_guildid B, lr_isInferno = b_infernoBank B, lr_player = bl_player l,
     lr_action = bl_action l, lr_tab = bl_tab l, lr_item = bl_item l, lr_randomPropertyId = bl_randomPropertyId l,
     lr_enchant = bl_enchant l, lr_count = ucast (bl_count l), lr_stamp = bl_stamp l\<rparr>"

definition settle_money_log :: "MoneyLog \<Rightarrow> MoneyLog" where
  "settle_money_log l = (if ml_state l = ITEM_NEW then l\<lparr>ml_state := ITEM_UNCHANGED\<rparr> else l)"

definition settle_log :: "BankLog \<Rightarrow> BankLog" where
  "settle_log l = (if bl_state l = ITEM_NEW then l\<lparr>bl_state := ITEM_UNCHANGED\<rparr> else l)"

definition save_money_log :: "GState \<Rightarrow> GState" where
  "save_money_log s =
     (if b_moneyLog_changed (gs_bk s) then
        bank (\<lambda>B. B\<lparr>b_moneyLog := map settle_money_log (b_moneyLog B), b_moneyLog_changed := False\<rparr>)
          (fold (\<lambda>l. if ml_state l = ITEM_NEW then sql (InsertLog (money_log_row (gs_bk s) l)) else id)
             (b_moneyLog (gs_bk s)) s)
      else s)"

definition save_log :: "GState \<Rightarrow> GState" where
  "save_log s =
     (if b_log_changed (gs_bk s) then
        bank (\<lambda>B. B\<lparr>b_log := (\<lambda>t. if 1 \<le> unat t \<and> unat t \<le> MAX_TABS then map settle_log (b_log B t) else b_log B t),
                    b_log_changed := False\<rparr>)
          (fold (\<lambda>l. if bl_state l = ITEM_NEW then sql (InsertLog (item_log_row (gs_bk s) l)) else id)
             (concat (map (b_log (gs_bk s)) [1, 2, 3, 4, 5])) s)
      else s)"

definition save_item :: "BankItem \<Rightarrow> GState \<Rightarrow> GState" where
  "save_item b =
     (case bi_state b of
        ITEM_NEW \<Rightarrow> sql (BankItem_AddToDB b)
      | ITEM_CHANGED \<Rightarrow> sql (BankItem_SaveToDB b)
      | ITEM_REMOVED \<Rightarrow> sql (BankItem_DeleteFromDB b)
      | _ \<Rightarrow> id)"

definition settle_items :: "Bank \<Rightarrow> Bank" where
  "settle_items B = B\<lparr>b_heap := (\<lambda>q. if q \<in> set (b_items B) then (b_heap B q)\<lparr>bi_state := ITEM_UNCHANGED\<rparr> else b_heap B q),
     b_itemUpdateQueue := []\<rparr>"

definition save_items :: "GState \<Rightarrow> GState" where
  "save_items s =
     (if b_itemUpdateQueue (gs_bk s) \<noteq> [] then
        bank settle_items (fold save_item (b_itemUpdateQueue (gs_bk s)) s)
      else s)"

definition nothing_to_save :: "Bank \<Rightarrow> bool" where
  "nothing_to_save B \<longleftrightarrow> \<not> b_moneyLog_changed B \<and> \<not> b_tabs_changed B \<and> \<not> b_money_changed B \<and> \<not> b_log_changed B \<and>
     b_itemUpdateQueue B = []"

definition SaveToDB :: "GState \<Rightarrow> GState" where
  "SaveToDB s =
     (if b_saveLock (gs_bk s) then s
      else if nothing_to_save (gs_bk s) then s
      else bank (\<lambda>B. B\<lparr>b_saveLock := False\<rparr>)
             (save_items (save_log (save_money_log (save_tabs (save_money
               (bank (\<lambda>B. B\<lparr>b_saveLock := True\<rparr>) s)))))))"

definition DeleteFromDB :: "GState \<Rightarrow> GState" where
  "DeleteFromDB s =
     (let g = b_guildid (gs_bk s); i = b_infernoBank (gs_bk s)
      in sql (DeleteAllTabs g i) (sql (DeleteAllMoney g i) (sql (DeleteAllLog g i) (sql (DeleteAllItems g i)
           (bank (\<lambda>B. B\<lparr>b_saveLock := True\<rparr>) s)))))"

section \<open>Loading\<close>

text \<open>The join of the tab and money tables for this bank.\<close>

definition query_tabs :: "uint32 \<Rightarrow> bool \<Rightarrow> Db \<Rightarrow> (uint32 \<times> uint32 \<times> BankTab list) list" where
  "query_tabs g inferno db =
     concat (map (\<lambda>t. map (\<lambda>m. (tr_tabs t, mr_money m, tr_info t))
         (filter (\<lambda>m. mr_guildid m = tr_guildid t \<and> mr_isInferno m = tr_isInferno t) (db_money db)))
       (filter (\<lambda>t. tr_guildid t = g \<and> tr_isInferno t = inferno) (db_tabs db)))"

definition load_tabs_row :: "uint32 \<times> uint32 \<times> BankTab list \<Rightarrow> Bank \<Rightarrow> Bank" where
  "load_tabs_row r B =
     (case r of (n, m, info) \<Rightarrow>
        B\<lparr>b_tabs := n, b_money := m,
          b_tabInfo := (\<lambda>t. if 1 \<le> unat t \<and> unat t \<le> MAX_TABS then info ! (unat t - 1) else b_tabInfo B t)\<rparr>)"

definition load_item :: "'e BankEnv_scheme \<Rightarrow> ItemRow \<Rightarrow> Bank \<Rightarrow> Bank" where
  "load_item E r B =
     (let b = LoadFromDB r (new_BankItem E);
          b1 = (case e_protos E (bi_item_template b) of
                  None \<Rightarrow> b
                | Some pr \<Rightarrow>
                    b\<lparr>bi_Name := (if sint (bi_randomPropertyId b) > 0
                                  then pr_Name1 pr @ '' '' @ nameSuffix E (bi_randomPropertyId b) else pr_Name1 pr),
                      bi_quality := pr_Quality pr, bi_maxStackSize := GetMaxStackSize pr\<rparr>)
      in case balloc (b1\<lparr>bi_state := ITEM_UNCHANGED\<rparr>) B of (q, B1) \<Rightarrow> AddItem q B1)"

definition query_items :: "uint32 \<Rightarrow> bool \<Rightarrow> Db \<Rightarrow> ItemRow list" where
  "query_items g inferno db = filter (\<lambda>r. ir_guildid r = g \<and> ir_isInferno r = inferno) (db_items db)"

definition LoadBank :: "'e BankEnv_scheme \<Rightarrow> GState \<Rightarrow> GState" where
  "LoadBank E s =
     (let g = b_guildid (gs_bk s); i = b_infernoBank (gs_bk s); rows = query_tabs g i (gs_db s)
      in if rows = [] then s
         else bank (\<lambda>B.
           let B1 = fold load_tabs_row rows (B\<lparr>b_tabs := 0\<rparr>);
               B2 = B1\<lparr>b_tabInfo := (b_tabInfo B1)(TAB_MONEY := (b_tabInfo B1 TAB_MONEY)\<lparr>bt_minrank := 1\<rparr>)\<rparr>
           in fold (load_item E) (query_items g i (gs_db s)) B2) s)"

definition SetGuild :: "'e BankEnv_scheme \<Rightarrow> uint32 \<Rightarrow> GState \<Rightarrow> GState" where
  "SetGuild E g s =
     bank (\<lambda>B. B\<lparr>b_tabs_changed := False, b_money_changed := False, b_moneyLog_changed := False, b_log_changed := False,
                 b_itemUpdateQueue := []\<rparr>)
       (LoadLog E (LoadBank E (bank (\<lambda>B. B\<lparr>b_guildid := g, b_tabs := 0\<rparr>) s)))"

definition SetPlayer :: "GState \<Rightarrow> GState" where
  "SetPlayer s = bank (\<lambda>B. B\<lparr>b_playerGuid := pl_guid (gs_pl s), b_playerRankIndex := pl_rank (gs_pl s)\<rparr>) s"

definition tab_message :: "uint32 \<Rightarrow> BankTab \<Rightarrow> string" where
  "tab_message tab t = ''GUpdateTab:'' @ to_string tab @ '':'' @ bt_name t @ '':'' @ bt_icon t @ '':'' @
     to_string (bt_withdrawals t) @ '':'' @ to_string (bt_minrank t)"

definition UpdateMinranks :: "uint32 \<Rightarrow> GState \<Rightarrow> GState" where
  "UpdateMinranks rank s =
     fold (\<lambda>tab s.
        if ucast (bt_minrank (b_tabInfo (gs_bk s) tab)) = rank then
          (let t = (b_tabInfo (gs_bk s) tab)\<lparr>bt_minrank := bt_minrank (b_tabInfo (gs_bk s) tab) - 1\<rparr>
           in SendGuildMessage (tab_message tab t)
                (bank (\<lambda>B. B\<lparr>b_tabInfo := (b_tabInfo B)(tab := t), b_tabs_changed := True\<rparr>) s))
        else s) [1, 2, 3, 4, 5] s"

end
