(* ===== verification/Bank_Money.thy ===== *)
theory Bank_Money
  imports Bank_Log
begin

unbundle bit_operations_syntax

text \<open>
  Access rights, weekly withdrawals, money and tab management of the guild bank (GuildBank.cpp:
  \<open>CanAccessTab\<close>, \<open>GetTabWithdrawalsLeft\<close>, \<open>SendTabWithdrawalsLeft\<close>, \<open>SendBankMoney\<close>,
  \<open>SendBankInfo\<close>, \<open>DepositMoney\<close>, \<open>WithdrawMoney\<close>, \<open>UnlockGuildBank\<close>, \<open>UnlockTab\<close>,
  \<open>UnlockTabCost\<close>, \<open>UpdateTab\<close>).
\<close>

section \<open>Access\<close>

text \<open>Monday 0:00 of the current week.\<close>

definition week_start :: "'e BankEnv_scheme \<Rightarrow> int" where
  "week_start E =
     (let t = be_localtime E (be_now E); wday = tm_wday t - 1; wday = (if wday = -1 then 6 else wday)
      in be_now E - wday * 86400 - (tm_sec t + 60 * tm_min t + 60 * 60 * tm_hour t))"

definition week_withdrawals :: "'e BankEnv_scheme \<Rightarrow> Bank \<Rightarrow> uint8 \<Rightarrow> BankLog list" where
  "week_withdrawals E B tab =
     filter (\<lambda>l. bl_action l = ACTION_WITHDRAW_ITEM \<and> bl_player l = b_playerGuid B \<and> bl_tab l = tab \<and>
                 uint (bl_stamp l) \<ge> week_start E) (b_log B (ucast tab))"

definition GetTabWithdrawalsLeft :: "'e BankEnv_scheme \<Rightarrow> uint8 \<Rightarrow> GState \<Rightarrow> uint8 \<times> GState" where
  "GetTabWithdrawalsLeft E tab s =
     (if tab = 0 \<or> unat tab > MAX_TABS then (0, send ''GetTabWithdrawalsLeft:Error:ParamsOutOfRange'' s)
      else
        let weekWithdrawals = of_nat (length (week_withdrawals E (gs_bk s) tab)) :: uint8;
            limit = bt_withdrawals (b_tabInfo (gs_bk s) (ucast tab))
        in (if weekWithdrawals \<ge> limit then 0 else limit - weekWithdrawals, s))"

definition CanAccessTab :: "'e BankEnv_scheme \<Rightarrow> uint8 \<Rightarrow> uint8 \<Rightarrow> GState \<Rightarrow> bool \<times> GState" where
  "CanAccessTab E tab action s =
     (let rank = b_playerRankIndex (gs_bk s); t = b_tabInfo (gs_bk s) (ucast tab)
      in if action = ACTION_WITHDRAW_MONEY then (rank \<le> 1, s)
         else if (action = ACTION_SPLIT_ITEM \<or> action = ACTION_DESTROY_ITEM) \<and> rank > ucast (bt_minrank t) then (False, s)
         else if (action = ACTION_WITHDRAW_ITEM \<or> action = ACTION_DEPOSIT_ITEM) \<and> bt_withdrawals t > 0 \<and> rank = ucast (bt_minrank t) then
           (case GetTabWithdrawalsLeft E tab s of (left, s1) \<Rightarrow> (left \<noteq> 0 \<and> \<not> rank > ucast (bt_minrank t), s1))
         else (\<not> rank > ucast (bt_minrank t), s))"

definition SendTabWithdrawalsLeft :: "'e BankEnv_scheme \<Rightarrow> uint8 \<Rightarrow> GState \<Rightarrow> GState" where
  "SendTabWithdrawalsLeft E tab s =
     (let rank = b_playerRankIndex (gs_bk s); t = b_tabInfo (gs_bk s) (ucast tab)
      in if tab = 0 \<or> unat tab > MAX_TABS then send ''SendTabWithdrawalsLeft:Error:ParamsOutOfRange'' s
         else if bt_withdrawals t = 0 \<or> rank < ucast (bt_minrank t) \<or> rank = 0
         then send (''TabWithdrawalsLeft:'' @ to_string tab @ '':Unlimited'') s
         else case GetTabWithdrawalsLeft E tab s of
                (left, s1) \<Rightarrow> send (''TabWithdrawalsLeft:'' @ to_string tab @ '':'' @ to_string left) s1)"

definition wrong_syntax :: "string \<Rightarrow> string \<Rightarrow> string" where
  "wrong_syntax cmd msg = cmd @ '':Error:WrongSyntax('' @ msg @ '')''"

definition SendTabWithdrawalsLeft_msg :: "'e BankEnv_scheme \<Rightarrow> string \<Rightarrow> GState \<Rightarrow> GState" where
  "SendTabWithdrawalsLeft_msg E msg s =
     (let params = Tokenizer msg CHR '':''
      in if length params = 2 then SendTabWithdrawalsLeft E (atoi (params ! 1)) s
         else send (wrong_syntax ''SendTabWithdrawalsLeft'' msg) s)"

definition IsItemBankable :: "'e BankEnv_scheme \<Rightarrow> iptr \<Rightarrow> GState \<Rightarrow> bool \<times> GState" where
  "IsItemBankable E p s =
     (let it = iheap (gs_pl s) p; pr = the_proto E it
      in if IsSoulBound it
         then (False, send ''Error:ItemSoulBound'' (notify ''You cannot deposit soulbound items.'' s))
         else if IsConjuredConsumable pr
         then (False, send ''Error:ItemConjured'' (notify ''You cannot deposit conjured items.'' s))
         else if pr_Duration pr > 0
         then (False, send ''Error:ItemTemporary'' (notify ''You cannot deposit temporary items.'' s))
         else (True, s))"

section \<open>Money\<close>

definition SendBankMoney :: "GState \<Rightarrow> GState" where
  "SendBankMoney s = send (''BankInfo:money:'' @ to_string (b_money (gs_bk s))) s"

definition SendBankInfo :: "GState \<Rightarrow> GState" where
  "SendBankInfo s =
     (let B = gs_bk s; tabs = map (b_tabInfo B) [1, 2, 3, 4, 5];
          info = ''BankInfo:Tabs:'' @ to_string (b_tabs B) @ '':'' @
            join_term CHR '':'' (map bt_name tabs) @ join_term CHR '':'' (map bt_icon tabs) @
            join_term CHR '':'' (map (\<lambda>t. to_string (bt_withdrawals t)) tabs) @
            join_term CHR '':'' (map (\<lambda>t. to_string (bt_minrank t)) tabs)
      in send (butlast info) (SendBankMoney s))"

text \<open>The amount of a money message: a numeral that fits 32 bits.\<close>

definition parse_money :: "string \<Rightarrow> uint32 option" where
  "parse_money msg =
     (let params = Tokenizer msg CHR '':''
      in if length params = 2 then
           (case strtoul (params ! 1) of (v, read) \<Rightarrow> if \<not> read \<or> v > 4294967295 then None else Some (of_nat v))
         else None)"

definition DepositMoney :: "'e BankEnv_scheme \<Rightarrow> string \<Rightarrow> GState \<Rightarrow> GState" where
  "DepositMoney E msg s =
     (case parse_money msg of
        None \<Rightarrow> send (wrong_syntax ''DepositMoney'' msg) s
      | Some money \<Rightarrow>
          if money > 0xFFFFFFFF - b_money (gs_bk s) then
            send ''DepositMoney:Error:TooMuch'' (notify ''Your guild bank cannot hold that much.'' s)
          else if pl_money (gs_pl s) < money then
            send ''DepositMoney:Error:NotEnoughMoney'' (emit SendBuyError s)
          else
            let s1 = player (ModifyMoney E (- money)) s;
                s2 = bank (\<lambda>B. B\<lparr>b_money := b_money B + money\<rparr>) s1;
                s3 = LogAction E ACTION_DEPOSIT_MONEY TAB_MONEY 0 money None s2;
                s4 = SendGuildMessage (''GMoney:'' @ to_string (b_money (gs_bk s3))) s3
            in SaveToDB (bank (\<lambda>B. B\<lparr>b_money_changed := True\<rparr>) s4))"

definition WithdrawMoney :: "'e BankEnv_scheme \<Rightarrow> string \<Rightarrow> GState \<Rightarrow> GState" where
  "WithdrawMoney E msg s =
     (case parse_money msg of
        None \<Rightarrow> send (wrong_syntax ''WithdrawMoney'' msg) s
      | Some money \<Rightarrow>
          case CanAccessTab E 0 ACTION_WITHDRAW_MONEY s of
            (ok, s0) \<Rightarrow>
              if \<not> ok then send ''WithdrawMoney:Error:NoAccess'' (notify ''You dont have access to guild money.'' s0)
              else if money > b_money (gs_bk s0) then
                send ''WithdrawMoney:Error:NotEnoug'' (notify ''Your guild bank does not have enough money.'' s0)
              else
                let s1 = bank (\<lambda>B. B\<lparr>b_money := b_money B - money\<rparr>) s0;
                    s2 = player (ModifyMoney E money) s1;
                    s3 = LogAction E ACTION_WITHDRAW_MONEY TAB_MONEY 0 money None s2;
                    s4 = SendGuildMessage (''GMoney:'' @ to_string (b_money (gs_bk s3))) s3
                in SaveToDB (bank (\<lambda>B. B\<lparr>b_money_changed := True\<rparr>) s4))"

section \<open>Unlocking and configuring tabs\<close>

definition UnlockGuildBank :: "'e BankEnv_scheme \<Rightarrow> string \<Rightarrow> GState \<Rightarrow> GState" where
  "UnlockGuildBank E msg s =
     (if b_playerRankIndex (gs_bk s) \<noteq> 0 then send ''UnlockGuildBank:Error:NotGM'' s
      else
        let params = Tokenizer msg CHR '':''
        in if length params \<noteq> 2 then send (wrong_syntax ''UnlockGuildBank'' msg) s
           else if params ! 1 = ''Cost'' then send (''UnlockGuildBank:Cost:'' @ to_string (GUILD_BANK_COST div GOLD)) s
           else if params ! 1 = ''Ok'' then
             (if pl_money (gs_pl s) < GUILD_BANK_COST then emit SendBuyError s
              else
                let g = b_guildid (gs_bk s); i = b_infernoBank (gs_bk s);
                    s1 = sql (InsertMoney g i 0) (sql (InsertTabs g i 1) s);
                    s2 = player (ModifyMoney E (- GUILD_BANK_COST)) (bank (\<lambda>B. B\<lparr>b_tabs := 1\<rparr>) s1);
                    s3 = LoadLog E (LoadBank E s2);
                    s4 = SendBankInfo (SendGuildMessage ''GUnlock:GuildBank:Ok'' s3);
                    e = log_money_entry E ACTION_UNLOCK_GUILD_BANK GUILD_BANK_COST s4
                in bank (\<lambda>B. B\<lparr>b_moneyLog := b_moneyLog B @ [e]\<rparr>) s4)
           else send ''UnlockGuildBank:Error:UnknownAction'' s)"

definition tab_cost :: "uint8 \<Rightarrow> uint32" where
  "tab_cost tab = (if tab = 2 then TAB_2_COST else if tab = 3 then TAB_3_COST else if tab = 4 then TAB_4_COST
     else if tab = 5 then TAB_5_COST else 0)"

text \<open>What \<open>UnlockTab\<close> does once the price is paid.\<close>

definition unlock_tab_finish :: "'e BankEnv_scheme \<Rightarrow> uint8 \<Rightarrow> uint32 \<Rightarrow> uint8 \<Rightarrow> GState \<Rightarrow> GState" where
  "unlock_tab_finish E tab cost action s =
     (let s1 = bank (\<lambda>B. B\<lparr>b_tabs := ucast tab\<rparr>) s;
          s2 = SendGuildMessage (''GUnlock:Tab:'' @ to_string tab @ '':Ok'') s1;
          s3 = LogAction E action TAB_MONEY (ucast tab) cost None s2
      in SaveToDB (bank (\<lambda>B. B\<lparr>b_tabs_changed := True\<rparr>) s3))"

definition UnlockTab :: "'e BankEnv_scheme \<Rightarrow> string \<Rightarrow> GState \<Rightarrow> GState" where
  "UnlockTab E msg s =
     (if b_playerRankIndex (gs_bk s) \<noteq> 0 then send ''UnlockTab:Error:NotGM'' s
      else
        let params = Tokenizer msg CHR '':''
        in if length params \<noteq> 3 then send (wrong_syntax ''UnlockTab'' msg) s
           else
             let tab = atoi (params ! 1) :: uint8; moneySource = atoi (params ! 2) :: uint8; cost = tab_cost tab
             in if tab \<le> 1 \<or> unat tab > MAX_TABS then send ''UnlockTab:Error:ParamsOutOfRange'' s
                else if cost = 0 then send ''UnlockTab:Error:CantFindPrice'' s
                else if moneySource = 0 then
                  (if b_money (gs_bk s) < cost then
                     send ''UnlockTab:Error:Player:NotEnoughMoney'' (notify ''Your guild bank does not have enough money.'' s)
                   else unlock_tab_finish E tab cost ACTION_UNLOCK_TAB_GUILD_MONEY
                          (bank (\<lambda>B. B\<lparr>b_money := b_money B - cost, b_money_changed := True\<rparr>) s))
                else
                  (if pl_money (gs_pl s) < cost then
                     send ''UnlockTab:Error:Bank:NotEnoughMoney'' (emit SendBuyError s)
                   else unlock_tab_finish E tab cost ACTION_UNLOCK_TAB_PERSONAL_MONEY (player (ModifyMoney E (- cost)) s)))"

definition UnlockTabCost :: "string \<Rightarrow> GState \<Rightarrow> GState" where
  "UnlockTabCost msg s =
     (if b_playerRankIndex (gs_bk s) \<noteq> 0 then send ''UnlockTabCost:Error:NotGM'' s
      else
        let params = Tokenizer msg CHR '':''
        in if length params \<noteq> 2 then send (wrong_syntax ''UnlockTabCost'' msg) s
           else
             let tab = atoi (params ! 1) :: uint8; cost = tab_cost tab
             in if tab \<le> 1 \<or> unat tab > MAX_TABS then send ''UnlockTabCost:Error:WrongTab'' s
                else if cost = 0 then send ''UnlockTabCost:Error:Cost0'' s
                else send (''Unlock:Tab:'' @ to_string tab @ '':Cost:'' @ to_string (cost div GOLD)) s)"

definition UpdateTab :: "'e BankEnv_scheme \<Rightarrow> string \<Rightarrow> GState \<Rightarrow> GState" where
  "UpdateTab E msg s =
     (if b_playerRankIndex (gs_bk s) \<noteq> 0 then send ''UpdateTab:Error:NotGM'' s
      else
        let params = Tokenizer msg CHR '':''
        in if length params \<noteq> 6 then send (wrong_syntax ''UpdateTab'' msg) s
           else
             let tab = atoi (params ! 1) :: uint8; name = params ! 2; icon = params ! 3;
                 withdrawals = atoi (params ! 4) :: uint8; minrank = atoi (params ! 5) :: uint8
             in if name = [] \<or> length name > 30 then send ''UpdateTab:Error:WrongName'' s
                else if icon = [] \<or> length icon > 63 then send ''UpdateTab:Error:WrongIcon'' s
                else if unat withdrawals > MAX_WEEKLY_WITHDRAWALS then send ''UpdateTab:Error:WrongWithdrawals'' s
                else if ucast minrank > be_ranksSize E then send ''UpdateTab:Error:WrongMinRank'' s
                else
                  let t = \<lparr>bt_name = name, bt_icon = icon, bt_withdrawals = withdrawals, bt_minrank = minrank\<rparr>;
                      s1 = bank (\<lambda>B. B\<lparr>b_tabInfo := (b_tabInfo B)(ucast tab := t)\<rparr>) s;
                      s2 = SendGuildMessage (tab_message (ucast tab) t) s1
                  in SaveToDB (bank (\<lambda>B. B\<lparr>b_tabs_changed := True\<rparr>) s2))"

end
