(* ===== verification/Bank_Deposit.thy ===== *)
theory Bank_Deposit
  imports Bank_Money
begin

text \<open>
  Depositing items (GuildBank.cpp: \<open>SendTabItems\<close>, \<open>DepositInternal\<close>, \<open>DepositItemInFreeSlot\<close>,
  \<open>DepositItemInSlot\<close>).

  \<open>DepositItemInFreeSlot\<close> and \<open>DepositItemInSlot\<close> call each other: what does not fit a partial
  stack goes on to the next one. The recursion ends because every round takes at least one piece off
  the player's item and leaves at least one, whatever the numbers are (\<open>free_slot_progress\<close>); the
  termination proof below uses just that, so no fuel is needed.
\<close>

section \<open>Bank items on the wire\<close>

definition item_text :: "BankItem \<Rightarrow> string" where
  "item_text b = to_string (bi_tab b) @ '':'' @ to_string (bi_slot b) @ '':'' @ to_string (bi_guid b) @ '':'' @
     to_string (bi_item_template b) @ '':'' @ to_string (bi_count b) @ '':'' @
     (if sint (bi_randomPropertyId b) > 0 then bi_Name b else ''0'') @ '':'' @
     to_string_int (bi_randomPropertyId b) @ '':'' @ to_string (bi_enchant b)"

definition bank_slots :: "uint32 list" where
  "bank_slots = map of_nat [1..<Suc BANK_TAB_SIZE]"

text \<open>Messages of bounded length: a message above the packet size is closed (its last separator is
  dropped) and a new one begun; after the last line an \<open>end\<close> message follows.\<close>

fun pack_lines :: "string \<Rightarrow> string \<Rightarrow> string list \<Rightarrow> string list" where
  "pack_lines head message [] = (if message = head then [message @ ''end''] else [butlast message, head @ ''end''])"
| "pack_lines head message (l # ls) =
     (if length (message @ l) > ADDON_MAX_PACKET_SIZE then butlast (message @ l) # pack_lines head head ls
      else pack_lines head (message @ l) ls)"

definition send_all :: "string list \<Rightarrow> GState \<Rightarrow> GState" where
  "send_all ms s = fold send ms s"

definition SendTabItems :: "'e BankEnv_scheme \<Rightarrow> string \<Rightarrow> GState \<Rightarrow> GState" where
  "SendTabItems E msg s =
     (let params = Tokenizer msg CHR '':''
      in if length params \<noteq> 2 then send (wrong_syntax ''TabItems'' msg) s
         else
           let tab = atoi (params ! 1) :: uint8; s1 = SendTabWithdrawalsLeft E tab s; B = gs_bk s1;
               head = ''TabItems:'' @ to_string tab @ '':'';
               lines = map (\<lambda>q. item_text (b_heap B q) @ '';'') (List.map_filter (GetItem B (ucast tab)) bank_slots)
           in send_all (pack_lines head head lines) s1)"

section \<open>One deposit\<close>

text \<open>The first half of \<open>DepositItemInSlot\<close>: the bank item is made or changed and queued.\<close>

definition deposit_into ::
    "'e BankEnv_scheme \<Rightarrow> uint32 \<Rightarrow> uint32 \<Rightarrow> iptr \<Rightarrow> uint32 \<Rightarrow> ItemUpdateState \<Rightarrow> bool \<Rightarrow> GState \<Rightarrow> bptr option \<times> GState" where
  "deposit_into E bankTab bankSlot p count st stack s =
     (let B = gs_bk s; it = iheap (gs_pl s) p;
          finish = (\<lambda>q B. enqueue q (upd_bi q (\<lambda>b. CloneItem_to_bank E (b_infernoBank B) it (b\<lparr>bi_state := st\<rparr>)) B))
      in if st = ITEM_NEW then
           (case balloc ((new_BankItem E)\<lparr>bi_is_inferno := b_infernoBank B, bi_guid := GetNewGuid B, bi_guildid := b_guildid B,
                           bi_count := count, bi_tab := bankTab, bi_slot := bankSlot\<rparr>) B of
              (q, B1) \<Rightarrow> (Some q, s\<lparr>gs_bk := AddItem q (finish q B1)\<rparr>))
         else
           (case GetItem B bankTab bankSlot of
              None \<Rightarrow> (None, send (''DepositItem:Error:CantFindStackDestinationItemAt:'' @ to_string bankTab @ '':'' @ to_string bankSlot) s)
            | Some q \<Rightarrow>
                (Some q, s\<lparr>gs_bk := finish q (upd_bi q (\<lambda>b. b\<lparr>bi_count := (if stack then bi_count b + count else count)\<rparr>) B)\<rparr>)))"

text \<open>The player's item loses the pieces that were deposited.\<close>

definition deposit_take :: "iptr \<Rightarrow> uint32 \<Rightarrow> GState \<Rightarrow> GState" where
  "deposit_take p count s =
     player (\<lambda>P. SetState p ITEM_CHANGED (pemit (CreateUpdateToPlayer p)
       (upd_item p (\<lambda>it. it\<lparr>i_count := i_count it - count\<rparr>) P))) s"

definition deposit_take_last :: "'e BankEnv_scheme \<Rightarrow> iptr \<Rightarrow> uint32 \<Rightarrow> GState \<Rightarrow> GState" where
  "deposit_take_last E p count s =
     (if count = i_count (iheap (gs_pl s) p) then
        player (\<lambda>P. DestroyItem E (GetBagSlot P p) (i_slot (iheap P p)) True P) s
      else deposit_take p count s)"

definition deposit_done :: "'e BankEnv_scheme \<Rightarrow> bptr \<Rightarrow> uint32 \<Rightarrow> GState \<Rightarrow> GState" where
  "deposit_done E q count s =
     (let b = b_heap (gs_bk s) q;
          s1 = SendGuildMessage (''GDeposit:'' @ item_text b) s
      in SaveToDB (LogAction E ACTION_DEPOSIT_ITEM (bi_tab b) (bi_item_template b) count (Some b) s1))"

section \<open>Choosing a slot\<close>

datatype free_choice =
    StackAll uint32 uint32
  | StackSome uint32 uint32 uint32
  | UseFree uint32 uint32
  | TabFull

definition partial_stack :: "Bank \<Rightarrow> uint32 \<Rightarrow> uint32 \<Rightarrow> uint32 \<Rightarrow> bool" where
  "partial_stack B tab entry i =
     (case GetItem B tab i of
        None \<Rightarrow> False
      | Some q \<Rightarrow> bi_item_template (b_heap B q) = entry \<and> bi_count (b_heap B q) < bi_maxStackSize (b_heap B q))"

definition free_slot_choice :: "'e Env_scheme \<Rightarrow> Bank \<Rightarrow> uint32 \<Rightarrow> Item \<Rightarrow> free_choice" where
  "free_slot_choice E B tab it =
     (let pr = the_proto E it
      in case (if GetMaxStackSize pr > 1 then find (partial_stack B tab (pr_ItemId pr)) bank_slots else None) of
           Some i \<Rightarrow>
             (case GetItem B tab i of
                None \<Rightarrow> TabFull
              | Some q \<Rightarrow>
                  let b = b_heap B q
                  in if i_count it + bi_count b \<le> bi_maxStackSize b then StackAll i (i_count it)
                     else StackSome i (bi_maxStackSize b - bi_count b) (i_count it - (bi_maxStackSize b - bi_count b)))
         | None \<Rightarrow>
             (case find (\<lambda>i. GetItem B tab i = None) bank_slots of
                Some i \<Rightarrow> UseFree i (i_count it)
              | None \<Rightarrow> TabFull))"

lemma free_slot_progress:
  assumes "free_slot_choice E B tab it = StackSome i n remainer"
  shows "0 < unat n" and "unat n < unat (i_count it)" and "remainer = i_count it - n"
proof -
  obtain q where q: "GetItem B tab i = Some q" "bi_count (b_heap B q) < bi_maxStackSize (b_heap B q)"
    "n = bi_maxStackSize (b_heap B q) - bi_count (b_heap B q)" "\<not> i_count it + bi_count (b_heap B q) \<le> bi_maxStackSize (b_heap B q)"
    "remainer = i_count it - n"
    using assms by (auto simp: free_slot_choice_def Let_def partial_stack_def find_Some_iff split: option.splits if_splits)
  let ?c = "unat (bi_count (b_heap B q))" and ?m = "unat (bi_maxStackSize (b_heap B q))" and ?k = "unat (i_count it)"
  have n: "unat n = ?m - ?c" and "?c < ?m" using q(2,3) by (simp_all add: word_nat unat_sub32)
  then show "0 < unat n" by simp
  have "?m < (?k + ?c) mod 4294967296" using q(4) by (simp add: word_nat unat_add32_wrap not_le)
  moreover have "(?k + ?c) mod 4294967296 \<le> ?k + ?c" by simp
  ultimately show "unat n < unat (i_count it)" using n \<open>?c < ?m\<close> by linarith
  show "remainer = i_count it - n" by (rule q(5))
qed

section \<open>The two deposit routines\<close>

lemma i_count_SetState [simp]: "i_count (iheap (SetState p st P) q) = i_count (iheap P q)"
  by (simp add: SetState_def delete_item_def AddToUpdateQueueOf_def RemoveFromUpdateQueueOf_def upd_item_def split: option.split)

lemma count_deposit_take: "i_count (iheap (gs_pl (deposit_take p count s)) p) = i_count (iheap (gs_pl s) p) - count"
  by (simp add: deposit_take_def player_def pemit_def upd_item_def)

lemma gs_pl_deposit_into: "gs_pl (snd (deposit_into E tab slot p count st stack s)) = gs_pl s"
  by (auto simp: deposit_into_def Let_def send_def emit_def split: option.splits prod.splits)

definition deposit_measure where
  "deposit_measure x =
     (case x of
        Inl (E, tab, p, s) \<Rightarrow> 2 * unat (i_count (iheap (gs_pl s) p)) + 1
      | Inr (E, tab, slot, p, count, remainer, st, stack, s) \<Rightarrow>
          if remainer = 0 then 0 else 2 * unat (i_count (iheap (gs_pl s) p) - count) + 2)"

function DepositItemInFreeSlot :: "'e BankEnv_scheme \<Rightarrow> uint32 \<Rightarrow> iptr \<Rightarrow> GState \<Rightarrow> GState"
  and DepositItemInSlot ::
    "'e BankEnv_scheme \<Rightarrow> uint32 \<Rightarrow> uint32 \<Rightarrow> iptr \<Rightarrow> uint32 \<Rightarrow> uint32 \<Rightarrow> ItemUpdateState \<Rightarrow> bool \<Rightarrow> GState \<Rightarrow> GState" where
  "DepositItemInFreeSlot E tab p s =
     (case free_slot_choice E (gs_bk s) tab (iheap (gs_pl s) p) of
        StackAll i n \<Rightarrow> DepositItemInSlot E tab i p n 0 ITEM_CHANGED True s
      | StackSome i n remainer \<Rightarrow> DepositItemInSlot E tab i p n remainer ITEM_CHANGED True s
      | UseFree i n \<Rightarrow> DepositItemInSlot E tab i p n 0 ITEM_NEW False s
      | TabFull \<Rightarrow> send ''DepositItem:Error:BankTabFullAdd'' (notify ''Your bank tab is full.'' s))"
| "DepositItemInSlot E tab slot p count remainer st stack s =
     (case deposit_into E tab slot p count st stack s of
        (None, s1) \<Rightarrow> s1
      | (Some q, s1) \<Rightarrow>
          deposit_done E q count
            (if remainer = 0 then deposit_take_last E p count s1
             else DepositItemInFreeSlot E tab p (deposit_take p count s1)))"
  by pat_completeness auto

termination
proof (relation "measure deposit_measure")
  fix E :: "'e BankEnv_scheme" and tab p s i n remainer
  assume "free_slot_choice E (gs_bk s) tab (iheap (gs_pl s) p) = StackSome i n remainer"
  from free_slot_progress [OF this]
  show "(Inr (E, tab, i, p, n, remainer, ITEM_CHANGED, True, s), Inl (E, tab, p, s)) \<in> measure deposit_measure"
    by (auto simp: deposit_measure_def unat_sub32)
next
  fix E :: "'e BankEnv_scheme" and tab slot p count remainer st stack s x y q
  assume "(x, y) = deposit_into E tab slot p count st stack s" and "remainer \<noteq> 0"
  then show "(Inl (E, tab, p, deposit_take p count y), Inr (E, tab, slot, p, count, remainer, st, stack, s)) \<in> measure deposit_measure"
    using gs_pl_deposit_into [of E tab slot p count st stack s]
    by (auto simp: deposit_measure_def count_deposit_take dest: sym)
qed (auto simp: deposit_measure_def)

declare DepositItemInFreeSlot.simps [simp del] DepositItemInSlot.simps [simp del]

text \<open>\<open>DepositInternal\<close>: a new bank item in the first free slot, the player's item untouched.\<close>

definition DepositInternal :: "'e BankEnv_scheme \<Rightarrow> uint32 \<Rightarrow> iptr \<Rightarrow> GState \<Rightarrow> GState" where
  "DepositInternal E bankTab p s =
     (case find (\<lambda>i. GetItem (gs_bk s) bankTab i = None) bank_slots of
        None \<Rightarrow> s
      | Some i \<Rightarrow> snd (deposit_into E bankTab i p (i_count (iheap (gs_pl s) p)) ITEM_NEW False s))"

end
