(* ===== verification/Bank_Withdraw.thy ===== *)
theory Bank_Withdraw
  imports Bank_Deposit
begin

text \<open>
  Withdrawing and swapping items and the two message handlers that start them (GuildBank.cpp:
  \<open>WithdrawItem\<close>, \<open>SwapItems\<close>, \<open>WithdrawItem(msg)\<close>, \<open>DepositItem(msg)\<close>).

  \<open>SwapItems\<close> withdraws from a copy of the bank item on the stack; the copy is an address of the
  bank heap that is in no list.
\<close>

section \<open>Withdrawing\<close>

definition item_text_short :: "BankItem \<Rightarrow> string" where
  "item_text_short b = to_string (bi_tab b) @ '':'' @ to_string (bi_slot b) @ '':'' @ to_string (bi_guid b) @ '':'' @
     to_string (bi_item_template b) @ '':'' @ to_string (bi_count b) @ '':'' @ ''0:0:0''"

text \<open>What both branches do to the bank item: it is removed or keeps \<open>left\<close> pieces.\<close>

definition withdraw_mark :: "uint32 \<Rightarrow> uint32 \<Rightarrow> bptr \<Rightarrow> uint32 \<Rightarrow> uint32 \<Rightarrow> bool \<Rightarrow> GState \<Rightarrow> GState" where
  "withdraw_mark bankTab bankSlot q remainer left swap s =
     bank (enqueue q)
       (if remainer = 0 then
          (let s1 = bank (upd_bi q (\<lambda>b. b\<lparr>bi_state := ITEM_REMOVED\<rparr>)) s
           in if swap then s1
              else SendGuildMessage (''GWithdraw:'' @ to_string bankTab @ '':'' @ to_string bankSlot) s1)
        else
          (let s1 = bank (upd_bi q (\<lambda>b. b\<lparr>bi_count := left, bi_state := ITEM_CHANGED\<rparr>)) s
           in SendGuildMessage (''GPartialWithdraw:'' @ item_text_short (b_heap (gs_bk s1) q)) s1))"

definition withdraw_finish :: "'e BankEnv_scheme \<Rightarrow> uint32 \<Rightarrow> uint32 \<Rightarrow> bptr \<Rightarrow> GState \<Rightarrow> GState" where
  "withdraw_finish E bankTab count q s =
     (let b = b_heap (gs_bk s) q;
          s1 = LogAction E ACTION_WITHDRAW_ITEM (bi_tab b) (bi_item_template b) count (Some b) s;
          s2 = (if bi_state (b_heap (gs_bk s1) q) = ITEM_REMOVED then bank (DeleteItem q) s1 else s1)
      in SendTabWithdrawalsLeft E (ucast bankTab) s2)"

definition withdraw_onto :: "'e BankEnv_scheme \<Rightarrow> uint32 \<Rightarrow> uint32 \<Rightarrow> uint32 \<Rightarrow> bptr \<Rightarrow> iptr \<Rightarrow> uint32 \<Rightarrow> bool \<Rightarrow> GState \<Rightarrow> GState" where
  "withdraw_onto E bankTab bankSlot count q p remainer swap s =
     (let s1 = withdraw_mark bankTab bankSlot q remainer (bi_count (b_heap (gs_bk s) q) - count) swap s;
          s2 = player (\<lambda>P. SetState p ITEM_CHANGED (pemit (CreateUpdateToPlayer p)
                 (upd_item p (\<lambda>it. it\<lparr>i_count := i_count it + count\<rparr>) P))) s1
      in withdraw_finish E bankTab count q s2)"

definition withdraw_new :: "'e BankEnv_scheme \<Rightarrow> uint32 \<Rightarrow> uint32 \<Rightarrow> uint32 \<Rightarrow> dest \<Rightarrow> bptr \<Rightarrow> uint32 \<Rightarrow> bool \<Rightarrow> GState \<Rightarrow> GState" where
  "withdraw_new E bankTab bankSlot count dest q remainer swap s =
     (let b = b_heap (gs_bk s) q
      in case StoreNewItem E dest (bi_item_template b) True (GenerateItemRandomPropertyId E (bi_item_template b)) (gs_pl s) of
           (None, P) \<Rightarrow> s\<lparr>gs_pl := P\<rparr>
         | (Some item, P) \<Rightarrow>
             let s1 = s\<lparr>gs_pl := upd_item item (CloneItem_to_player (b_playerGuid (gs_bk s)) b) P\<rparr>;
                 s2 = withdraw_mark bankTab bankSlot q remainer remainer swap s1
             in withdraw_finish E bankTab count q (emit (SendNewItem item count) s2))"

definition WithdrawItem ::
    "'e BankEnv_scheme \<Rightarrow> uint32 \<Rightarrow> uint32 \<Rightarrow> uint32 \<Rightarrow> uint32 \<Rightarrow> uint32 \<Rightarrow> bptr \<Rightarrow> iptr option \<Rightarrow> uint32 \<Rightarrow> bool \<Rightarrow> GState \<Rightarrow> GState" where
  "WithdrawItem E bankTab bankSlot count playerBag playerSlot q pItem remainer swap s =
     (case CanStoreNewItem E (gs_pl s) (ucast playerBag) (ucast playerSlot) (bi_item_template (b_heap (gs_bk s) q)) count of
        (msg, dest, _) \<Rightarrow>
          if msg \<noteq> EQUIP_ERR_OK then emit (SendEquipError msg 0) s
          else SaveToDB
            (case pItem of
               Some p \<Rightarrow> withdraw_onto E bankTab bankSlot count q p remainer swap s
             | None \<Rightarrow> withdraw_new E bankTab bankSlot count dest q remainer swap s))"

definition SwapItems :: "'e BankEnv_scheme \<Rightarrow> iptr \<Rightarrow> bptr \<Rightarrow> GState \<Rightarrow> GState" where
  "SwapItems E bagItem bankItem s =
     (let b = b_heap (gs_bk s) bankItem
      in case CanStoreNewItem E (gs_pl s) NULL_BAG NULL_SLOT (bi_item_template b) (bi_count b) of
           (msg, _, _) \<Rightarrow>
             if msg \<noteq> EQUIP_ERR_OK \<and> msg \<noteq> EQUIP_ERR_INVENTORY_FULL then emit (SendEquipError msg (bi_item_template b)) s
             else
               let (aux, B1) = balloc b (gs_bk s);
                   s1 = s\<lparr>gs_bk := B1\<rparr>;
                   s2 = DepositItemInSlot E (bi_tab b) (bi_slot b) bagItem (i_count (iheap (gs_pl s1) bagItem)) 0 ITEM_CHANGED False s1;
                   b2 = b_heap (gs_bk s2) bankItem
               in WithdrawItem E (bi_tab b2) (bi_slot b2) (bi_count (b_heap (gs_bk s2) aux))
                    (ucast (GetBagSlot (gs_pl s2) bagItem)) (ucast (i_slot (iheap (gs_pl s2) bagItem))) aux None 0 True s2)"

section \<open>The message handlers\<close>

text \<open>The client's bag and slot numbers as the server's, for a deposit (8-bit arithmetic) and for a
  withdrawal (32-bit arithmetic).\<close>

definition deposit_source :: "uint8 \<Rightarrow> uint8 \<Rightarrow> uint8 \<times> uint8" where
  "deposit_source playerBag playerSlot =
     (if playerBag = 0 then (INVENTORY_SLOT_BAG_0, playerSlot + 23 - 1) else (playerBag + 19 - 1, playerSlot - 1))"

definition withdraw_target :: "uint32 \<Rightarrow> uint32 \<Rightarrow> uint32 \<times> uint32" where
  "withdraw_target playerBag playerSlot =
     (let bag = (if playerBag = 0 then 255 else playerBag + 18)
      in (bag, if bag = 255 then playerSlot + 22 else playerSlot - 1))"

text \<open>A deposit onto an occupied slot.\<close>

definition deposit_onto :: "'e BankEnv_scheme \<Rightarrow> uint8 \<Rightarrow> uint8 \<Rightarrow> iptr \<Rightarrow> uint8 \<Rightarrow> bptr \<Rightarrow> GState \<Rightarrow> GState" where
  "deposit_onto E bankTab bankSlot p count q s =
     (let it = iheap (gs_pl s) p; pr = the_proto E it; d = b_heap (gs_bk s) q; n = ucast count :: uint32
      in if bi_item_template d = pr_ItemId pr \<and> bi_count d = i_count it \<and> bi_count d = bi_maxStackSize d \<and>
            bi_randomPropertyId d = i_randprop it
         then send ''DepositItem:Swap:Error:SameItemSameCount'' s
         else if bi_item_template d = pr_ItemId pr \<and> bi_maxStackSize d > 1 then
           (if bi_count d + n \<le> bi_maxStackSize d then
              DepositItemInSlot E (ucast bankTab) (ucast bankSlot) p n 0 ITEM_CHANGED True s
            else if n < bi_count d \<and> bi_count d = bi_maxStackSize d then
              (let withdrawCount = bi_maxStackSize d - n; remainer = bi_maxStackSize d - withdrawCount
               in WithdrawItem E (ucast bankTab) (ucast bankSlot) withdrawCount (ucast (GetBagSlot (gs_pl s) p)) (ucast (i_slot it))
                    q (Some p) remainer False s)
            else DepositItemInSlot E (ucast bankTab) (ucast bankSlot) p (bi_maxStackSize d - bi_count d) 0 ITEM_CHANGED True s)
         else SwapItems E p q s)"

definition DepositItem :: "'e BankEnv_scheme \<Rightarrow> string \<Rightarrow> GState \<Rightarrow> GState" where
  "DepositItem E msg s =
     (let params = Tokenizer msg CHR '':''
      in if length params \<noteq> 6 then send (wrong_syntax ''DepositItem'' msg) s
         else
           let playerBag = atoi (params ! 1) :: uint8; playerSlot = atoi (params ! 2) :: uint8;
               bankTab = atoi (params ! 3) :: uint8; bankSlot = atoi (params ! 4) :: uint8; count = atoi (params ! 5) :: uint8
           in if bankTab = 0 \<or> unat bankTab > MAX_TABS \<or> unat bankSlot > BANK_TAB_SIZE
              then send ''DepositItem:Error:ParamsOutOfRange'' s
              else
                case CanAccessTab E bankTab ACTION_DEPOSIT_ITEM s of (access, s0) \<Rightarrow>
                if \<not> access then send ''DepositItem:Error:NoRights'' (notify ''You dont have access to this tab.'' s0)
                else
                  case deposit_source playerBag playerSlot of (pbag, pslot) \<Rightarrow>
                  case GetItemByPos (gs_pl s0) pbag pslot of
                    None \<Rightarrow> send (''DepositItem:Error:CantGetPlayerItem:'' @ to_string pbag @ '':'' @ to_string pslot) s0
                  | Some p \<Rightarrow>
                      case IsItemBankable E p s0 of (bankable, s1) \<Rightarrow>
                      if \<not> bankable then s1
                      else if ucast count > GetMaxStackSize (the_proto E (iheap (gs_pl s1) p))
                      then send ''DepositItem:Error:Count>GetMaxStackCount'' s1
                      else if bankSlot = 0 then DepositItemInFreeSlot E (ucast bankTab) p s1
                      else case GetItem (gs_bk s1) (ucast bankTab) (ucast bankSlot) of
                             Some q \<Rightarrow> deposit_onto E bankTab bankSlot p count q s1
                           | None \<Rightarrow> DepositItemInSlot E (ucast bankTab) (ucast bankSlot) p (ucast count) 0 ITEM_NEW False s1)"

text \<open>A withdrawal onto an occupied slot of the player.\<close>

definition withdraw_to_item :: "'e BankEnv_scheme \<Rightarrow> uint32 \<Rightarrow> uint32 \<Rightarrow> uint32 \<Rightarrow> uint32 \<Rightarrow> uint32 \<Rightarrow> bptr \<Rightarrow> iptr \<Rightarrow> GState \<Rightarrow> GState" where
  "withdraw_to_item E bankTab bankSlot bag slot withdrawCount q p s =
     (case IsItemBankable E p s of (bankable, s1) \<Rightarrow>
      if \<not> bankable then s1
      else
        let it = iheap (gs_pl s1) p; pr = the_proto E it; b = b_heap (gs_bk s1) q
        in if pr_ItemId pr = bi_item_template b \<and> bi_maxStackSize b > 1 then
             (let count = (if withdrawCount + i_count it > GetMaxStackSize pr then GetMaxStackSize pr - i_count it else withdrawCount)
              in WithdrawItem E bankTab bankSlot count bag slot q (Some p) (bi_count b - count) False s1)
           else SwapItems E p q s1)"

definition WithdrawItem_msg :: "'e BankEnv_scheme \<Rightarrow> string \<Rightarrow> GState \<Rightarrow> GState" where
  "WithdrawItem_msg E msg s =
     (let params = Tokenizer msg CHR '':''
      in if length params \<noteq> 6 then send (wrong_syntax ''WithdrawItem'' msg) s
         else
           let bankTab = atoi (params ! 1) :: uint32; bankSlot = atoi (params ! 2) :: uint32;
               playerBag = atoi (params ! 3) :: uint32; playerSlot = atoi (params ! 4) :: uint32;
               withdrawCount = atoi (params ! 5) :: uint32
           in if bankTab = 0 \<or> unat bankTab > MAX_TABS \<or> bankSlot = 0 \<or> unat bankSlot > BANK_TAB_SIZE
              then send ''WithdrawItem:Error:ParamsOutOfRange'' s
              else
                case CanAccessTab E (ucast bankTab) ACTION_WITHDRAW_ITEM s of (access, s0) \<Rightarrow>
                if \<not> access then send ''WithdrawItem:Error:NoRights'' (notify ''You dont have access to this tab.'' s0)
                else
                  case GetItem (gs_bk s0) bankTab bankSlot of
                    None \<Rightarrow> send ''WithdrawItem:Error:CantFindBankItem'' s0
                  | Some q \<Rightarrow>
                      let b = b_heap (gs_bk s0) q
                      in if withdrawCount > bi_count b then send ''WithdrawItem:Error:CantWithdrawMoreThanCount'' s0
                         else if playerBag = 0 \<and> playerSlot = 0 then
                           (if bi_count b = withdrawCount then
                              WithdrawItem E bankTab bankSlot (bi_count b) (ucast NULL_BAG) (ucast NULL_SLOT) q None 0 False s0
                            else send ''WithdrawItem:Error:CantAutoWithdrawDifferentCount'' s0)
                         else
                           case withdraw_target playerBag playerSlot of (bag, slot) \<Rightarrow>
                           case GetItemByPos (gs_pl s0) (ucast bag) (ucast slot) of
                             Some p \<Rightarrow> withdraw_to_item E bankTab bankSlot bag slot withdrawCount q p s0
                           | None \<Rightarrow> WithdrawItem E bankTab bankSlot withdrawCount bag slot q None (bi_count b - withdrawCount) False s0)"

end
