(* ===== verification/Bank_Move.thy ===== *)
theory Bank_Move
  imports Bank_Withdraw
begin

text \<open>
  Moving, splitting and destroying items inside the bank (GuildBank.cpp: \<open>MoveItem\<close>,
  \<open>MoveItem(msg)\<close>, \<open>SplitItem\<close>, \<open>DestroyItem\<close>).
\<close>

section \<open>Moving\<close>

text \<open>Setting the fields of an item and queueing a copy.\<close>

definition change_item :: "bptr \<Rightarrow> (BankItem \<Rightarrow> BankItem) \<Rightarrow> GState \<Rightarrow> GState" where
  "change_item q f s = bank (\<lambda>B. enqueue q (upd_bi q f B)) s"

definition move_text :: "string \<Rightarrow> string \<Rightarrow> string" where
  "move_text from dest = ''GMoveItem:from:'' @ from @ '':to:'' @ dest"

definition empty_text :: "uint8 \<Rightarrow> uint8 \<Rightarrow> string" where
  "empty_text tab slot = to_string tab @ '':'' @ to_string slot @ '':0:0:0:0:0:0''"

definition move_to_free :: "bptr \<Rightarrow> uint8 \<Rightarrow> uint8 \<Rightarrow> uint8 \<Rightarrow> GState \<Rightarrow> GState" where
  "move_to_free sq bankTab fromSlot toSlot s =
     (let s1 = change_item sq (\<lambda>b. b\<lparr>bi_slot := ucast toSlot, bi_state := ITEM_CHANGED\<rparr>) s
      in SendGuildMessage (move_text (empty_text bankTab fromSlot) (item_text (b_heap (gs_bk s1) sq))) s1)"

definition move_merge_all :: "bptr \<Rightarrow> bptr \<Rightarrow> uint8 \<Rightarrow> uint8 \<Rightarrow> GState \<Rightarrow> GState" where
  "move_merge_all sq dq bankTab fromSlot s =
     (let destNewCount = bi_count (b_heap (gs_bk s) sq) + bi_count (b_heap (gs_bk s) dq);
          s1 = change_item dq (\<lambda>b. b\<lparr>bi_count := destNewCount, bi_state := ITEM_CHANGED\<rparr>) s;
          s2 = change_item sq (\<lambda>b. b\<lparr>bi_state := ITEM_REMOVED\<rparr>) s1;
          s3 = bank (DeleteItem sq) s2
      in SendGuildMessage (move_text (empty_text bankTab fromSlot) (item_text (b_heap (gs_bk s3) dq))) s3)"

definition move_merge_some :: "bptr \<Rightarrow> bptr \<Rightarrow> GState \<Rightarrow> GState" where
  "move_merge_some sq dq s =
     (let sI = b_heap (gs_bk s) sq; dI = b_heap (gs_bk s) dq;
          sourceNewCount = bi_count sI - (bi_maxStackSize sI - bi_count dI); destNewCount = bi_maxStackSize dI;
          s1 = change_item sq (\<lambda>b. b\<lparr>bi_count := sourceNewCount, bi_state := ITEM_CHANGED\<rparr>) s;
          s2 = change_item dq (\<lambda>b. b\<lparr>bi_count := destNewCount, bi_state := ITEM_CHANGED\<rparr>) s1
      in SendGuildMessage (move_text (item_text (b_heap (gs_bk s2) sq)) (item_text (b_heap (gs_bk s2) dq))) s2)"

definition move_swap :: "bptr \<Rightarrow> bptr \<Rightarrow> uint8 \<Rightarrow> uint8 \<Rightarrow> GState \<Rightarrow> GState" where
  "move_swap sq dq fromSlot toSlot s =
     (let s1 = change_item sq (\<lambda>b. b\<lparr>bi_slot := ucast toSlot, bi_state := ITEM_CHANGED\<rparr>) s;
          s2 = change_item dq (\<lambda>b. b\<lparr>bi_slot := ucast fromSlot, bi_state := ITEM_CHANGED\<rparr>) s1
      in SaveToDB (SendGuildMessage (move_text (item_text (b_heap (gs_bk s2) sq)) (item_text (b_heap (gs_bk s2) dq))) s2))"

definition MoveItem :: "bptr option \<Rightarrow> bptr option \<Rightarrow> uint8 \<Rightarrow> uint8 \<Rightarrow> uint8 \<Rightarrow> GState \<Rightarrow> GState" where
  "MoveItem sItem dItem bankTab fromSlot toSlot s =
     (case sItem of
        None \<Rightarrow> send ''MoveItem:Error:CantGetSource'' s
      | Some sq \<Rightarrow>
          case dItem of
            None \<Rightarrow> move_to_free sq bankTab fromSlot toSlot s
          | Some dq \<Rightarrow>
              let sI = b_heap (gs_bk s) sq; dI = b_heap (gs_bk s) dq
              in if bi_item_template sI = bi_item_template dI then
                   (if bi_count sI = bi_maxStackSize sI \<or> bi_count dI = bi_maxStackSize dI then move_swap sq dq fromSlot toSlot s
                    else if bi_count sI + bi_count dI \<le> bi_maxStackSize sI then move_merge_all sq dq bankTab fromSlot s
                    else move_merge_some sq dq s)
                 else move_swap sq dq fromSlot toSlot s)"

definition slot_range :: "uint8 \<Rightarrow> bool" where
  "slot_range slot \<longleftrightarrow> slot \<noteq> 0 \<and> unat slot \<le> BANK_TAB_SIZE"

definition MoveItem_msg :: "'e BankEnv_scheme \<Rightarrow> string \<Rightarrow> GState \<Rightarrow> GState" where
  "MoveItem_msg E msg s =
     (let params = Tokenizer msg CHR '':''
      in if length params \<noteq> 4 then send (wrong_syntax ''MoveItem'' msg) s
         else
           let bankTab = atoi (params ! 1) :: uint8; fromSlot = atoi (params ! 2) :: uint8; toSlot = atoi (params ! 3) :: uint8
           in case CanAccessTab E bankTab ACTION_MOVE_ITEM s of (access, s0) \<Rightarrow>
              if \<not> access then send ''MoveItem:Error:NoRights'' (notify ''You dont have access in this tab.'' s0)
              else if fromSlot = toSlot then send ''MoveItem:Error:SameSourceDest'' s0
              else if bankTab = 0 \<or> unat bankTab > MAX_TABS \<or> \<not> slot_range fromSlot \<or> \<not> slot_range toSlot
              then send ''MoveItem:Error:ParamsOutOfRange'' s0
              else MoveItem (GetItem (gs_bk s0) (ucast bankTab) (ucast fromSlot)) (GetItem (gs_bk s0) (ucast bankTab) (ucast toSlot))
                     bankTab fromSlot toSlot s0)"

section \<open>Splitting\<close>

definition split_text :: "BankItem \<Rightarrow> BankItem \<Rightarrow> string" where
  "split_text sI dI = ''GSplitItem:from:'' @ item_text_short sI @ '':to:'' @ item_text_short dI"

definition split_to_free :: "'e BankEnv_scheme \<Rightarrow> bptr \<Rightarrow> uint8 \<Rightarrow> uint8 \<Rightarrow> GState \<Rightarrow> GState" where
  "split_to_free E sq toSlot split s =
     (let sI = b_heap (gs_bk s) sq; sourceNewCount = bi_count sI - ucast split
      in if ucast split \<ge> bi_maxStackSize sI then send ''SplitItem:Error:DestinationCountTooBig'' s
         else if sint sourceNewCount \<le> 0 then send ''SplitItem:Error:SourceLeftCount0'' s
         else
           let s1 = change_item sq (\<lambda>b. b\<lparr>bi_count := sourceNewCount, bi_state := ITEM_CHANGED\<rparr>) s;
               (dq, B1) = CloneBankItem E sq (gs_bk s1);
               s2 = s1\<lparr>gs_bk := AddItem dq (enqueue dq (upd_bi dq
                      (\<lambda>b. b\<lparr>bi_slot := ucast toSlot, bi_count := ucast split, bi_state := ITEM_NEW\<rparr>) B1))\<rparr>
           in SaveToDB (SendGuildMessage (split_text (b_heap (gs_bk s2) sq) (b_heap (gs_bk s2) dq)) s2))"

definition split_onto :: "bptr \<Rightarrow> bptr \<Rightarrow> uint8 \<Rightarrow> GState \<Rightarrow> GState" where
  "split_onto sq dq split s =
     (let sI = b_heap (gs_bk s) sq; dI = b_heap (gs_bk s) dq; n = ucast split :: uint32
      in if bi_item_template sI \<noteq> bi_item_template dI then send ''SplitItem:destinationItemDifferent'' s
         else if \<not> bi_count dI + n \<le> bi_maxStackSize dI then send ''SplitItem:cantStackOnTarget'' s
         else
           let sourceNewCount = bi_count sI - n; destNewCount = bi_count dI + n
           in if sourceNewCount \<le> 0 then send ''SplitItem:Error:SourceCount0'' s
              else if sourceNewCount > bi_maxStackSize sI then send ''SplitItem:Error:BadSourceCount'' s
              else if destNewCount \<le> 0 then send ''SplitItem:Error:DestCount0'' s
              else if destNewCount > bi_maxStackSize sI then send ''SplitItem:Error:BadDestCount'' s
              else
                let s1 = change_item sq (\<lambda>b. b\<lparr>bi_count := sourceNewCount, bi_state := ITEM_CHANGED\<rparr>) s;
                    s2 = change_item dq (\<lambda>b. b\<lparr>bi_count := destNewCount, bi_state := ITEM_CHANGED\<rparr>) s1
                in SendGuildMessage (split_text (b_heap (gs_bk s2) sq) (b_heap (gs_bk s2) dq)) s2)"

definition SplitItem :: "'e BankEnv_scheme \<Rightarrow> string \<Rightarrow> GState \<Rightarrow> GState" where
  "SplitItem E msg s =
     (let params = Tokenizer msg CHR '':''
      in if length params \<noteq> 5 then send (wrong_syntax ''SplitItem'' msg) s
         else
           let bankTab = atoi (params ! 1) :: uint8; fromSlot = atoi (params ! 2) :: uint8; toSlot = atoi (params ! 3) :: uint8;
               split = atoi (params ! 4) :: uint8
           in case CanAccessTab E bankTab ACTION_SPLIT_ITEM s of (access, s0) \<Rightarrow>
              if \<not> access then send ''SplitItem:Error:NoRights'' (notify ''You dont have access to this tab.'' s0)
              else if fromSlot = toSlot then send ''SplitItem:Error:fromSlot=toSlot'' s0
              else if bankTab = 0 \<or> unat bankTab > MAX_TABS \<or> \<not> slot_range fromSlot \<or> \<not> slot_range toSlot
              then send ''SplitItem:Error:ParamsOutOfRange'' s0
              else case GetItem (gs_bk s0) (ucast bankTab) (ucast fromSlot) of
                     None \<Rightarrow> s0
                   | Some sq \<Rightarrow>
                       case GetItem (gs_bk s0) (ucast bankTab) (ucast toSlot) of
                         None \<Rightarrow> split_to_free E sq toSlot split s0
                       | Some dq \<Rightarrow> split_onto sq dq split s0)"

section \<open>Destroying\<close>

definition GuildBank_DestroyItem :: "'e BankEnv_scheme \<Rightarrow> string \<Rightarrow> GState \<Rightarrow> GState" where
  "GuildBank_DestroyItem E msg s =
     (let params = Tokenizer msg CHR '':''
      in if length params \<noteq> 4 then send (wrong_syntax ''DestroyItem'' msg) s
         else
           let bankTab = atoi (params ! 1) :: uint8; bankSlot = atoi (params ! 2) :: uint8; count = atoi (params ! 3) :: uint8
           in case CanAccessTab E bankTab ACTION_DESTROY_ITEM s of (access, s0) \<Rightarrow>
              if \<not> access then send ''DestroyItem:Error:NoRights'' (notify ''You dont have access to this tab.'' s0)
              else if bankTab = 0 \<or> unat bankTab > MAX_TABS \<or> \<not> slot_range bankSlot
              then send ''DestroyItem:Error:ParamsOutOfRange'' s0
              else case GetItem (gs_bk s0) (ucast bankTab) (ucast bankSlot) of
                     None \<Rightarrow> s0
                   | Some q \<Rightarrow>
                       let b = b_heap (gs_bk s0) q; n = ucast count :: uint32
                       in if n > bi_maxStackSize b \<or> n > bi_count b then send ''DestroyItem:Error:CountTooBig'' s0
                          else if n = 0 \<or> n = bi_count b then
                            (let s1 = change_item q (\<lambda>b. b\<lparr>bi_state := ITEM_REMOVED\<rparr>) s0;
                                 s2 = SendGuildMessage (''GDestroy:'' @ to_string bankTab @ '':'' @ to_string bankSlot @ '':0:'' @
                                        to_string (bi_item_template b) @ '':'' @ to_string (bi_count b)) s1;
                                 s3 = LogAction E ACTION_DESTROY_ITEM (ucast bankTab) (bi_item_template b) (bi_count b)
                                        (Some (b_heap (gs_bk s2) q)) s2
                             in bank (DeleteItem q) s3)
                          else
                            (let s1 = bank (upd_bi q (\<lambda>b. b\<lparr>bi_count := bi_count b - n, bi_state := ITEM_CHANGED\<rparr>)) s0;
                                 b1 = b_heap (gs_bk s1) q;
                                 s2 = SendGuildMessage (''GPartialDestroy:'' @ to_string (bi_tab b1) @ '':'' @ to_string (bi_slot b1) @ '':'' @
                                        to_string (bi_guid b1) @ '':'' @ to_string (bi_item_template b1) @ '':'' @ to_string (bi_count b1)) s1
                             in LogAction E ACTION_DESTROY_ITEM (ucast bankTab) (bi_item_template b1) n (Some b1) s2))"

end
