(* ===== verification/Bank_Handler.thy ===== *)
theory Bank_Handler
  imports Bank_Move
begin

unbundle bit_operations_syntax

text \<open>
  The entry point of the guild bank and the log queries (GuildBank.cpp: \<open>GetGuildBankNpcEntries\<close>,
  \<open>HandleAddonMessages\<close>, \<open>SendTabLog\<close>, \<open>SendMoneyLog\<close>).

  A message may contain several commands: the handler tests for each command text in turn and runs
  every one it finds, each on the whole message.
\<close>

section \<open>The log queries\<close>

definition last_lines :: "'a list \<Rightarrow> 'a list" where
  "last_lines xs = drop (if length xs > LOG_LINES_LIMIT then length xs - LOG_LINES_LIMIT else 0) xs"

definition log_line :: "BankLog \<Rightarrow> string" where
  "log_line l = to_string (bl_stamp l) @ '';'' @ bl_playerName l @ '';'' @ to_string (bl_action l) @ '';'' @
     to_string (bl_item l) @ '';'' @ bl_itemName l @ '';'' @ bl_itemQuality l @ '';'' @ to_string (bl_count l) @ '';'' @
     to_string (bl_randomPropertyId l) @ '';'' @ to_string (bl_enchant l) @ ''=''"

definition money_log_line :: "MoneyLog \<Rightarrow> string" where
  "money_log_line l = to_string (ml_stamp l) @ '';'' @ ml_playerName l @ '';'' @ to_string (ml_action l) @ '';'' @
     to_string (ml_money l) @ ''=''"

definition SendTabLog :: "string \<Rightarrow> GState \<Rightarrow> GState" where
  "SendTabLog msg s =
     (let params = Tokenizer msg CHR '':''
      in if length params \<noteq> 2 then send (wrong_syntax ''SendTabLog'' msg) s
         else
           let tab = atoi (params ! 1) :: uint8; head = ''TabLog:'' @ to_string tab @ '':''
           in if tab = 0 \<or> unat tab > MAX_TABS then send ''SendTabLog:Error:ParamsOutOfRange'' s
              else send_all (pack_lines head head (map log_line (last_lines (b_log (gs_bk s) (ucast tab))))) s)"

definition SendMoneyLog :: "GState \<Rightarrow> GState" where
  "SendMoneyLog s =
     send_all (pack_lines ''MoneyLog:'' ''MoneyLog:'' (map money_log_line (last_lines (b_moneyLog (gs_bk s))))) s"

section \<open>At a vault keeper\<close>

definition npc_entries :: "string \<Rightarrow> uint32 list" where
  "npc_entries cfg = filter (\<lambda>e. e \<noteq> 0) (map (\<lambda>n. atoi (c_str n)) (getlines CHR '','' cfg []))"

definition GetGuildBankNpcEntries :: "'e BankEnv_scheme \<Rightarrow> bool \<Rightarrow> uint32 list" where
  "GetGuildBankNpcEntries E horde = npc_entries (if horde then be_npcHorde E else be_npcAlliance E)"

definition keeper_entries :: "uint32 list" where
  "keeper_entries = [62008, 62009, 62010, 62011, 62012, 80917, 80918]"

abbreviation GOSSIP_OPTION_GUILD_BANKER :: uint32 where "GOSSIP_OPTION_GUILD_BANKER \<equiv> 18"
abbreviation UNIT_NPC_FLAG_GOSSIP :: uint32 where "UNIT_NPC_FLAG_GOSSIP \<equiv> 1"

definition canUseGuildBank :: "'e BankEnv_scheme \<Rightarrow> bool" where
  "canUseGuildBank E \<longleftrightarrow>
     (case be_selected E of
        None \<Rightarrow> False
      | Some c \<Rightarrow>
          cr_entry c \<in> set keeper_entries \<or>
          (cr_npcflags c AND UNIT_NPC_FLAG_GOSSIP \<noteq> 0 \<and>
           (let items = (if be_menuItems E (cr_gossipMenu c) = [] then be_menuItems E 0 else be_menuItems E (cr_gossipMenu c))
            in list_ex (\<lambda>(opt, flag). opt = GOSSIP_OPTION_GUILD_BANKER \<and> flag AND cr_npcflags c \<noteq> 0) items))) \<or>
     list_ex (be_near E) (GetGuildBankNpcEntries E (be_horde E))"

section \<open>The entry point\<close>

definition run_if :: "string \<Rightarrow> string \<Rightarrow> (GState \<Rightarrow> GState) \<Rightarrow> GState \<Rightarrow> GState" where
  "run_if msg cmd f s = (if strstr (c_str msg) cmd then f s else s)"

definition dispatch :: "'e BankEnv_scheme \<Rightarrow> string \<Rightarrow> GState \<Rightarrow> GState" where
  "dispatch E msg s =
     (let s1 = run_if msg ''UnlockTab:'' (UnlockTab E msg) s;
          s2 = run_if msg ''UnlockTabCost:'' (UnlockTabCost msg) s1;
          s3 = run_if msg ''GetBankInfo:'' SendBankInfo s2;
          s4 = run_if msg ''GetTabItems:'' (SendTabItems E msg) s3;
          s5 = run_if msg ''GetTabWithdrawalsLeft:'' (SendTabWithdrawalsLeft_msg E msg) s4;
          s6 = run_if msg ''GetTabLog:'' (SendTabLog msg) s5;
          s7 = run_if msg ''GetMoneyLog:'' SendMoneyLog s6;
          s8 = run_if msg ''DepositItem:'' (DepositItem E msg) s7;
          s9 = run_if msg ''WithdrawItem:'' (WithdrawItem_msg E msg) s8;
          s10 = run_if msg ''MoveItem:'' (MoveItem_msg E msg) s9;
          s11 = run_if msg ''SplitItem:'' (SplitItem E msg) s10;
          s12 = (if DESTROY_ITEM_ALLOWED then run_if msg ''DestroyItem:'' (GuildBank_DestroyItem E msg) s11 else s11);
          s13 = run_if msg ''UpdateTab:'' (UpdateTab E msg) s12;
          s14 = run_if msg ''DepositMoney:'' (DepositMoney E msg) s13
      in run_if msg ''WithdrawMoney:'' (WithdrawMoney E msg) s14)"

definition HandleAddonMessages :: "'e BankEnv_scheme \<Rightarrow> string \<Rightarrow> GState \<Rightarrow> GState" where
  "HandleAddonMessages E msg s =
     (let s0 = SetPlayer s
      in if \<not> canUseGuildBank E then s0
         else if b_saveLock (gs_bk s0) then send ''ActionBlockedBySaveLock'' s0
         else if strstr (c_str msg) ''UnlockGuildBank:'' then UnlockGuildBank E msg s0
         else if b_tabs (gs_bk s0) = 0 then send ''BankInfo:NoGuildBank'' s0
         else dispatch E msg s0)"

end
