(* ===== verification/Bank_Frames.thy ===== *)
theory Bank_Frames
  imports Bank_Handler
begin

text \<open>
  Frame facts of the bank: messages, log entries and saving leave the player alone, and they leave
  the items of the bank alone except for their update state. \<open>bview\<close> is what the item properties
  depend on: the item list, the allocation state and every item without its update state.
\<close>

definition bcore :: "BankItem \<Rightarrow> BankItem" where
  "bcore b = b\<lparr>bi_state := ITEM_UNCHANGED\<rparr>"

definition bview where
  "bview B = (b_items B, (\<lambda>q. bcore (b_heap B q)), b_next B, b_freed B)"

text \<open>What no item operation changes: the bank's identity, the acting player, tabs and rights.\<close>

definition bid where
  "bid B = (b_guildid B, b_infernoBank B, b_playerGuid B, b_playerRankIndex B, b_tabs B, b_tabInfo B)"

section \<open>Messages\<close>

lemma emit_simps [simp]:
  "gs_pl (emit e s) = gs_pl s" "gs_bk (emit e s) = gs_bk s" "gs_db (emit e s) = gs_db s" "gs_out (emit e s) = gs_out s @ [e]"
  by (simp_all add: emit_def)

lemma send_simps [simp]:
  "gs_pl (send m s) = gs_pl s" "gs_bk (send m s) = gs_bk s" "gs_db (send m s) = gs_db s"
  "gs_out (send m s) = gs_out s @ [SendAddonMessage m]"
  by (simp_all add: send_def)

lemma notify_simps [simp]:
  "gs_pl (notify m s) = gs_pl s" "gs_bk (notify m s) = gs_bk s" "gs_db (notify m s) = gs_db s"
  "gs_out (notify m s) = gs_out s @ [SendNotification m]"
  by (simp_all add: notify_def)

lemma SendGuildMessage_simps [simp]:
  "gs_pl (SendGuildMessage m s) = gs_pl s" "gs_bk (SendGuildMessage m s) = gs_bk s" "gs_db (SendGuildMessage m s) = gs_db s"
  by (simp_all add: SendGuildMessage_def)

lemma bank_upd_simps [simp]:
  "gs_pl (bank f s) = gs_pl s" "gs_bk (bank f s) = f (gs_bk s)" "gs_db (bank f s) = gs_db s" "gs_out (bank f s) = gs_out s"
  by (simp_all add: bank_def)

lemma player_simps [simp]:
  "gs_pl (player f s) = f (gs_pl s)" "gs_bk (player f s) = gs_bk s" "gs_db (player f s) = gs_db s" "gs_out (player f s) = gs_out s"
  by (simp_all add: player_def)

lemma sql_simps [simp]:
  "gs_pl (sql st s) = gs_pl s" "gs_bk (sql st s) = gs_bk s" "gs_db (sql st s) = exec_sql st (gs_db s)" "gs_out (sql st s) = gs_out s"
  by (simp_all add: sql_def)

lemma send_all_simps [simp]:
  "gs_pl (send_all ms s) = gs_pl s" "gs_bk (send_all ms s) = gs_bk s" "gs_db (send_all ms s) = gs_db s"
  unfolding send_all_def by (induction ms arbitrary: s) simp_all

section \<open>Logging\<close>

lemma LogAction_frame [simp]:
  "gs_pl (LogAction E a t i n b s) = gs_pl s" "gs_db (LogAction E a t i n b s) = gs_db s"
  "b_items (gs_bk (LogAction E a t i n b s)) = b_items (gs_bk s)" "b_heap (gs_bk (LogAction E a t i n b s)) = b_heap (gs_bk s)"
  "b_next (gs_bk (LogAction E a t i n b s)) = b_next (gs_bk s)" "b_freed (gs_bk (LogAction E a t i n b s)) = b_freed (gs_bk s)"
  "b_itemUpdateQueue (gs_bk (LogAction E a t i n b s)) = b_itemUpdateQueue (gs_bk s)"
  "b_money (gs_bk (LogAction E a t i n b s)) = b_money (gs_bk s)" "b_saveLock (gs_bk (LogAction E a t i n b s)) = b_saveLock (gs_bk s)"
  "bid (gs_bk (LogAction E a t i n b s)) = bid (gs_bk s)"
  by (simp_all add: LogAction_def Let_def bid_def)

lemma bview_LogAction [simp]: "bview (gs_bk (LogAction E a t i n b s)) = bview (gs_bk s)"
  by (simp add: bview_def)

section \<open>Saving\<close>

lemma fold_sql_frame:
  assumes "\<And>x s. gs_pl (f x s) = gs_pl s \<and> gs_bk (f x s) = gs_bk s \<and> gs_out (f x s) = gs_out s"
  shows "gs_pl (fold f xs s) = gs_pl s" "gs_bk (fold f xs s) = gs_bk s" "gs_out (fold f xs s) = gs_out s"
  using assms by (induction xs arbitrary: s) auto

lemma save_item_frame: "gs_pl (save_item b s) = gs_pl s \<and> gs_bk (save_item b s) = gs_bk s \<and> gs_out (save_item b s) = gs_out s"
  by (simp add: save_item_def split: ItemUpdateState.split)

lemma save_steps_pl [simp]:
  "gs_pl (save_money s) = gs_pl s" "gs_pl (save_tabs s) = gs_pl s" "gs_pl (save_money_log s) = gs_pl s"
  "gs_pl (save_log s) = gs_pl s" "gs_pl (save_items s) = gs_pl s"
  by (simp_all add: save_money_def save_tabs_def save_money_log_def save_log_def save_items_def fold_sql_frame save_item_frame)

lemma fold_log_bk:
  "gs_bk (fold (\<lambda>l. if bl_state l = ITEM_NEW then sql (InsertLog (f l)) else id) xs s) = gs_bk s"
  "gs_bk (fold (\<lambda>l. if ml_state l = ITEM_NEW then sql (InsertLog (g l)) else id) ys s) = gs_bk s"
  by (rule fold_sql_frame, simp)+

lemma save_steps_bk:
  "gs_bk (save_money s) = (gs_bk s)\<lparr>b_money_changed := False\<rparr>"
  "gs_bk (save_tabs s) = (gs_bk s)\<lparr>b_tabs_changed := False\<rparr>"
  "gs_bk (save_money_log s) = (if b_moneyLog_changed (gs_bk s) then
     (gs_bk s)\<lparr>b_moneyLog := map settle_money_log (b_moneyLog (gs_bk s)), b_moneyLog_changed := False\<rparr> else gs_bk s)"
  "gs_bk (save_log s) = (if b_log_changed (gs_bk s) then
     (gs_bk s)\<lparr>b_log := (\<lambda>t. if 1 \<le> unat t \<and> unat t \<le> MAX_TABS then map settle_log (b_log (gs_bk s) t) else b_log (gs_bk s) t),
               b_log_changed := False\<rparr> else gs_bk s)"
  "gs_bk (save_items s) = (if b_itemUpdateQueue (gs_bk s) \<noteq> [] then settle_items (gs_bk s) else gs_bk s)"
  by (simp_all only: save_money_def save_tabs_def save_money_log_def save_log_def save_items_def fold_log_bk bank_upd_simps sql_simps
      fold_sql_frame(2) [OF save_item_frame] if_distrib [of gs_bk]) simp_all

lemma SaveToDB_pl [simp]: "gs_pl (SaveToDB s) = gs_pl s"
  by (simp add: SaveToDB_def)

lemma SaveToDB_bk [simp]:
  "bview (gs_bk (SaveToDB s)) = bview (gs_bk s)" "bid (gs_bk (SaveToDB s)) = bid (gs_bk s)"
  "b_money (gs_bk (SaveToDB s)) = b_money (gs_bk s)" "b_saveLock (gs_bk (SaveToDB s)) = b_saveLock (gs_bk s)"
  "b_items (gs_bk (SaveToDB s)) = b_items (gs_bk s)" "b_next (gs_bk (SaveToDB s)) = b_next (gs_bk s)"
  "b_freed (gs_bk (SaveToDB s)) = b_freed (gs_bk s)"
  by (auto simp: SaveToDB_def save_steps_bk settle_items_def bview_def bid_def bcore_def)

section \<open>Queries of the handlers\<close>

lemma GetTabWithdrawalsLeft_frame [simp]:
  "gs_pl (snd (GetTabWithdrawalsLeft E t s)) = gs_pl s" "gs_bk (snd (GetTabWithdrawalsLeft E t s)) = gs_bk s"
  "gs_db (snd (GetTabWithdrawalsLeft E t s)) = gs_db s"
  by (simp_all add: GetTabWithdrawalsLeft_def Let_def)

lemma SendTabWithdrawalsLeft_frame [simp]:
  "gs_pl (SendTabWithdrawalsLeft E t s) = gs_pl s" "gs_bk (SendTabWithdrawalsLeft E t s) = gs_bk s"
  "gs_db (SendTabWithdrawalsLeft E t s) = gs_db s"
  by (simp_all add: SendTabWithdrawalsLeft_def Let_def GetTabWithdrawalsLeft_def)

lemma CanAccessTab_frame:
  assumes "CanAccessTab E t a s = (ok, s')"
  shows "gs_pl s' = gs_pl s" "gs_bk s' = gs_bk s" "gs_db s' = gs_db s"
  using assms by (auto simp: CanAccessTab_def GetTabWithdrawalsLeft_def Let_def split: if_splits)

lemma IsItemBankable_frame:
  assumes "IsItemBankable E p s = (ok, s')"
  shows "gs_pl s' = gs_pl s" "gs_bk s' = gs_bk s" "gs_db s' = gs_db s"
  using assms by (auto simp: IsItemBankable_def Let_def split: if_splits)

lemma SendBankInfo_frame [simp]:
  "gs_pl (SendBankInfo s) = gs_pl s" "gs_bk (SendBankInfo s) = gs_bk s" "gs_db (SendBankInfo s) = gs_db s"
  by (simp_all add: SendBankInfo_def SendBankMoney_def Let_def)

lemma log_queries_frame [simp]:
  "gs_pl (SendTabLog msg s) = gs_pl s" "gs_bk (SendTabLog msg s) = gs_bk s" "gs_db (SendTabLog msg s) = gs_db s"
  "gs_pl (SendMoneyLog s) = gs_pl s" "gs_bk (SendMoneyLog s) = gs_bk s" "gs_db (SendMoneyLog s) = gs_db s"
  "gs_pl (SendTabItems E msg s) = gs_pl s" "gs_bk (SendTabItems E msg s) = gs_bk s" "gs_db (SendTabItems E msg s) = gs_db s"
  "gs_pl (SendTabWithdrawalsLeft_msg E msg s) = gs_pl s" "gs_bk (SendTabWithdrawalsLeft_msg E msg s) = gs_bk s"
  "gs_db (SendTabWithdrawalsLeft_msg E msg s) = gs_db s"
  "gs_pl (UnlockTabCost msg s) = gs_pl s" "gs_bk (UnlockTabCost msg s) = gs_bk s" "gs_db (UnlockTabCost msg s) = gs_db s"
  by (simp_all add: SendTabLog_def SendMoneyLog_def SendTabItems_def SendTabWithdrawalsLeft_msg_def UnlockTabCost_def Let_def)

section \<open>Views\<close>

lemma bviewD:
  assumes "bview B = bview C"
  shows "b_items B = b_items C" "b_next B = b_next C" "b_freed B = b_freed C" "bcore (b_heap B q) = bcore (b_heap C q)"
  using assms by (auto simp: bview_def dest: fun_cong)

lemma bcoreD:
  assumes "bcore a = bcore b"
  shows "bi_guildid a = bi_guildid b" "bi_guid a = bi_guid b" "bi_tab a = bi_tab b" "bi_slot a = bi_slot b"
    "bi_item_template a = bi_item_template b" "bi_count a = bi_count b" "bi_maxStackSize a = bi_maxStackSize b"
    "bi_is_inferno a = bi_is_inferno b" "item_row a = item_row b"
proof -
  have "a = b\<lparr>bi_state := bi_state a\<rparr>"
    using assms by (cases a; cases b) (simp add: bcore_def)
  then obtain st where a: "a = b\<lparr>bi_state := st\<rparr>" by blast
  show "bi_guildid a = bi_guildid b" "bi_guid a = bi_guid b" "bi_tab a = bi_tab b" "bi_slot a = bi_slot b"
    "bi_item_template a = bi_item_template b" "bi_count a = bi_count b" "bi_maxStackSize a = bi_maxStackSize b"
    "bi_is_inferno a = bi_is_inferno b" "item_row a = item_row b"
    by (simp_all add: a item_row_def)
qed

lemmas bview_itemD = bcoreD [OF bviewD(4)]

lemma GetItem_view: "bview B = bview C \<Longrightarrow> GetItem B t sl = GetItem C t sl"
  by (simp add: GetItem_def bviewD(1) [of B C] bview_itemD [of B C])

lemma bidD:
  assumes "bid B = bid C"
  shows "b_guildid B = b_guildid C" "b_infernoBank B = b_infernoBank C" "b_playerGuid B = b_playerGuid C"
    "b_playerRankIndex B = b_playerRankIndex C" "b_tabs B = b_tabs C" "b_tabInfo B = b_tabInfo C"
  using assms by (auto simp: bid_def)

end
