(* ===== verification/Bank_Invariant.thy ===== *)
theory Bank_Invariant
  imports Bank_Frames
begin

text \<open>
  The structural invariant of a bank and the count of its pieces.

  \<open>bank_struct\<close>: the item vector has no pointer twice, holds no freed pointer, nothing is freed
  twice, every item is in a tab and slot of the bank, and no two items share a place.
  \<open>bank_count\<close> sums the pieces of one template over the items. The lemmas give the effect of the
  primitive steps (allocate, add, delete, change fields) on both.
\<close>

section \<open>Definitions\<close>

definition place :: "BankItem \<Rightarrow> uint32 \<times> uint32" where
  "place b = (bi_tab b, bi_slot b)"

definition in_bank :: "uint32 \<times> uint32 \<Rightarrow> bool" where
  "in_bank ts \<longleftrightarrow> 1 \<le> unat (fst ts) \<and> unat (fst ts) \<le> MAX_TABS \<and> 1 \<le> unat (snd ts) \<and> unat (snd ts) \<le> BANK_TAB_SIZE"

definition bank_struct :: "Bank \<Rightarrow> bool" where
  "bank_struct B \<longleftrightarrow>
     distinct (b_items B) \<and> distinct (b_freed B) \<and>
     (\<forall>q \<in> set (b_items B). q < b_next B \<and> q \<notin> set (b_freed B) \<and> in_bank (place (b_heap B q))) \<and>
     (\<forall>q \<in> set (b_freed B). q < b_next B) \<and>
     inj_on (\<lambda>q. place (b_heap B q)) (set (b_items B))"

definition bpieces :: "uint32 \<Rightarrow> BankItem \<Rightarrow> nat" where
  "bpieces e b = (if bi_item_template b = e then unat (bi_count b) else 0)"

definition bank_count :: "Bank \<Rightarrow> uint32 \<Rightarrow> nat" where
  "bank_count B e = (\<Sum>q\<leftarrow>b_items B. bpieces e (b_heap B q))"

lemma bank_struct_view:
  assumes "bview B = bview C"
  shows "bank_struct B = bank_struct C"
proof -
  have "place (b_heap B q) = place (b_heap C q)" for q
    by (simp add: place_def bview_itemD [OF assms])
  then show ?thesis by (simp add: bank_struct_def bviewD(1-3) [OF assms])
qed

lemma bank_count_view:
  assumes "bview B = bview C"
  shows "bank_count B = bank_count C"
proof -
  have "bpieces e (b_heap B q) = bpieces e (b_heap C q)" for e q
    by (simp add: bpieces_def bview_itemD(5,6) [OF assms])
  then show ?thesis by (simp add: bank_count_def bviewD(1) [OF assms] fun_eq_iff)
qed

lemma bank_structD:
  assumes "bank_struct B" and "q \<in> set (b_items B)"
  shows "q < b_next B" "q \<notin> set (b_freed B)" "in_bank (place (b_heap B q))"
  using assms by (auto simp: bank_struct_def)

lemma bank_struct_distinct: "bank_struct B \<Longrightarrow> distinct (b_items B)"
  by (simp add: bank_struct_def)

lemma bank_struct_inj:
  "bank_struct B \<Longrightarrow> q \<in> set (b_items B) \<Longrightarrow> r \<in> set (b_items B) \<Longrightarrow> place (b_heap B q) = place (b_heap B r) \<Longrightarrow> q = r"
  by (auto simp: bank_struct_def dest: inj_onD)

section \<open>Lookup\<close>

lemma GetItem_Some: "GetItem B t sl = Some q \<Longrightarrow> q \<in> set (b_items B) \<and> place (b_heap B q) = (t, sl)"
  by (auto simp: GetItem_def find_Some_iff place_def)

lemma GetItem_None: "GetItem B t sl = None \<longleftrightarrow> (\<forall>q \<in> set (b_items B). place (b_heap B q) \<noteq> (t, sl))"
  by (auto simp: GetItem_def find_None_iff place_def)

lemma GetItem_iff:
  assumes "bank_struct B"
  shows "GetItem B t sl = Some q \<longleftrightarrow> q \<in> set (b_items B) \<and> place (b_heap B q) = (t, sl)"
proof
  assume "q \<in> set (b_items B) \<and> place (b_heap B q) = (t, sl)"
  moreover from this obtain r where "GetItem B t sl = Some r"
    using GetItem_None [of B t sl] by (cases "GetItem B t sl") auto
  ultimately show "GetItem B t sl = Some q"
    using GetItem_Some [of B t sl r] bank_struct_inj [OF assms, of q r] by auto
qed (rule GetItem_Some)

section \<open>Primitive steps\<close>

lemma upd_bi_simps [simp]:
  "b_items (upd_bi q f B) = b_items B" "b_next (upd_bi q f B) = b_next B" "b_freed (upd_bi q f B) = b_freed B"
  "b_heap (upd_bi q f B) r = (if r = q then f (b_heap B q) else b_heap B r)" "bid (upd_bi q f B) = bid B"
  "b_money (upd_bi q f B) = b_money B" "b_itemUpdateQueue (upd_bi q f B) = b_itemUpdateQueue B"
  "b_saveLock (upd_bi q f B) = b_saveLock B"
  by (simp_all add: upd_bi_def bid_def)

lemma enqueue_simps [simp]:
  "b_items (enqueue q B) = b_items B" "b_next (enqueue q B) = b_next B" "b_freed (enqueue q B) = b_freed B"
  "b_heap (enqueue q B) = b_heap B" "bid (enqueue q B) = bid B" "b_money (enqueue q B) = b_money B"
  "b_itemUpdateQueue (enqueue q B) = b_itemUpdateQueue B @ [b_heap B q]" "b_saveLock (enqueue q B) = b_saveLock B"
  by (simp_all add: enqueue_def bid_def)

lemma bview_enqueue [simp]: "bview (enqueue q B) = bview B"
  by (simp add: bview_def)

lemma bview_upd_enqueue [simp]: "bview (upd_bi r f (enqueue q B)) = bview (upd_bi r f B)"
  by (simp add: bview_def fun_eq_iff)

lemma AddItem_simps [simp]:
  "b_items (AddItem q B) = b_items B @ [q]" "b_next (AddItem q B) = b_next B" "b_freed (AddItem q B) = b_freed B"
  "b_heap (AddItem q B) = b_heap B" "bid (AddItem q B) = bid B" "b_money (AddItem q B) = b_money B"
  "b_itemUpdateQueue (AddItem q B) = b_itemUpdateQueue B" "b_saveLock (AddItem q B) = b_saveLock B"
  by (simp_all add: AddItem_def bid_def)

lemma DeleteItem_simps [simp]:
  "b_items (DeleteItem q B) = remove1 q (b_items B)" "b_next (DeleteItem q B) = b_next B"
  "b_heap (DeleteItem q B) = b_heap B" "bid (DeleteItem q B) = bid B" "b_money (DeleteItem q B) = b_money B"
  "b_itemUpdateQueue (DeleteItem q B) = b_itemUpdateQueue B" "b_saveLock (DeleteItem q B) = b_saveLock B"
  by (simp_all add: DeleteItem_def bid_def remove1_idem)

lemma balloc_simps [simp]:
  "fst (balloc it B) = b_next B" "b_items (snd (balloc it B)) = b_items B" "b_next (snd (balloc it B)) = Suc (b_next B)"
  "b_freed (snd (balloc it B)) = b_freed B" "b_heap (snd (balloc it B)) r = (if r = b_next B then it else b_heap B r)"
  "bid (snd (balloc it B)) = bid B" "b_money (snd (balloc it B)) = b_money B"
  "b_itemUpdateQueue (snd (balloc it B)) = b_itemUpdateQueue B" "b_saveLock (snd (balloc it B)) = b_saveLock B"
  by (simp_all add: balloc_def bid_def)

lemma bank_struct_upd:
  assumes "bank_struct B" and "place (f (b_heap B q)) = place (b_heap B q)"
  shows "bank_struct (upd_bi q f B)"
proof -
  have "place (b_heap (upd_bi q f B) r) = place (b_heap B r)" for r using assms(2) by simp
  with assms(1) show ?thesis by (simp add: bank_struct_def)
qed

text \<open>An item changes its place to a free one.\<close>

lemma bank_struct_move:
  assumes "bank_struct B" and "q \<in> set (b_items B)" and "in_bank (place (f (b_heap B q)))"
    and free: "\<forall>r \<in> set (b_items B). r \<noteq> q \<longrightarrow> place (b_heap B r) \<noteq> place (f (b_heap B q))"
  shows "bank_struct (upd_bi q f B)"
proof -
  have "inj_on (\<lambda>r. place (b_heap (upd_bi q f B) r)) (set (b_items B))"
  proof (rule inj_onI)
    fix x y assume "x \<in> set (b_items B)" "y \<in> set (b_items B)"
      "place (b_heap (upd_bi q f B) x) = place (b_heap (upd_bi q f B) y)"
    then show "x = y"
      using free bank_struct_inj [OF assms(1), of x y] by (auto split: if_splits)
  qed
  with assms(1-3) show ?thesis by (auto simp: bank_struct_def)
qed

lemma bank_struct_balloc:
  assumes "bank_struct B"
  shows "bank_struct (snd (balloc it B))"
proof -
  have "q \<noteq> b_next B" if "q \<in> set (b_items B)" for q using bank_structD(1) [OF assms that] by simp
  then have "inj_on (\<lambda>q. place (b_heap (snd (balloc it B)) q)) (set (b_items B))"
    using assms by (auto simp: bank_struct_def inj_on_def)
  with assms show ?thesis by (fastforce simp: bank_struct_def)
qed

lemma bank_struct_add:
  assumes "bank_struct B" and "q < b_next B" and "q \<notin> set (b_items B)" and "q \<notin> set (b_freed B)"
    and "in_bank (place (b_heap B q))" and "\<forall>r \<in> set (b_items B). place (b_heap B r) \<noteq> place (b_heap B q)"
  shows "bank_struct (AddItem q B)"
  using assms by (auto simp: bank_struct_def inj_on_def)

lemma bank_struct_delete:
  assumes "bank_struct B"
  shows "bank_struct (DeleteItem q B)"
proof (cases "q \<in> set (b_items B)")
  case True
  have "set (remove1 q (b_items B)) = set (b_items B) - {q}" using assms by (simp add: bank_struct_def)
  moreover have "inj_on (\<lambda>q. place (b_heap B q)) (set (b_items B) - {q})"
    using assms by (auto simp: bank_struct_def intro: inj_on_subset)
  ultimately show ?thesis
    using assms True by (auto simp: bank_struct_def DeleteItem_def)
qed (simp add: assms DeleteItem_def)

section \<open>Counting\<close>

lemma bpieces_state [simp]: "bpieces e (b\<lparr>bi_state := st\<rparr>) = bpieces e b"
  by (simp add: bpieces_def)

lemma bpieces_count: "bpieces e (b\<lparr>bi_count := n\<rparr>) = (if bi_item_template b = e then unat n else 0)"
  by (simp add: bpieces_def)

lemma bank_count_upd:
  assumes "bank_struct B" and "q \<in> set (b_items B)"
  shows "bank_count (upd_bi q f B) e + bpieces e (b_heap B q) = bank_count B e + bpieces e (f (b_heap B q))"
  using sum_list_change [OF bank_struct_distinct [OF assms(1)] assms(2),
      of "\<lambda>r. bpieces e (b_heap (upd_bi q f B) r)" "\<lambda>r. bpieces e (b_heap B r)"]
  by (simp add: bank_count_def)

lemma bank_count_upd_out: "q \<notin> set (b_items B) \<Longrightarrow> bank_count (upd_bi q f B) = bank_count B"
  unfolding bank_count_def fun_eq_iff by (auto intro!: sum_list_cong)

lemma bank_count_upd_same:
  assumes "bi_item_template (f (b_heap B q)) = bi_item_template (b_heap B q)" and "bi_count (f (b_heap B q)) = bi_count (b_heap B q)"
  shows "bank_count (upd_bi q f B) = bank_count B"
  unfolding bank_count_def fun_eq_iff using assms by (auto simp: bpieces_def intro!: sum_list_cong)

lemma bank_count_enqueue [simp]: "bank_count (enqueue q B) = bank_count B"
  by (simp add: bank_count_def fun_eq_iff)

lemma bank_struct_enqueue [simp]: "bank_struct (enqueue q B) = bank_struct B"
  by (simp add: bank_struct_def)

lemma bank_count_balloc:
  assumes "bank_struct B"
  shows "bank_count (snd (balloc it B)) = bank_count B"
  unfolding bank_count_def fun_eq_iff using bank_structD(1) [OF assms] by (fastforce intro!: sum_list_cong)

lemma bank_count_add: "bank_count (AddItem q B) e = bank_count B e + bpieces e (b_heap B q)"
  by (simp add: bank_count_def)

lemma bank_count_delete:
  "q \<in> set (b_items B) \<Longrightarrow> bank_count (DeleteItem q B) e + bpieces e (b_heap B q) = bank_count B e"
  using sum_list_remove1 [of q "b_items B" "\<lambda>q. bpieces e (b_heap B q)"] by (simp add: bank_count_def)

lemma bank_count_delete_out: "q \<notin> set (b_items B) \<Longrightarrow> DeleteItem q B = B"
  by (simp add: DeleteItem_def)

end
