(* ===== verification/Bank_Move_Props.thy ===== *)
theory Bank_Move_Props
  imports Bank_Invariant
begin

text \<open>
  Moving and splitting inside the bank: both keep the structure of the bank, conserve the pieces of
  every template and leave the player alone.

  \<open>stacks_ok ms\<close> is what the arithmetic of these operations relies on: the stack size an item
  carries is the size \<open>ms\<close> of its template and is below half of the 32-bit range, and no stack is
  above it.
\<close>

definition stacks_ok :: "(uint32 \<Rightarrow> uint32) \<Rightarrow> Bank \<Rightarrow> bool" where
  "stacks_ok ms B \<longleftrightarrow>
     (\<forall>q \<in> set (b_items B). bi_maxStackSize (b_heap B q) = ms (bi_item_template (b_heap B q)) \<and>
        unat (bi_count (b_heap B q)) \<le> unat (bi_maxStackSize (b_heap B q)) \<and>
        unat (bi_maxStackSize (b_heap B q)) < 2147483648)"

section \<open>Interface: operations inside the bank\<close>

text \<open>The contract of an operation on bank items that involves no player item: it keeps the
  structure of the bank and the pieces of every template, and does not touch the player. Any
  sequence of such operations then does so too.\<close>

locale bank_internal =
  fixes op :: "'x \<Rightarrow> GState \<Rightarrow> GState"
  assumes op_struct: "bank_struct (gs_bk s) \<Longrightarrow> bank_struct (gs_bk (op x s))"
    and op_stacks: "bank_struct (gs_bk s) \<Longrightarrow> stacks_ok ms (gs_bk s) \<Longrightarrow> stacks_ok ms (gs_bk (op x s))"
    and op_count: "bank_struct (gs_bk s) \<Longrightarrow> stacks_ok ms (gs_bk s) \<Longrightarrow> bank_count (gs_bk (op x s)) = bank_count (gs_bk s)"
    and op_player: "gs_pl (op x s) = gs_pl s"
begin

lemma run_struct: "bank_struct (gs_bk s) \<Longrightarrow> bank_struct (gs_bk (fold op xs s))"
  by (induction xs arbitrary: s) (simp_all add: op_struct)

lemma run_count:
  "bank_struct (gs_bk s) \<Longrightarrow> stacks_ok ms (gs_bk s) \<Longrightarrow> bank_count (gs_bk (fold op xs s)) = bank_count (gs_bk s)"
  by (induction xs arbitrary: s) (simp_all add: op_struct op_stacks op_count)

lemma run_player: "gs_pl (fold op xs s) = gs_pl s"
  by (induction xs arbitrary: s) (simp_all add: op_player)

end

section \<open>Changing one or two items\<close>

lemma change_item_simps [simp]:
  "gs_pl (change_item q f s) = gs_pl s" "gs_db (change_item q f s) = gs_db s"
  "gs_bk (change_item q f s) = enqueue q (upd_bi q f (gs_bk s))"
  by (simp_all add: change_item_def)

lemma stacks_ok_view: "bview B = bview C \<Longrightarrow> stacks_ok ms B = stacks_ok ms C"
  by (simp add: stacks_ok_def bviewD(1) [of B C] bview_itemD [of B C])

lemma stacks_ok_enqueue [simp]: "stacks_ok ms (enqueue q B) = stacks_ok ms B"
  by (simp add: stacks_ok_def)

lemma stacks_ok_sub:
  assumes "stacks_ok ms B" and "set (b_items C) \<subseteq> set (b_items B)"
    and "\<And>q. q \<in> set (b_items C) \<Longrightarrow> bi_item_template (b_heap C q) = bi_item_template (b_heap B q) \<and>
      bi_maxStackSize (b_heap C q) = bi_maxStackSize (b_heap B q) \<and> unat (bi_count (b_heap C q)) \<le> unat (bi_maxStackSize (b_heap C q))"
  shows "stacks_ok ms C"
  unfolding stacks_ok_def
proof
  fix q assume "q \<in> set (b_items C)"
  with assms(2) assms(3) [OF this] assms(1) [unfolded stacks_ok_def, rule_format, of q]
  show "bi_maxStackSize (b_heap C q) = ms (bi_item_template (b_heap C q)) \<and>
      unat (bi_count (b_heap C q)) \<le> unat (bi_maxStackSize (b_heap C q)) \<and> unat (bi_maxStackSize (b_heap C q)) < 2147483648"
    by auto
qed

lemma stacks_okD:
  assumes "stacks_ok ms B" and "q \<in> set (b_items B)"
  shows "unat (bi_count (b_heap B q)) \<le> unat (bi_maxStackSize (b_heap B q))" "unat (bi_maxStackSize (b_heap B q)) < 2147483648"
  using assms unfolding stacks_ok_def by blast+

lemma stacks_ok_size:
  "stacks_ok ms B \<Longrightarrow> q \<in> set (b_items B) \<Longrightarrow> bi_maxStackSize (b_heap B q) = ms (bi_item_template (b_heap B q))"
  unfolding stacks_ok_def by blast

lemma stacks_ok_same:
  "stacks_ok ms B \<Longrightarrow> q \<in> set (b_items B) \<Longrightarrow> r \<in> set (b_items B) \<Longrightarrow> bi_item_template (b_heap B q) = bi_item_template (b_heap B r) \<Longrightarrow>
   bi_maxStackSize (b_heap B q) = bi_maxStackSize (b_heap B r)"
  unfolding stacks_ok_def by metis

text \<open>Two items exchange their places.\<close>

lemma bank_struct_swap:
  assumes struct: "bank_struct B" and q: "q \<in> set (b_items B)" and r: "r \<in> set (b_items B)" and "q \<noteq> r"
    and fq: "place (f (b_heap B q)) = place (b_heap B r)" and gr: "place (g (b_heap B r)) = place (b_heap B q)"
  shows "bank_struct (upd_bi r g (upd_bi q f B))"
proof -
  let ?C = "upd_bi r g (upd_bi q f B)" and ?t = "\<lambda>x. if x = q then r else if x = r then q else x"
  have pl: "place (b_heap ?C x) = place (b_heap B (?t x))" for x using assms(4) fq gr by simp
  have mem: "x \<in> set (b_items B) \<Longrightarrow> ?t x \<in> set (b_items B)" for x using q r by simp
  have "inj_on (\<lambda>x. place (b_heap ?C x)) (set (b_items B))"
  proof (rule inj_onI)
    fix x y assume xy: "x \<in> set (b_items B)" "y \<in> set (b_items B)" and "place (b_heap ?C x) = place (b_heap ?C y)"
    then have "?t x = ?t y" using bank_struct_inj [OF struct mem mem] by (simp only: pl)
    then show "x = y" by (auto split: if_splits)
  qed
  moreover have "in_bank (place (b_heap ?C x))" if "x \<in> set (b_items B)" for x
    using bank_structD(3) [OF struct mem [OF that]] by (simp only: pl)
  ultimately show ?thesis using struct by (simp add: bank_struct_def)
qed

lemma bank_count_two:
  assumes struct: "bank_struct B" and q: "q \<in> set (b_items B)" and r: "r \<in> set (b_items B)" and "q \<noteq> r"
    and sum: "bpieces e (f (b_heap B q)) + bpieces e (g (b_heap B r)) = bpieces e (b_heap B q) + bpieces e (b_heap B r)"
  shows "bank_count (upd_bi r g (upd_bi q f B)) e = bank_count B e"
proof -
  let ?h = "b_heap (upd_bi r g (upd_bi q f B))"
  have d: "distinct (b_items B)" by (rule bank_struct_distinct [OF struct])
  have 1: "(\<Sum>x\<leftarrow>b_items B. bpieces e (b_heap (upd_bi q f B) x)) + bpieces e (b_heap B q) =
      (\<Sum>x\<leftarrow>b_items B. bpieces e (b_heap B x)) + bpieces e (f (b_heap B q))"
    using sum_list_change [OF d q, of "\<lambda>x. bpieces e (b_heap (upd_bi q f B) x)" "\<lambda>x. bpieces e (b_heap B x)"] by simp
  have 2: "(\<Sum>x\<leftarrow>b_items B. bpieces e (?h x)) + bpieces e (b_heap B r) =
      (\<Sum>x\<leftarrow>b_items B. bpieces e (b_heap (upd_bi q f B) x)) + bpieces e (g (b_heap B r))"
    using sum_list_change [OF d r, of "\<lambda>x. bpieces e (?h x)" "\<lambda>x. bpieces e (b_heap (upd_bi q f B) x)"] assms(4) by simp
  have "(\<Sum>x\<leftarrow>b_items B. bpieces e (?h x)) = (\<Sum>x\<leftarrow>b_items B. bpieces e (b_heap B x))"
    using 1 2 sum by linarith
  then show ?thesis by (simp add: bank_count_def)
qed

section \<open>Moving\<close>

lemma in_bank_cast:
  fixes t sl :: uint8
  assumes "t \<noteq> 0" and "unat t \<le> MAX_TABS" and "slot_range sl"
  shows "in_bank (ucast t, ucast sl)"
  using assms by (auto simp: in_bank_def slot_range_def Suc_le_eq unat_gt_0)

text \<open>What a move is given: the item at the source place, and the item at the target place or none.\<close>

definition move_args :: "Bank \<Rightarrow> uint8 \<Rightarrow> uint8 \<Rightarrow> uint8 \<Rightarrow> bptr \<Rightarrow> bool" where
  "move_args B t fs ts sq \<longleftrightarrow> bank_struct B \<and> fs \<noteq> ts \<and> in_bank (ucast t, ucast fs) \<and> in_bank (ucast t, ucast ts) \<and>
     GetItem B (ucast t) (ucast fs) = Some sq"

lemma move_to_free_ok:
  assumes "move_args B t fs ts sq" and "GetItem B (ucast t) (ucast ts) = None" and "gs_bk s = B"
  shows "bank_struct (gs_bk (move_to_free sq t fs ts s))" "bank_count (gs_bk (move_to_free sq t fs ts s)) = bank_count B"
    "stacks_ok ms B \<Longrightarrow> stacks_ok ms (gs_bk (move_to_free sq t fs ts s))"
proof -
  let ?f = "\<lambda>b. b\<lparr>bi_slot := ucast ts, bi_state := ITEM_CHANGED\<rparr>"
  from assms(1) have struct: "bank_struct B" and sq: "sq \<in> set (b_items B)" "place (b_heap B sq) = (ucast t, ucast fs)"
    using GetItem_Some by (auto simp: move_args_def)
  have pl: "place (?f (b_heap B sq)) = (ucast t, ucast ts)" using sq(2) by (simp add: place_def)
  have bk: "gs_bk (move_to_free sq t fs ts s) = enqueue sq (upd_bi sq ?f B)"
    by (simp add: move_to_free_def Let_def assms(3))
  have "bank_struct (upd_bi sq ?f B)"
    by (rule bank_struct_move [OF struct sq(1)]) (use assms pl in \<open>auto simp: move_args_def GetItem_None\<close>)
  then show "bank_struct (gs_bk (move_to_free sq t fs ts s))" by (simp add: bk)
  show "bank_count (gs_bk (move_to_free sq t fs ts s)) = bank_count B" by (simp add: bk bank_count_upd_same)
  show "stacks_ok ms (gs_bk (move_to_free sq t fs ts s))" if "stacks_ok ms B"
    by (rule stacks_ok_sub [OF that]) (use stacks_okD(1) [OF that] in \<open>auto simp: bk\<close>)
qed

lemma move_swap_ok:
  assumes "move_args B t fs ts sq" and dq: "GetItem B (ucast t) (ucast ts) = Some dq" and "gs_bk s = B"
  shows "bank_struct (gs_bk (move_swap sq dq fs ts s))" "bank_count (gs_bk (move_swap sq dq fs ts s)) = bank_count B"
    "stacks_ok ms B \<Longrightarrow> stacks_ok ms (gs_bk (move_swap sq dq fs ts s))"
proof -
  let ?f = "\<lambda>b. b\<lparr>bi_slot := ucast ts, bi_state := ITEM_CHANGED\<rparr>" and ?g = "\<lambda>b. b\<lparr>bi_slot := ucast fs, bi_state := ITEM_CHANGED\<rparr>"
  let ?C = "upd_bi dq ?g (upd_bi sq ?f B)"
  from assms(1) have struct: "bank_struct B" and sq: "sq \<in> set (b_items B)" "place (b_heap B sq) = (ucast t, ucast fs)" and ne: "fs \<noteq> ts"
    using GetItem_Some by (auto simp: move_args_def)
  from GetItem_Some [OF dq] have d: "dq \<in> set (b_items B)" "place (b_heap B dq) = (ucast t, ucast ts)" by auto
  have "ucast fs \<noteq> (ucast ts :: uint32)" using ne by (metis unat_ucast_8_32 word_unat_eq_iff)
  with sq(2) d(2) have neq: "sq \<noteq> dq" by auto
  have eq: "bview (enqueue dq (upd_bi dq ?g (enqueue sq (upd_bi sq ?f B)))) = bview ?C"
    by simp
  have view: "bview (gs_bk (move_swap sq dq fs ts s)) = bview ?C"
    by (simp add: move_swap_def Let_def assms(3) eq)
  have "bank_struct ?C"
    by (rule bank_struct_swap [OF struct sq(1) d(1) neq]) (use sq(2) d(2) in \<open>auto simp: place_def\<close>)
  then show "bank_struct (gs_bk (move_swap sq dq fs ts s))" using bank_struct_view [OF view] by simp
  show "bank_count (gs_bk (move_swap sq dq fs ts s)) = bank_count B"
    using bank_count_view [OF view] neq by (simp add: bank_count_upd_same)
  show "stacks_ok ms (gs_bk (move_swap sq dq fs ts s))" if "stacks_ok ms B"
    unfolding stacks_ok_view [OF view]
    by (rule stacks_ok_sub [OF that]) (use stacks_okD(1) [OF that] in auto)
qed

lemma move_merge_all_ok:
  assumes args: "move_args B t fs ts sq" and dq: "GetItem B (ucast t) (ucast ts) = Some dq" and "gs_bk s = B" and so: "stacks_ok ms B"
    and same: "bi_item_template (b_heap B sq) = bi_item_template (b_heap B dq)"
    and fits: "bi_count (b_heap B sq) + bi_count (b_heap B dq) \<le> bi_maxStackSize (b_heap B sq)"
  shows "bank_count (gs_bk (move_merge_all sq dq t fs s)) = bank_count B" "stacks_ok ms (gs_bk (move_merge_all sq dq t fs s))"
proof -
  define n where "n = bi_count (b_heap B sq) + bi_count (b_heap B dq)"
  let ?f = "\<lambda>b. b\<lparr>bi_count := n, bi_state := ITEM_CHANGED\<rparr>" and ?g = "\<lambda>b. b\<lparr>bi_state := ITEM_REMOVED\<rparr>"
  let ?C = "upd_bi sq ?g (enqueue dq (upd_bi dq ?f B))"
  from args have struct: "bank_struct B" and sq: "sq \<in> set (b_items B)" "place (b_heap B sq) = (ucast t, ucast fs)" and ne: "fs \<noteq> ts"
    using GetItem_Some by (auto simp: move_args_def)
  from GetItem_Some [OF dq] have d: "dq \<in> set (b_items B)" "place (b_heap B dq) = (ucast t, ucast ts)" by auto
  have "ucast fs \<noteq> (ucast ts :: uint32)" using ne by (metis unat_ucast_8_32 word_unat_eq_iff)
  with sq(2) d(2) have neq: "sq \<noteq> dq" by auto
  have un: "unat n = unat (bi_count (b_heap B sq)) + unat (bi_count (b_heap B dq))"
    unfolding n_def by (rule unat_add32) (use stacks_okD [OF so sq(1)] stacks_okD [OF so d(1)] in linarith)
  have bk: "gs_bk (move_merge_all sq dq t fs s) = DeleteItem sq (enqueue sq ?C)"
    using assms(3) neq by (simp add: move_merge_all_def Let_def n_def)
  have rest: "q = dq \<and> q \<noteq> sq \<or> q \<noteq> dq \<and> q \<noteq> sq" if "q \<in> set (remove1 sq (b_items B))" for q
    using that bank_struct_distinct [OF struct] by auto
  have del: "bank_count (gs_bk (move_merge_all sq dq t fs s)) e + bpieces e (b_heap B sq) = bank_count ?C e" for e
    using bank_count_delete [of sq "enqueue sq ?C" e] sq(1) neq by (simp add: bk)
  have "bank_count ?C = bank_count (upd_bi dq ?f B)"
    by (subst bank_count_upd_same) simp_all
  then have tot: "bank_count (gs_bk (move_merge_all sq dq t fs s)) e + bpieces e (b_heap B sq) + bpieces e (b_heap B dq) =
      bank_count B e + bpieces e (?f (b_heap B dq))" for e
    using del [of e] bank_count_upd [OF struct d(1), of ?f e] by simp
  show "bank_count (gs_bk (move_merge_all sq dq t fs s)) = bank_count B"
  proof
    fix e show "bank_count (gs_bk (move_merge_all sq dq t fs s)) e = bank_count B e"
      using tot [of e] un same by (cases "bi_item_template (b_heap B dq) = e") (simp_all add: bpieces_def)
  qed
  have "bi_maxStackSize (b_heap B sq) = bi_maxStackSize (b_heap B dq)" by (rule stacks_ok_same [OF so sq(1) d(1) same])
  with fits have nle: "unat n \<le> unat (bi_maxStackSize (b_heap B dq))" by (simp add: n_def word_nat)
  show "stacks_ok ms (gs_bk (move_merge_all sq dq t fs s))"
    by (rule stacks_ok_sub [OF so]) (use nle stacks_okD(1) [OF so] rest in \<open>auto simp: bk dest: set_remove1_subset [THEN subsetD]\<close>)
qed

lemma move_merge_all_struct:
  assumes args: "move_args B t fs ts sq" and dq: "GetItem B (ucast t) (ucast ts) = Some dq" and "gs_bk s = B"
  shows "bank_struct (gs_bk (move_merge_all sq dq t fs s))"
proof -
  from args have struct: "bank_struct B" by (simp add: move_args_def)
  show ?thesis
    unfolding move_merge_all_def Let_def
    by (simp add: assms(3) bank_struct_delete bank_struct_upd struct place_def)
qed

lemma move_merge_some_ok:
  assumes args: "move_args B t fs ts sq" and dq: "GetItem B (ucast t) (ucast ts) = Some dq" and "gs_bk s = B"
  shows "bank_struct (gs_bk (move_merge_some sq dq s))"
    "stacks_ok ms B \<Longrightarrow> bi_item_template (b_heap B sq) = bi_item_template (b_heap B dq) \<Longrightarrow>
     \<not> bi_count (b_heap B sq) + bi_count (b_heap B dq) \<le> bi_maxStackSize (b_heap B sq) \<Longrightarrow>
     bank_count (gs_bk (move_merge_some sq dq s)) = bank_count B \<and> stacks_ok ms (gs_bk (move_merge_some sq dq s))"
proof -
  define n where "n = bi_count (b_heap B sq) - (bi_maxStackSize (b_heap B sq) - bi_count (b_heap B dq))"
  let ?f = "\<lambda>b. b\<lparr>bi_count := n, bi_state := ITEM_CHANGED\<rparr>"
  let ?g = "\<lambda>b. b\<lparr>bi_count := bi_maxStackSize (b_heap B dq), bi_state := ITEM_CHANGED\<rparr>"
  from args have struct: "bank_struct B" and sq: "sq \<in> set (b_items B)" "place (b_heap B sq) = (ucast t, ucast fs)" and ne: "fs \<noteq> ts"
    using GetItem_Some by (auto simp: move_args_def)
  from GetItem_Some [OF dq] have d: "dq \<in> set (b_items B)" "place (b_heap B dq) = (ucast t, ucast ts)" by auto
  have "ucast fs \<noteq> (ucast ts :: uint32)" using ne by (metis unat_ucast_8_32 word_unat_eq_iff)
  with sq(2) d(2) have neq: "sq \<noteq> dq" by auto
  have bk: "gs_bk (move_merge_some sq dq s) = enqueue dq (upd_bi dq ?g (enqueue sq (upd_bi sq ?f B)))"
    using assms(3) neq by (simp add: move_merge_some_def Let_def n_def)
  show "bank_struct (gs_bk (move_merge_some sq dq s))"
    by (simp add: bk bank_struct_upd struct place_def)
  assume so: "stacks_ok ms B" and same: "bi_item_template (b_heap B sq) = bi_item_template (b_heap B dq)"
    and big: "\<not> bi_count (b_heap B sq) + bi_count (b_heap B dq) \<le> bi_maxStackSize (b_heap B sq)"
  let ?cs = "unat (bi_count (b_heap B sq))" and ?cd = "unat (bi_count (b_heap B dq))" and ?m = "unat (bi_maxStackSize (b_heap B dq))"
  have max: "bi_maxStackSize (b_heap B sq) = bi_maxStackSize (b_heap B dq)" by (rule stacks_ok_same [OF so sq(1) d(1) same])
  note bounds = stacks_okD [OF so sq(1)] stacks_okD [OF so d(1)]
  have "unat (bi_count (b_heap B sq) + bi_count (b_heap B dq)) = ?cs + ?cd" by (rule unat_add32) (use bounds in linarith)
  with big max have over: "?m < ?cs + ?cd" by (simp add: word_nat)
  have un: "unat n = ?cs - (?m - ?cd)"
    unfolding n_def max using bounds over by (subst unat_sub32; simp add: unat_sub32)
  have sum: "bpieces e (?f (b_heap B sq)) + bpieces e (?g (b_heap B dq)) = bpieces e (b_heap B sq) + bpieces e (b_heap B dq)" for e
    using same un over bounds max by (simp add: bpieces_def)
  have eqv: "bview (gs_bk (move_merge_some sq dq s)) = bview (upd_bi dq ?g (upd_bi sq ?f B))"
    by (simp add: bk)
  have "bank_count (gs_bk (move_merge_some sq dq s)) e = bank_count B e" for e
    using bank_count_two [OF struct sq(1) d(1) neq, of e ?f ?g] sum [of e] by (simp add: bank_count_view [OF eqv])
  moreover have "stacks_ok ms (gs_bk (move_merge_some sq dq s))"
    by (rule stacks_ok_sub [OF so]) (use un bounds max stacks_okD(1) [OF so] in \<open>auto simp: bk\<close>)
  ultimately show "bank_count (gs_bk (move_merge_some sq dq s)) = bank_count B \<and> stacks_ok ms (gs_bk (move_merge_some sq dq s))"
    by (simp add: fun_eq_iff)
qed

lemma MoveItem_ok:
  assumes args: "move_args B t fs ts sq" and "gs_bk s = B"
  defines "s' \<equiv> MoveItem (GetItem B (ucast t) (ucast fs)) (GetItem B (ucast t) (ucast ts)) t fs ts s"
  shows "bank_struct (gs_bk s')" "stacks_ok ms B \<Longrightarrow> stacks_ok ms (gs_bk s') \<and> bank_count (gs_bk s') = bank_count B"
proof -
  have src: "GetItem B (ucast t) (ucast fs) = Some sq" using args by (simp add: move_args_def)
  note ok = move_to_free_ok [OF args _ assms(2)] move_swap_ok [OF args _ assms(2)] move_merge_all_struct [OF args _ assms(2)]
    move_merge_some_ok [OF args _ assms(2)]
  show "bank_struct (gs_bk s')"
    by (auto simp: s'_def MoveItem_def src Let_def ok split: option.split)
  assume so: "stacks_ok ms B"
  show "stacks_ok ms (gs_bk s') \<and> bank_count (gs_bk s') = bank_count B"
    using move_merge_all_ok [OF args _ assms(2) so] move_merge_some_ok(2) [OF args _ assms(2) so]
    by (auto simp: s'_def MoveItem_def src Let_def ok so assms(2) split: option.split)
qed

lemma change_two_out [simp]: "gs_pl (move_to_free sq t fs ts s) = gs_pl s" "gs_pl (move_swap sq dq fs ts s) = gs_pl s"
  "gs_pl (move_merge_all sq dq t fs s) = gs_pl s" "gs_pl (move_merge_some sq dq s) = gs_pl s"
  by (simp_all add: move_to_free_def move_swap_def move_merge_all_def move_merge_some_def Let_def)

lemma MoveItem_player: "gs_pl (MoveItem sItem dItem t fs ts s) = gs_pl s"
  by (auto simp: MoveItem_def Let_def split: option.split)

text \<open>A handler that runs an operation on a bank it has checked, or leaves the bank alone.\<close>

definition inside_ok :: "GState \<Rightarrow> GState \<Rightarrow> bool" where
  "inside_ok s s' \<longleftrightarrow> gs_pl s' = gs_pl s \<and>
     (bank_struct (gs_bk s) \<longrightarrow> bank_struct (gs_bk s') \<and>
        (\<forall>ms. stacks_ok ms (gs_bk s) \<longrightarrow> stacks_ok ms (gs_bk s') \<and> bank_count (gs_bk s') = bank_count (gs_bk s)))"

lemma inside_ok_same: "gs_pl s' = gs_pl s \<Longrightarrow> gs_bk s' = gs_bk s \<Longrightarrow> inside_ok s s'"
  by (simp add: inside_ok_def)

lemma inside_ok_cong: "inside_ok s0 s' \<Longrightarrow> gs_pl s0 = gs_pl s \<Longrightarrow> gs_bk s0 = gs_bk s \<Longrightarrow> inside_ok s s'"
  by (simp add: inside_ok_def)

lemma inside_ok_MoveItem:
  assumes "gs_pl s0 = gs_pl s" "gs_bk s0 = gs_bk s" "fs \<noteq> ts" "t \<noteq> 0" "unat t \<le> MAX_TABS" "slot_range fs" "slot_range ts"
  shows "inside_ok s (MoveItem (GetItem (gs_bk s) (ucast t) (ucast fs)) (GetItem (gs_bk s) (ucast t) (ucast ts)) t fs ts s0)"
proof (cases "GetItem (gs_bk s) (ucast t) (ucast fs)")
  case None
  then show ?thesis using assms(1,2) by (simp add: MoveItem_def inside_ok_same)
next
  case (Some sq)
  have "move_args (gs_bk s) t fs ts sq" if "bank_struct (gs_bk s)"
    using that assms Some by (simp add: move_args_def in_bank_cast)
  then show ?thesis using MoveItem_ok [of "gs_bk s" t fs ts sq s0] assms(1,2) by (simp add: inside_ok_def MoveItem_player)
qed

lemma MoveItem_msg_inside: "inside_ok s (MoveItem_msg E msg s)"
proof -
  define ps where "ps = Tokenizer msg CHR '':''"
  obtain ok s0 where acc: "CanAccessTab E (atoi (ps ! 1)) ACTION_MOVE_ITEM s = (ok, s0)" by fastforce
  note fr = CanAccessTab_frame [OF acc]
  show ?thesis
    unfolding MoveItem_msg_def Let_def ps_def [symmetric] acc prod.case
    by (simp add: fr inside_ok_same inside_ok_MoveItem)
qed

section \<open>Splitting\<close>

lemma sint_sub_pos:
  fixes a b :: uint32
  assumes "unat a < 2147483648" and "unat b < 256" and "0 < sint (a - b)"
  shows "unat b < unat a"
proof (rule ccontr)
  assume "\<not> unat b < unat a"
  then have range: "- 256 < int (unat a) - int (unat b)" "int (unat a) - int (unat b) \<le> 0" using assms(2) by linarith+
  have "sint (word_of_int k :: uint32) = signed_take_bit 31 k" for k by (simp add: signed_of_int)
  moreover have "a - b = word_of_int (int (unat a) - int (unat b))" by (simp add: of_int_diff)
  ultimately have "sint (a - b) = signed_take_bit 31 (int (unat a) - int (unat b))" by (simp only:)
  also have "\<dots> = int (unat a) - int (unat b)" using range by (intro signed_take_bit_int_eq_self) simp_all
  finally show False using assms(3) range(2) by linarith
qed

lemma CloneBankItem_simps:
  assumes "CloneBankItem E q B = (dq, B1)"
  shows "dq = b_next B" "B1 = snd (balloc (b_heap B1 dq) B)" "bi_tab (b_heap B1 dq) = bi_tab (b_heap B q)"
    "bi_item_template (b_heap B1 dq) = bi_item_template (b_heap B q)" "bi_maxStackSize (b_heap B1 dq) = bi_maxStackSize (b_heap B q)"
  using assms by (auto simp: CloneBankItem_def Let_def balloc_def)

text \<open>A new item at a free place.\<close>

lemma bank_struct_upd_out:
  assumes "bank_struct B" and "q \<notin> set (b_items B)"
  shows "bank_struct (upd_bi q f B)"
proof -
  have same: "b_heap (upd_bi q f B) r = b_heap B r" if "r \<in> set (b_items B)" for r using that assms(2) by auto
  have "inj_on (\<lambda>r. place (b_heap (upd_bi q f B) r)) (set (b_items B)) = inj_on (\<lambda>r. place (b_heap B r)) (set (b_items B))"
    by (rule inj_on_cong) (simp only: same)
  then show ?thesis using assms(1) same unfolding bank_struct_def by (simp del: upd_bi_simps(4))
qed

lemma add_new:
  fixes f :: "BankItem \<Rightarrow> BankItem"
  assumes struct: "bank_struct B" and pl: "place (f it) = ts" and ib: "in_bank ts"
    and free: "\<forall>r \<in> set (b_items B). place (b_heap B r) \<noteq> ts"
  defines "C \<equiv> AddItem (b_next B) (enqueue (b_next B) (upd_bi (b_next B) f (snd (balloc it B))))"
  shows "bank_struct C" "bank_count C e = bank_count B e + bpieces e (f it)" "b_items C = b_items B @ [b_next B]"
    "b_heap C r = (if r = b_next B then f it else b_heap B r)"
proof -
  let ?B1 = "snd (balloc it B)"
  have out: "b_next B \<notin> set (b_items B)" "b_next B \<notin> set (b_freed B)" using struct by (auto simp: bank_struct_def)
  have "bank_struct (upd_bi (b_next B) f ?B1)"
    by (rule bank_struct_upd_out [OF bank_struct_balloc [OF struct]]) (simp add: out)
  then show "bank_struct C"
    unfolding C_def by (rule_tac bank_struct_add) (use out pl ib free in auto)
  show "b_items C = b_items B @ [b_next B]" by (simp add: C_def)
  show "b_heap C r = (if r = b_next B then f it else b_heap B r)" by (simp add: C_def)
  show "bank_count C e = bank_count B e + bpieces e (f it)"
    using out by (simp add: C_def bank_count_add bank_count_upd_out bank_count_balloc [OF struct])
qed

lemma add_clone:
  fixes f :: "BankItem \<Rightarrow> BankItem"
  assumes struct: "bank_struct B" and clone: "CloneBankItem E q B = (dq, B1)"
    and pl: "place (f (b_heap B1 dq)) = ts" and ib: "in_bank ts" and free: "\<forall>r \<in> set (b_items B). place (b_heap B r) \<noteq> ts"
  defines "C \<equiv> AddItem dq (enqueue dq (upd_bi dq f B1))"
  shows "bank_struct C" "bank_count C e = bank_count B e + bpieces e (f (b_heap B1 dq))" "b_items C = b_items B @ [dq]"
    "b_heap C r = (if r = dq then f (b_heap B1 dq) else b_heap B r)"
proof -
  note cl = CloneBankItem_simps [OF clone]
  have C: "C = AddItem (b_next B) (enqueue (b_next B) (upd_bi (b_next B) f (snd (balloc (b_heap B1 dq) B))))"
    unfolding C_def cl(1) by (subst cl(2)) (simp add: cl(1))
  note new = add_new [OF struct, where f = f, OF pl ib free, folded C]
  show "bank_struct C" "bank_count C e = bank_count B e + bpieces e (f (b_heap B1 dq))" "b_items C = b_items B @ [dq]"
    "b_heap C r = (if r = dq then f (b_heap B1 dq) else b_heap B r)"
    using new by (simp_all add: cl(1))
qed

lemma stacks_ok_add:
  assumes so: "stacks_ok ms B" and new: "b_items C = b_items B @ [dq]"
    and old: "\<forall>r \<in> set (b_items B). b_heap C r = b_heap B r"
    and "bi_maxStackSize (b_heap C dq) = ms (bi_item_template (b_heap C dq))" "unat (bi_maxStackSize (b_heap C dq)) < 2147483648"
    and le: "unat (bi_count (b_heap C dq)) \<le> unat (bi_maxStackSize (b_heap C dq))"
  shows "stacks_ok ms C"
  using so old assms(4-6) unfolding stacks_ok_def new by auto

lemma stacks_ok_upd:
  assumes so: "stacks_ok ms B" and "bi_item_template (f (b_heap B q)) = bi_item_template (b_heap B q)"
    and "bi_maxStackSize (f (b_heap B q)) = bi_maxStackSize (b_heap B q)"
    and "q \<in> set (b_items B) \<Longrightarrow> unat (bi_count (f (b_heap B q))) \<le> unat (bi_maxStackSize (b_heap B q))"
  shows "stacks_ok ms (upd_bi q f B)"
  by (rule stacks_ok_sub [OF so]) (use assms stacks_okD(1) [OF so] in auto)

lemma split_to_free_ok:
  assumes args: "move_args B t fs ts sq" and none: "GetItem B (ucast t) (ucast ts) = None" and "gs_bk s = B"
  shows "bank_struct (gs_bk (split_to_free E sq ts n s))"
    "stacks_ok ms B \<Longrightarrow> stacks_ok ms (gs_bk (split_to_free E sq ts n s)) \<and> bank_count (gs_bk (split_to_free E sq ts n s)) = bank_count B"
proof -
  define m where "m = bi_count (b_heap B sq) - ucast n"
  let ?f = "\<lambda>b. b\<lparr>bi_count := m, bi_state := ITEM_CHANGED\<rparr>"
  let ?g = "\<lambda>b. b\<lparr>bi_slot := ucast ts, bi_count := ucast n, bi_state := ITEM_NEW\<rparr>"
  define B0 where "B0 = enqueue sq (upd_bi sq ?f B)"
  obtain dq B1 where clone: "CloneBankItem E sq B0 = (dq, B1)" by fastforce
  note cl = CloneBankItem_simps [OF clone]
  let ?C = "AddItem dq (enqueue dq (upd_bi dq ?g B1))"
  from args have struct: "bank_struct B" and sq: "sq \<in> set (b_items B)" "place (b_heap B sq) = (ucast t, ucast fs)"
    and ib: "in_bank (ucast t, ucast ts)"
    using GetItem_Some by (auto simp: move_args_def)
  have B0: "bank_struct B0" "b_items B0 = b_items B" "place (b_heap B0 r) = place (b_heap B r)" for r
    using bank_struct_upd [OF struct, of ?f sq] by (simp_all add: B0_def place_def)
  have "bi_tab (b_heap B0 sq) = ucast t" using sq(2) by (simp add: B0_def place_def)
  then have pl: "place (?g (b_heap B1 dq)) = (ucast t, ucast ts)" by (simp add: place_def cl(3))
  have free: "\<forall>r \<in> set (b_items B0). place (b_heap B0 r) \<noteq> (ucast t, ucast ts)" using none by (simp add: B0 GetItem_None)
  note add = add_clone [OF B0(1) clone, where f = ?g, OF pl ib free]
  have cases: "gs_bk (split_to_free E sq ts n s) = B \<or>
     (ucast n < bi_maxStackSize (b_heap B sq) \<and> 0 < sint m \<and> bview (gs_bk (split_to_free E sq ts n s)) = bview ?C)"
    using clone by (auto simp: split_to_free_def Let_def assms(3) m_def [symmetric] B0_def)
  show "bank_struct (gs_bk (split_to_free E sq ts n s))"
    using cases struct add(1) bank_struct_view by metis
  assume so: "stacks_ok ms B"
  show "stacks_ok ms (gs_bk (split_to_free E sq ts n s)) \<and> bank_count (gs_bk (split_to_free E sq ts n s)) = bank_count B"
  proof (cases "gs_bk (split_to_free E sq ts n s) = B")
    case False
    with cases have c: "unat n < unat (bi_maxStackSize (b_heap B sq))" "0 < sint m"
      "bview (gs_bk (split_to_free E sq ts n s)) = bview ?C" by (auto simp: word_nat)
    have lt: "unat n < unat (bi_count (b_heap B sq))"
      using sint_sub_pos [of "bi_count (b_heap B sq)" "ucast n"] c(2) stacks_okD [OF so sq(1)] unat8_lt [of n] by (simp add: m_def)
    then have m: "unat m = unat (bi_count (b_heap B sq)) - unat n" by (simp add: m_def unat_sub32)
    have "bank_count ?C e = bank_count B e" for e
      using add(2) [of e] bank_count_upd [OF struct sq(1), of ?f e] m lt cl(4)
      by (cases "bi_item_template (b_heap B sq) = e") (simp_all add: B0_def bpieces_def)
    moreover have so0: "stacks_ok ms B0"
      unfolding B0_def stacks_ok_enqueue by (rule stacks_ok_upd [OF so]) (use m stacks_okD(1) [OF so sq(1)] in auto)
    have "stacks_ok ms ?C"
      by (rule stacks_ok_add [OF so0 add(3)])
        (use sq(1) c(1) cl(1,4,5) bank_structD(1) [OF struct] add(4) B0(2) stacks_okD [OF so sq(1)] stacks_ok_size [OF so sq(1)]
          in \<open>auto simp: B0_def\<close>)
    ultimately show ?thesis using bank_count_view [OF c(3)] stacks_ok_view [OF c(3)] by (simp add: fun_eq_iff)
  qed (simp add: so)
qed

lemma split_onto_ok:
  assumes args: "move_args B t fs ts sq" and dq: "GetItem B (ucast t) (ucast ts) = Some dq" and "gs_bk s = B"
  shows "bank_struct (gs_bk (split_onto sq dq n s))"
    "stacks_ok ms B \<Longrightarrow> stacks_ok ms (gs_bk (split_onto sq dq n s)) \<and> bank_count (gs_bk (split_onto sq dq n s)) = bank_count B"
proof -
  define m where "m = bi_count (b_heap B sq) - ucast n"
  define k where "k = bi_count (b_heap B dq) + ucast n"
  let ?f = "\<lambda>b. b\<lparr>bi_count := m, bi_state := ITEM_CHANGED\<rparr>" and ?g = "\<lambda>b. b\<lparr>bi_count := k, bi_state := ITEM_CHANGED\<rparr>"
  let ?C = "upd_bi dq ?g (upd_bi sq ?f B)"
  from args have struct: "bank_struct B" and sq: "sq \<in> set (b_items B)" "place (b_heap B sq) = (ucast t, ucast fs)" and ne: "fs \<noteq> ts"
    using GetItem_Some by (auto simp: move_args_def)
  from GetItem_Some [OF dq] have d: "dq \<in> set (b_items B)" "place (b_heap B dq) = (ucast t, ucast ts)" by auto
  have "ucast fs \<noteq> (ucast ts :: uint32)" using ne by (metis unat_ucast_8_32 word_unat_eq_iff)
  with sq(2) d(2) have neq: "sq \<noteq> dq" by auto
  have cases: "gs_bk (split_onto sq dq n s) = B \<or>
     (bi_item_template (b_heap B sq) = bi_item_template (b_heap B dq) \<and> k \<le> bi_maxStackSize (b_heap B dq) \<and>
      m \<le> bi_maxStackSize (b_heap B sq) \<and> bview (gs_bk (split_onto sq dq n s)) = bview ?C)"
    by (auto simp: split_onto_def Let_def assms(3) m_def [symmetric] k_def [symmetric] not_less)
  have "bank_struct ?C" by (intro bank_struct_upd struct) (simp_all add: place_def)
  then show "bank_struct (gs_bk (split_onto sq dq n s))" using cases struct bank_struct_view by metis
  assume so: "stacks_ok ms B"
  show "stacks_ok ms (gs_bk (split_onto sq dq n s)) \<and> bank_count (gs_bk (split_onto sq dq n s)) = bank_count B"
  proof (cases "gs_bk (split_onto sq dq n s) = B")
    case False
    with cases have same: "bi_item_template (b_heap B sq) = bi_item_template (b_heap B dq)" and
      kle: "unat k \<le> unat (bi_maxStackSize (b_heap B dq))" and mle: "unat m \<le> unat (bi_maxStackSize (b_heap B sq))" and
      view: "bview (gs_bk (split_onto sq dq n s)) = bview ?C" by (auto simp: word_nat)
    note bounds = stacks_okD [OF so sq(1)] stacks_okD [OF so d(1)] unat8_lt [of n]
    have n: "unat n \<le> unat (bi_count (b_heap B sq))"
    proof (rule ccontr)
      assume "\<not> unat n \<le> unat (bi_count (b_heap B sq))"
      then have "unat m = 4294967296 + unat (bi_count (b_heap B sq)) - unat n"
        by (simp add: m_def unat_sub_if')
      with mle bounds show False by linarith
    qed
    have um: "unat m = unat (bi_count (b_heap B sq)) - unat n" using n by (simp add: m_def unat_sub32)
    have uk: "unat k = unat (bi_count (b_heap B dq)) + unat n"
      unfolding k_def by (subst unat_add32) (use bounds in simp_all)
    have sum: "bpieces e (?f (b_heap B sq)) + bpieces e (?g (b_heap B dq)) = bpieces e (b_heap B sq) + bpieces e (b_heap B dq)" for e
      using same um uk n by (simp add: bpieces_def)
    have "bank_count ?C e = bank_count B e" for e
      using bank_count_two [OF struct sq(1) d(1) neq, of e ?f ?g] sum [of e] by simp
    moreover have "stacks_ok ms ?C"
      by (intro stacks_ok_upd so) (use mle kle neq in auto)
    ultimately show ?thesis using bank_count_view [OF view] stacks_ok_view [OF view] by (simp add: fun_eq_iff)
  qed (simp add: so)
qed

lemma split_player [simp]: "gs_pl (split_to_free E sq ts n s) = gs_pl s" "gs_pl (split_onto sq dq n s) = gs_pl s"
  by (simp_all add: split_to_free_def split_onto_def Let_def split: prod.splits)

lemma inside_ok_split:
  fixes t fs ts :: uint8
  assumes "gs_pl s0 = gs_pl s" "gs_bk s0 = gs_bk s" "fs \<noteq> ts" "t \<noteq> 0" "unat t \<le> MAX_TABS" "slot_range fs" "slot_range ts"
    "GetItem (gs_bk s) (ucast t) (ucast fs) = Some sq"
  shows "GetItem (gs_bk s) (ucast t) (ucast ts) = None \<Longrightarrow> inside_ok s (split_to_free E sq ts n s0)"
    "GetItem (gs_bk s) (ucast t) (ucast ts) = Some dq \<Longrightarrow> inside_ok s (split_onto sq dq n s0)"
proof -
  have "move_args (gs_bk s) t fs ts sq" if "bank_struct (gs_bk s)"
    using that assms by (simp add: move_args_def in_bank_cast)
  note ok = split_to_free_ok [OF this _ assms(2)] split_onto_ok [OF this _ assms(2)]
  show "GetItem (gs_bk s) (ucast t) (ucast ts) = None \<Longrightarrow> inside_ok s (split_to_free E sq ts n s0)"
    "GetItem (gs_bk s) (ucast t) (ucast ts) = Some dq \<Longrightarrow> inside_ok s (split_onto sq dq n s0)"
    using assms(1) by (simp_all add: inside_ok_def ok)
qed

lemma SplitItem_inside: "inside_ok s (SplitItem E msg s)"
proof -
  define ps where "ps = Tokenizer msg CHR '':''"
  obtain ok s0 where acc: "CanAccessTab E (atoi (ps ! 1)) ACTION_SPLIT_ITEM s = (ok, s0)" by fastforce
  note fr = CanAccessTab_frame [OF acc]
  show ?thesis
    unfolding SplitItem_def Let_def ps_def [symmetric] acc prod.case
    by (auto simp add: fr inside_ok_same inside_ok_split split: option.split)
qed

text \<open>A message of either kind, with the environment it is handled in.\<close>

datatype 'e inner_msg = MoveMsg "'e BankEnv_scheme" string | SplitMsg "'e BankEnv_scheme" string

fun handle_inner :: "'e inner_msg \<Rightarrow> GState \<Rightarrow> GState" where
  "handle_inner (MoveMsg E msg) s = MoveItem_msg E msg s"
| "handle_inner (SplitMsg E msg) s = SplitItem E msg s"

lemma handle_inner_ok: "inside_ok s (handle_inner m s)"
  by (cases m) (simp_all add: MoveItem_msg_inside SplitItem_inside)

interpretation inner: bank_internal handle_inner
  by unfold_locales (use handle_inner_ok in \<open>auto simp: inside_ok_def\<close>)

end
