(* ===== verification/Store_Check_Sound.thy ===== *)
theory Store_Check_Sound
  imports Store_Check
begin

unbundle bit_operations_syntax

text \<open>
  What the storage check promises. A destination list is \<open>good\<close> for \<open>n\<close> pieces when its positions
  are pairwise different, can be looked up again, have room for what is put there, and the pieces
  placed and the pieces left add up to \<open>n\<close>. Every stage keeps this, and only an empty rest ends
  with success, so a successful check has placed every piece (\<open>CanStoreNewItem_sound\<close>).
\<close>

section \<open>Positions\<close>

lemma pos_bag_mk [simp]: "pos_bag (mk_pos bag slot) = bag"
  unfolding pos_bag_def mk_pos_def
  by (rule bit_word_eqI) (auto simp: bit_simps dest: bit_imp_le_length)

lemma pos_slot_mk [simp]: "pos_slot (mk_pos bag slot) = slot"
proof -
  have m: "(255 :: uint16) = mask 8" by (simp add: mask_eq_exp_minus_1)
  show ?thesis unfolding pos_slot_def mk_pos_def m
    by (rule bit_word_eqI) (auto simp: bit_simps)
qed

text \<open>A position a later lookup reaches: a slot of the player, or a slot of a bag in a bag slot.\<close>

definition reach_pos :: "Player \<Rightarrow> uint8 \<Rightarrow> uint8 \<Rightarrow> bool" where
  "reach_pos P bag slot \<longleftrightarrow>
     (bag = INVENTORY_SLOT_BAG_0 \<and>
        (unat slot < BANK_SLOT_BAG_END \<or> (KEYRING_SLOT_START \<le> unat slot \<and> unat slot < KEYRING_SLOT_END))) \<or>
     (is_bag_index bag \<and>
        (\<exists>pb. m_items P (unat bag) = Some pb \<and> unat slot < unat (i_numslots (iheap P pb))))"

definition place_ok :: "Player \<Rightarrow> ItemPrototype \<Rightarrow> iptr option \<Rightarrow> ItemPosCount \<Rightarrow> bool" where
  "place_ok P pr src d \<longleftrightarrow>
     reach_pos P (pos_bag (ipc_pos d)) (pos_slot (ipc_pos d)) \<and>
     (case other_item P (pos_bag (ipc_pos d)) (pos_slot (ipc_pos d)) src of
        None \<Rightarrow> unat (ipc_count d) \<le> unat (pr_Stackable pr)
      | Some q \<Rightarrow> i_entry (iheap P q) = pr_ItemId pr \<and>
                  unat (i_count (iheap P q)) + unat (ipc_count d) \<le> unat (pr_Stackable pr))"

definition dest_sum :: "dest \<Rightarrow> nat" where
  "dest_sum dest = (\<Sum>d\<leftarrow>dest. unat (ipc_count d))"

definition good_dest :: "Player \<Rightarrow> ItemPrototype \<Rightarrow> iptr option \<Rightarrow> nat \<Rightarrow> dest \<Rightarrow> uint32 \<Rightarrow> bool" where
  "good_dest P pr src n dest count \<longleftrightarrow>
     distinct (map ipc_pos dest) \<and> (\<forall>d \<in> set dest. place_ok P pr src d \<and> 0 < unat (ipc_count d)) \<and> dest_sum dest + unat count = n"

text \<open>An intermediate state of the check: there is still something to place.\<close>

definition open_dest :: "Player \<Rightarrow> ItemPrototype \<Rightarrow> iptr option \<Rightarrow> nat \<Rightarrow> dest \<Rightarrow> uint32 \<Rightarrow> bool" where
  "open_dest P pr src n dest count \<longleftrightarrow> good_dest P pr src n dest count \<and> count \<noteq> 0"

lemma open_destD: "open_dest P pr src n dest count \<Longrightarrow> good_dest P pr src n dest count"
  by (simp add: open_dest_def)

definition good_check :: "Player \<Rightarrow> ItemPrototype \<Rightarrow> iptr option \<Rightarrow> nat \<Rightarrow> uint32 \<Rightarrow> check \<Rightarrow> bool" where
  "good_check P pr src n nsim r \<longleftrightarrow>
     (case r of (res, dest, _) \<Rightarrow> res = EQUIP_ERR_OK \<longrightarrow> nsim = 0 \<and> good_dest P pr src n dest 0)"

text \<open>Bags the storage check relies on: a bag's slot count is its template's.\<close>

definition bag_sizes_ok :: "'e Env_scheme \<Rightarrow> Player \<Rightarrow> bool" where
  "bag_sizes_ok E P \<longleftrightarrow>
     (\<forall>s pb bp. m_items P s = Some pb \<longrightarrow> GetProto E (iheap P pb) = Some bp \<longrightarrow>
        unat (pr_ContainerSlots bp) \<le> unat (i_numslots (iheap P pb)) \<and> unat (i_numslots (iheap P pb)) \<le> MAX_BAG_SIZE)"

text \<open>Templates whose stacks fit the 8-bit count of a destination.\<close>

definition stack_ok :: "ItemPrototype \<Rightarrow> bool" where
  "stack_ok pr \<longleftrightarrow> 0 < unat (pr_Stackable pr) \<and> unat (pr_Stackable pr) \<le> 255"

section \<open>Placing at one position\<close>

definition room_ok :: "Player \<Rightarrow> ItemPrototype \<Rightarrow> iptr option \<Rightarrow> uint8 \<Rightarrow> uint8 \<Rightarrow> uint32 \<Rightarrow> bool" where
  "room_ok P pr src bag slot room \<longleftrightarrow>
     reach_pos P bag slot \<and> 0 < unat room \<and>
     (case other_item P bag slot src of
        None \<Rightarrow> unat room \<le> unat (pr_Stackable pr)
      | Some q \<Rightarrow> i_entry (iheap P q) = pr_ItemId pr \<and>
                  unat (i_count (iheap P q)) + unat room \<le> unat (pr_Stackable pr))"

lemma place_at_good:
  assumes good: "good_dest P pr src n dest count" and some: "count \<noteq> 0" and room: "room_ok P pr src bag slot room"
    and st: "stack_ok pr" and eq: "place_at bag slot room dest count = (d, c, new)"
  shows "good_dest P pr src n d c"
proof (cases new)
  case False
  with eq good show ?thesis
    by (auto simp: place_at_def Let_def split: if_splits)
next
  case True
  define need where "need = (if room > count then count else room)"
  from True eq have notin: "mk_pos bag slot \<notin> ipc_pos ` set dest"
    and d: "d = dest @ [\<lparr>ipc_pos = mk_pos bag slot, ipc_count = ucast need\<rparr>]" and c: "c = count - need"
    by (auto simp: place_at_def Let_def need_def isContainedIn_def split: if_splits)
  have need_le: "unat need \<le> unat room" "unat need \<le> unat count" and need_pos: "0 < unat need"
    using room some by (auto simp: need_def word_nat room_ok_def unat_gt_0)
  have "unat room \<le> 255" using room st by (auto simp: room_ok_def stack_ok_def split: option.splits)
  with need_le have cast: "unat (ucast need :: uint8) = unat need"
    by (intro ucast_32_8_id) simp
  have "place_ok P pr src \<lparr>ipc_pos = mk_pos bag slot, ipc_count = ucast need\<rparr>"
    using room need_le cast by (auto simp: place_ok_def room_ok_def split: option.splits)
  moreover have "unat c = unat count - unat need" using need_le c by (simp add: unat_sub32)
  ultimately show ?thesis
    using good need_le need_pos notin cast unfolding good_dest_def d
    by (auto simp: dest_sum_def image_iff)
qed

lemma place_at_rest: "place_at bag slot room dest count = (d, c, new) \<Longrightarrow> \<not> new \<Longrightarrow> c = count"
  by (auto simp: place_at_def Let_def split: if_splits)

lemma merge_room:
  assumes "CanBeMergedPartlyWith it pr = EQUIP_ERR_OK"
  shows "i_entry it = pr_ItemId pr" and "unat (i_count it) + unat (pr_Stackable pr - i_count it) \<le> unat (pr_Stackable pr)"
    and "0 < unat (pr_Stackable pr - i_count it)"
  using assms by (auto simp: CanBeMergedPartlyWith_def GetMaxStackSize_def word_nat not_le unat_sub32 split: if_splits)

lemma store_loop_good:
  assumes "open_dest P pr src n dest count" and "stack_ok pr"
    and "\<forall>j \<in> set js. reach_pos P bag (of_nat j)"
  shows "case store_loop P bag pr merge src skip js dest count of (d, c) \<Rightarrow> good_dest P pr src n d c"
  using assms
proof (induction P bag pr merge src skip js dest count rule: store_loop.induct)
  case (1 P bag pr merge src skip dest count)
  then show ?case by (simp add: open_dest_def)
next
  case (2 P bag pr merge src skip j js dest count)
  let ?slot = "of_nat j :: uint8"
  let ?other = "other_item P bag ?slot src"
  let ?mergeable = "case ?other of None \<Rightarrow> True | Some q \<Rightarrow> CanBeMergedPartlyWith (iheap P q) pr = EQUIP_ERR_OK"
  let ?room = "case ?other of None \<Rightarrow> GetMaxStackSize pr | Some q \<Rightarrow> GetMaxStackSize pr - i_count (iheap P q)"
  show ?case
  proof (cases "skip j \<or> (?other \<noteq> None) \<noteq> merge \<or> \<not> ?mergeable")
    case True
    with "2.IH"(1-3) "2.prems" show ?thesis by (auto simp: Let_def)
  next
    case False
    then have mok: ?mergeable by blast
    have room: "room_ok P pr src bag ?slot ?room"
      using "2.prems"(2,3) mok merge_room
      by (auto simp: room_ok_def GetMaxStackSize_def stack_ok_def split: option.splits)
    obtain d c new where pl: "place_at bag ?slot ?room dest count = (d, c, new)"
      by (metis prod_cases3)
    from "2.prems"(1) have o: "good_dest P pr src n dest count" "count \<noteq> 0" by (simp_all add: open_dest_def)
    from place_at_good [OF o room "2.prems"(2) pl] have g: "good_dest P pr src n d c" .
    show ?thesis
    proof (cases "new \<and> c = 0")
      case True
      with False pl g show ?thesis by (auto simp: Let_def)
    next
      case stop: False
      have "case store_loop P bag pr merge src skip js d c of (d, c) \<Rightarrow> good_dest P pr src n d c"
        by (rule "2.IH"(4)) (use False pl stop g o "2.prems" place_at_rest [OF pl] in \<open>auto simp: Let_def open_dest_def\<close>)
      with False pl stop show ?thesis by (auto simp: Let_def)
    qed
  qed
qed

section \<open>The stages\<close>

definition good_placed :: "Player \<Rightarrow> ItemPrototype \<Rightarrow> iptr option \<Rightarrow> nat \<Rightarrow> placed \<Rightarrow> bool" where
  "good_placed P pr src n r \<longleftrightarrow> (case r of (res, d, c) \<Rightarrow> good_dest P pr src n d c \<and> (res \<noteq> EQUIP_ERR_OK \<longrightarrow> c \<noteq> 0))"

lemma reach_player_slots:
  "\<lbrakk>(lo, hi) = (INVENTORY_SLOT_ITEM_START, INVENTORY_SLOT_ITEM_END) \<or> (lo, hi) = (KEYRING_SLOT_START, KEYRING_SLOT_END)\<rbrakk>
   \<Longrightarrow> \<forall>j \<in> set [lo..<hi]. reach_pos P INVENTORY_SLOT_BAG_0 (of_nat j)"
  by (auto simp: reach_pos_def unat_of_nat)

lemma in_slots_good:
  assumes "open_dest P pr src n dest count" and "stack_ok pr"
    and "(lo, hi) = (INVENTORY_SLOT_ITEM_START, INVENTORY_SLOT_ITEM_END) \<or> (lo, hi) = (KEYRING_SLOT_START, KEYRING_SLOT_END)"
  shows "good_placed P pr src n (CanStoreItem_InInventorySlots E P lo hi pr merge src sb ss dest count)"
  using assms(1) store_loop_good [OF assms(1,2) reach_player_slots [OF assms(3)]]
  by (auto simp: good_placed_def open_dest_def CanStoreItem_InInventorySlots_def)

lemma bag_index_GetItemByPos:
  "is_bag_index bag \<Longrightarrow> GetItemByPos P INVENTORY_SLOT_BAG_0 bag = m_items P (unat bag)"
  by (auto simp: is_bag_index_def GetItemByPos_def)

lemma in_bag_good:
  assumes good: "open_dest P pr src n dest count" and st: "stack_ok pr"
    and bag: "is_bag_index bag" and sizes: "bag_sizes_ok E P"
  shows "good_placed P pr src n (CanStoreItem_InBag E P bag pr merge nons src sb ss dest count)"
proof (cases "m_items P (unat bag)")
  case None
  with good bag show ?thesis
    by (simp add: good_placed_def open_dest_def CanStoreItem_InBag_def bag_index_GetItemByPos)
next
  case (Some pb)
  show ?thesis
  proof (cases "GetProto E (iheap P pb)")
    case None
    with Some good bag show ?thesis
      by (simp add: good_placed_def open_dest_def CanStoreItem_InBag_def bag_index_GetItemByPos)
  next
    case (Some bp)
    with sizes \<open>m_items P (unat bag) = Some pb\<close> have "unat (i_numslots (iheap P pb)) \<le> MAX_BAG_SIZE"
      unfolding bag_sizes_ok_def by blast
    then have reach: "\<forall>j \<in> set [0..<unat (i_numslots (iheap P pb))]. reach_pos P bag (of_nat j)"
      using bag \<open>m_items P (unat bag) = Some pb\<close> by (auto simp: reach_pos_def unat_of_nat)
    show ?thesis
      using good store_loop_good [OF good st reach] Some \<open>m_items P (unat bag) = Some pb\<close> bag
      by (auto simp: good_placed_def open_dest_def CanStoreItem_InBag_def bag_index_GetItemByPos)
  qed
qed

lemma in_bag_either_good:
  assumes "open_dest P pr src n dest count" and "stack_ok pr"
    and "is_bag_index bag" and "bag_sizes_ok E P"
  shows "good_placed P pr src n (in_bag_either E P bag pr merge src slot dest count)"
proof -
  obtain res d c where r: "CanStoreItem_InBag E P bag pr merge False src NULL_BAG slot dest count = (res, d, c)"
    by (metis prod_cases3)
  with in_bag_good [OF assms, of merge False NULL_BAG slot] have g: "good_dest P pr src n d c" "res \<noteq> EQUIP_ERR_OK \<longrightarrow> open_dest P pr src n d c"
    by (simp_all add: good_placed_def open_dest_def)
  show ?thesis
    using in_bag_good [OF _ assms(2-4), where dest = d and count = c] g r by (auto simp: in_bag_either_def good_placed_def)
qed

lemma specific_slot_room:
  assumes "stack_ok pr" and "slot_fits E P bag slot pr src" and "other_item P bag slot src = None"
    and "bag = INVENTORY_SLOT_BAG_0 \<and> unat slot \<le> 112 \<or> is_bag_index bag" and "bag_sizes_ok E P"
  shows "room_ok P pr src bag slot (pr_Stackable pr)"
proof (cases "bag = INVENTORY_SLOT_BAG_0")
  case True
  with assms(1-4) show ?thesis
    by (auto simp: room_ok_def stack_ok_def reach_pos_def slot_fits_def is_bag_index_def not_le not_less)
next
  case False
  with assms(4) have bag: "is_bag_index bag" by auto
  with False assms(2) obtain pb bp where "m_items P (unat bag) = Some pb" "GetProto E (iheap P pb) = Some bp"
      "unat slot < unat (pr_ContainerSlots bp)"
    by (auto simp: slot_fits_def bag_index_GetItemByPos split: option.splits if_splits)
  moreover from this(1,2) assms(5) have "unat (pr_ContainerSlots bp) \<le> unat (i_numslots (iheap P pb))"
    unfolding bag_sizes_ok_def by blast
  ultimately show ?thesis using bag assms(1,3) by (auto simp: room_ok_def stack_ok_def reach_pos_def)
qed

lemma GetItemByPos_reach: "GetItemByPos P bag slot = Some q \<Longrightarrow> reach_pos P bag slot"
  by (auto simp: GetItemByPos_def reach_pos_def Bag_GetItemByPos_def split: if_splits option.splits)

lemma specific_slot_good:
  assumes good: "open_dest P pr src n dest count" and st: "stack_ok pr"
    and pos: "bag = INVENTORY_SLOT_BAG_0 \<and> unat slot \<le> 112 \<or> is_bag_index bag" and sizes: "bag_sizes_ok E P"
  shows "good_placed P pr src n (CanStoreItem_InSpecificSlot E P bag slot pr False src dest count)"
proof -
  have put: "good_placed P pr src n (case place_at bag slot room dest count of (d, c, _) \<Rightarrow> (EQUIP_ERR_OK, d, c))"
    if "room_ok P pr src bag slot room" for room
  proof -
    obtain d c new where "place_at bag slot room dest count = (d, c, new)" by (metis prod_cases3)
    with place_at_good [OF open_destD [OF good] _ that st this] good show ?thesis by (simp add: good_placed_def open_dest_def)
  qed
  show ?thesis
  proof (cases "other_item P bag slot src")
    case None
    with good specific_slot_room [OF st _ None pos sizes] put show ?thesis
      by (auto simp: CanStoreItem_InSpecificSlot_def Let_def good_placed_def open_dest_def)
  next
    case (Some q)
    then have "reach_pos P bag slot"
      by (auto simp: other_item_def Let_def intro: GetItemByPos_reach split: if_splits)
    with Some merge_room have "CanBeMergedPartlyWith (iheap P q) pr = EQUIP_ERR_OK \<Longrightarrow>
        room_ok P pr src bag slot (pr_Stackable pr - i_count (iheap P q))"
      by (auto simp: room_ok_def)
    with good Some put show ?thesis
      by (auto simp: CanStoreItem_InSpecificSlot_def Let_def good_placed_def open_dest_def)
  qed
qed

text \<open>A continuation is sound when it ends well from every good intermediate result.\<close>

definition sound_from :: "Player \<Rightarrow> ItemPrototype \<Rightarrow> iptr option \<Rightarrow> nat \<Rightarrow> uint32 \<Rightarrow> (dest \<Rightarrow> uint32 \<Rightarrow> check) \<Rightarrow> bool" where
  "sound_from P pr src n nsim k \<longleftrightarrow>
     (\<forall>d c. open_dest P pr src n d c \<longrightarrow> good_check P pr src n nsim (k d c))"

lemma sound_fromD: "sound_from P pr src n nsim k \<Longrightarrow> open_dest P pr src n d c \<Longrightarrow> good_check P pr src n nsim (k d c)"
  by (simp add: sound_from_def)

lemma finish_or_good:
  assumes "good_placed P pr src n r" and "sound_from P pr src n nsim k"
  shows "good_check P pr src n nsim (finish_or nsim r k)"
  using assms by (auto simp: finish_or_def good_placed_def sound_from_def open_dest_def good_check_def split: prod.splits)

lemma bag_loop_good:
  assumes "\<And>i d c. i \<in> set is \<Longrightarrow> open_dest P pr src n d c \<Longrightarrow> good_placed P pr src n (f i d c)"
    and "sound_from P pr src n nsim k" and "open_dest P pr src n dest count"
  shows "good_check P pr src n nsim (bag_loop f nsim is dest count k)"
  using assms
proof (induction "is" arbitrary: dest count)
  case Nil
  then show ?case by (simp add: sound_from_def)
next
  case (Cons i "is")
  obtain res d c where r: "f i dest count = (res, d, c)" by (metis prod_cases3)
  with Cons.prems have g: "good_placed P pr src n (res, d, c)" by fastforce
  have rest: "good_check P pr src n nsim (bag_loop f nsim is d' c' k)" if "open_dest P pr src n d' c'" for d' c'
    using that Cons.prems by (intro Cons.IH) auto
  then have s: "sound_from P pr src n nsim (\<lambda>d c. bag_loop f nsim is d c k)"
    by (simp add: sound_from_def)
  from r finish_or_good [OF g s] show ?case
    by (cases "res = EQUIP_ERR_OK") (use g in \<open>auto intro: rest simp: good_placed_def open_dest_def\<close>)
qed

declare bag_loop.simps [simp del]

lemma bag_slots_index: "i \<in> set bag_slots \<Longrightarrow> is_bag_index i"
  by (auto simp: is_bag_index_def)

section \<open>The whole check\<close>

lemma any_free_sound:
  assumes "stack_ok pr" and "bag_sizes_ok E P"
  shows "sound_from P pr src n nsim (\<lambda>d c. store_any_free E P bag slot pr src nsim d c)"
proof -
  have last: "sound_from P pr src n nsim (\<lambda>d c. (EQUIP_ERR_INVENTORY_FULL, d, Some (c + nsim)))"
    by (simp add: sound_from_def good_check_def)
  have bags: "sound_from P pr src n nsim (\<lambda>d c. bag_loop (\<lambda>i d c. CanStoreItem_InBag E P i pr False True src bag slot d c)
      nsim bag_slots d c (\<lambda>d c. (EQUIP_ERR_INVENTORY_FULL, d, Some (c + nsim))))"
    unfolding sound_from_def
    by (intro allI impI bag_loop_good last in_bag_good bag_slots_index assms)
  show ?thesis
    unfolding sound_from_def store_any_free_def
    by (auto simp: good_check_def [of _ _ _ _ _ "(EQUIP_ERR_NONEMPTY_BAG_OVER_OTHER_BAG, _, _)"]
        intro!: finish_or_good bags in_slots_good assms)
qed

lemma any_special_sound:
  assumes "stack_ok pr" and "bag_sizes_ok E P" and "sound_from P pr src n nsim k"
  shows "sound_from P pr src n nsim (\<lambda>d c. store_any_special E P bag slot pr src nsim d c k)"
proof -
  have bags: "sound_from P pr src n nsim (\<lambda>d c. bag_loop (\<lambda>i d c. CanStoreItem_InBag E P i pr False False src bag slot d c)
      nsim bag_slots d c k)"
    unfolding sound_from_def
    by (intro allI impI bag_loop_good assms in_bag_good bag_slots_index)
  show ?thesis
    unfolding sound_from_def store_any_special_def Let_def
    by (auto intro!: finish_or_good bags sound_fromD [OF bags] sound_fromD [OF assms(3)] in_slots_good assms)
qed

lemma any_merge_sound:
  assumes "stack_ok pr" and "bag_sizes_ok E P" and "sound_from P pr src n nsim k"
  shows "sound_from P pr src n nsim (\<lambda>d c. store_any_merge E P bag slot pr src nsim d c k)"
proof -
  let ?loop = "\<lambda>nons k d c. bag_loop (\<lambda>i d c. CanStoreItem_InBag E P i pr True nons src bag slot d c) nsim bag_slots d c k"
  have loop: "sound_from P pr src n nsim (?loop nons k)" if "sound_from P pr src n nsim k" for nons k
    unfolding sound_from_def
    by (intro allI impI bag_loop_good assms in_bag_good bag_slots_index that)
  have bags: "sound_from P pr src n nsim
      (\<lambda>d c. if pr_BagFamily pr \<noteq> 0 then ?loop False (?loop True k) d c else ?loop True k d c)"
    using loop [OF assms(3), of True] loop [OF loop [OF assms(3), of True], of False]
    by (cases "pr_BagFamily pr = 0") simp_all
  have inv: "sound_from P pr src n nsim (\<lambda>d c. finish_or nsim
      (CanStoreItem_InInventorySlots E P INVENTORY_SLOT_ITEM_START INVENTORY_SLOT_ITEM_END pr True src bag slot d c)
      (\<lambda>d c. if pr_BagFamily pr \<noteq> 0 then ?loop False (?loop True k) d c else ?loop True k d c))"
    unfolding sound_from_def
    by (intro allI impI finish_or_good bags in_slots_good assms) simp_all
  show ?thesis
    unfolding sound_from_def store_any_merge_def Let_def
    by (auto intro!: finish_or_good inv sound_fromD [OF assms(3)] in_slots_good assms)
qed

lemma specific_bag_free_sound:
  assumes "stack_ok pr" and "bag_sizes_ok E P" and "sound_from P pr src n nsim k"
    and "bag = INVENTORY_SLOT_BAG_0 \<or> is_bag_index bag"
  shows "sound_from P pr src n nsim (\<lambda>d c. store_specific_bag_free E P bag slot pr src nsim d c k)"
proof -
  have inv: "sound_from P pr src n nsim (\<lambda>d c. finish_or nsim
      (CanStoreItem_InInventorySlots E P INVENTORY_SLOT_ITEM_START INVENTORY_SLOT_ITEM_END pr False src sb slot d c) k)" for sb
    unfolding sound_from_def
    by (intro allI impI finish_or_good assms in_slots_good) simp_all
  show ?thesis
    using assms(4) unfolding sound_from_def store_specific_bag_free_def Let_def
    by (auto intro!: finish_or_good inv sound_fromD [OF inv] in_slots_good in_bag_either_good assms(1-3))
qed

lemma specific_bag_merge_sound:
  assumes "stack_ok pr" and "bag_sizes_ok E P" and "sound_from P pr src n nsim k"
    and "bag = INVENTORY_SLOT_BAG_0 \<or> is_bag_index bag"
  shows "sound_from P pr src n nsim (\<lambda>d c. store_specific_bag_merge E P bag slot pr src nsim d c k)"
proof -
  have inv: "sound_from P pr src n nsim (\<lambda>d c. finish_or nsim
      (CanStoreItem_InInventorySlots E P INVENTORY_SLOT_ITEM_START INVENTORY_SLOT_ITEM_END pr True src sb slot d c) k)" for sb
    unfolding sound_from_def
    by (intro allI impI finish_or_good assms in_slots_good) simp_all
  show ?thesis
    using assms(4) unfolding sound_from_def store_specific_bag_merge_def
    by (auto intro!: finish_or_good inv sound_fromD [OF assms(3)] in_slots_good in_bag_either_good assms(1-3))
qed

lemma store_specific_slot_good:
  assumes "stack_ok pr" and "bag_sizes_ok E P" and "open_dest P pr src n dest count"
    and "bag = NULL_BAG \<or> bag = INVENTORY_SLOT_BAG_0 \<or> is_bag_index bag" and "sound_from P pr src n nsim k"
  shows "good_check P pr src n nsim (store_specific_slot E P bag slot pr False src nsim dest count k)"
proof (cases "bag \<noteq> NULL_BAG \<and> slot \<noteq> NULL_SLOT")
  case True
  then show ?thesis
    unfolding store_specific_slot_def using assms(4)
    by (auto intro!: finish_or_good specific_slot_good assms(1-3,5)
        simp: good_check_def [of _ _ _ _ _ "(EQUIP_ERR_ITEM_DOESNT_GO_TO_SLOT, _, _)"])
next
  case False
  with sound_fromD [OF assms(5,3)] show ?thesis unfolding store_specific_slot_def by auto
qed

lemma store_stages_good:
  assumes "stack_ok pr" and "bag_sizes_ok E P" and "open_dest P pr src n dest count"
    and "bag = NULL_BAG \<or> bag = INVENTORY_SLOT_BAG_0 \<or> is_bag_index bag"
  shows "good_check P pr src n nsim (store_stages E P bag slot pr False src nsim dest count)"
proof -
  let ?any = "\<lambda>d c. store_any_merge E P bag slot pr src nsim d c
    (\<lambda>d c. store_any_special E P bag slot pr src nsim d c (\<lambda>d c. store_any_free E P bag slot pr src nsim d c))"
  let ?bag = "\<lambda>d c. if bag \<noteq> NULL_BAG then store_specific_bag_merge E P bag slot pr src nsim d c
      (\<lambda>d c. store_specific_bag_free E P bag slot pr src nsim d c ?any) else ?any d c"
  have any: "sound_from P pr src n nsim ?any"
    by (intro any_merge_sound any_special_sound any_free_sound assms)
  have named: "sound_from P pr src n nsim ?bag"
  proof (cases "bag = NULL_BAG")
    case False
    with assms(4) have "bag = INVENTORY_SLOT_BAG_0 \<or> is_bag_index bag" by simp
    with False show ?thesis
      by (simp add: specific_bag_merge_sound specific_bag_free_sound any assms(1,2))
  qed (use any in simp)
  from store_specific_slot_good [OF assms named] show ?thesis
    by (simp add: store_stages_def Let_def)
qed

lemma CanTakeMore_nonzero:
  assumes "CanTakeMoreSimilarItems E P entry count pItem = (res, nsc)" and "e_protos E entry = Some pr"
    and "res \<noteq> EQUIP_ERR_OK"
  shows "\<exists>m. nsc = Some m \<and> m \<noteq> 0"
  using assms by (auto simp: CanTakeMoreSimilarItems_def Let_def add.commute split: if_splits)

theorem CanStoreItem_impl_sound:
  assumes "e_protos E entry = Some pr" and "stack_ok pr" and "bag_sizes_ok E P"
    and "bag = NULL_BAG \<or> bag = INVENTORY_SLOT_BAG_0 \<or> is_bag_index bag"
    and some: "count \<noteq> 0" and ok: "CanStoreItem_impl E P bag slot [] entry count src False = (EQUIP_ERR_OK, dest, r)"
  shows "good_dest P pr src (unat count) dest 0" and "fst (CanTakeMoreSimilarItems E P entry count src) = EQUIP_ERR_OK"
proof -
  obtain res nsc where t: "CanTakeMoreSimilarItems E P entry count src = (res, nsc)" by fastforce
  define nsim where "nsim = (case nsc of None \<Rightarrow> 0 | Some n \<Rightarrow> n)"
  define count' where "count' = (if res \<noteq> EQUIP_ERR_OK then count - nsim else count)"
  have run: "store_stages E P bag slot pr False src nsim [] count' = (EQUIP_ERR_OK, dest, r)"
    using ok t assms(1)
    by (auto simp: CanStoreItem_impl_def Let_def nsim_def count'_def split: if_splits)
  have "count' \<noteq> 0"
    using ok t assms(1) some by (auto simp: CanStoreItem_impl_def Let_def nsim_def count'_def split: if_splits)
  then have "open_dest P pr src (unat count') [] count'" by (simp add: open_dest_def good_dest_def dest_sum_def)
  from store_stages_good [OF assms(2,3) this assms(4), of nsim slot] run
  have "nsim = 0" and g: "good_dest P pr src (unat count') dest 0"
    by (auto simp: good_check_def)
  with CanTakeMore_nonzero [OF t assms(1)] have "res = EQUIP_ERR_OK"
    by (cases nsc) (auto simp: nsim_def)
  with g t show "good_dest P pr src (unat count) dest 0" "fst (CanTakeMoreSimilarItems E P entry count src) = EQUIP_ERR_OK"
    by (simp_all add: count'_def)
qed

end
