(* ===== verification/Inventory_View.thy ===== *)
theory Inventory_View
  imports Item_Store Store_Check_Sound
begin

unbundle bit_operations_syntax

text \<open>
  The abstract view of an inventory. \<open>stock P\<close> maps a position (bag, slot) to the entry and the
  number of pieces stored there; \<open>total\<close> sums the pieces of one entry over all positions.
  \<open>inv_wf\<close> says that the pointers agree: an item in a slot knows its slot and its bag, is allocated
  and not freed.

  Most steps of the storage operations (update queue, enchantment timers, packets, binding flags)
  do not touch what the view depends on. They leave \<open>inv_view\<close>, the slot array and the storage
  fields of every item, as it is: these are the frame lemmas.
\<close>

section \<open>Frames\<close>

definition core :: "Item \<Rightarrow> uint32 \<times> uint32 \<times> uint8 \<times> iptr option \<times> uint32 \<times> (nat \<Rightarrow> iptr option)" where
  "core it = (i_entry it, i_count it, i_slot it, i_container it, i_numslots it, i_bagslot it)"

definition inv_view where
  "inv_view P = (m_items P, \<lambda>p. core (iheap P p), inext P)"

definition pl_frame where
  "pl_frame P = (pl_guid P, pl_name P, pl_rank P, pl_money P, pl_inworld P, m_itemUpdateQueueBlocked P)"

lemma inv_view_pemit [simp]: "inv_view (pemit e P) = inv_view P"
  by (simp add: inv_view_def pemit_def)

lemma inv_view_upd_item: "core (f (iheap P p)) = core (iheap P p) \<Longrightarrow> inv_view (upd_item p f P) = inv_view P"
  by (auto simp: inv_view_def upd_item_def fun_eq_iff)

lemma inv_view_fields [simp]:
  "inv_view (P\<lparr>m_itemUpdateQueue := q\<rparr>) = inv_view P" "inv_view (P\<lparr>ifreed := fr\<rparr>) = inv_view P"
  "inv_view (P\<lparr>m_enchantDuration := ed\<rparr>) = inv_view P" "inv_view (P\<lparr>m_itemDuration := idu\<rparr>) = inv_view P"
  "inv_view (P\<lparr>pl_money := mo\<rparr>) = inv_view P"
  by (simp_all add: inv_view_def)

lemma inv_view_delete_item [simp]: "inv_view (delete_item p P) = inv_view P"
  by (simp add: delete_item_def)

lemma inv_view_queue [simp]:
  "inv_view (AddToUpdateQueueOf p P) = inv_view P" "inv_view (RemoveFromUpdateQueueOf p P) = inv_view P"
  by (auto simp: AddToUpdateQueueOf_def RemoveFromUpdateQueueOf_def inv_view_upd_item core_def split: option.splits)

lemma inv_view_SetState [simp]: "inv_view (SetState p st P) = inv_view P"
  by (simp add: SetState_def inv_view_upd_item core_def)

lemma inv_view_enchant [simp]:
  "inv_view (SetEnchantment p sl a b c P) = inv_view P"
  "inv_view (SetEnchantmentDuration p sl a P) = inv_view P"
  "inv_view (ClearEnchantment p sl P) = inv_view P"
  by (simp_all add: SetEnchantment_def SetEnchantmentDuration_def ClearEnchantment_def Let_def inv_view_upd_item core_def)

lemma inv_view_fold: "(\<And>x Q. inv_view (f x Q) = inv_view Q) \<Longrightarrow> inv_view (fold f xs P) = inv_view P"
  by (induction xs arbitrary: P) simp_all

lemma inv_view_random [simp]: "inv_view (SetItemRandomProperties E p r P) = inv_view P"
  by (simp add: SetItemRandomProperties_def Let_def inv_view_fold inv_view_upd_item core_def split: option.splits)

lemma inv_view_durations [simp]:
  "inv_view (RemoveEnchantmentDurations p P) = inv_view P"
  "inv_view (AddEnchantmentDuration p sl d P) = inv_view P"
  "inv_view (RemoveItemDurations p P) = inv_view P"
  "inv_view (AddItemDurations p P) = inv_view P"
  by (auto simp: RemoveEnchantmentDurations_def AddEnchantmentDuration_def RemoveItemDurations_def AddItemDurations_def
      Let_def inv_view_fold split: option.splits prod.splits)

lemma inv_view_AddEnchantmentDurations [simp]: "inv_view (AddEnchantmentDurations p P) = inv_view P"
  unfolding AddEnchantmentDurations_def by (rule inv_view_fold) (simp add: Let_def)

lemma inv_view_effects [simp]:
  "inv_view (bind_on_store E pos p P) = inv_view P" "inv_view (show_item u p P) = inv_view P"
  "inv_view (discard_item p u P) = inv_view P" "inv_view (remove_mods E p sl P) = inv_view P"
  "inv_view (unequip_effects p sl P) = inv_view P"
  by (simp_all add: bind_on_store_def show_item_def discard_item_def remove_mods_def unequip_effects_def Let_def
      inv_view_upd_item core_def ApplyModFlag_def split: option.splits)

lemma inv_view_money [simp]: "inv_view (ModifyMoney E d P) = inv_view P"
  by (simp add: ModifyMoney_def SetMoney_def Let_def)

text \<open>Updates commute with a view: an update applied to two states of the same view.\<close>

lemma inv_viewD:
  assumes "inv_view P = inv_view Q"
  shows "m_items P = m_items Q" and "core (iheap P p) = core (iheap Q p)" and "inext P = inext Q"
  using assms by (auto simp: inv_view_def dest: fun_cong)

lemma coreD:
  assumes "core a = core b"
  shows "i_entry a = i_entry b" "i_count a = i_count b" "i_slot a = i_slot b" "i_container a = i_container b"
    "i_numslots a = i_numslots b" "i_bagslot a = i_bagslot b"
  using assms by (auto simp: core_def)

lemmas view_itemD = coreD [OF inv_viewD(2)]

lemma GetItemByPos_view:
  assumes "inv_view P = inv_view Q"
  shows "GetItemByPos P b s = GetItemByPos Q b s"
proof -
  have "Bag_GetItemByPos (iheap P pb) s = Bag_GetItemByPos (iheap Q pb) s" for pb
    by (simp add: Bag_GetItemByPos_def view_itemD [OF assms])
  then show ?thesis
    by (simp only: GetItemByPos_def inv_viewD [OF assms])
qed

lemma GetBagSlot_view: "inv_view P = inv_view Q \<Longrightarrow> GetBagSlot P p = GetBagSlot Q p"
  by (simp add: GetBagSlot_def view_itemD [of P Q] split: option.splits)

lemma inv_view_upd_cong:
  assumes "inv_view P = inv_view Q" and "\<And>a b. core a = core b \<Longrightarrow> core (f a) = core (g b)"
  shows "inv_view (upd_item p f P) = inv_view (upd_item p g Q)"
  using assms inv_viewD [OF assms(1)] by (auto simp: inv_view_def upd_item_def fun_eq_iff)

lemma inv_view_m_items_cong:
  "inv_view P = inv_view Q \<Longrightarrow> inv_view (P\<lparr>m_items := f (m_items P)\<rparr>) = inv_view (Q\<lparr>m_items := f (m_items Q)\<rparr>)"
  by (simp add: inv_view_def)

lemma inv_view_Bag_StoreItem_cong:
  "inv_view P = inv_view Q \<Longrightarrow> inv_view (Bag_StoreItem pb slot p P) = inv_view (Bag_StoreItem pb slot p Q)"
  unfolding Bag_StoreItem_def Let_def
  by (intro inv_view_upd_cong) (auto simp: core_def)

lemma inv_view_Bag_RemoveItem_cong:
  assumes "inv_view P = inv_view Q"
  shows "inv_view (Bag_RemoveItem pb slot P) = inv_view (Bag_RemoveItem pb slot Q)"
proof -
  have "i_bagslot (iheap P pb) = i_bagslot (iheap Q pb)" by (rule view_itemD(6) [OF assms])
  then show ?thesis
    unfolding Bag_RemoveItem_def Let_def using assms
    by (intro inv_view_upd_cong) (auto simp: core_def split: option.split intro!: inv_view_upd_cong)
qed

section \<open>What stays of the player\<close>

lemma pl_frame_pemit [simp]: "pl_frame (pemit e P) = pl_frame P"
  by (simp add: pl_frame_def pemit_def)

lemma pl_frame_upd_item [simp]: "pl_frame (upd_item p f P) = pl_frame P"
  by (simp add: pl_frame_def upd_item_def)

lemma pl_frame_fields [simp]:
  "pl_frame (P\<lparr>m_itemUpdateQueue := q\<rparr>) = pl_frame P" "pl_frame (P\<lparr>ifreed := fr\<rparr>) = pl_frame P"
  "pl_frame (P\<lparr>m_enchantDuration := ed\<rparr>) = pl_frame P" "pl_frame (P\<lparr>m_itemDuration := idu\<rparr>) = pl_frame P"
  "pl_frame (P\<lparr>m_items := mi\<rparr>) = pl_frame P"
  "pl_frame (P\<lparr>inext := ne, iheap := ih\<rparr>) = pl_frame P"
  by (simp_all add: pl_frame_def)

lemma pl_frame_queue [simp]:
  "pl_frame (AddToUpdateQueueOf p P) = pl_frame P" "pl_frame (RemoveFromUpdateQueueOf p P) = pl_frame P"
  "pl_frame (delete_item p P) = pl_frame P" "pl_frame (SetState p st P) = pl_frame P"
  by (auto simp: AddToUpdateQueueOf_def RemoveFromUpdateQueueOf_def delete_item_def SetState_def split: option.splits)

lemma pl_frame_fold: "(\<And>x Q. pl_frame (f x Q) = pl_frame Q) \<Longrightarrow> pl_frame (fold f xs P) = pl_frame P"
  by (induction xs arbitrary: P) simp_all

lemma pl_frame_enchant [simp]:
  "pl_frame (SetEnchantment p sl a b c P) = pl_frame P"
  "pl_frame (SetEnchantmentDuration p sl a P) = pl_frame P"
  "pl_frame (ClearEnchantment p sl P) = pl_frame P"
  "pl_frame (SetItemRandomProperties E p r P) = pl_frame P"
  by (simp_all add: SetEnchantment_def SetEnchantmentDuration_def ClearEnchantment_def SetItemRandomProperties_def
      Let_def pl_frame_fold split: option.splits)

lemma pl_frame_durations [simp]:
  "pl_frame (RemoveEnchantmentDurations p P) = pl_frame P"
  "pl_frame (AddEnchantmentDuration p sl d P) = pl_frame P"
  "pl_frame (RemoveItemDurations p P) = pl_frame P"
  "pl_frame (AddItemDurations p P) = pl_frame P"
  by (auto simp: RemoveEnchantmentDurations_def AddEnchantmentDuration_def RemoveItemDurations_def AddItemDurations_def
      Let_def pl_frame_fold split: option.splits prod.splits)

lemma pl_frame_AddEnchantmentDurations [simp]: "pl_frame (AddEnchantmentDurations p P) = pl_frame P"
  unfolding AddEnchantmentDurations_def by (rule pl_frame_fold) (simp add: Let_def)

lemma pl_frame_effects [simp]:
  "pl_frame (bind_on_store E pos p P) = pl_frame P" "pl_frame (show_item u p P) = pl_frame P"
  "pl_frame (discard_item p u P) = pl_frame P" "pl_frame (remove_mods E p sl P) = pl_frame P"
  "pl_frame (unequip_effects p sl P) = pl_frame P" "pl_frame (Bag_StoreItem pb slot p P) = pl_frame P"
  "pl_frame (Bag_RemoveItem pb slot P) = pl_frame P"
  by (simp_all add: bind_on_store_def show_item_def discard_item_def remove_mods_def unequip_effects_def
      Bag_StoreItem_def Bag_RemoveItem_def Let_def split: option.splits)

section \<open>What is freed\<close>

lemma ifreed_pemit [simp]: "ifreed (pemit e P) = ifreed P"
  by (simp add: pemit_def)

lemma ifreed_upd_item [simp]: "ifreed (upd_item p f P) = ifreed P"
  by (simp add: upd_item_def)

lemma ifreed_queue [simp]:
  "ifreed (AddToUpdateQueueOf p P) = ifreed P" "ifreed (RemoveFromUpdateQueueOf p P) = ifreed P"
  by (auto simp: AddToUpdateQueueOf_def RemoveFromUpdateQueueOf_def split: option.splits)

lemma ifreed_SetState: "st \<noteq> ITEM_REMOVED \<Longrightarrow> ifreed (SetState p st P) = ifreed P"
  by (simp add: SetState_def)

lemma ifreed_SetState_changed [simp]: "ifreed (SetState p ITEM_CHANGED P) = ifreed P"
  by (simp add: ifreed_SetState)

lemma map_filter_None: "List.map_filter (\<lambda>x. None) xs = []"
  by (induction xs) (simp_all add: List.map_filter_simps)

lemma RemoveFromUpdateQueueOf_bagslot:
  "i_bagslot (iheap (RemoveFromUpdateQueueOf p P) q) = i_bagslot (iheap P q)"
  by (rule view_itemD(6)) simp

lemma ifreed_SetState_removed:
  assumes "\<forall>i. i_bagslot (iheap P p) i = None"
  shows "ifreed (SetState p ITEM_REMOVED P) = (if i_state (iheap P p) = ITEM_NEW then p # ifreed P else ifreed P)"
proof -
  from assms have "i_bagslot (iheap P p) = (\<lambda>_. None)" by auto
  then show ?thesis
    by (simp add: SetState_def delete_item_def RemoveFromUpdateQueueOf_bagslot map_filter_None)
qed

lemma ifreed_fold: "(\<And>x Q. ifreed (f x Q) = ifreed Q) \<Longrightarrow> ifreed (fold f xs P) = ifreed P"
  by (induction xs arbitrary: P) simp_all

lemma ifreed_enchant [simp]:
  "ifreed (SetEnchantment p sl a b c P) = ifreed P"
  "ifreed (SetEnchantmentDuration p sl a P) = ifreed P"
  "ifreed (ClearEnchantment p sl P) = ifreed P"
  "ifreed (SetItemRandomProperties E p r P) = ifreed P"
  by (simp_all add: SetEnchantment_def SetEnchantmentDuration_def ClearEnchantment_def SetItemRandomProperties_def
      Let_def ifreed_fold split: option.splits)

lemma ifreed_durations [simp]:
  "ifreed (RemoveEnchantmentDurations p P) = ifreed P"
  "ifreed (AddEnchantmentDuration p sl d P) = ifreed P"
  "ifreed (RemoveItemDurations p P) = ifreed P"
  "ifreed (AddItemDurations p P) = ifreed P"
  by (auto simp: RemoveEnchantmentDurations_def AddEnchantmentDuration_def RemoveItemDurations_def AddItemDurations_def
      Let_def ifreed_fold split: option.splits prod.splits)

lemma ifreed_AddEnchantmentDurations [simp]: "ifreed (AddEnchantmentDurations p P) = ifreed P"
  unfolding AddEnchantmentDurations_def by (rule ifreed_fold) (simp add: Let_def)

lemma ifreed_effects [simp]:
  "ifreed (bind_on_store E pos p P) = ifreed P" "ifreed (show_item u p P) = ifreed P"
  "ifreed (remove_mods E p sl P) = ifreed P" "ifreed (unequip_effects p sl P) = ifreed P"
  "ifreed (Bag_StoreItem pb slot p P) = ifreed P" "ifreed (Bag_RemoveItem pb slot P) = ifreed P"
  by (simp_all add: bind_on_store_def show_item_def remove_mods_def unequip_effects_def
      Bag_StoreItem_def Bag_RemoveItem_def Let_def split: option.splits)

lemma ifreed_discard_item:
  assumes "\<forall>i. i_bagslot (iheap P p) i = None"
  shows "set (ifreed (discard_item p u P)) \<subseteq> insert p (set (ifreed P))"
proof -
  let ?Q = "upd_item p (\<lambda>it. it\<lparr>i_owner := pl_guid P\<rparr>) (RemoveItemDurations p (RemoveEnchantmentDurations p
           (if pl_inworld P \<and> u then pemit (DestroyForPlayer p) P else P)))"
  have "inv_view ?Q = inv_view P" by (simp add: inv_view_upd_item core_def)
  from view_itemD(6) [OF this] assms have "\<forall>i. i_bagslot (iheap ?Q p) i = None" by simp
  from ifreed_SetState_removed [OF this] show ?thesis
    unfolding discard_item_def by auto
qed

end
