(* ===== verification/Inventory_Spec.thy ===== *)
theory Inventory_Spec
  imports Inventory_View
begin

text \<open>
  The abstract inventory: \<open>stock\<close>, \<open>total\<close>, the well-formedness \<open>inv_wf\<close>, and the elementary
  heap updates of the storage operations as updates of the stock at one position.
\<close>

section \<open>Stock and totals\<close>

type_synonym stack = "uint32 \<times> nat"
type_synonym position = "uint8 \<times> uint8"

definition stock :: "Player \<Rightarrow> position \<Rightarrow> stack option" where
  "stock P bs = map_option (\<lambda>p. (i_entry (iheap P p), unat (i_count (iheap P p)))) (GetItemByPos P (fst bs) (snd bs))"

definition slot_list :: "nat \<Rightarrow> nat \<Rightarrow> uint8 list" where
  "slot_list lo hi = map of_nat [lo..<hi]"

definition all_pos :: "position list" where
  "all_pos =
     List.product [INVENTORY_SLOT_BAG_0] (slot_list 0 BANK_SLOT_BAG_END @ slot_list KEYRING_SLOT_START KEYRING_SLOT_END) @
     List.product (slot_list INVENTORY_SLOT_BAG_START INVENTORY_SLOT_BAG_END @ slot_list BANK_SLOT_BAG_START BANK_SLOT_BAG_END)
       (slot_list 0 MAX_BAG_SIZE)"

fun pieces :: "uint32 \<Rightarrow> stack option \<Rightarrow> nat" where
  "pieces e None = 0"
| "pieces e (Some (e', n)) = (if e' = e then n else 0)"

definition total :: "(position \<Rightarrow> stack option) \<Rightarrow> uint32 \<Rightarrow> nat" where
  "total st e = (\<Sum>bs\<leftarrow>all_pos. pieces e (st bs))"

definition stored_count :: "Player \<Rightarrow> uint32 \<Rightarrow> nat" where
  "stored_count P e = total (stock P) e"

lemma in_slot_list: "hi \<le> 256 \<Longrightarrow> x \<in> set (slot_list lo hi) \<longleftrightarrow> lo \<le> unat x \<and> unat x < hi"
proof
  assume "hi \<le> 256" and "x \<in> set (slot_list lo hi)"
  then show "lo \<le> unat x \<and> unat x < hi" by (auto simp: slot_list_def unat_of_nat)
next
  assume "lo \<le> unat x \<and> unat x < hi"
  then have "of_nat (unat x) \<in> (of_nat :: nat \<Rightarrow> uint8) ` set [lo..<hi]" by (intro imageI) simp
  then show "x \<in> set (slot_list lo hi)" by (simp add: slot_list_def)
qed

lemma distinct_slot_list: "hi \<le> 256 \<Longrightarrow> distinct (slot_list lo hi)"
  by (auto simp: slot_list_def distinct_map inj_on_def word_unat_eq_iff unat_of_nat)

lemma distinct_all_pos: "distinct all_pos"
  unfolding all_pos_def distinct_append
  by (intro conjI distinct_product) (auto simp: in_slot_list distinct_slot_list)

lemma in_all_pos:
  "(b, s) \<in> set all_pos \<longleftrightarrow>
     (b = INVENTORY_SLOT_BAG_0 \<and> (unat s < BANK_SLOT_BAG_END \<or> (KEYRING_SLOT_START \<le> unat s \<and> unat s < KEYRING_SLOT_END))) \<or>
     (is_bag_index b \<and> unat s < MAX_BAG_SIZE)"
  by (auto simp: all_pos_def is_bag_index_def in_slot_list)

lemma total_upd:
  assumes "pos \<in> set all_pos"
  shows "total (st(pos := x)) e + pieces e (st pos) = total st e + pieces e x"
  using sum_list_change [OF distinct_all_pos assms, of "\<lambda>bs. pieces e ((st(pos := x)) bs)" "\<lambda>bs. pieces e (st bs)"]
  by (simp add: total_def)

lemma stock_view: "inv_view P = inv_view Q \<Longrightarrow> stock P = stock Q"
  by (auto simp: stock_def fun_eq_iff GetItemByPos_view [of P Q] view_itemD [of P Q])

section \<open>Well-formed inventories\<close>

definition player_slot :: "uint8 \<Rightarrow> bool" where
  "player_slot s \<longleftrightarrow> unat s < BANK_SLOT_BAG_END \<or> (KEYRING_SLOT_START \<le> unat s \<and> unat s < KEYRING_SLOT_END)"

definition inv_wf :: "Player \<Rightarrow> bool" where
  "inv_wf P \<longleftrightarrow>
     (\<forall>b s p. GetItemByPos P b s = Some p \<longrightarrow>
        p < inext P \<and> p \<notin> set (ifreed P) \<and> i_slot (iheap P p) = s \<and>
        i_container (iheap P p) = (if b = INVENTORY_SLOT_BAG_0 then None else m_items P (unat b))) \<and>
     (\<forall>b p. is_bag_index b \<longrightarrow> m_items P (unat b) = Some p \<longrightarrow> unat (i_numslots (iheap P p)) \<le> MAX_BAG_SIZE) \<and>
     (\<forall>q. q \<in> set (ifreed P) \<longrightarrow> q < inext P)"

definition detached :: "Player \<Rightarrow> iptr \<Rightarrow> bool" where
  "detached P p \<longleftrightarrow> p < inext P \<and> p \<notin> set (ifreed P) \<and> (\<forall>b s. GetItemByPos P b s \<noteq> Some p) \<and>
     (\<forall>i. i_bagslot (iheap P p) i = None) \<and> unat (i_numslots (iheap P p)) \<le> MAX_BAG_SIZE"

lemma not_bag_index_255 [simp]: "\<not> is_bag_index 255"
  by (simp add: is_bag_index_def)

lemma bag_index_not_255: "is_bag_index b \<Longrightarrow> b \<noteq> 255"
  by auto

lemma bag_index_player_slot: "is_bag_index b \<Longrightarrow> player_slot b"
  by (auto simp: is_bag_index_def player_slot_def)

lemma GetItemByPos_player: "GetItemByPos P INVENTORY_SLOT_BAG_0 s = (if player_slot s then m_items P (unat s) else None)"
  by (simp add: GetItemByPos_def player_slot_def)

lemma GetItemByPos_bag:
  "b \<noteq> INVENTORY_SLOT_BAG_0 \<Longrightarrow> GetItemByPos P b s =
     (if is_bag_index b then case m_items P (unat b) of None \<Rightarrow> None | Some pb \<Rightarrow> Bag_GetItemByPos (iheap P pb) s else None)"
  by (simp add: GetItemByPos_def)

lemma reach_pos_alt:
  "reach_pos P b s \<longleftrightarrow> (b = INVENTORY_SLOT_BAG_0 \<and> player_slot s) \<or>
     (is_bag_index b \<and> (\<exists>pb. m_items P (unat b) = Some pb \<and> unat s < unat (i_numslots (iheap P pb))))"
  by (simp add: reach_pos_def player_slot_def)

lemma inv_wfD:
  assumes "inv_wf P" and "GetItemByPos P b s = Some p"
  shows "p < inext P" and "p \<notin> set (ifreed P)" and "i_slot (iheap P p) = s"
    and "i_container (iheap P p) = (if b = INVENTORY_SLOT_BAG_0 then None else m_items P (unat b))"
  using assms unfolding inv_wf_def by blast+

lemma inv_wf_bag_size:
  "inv_wf P \<Longrightarrow> is_bag_index b \<Longrightarrow> m_items P (unat b) = Some p \<Longrightarrow> unat (i_numslots (iheap P p)) \<le> MAX_BAG_SIZE"
  unfolding inv_wf_def by blast

lemma inv_wf_freed_lt: "inv_wf P \<Longrightarrow> q \<in> set (ifreed P) \<Longrightarrow> q < inext P"
  unfolding inv_wf_def by blast

lemma inv_wf_bag:
  assumes "inv_wf P" and "is_bag_index b" and "m_items P (unat b) = Some pb"
  shows "GetItemByPos P INVENTORY_SLOT_BAG_0 b = Some pb" and "i_slot (iheap P pb) = b"
    and "i_container (iheap P pb) = None"
  using assms inv_wfD [OF assms(1), of INVENTORY_SLOT_BAG_0 b pb]
  by (simp_all add: GetItemByPos_player bag_index_player_slot)

lemma item_in_bag:
  assumes "GetItemByPos P b s = Some p" and "b \<noteq> INVENTORY_SLOT_BAG_0"
  obtains pb where "is_bag_index b" "m_items P (unat b) = Some pb" "unat s < unat (i_numslots (iheap P pb))"
    "i_bagslot (iheap P pb) (unat s) = Some p"
  using assms by (auto simp: GetItemByPos_bag Bag_GetItemByPos_def split: if_splits option.splits)

lemma inv_wf_GetBagSlot:
  assumes "inv_wf P" and "GetItemByPos P b s = Some p"
  shows "GetBagSlot P p = b"
proof (cases "b = INVENTORY_SLOT_BAG_0")
  case True
  with inv_wfD(4) [OF assms] show ?thesis by (simp add: GetBagSlot_def)
next
  case False
  with assms(2) obtain pb where "is_bag_index b" "m_items P (unat b) = Some pb" by (rule item_in_bag)
  with False inv_wfD(4) [OF assms] inv_wf_bag [OF assms(1)] show ?thesis by (simp add: GetBagSlot_def)
qed

lemma inv_wf_inj:
  assumes "inv_wf P" and "GetItemByPos P b s = Some p" and "GetItemByPos P b' s' = Some p"
  shows "b' = b \<and> s' = s"
  using inv_wf_GetBagSlot [OF assms(1,2)] inv_wf_GetBagSlot [OF assms(1,3)] inv_wfD(3) [OF assms(1,2)] inv_wfD(3) [OF assms(1,3)]
  by simp

lemma stored_in_all_pos:
  assumes "inv_wf P" and "GetItemByPos P b s = Some p"
  shows "(b, s) \<in> set all_pos"
proof (cases "b = INVENTORY_SLOT_BAG_0")
  case True
  with assms(2) show ?thesis by (auto simp: in_all_pos GetItemByPos_player player_slot_def split: if_splits)
next
  case False
  with assms(2) obtain pb where "is_bag_index b" "m_items P (unat b) = Some pb" "unat s < unat (i_numslots (iheap P pb))"
    by (rule item_in_bag)
  with inv_wf_bag_size [OF assms(1)] show ?thesis by (fastforce simp: in_all_pos)
qed

lemma reach_in_all_pos:
  assumes "inv_wf P" and "reach_pos P b s"
  shows "(b, s) \<in> set all_pos"
  using assms inv_wf_bag_size [OF assms(1)] by (fastforce simp: reach_pos_alt in_all_pos player_slot_def)

lemma inv_wf_view:
  assumes "inv_view P = inv_view Q" and "set (ifreed P) = set (ifreed Q)"
  shows "inv_wf P = inv_wf Q"
  unfolding inv_wf_def GetItemByPos_view [OF assms(1)] view_itemD [OF assms(1)] inv_viewD(1,3) [OF assms(1)] assms(2) ..

end
