(* ===== verification/Inventory_Ops.thy ===== *)
theory Inventory_Ops
  imports Inventory_Spec
begin

text \<open>
  The storage operations as updates of the abstract inventory. The elementary updates come first:
  changing the fields of one item, putting a detached item into a free position, taking an item
  out. \<open>StoreItem_at\<close>, \<open>StoreItem\<close>, \<open>StoreNewItem\<close> and \<open>DestroyItem\<close> are then updates of the
  stock at the positions they name.
\<close>

section \<open>Elementary updates\<close>

lemma iheap_upd_item [simp]: "iheap (upd_item p f P) q = (if q = p then f (iheap P p) else iheap P q)"
  by (simp add: upd_item_def)

lemma upd_item_fields [simp]:
  "m_items (upd_item p f P) = m_items P" "inext (upd_item p f P) = inext P" "ifreed (upd_item p f P) = ifreed P"
  "pl_guid (upd_item p f P) = pl_guid P" "pl_money (upd_item p f P) = pl_money P"
  by (simp_all add: upd_item_def)

lemma GetItemByPos_upd_item:
  assumes "i_numslots (f (iheap P p)) = i_numslots (iheap P p)" and "i_bagslot (f (iheap P p)) = i_bagslot (iheap P p)"
  shows "GetItemByPos (upd_item p f P) = GetItemByPos P"
proof -
  have "Bag_GetItemByPos (iheap (upd_item p f P) pb) s = Bag_GetItemByPos (iheap P pb) s" for pb s
    using assms by (simp add: Bag_GetItemByPos_def)
  then show ?thesis by (intro ext) (simp only: GetItemByPos_def upd_item_fields)
qed

lemma inv_wf_upd_item:
  assumes "inv_wf P" and "i_numslots (f (iheap P p)) = i_numslots (iheap P p)"
    and "i_bagslot (f (iheap P p)) = i_bagslot (iheap P p)"
    and "i_slot (f (iheap P p)) = i_slot (iheap P p)" and "i_container (f (iheap P p)) = i_container (iheap P p)"
  shows "inv_wf (upd_item p f P)"
  using assms GetItemByPos_upd_item [of f P p, OF assms(2,3)]
  unfolding inv_wf_def by simp

lemma stock_set_count:
  assumes "inv_wf P" and "GetItemByPos P b s = Some p"
  shows "stock (upd_item p (\<lambda>it. it\<lparr>i_count := c it\<rparr>) P) = (stock P)((b, s) := Some (i_entry (iheap P p), unat (c (iheap P p))))"
proof (rule ext)
  fix bs :: position
  obtain b' s' where bs: "bs = (b', s')" by (cases bs)
  have get: "GetItemByPos (upd_item p (\<lambda>it. it\<lparr>i_count := c it\<rparr>) P) = GetItemByPos P"
    by (rule GetItemByPos_upd_item) simp_all
  show "stock (upd_item p (\<lambda>it. it\<lparr>i_count := c it\<rparr>) P) bs = ((stock P)((b, s) := Some (i_entry (iheap P p), unat (c (iheap P p))))) bs"
  proof (cases "bs = (b, s)")
    case True
    with assms(2) show ?thesis by (simp add: stock_def get)
  next
    case False
    with inv_wf_inj [OF assms] bs have "GetItemByPos P b' s' \<noteq> Some p" by auto
    with False bs show ?thesis by (cases "GetItemByPos P b' s'") (auto simp: stock_def get)
  qed
qed

text \<open>Putting in and taking out, by what they do to the lookup.\<close>

lemma stock_put:
  assumes "\<And>b t. GetItemByPos P' b t = (if (b, t) = pos then Some p else GetItemByPos P b t)"
    and "\<And>q. i_entry (iheap P' q) = i_entry (iheap P q) \<and> i_count (iheap P' q) = i_count (iheap P q)"
  shows "stock P' = (stock P)(pos := Some (i_entry (iheap P p), unat (i_count (iheap P p))))"
  using assms by (auto simp: stock_def fun_eq_iff)

lemma stock_take:
  assumes "\<And>b t. GetItemByPos P' b t = (if (b, t) = pos then None else GetItemByPos P b t)"
    and "\<And>q. i_entry (iheap P' q) = i_entry (iheap P q) \<and> i_count (iheap P' q) = i_count (iheap P q)"
  shows "stock P' = (stock P)(pos := None)"
  using assms by (auto simp: stock_def fun_eq_iff)

definition put_player :: "iptr \<Rightarrow> uint8 \<Rightarrow> Player \<Rightarrow> Player" where
  "put_player p slot P =
     upd_item p (\<lambda>it. it\<lparr>i_owner := pl_guid P, i_slot := slot, i_container := None\<rparr>)
       (P\<lparr>m_items := (m_items P)(unat slot := Some p)\<rparr>)"

lemma put_player_simps [simp]:
  "m_items (put_player p s P) = (m_items P)(unat s \<mapsto> p)" "inext (put_player p s P) = inext P"
  "ifreed (put_player p s P) = ifreed P" "i_slot (iheap (put_player p s P) q) = (if q = p then s else i_slot (iheap P q))"
  "i_container (iheap (put_player p s P) q) = (if q = p then None else i_container (iheap P q))"
  "i_numslots (iheap (put_player p s P) q) = i_numslots (iheap P q)"
  "i_bagslot (iheap (put_player p s P) q) = i_bagslot (iheap P q)"
  "i_entry (iheap (put_player p s P) q) = i_entry (iheap P q)" "i_count (iheap (put_player p s P) q) = i_count (iheap P q)"
  by (simp_all add: put_player_def)

lemma Bag_StoreItem_simps [simp]:
  assumes "pb \<noteq> p"
  shows "m_items (Bag_StoreItem pb s p P) = m_items P" "inext (Bag_StoreItem pb s p P) = inext P"
  "ifreed (Bag_StoreItem pb s p P) = ifreed P"
  "i_slot (iheap (Bag_StoreItem pb s p P) q) = (if q = p then s else i_slot (iheap P q))"
  "i_container (iheap (Bag_StoreItem pb s p P) q) = (if q = p then Some pb else i_container (iheap P q))"
  "i_numslots (iheap (Bag_StoreItem pb s p P) q) = i_numslots (iheap P q)"
  "i_bagslot (iheap (Bag_StoreItem pb s p P) q) = (if q = pb then (i_bagslot (iheap P pb))(unat s \<mapsto> p) else i_bagslot (iheap P q))"
  "i_entry (iheap (Bag_StoreItem pb s p P) q) = i_entry (iheap P q)" "i_count (iheap (Bag_StoreItem pb s p P) q) = i_count (iheap P q)"
  using assms by (simp_all add: Bag_StoreItem_def)

lemma unat8_eq [simp]: "unat s = unat t \<longleftrightarrow> s = t" for s t :: uint8
  by (simp add: word_unat_eq_iff)

lemma GetItemByPos_put_player:
  assumes "inv_wf P" and "detached P p" and "player_slot s" and "GetItemByPos P INVENTORY_SLOT_BAG_0 s = None"
  shows "GetItemByPos (put_player p s P) b t = (if (b, t) = (INVENTORY_SLOT_BAG_0, s) then Some p else GetItemByPos P b t)"
proof (cases "b = INVENTORY_SLOT_BAG_0")
  case True
  then show ?thesis
    using assms(3) by (auto simp: GetItemByPos_player)
next
  case False
  have "pb \<noteq> p" if "is_bag_index b" "m_items P (unat b) = Some pb" for pb
    using that inv_wf_bag(1) [OF assms(1) that] assms(2) by (auto simp: detached_def)
  moreover have "m_items P (unat s) = None" using assms(3,4) by (simp add: GetItemByPos_player)
  ultimately show ?thesis
    using False assms(2)
    by (auto simp: GetItemByPos_bag Bag_GetItemByPos_def detached_def split: option.splits)
qed

lemma inv_wf_put_player:
  assumes "inv_wf P" and "detached P p" and "player_slot s" and "GetItemByPos P INVENTORY_SLOT_BAG_0 s = None"
  shows "inv_wf (put_player p s P)"
proof -
  note get = GetItemByPos_put_player [OF assms]
  have free: "m_items P (unat s) = None" using assms(3,4) by (simp add: GetItemByPos_player)
  show ?thesis
    unfolding inv_wf_def
  proof (intro conjI allI impI)
    fix b t q
    assume g: "GetItemByPos (put_player p s P) b t = Some q"
    show "q < inext (put_player p s P)" "q \<notin> set (ifreed (put_player p s P))"
      "i_slot (iheap (put_player p s P) q) = t"
      using g assms(2) inv_wfD(1-3) [OF assms(1), of b t q]
      by (auto simp: get detached_def split: if_splits)
    have "m_items P (unat b) \<noteq> None" if "b \<noteq> INVENTORY_SLOT_BAG_0" "GetItemByPos P b t = Some q"
      using that by (auto simp: GetItemByPos_bag split: if_splits option.splits)
    then show "i_container (iheap (put_player p s P) q) =
        (if b = INVENTORY_SLOT_BAG_0 then None else m_items (put_player p s P) (unat b))"
      using g assms(2) free inv_wfD(4) [OF assms(1), of b t q]
      by (auto simp: get detached_def split: if_splits)
  next
    fix b q
    assume "is_bag_index b" and "m_items (put_player p s P) (unat b) = Some q"
    then show "unat (i_numslots (iheap (put_player p s P) q)) \<le> MAX_BAG_SIZE"
      using assms(2) inv_wf_bag_size [OF assms(1), of b q]
      by (auto simp: detached_def split: if_splits)
  next
    fix q assume "q \<in> set (ifreed (put_player p s P))"
    with inv_wf_freed_lt [OF assms(1)] show "q < inext (put_player p s P)" by simp
  qed
qed

lemma GetItemByPos_Bag_StoreItem:
  assumes "inv_wf P" and "detached P p" and "is_bag_index b" and "m_items P (unat b) = Some pb"
    and "unat s < unat (i_numslots (iheap P pb))"
  shows "GetItemByPos (Bag_StoreItem pb s p P) b' t = (if (b', t) = (b, s) then Some p else GetItemByPos P b' t)"
proof -
  have ppb: "pb \<noteq> p" using inv_wf_bag(1) [OF assms(1,3,4)] assms(2) by (auto simp: detached_def)
  show ?thesis
  proof (cases "b' = INVENTORY_SLOT_BAG_0")
    case True
    with assms(3) show ?thesis
      by (auto simp: GetItemByPos_player ppb)
  next
    case False
    show ?thesis
    proof (cases "is_bag_index b' \<and> m_items P (unat b') \<noteq> None")
      case True
      then obtain q where q: "is_bag_index b'" "m_items P (unat b') = Some q" by auto
      have "q = pb \<longleftrightarrow> b' = b"
        using inv_wf_inj [OF assms(1) inv_wf_bag(1) [OF assms(1,3,4)], of _ b'] inv_wf_bag(1) [OF assms(1) q] q assms(4)
        by auto
      with False ppb q assms(5) show ?thesis by (auto simp: GetItemByPos_bag Bag_GetItemByPos_def)
    next
      case none: False
      with assms(3,4) have "b' \<noteq> b" by auto
      with False none ppb show ?thesis by (auto simp: GetItemByPos_bag)
    qed
  qed
qed

lemma inv_wf_Bag_StoreItem:
  assumes "inv_wf P" and "detached P p" and "is_bag_index b" and "m_items P (unat b) = Some pb"
    and "unat s < unat (i_numslots (iheap P pb))" and "GetItemByPos P b s = None"
  shows "inv_wf (Bag_StoreItem pb s p P)"
proof -
  note get = GetItemByPos_Bag_StoreItem [OF assms(1-5)]
  have ppb: "pb \<noteq> p" using inv_wf_bag(1) [OF assms(1,3,4)] assms(2) by (auto simp: detached_def)
  show ?thesis
    unfolding inv_wf_def
  proof (intro conjI allI impI)
    fix b' t q
    assume g: "GetItemByPos (Bag_StoreItem pb s p P) b' t = Some q"
    have "q \<noteq> p" if "(b', t) \<noteq> (b, s)"
      using g that assms(2) by (auto simp: get detached_def)
    then show "q < inext (Bag_StoreItem pb s p P)" "q \<notin> set (ifreed (Bag_StoreItem pb s p P))"
      "i_slot (iheap (Bag_StoreItem pb s p P) q) = t"
      "i_container (iheap (Bag_StoreItem pb s p P) q) =
        (if b' = INVENTORY_SLOT_BAG_0 then None else m_items (Bag_StoreItem pb s p P) (unat b'))"
      using g assms(2-4) ppb inv_wfD [OF assms(1), of b' t q]
      by (auto simp: get detached_def split: if_splits)
  next
    fix b' q
    assume "is_bag_index b'" and "m_items (Bag_StoreItem pb s p P) (unat b') = Some q"
    then show "unat (i_numslots (iheap (Bag_StoreItem pb s p P) q)) \<le> MAX_BAG_SIZE"
      using ppb inv_wf_bag_size [OF assms(1), of b' q]
      by auto
  next
    fix q assume "q \<in> set (ifreed (Bag_StoreItem pb s p P))"
    with inv_wf_freed_lt [OF assms(1)] show "q < inext (Bag_StoreItem pb s p P)" using ppb by simp
  qed
qed

section \<open>Transfer along views\<close>

lemma detached_view:
  assumes "inv_view P = inv_view Q" and "set (ifreed P) = set (ifreed Q)"
  shows "detached P p = detached Q p"
  unfolding detached_def GetItemByPos_view [OF assms(1)] view_itemD [OF assms(1)] inv_viewD(3) [OF assms(1)] assms(2) ..

lemma reach_pos_view: "inv_view P = inv_view Q \<Longrightarrow> reach_pos P b s = reach_pos Q b s"
  by (simp add: reach_pos_alt inv_viewD [of P Q] view_itemD [of P Q])

lemma inv_wf_freed:
  assumes "inv_wf P" and "inv_view Q = inv_view P" and "\<And>b s q. GetItemByPos P b s = Some q \<Longrightarrow> q \<notin> set (ifreed Q)"
    and "\<And>q. q \<in> set (ifreed Q) \<Longrightarrow> q < inext P"
  shows "inv_wf Q"
  using assms(1) assms(3,4)
  unfolding inv_wf_def GetItemByPos_view [OF assms(2)] view_itemD [OF assms(2)] inv_viewD(1,3) [OF assms(2)]
  by blast

section \<open>Storing at a free position\<close>

definition put_at :: "uint16 \<Rightarrow> iptr \<Rightarrow> Player \<Rightarrow> Player" where
  "put_at pos p P =
     (if pos_bag pos = INVENTORY_SLOT_BAG_0 then put_player p (pos_slot pos) P
      else case m_items P (unat (pos_bag pos)) of
             None \<Rightarrow> P | Some pb \<Rightarrow> Bag_StoreItem pb (pos_slot pos) p P)"

lemma store_in_free_view:
  assumes "reach_pos P (pos_bag pos) (pos_slot pos)"
  shows "inv_view (store_in_free E pos p u P) = inv_view (put_at pos p P)"
proof (cases "pos_bag pos = INVENTORY_SLOT_BAG_0")
  case True
  then show ?thesis
    unfolding store_in_free_def Let_def put_at_def put_player_def
    by (simp, intro inv_view_upd_cong inv_view_m_items_cong) (auto simp: core_def)
next
  case False
  with assms obtain pb where b: "is_bag_index (pos_bag pos)" "m_items P (unat (pos_bag pos)) = Some pb"
    by (auto simp: reach_pos_alt)
  have "GetItemByPos (bind_on_store E pos p P) INVENTORY_SLOT_BAG_0 (pos_bag pos) = Some pb"
    using b GetItemByPos_player [of P] by (simp add: GetItemByPos_view [OF inv_view_effects(1)] bag_index_player_slot)
  moreover have "inv_view (Bag_StoreItem pb (pos_slot pos) p (bind_on_store E pos p P)) =
      inv_view (Bag_StoreItem pb (pos_slot pos) p P)"
    by (rule inv_view_Bag_StoreItem_cong) simp
  ultimately show ?thesis
    using False b by (simp add: store_in_free_def Let_def put_at_def)
qed

lemma ifreed_store_in_free [simp]: "ifreed (store_in_free E pos p u P) = ifreed P"
  by (auto simp: store_in_free_def Let_def split: option.splits)

lemma pl_frame_store_in_free [simp]: "pl_frame (store_in_free E pos p u P) = pl_frame P"
  by (auto simp: store_in_free_def Let_def split: option.splits)

text \<open>A detached item and a free, reachable position for it.\<close>

definition free_place :: "Player \<Rightarrow> uint16 \<Rightarrow> iptr \<Rightarrow> bool" where
  "free_place P pos p \<longleftrightarrow> inv_wf P \<and> detached P p \<and> reach_pos P (pos_bag pos) (pos_slot pos) \<and>
     GetItemByPos P (pos_bag pos) (pos_slot pos) = None"

lemma free_placeD:
  assumes "free_place P pos p"
  shows "inv_wf P" "detached P p" "reach_pos P (pos_bag pos) (pos_slot pos)"
    "GetItemByPos P (pos_bag pos) (pos_slot pos) = None"
  using assms by (auto simp: free_place_def)

lemma free_place_bag:
  assumes fp: "free_place P pos p" and "pos_bag pos \<noteq> INVENTORY_SLOT_BAG_0"
  obtains pb where "is_bag_index (pos_bag pos)" "m_items P (unat (pos_bag pos)) = Some pb"
    "unat (pos_slot pos) < unat (i_numslots (iheap P pb))" "pb \<noteq> p"
proof -
  note wf = free_placeD(1) [OF fp] and det = free_placeD(2) [OF fp] and reach = free_placeD(3) [OF fp]
  from assms reach obtain pb where pb: "is_bag_index (pos_bag pos)" "m_items P (unat (pos_bag pos)) = Some pb"
    "unat (pos_slot pos) < unat (i_numslots (iheap P pb))" by (auto simp: reach_pos_alt)
  with inv_wf_bag(1) [OF wf pb(1,2)] det have "pb \<noteq> p" by (auto simp: detached_def)
  with pb that show thesis by blast
qed

lemma free_place_player: "free_place P pos p \<Longrightarrow> pos_bag pos = INVENTORY_SLOT_BAG_0 \<Longrightarrow> player_slot (pos_slot pos)"
  by (auto simp: reach_pos_alt free_place_def)

lemma get_put_at:
  assumes fp: "free_place P pos p"
  shows "GetItemByPos (put_at pos p P) b t = (if (b, t) = (pos_bag pos, pos_slot pos) then Some p else GetItemByPos P b t)"
proof (cases "pos_bag pos = INVENTORY_SLOT_BAG_0")
  case True
  with GetItemByPos_put_player [OF free_placeD(1,2) [OF fp] free_place_player [OF fp]] free_placeD(4) [OF fp] show ?thesis by (simp add: put_at_def)
next
  case False
  then obtain pb where pb: "is_bag_index (pos_bag pos)" "m_items P (unat (pos_bag pos)) = Some pb"
    "unat (pos_slot pos) < unat (i_numslots (iheap P pb))" by (rule free_place_bag [OF fp])
  with False GetItemByPos_Bag_StoreItem [OF free_placeD(1,2) [OF fp] pb] show ?thesis by (simp add: put_at_def)
qed

lemma wf_put_at:
  assumes fp: "free_place P pos p"
  shows "inv_wf (put_at pos p P)"
proof (cases "pos_bag pos = INVENTORY_SLOT_BAG_0")
  case True
  with inv_wf_put_player [OF free_placeD(1,2) [OF fp] free_place_player [OF fp]] free_placeD(4) [OF fp] show ?thesis by (simp add: put_at_def)
next
  case False
  then obtain pb where pb: "is_bag_index (pos_bag pos)" "m_items P (unat (pos_bag pos)) = Some pb"
    "unat (pos_slot pos) < unat (i_numslots (iheap P pb))" by (rule free_place_bag [OF fp])
  with False inv_wf_Bag_StoreItem [OF free_placeD(1,2) [OF fp] pb free_placeD(4) [OF fp]] show ?thesis by (simp add: put_at_def)
qed

lemma fields_put_at:
  assumes fp: "free_place P pos p"
  shows "i_entry (iheap (put_at pos p P) q) = i_entry (iheap P q)" "i_count (iheap (put_at pos p P) q) = i_count (iheap P q)"
  "i_numslots (iheap (put_at pos p P) q) = i_numslots (iheap P q)" "inext (put_at pos p P) = inext P"
  "ifreed (put_at pos p P) = ifreed P"
  "\<forall>b s. GetItemByPos P b s \<noteq> Some q \<Longrightarrow> i_bagslot (iheap (put_at pos p P) q) = i_bagslot (iheap P q)"
proof -
  consider "pos_bag pos = INVENTORY_SLOT_BAG_0" | pb where "is_bag_index (pos_bag pos)" "pos_bag pos \<noteq> INVENTORY_SLOT_BAG_0"
    "m_items P (unat (pos_bag pos)) = Some pb" "pb \<noteq> p"
    using free_place_bag [OF fp] by blast
  note cs = this
  show "i_entry (iheap (put_at pos p P) q) = i_entry (iheap P q)" "i_count (iheap (put_at pos p P) q) = i_count (iheap P q)"
    "i_numslots (iheap (put_at pos p P) q) = i_numslots (iheap P q)" "inext (put_at pos p P) = inext P"
    "ifreed (put_at pos p P) = ifreed P"
    by (cases rule: cs; simp add: put_at_def)+
  show "i_bagslot (iheap (put_at pos p P) q) = i_bagslot (iheap P q)" if "\<forall>b s. GetItemByPos P b s \<noteq> Some q"
    by (cases rule: cs) (use that inv_wf_bag(1) [OF free_placeD(1) [OF fp]] in \<open>auto simp: put_at_def\<close>)
qed

lemma stock_put_at:
  assumes fp: "free_place P pos p"
  shows "stock (put_at pos p P) = (stock P)((pos_bag pos, pos_slot pos) := Some (i_entry (iheap P p), unat (i_count (iheap P p))))"
  by (rule stock_put) (simp_all add: get_put_at [OF fp] fields_put_at [OF fp])

lemma detached_put_at: "free_place P pos p \<Longrightarrow> detached P q \<Longrightarrow> q \<noteq> p \<Longrightarrow> detached (put_at pos p P) q"
  using fields_put_at [of P pos p] by (auto simp: detached_def get_put_at)

lemma reach_put_at:
  assumes fp: "free_place P pos p" and "reach_pos P b s"
  shows "reach_pos (put_at pos p P) b s"
proof -
  have "m_items (put_at pos p P) i = Some pb" if "m_items P i = Some pb" "i = unat b" "is_bag_index b" for i pb
  proof (cases "pos_bag pos = INVENTORY_SLOT_BAG_0")
    case True
    from free_place_player [OF fp True] free_placeD(4) [OF fp] True have "m_items P (unat (pos_slot pos)) = None" by (simp add: GetItemByPos_player)
    with True that show ?thesis by (auto simp: put_at_def)
  next
    case False
    then obtain pb' where "m_items P (unat (pos_bag pos)) = Some pb'" "pb' \<noteq> p" by (rule free_place_bag [OF fp])
    with False that show ?thesis by (simp add: put_at_def)
  qed
  with assms(2) show ?thesis by (auto simp: reach_pos_alt fields_put_at [OF fp])
qed

end
