(* ===== verification/Inventory_Store.thy ===== *)
theory Inventory_Store
  imports Inventory_Ops
begin

unbundle bit_operations_syntax

text \<open>
  Correctness of storing: one call of \<open>_StoreItem\<close> adds its count at one position and changes
  nothing else of the stock; \<open>StoreItem\<close> and \<open>StoreNewItem\<close> add exactly the pieces of their
  destination list.
\<close>

section \<open>Creating and cloning items\<close>

definition creatable :: "ItemPrototype \<Rightarrow> bool" where
  "creatable pr \<longleftrightarrow> (pr_InventoryType pr = INVTYPE_BAG \<longrightarrow> unat (pr_ContainerSlots pr) \<le> MAX_BAG_SIZE)"

definition fresh_item :: "uint32 \<Rightarrow> uint32 \<Rightarrow> Item \<Rightarrow> bool" where
  "fresh_item entry count it \<longleftrightarrow> i_entry it = entry \<and> i_count it = count \<and> (\<forall>i. i_bagslot it i = None) \<and>
     unat (i_numslots it) \<le> MAX_BAG_SIZE"

lemma CreateItem_ok:
  assumes "e_protos E entry = Some pr" and "0 < unat count" and "unat count \<le> unat (pr_Stackable pr)" and "creatable pr"
  obtains it where "CreateItem E entry count P = (Some (inext P), snd (alloc_item it P))" and "fresh_item entry count it"
proof -
  have c: "\<not> count < 1" "\<not> count > GetMaxStackSize pr" using assms(2,3) by (auto simp: word_nat GetMaxStackSize_def)
  let ?i = "Item_Create E entry (pl_guid P)" and ?b = "Bag_Create E entry (pl_guid P)"
  obtain it where it: "(if pr_InventoryType pr = INVTYPE_BAG then ?b else ?i) = Some it"
    "i_entry it = entry" "\<forall>i. i_bagslot it i = None" "unat (i_numslots it) \<le> MAX_BAG_SIZE"
    using assms(1,4)
    by (cases "pr_InventoryType pr = INVTYPE_BAG")
      (auto simp: Item_Create_def Bag_Create_def creatable_def Let_def ApplyModFlag_def new_Item_def)
  show thesis
  proof (rule that)
    show "CreateItem E entry count P = (Some (inext P), snd (alloc_item (it\<lparr>i_count := count\<rparr>) P))"
      using assms(1) c it(1) by (simp add: CreateItem_def alloc_item_def Let_def split del: if_split)
    show "fresh_item entry count (it\<lparr>i_count := count\<rparr>)" using it by (simp add: fresh_item_def)
  qed
qed

lemma alloc_fields [simp]:
  "m_items (snd (alloc_item it P)) = m_items P" "inext (snd (alloc_item it P)) = Suc (inext P)"
  "ifreed (snd (alloc_item it P)) = ifreed P" "pl_frame (snd (alloc_item it P)) = pl_frame P"
  "iheap (snd (alloc_item it P)) q = (if q = inext P then it else iheap P q)"
  by (simp_all add: alloc_item_def pl_frame_def)

lemma GetItemByPos_alloc:
  assumes "inv_wf P"
  shows "GetItemByPos (snd (alloc_item it P)) b s = GetItemByPos P b s"
proof (cases "b \<noteq> INVENTORY_SLOT_BAG_0 \<and> is_bag_index b")
  case True
  have "pb \<noteq> inext P" if "m_items P (unat b) = Some pb" for pb
    using inv_wfD(1) [OF assms inv_wf_bag(1) [OF assms _ that]] True by auto
  with True show ?thesis by (auto simp: GetItemByPos_bag split: option.splits)
next
  case False
  then show ?thesis by (cases "b = INVENTORY_SLOT_BAG_0") (auto simp: GetItemByPos_player GetItemByPos_bag)
qed

lemma inv_wf_alloc:
  assumes "inv_wf P"
  shows "inv_wf (snd (alloc_item it P))"
  unfolding inv_wf_def GetItemByPos_alloc [OF assms]
proof (intro conjI allI impI)
  fix b s p assume "GetItemByPos P b s = Some p"
  from inv_wfD [OF assms this]
  show "p < inext (snd (alloc_item it P))" "p \<notin> set (ifreed (snd (alloc_item it P)))"
    "i_slot (iheap (snd (alloc_item it P)) p) = s"
    "i_container (iheap (snd (alloc_item it P)) p) =
      (if b = INVENTORY_SLOT_BAG_0 then None else m_items (snd (alloc_item it P)) (unat b))"
    by auto
next
  fix b p assume b: "is_bag_index b" and "m_items (snd (alloc_item it P)) (unat b) = Some p"
  then have m: "m_items P (unat b) = Some p" by simp
  from inv_wfD(1) [OF assms inv_wf_bag(1) [OF assms b m]] inv_wf_bag_size [OF assms b m]
  show "unat (i_numslots (iheap (snd (alloc_item it P)) p)) \<le> MAX_BAG_SIZE" by auto
next
  fix q assume "q \<in> set (ifreed (snd (alloc_item it P)))"
  with inv_wf_freed_lt [OF assms] show "q < inext (snd (alloc_item it P))" by (simp add: less_Suc_eq)
qed

lemma stock_alloc:
  assumes "inv_wf P"
  shows "stock (snd (alloc_item it P)) = stock P"
proof (rule ext)
  fix bs
  show "stock (snd (alloc_item it P)) bs = stock P bs"
    using inv_wfD(1) [OF assms, of "fst bs" "snd bs"]
    by (cases "GetItemByPos P (fst bs) (snd bs)") (auto simp: stock_def GetItemByPos_alloc [OF assms])
qed

lemma detached_alloc_new:
  assumes "inv_wf P" and "fresh_item entry count it"
  shows "detached (snd (alloc_item it P)) (inext P)"
  using assms inv_wfD(1) [OF assms(1)] inv_wf_freed_lt [OF assms(1)]
  by (fastforce simp: detached_def GetItemByPos_alloc fresh_item_def)

lemma detached_alloc_old: "inv_wf P \<Longrightarrow> detached P q \<Longrightarrow> detached (snd (alloc_item it P)) q"
  by (auto simp: detached_def GetItemByPos_alloc)

lemma reach_alloc:
  assumes "inv_wf P" and "reach_pos P b s"
  shows "reach_pos (snd (alloc_item it P)) b s"
proof -
  have "pb \<noteq> inext P" if "is_bag_index b" "m_items P (unat b) = Some pb" for pb
    using inv_wfD(1) [OF assms(1) inv_wf_bag(1) [OF assms(1) that]] by simp
  with assms(2) show ?thesis by (auto simp: reach_pos_alt)
qed

lemma CloneItem_ok:
  assumes "e_protos E (i_entry (iheap P p)) = Some pr" and "0 < unat count" and "unat count \<le> unat (pr_Stackable pr)"
    and "creatable pr"
  obtains it P1 where "CloneItem E p count P = (Some (inext P), P1)" and "inv_view P1 = inv_view (snd (alloc_item it P))"
    and "fresh_item (i_entry (iheap P p)) count it" and "ifreed P1 = ifreed P" and "pl_frame P1 = pl_frame P"
proof -
  obtain it where it: "CreateItem E (i_entry (iheap P p)) count P = (Some (inext P), snd (alloc_item it P))"
    "fresh_item (i_entry (iheap P p)) count it" by (rule CreateItem_ok [OF assms, of P])
  show thesis
    by (rule that [of "snd (CloneItem E p count P)" it])
      (simp_all add: CloneItem_def it Let_def inv_view_upd_item core_def)
qed

section \<open>One call of \_StoreItem\<close>

text \<open>What one call guarantees: the position gains \<open>n\<close> pieces of \<open>entry\<close>, all other positions keep
  their stacks, every reachable position stays reachable.\<close>

definition adds_at :: "Player \<Rightarrow> Player \<Rightarrow> position \<Rightarrow> uint32 \<Rightarrow> nat \<Rightarrow> bool" where
  "adds_at P P' pos entry n \<longleftrightarrow>
     inv_wf P' \<and> pl_frame P' = pl_frame P \<and> (\<forall>b s. reach_pos P b s \<longrightarrow> reach_pos P' b s) \<and>
     stock P' = (stock P)(pos := Some (entry, n + (case stock P pos of None \<Rightarrow> 0 | Some (_, m) \<Rightarrow> m)))"

lemma adds_atD: "adds_at P P' pos entry n \<Longrightarrow> inv_wf P' \<and> pl_frame P' = pl_frame P"
  by (simp add: adds_at_def)

lemma adds_at_view:
  assumes "adds_at P Q pos entry n" and "inv_view Q' = inv_view Q" and "set (ifreed Q') = set (ifreed Q)"
    and "pl_frame Q' = pl_frame Q"
  shows "adds_at P Q' pos entry n"
  using assms inv_wf_view [OF assms(2,3)] stock_view [OF assms(2)] reach_pos_view [OF assms(2)]
  by (auto simp: adds_at_def)

lemma pl_frame_put_at [simp]: "pl_frame (put_at pos p P) = pl_frame P"
  by (simp add: put_at_def put_player_def split: option.split)

lemma stock_None: "GetItemByPos P b s = None \<Longrightarrow> stock P (b, s) = None"
  by (simp add: stock_def)

lemma stock_Some: "GetItemByPos P b s = Some q \<Longrightarrow> stock P (b, s) = Some (i_entry (iheap P q), unat (i_count (iheap P q)))"
  by (simp add: stock_def)

lemma store_in_free_adds:
  assumes fp: "free_place P pos p"
  shows "adds_at P (store_in_free E pos p u P) (pos_bag pos, pos_slot pos) (i_entry (iheap P p)) (unat (i_count (iheap P p)))"
proof -
  have "adds_at P (put_at pos p P) (pos_bag pos, pos_slot pos) (i_entry (iheap P p)) (unat (i_count (iheap P p)))"
    using wf_put_at [OF fp] stock_put_at [OF fp] reach_put_at [OF fp] stock_None [OF free_placeD(4) [OF fp]]
    by (simp add: adds_at_def)
  from adds_at_view [OF this store_in_free_view [OF free_placeD(3) [OF fp]]]
  show ?thesis by (simp add: fields_put_at(5) [OF fp])
qed

lemma detached_store_in_free:
  assumes "free_place P pos p" and "detached P q" and "q \<noteq> p"
  shows "detached (store_in_free E pos p u P) q"
  using detached_view [OF store_in_free_view [OF free_placeD(3) [OF assms(1)], of E p u]] detached_put_at [OF assms]
  by (simp add: fields_put_at(5) [OF assms(1)])

lemma entry_store_in_free:
  assumes "free_place P pos p"
  shows "i_entry (iheap (store_in_free E pos p u P) q) = i_entry (iheap P q)"
  using view_itemD(1) [OF store_in_free_view [OF free_placeD(3) [OF assms], of E p u]] fields_put_at(1) [OF assms] by simp

lemma pl_frame_store_in_stack [simp]: "pl_frame (store_in_stack E pos q p c clone u P) = pl_frame P"
  by (simp add: store_in_stack_def Let_def)

lemma store_in_stack_view:
  "inv_view (store_in_stack E pos q p c clone u P) = inv_view (upd_item q (\<lambda>it. it\<lparr>i_count := i_count it + c\<rparr>) P)"
proof -
  have "inv_view (upd_item q (\<lambda>it. it\<lparr>i_count := i_count it + c\<rparr>) (bind_on_store E pos q P)) =
      inv_view (upd_item q (\<lambda>it. it\<lparr>i_count := i_count it + c\<rparr>) P)"
    by (rule inv_view_upd_cong) (auto simp: core_def)
  then show ?thesis by (simp add: store_in_stack_def Let_def)
qed

lemma ifreed_store_in_stack:
  assumes "\<forall>i. i_bagslot (iheap P p) i = None"
  shows "set (ifreed (store_in_stack E pos q p c clone u P)) \<subseteq> (if clone then {} else {p}) \<union> set (ifreed P)"
proof -
  let ?Q = "show_item u q (upd_item q (\<lambda>it. it\<lparr>i_count := i_count it + c\<rparr>) (bind_on_store E pos q P))"
  have "inv_view ?Q = inv_view (upd_item q (\<lambda>it. it\<lparr>i_count := i_count it + c\<rparr>) P)"
    by (simp, rule inv_view_upd_cong) (auto simp: core_def)
  from view_itemD(6) [OF this, of p] assms have "\<forall>i. i_bagslot (iheap ?Q p) i = None"
    by (auto split: if_splits)
  from ifreed_discard_item [OF this, of u] show ?thesis by (auto simp: store_in_stack_def Let_def)
qed

lemma store_in_stack_adds:
  assumes wf: "inv_wf P" and det: "detached P p" and at: "GetItemByPos P (pos_bag pos) (pos_slot pos) = Some q"
    and fits: "unat (i_count (iheap P q)) + unat c < 4294967296" and en: "i_entry (iheap P q) = entry"
  shows "adds_at P (store_in_stack E pos q p c clone u P) (pos_bag pos, pos_slot pos) entry (unat c)"
proof -
  let ?Q = "upd_item q (\<lambda>it. it\<lparr>i_count := i_count it + c\<rparr>) P" and ?S = "store_in_stack E pos q p c clone u P"
  have view: "inv_view ?S = inv_view ?Q" by (rule store_in_stack_view)
  have wfQ: "inv_wf ?Q" by (rule inv_wf_upd_item [OF wf]) simp_all
  have get: "GetItemByPos ?Q = GetItemByPos P" by (rule GetItemByPos_upd_item) simp_all
  have fr: "set (ifreed ?S) \<subseteq> insert p (set (ifreed P))"
    using ifreed_store_in_stack [of P p E pos q c clone u] det by (auto simp: detached_def split: if_splits)
  have "inv_wf ?S"
  proof (rule inv_wf_freed [OF wfQ view])
    show "r \<notin> set (ifreed ?S)" if "GetItemByPos ?Q b s = Some r" for b s r
      using that fr det inv_wfD(2) [OF wf, of b s r] by (auto simp: get detached_def)
    show "r < inext ?Q" if "r \<in> set (ifreed ?S)" for r
      using that fr det inv_wf_freed_lt [OF wf] by (auto simp: detached_def)
  qed
  moreover have "stock ?S = (stock P)((pos_bag pos, pos_slot pos) :=
      Some (entry, unat (i_count (iheap P q)) + unat c))"
    using stock_view [OF view] stock_set_count [OF wf at, of "\<lambda>it. i_count it + c"] fits en by (simp add: unat_add32)
  moreover have "reach_pos P b s \<Longrightarrow> reach_pos ?S b s" for b s
    using reach_pos_view [OF view] by (auto simp: reach_pos_alt)
  ultimately show ?thesis
    using stock_Some [OF at] by (simp add: adds_at_def add.commute)
qed

lemma detached_store_in_stack:
  assumes "detached P p" and "inv_wf P" and "GetItemByPos P b s = Some q"
  shows "detached (store_in_stack E pos q p c True u P) p"
proof -
  let ?Q = "upd_item q (\<lambda>it. it\<lparr>i_count := i_count it + c\<rparr>) P"
  have "set (ifreed (store_in_stack E pos q p c True u P)) \<subseteq> set (ifreed P)"
    using ifreed_store_in_stack [of P p E pos q c True u] assms(1) by (auto simp: detached_def)
  moreover have "GetItemByPos ?Q = GetItemByPos P" by (rule GetItemByPos_upd_item) simp_all
  ultimately show ?thesis
    using assms(1) store_in_stack_view [of E pos q p c True u P]
    unfolding detached_def GetItemByPos_view [OF store_in_stack_view] view_itemD [OF store_in_stack_view] inv_viewD(3) [OF store_in_stack_view]
    by (auto split: if_splits)
qed

lemma entry_store_in_stack: "i_entry (iheap (store_in_stack E pos q p c clone u P) r) = i_entry (iheap P r)"
  using view_itemD(1) [OF store_in_stack_view [of E pos q p c clone u P]] by simp

section \<open>A destination list\<close>

text \<open>What the operations need of the template and of a destination: the check's \<open>place_ok\<close>, with
  the stack that is there read from the stock.\<close>

definition storable :: "'e Env_scheme \<Rightarrow> uint32 \<Rightarrow> ItemPrototype \<Rightarrow> bool" where
  "storable E entry pr \<longleftrightarrow> e_protos E entry = Some pr \<and> pr_ItemId pr = entry \<and> creatable pr"

lemma place_ok_stock:
  "place_ok P pr None d \<longleftrightarrow> reach_pos P (pos_bag (ipc_pos d)) (pos_slot (ipc_pos d)) \<and>
     (case stock P (pos_bag (ipc_pos d), pos_slot (ipc_pos d)) of
        None \<Rightarrow> unat (ipc_count d) \<le> unat (pr_Stackable pr)
      | Some (e, m) \<Rightarrow> e = pr_ItemId pr \<and> m + unat (ipc_count d) \<le> unat (pr_Stackable pr))"
  by (cases "GetItemByPos P (pos_bag (ipc_pos d)) (pos_slot (ipc_pos d))")
    (auto simp: place_ok_def other_item_def stock_def)

lemma pos_eta: "mk_pos (pos_bag pos) (pos_slot pos) = pos"
proof -
  have m: "(255 :: uint16) = mask 8" by (simp add: mask_eq_exp_minus_1)
  show ?thesis
    unfolding pos_bag_def pos_slot_def mk_pos_def m
    by (rule bit_word_eqI) (auto simp: bit_simps)
qed

lemma pos_neq: "pos \<noteq> pos' \<Longrightarrow> (pos_bag pos, pos_slot pos) \<noteq> (pos_bag pos', pos_slot pos')"
  using pos_eta by (metis prod.inject)

lemma place_ok_other:
  assumes "place_ok P pr None d" and "adds_at P P' (pos_bag (ipc_pos d'), pos_slot (ipc_pos d')) entry n"
    and "ipc_pos d \<noteq> ipc_pos d'"
  shows "place_ok P' pr None d"
  using assms pos_neq [OF assms(3)] unfolding place_ok_stock adds_at_def by auto

lemma StoreItem_at_clone:
  assumes wf: "inv_wf P" and det: "detached P p" and st: "storable E (i_entry (iheap P p)) pr"
    and ok: "place_ok P pr None d" and pos: "0 < unat (ipc_count d)"
    and run: "StoreItem_at E (ipc_pos d) p (ucast (ipc_count d)) True u P = (r, P')"
  shows "adds_at P P' (pos_bag (ipc_pos d), pos_slot (ipc_pos d)) (i_entry (iheap P p)) (unat (ipc_count d)) \<and>
    detached P' p \<and> i_entry (iheap P' p) = i_entry (iheap P p)"
proof (cases "GetItemByPos P (pos_bag (ipc_pos d)) (pos_slot (ipc_pos d))")
  case None
  from None ok pos have n: "0 < unat (ucast (ipc_count d) :: uint32)" "unat (ucast (ipc_count d) :: uint32) \<le> unat (pr_Stackable pr)"
    by (auto simp: place_ok_stock stock_def)
  from st have "e_protos E (i_entry (iheap P p)) = Some pr" "creatable pr" by (auto simp: storable_def)
  from CloneItem_ok [OF this(1) n this(2)] obtain it P1 where
    cl: "CloneItem E p (ucast (ipc_count d)) P = (Some (inext P), P1)" and view: "inv_view P1 = inv_view (snd (alloc_item it P))"
    and fresh: "fresh_item (i_entry (iheap P p)) (ucast (ipc_count d)) it" and fr: "ifreed P1 = ifreed P" and fm: "pl_frame P1 = pl_frame P"
    by blast
  have fs: "set (ifreed P1) = set (ifreed (snd (alloc_item it P)))" using fr by simp
  have P': "P' = store_in_free E (ipc_pos d) (inext P) u P1" using run None cl by (simp add: StoreItem_at_def)
  have reach: "reach_pos P1 b s" if "reach_pos P b s" for b s
    using reach_alloc [OF wf that] reach_pos_view [OF view] by blast
  have fp: "free_place P1 (ipc_pos d) (inext P)"
    using inv_wf_alloc [OF wf] detached_alloc_new [OF wf fresh] None reach ok
      GetItemByPos_view [OF view] inv_wf_view [OF view fs] detached_view [OF view fs]
    by (simp add: free_place_def GetItemByPos_alloc [OF wf] place_ok_stock)
  have item: "i_entry (iheap P1 (inext P)) = i_entry (iheap P p)" "i_count (iheap P1 (inext P)) = ucast (ipc_count d)"
    using view_itemD [OF view, of "inext P"] fresh by (simp_all add: fresh_item_def)
  have stk: "stock P1 = stock P" using stock_view [OF view] stock_alloc [OF wf] by simp
  have lt: "p < inext P" using det by (simp add: detached_def)
  have det1: "detached P1 p"
    using detached_alloc_old [OF wf det] detached_view [OF view fs] by simp
  have "i_entry (iheap P1 p) = i_entry (iheap P p)" using view_itemD(1) [OF view, of p] lt by simp
  with store_in_free_adds [OF fp, of E u] detached_store_in_free [OF fp det1] entry_store_in_free [OF fp, of E u p] lt item stk fm reach
  show ?thesis by (auto simp: P' adds_at_def)
next
  case (Some q)
  then have P': "P' = store_in_stack E (ipc_pos d) q p (ucast (ipc_count d)) True u P"
    using run by (simp add: StoreItem_at_def)
  from ok Some st have e: "i_entry (iheap P q) = i_entry (iheap P p)"
    "unat (i_count (iheap P q)) + unat (ucast (ipc_count d) :: uint32) < 4294967296"
    using unat32_lt [of "pr_Stackable pr"] by (auto simp: place_ok_stock stock_def storable_def)
  show ?thesis
    using store_in_stack_adds [OF wf det Some e(2,1), of E True u]
    by (simp add: P' detached_store_in_stack [OF det wf Some] entry_store_in_stack)
qed

lemma StoreItem_at_last:
  assumes wf: "inv_wf P" and det: "detached P p" and st: "storable E (i_entry (iheap P p)) pr"
    and ok: "place_ok P pr None d"
    and run: "StoreItem_at E (ipc_pos d) p (ucast (ipc_count d)) False u P = (r, P')"
  shows "adds_at P P' (pos_bag (ipc_pos d), pos_slot (ipc_pos d)) (i_entry (iheap P p)) (unat (ipc_count d)) \<and> r \<noteq> None"
proof (cases "GetItemByPos P (pos_bag (ipc_pos d)) (pos_slot (ipc_pos d))")
  case None
  let ?Q = "upd_item p (\<lambda>it. it\<lparr>i_count := ucast (ipc_count d)\<rparr>) P"
  have get: "GetItemByPos ?Q = GetItemByPos P" by (rule GetItemByPos_upd_item) simp_all
  have P': "P' = store_in_free E (ipc_pos d) p u ?Q" "r = Some p" using run None by (simp_all add: StoreItem_at_def)
  have wfQ: "inv_wf ?Q" by (rule inv_wf_upd_item [OF wf]) simp_all
  have reach: "reach_pos ?Q b s = reach_pos P b s" for b s by (auto simp: reach_pos_alt)
  have fp: "free_place ?Q (ipc_pos d) p"
    using wfQ det None ok by (simp add: free_place_def detached_def get reach place_ok_stock)
  have "stock ?Q = stock P"
    using det by (auto simp: stock_def fun_eq_iff get detached_def map_option_case split: option.splits)
  with store_in_free_adds [OF fp, of E u] reach P' show ?thesis by (simp add: adds_at_def)
next
  case (Some q)
  then have P': "P' = store_in_stack E (ipc_pos d) q p (ucast (ipc_count d)) False u P" "r = Some q"
    using run by (simp_all add: StoreItem_at_def)
  from ok Some st have e: "i_entry (iheap P q) = i_entry (iheap P p)"
    "unat (i_count (iheap P q)) + unat (ucast (ipc_count d) :: uint32) < 4294967296"
    using unat32_lt [of "pr_Stackable pr"] by (auto simp: place_ok_stock stock_def storable_def)
  show ?thesis
    using store_in_stack_adds [OF wf det Some e(2,1), of E False u] by (simp add: P')
qed

text \<open>The sum of a stock after one addition.\<close>

lemma adds_at_total:
  assumes "adds_at P P' pos entry n" and "pos \<in> set all_pos"
    and "\<And>e m. stock P pos = Some (e, m) \<Longrightarrow> e = entry"
  shows "total (stock P') e = total (stock P) e + (if e = entry then n else 0)"
proof -
  have "stock P' = (stock P)(pos := Some (entry, n + (case stock P pos of None \<Rightarrow> 0 | Some (_, m) \<Rightarrow> m)))"
    using assms(1) by (simp add: adds_at_def)
  with total_upd [OF assms(2), of "stock P" "Some (entry, n + (case stock P pos of None \<Rightarrow> 0 | Some (_, m) \<Rightarrow> m))" e] assms(3)
  show ?thesis by (cases "stock P pos") auto
qed

lemma place_ok_total:
  assumes "inv_wf P" and "place_ok P pr None d" and "pr_ItemId pr = entry"
    and "adds_at P P' (pos_bag (ipc_pos d), pos_slot (ipc_pos d)) entry n"
  shows "total (stock P') e = total (stock P) e + (if e = entry then n else 0)"
proof (rule adds_at_total [OF assms(4)])
  show "(pos_bag (ipc_pos d), pos_slot (ipc_pos d)) \<in> set all_pos"
    using reach_in_all_pos [OF assms(1)] assms(2) by (simp add: place_ok_stock)
qed (use assms(2,3) in \<open>auto simp: place_ok_stock\<close>)

lemma StoreItem_adds:
  assumes "inv_wf P" and "detached P p" and "storable E (i_entry (iheap P p)) pr" and "dest \<noteq> []"
    and "distinct (map ipc_pos dest)" and "\<forall>d \<in> set dest. place_ok P pr None d \<and> 0 < unat (ipc_count d)"
    and "StoreItem E dest p u P = (r, P')"
  shows "inv_wf P' \<and> r \<noteq> None \<and> pl_frame P' = pl_frame P \<and>
    (\<forall>e. total (stock P') e = total (stock P) e + (if e = i_entry (iheap P p) then dest_sum dest else 0))"
  using assms
proof (induction E dest p u P rule: StoreItem.induct)
  case (1 E p u P)
  then show ?case by simp
next
  case (2 E d p u P)
  then have run: "StoreItem_at E (ipc_pos d) p (ucast (ipc_count d)) False u P = (r, P')" and ok: "place_ok P pr None d"
    by simp_all
  note last = StoreItem_at_last [OF 2(1-3) ok run]
  have id: "pr_ItemId pr = i_entry (iheap P p)" using 2(3) by (simp add: storable_def)
  from last adds_atD [OF conjunct1 [OF last]] place_ok_total [OF 2(1) ok id conjunct1 [OF last]]
  show ?case by (simp add: dest_sum_def)
next
  case (3 E d d' ds p u P)
  obtain r1 P1 where run: "StoreItem_at E (ipc_pos d) p (ucast (ipc_count d)) True u P = (r1, P1)" by fastforce
  have ok: "place_ok P pr None d" "0 < unat (ipc_count d)" using "3.prems"(6) by simp_all
  note one = StoreItem_at_clone [OF "3.prems"(1-3) ok run]
  have rest: "\<forall>x \<in> set (d' # ds). place_ok P1 pr None x \<and> 0 < unat (ipc_count x)"
  proof
    fix x assume x: "x \<in> set (d' # ds)"
    then have "ipc_pos x \<in> set (map ipc_pos (d' # ds))" by auto
    then have "ipc_pos x \<noteq> ipc_pos d" using "3.prems"(5) by fastforce
    with x "3.prems"(6) one place_ok_other [of P pr x P1 d] show "place_ok P1 pr None x \<and> 0 < unat (ipc_count x)"
      by auto
  qed
  have "inv_wf P' \<and> r \<noteq> None \<and> pl_frame P' = pl_frame P1 \<and>
    (\<forall>e. total (stock P') e = total (stock P1) e + (if e = i_entry (iheap P1 p) then dest_sum (d' # ds) else 0))"
    using "3.IH" [unfolded run snd_conv] one adds_atD [OF conjunct1 [OF one]] rest "3.prems"(3,5,7) run by simp
  moreover have id: "pr_ItemId pr = i_entry (iheap P p)" using "3.prems"(3) by (simp add: storable_def)
  ultimately show ?case
    using one adds_atD [OF conjunct1 [OF one]] place_ok_total [OF "3.prems"(1) ok(1) id conjunct1 [OF one]]
    by (auto simp: dest_sum_def)
qed

lemma dest_count_sum:
  assumes "dest_sum dest < 4294967296"
  shows "unat (dest_count dest) = dest_sum dest"
proof -
  have "unat (foldl (\<lambda>c d. c + ucast (ipc_count d)) c dest) = unat c + dest_sum dest"
    if "unat c + dest_sum dest < 4294967296" for c :: uint32
    using that
  proof (induction dest arbitrary: c)
    case (Cons d ds)
    then have "unat (c + ucast (ipc_count d)) = unat c + unat (ipc_count d)"
      by (simp add: unat_add32 dest_sum_def)
    with Cons show ?case by (simp add: dest_sum_def)
  qed (simp add: dest_sum_def)
  from this [of 0] assms show ?thesis by (simp add: dest_count_def)
qed

lemma StoreNewItem_adds:
  assumes wf: "inv_wf P" and st: "storable E item pr" and good: "good_dest P pr None n dest 0" and n: "0 < n" "n < 4294967296"
    and pos: "0 < unat (pr_Stackable pr)"
    and run: "StoreNewItem E dest item u rid P = (r, P')"
  shows "inv_wf P' \<and> r \<noteq> None \<and> pl_frame P' = pl_frame P \<and>
    (\<forall>e. stored_count P' e = stored_count P e + (if e = item then n else 0))"
proof -
  from good n have sum: "dest_sum dest = n" "unat (dest_count dest) = n" and ne: "dest \<noteq> []"
    using dest_count_sum [of dest] by (auto simp: good_dest_def dest_sum_def)
  let ?count = "if dest_count dest > GetMaxStackSize pr then GetMaxStackSize pr else dest_count dest"
  have bounded: "0 < unat ?count" "unat ?count \<le> unat (pr_Stackable pr)"
    using n sum pos by (auto simp: GetMaxStackSize_def word_nat)
  have cap: "CreateItem E item (dest_count dest) P = CreateItem E item ?count P"
    using n sum pos st by (auto simp: CreateItem_def storable_def GetMaxStackSize_def Let_def word_nat)
  from st have "e_protos E item = Some pr" "creatable pr" by (auto simp: storable_def)
  from CreateItem_ok [OF this(1) bounded this(2), of P] obtain it where
    cr: "CreateItem E item (dest_count dest) P = (Some (inext P), snd (alloc_item it P))" and fresh: "fresh_item item ?count it"
    using cap by metis
  let ?A = "snd (alloc_item it P)"
  define P3 where "P3 = (let P2 = pemit (ItemAddedQuestCheck item (dest_count dest)) ?A
    in if rid \<noteq> 0 then SetItemRandomProperties E (inext P) rid P2 else P2)"
  have view: "inv_view P3 = inv_view ?A" and fr: "ifreed P3 = ifreed ?A" and fm: "pl_frame P3 = pl_frame P"
    by (simp_all add: P3_def Let_def)
  have fs: "set (ifreed P3) = set (ifreed ?A)" using fr by simp
  have run3: "StoreItem E dest (inext P) u P3 = (r, P')" using run cr by (simp add: StoreNewItem_def P3_def Let_def)
  have wf3: "inv_wf P3" using inv_wf_view [OF view fs] inv_wf_alloc [OF wf] by simp
  have det3: "detached P3 (inext P)" using detached_view [OF view fs] detached_alloc_new [OF wf fresh] by simp
  have item3: "i_entry (iheap P3 (inext P)) = item" using view_itemD(1) [OF view, of "inext P"] fresh by (simp add: fresh_item_def)
  have stk: "stock P3 = stock P" using stock_view [OF view] stock_alloc [OF wf] by simp
  have reach: "reach_pos P b s \<Longrightarrow> reach_pos P3 b s" for b s using reach_alloc [OF wf] reach_pos_view [OF view] by blast
  have ok: "\<forall>d \<in> set dest. place_ok P3 pr None d \<and> 0 < unat (ipc_count d)"
    using good reach by (auto simp: good_dest_def place_ok_stock stk)
  from good have "distinct (map ipc_pos dest)" by (simp add: good_dest_def)
  with StoreItem_adds [OF wf3 det3 _ ne _ ok run3] st item3 sum stk fm show ?thesis
    by (simp add: stored_count_def)
qed

end
