(* ===== verification/Inventory_Remove.thy ===== *)
theory Inventory_Remove
  imports Inventory_Store
begin

text \<open>
  Correctness of taking out: \<open>DestroyItem\<close> clears exactly one position, whatever the depth its model
  allows for nested calls, and \<open>RemoveItem\<close> leaves the item detached. The item at the position must
  not be a bag with items inside (the code has no way to give those a place).
\<close>

section \<open>The elementary update\<close>

definition take_at :: "uint8 \<Rightarrow> uint8 \<Rightarrow> iptr \<Rightarrow> Player \<Rightarrow> Player" where
  "take_at b s p P =
     upd_item p (\<lambda>it. it\<lparr>i_slot := NULL_SLOT\<rparr>)
       (if b = INVENTORY_SLOT_BAG_0 then P\<lparr>m_items := (m_items P)(unat s := None)\<rparr>
        else case m_items P (unat b) of None \<Rightarrow> P | Some pb \<Rightarrow> Bag_RemoveItem pb s P)"

text \<open>A stored item that is not a bag with contents.\<close>

definition removable :: "Player \<Rightarrow> uint8 \<Rightarrow> uint8 \<Rightarrow> iptr \<Rightarrow> bool" where
  "removable P b s p \<longleftrightarrow> inv_wf P \<and> GetItemByPos P b s = Some p \<and> (\<forall>i. i_bagslot (iheap P p) i = None) \<and>
     unat (i_numslots (iheap P p)) \<le> MAX_BAG_SIZE"

lemma removableD:
  assumes "removable P b s p"
  shows "inv_wf P" "GetItemByPos P b s = Some p" "\<forall>i. i_bagslot (iheap P p) i = None"
    "unat (i_numslots (iheap P p)) \<le> MAX_BAG_SIZE"
  using assms by (auto simp: removable_def)

lemma removable_bag:
  assumes "removable P b s p" and "b \<noteq> INVENTORY_SLOT_BAG_0"
  obtains pb where "is_bag_index b" "m_items P (unat b) = Some pb" "unat s < unat (i_numslots (iheap P pb))"
    "i_bagslot (iheap P pb) (unat s) = Some p" "pb \<noteq> p"
proof -
  from item_in_bag [OF removableD(2) [OF assms(1)] assms(2)] obtain pb where
    pb: "is_bag_index b" "m_items P (unat b) = Some pb" "unat s < unat (i_numslots (iheap P pb))"
      "i_bagslot (iheap P pb) (unat s) = Some p" .
  have "pb \<noteq> p"
    using inv_wf_inj [OF removableD(1,2) [OF assms(1)], of INVENTORY_SLOT_BAG_0 b] inv_wf_bag(1) [OF removableD(1) [OF assms(1)] pb(1,2)]
      assms(2) by auto
  with pb that show thesis by blast
qed

lemma take_at_fields:
  assumes rem: "removable P b s p"
  shows "inext (take_at b s p P) = inext P" "ifreed (take_at b s p P) = ifreed P" "pl_frame (take_at b s p P) = pl_frame P"
    "i_entry (iheap (take_at b s p P) q) = i_entry (iheap P q)" "i_count (iheap (take_at b s p P) q) = i_count (iheap P q)"
    "i_numslots (iheap (take_at b s p P) q) = i_numslots (iheap P q)"
    "i_slot (iheap (take_at b s p P) q) = (if q = p then NULL_SLOT else i_slot (iheap P q))"
    "q \<noteq> p \<Longrightarrow> i_container (iheap (take_at b s p P) q) = i_container (iheap P q)"
    "i_bagslot (iheap (take_at b s p P) q) =
      (if b \<noteq> INVENTORY_SLOT_BAG_0 \<and> m_items P (unat b) = Some q then (i_bagslot (iheap P q))(unat s := None) else i_bagslot (iheap P q))"
    "m_items (take_at b s p P) = (if b = INVENTORY_SLOT_BAG_0 then (m_items P)(unat s := None) else m_items P)"
proof -
  consider "b = INVENTORY_SLOT_BAG_0" | pb where "b \<noteq> INVENTORY_SLOT_BAG_0" "m_items P (unat b) = Some pb"
    "i_bagslot (iheap P pb) (unat s) = Some p" "pb \<noteq> p"
    using removable_bag [OF rem] by metis
  note cs = this
  show "inext (take_at b s p P) = inext P" "ifreed (take_at b s p P) = ifreed P" "pl_frame (take_at b s p P) = pl_frame P"
    "i_entry (iheap (take_at b s p P) q) = i_entry (iheap P q)" "i_count (iheap (take_at b s p P) q) = i_count (iheap P q)"
    "i_numslots (iheap (take_at b s p P) q) = i_numslots (iheap P q)"
    "i_slot (iheap (take_at b s p P) q) = (if q = p then NULL_SLOT else i_slot (iheap P q))"
    "m_items (take_at b s p P) = (if b = INVENTORY_SLOT_BAG_0 then (m_items P)(unat s := None) else m_items P)"
    by (cases rule: cs; simp add: take_at_def Bag_RemoveItem_def Let_def)+
  show "q \<noteq> p \<Longrightarrow> i_container (iheap (take_at b s p P) q) = i_container (iheap P q)"
    by (cases rule: cs; simp add: take_at_def Bag_RemoveItem_def Let_def)
  show "i_bagslot (iheap (take_at b s p P) q) =
      (if b \<noteq> INVENTORY_SLOT_BAG_0 \<and> m_items P (unat b) = Some q then (i_bagslot (iheap P q))(unat s := None) else i_bagslot (iheap P q))"
    by (cases rule: cs; simp add: take_at_def Bag_RemoveItem_def Let_def)
qed

lemma get_take_at:
  assumes rem: "removable P b s p"
  shows "GetItemByPos (take_at b s p P) b' t = (if (b', t) = (b, s) then None else GetItemByPos P b' t)"
proof (cases "b' = INVENTORY_SLOT_BAG_0")
  case True
  with rem show ?thesis by (auto simp: GetItemByPos_player take_at_fields)
next
  case False
  show ?thesis
  proof (cases "is_bag_index b' \<and> m_items P (unat b') \<noteq> None")
    case True
    then obtain q where q: "is_bag_index b'" "m_items P (unat b') = Some q" by auto
    note wf = removableD(1) [OF rem]
    have at_q: "GetItemByPos P INVENTORY_SLOT_BAG_0 b' = Some q" by (rule inv_wf_bag(1) [OF wf q])
    show ?thesis
    proof (cases "b = INVENTORY_SLOT_BAG_0")
      case player: True
      then have "b' = s \<longleftrightarrow> q = p"
        using inv_wf_inj [OF wf removableD(2) [OF rem], of INVENTORY_SLOT_BAG_0 b'] at_q removableD(2) [OF rem] by auto
      with player False q removableD(3) [OF rem] rem show ?thesis
        by (auto simp: GetItemByPos_bag take_at_fields Bag_GetItemByPos_def)
    next
      case bag: False
      then obtain pb where pb: "is_bag_index b" "m_items P (unat b) = Some pb" using removable_bag [OF rem] by metis
      have "q = pb \<longleftrightarrow> b' = b"
        using inv_wf_inj [OF wf inv_wf_bag(1) [OF wf pb], of INVENTORY_SLOT_BAG_0 b'] at_q q pb by auto
      with bag False q pb rem show ?thesis
        by (auto simp: GetItemByPos_bag take_at_fields Bag_GetItemByPos_def)
    qed
  next
    case none: False
    with removable_bag [OF rem] have "b \<noteq> INVENTORY_SLOT_BAG_0 \<Longrightarrow> b' \<noteq> b" by (metis option.distinct(1))
    with False none rem show ?thesis by (auto simp: GetItemByPos_bag take_at_fields)
  qed
qed

lemma stock_take_at: "removable P b s p \<Longrightarrow> stock (take_at b s p P) = (stock P)((b, s) := None)"
  by (rule stock_take) (simp_all add: get_take_at take_at_fields)

lemma inv_wf_take_at:
  assumes rem: "removable P b s p"
  shows "inv_wf (take_at b s p P)"
  unfolding inv_wf_def
proof (intro conjI allI impI)
  note wf = removableD(1) [OF rem]
  fix b' t q
  assume "GetItemByPos (take_at b s p P) b' t = Some q"
  then have g: "GetItemByPos P b' t = Some q" and ne: "(b', t) \<noteq> (b, s)"
    by (auto simp: get_take_at [OF rem] split: if_splits)
  then have qp: "q \<noteq> p" using inv_wf_inj [OF wf removableD(2) [OF rem], of b' t] by auto
  show "q < inext (take_at b s p P)" "q \<notin> set (ifreed (take_at b s p P))" "i_slot (iheap (take_at b s p P) q) = t"
    using inv_wfD [OF wf g] qp by (simp_all add: take_at_fields [OF rem])
  show "i_container (iheap (take_at b s p P) q) =
      (if b' = INVENTORY_SLOT_BAG_0 then None else m_items (take_at b s p P) (unat b'))"
  proof (cases "b' = INVENTORY_SLOT_BAG_0")
    case False
    from item_in_bag [OF g False] obtain pb where pb: "is_bag_index b'" "m_items P (unat b') = Some pb"
      "i_bagslot (iheap P pb) (unat t) = Some q" by metis
    then have "pb \<noteq> p" using removableD(3) [OF rem] by auto
    with pb inv_wf_bag(1) [OF wf pb(1,2)] removableD(2) [OF rem] have "\<not> (b = INVENTORY_SLOT_BAG_0 \<and> b' = s)"
      by auto
    with False inv_wfD(4) [OF wf g] qp show ?thesis by (auto simp: take_at_fields [OF rem])
  qed (use inv_wfD(4) [OF wf g] qp in \<open>simp add: take_at_fields [OF rem]\<close>)
next
  fix b' q assume "is_bag_index b'" and "m_items (take_at b s p P) (unat b') = Some q"
  with inv_wf_bag_size [OF removableD(1) [OF rem], of b' q] show "unat (i_numslots (iheap (take_at b s p P) q)) \<le> MAX_BAG_SIZE"
    by (auto simp: take_at_fields [OF rem] split: if_splits)
next
  fix q assume "q \<in> set (ifreed (take_at b s p P))"
  with inv_wf_freed_lt [OF removableD(1) [OF rem]] show "q < inext (take_at b s p P)" by (simp add: take_at_fields [OF rem])
qed

section \<open>DestroyItem\<close>

lemma take_at_cong:
  assumes "inv_view P = inv_view Q"
  shows "inv_view (take_at b s p P) = inv_view (take_at b s p Q)"
proof -
  have m: "m_items P = m_items Q" by (rule inv_viewD(1) [OF assms])
  show ?thesis
    unfolding take_at_def
  proof (rule inv_view_upd_cong)
    show "inv_view (if b = INVENTORY_SLOT_BAG_0 then P\<lparr>m_items := (m_items P)(unat s := None)\<rparr>
        else case m_items P (unat b) of None \<Rightarrow> P | Some pb \<Rightarrow> Bag_RemoveItem pb s P) =
      inv_view (if b = INVENTORY_SLOT_BAG_0 then Q\<lparr>m_items := (m_items Q)(unat s := None)\<rparr>
        else case m_items Q (unat b) of None \<Rightarrow> Q | Some pb \<Rightarrow> Bag_RemoveItem pb s Q)"
      using inv_view_m_items_cong [OF assms, of "\<lambda>m. m(unat s := None)"] inv_view_Bag_RemoveItem_cong [OF assms] assms
      by (auto simp: m split: option.splits)
  qed (auto simp: core_def)
qed

lemma destroy_begin_frame [simp]:
  "inv_view (destroy_begin p P) = inv_view P" "ifreed (destroy_begin p P) = ifreed P" "pl_frame (destroy_begin p P) = pl_frame P"
  by (simp_all add: destroy_begin_def Let_def)

lemma destroy_notify_frame [simp]:
  "inv_view (destroy_notify E u p P) = inv_view P" "ifreed (destroy_notify E u p P) = ifreed P"
  "pl_frame (destroy_notify E u p P) = pl_frame P"
  by (simp_all add: destroy_notify_def Let_def)

lemma destroy_unequip_frame [simp]:
  "inv_view (destroy_unequip E s p P) = inv_view P" "ifreed (destroy_unequip E s p P) = ifreed P"
  "pl_frame (destroy_unequip E s p P) = pl_frame P"
  by (simp_all add: destroy_unequip_def Let_def)

lemma destroy_unlink_frame [simp]:
  "ifreed (destroy_unlink E b s p P) = ifreed P" "pl_frame (destroy_unlink E b s p P) = pl_frame P"
  by (simp_all add: destroy_unlink_def Let_def split: option.split)

text \<open>The rest of \<open>destroy_one\<close> as one step on the unlinked state.\<close>

lemma destroy_one_run:
  obtains P6 where "destroy_one E b s u p P = SetState p ITEM_REMOVED (upd_item p (\<lambda>it. it\<lparr>i_slot := NULL_SLOT\<rparr>) P6)"
    and "inv_view P6 = inv_view (destroy_unlink E b s p (destroy_begin p P))" and "ifreed P6 = ifreed P" and "pl_frame P6 = pl_frame P"
proof (rule that)
  show "destroy_one E b s u p P = SetState p ITEM_REMOVED (upd_item p (\<lambda>it. it\<lparr>i_slot := NULL_SLOT\<rparr>)
      (destroy_notify E u p (destroy_unlink E b s p (destroy_begin p P))))"
    by (rule destroy_one_def)
qed simp_all

lemma destroy_unlink_view:
  assumes "b = INVENTORY_SLOT_BAG_0 \<or> is_bag_index b"
  shows "inv_view (destroy_unlink E b s p P) =
    inv_view (if b = INVENTORY_SLOT_BAG_0 then P\<lparr>m_items := (m_items P)(unat s := None)\<rparr>
        else case m_items P (unat b) of None \<Rightarrow> P | Some pb \<Rightarrow> Bag_RemoveItem pb s P)"
proof (cases "b = INVENTORY_SLOT_BAG_0")
  case True
  have "inv_view (Q\<lparr>m_items := (m_items Q)(unat s := None)\<rparr>) = inv_view (P\<lparr>m_items := (m_items P)(unat s := None)\<rparr>)"
    if "inv_view Q = inv_view P" for Q
    using inv_view_m_items_cong [OF that, of "\<lambda>m. m(unat s := None)"] by simp
  from True this [OF destroy_unequip_frame(1) [of E s p P]] show ?thesis by (simp add: destroy_unlink_def Let_def)
next
  case False
  with assms have "GetItemByPos P INVENTORY_SLOT_BAG_0 b = m_items P (unat b)"
    by (simp add: GetItemByPos_player bag_index_player_slot)
  with False show ?thesis by (simp add: destroy_unlink_def)
qed

lemma destroy_one_view:
  assumes rem: "removable P b s p"
  shows "inv_view (destroy_one E b s u p P) = inv_view (take_at b s p P)"
proof -
  obtain P6 where d: "destroy_one E b s u p P = SetState p ITEM_REMOVED (upd_item p (\<lambda>it. it\<lparr>i_slot := NULL_SLOT\<rparr>) P6)"
    and v: "inv_view P6 = inv_view (destroy_unlink E b s p (destroy_begin p P))" by (rule destroy_one_run)
  have "b = INVENTORY_SLOT_BAG_0 \<or> is_bag_index b" using removable_bag [OF rem] by metis
  from v [unfolded destroy_unlink_view [OF this]]
  have "inv_view (upd_item p (\<lambda>it. it\<lparr>i_slot := NULL_SLOT\<rparr>) P6) = inv_view (take_at b s p (destroy_begin p P))"
    unfolding take_at_def by (rule inv_view_upd_cong) (auto simp: core_def)
  with take_at_cong [OF destroy_begin_frame(1)] show ?thesis by (simp add: d)
qed

lemma pl_frame_destroy_one [simp]: "pl_frame (destroy_one E b s u p P) = pl_frame P"
  by (rule destroy_one_run [of E b s u p P]) simp

lemma ifreed_destroy_one:
  assumes rem: "removable P b s p"
  shows "set (ifreed (destroy_one E b s u p P)) \<subseteq> insert p (set (ifreed P))"
proof -
  let ?Z = "\<lambda>P6. upd_item p (\<lambda>it. it\<lparr>i_slot := NULL_SLOT\<rparr>) P6"
  obtain P6 where d: "destroy_one E b s u p P = SetState p ITEM_REMOVED (?Z P6)" and fr: "ifreed P6 = ifreed P"
    by (rule destroy_one_run)
  have v: "inv_view (?Z P6) = inv_view (take_at b s p P)"
    using destroy_one_view [OF rem, of E u] by (simp add: d)
  have "\<not> (b \<noteq> INVENTORY_SLOT_BAG_0 \<and> m_items P (unat b) = Some p)"
    using removable_bag [OF rem] by (metis option.inject)
  then have "\<forall>i. i_bagslot (iheap (take_at b s p P) p) i = None"
    using take_at_fields(9) [OF rem, of p] removableD(3) [OF rem] by auto
  then have "\<forall>i. i_bagslot (iheap (?Z P6) p) i = None"
    using view_itemD(6) [OF v, of p] by simp
  from ifreed_SetState_removed [OF this] show ?thesis by (auto simp: d fr)
qed

lemma destroy_one_effect:
  assumes rem: "removable P b s p"
  shows "inv_wf (destroy_one E b s u p P)" and "stock (destroy_one E b s u p P) = (stock P)((b, s) := None)"
proof -
  let ?D = "destroy_one E b s u p P" and ?T = "take_at b s p P"
  note view = destroy_one_view [OF rem, of E u]
  show "inv_wf ?D"
  proof (rule inv_wf_freed [OF inv_wf_take_at [OF rem] view])
    fix b' t q assume "GetItemByPos ?T b' t = Some q"
    then have g: "GetItemByPos P b' t = Some q" and "(b', t) \<noteq> (b, s)" by (auto simp: get_take_at [OF rem] split: if_splits)
    then have "q \<noteq> p" using inv_wf_inj [OF removableD(1,2) [OF rem], of b' t] by auto
    then show "q \<notin> set (ifreed ?D)"
      using ifreed_destroy_one [OF rem] inv_wfD(2) [OF removableD(1) [OF rem] g] by blast
  next
    fix q assume "q \<in> set (ifreed ?D)"
    then show "q < inext ?T"
      using ifreed_destroy_one [OF rem] inv_wf_freed_lt [OF removableD(1) [OF rem]] inv_wfD(1) [OF removableD(1,2) [OF rem]]
      by (auto simp: take_at_fields [OF rem])
  qed
  show "stock ?D = (stock P)((b, s) := None)"
    using stock_view [OF view] stock_take_at [OF rem] by simp
qed

text \<open>The nested calls on an equipped bag find nothing: an equipped item is in an equipment slot,
  and no lookup takes such a slot for a bag.\<close>

lemma DestroyItem_upto_none: "GetItemByPos P b s = None \<Longrightarrow> DestroyItem_upto n E b s u P = P"
  by (cases n) simp_all

lemma equipped_nothing_inside:
  assumes "inv_wf P" and "GetItemByPos P b s = Some p" and "IsEquipped (iheap P p)"
  shows "GetItemByPos P s t = None"
proof -
  from assms inv_wfD(3) [OF assms(1,2)] have s: "unat s < EQUIPMENT_SLOT_END" by (simp add: IsEquipped_def)
  then have "s \<noteq> INVENTORY_SLOT_BAG_0" "\<not> is_bag_index s" by (auto simp: is_bag_index_def)
  then show ?thesis by (simp add: GetItemByPos_bag)
qed

lemma fold_no_change: "(\<And>x. x \<in> set xs \<Longrightarrow> f x P = P) \<Longrightarrow> fold f xs P = P"
  by (induction xs) simp_all

lemma DestroyItem_upto_wf:
  assumes "inv_wf P" and "GetItemByPos P b s = Some p"
  shows "DestroyItem_upto (Suc n) E b s u P = destroy_one E b s u p
    (if IsBag E (iheap P p) \<and> \<not> IsEquipped (iheap P p) \<and> \<not> IsEmptyBag (iheap P p)
     then pemit (AnticheatReport ''Player::DestroyItem: destroying non equipped bag with items inside!'') P else P)"
proof -
  have "fold (\<lambda>i Q. DestroyItem_upto n E s (of_nat i) u Q) [0..<MAX_BAG_SIZE] P = P" if "IsEquipped (iheap P p)"
    by (rule fold_no_change) (simp add: DestroyItem_upto_none equipped_nothing_inside [OF assms that])
  with assms(2) show ?thesis by (auto simp: Let_def)
qed

lemma removable_pemit [simp]: "removable (pemit e P) b s p = removable P b s p"
proof -
  have v: "inv_view (pemit e P) = inv_view P" by simp
  have f: "set (ifreed (pemit e P)) = set (ifreed P)" by simp
  show ?thesis
    unfolding removable_def inv_wf_view [OF v f] GetItemByPos_view [OF v] view_itemD [OF v] ..
qed

lemma DestroyItem_stock:
  assumes rem: "removable P b s p"
  shows "inv_wf (DestroyItem E b s u P)" and "stock (DestroyItem E b s u P) = (stock P)((b, s) := None)"
    and "pl_frame (DestroyItem E b s u P) = pl_frame P"
proof -
  let ?R = "AnticheatReport ''Player::DestroyItem: destroying non equipped bag with items inside!''"
  have "removable (pemit ?R P) b s p" using rem by simp
  note e = destroy_one_effect [OF rem, of E u] destroy_one_effect [OF this, of E u]
  have three: "(3 :: nat) = Suc 2" by simp
  have run: "DestroyItem E b s u P = destroy_one E b s u p P \<or> DestroyItem E b s u P = destroy_one E b s u p (pemit ?R P)"
    unfolding DestroyItem_def three DestroyItem_upto_wf [OF removableD(1,2) [OF rem]] by auto
  with e show "inv_wf (DestroyItem E b s u P)" by auto
  from run e stock_view [OF inv_view_pemit] show "stock (DestroyItem E b s u P) = (stock P)((b, s) := None)" by auto
  from run show "pl_frame (DestroyItem E b s u P) = pl_frame P" by auto
qed

end
