(* ===== verification/Inventory_Count.thy ===== *)
theory Inventory_Count
  imports Inventory_Remove
begin

text \<open>
  Counting: \<open>GetItemCount\<close> visits every position of the inventory once, so on a well-formed
  inventory it returns the number of stored pieces (modulo the 32-bit range); what a limited template
  allows is therefore kept by the storage check. \<open>DestroyItemCount\<close> takes exactly the pieces it
  says it took.
\<close>

section \<open>The count of the code and the count of the model\<close>

definition held :: "Player \<Rightarrow> uint32 \<Rightarrow> iptr option \<Rightarrow> nat" where
  "held P e po = (case po of None \<Rightarrow> 0 | Some p \<Rightarrow> if i_entry (iheap P p) = e then unat (i_count (iheap P p)) else 0)"

lemma sum_map_filter: "(\<Sum>p\<leftarrow>List.map_filter f xs. held P e (Some p)) = (\<Sum>x\<leftarrow>xs. held P e (f x))"
  by (induction xs) (auto simp: List.map_filter_simps held_def split: option.split)

lemma pieces_stock: "pieces e (stock P bs) = held P e (GetItemByPos P (fst bs) (snd bs))"
  by (cases "GetItemByPos P (fst bs) (snd bs)") (auto simp: stock_def held_def)

lemma GetItemCount_sum:
  "GetItemCount P e b None = of_nat (\<Sum>p\<leftarrow>ApplyForAllItems P b. held P e (Some p))"
proof -
  have "foldl (\<lambda>c p. if Some p \<noteq> None \<and> i_entry (iheap P p) = e then c + i_count (iheap P p) else c) c ps =
      c + of_nat (\<Sum>p\<leftarrow>ps. held P e (Some p))" for c ps
    by (induction ps arbitrary: c) (simp_all add: held_def)
  then show ?thesis by (simp add: GetItemCount_def)
qed

lemma sum_player_slots:
  assumes "hi \<le> 256" and "\<And>s. s \<in> set (slot_list lo hi) \<Longrightarrow> player_slot s"
  shows "(\<Sum>bs\<leftarrow>List.product [INVENTORY_SLOT_BAG_0] (slot_list lo hi). pieces e (stock P bs)) = (\<Sum>i\<leftarrow>[lo..<hi]. held P e (m_items P i))"
proof -
  have "(\<Sum>bs\<leftarrow>List.product [INVENTORY_SLOT_BAG_0] (slot_list lo hi). pieces e (stock P bs)) =
      (\<Sum>s\<leftarrow>slot_list lo hi. held P e (GetItemByPos P INVENTORY_SLOT_BAG_0 s))"
    by (simp add: pieces_stock comp_def)
  also have "\<dots> = (\<Sum>s\<leftarrow>slot_list lo hi. held P e (m_items P (unat s)))"
    by (rule sum_list_cong) (simp add: GetItemByPos_player assms(2))
  also have "\<dots> = (\<Sum>i\<leftarrow>[lo..<hi]. held P e (m_items P i))"
    unfolding slot_list_def map_map comp_def by (rule sum_list_cong) (use assms(1) in \<open>simp add: unat_of_nat\<close>)
  finally show ?thesis .
qed

lemma sum_bag:
  assumes wf: "inv_wf P" and b: "is_bag_index b"
  shows "(\<Sum>s\<leftarrow>slot_list 0 MAX_BAG_SIZE. pieces e (stock P (b, s))) = (\<Sum>p\<leftarrow>bag_items P (unat b). held P e (Some p))"
proof (cases "m_items P (unat b)")
  case None
  then have "pieces e (stock P (b, s)) = 0" for s
    using b by (simp add: pieces_stock GetItemByPos_bag bag_index_not_255 held_def)
  with None show ?thesis by (simp add: bag_items_def)
next
  case (Some pb)
  let ?n = "unat (i_numslots (iheap P pb))" and ?h = "\<lambda>i. held P e (i_bagslot (iheap P pb) i)"
  have n: "?n \<le> MAX_BAG_SIZE" by (rule inv_wf_bag_size [OF wf b Some])
  have "pieces e (stock P (b, of_nat i)) = (if i < ?n then ?h i else 0)" if "i < MAX_BAG_SIZE" for i
    using that b Some by (simp add: pieces_stock GetItemByPos_bag bag_index_not_255 Bag_GetItemByPos_def unat_of_nat held_def)
  then have "(\<Sum>s\<leftarrow>slot_list 0 MAX_BAG_SIZE. pieces e (stock P (b, s))) = (\<Sum>i\<leftarrow>[0..<MAX_BAG_SIZE]. if i < ?n then ?h i else 0)"
    unfolding slot_list_def map_map comp_def by (intro sum_list_cong) simp
  also have "[0..<MAX_BAG_SIZE] = [0..<?n] @ [?n..<MAX_BAG_SIZE]" using n upt_add_eq_append [of 0 ?n "MAX_BAG_SIZE - ?n"] by simp
  also have "(\<Sum>i\<leftarrow>[0..<?n] @ [?n..<MAX_BAG_SIZE]. if i < ?n then ?h i else 0) = (\<Sum>i\<leftarrow>[0..<?n]. ?h i)"
  proof -
    have "(\<Sum>i\<leftarrow>[?n..<MAX_BAG_SIZE]. if i < ?n then ?h i else 0) = (\<Sum>i\<leftarrow>[?n..<MAX_BAG_SIZE]. 0)" by (rule sum_list_cong) simp
    moreover have "(\<Sum>i\<leftarrow>[0..<?n]. if i < ?n then ?h i else 0) = (\<Sum>i\<leftarrow>[0..<?n]. ?h i)" by (rule sum_list_cong) simp
    ultimately show ?thesis by (simp only: map_append sum_list_append) simp
  qed
  finally show ?thesis using Some by (simp add: bag_items_def sum_map_filter)
qed

lemma sum_product: "(\<Sum>bs\<leftarrow>List.product xs ys. f bs) = (\<Sum>x\<leftarrow>xs. \<Sum>y\<leftarrow>ys. f (x, y))" for f :: "'a \<times> 'b \<Rightarrow> nat"
  by (induction xs) (simp_all add: comp_def)

lemma sum_concat: "(\<Sum>x\<leftarrow>xs. \<Sum>y\<leftarrow>f x. g y) = (\<Sum>y\<leftarrow>concat (map f xs). g y)" for g :: "'a \<Rightarrow> nat"
  by (induction xs) simp_all

lemma sum_bags:
  assumes wf: "inv_wf P" and "hi \<le> 256" and "\<And>b. b \<in> set (slot_list lo hi) \<Longrightarrow> is_bag_index b"
  shows "(\<Sum>bs\<leftarrow>List.product (slot_list lo hi) (slot_list 0 MAX_BAG_SIZE). pieces e (stock P bs)) =
    (\<Sum>p\<leftarrow>concat (map (bag_items P) [lo..<hi]). held P e (Some p))"
proof -
  have "(\<Sum>bs\<leftarrow>List.product (slot_list lo hi) (slot_list 0 MAX_BAG_SIZE). pieces e (stock P bs)) =
      (\<Sum>b\<leftarrow>slot_list lo hi. \<Sum>p\<leftarrow>bag_items P (unat b). held P e (Some p))"
    unfolding sum_product by (rule sum_list_cong) (simp add: sum_bag [OF wf] assms(3))
  also have "\<dots> = (\<Sum>i\<leftarrow>[lo..<hi]. \<Sum>p\<leftarrow>bag_items P i. held P e (Some p))"
    unfolding slot_list_def map_map comp_def by (rule sum_list_cong) (use assms(2) in \<open>simp add: unat_of_nat\<close>)
  also have "\<dots> = (\<Sum>p\<leftarrow>concat (map (bag_items P) [lo..<hi]). held P e (Some p))"
    by (rule sum_concat)
  finally show ?thesis .
qed

lemma product_append: "List.product (xs @ ys) zs = List.product xs zs @ List.product ys zs"
  by (induction xs) simp_all

lemma stored_count_visits:
  assumes "inv_wf P"
  shows "stored_count P e = (\<Sum>p\<leftarrow>ApplyForAllItems P True. held P e (Some p))"
proof -
  let ?g = "\<lambda>bs. pieces e (stock P bs)" and ?h = "\<lambda>p. held P e (Some p)" and ?B = "[INVENTORY_SLOT_BAG_0]"
  have app: "(\<Sum>bs\<leftarrow>List.product ?B (xs @ ys). ?g bs) = (\<Sum>bs\<leftarrow>List.product ?B xs. ?g bs) + (\<Sum>bs\<leftarrow>List.product ?B ys. ?g bs)" for xs ys
    by simp
  have p1: "(\<Sum>bs\<leftarrow>List.product ?B (slot_list 0 BANK_SLOT_BAG_END). ?g bs) = (\<Sum>i\<leftarrow>[0..<BANK_SLOT_BAG_END]. held P e (m_items P i))"
    by (rule sum_player_slots) (auto simp: in_slot_list player_slot_def)
  have p2: "(\<Sum>bs\<leftarrow>List.product ?B (slot_list KEYRING_SLOT_START KEYRING_SLOT_END). ?g bs) =
      (\<Sum>i\<leftarrow>[KEYRING_SLOT_START..<KEYRING_SLOT_END]. held P e (m_items P i))"
    by (rule sum_player_slots) (auto simp: in_slot_list player_slot_def)
  have b1: "(\<Sum>bs\<leftarrow>List.product (slot_list INVENTORY_SLOT_BAG_START INVENTORY_SLOT_BAG_END) (slot_list 0 MAX_BAG_SIZE). ?g bs) =
      (\<Sum>p\<leftarrow>concat (map (bag_items P) [INVENTORY_SLOT_BAG_START..<INVENTORY_SLOT_BAG_END]). ?h p)"
    by (rule sum_bags [OF assms]) (auto simp: in_slot_list is_bag_index_def)
  have b2: "(\<Sum>bs\<leftarrow>List.product (slot_list BANK_SLOT_BAG_START BANK_SLOT_BAG_END) (slot_list 0 MAX_BAG_SIZE). ?g bs) =
      (\<Sum>p\<leftarrow>concat (map (bag_items P) [BANK_SLOT_BAG_START..<BANK_SLOT_BAG_END]). ?h p)"
    by (rule sum_bags [OF assms]) (auto simp: in_slot_list is_bag_index_def)
  have cut: "[0..<BANK_SLOT_BAG_END] = [0..<INVENTORY_SLOT_ITEM_END] @ [BANK_SLOT_ITEM_START..<BANK_SLOT_BAG_END]"
    using upt_add_eq_append [of 0 39 30] by (simp del: upt_conv_Cons upt_rec_numeral)
  have c: "(\<Sum>i\<leftarrow>[0..<BANK_SLOT_BAG_END]. held P e (m_items P i)) =
      (\<Sum>i\<leftarrow>[0..<INVENTORY_SLOT_ITEM_END]. held P e (m_items P i)) + (\<Sum>i\<leftarrow>[BANK_SLOT_ITEM_START..<BANK_SLOT_BAG_END]. held P e (m_items P i))"
    unfolding cut map_append sum_list_append ..
  show ?thesis
    unfolding stored_count_def total_def all_pos_def ApplyForAllItems_def if_True map_append sum_list_append app product_append
      p1 p2 b1 b2 sum_map_filter c by (simp only: ac_simps)
qed

lemma GetItemCount_stored:
  assumes "inv_wf P"
  shows "GetItemCount P e True None = of_nat (stored_count P e)"
  by (simp only: GetItemCount_sum stored_count_visits [OF assms])

section \<open>Limited templates\<close>

lemma CanStoreNewItem_limit:
  assumes pr: "e_protos E entry = Some pr" "pr_ItemId pr = entry" and lim: "0 < unat (pr_MaxCount pr)" and wf: "inv_wf P"
    and small: "stored_count P entry + unat count < 4294967296"
    and sound: "stack_ok pr" "bag_sizes_ok E P" "bag = NULL_BAG \<or> bag = INVENTORY_SLOT_BAG_0 \<or> is_bag_index bag" "count \<noteq> 0"
    and ok: "CanStoreNewItem E P bag slot entry count = (EQUIP_ERR_OK, dest, r)"
  shows "stored_count P entry + unat count \<le> unat (pr_MaxCount pr)"
proof (rule ccontr)
  let ?cur = "GetItemCount P entry True None"
  assume over: "\<not> ?thesis"
  have cur: "unat ?cur = stored_count P entry"
    using small by (simp add: GetItemCount_stored [OF wf] unat_of_nat)
  have sum: "unat (?cur + count) = stored_count P entry + unat count" using small cur by (simp add: unat_add32)
  have take: "CanTakeMoreSimilarItems E P entry count None =
      (EQUIP_ERR_CANT_CARRY_MORE_OF_THIS, Some (count + ?cur - pr_MaxCount pr))"
    using over sum lim by (simp add: CanTakeMoreSimilarItems_def pr Let_def word_nat unat_gt_0)
  show False
    using CanStoreItem_impl_sound(2) [OF pr(1) sound ok [unfolded CanStoreNewItem_def]] take by simp
qed

section \<open>Taking pieces\<close>

definition takes :: "Player \<Rightarrow> Player \<Rightarrow> uint32 \<Rightarrow> nat \<Rightarrow> bool" where
  "takes P P' entry n \<longleftrightarrow> inv_wf P' \<and> pl_frame P' = pl_frame P \<and>
     (\<forall>e. stored_count P' e + (if e = entry then n else 0) = stored_count P e)"

lemma takes_stock:
  assumes "inv_wf P'" "pl_frame P' = pl_frame P" and pos: "(b, s) \<in> set all_pos" and "stock P' = (stock P)((b, s) := x)"
    and "\<And>e. pieces e (stock P (b, s)) = pieces e x + (if e = entry then n else 0)"
  shows "takes P P' entry n"
  using assms(1,2,4,5) total_upd [OF pos, of "stock P" x] by (simp add: takes_def stored_count_def)

lemma DestroyItem_takes:
  assumes rem: "removable P b s p"
  shows "takes P (DestroyItem E b s u P) (i_entry (iheap P p)) (unat (i_count (iheap P p)))"
  by (rule takes_stock [OF DestroyItem_stock(1,3) [OF rem] stored_in_all_pos DestroyItem_stock(2) [OF rem]])
    (use removableD [OF rem] in \<open>auto simp: stock_def\<close>)

text \<open>An item loses pieces where it is; everything else of the player's inventory stays.\<close>

lemma decrement_takes:
  assumes rem: "removable P b s p" and n: "unat n \<le> unat (i_count (iheap P p))"
    and view: "inv_view Q = inv_view (upd_item p (\<lambda>it. it\<lparr>i_count := i_count it - n\<rparr>) P)"
    and fr: "ifreed Q = ifreed P" "pl_frame Q = pl_frame P"
  shows "takes P Q (i_entry (iheap P p)) (unat n)" and "removable Q b s p"
    and "i_count (iheap Q p) = i_count (iheap P p) - n" and "i_entry (iheap Q p) = i_entry (iheap P p)"
proof -
  let ?U = "upd_item p (\<lambda>it. it\<lparr>i_count := i_count it - n\<rparr>) P"
  note wf = removableD(1) [OF rem] and get = removableD(2) [OF rem]
  have "inv_wf ?U" by (rule inv_wf_upd_item [OF wf]) simp_all
  then have wfQ: "inv_wf Q" using inv_wf_view [OF view] fr(1) by simp
  have st: "stock Q = (stock P)((b, s) := Some (i_entry (iheap P p), unat (i_count (iheap P p) - n)))"
    unfolding stock_view [OF view] by (rule stock_set_count [OF wf get])
  show "takes P Q (i_entry (iheap P p)) (unat n)"
    by (rule takes_stock [OF wfQ fr(2) stored_in_all_pos [OF wf get] st])
      (use n get in \<open>auto simp: stock_def unat_sub32\<close>)
  have "GetItemByPos ?U = GetItemByPos P" by (rule GetItemByPos_upd_item) simp_all
  then show "removable Q b s p"
    using wfQ removableD [OF rem] GetItemByPos_view [OF view] view_itemD [OF view, of p] by (simp add: removable_def)
  show "i_count (iheap Q p) = i_count (iheap P p) - n" "i_entry (iheap Q p) = i_entry (iheap P p)"
    using view_itemD [OF view, of p] by simp_all
qed

lemma DestroyItemCount_takes:
  assumes rem: "removable P b s p" and run: "DestroyItemCount E p n u P = (left, P')"
  shows "takes P P' (i_entry (iheap P p)) (min (unat n) (unat (i_count (iheap P p))))" and "unat left = unat n - unat (i_count (iheap P p))"
proof -
  have at: "GetBagSlot P p = b" "i_slot (iheap P p) = s"
    using inv_wf_GetBagSlot [OF removableD(1,2) [OF rem]] inv_wfD(3) [OF removableD(1,2) [OF rem]] by auto
  have "takes P P' (i_entry (iheap P p)) (min (unat n) (unat (i_count (iheap P p)))) \<and> unat left = unat n - unat (i_count (iheap P p))"
  proof (cases "i_count (iheap P p) \<le> n")
    case True
    with run DestroyItem_takes [OF rem, of E u] at show ?thesis
      by (auto simp: DestroyItemCount_def word_nat unat_sub32)
  next
    case False
    then have lt: "unat n \<le> unat (i_count (iheap P p))" by (simp add: word_nat)
    have run': "P' = SetState p ITEM_CHANGED (show_item u p (upd_item p (\<lambda>it. it\<lparr>i_count := i_count it - n\<rparr>)
        (pemit (ItemRemovedQuestCheck (i_entry (iheap P p)) n) P)))" "left = 0"
      using run False by (auto simp: DestroyItemCount_def)
    have "inv_view P' = inv_view (upd_item p (\<lambda>it. it\<lparr>i_count := i_count it - n\<rparr>) P)"
      unfolding run'(1) by simp (rule inv_view_upd_cong, auto simp: core_def)
    from decrement_takes(1) [OF rem lt this] run' lt show ?thesis by (simp add: min_def)
  qed
  then show "takes P P' (i_entry (iheap P p)) (min (unat n) (unat (i_count (iheap P p))))" "unat left = unat n - unat (i_count (iheap P p))"
    by auto
qed

section \<open>Money\<close>

lemma signed_range32:
  fixes x :: int
  assumes "0 \<le> x" and "x < 4294967296"
  shows "signed_take_bit 31 x = (if x < 2147483648 then x else x - 4294967296)"
proof -
  have "signed_take_bit 31 x = (x + 2147483648) mod 4294967296 - 2147483648"
    by (simp add: signed_take_bit_eq_take_bit_shift take_bit_eq_mod)
  moreover have "(x + 2147483648) mod 4294967296 = (if x < 2147483648 then x + 2147483648 else x - 2147483648)"
  proof (cases "x < 2147483648")
    case True
    with assms show ?thesis by (simp add: mod_pos_pos_trivial)
  next
    case False
    have "(x + 2147483648) mod 4294967296 = (x - 2147483648 + 4294967296) mod 4294967296" by (simp add: add.commute)
    also have "\<dots> = (x - 2147483648) mod 4294967296" by (rule mod_add_self2)
    finally show ?thesis using False assms by (simp add: mod_pos_pos_trivial)
  qed
  ultimately show ?thesis by simp
qed

lemma sint_as_unat: "sint a = (if unat a < 2147483648 then int (unat a) else int (unat a) - 4294967296)" for a :: uint32
proof -
  have "sint a = signed_take_bit 31 (int (unat a))" by (simp add: sint_uint)
  moreover have "signed_take_bit 31 (int (unat a)) = (if int (unat a) < 2147483648 then int (unat a) else int (unat a) - 4294967296)"
    by (rule signed_range32) (use unat32_lt [of a] in linarith)+
  moreover have "int (unat a) < 2147483648 \<longleftrightarrow> unat a < 2147483648" by linarith
  ultimately show ?thesis by (simp only:)
qed

lemma ModifyMoney_sum:
  assumes "e_moneyhook E d = amount" and m: "unat (pl_money P) \<le> 2147483646" and "sint amount \<le> 2147483646"
  shows "int (unat (pl_money (ModifyMoney E d P))) = max 0 (min 2147483646 (int (unat (pl_money P)) + sint amount))"
proof (cases "sint amount < 0")
  case True
  then have a: "2147483648 \<le> unat amount" and s: "sint amount = int (unat amount) - 4294967296"
    by (auto simp: sint_as_unat split: if_splits)
  have neg: "unat (- amount) = 4294967296 - unat amount" using a unat_sub_if' [of 0 amount] by simp
  show ?thesis
  proof (cases "pl_money P > - amount")
    case gt: True
    then have g: "4294967296 - unat amount < unat (pl_money P)" by (simp add: word_nat neg)
    then have "unat (pl_money P + amount) = unat (pl_money P) + unat amount - 4294967296"
      using unat32_lt [of amount] m by (simp add: unat_add32_wrap mod_if)
    moreover have run: "pl_money (ModifyMoney E d P) = pl_money P + amount"
      using gt True by (simp add: ModifyMoney_def SetMoney_def pemit_def assms(1))
    ultimately have "unat (pl_money (ModifyMoney E d P)) = unat (pl_money P) + unat amount - 4294967296" by (simp only: run)
    then have "int (unat (pl_money (ModifyMoney E d P))) = int (unat (pl_money P)) + sint amount"
      using g s a by linarith
    moreover have "0 \<le> int (unat (pl_money P)) + sint amount" "int (unat (pl_money P)) + sint amount \<le> 2147483646"
      using g s m a unat32_lt [of amount] by linarith+
    ultimately show ?thesis by (simp only: min.absorb2 max.absorb2)
  next
    case False
    then have "unat (pl_money P) \<le> 4294967296 - unat amount" by (simp add: word_nat neg)
    with s have "int (unat (pl_money P)) + sint amount \<le> 0" using unat32_lt [of amount] by linarith
    moreover have "unat (pl_money (ModifyMoney E d P)) = 0"
      using False True by (simp add: ModifyMoney_def SetMoney_def pemit_def assms(1))
    ultimately show ?thesis by (simp del: of_nat_unat)
  qed
next
  case False
  then have s: "sint amount = int (unat amount)"
    unfolding sint_as_unat using unat32_lt [of amount] by (simp split: if_splits)
  then have a: "unat amount \<le> 2147483646" using assms(3) by linarith
  have room: "unat (0x7FFFFFFE - amount) = 2147483646 - unat amount" using a by (simp add: unat_sub32)
  show ?thesis
  proof (cases "pl_money P < 0x7FFFFFFE - amount")
    case lt: True
    then have l: "unat (pl_money P) + unat amount < 2147483646" using room a by (simp add: word_nat)
    have "pl_money (ModifyMoney E d P) = pl_money P + amount"
      using lt False by (simp add: ModifyMoney_def SetMoney_def pemit_def assms(1))
    moreover have "unat (pl_money P + amount) = unat (pl_money P) + unat amount" using l by (intro unat_add32) linarith
    ultimately have "unat (pl_money (ModifyMoney E d P)) = unat (pl_money P) + unat amount" by (simp only:)
    with s l have "int (unat (pl_money (ModifyMoney E d P))) = int (unat (pl_money P)) + sint amount"
      "0 \<le> int (unat (pl_money P)) + sint amount" "int (unat (pl_money P)) + sint amount \<le> 2147483646" by linarith+
    then show ?thesis by (simp only: min.absorb2 max.absorb2)
  next
    case ge: False
    then have "2147483646 \<le> unat (pl_money P) + unat amount" using room a by (simp add: word_nat)
    with s have "2147483646 \<le> int (unat (pl_money P)) + sint amount" by linarith
    moreover have "pl_money (ModifyMoney E d P) = 0x7FFFFFFE"
      using ge False by (simp add: ModifyMoney_def SetMoney_def pemit_def assms(1))
    ultimately show ?thesis by (simp only: min.absorb1) simp
  qed
qed

end
