(* ===== verification/Bank_Deposit_Props.thy ===== *)
theory Bank_Deposit_Props
  imports Bank_Move_Props Inventory_Count
begin

text \<open>
  Depositing conserves pieces: what the player's item loses is what the bank gains, for a deposit
  into a free slot, onto a stack, and for the whole recursion over the partial stacks of a tab.
\<close>

section \<open>Player and bank together\<close>

definition stack_of :: "'e Env_scheme \<Rightarrow> uint32 \<Rightarrow> uint32" where
  "stack_of E e = (case e_protos E e of None \<Rightarrow> 0 | Some pr \<Rightarrow> pr_Stackable pr)"

text \<open>A state both sides of which are in order, and the pieces of a template on both sides.\<close>

definition state_ok :: "'e Env_scheme \<Rightarrow> GState \<Rightarrow> bool" where
  "state_ok E s \<longleftrightarrow> inv_wf (gs_pl s) \<and> bank_struct (gs_bk s) \<and> stacks_ok (stack_of E) (gs_bk s)"

definition both_count :: "GState \<Rightarrow> uint32 \<Rightarrow> nat" where
  "both_count s e = stored_count (gs_pl s) e + bank_count (gs_bk s) e"

text \<open>An item of the player that can go into the bank: it lies at a position, has no contents, its
  template is known and it is not above its stack size.\<close>

definition bankable_at :: "'e Env_scheme \<Rightarrow> Player \<Rightarrow> uint8 \<Rightarrow> uint8 \<Rightarrow> iptr \<Rightarrow> ItemPrototype \<Rightarrow> bool" where
  "bankable_at E P b s p pr \<longleftrightarrow> removable P b s p \<and> e_protos E (i_entry (iheap P p)) = Some pr \<and> pr_ItemId pr = i_entry (iheap P p) \<and>
     unat (i_count (iheap P p)) \<le> unat (pr_Stackable pr) \<and> unat (pr_Stackable pr) < 2147483648"

lemma bankable_atD:
  assumes "bankable_at E P b s p pr"
  shows "removable P b s p" "the_proto E (iheap P p) = pr" "pr_ItemId pr = i_entry (iheap P p)"
    "stack_of E (i_entry (iheap P p)) = pr_Stackable pr" "unat (i_count (iheap P p)) \<le> unat (pr_Stackable pr)"
    "unat (pr_Stackable pr) < 2147483648"
  using assms by (auto simp: bankable_at_def the_proto_def GetProto_def stack_of_def)

section \<open>The bank's half\<close>

lemma clone_fields [simp]:
  "bi_tab (CloneItem_to_bank E i it b) = bi_tab b" "bi_slot (CloneItem_to_bank E i it b) = bi_slot b"
  "bi_count (CloneItem_to_bank E i it b) = bi_count b" "bi_item_template (CloneItem_to_bank E i it b) = pr_ItemId (the_proto E it)"
  "bi_maxStackSize (CloneItem_to_bank E i it b) = pr_Stackable (the_proto E it)"
  by (simp_all add: CloneItem_to_bank_def Let_def GetMaxStackSize_def)

text \<open>What the bank gets: \<open>n\<close> pieces of a template, at a place of the tab.\<close>

definition gains :: "'e Env_scheme \<Rightarrow> Bank \<Rightarrow> Bank \<Rightarrow> uint32 \<Rightarrow> nat \<Rightarrow> bool" where
  "gains E B C entry n \<longleftrightarrow> bank_struct C \<and> stacks_ok (stack_of E) C \<and> (\<forall>e. bank_count C e = bank_count B e + (if e = entry then n else 0))"

lemma deposit_into_new:
  assumes ok: "bank_struct (gs_bk s)" "stacks_ok (stack_of E) (gs_bk s)" and it: "bankable_at E (gs_pl s) pb ps p pr"
    and ib: "in_bank (t, sl)" and free: "GetItem (gs_bk s) t sl = None" and n: "unat n \<le> unat (pr_Stackable pr)"
  obtains q B where "deposit_into E t sl p n ITEM_NEW stack s = (Some q, s\<lparr>gs_bk := B\<rparr>)" and
    "gains E (gs_bk s) B (i_entry (iheap (gs_pl s) p)) (unat n)"
proof -
  let ?B = "gs_bk s" and ?it = "iheap (gs_pl s) p"
  let ?new = "(new_BankItem E)\<lparr>bi_is_inferno := b_infernoBank ?B, bi_guid := GetNewGuid ?B, bi_guildid := b_guildid ?B,
      bi_count := n, bi_tab := t, bi_slot := sl\<rparr>"
  let ?B1 = "snd (balloc ?new ?B)"
  let ?f = "\<lambda>b. CloneItem_to_bank E (b_infernoBank ?B1) ?it (b\<lparr>bi_state := ITEM_NEW\<rparr>)"
  let ?C = "AddItem (b_next ?B) (enqueue (b_next ?B) (upd_bi (b_next ?B) ?f ?B1))"
  note d = bankable_atD [OF it]
  have pl: "place (?f ?new) = (t, sl)" by (simp add: place_def)
  have fr: "\<forall>r \<in> set (b_items ?B). place (b_heap ?B r) \<noteq> (t, sl)" using free by (simp add: GetItem_None)
  note add = add_new [OF ok(1), where f = ?f, OF pl ib fr]
  have run: "deposit_into E t sl p n ITEM_NEW stack s = (Some (b_next ?B), s\<lparr>gs_bk := ?C\<rparr>)"
    by (simp add: deposit_into_def Let_def balloc_def)
  have "stacks_ok (stack_of E) ?C"
    by (rule stacks_ok_add [OF ok(2) add(3)]) (use add(4) bank_structD(1) [OF ok(1)] d n in auto)
  moreover have "bank_count ?C e = bank_count ?B e + (if e = i_entry ?it then unat n else 0)" for e
    using add(2) [of e] d by (simp add: bpieces_def)
  ultimately have "gains E ?B ?C (i_entry ?it) (unat n)" using add(1) by (simp add: gains_def)
  with run show thesis by (rule that)
qed

lemma deposit_into_stack:
  assumes ok: "bank_struct (gs_bk s)" "stacks_ok (stack_of E) (gs_bk s)" and it: "bankable_at E (gs_pl s) pb ps p pr"
    and q: "GetItem (gs_bk s) t sl = Some q" and same: "bi_item_template (b_heap (gs_bk s) q) = i_entry (iheap (gs_pl s) p)"
    and fits: "unat (bi_count (b_heap (gs_bk s) q)) + unat n \<le> unat (pr_Stackable pr)"
  obtains B where "deposit_into E t sl p n ITEM_CHANGED True s = (Some q, s\<lparr>gs_bk := B\<rparr>)" and
    "gains E (gs_bk s) B (i_entry (iheap (gs_pl s) p)) (unat n)"
proof -
  let ?B = "gs_bk s" and ?it = "iheap (gs_pl s) p"
  let ?g = "\<lambda>b. b\<lparr>bi_count := bi_count b + n\<rparr>"
  let ?f = "\<lambda>b. CloneItem_to_bank E (b_infernoBank (upd_bi q ?g ?B)) ?it (b\<lparr>bi_state := ITEM_CHANGED\<rparr>)"
  let ?C = "enqueue q (upd_bi q ?f (upd_bi q ?g ?B))"
  note d = bankable_atD [OF it]
  from GetItem_Some [OF q] have mem: "q \<in> set (b_items ?B)" by simp
  have un: "unat (bi_count (b_heap ?B q) + n) = unat (bi_count (b_heap ?B q)) + unat n"
    by (rule unat_add32) (use fits d(6) in linarith)
  have max: "bi_maxStackSize (b_heap ?B q) = pr_Stackable pr" using stacks_ok_size [OF ok(2) mem] same d(4) by simp
  have run: "deposit_into E t sl p n ITEM_CHANGED True s = (Some q, s\<lparr>gs_bk := ?C\<rparr>)"
    by (simp add: deposit_into_def Let_def q)
  have "bank_struct (upd_bi q ?g ?B)" by (rule bank_struct_upd [OF ok(1)]) (simp add: place_def)
  then have st: "bank_struct ?C" by (simp add: bank_struct_upd place_def)
  have so1: "stacks_ok (stack_of E) (upd_bi q ?g ?B)"
    by (rule stacks_ok_upd [OF ok(2)]) (use un fits max in auto)
  have so: "stacks_ok (stack_of E) ?C"
    unfolding stacks_ok_enqueue by (rule stacks_ok_upd [OF so1]) (use d same max un fits in auto)
  have "bank_count ?C e = bank_count (upd_bi q ?g ?B) e" for e
    unfolding bank_count_enqueue by (subst bank_count_upd_same) (use d same in simp_all)
  then have "bank_count ?C e = bank_count ?B e + (if e = i_entry ?it then unat n else 0)" for e
    using bank_count_upd [OF ok(1) mem, of ?g e] same un by (auto simp: bpieces_def)
  with st so have "gains E ?B ?C (i_entry ?it) (unat n)" by (simp add: gains_def)
  with run show thesis by (rule that)
qed

section \<open>Both halves\<close>

text \<open>The step from \<open>s\<close> to \<open>s'\<close> keeps the order of both sides, the pieces of every template
  together, and the rest of the player.\<close>

definition conserves :: "'e Env_scheme \<Rightarrow> GState \<Rightarrow> GState \<Rightarrow> bool" where
  "conserves E s s' \<longleftrightarrow> state_ok E s' \<and> both_count s' = both_count s \<and> pl_frame (gs_pl s') = pl_frame (gs_pl s)"

lemma conserves_trans: "conserves E s t \<Longrightarrow> conserves E t u \<Longrightarrow> conserves E s u"
  by (simp add: conserves_def)

lemma conserves_view:
  assumes "state_ok E s" and "gs_pl s' = gs_pl s" and "bview (gs_bk s') = bview (gs_bk s)"
  shows "conserves E s s'"
  using assms(1,2) bank_struct_view [OF assms(3)] stacks_ok_view [OF assms(3)] bank_count_view [OF assms(3)]
  by (simp add: conserves_def state_ok_def both_count_def fun_eq_iff)

lemma deposit_done_frame: "gs_pl (deposit_done E q n s) = gs_pl s" "bview (gs_bk (deposit_done E q n s)) = bview (gs_bk s)"
  by (simp_all add: deposit_done_def Let_def)

lemma conserves_done: "state_ok E s \<Longrightarrow> conserves E s (deposit_done E' q n s)"
  by (rule conserves_view) (simp_all add: deposit_done_frame)

lemma gains_takes_conserves:
  assumes "gains E (gs_bk s) (gs_bk s') entry n" and "takes (gs_pl s) (gs_pl s') entry n"
  shows "conserves E s s'"
  using assms by (auto simp: gains_def takes_def conserves_def state_ok_def both_count_def fun_eq_iff)

lemma deposit_take_takes:
  assumes rem: "removable (gs_pl s) b sl p" and n: "unat n \<le> unat (i_count (iheap (gs_pl s) p))"
  shows "takes (gs_pl s) (gs_pl (deposit_take p n s)) (i_entry (iheap (gs_pl s) p)) (unat n)"
    "removable (gs_pl (deposit_take p n s)) b sl p"
    "i_count (iheap (gs_pl (deposit_take p n s)) p) = i_count (iheap (gs_pl s) p) - n"
    "i_entry (iheap (gs_pl (deposit_take p n s)) p) = i_entry (iheap (gs_pl s) p)"
proof -
  have "inv_view (gs_pl (deposit_take p n s)) = inv_view (upd_item p (\<lambda>it. it\<lparr>i_count := i_count it - n\<rparr>) (gs_pl s))"
    by (simp add: deposit_take_def)
  note d = decrement_takes [OF rem n this]
  show "takes (gs_pl s) (gs_pl (deposit_take p n s)) (i_entry (iheap (gs_pl s) p)) (unat n)"
    "removable (gs_pl (deposit_take p n s)) b sl p"
    "i_count (iheap (gs_pl (deposit_take p n s)) p) = i_count (iheap (gs_pl s) p) - n"
    "i_entry (iheap (gs_pl (deposit_take p n s)) p) = i_entry (iheap (gs_pl s) p)"
    by (rule d; simp add: deposit_take_def)+
qed

lemma deposit_take_last_takes:
  assumes rem: "removable (gs_pl s) b sl p" and n: "unat n \<le> unat (i_count (iheap (gs_pl s) p))"
  shows "takes (gs_pl s) (gs_pl (deposit_take_last E p n s)) (i_entry (iheap (gs_pl s) p)) (unat n)"
proof -
  have at: "GetBagSlot (gs_pl s) p = b" "i_slot (iheap (gs_pl s) p) = sl"
    using inv_wf_GetBagSlot [OF removableD(1,2) [OF rem]] inv_wfD(3) [OF removableD(1,2) [OF rem]] by auto
  show ?thesis
    using DestroyItem_takes [OF rem, of E True] deposit_take_takes(1) [OF rem n] at
    by (auto simp: deposit_take_last_def)
qed

lemma deposit_bk [simp]: "gs_bk (deposit_take p n s) = gs_bk s" "gs_bk (deposit_take_last E p n s) = gs_bk s"
  by (simp_all add: deposit_take_def deposit_take_last_def)

text \<open>What a single deposit is called with.\<close>

definition deposit_args :: "'e Env_scheme \<Rightarrow> GState \<Rightarrow> uint32 \<Rightarrow> uint32 \<Rightarrow> iptr \<Rightarrow> uint32 \<Rightarrow> ItemUpdateState \<Rightarrow> bool \<Rightarrow> ItemPrototype \<Rightarrow> bool" where
  "deposit_args E s t sl p n st stack pr \<longleftrightarrow>
     in_bank (t, sl) \<and> unat n \<le> unat (i_count (iheap (gs_pl s) p)) \<and>
     (st = ITEM_NEW \<and> GetItem (gs_bk s) t sl = None \<or>
      st = ITEM_CHANGED \<and> stack \<and> (\<exists>q. GetItem (gs_bk s) t sl = Some q \<and>
        bi_item_template (b_heap (gs_bk s) q) = i_entry (iheap (gs_pl s) p) \<and>
        unat (bi_count (b_heap (gs_bk s) q)) + unat n \<le> unat (pr_Stackable pr)))"

lemma deposit_into_gains:
  assumes ok: "state_ok E s" and it: "bankable_at E (gs_pl s) pb ps p pr" and args: "deposit_args E s t sl p n st stack pr"
  obtains q B where "deposit_into E t sl p n st stack s = (Some q, s\<lparr>gs_bk := B\<rparr>)" and
    "gains E (gs_bk s) B (i_entry (iheap (gs_pl s) p)) (unat n)"
proof -
  have b: "bank_struct (gs_bk s)" "stacks_ok (stack_of E) (gs_bk s)" using ok by (auto simp: state_ok_def)
  from args have ib: "in_bank (t, sl)" and n: "unat n \<le> unat (pr_Stackable pr)"
    using bankable_atD(5) [OF it] by (auto simp: deposit_args_def)
  from args consider "st = ITEM_NEW" "GetItem (gs_bk s) t sl = None" | q where "st = ITEM_CHANGED" "stack"
      "GetItem (gs_bk s) t sl = Some q" "bi_item_template (b_heap (gs_bk s) q) = i_entry (iheap (gs_pl s) p)"
      "unat (bi_count (b_heap (gs_bk s) q)) + unat n \<le> unat (pr_Stackable pr)"
    unfolding deposit_args_def by (elim conjE disjE exE) simp_all
  then show thesis
  proof cases
    case 1
    from deposit_into_new [OF b it ib 1(2) n, of stack] 1(1) that show thesis by metis
  next
    case (2 q)
    from deposit_into_stack [OF b it 2(3-5)] 2(1,2) that show thesis by metis
  qed
qed

lemma bank_slots_in_bank:
  assumes "i \<in> set bank_slots" and "1 \<le> unat t" "unat t \<le> MAX_TABS"
  shows "in_bank (t, i)"
  using assms by (auto simp: bank_slots_def in_bank_def unat_of_nat)

lemma free_choice_cases:
  shows "free_slot_choice E B t it = StackAll i n \<Longrightarrow>
      \<exists>q. find (partial_stack B t (pr_ItemId (the_proto E it))) bank_slots = Some i \<and> GetItem B t i = Some q \<and>
        i_count it + bi_count (b_heap B q) \<le> bi_maxStackSize (b_heap B q) \<and> n = i_count it"
    "free_slot_choice E B t it = StackSome i n r \<Longrightarrow>
      \<exists>q. find (partial_stack B t (pr_ItemId (the_proto E it))) bank_slots = Some i \<and> GetItem B t i = Some q \<and>
        n = bi_maxStackSize (b_heap B q) - bi_count (b_heap B q)"
    "free_slot_choice E B t it = UseFree i n \<Longrightarrow> find (\<lambda>i. GetItem B t i = None) bank_slots = Some i \<and> n = i_count it"
  by (auto simp: free_slot_choice_def Let_def split: option.splits if_splits)

lemma free_choice_args:
  assumes ok: "state_ok E s" and it: "bankable_at E (gs_pl s) pb ps p pr" and t: "1 \<le> unat t" "unat t \<le> MAX_TABS"
    and c: "free_slot_choice E (gs_bk s) t (iheap (gs_pl s) p) = c"
  shows "c = StackAll i n \<Longrightarrow> deposit_args E s t i p n ITEM_CHANGED True pr"
    "c = StackSome i n r \<Longrightarrow> deposit_args E s t i p n ITEM_CHANGED True pr"
    "c = UseFree i n \<Longrightarrow> deposit_args E s t i p n ITEM_NEW False pr"
proof -
  let ?B = "gs_bk s" and ?it = "iheap (gs_pl s) p"
  note d = bankable_atD [OF it]
  have so: "stacks_ok (stack_of E) ?B" using ok by (simp add: state_ok_def)
  have stack: "in_bank (t, i) \<and> GetItem ?B t i = Some q \<and> bi_item_template (b_heap ?B q) = i_entry ?it \<and>
      bi_maxStackSize (b_heap ?B q) = pr_Stackable pr \<and> unat (bi_count (b_heap ?B q)) < unat (pr_Stackable pr)"
    if "find (partial_stack ?B t (pr_ItemId pr)) bank_slots = Some i" "GetItem ?B t i = Some q" for i q
  proof -
    have i: "i \<in> set bank_slots" "partial_stack ?B t (pr_ItemId pr) i" using find_Some_in [OF that(1)] by auto
    have mem: "q \<in> set (b_items ?B)" using GetItem_Some [OF that(2)] by simp
    show ?thesis
      using i that(2) bank_slots_in_bank [OF i(1) t] stacks_ok_size [OF so mem] d(3,4) by (auto simp: partial_stack_def word_nat)
  qed
  show "deposit_args E s t i p n ITEM_CHANGED True pr" if "c = StackAll i n"
  proof -
    from free_choice_cases(1) [OF c [unfolded that], unfolded d(2)] obtain q where
      q: "find (partial_stack ?B t (pr_ItemId pr)) bank_slots = Some i" "GetItem ?B t i = Some q"
        "i_count ?it + bi_count (b_heap ?B q) \<le> bi_maxStackSize (b_heap ?B q)" "n = i_count ?it" by blast
    have "unat (i_count ?it + bi_count (b_heap ?B q)) = unat (i_count ?it) + unat (bi_count (b_heap ?B q))"
      by (rule unat_add32) (use stack [OF q(1,2)] d(5,6) in linarith)
    with q stack [OF q(1,2)] show ?thesis by (auto simp: deposit_args_def word_nat)
  qed
  show "deposit_args E s t i p n ITEM_CHANGED True pr" if "c = StackSome i n r"
  proof -
    from free_choice_cases(2) [OF c [unfolded that], unfolded d(2)] obtain q where
      q: "find (partial_stack ?B t (pr_ItemId pr)) bank_slots = Some i" "GetItem ?B t i = Some q"
        "n = bi_maxStackSize (b_heap ?B q) - bi_count (b_heap ?B q)" by blast
    have "unat n = unat (pr_Stackable pr) - unat (bi_count (b_heap ?B q))"
      using stack [OF q(1,2)] q(3) by (simp add: unat_sub32)
    with q(1,2) stack [OF q(1,2)] free_slot_progress(2) [OF c [unfolded that]] show ?thesis by (auto simp: deposit_args_def)
  qed
  show "deposit_args E s t i p n ITEM_NEW False pr" if "c = UseFree i n"
  proof -
    from free_choice_cases(3) [OF c [unfolded that]]
    have "find (\<lambda>i. GetItem ?B t i = None) bank_slots = Some i" "n = i_count ?it" by auto
    from find_Some_in [OF this(1)] bank_slots_in_bank [OF _ t] this(2) show ?thesis by (auto simp: deposit_args_def)
  qed
qed

section \<open>The recursion\<close>

lemma bankable_after_take:
  assumes it: "bankable_at E (gs_pl s) pb ps p pr" and n: "unat n \<le> unat (i_count (iheap (gs_pl s) p))"
  shows "bankable_at E (gs_pl (deposit_take p n s)) pb ps p pr"
  using deposit_take_takes [OF bankable_atD(1) [OF it] n] it n
  by (auto simp: bankable_at_def unat_sub32 intro: diff_le_self [THEN le_trans])

lemma deposit_conserves:
  fixes E :: "'e BankEnv_scheme"
  shows "state_ok E s \<Longrightarrow> bankable_at E (gs_pl s) pb ps p pr \<Longrightarrow> 1 \<le> unat t \<Longrightarrow> unat t \<le> MAX_TABS \<Longrightarrow>
      conserves E s (DepositItemInFreeSlot E t p s)"
    and "state_ok E s \<Longrightarrow> bankable_at E (gs_pl s) pb ps p pr \<Longrightarrow> deposit_args E s t sl p n st stack pr \<Longrightarrow>
      conserves E s (DepositItemInSlot E t sl p n r st stack s)"
proof (induction E t p s and E t sl p n r st stack s rule: DepositItemInFreeSlot_DepositItemInSlot.induct)
  case (1 E t p s)
  note args = free_choice_args [OF 1(4-7)]
  show ?case
  proof (cases "free_slot_choice E (gs_bk s) t (iheap (gs_pl s) p)")
    case (StackAll i n)
    from 1(1) [OF StackAll 1(4,5) args(1) [OF StackAll refl]] show ?thesis
      by (simp add: DepositItemInFreeSlot.simps StackAll)
  next
    case (StackSome i n r)
    from 1(2) [OF StackSome 1(4,5) args(2) [OF StackSome refl]] show ?thesis
      by (simp add: DepositItemInFreeSlot.simps StackSome)
  next
    case (UseFree i n)
    from 1(3) [OF UseFree 1(4,5) args(3) [OF UseFree refl]] show ?thesis
      by (simp add: DepositItemInFreeSlot.simps UseFree)
  next
    case TabFull
    with 1(4) show ?thesis by (simp add: DepositItemInFreeSlot.simps conserves_view)
  qed
next
  case (2 E t sl p n r st stack s)
  from deposit_into_gains [OF 2(2-4)] obtain q B where
    into: "deposit_into E t sl p n st stack s = (Some q, s\<lparr>gs_bk := B\<rparr>)" and
    g: "gains E (gs_bk s) B (i_entry (iheap (gs_pl s) p)) (unat n)" by blast
  let ?s1 = "s\<lparr>gs_bk := B\<rparr>"
  have n: "unat n \<le> unat (i_count (iheap (gs_pl s) p))" using 2(4) by (simp add: deposit_args_def)
  have rem: "removable (gs_pl ?s1) pb ps p" using bankable_atD(1) [OF 2(3)] by simp
  have t: "1 \<le> unat t" "unat t \<le> MAX_TABS" using 2(4) by (auto simp: deposit_args_def in_bank_def)
  define s2 where "s2 = (if r = 0 then deposit_take_last E p n ?s1 else DepositItemInFreeSlot E t p (deposit_take p n ?s1))"
  have "conserves E s s2"
  proof (cases "r = 0")
    case True
    then show ?thesis
      using gains_takes_conserves [of E s s2] g deposit_take_last_takes [OF rem, of n E] n by (simp add: s2_def)
  next
    case False
    let ?s3 = "deposit_take p n ?s1"
    have c: "conserves E s ?s3"
      using gains_takes_conserves [of E s ?s3] g deposit_take_takes(1) [OF rem, of n] n by simp
    then have "state_ok E ?s3" by (simp add: conserves_def)
    moreover have "bankable_at E (gs_pl ?s3) pb ps p pr"
      by (rule bankable_after_take) (use 2(3) n in simp_all)
    ultimately have "conserves E ?s3 (DepositItemInFreeSlot E t p ?s3)"
      by (intro 2(1) [OF into [symmetric] refl False]) (use t in simp_all)
    with c False show ?thesis by (auto simp: s2_def intro: conserves_trans)
  qed
  moreover from this have "conserves E s2 (deposit_done E q n s2)"
    by (intro conserves_done) (simp add: conserves_def)
  ultimately have "conserves E s (deposit_done E q n s2)" by (rule conserves_trans)
  then show ?case by (simp add: DepositItemInSlot.simps [of E t sl p n r st stack s] into s2_def)
qed

end
