(* ===== verification/Sample_State.thy ===== *)
theory Sample_State
  imports Bank_Deposit_Props
begin

text \<open>
  A small concrete world for the witnesses: one stackable template (stacks of 20), one bag template
  with six slots, a player with five pieces in the backpack and an empty bag, and a bank with two
  stacks of the same template in its first tab.
\<close>

definition cloth :: ItemPrototype where
  "cloth = \<lparr>pr_ItemId = 2589, pr_Class = 7, pr_SubClass = 0, pr_Name1 = ''Linen Cloth'', pr_Quality = 1, pr_Flags = 0, pr_BuyCount = 1,
     pr_InventoryType = 0, pr_MaxCount = 0, pr_Stackable = 20, pr_ContainerSlots = 0, pr_SpellCharges = [0, 0, 0, 0, 0],
     pr_Bonding = 0, pr_MaxDurability = 0, pr_BagFamily = 0, pr_Duration = 0, pr_ExtraFlags = 0, pr_RandomProperty = 0, pr_ItemSet = 0\<rparr>"

definition pouch :: ItemPrototype where
  "pouch = \<lparr>pr_ItemId = 4238, pr_Class = 1, pr_SubClass = 0, pr_Name1 = ''Linen Bag'', pr_Quality = 1, pr_Flags = 0, pr_BuyCount = 1,
     pr_InventoryType = 18, pr_MaxCount = 0, pr_Stackable = 1, pr_ContainerSlots = 6, pr_SpellCharges = [0, 0, 0, 0, 0],
     pr_Bonding = 0, pr_MaxDurability = 0, pr_BagFamily = 0, pr_Duration = 0, pr_ExtraFlags = 0, pr_RandomProperty = 0, pr_ItemSet = 0\<rparr>"

definition blank_item :: Item where
  "blank_item = \<lparr>i_entry = 0, i_count = 0, i_owner = 7, i_creator = 0, i_giftcreator = 0, i_duration = 0,
     i_charges = [0, 0, 0, 0, 0], i_flags = 0, i_enchant = replicate 21 0, i_randprop = 0, i_text = 0, i_durability = 0,
     i_maxdurability = 0, i_transmog = 0, i_genloot = False, i_lootempty = True, i_lootstate = ITEM_LOOT_NONE, i_slot = 0,
     i_container = None, i_state = ITEM_UNCHANGED, i_queuepos = None, i_numslots = 0, i_bagslot = (\<lambda>_. None), i_tradeUntil = 0\<rparr>"

definition sample_player :: Player where
  "sample_player = \<lparr>pl_guid = 7, pl_name = ''Thrall'', pl_rank = 0, pl_money = 50000000, pl_inworld = True,
     m_items = (\<lambda>_. None)(23 := Some 0, 19 := Some 1),
     iheap = (\<lambda>_. blank_item)(0 := blank_item\<lparr>i_entry := 2589, i_count := 5, i_slot := 23\<rparr>,
        1 := blank_item\<lparr>i_entry := 4238, i_count := 1, i_slot := 19, i_numslots := 6\<rparr>),
     inext = 2, ifreed = [], m_itemUpdateQueue = [], m_itemUpdateQueueBlocked = False, m_enchantDuration = [],
     m_itemDuration = [], pl_events = []\<rparr>"

definition bank_cloth :: "uint32 \<Rightarrow> uint32 \<Rightarrow> uint32 \<Rightarrow> BankItem" where
  "bank_cloth guid slot count = \<lparr>bi_guildid = 3, bi_guid = guid, bi_Name = ''Linen Cloth'', bi_tab = 1, bi_slot = slot,
     bi_item_template = 2589, bi_creatorGuid = 0, bi_giftCreatorGuid = 0, bi_count = count, bi_maxStackSize = 20, bi_duration = 0,
     bi_charges = ''0 0 0 0 0 '', bi_flags = 0, bi_enchantments = ''0 0 0 0 0 0 0 0 0 0 0 0 0 0 0 0 0 0 0 0 0 '', bi_enchant = 0,
     bi_randomPropertyId = 0, bi_transmogrifyId = 0, bi_durability = 0, bi_text = 0, bi_generated_loot = 0, bi_is_inferno = False,
     bi_quality = 1, bi_state = ITEM_UNCHANGED\<rparr>"

definition sample_tab :: BankTab where
  "sample_tab = \<lparr>bt_name = ''Cloth'', bt_icon = ''inv_misc_bag_08'', bt_withdrawals = 0, bt_minrank = 4\<rparr>"

definition sample_bank :: Bank where
  "sample_bank = \<lparr>b_tabs = 1, b_items = [0, 1], b_heap = (\<lambda>_. bank_cloth 0 0 0)(0 := bank_cloth 1 1 12, 1 := bank_cloth 2 4 15),
     b_next = 2, b_freed = [], b_tabInfo = (\<lambda>_. sample_tab)(0 := sample_tab\<lparr>bt_minrank := 1\<rparr>), b_log = (\<lambda>_. []), b_moneyLog = [],
     b_itemUpdateQueue = [], b_saveLock = False, b_tabs_changed = False, b_money_changed = False, b_moneyLog_changed = False,
     b_log_changed = False, b_infernoBank = False, b_guildid = 3, b_playerGuid = 7, b_playerRankIndex = 0, b_money = 1000000\<rparr>"

definition sample_db :: Db where
  "sample_db = \<lparr>db_items = [item_row (bank_cloth 1 1 12), item_row (bank_cloth 2 4 15)], db_log = [],
     db_money = [\<lparr>mr_guildid = 3, mr_isInferno = False, mr_money = 1000000\<rparr>],
     db_tabs = [\<lparr>tr_guildid = 3, tr_isInferno = False, tr_tabs = 1, tr_info = default_tabs\<rparr>]\<rparr>"

definition sample_env :: BankEnv where
  "sample_env = \<lparr>e_protos = [2589 \<mapsto> cloth, 4238 \<mapsto> pouch], e_randprops = (\<lambda>_. None), e_roll = (\<lambda>_. 0), e_gametime = 1000000,
     e_moneyhook = (\<lambda>d. d), e_petition = (\<lambda>_. False), e_nullproto = cloth, e_nullsuffix = [],
     be_now = 1000000, be_localtime = (\<lambda>_. \<lparr>tm_wday = 3, tm_hour = 12, tm_min = 0, tm_sec = 0\<rparr>), be_ranksSize = 5,
     be_playerName = (\<lambda>_. None), be_selected = Some \<lparr>cr_entry = 62008, cr_npcflags = 0, cr_gossipMenu = 0\<rparr>,
     be_menuItems = (\<lambda>_. []), be_near = (\<lambda>_. False), be_horde = False, be_npcAlliance = [], be_npcHorde = [],
     be_junk = bank_cloth 0 0 0\<rparr>"

definition sample_state :: GState where
  "sample_state = \<lparr>gs_pl = sample_player, gs_bk = sample_bank, gs_db = sample_db, gs_out = []\<rparr>"

lemma sample_simps [simp]:
  "gs_pl sample_state = sample_player" "gs_bk sample_state = sample_bank" "gs_db sample_state = sample_db"
  by (simp_all add: sample_state_def)

lemma sample_struct [simp]: "bank_struct sample_bank"
  by (simp add: sample_bank_def bank_struct_def bank_cloth_def place_def in_bank_def)

lemma sample_stacks [simp]: "stacks_ok (stack_of sample_env) sample_bank"
  by (simp add: sample_bank_def stacks_ok_def bank_cloth_def stack_of_def sample_env_def cloth_def)

lemma sample_get: "GetItemByPos sample_player b s = (if b = 255 \<and> s = 23 then Some 0 else if b = 255 \<and> s = 19 then Some 1 else None)"
proof -
  have "unat s = 23 \<longleftrightarrow> s = 23" "unat s = 19 \<longleftrightarrow> s = 19" "unat b = 23 \<longleftrightarrow> b = 23" "unat b = 19 \<longleftrightarrow> b = 19"
    by (simp_all add: word_unat_eq_iff)
  then show ?thesis
    by (auto simp: GetItemByPos_def sample_player_def Bag_GetItemByPos_def blank_item_def is_bag_index_def)
qed

lemma sample_wf [simp]: "inv_wf sample_player"
  unfolding inv_wf_def sample_get
  by (auto simp: sample_player_def blank_item_def split: if_splits)

lemma sample_bags [simp]: "bag_sizes_ok sample_env sample_player"
  by (auto simp: bag_sizes_ok_def sample_player_def sample_env_def GetProto_def blank_item_def cloth_def pouch_def split: if_splits)

lemma sample_ok [simp]: "state_ok sample_env sample_state"
  by (simp add: state_ok_def)

lemma sample_bankable [simp]: "bankable_at sample_env sample_player 255 23 0 cloth"
  unfolding bankable_at_def removable_def by (simp add: sample_get) (simp add: sample_player_def sample_env_def blank_item_def cloth_def)

lemma sample_protos [simp]: "e_protos sample_env 2589 = Some cloth" "e_protos sample_env 4238 = Some pouch"
  by (simp_all add: sample_env_def)

end
