(* ===== verification/Props_Inventory.thy ===== *)
theory Props_Inventory
  imports Sample_State
begin

text \<open>
  The properties of the player's item storage and money. Each one is stated over the operations of
  the code; the library lemmas of the Inventory theories carry the proofs. Every property with a
  hypothesis has a witness on the sample world.
\<close>

section \<open>Storing\<close>

text \<open>C1: when \<open>CanStoreNewItem\<close> says yes, the destination list it returns is executable: no position
  twice, every position exists, holds nothing or a stack of the same template with room for the pieces
  assigned to it, every entry assigns at least one piece, and together they are exactly the requested
  count.\<close>

theorem CanStoreNewItem_sound:
  assumes "e_protos E entry = Some pr" and "stack_ok pr" and "bag_sizes_ok E P"
    and "bag = NULL_BAG \<or> bag = INVENTORY_SLOT_BAG_0 \<or> is_bag_index bag" and "count \<noteq> 0"
    and "CanStoreNewItem E P bag slot entry count = (EQUIP_ERR_OK, dest, left)"
  shows "distinct (map ipc_pos dest) \<and> (\<forall>d \<in> set dest. place_ok P pr None d \<and> 0 < unat (ipc_count d)) \<and>
    dest_sum dest = unat count"
  using CanStoreItem_impl_sound(1) [OF assms(1-5) assms(6) [unfolded CanStoreNewItem_def]] by (auto simp: good_dest_def)

lemma sample_store: "\<exists>dest left. CanStoreNewItem sample_env sample_player 0 255 2589 27 = (EQUIP_ERR_OK, dest, left)"
proof -
  have "fst (CanStoreNewItem sample_env sample_player 0 255 2589 27) = EQUIP_ERR_OK" by code_simp
  then show ?thesis by (metis prod.collapse)
qed

lemma cloth_stack [simp]: "stack_ok cloth" "storable sample_env 2589 cloth" "0 < unat (pr_Stackable cloth)"
  by (simp_all add: stack_ok_def storable_def creatable_def cloth_def)

theorem CanStoreNewItem_sound_witness:
  "\<exists>dest left. CanStoreNewItem sample_env sample_player 0 255 2589 27 = (EQUIP_ERR_OK, dest, left) \<and> dest_sum dest = 27"
proof -
  from sample_store obtain dest left where ok: "CanStoreNewItem sample_env sample_player 0 255 2589 27 = (EQUIP_ERR_OK, dest, left)" by blast
  from CanStoreNewItem_sound [OF sample_protos(1) cloth_stack(1) sample_bags _ _ ok] ok show ?thesis by simp
qed

text \<open>C2: checking and then storing is exact. On a well-formed inventory \<open>StoreNewItem\<close> with the
  destinations of \<open>CanStoreNewItem\<close> succeeds, keeps the inventory well-formed, adds exactly the
  requested pieces of that template and of no other, and leaves the money and identity of the player
  alone.\<close>

theorem StoreNewItem_exact:
  assumes "inv_wf P" and "storable E entry pr" and "stack_ok pr" and "bag_sizes_ok E P"
    and "bag = NULL_BAG \<or> bag = INVENTORY_SLOT_BAG_0 \<or> is_bag_index bag" and "count \<noteq> 0"
    and "CanStoreNewItem E P bag slot entry count = (EQUIP_ERR_OK, dest, left)"
    and "StoreNewItem E dest entry update rid P = (r, P')"
  shows "inv_wf P' \<and> r \<noteq> None \<and> pl_frame P' = pl_frame P \<and>
    (\<forall>e. stored_count P' e = stored_count P e + (if e = entry then unat count else 0))"
proof -
  from assms(2) have pr: "e_protos E entry = Some pr" by (simp add: storable_def)
  have good: "good_dest P pr None (unat count) dest 0"
    by (rule CanStoreItem_impl_sound(1) [OF pr assms(3-6) assms(7) [unfolded CanStoreNewItem_def]])
  from assms(3) have pos: "0 < unat (pr_Stackable pr)" by (simp add: stack_ok_def)
  show ?thesis
    by (rule StoreNewItem_adds [OF assms(1,2) good _ unat32_lt pos assms(8)]) (use assms(6) in \<open>simp add: unat_gt_0\<close>)
qed

theorem StoreNewItem_exact_witness:
  "\<exists>dest left r P'. CanStoreNewItem sample_env sample_player 0 255 2589 27 = (EQUIP_ERR_OK, dest, left) \<and>
     StoreNewItem sample_env dest 2589 True 0 sample_player = (r, P') \<and>
     stored_count P' 2589 = stored_count sample_player 2589 + 27"
proof -
  from sample_store obtain dest left where ok: "CanStoreNewItem sample_env sample_player 0 255 2589 27 = (EQUIP_ERR_OK, dest, left)" by blast
  obtain r P' where run: "StoreNewItem sample_env dest 2589 True 0 sample_player = (r, P')" by fastforce
  from StoreNewItem_exact [OF sample_wf cloth_stack(2,1) sample_bags _ _ ok run] ok run show ?thesis by simp
qed

text \<open>C3: limited templates stay limited. For a template with a maximal count, a new item that the check
  admits never takes the player above that count: after storing there are at most \<open>MaxCount\<close> pieces.\<close>

theorem StoreNewItem_keeps_limit:
  assumes "inv_wf P" and "storable E entry pr" and "stack_ok pr" and "bag_sizes_ok E P"
    and "bag = NULL_BAG \<or> bag = INVENTORY_SLOT_BAG_0 \<or> is_bag_index bag" and "count \<noteq> 0"
    and "0 < unat (pr_MaxCount pr)" and "stored_count P entry + unat count < 4294967296"
    and "CanStoreNewItem E P bag slot entry count = (EQUIP_ERR_OK, dest, left)"
    and "StoreNewItem E dest entry update rid P = (r, P')"
  shows "stored_count P' entry \<le> unat (pr_MaxCount pr)"
proof -
  from assms(2) have pr: "e_protos E entry = Some pr" "pr_ItemId pr = entry" by (simp_all add: storable_def)
  have good: "good_dest P pr None (unat count) dest 0"
    by (rule CanStoreItem_impl_sound(1) [OF pr(1) assms(3-6) assms(9) [unfolded CanStoreNewItem_def]])
  from assms(3) have pos: "0 < unat (pr_Stackable pr)" by (simp add: stack_ok_def)
  have "stored_count P' entry = stored_count P entry + unat count"
    using StoreNewItem_adds [OF assms(1,2) good _ unat32_lt pos assms(10)] assms(6) by (simp add: unat_gt_0)
  with CanStoreNewItem_limit [OF pr assms(7,1,8,3-6,9)] show ?thesis by simp
qed

definition rare_cloth :: ItemPrototype where
  "rare_cloth = cloth\<lparr>pr_MaxCount := 12\<rparr>"

definition rare_env :: BankEnv where
  "rare_env = sample_env\<lparr>e_protos := [2589 \<mapsto> rare_cloth, 4238 \<mapsto> pouch]\<rparr>"

lemma sample_count: "stored_count sample_player 2589 = 5"
  by code_simp

theorem StoreNewItem_keeps_limit_witness:
  "\<exists>dest left r P'. CanStoreNewItem rare_env sample_player 0 255 2589 7 = (EQUIP_ERR_OK, dest, left) \<and>
     StoreNewItem rare_env dest 2589 True 0 sample_player = (r, P') \<and> stored_count P' 2589 \<le> 12"
proof -
  have "fst (CanStoreNewItem rare_env sample_player 0 255 2589 7) = EQUIP_ERR_OK" by code_simp
  then obtain dest left where ok: "CanStoreNewItem rare_env sample_player 0 255 2589 7 = (EQUIP_ERR_OK, dest, left)"
    by (metis prod.collapse)
  obtain r P' where run: "StoreNewItem rare_env dest 2589 True 0 sample_player = (r, P')" by fastforce
  have st: "storable rare_env 2589 rare_cloth" "stack_ok rare_cloth" "0 < unat (pr_MaxCount rare_cloth)"
    by (simp_all add: storable_def creatable_def stack_ok_def rare_env_def rare_cloth_def cloth_def)
  have bags: "bag_sizes_ok rare_env sample_player"
    by (auto simp: bag_sizes_ok_def sample_player_def rare_env_def GetProto_def blank_item_def cloth_def rare_cloth_def pouch_def split: if_splits)
  from StoreNewItem_keeps_limit [OF sample_wf st(1,2) bags _ _ st(3) _ ok run] ok run show ?thesis
    by (simp add: sample_count rare_cloth_def)
qed

section \<open>Counting and destroying\<close>

text \<open>C4: \<open>GetItemCount\<close> over inventory, keyring, bags and bank visits every stored item exactly once: it
  returns the number of stored pieces, modulo the 32-bit range of its counter.\<close>

theorem GetItemCount_exact:
  assumes "inv_wf P"
  shows "unat (GetItemCount P entry True None) = stored_count P entry mod 4294967296"
  by (simp add: GetItemCount_stored [OF assms] unat_of_nat)

theorem GetItemCount_exact_witness: "unat (GetItemCount sample_player 2589 True None) = 5"
  using GetItemCount_exact [OF sample_wf, of 2589] by (simp add: sample_count)

text \<open>C5: \<open>DestroyItem\<close> empties exactly the addressed position. For a stored item without contents the
  inventory stays well-formed, the position becomes free, every other position keeps its stack, and the
  rest of the player is untouched.\<close>

theorem DestroyItem_exact:
  assumes "removable P bag slot p"
  shows "inv_wf (DestroyItem E bag slot update P) \<and> stock (DestroyItem E bag slot update P) = (stock P)((bag, slot) := None) \<and>
    pl_frame (DestroyItem E bag slot update P) = pl_frame P"
  using DestroyItem_stock [OF assms, of E update] by simp

lemma sample_removable [simp]: "removable sample_player 255 23 0"
  by (rule bankable_atD(1) [OF sample_bankable])

theorem DestroyItem_exact_witness:
  "inv_wf (DestroyItem sample_env 255 23 True sample_player) \<and> stock (DestroyItem sample_env 255 23 True sample_player) (255, 23) = None"
  using DestroyItem_exact [OF sample_removable, of sample_env True] by simp

text \<open>The nested calls of \<open>DestroyItem\<close> on the slots of an equipped bag never find an item in a
  well-formed inventory, so the depth to which the model unrolls them does not matter: any depth above
  zero gives the same result.\<close>

lemma DestroyItem_any_depth:
  assumes "inv_wf P"
  shows "DestroyItem_upto (Suc n) E bag slot update P = DestroyItem E bag slot update P"
proof (cases "GetItemByPos P bag slot")
  case None
  then show ?thesis by (simp add: DestroyItem_def DestroyItem_upto_none)
next
  case (Some p)
  have three: "(3 :: nat) = Suc 2" by simp
  show ?thesis unfolding DestroyItem_def three DestroyItem_upto_wf [OF assms Some] ..
qed

lemma DestroyItem_any_depth_example:
  "DestroyItem_upto 1 sample_env 255 23 True sample_player = DestroyItem sample_env 255 23 True sample_player"
  using DestroyItem_any_depth [OF sample_wf, of 0 sample_env 255 23 True] by simp

text \<open>C6: \<open>DestroyItemCount\<close> takes what it reports. From a stored item it removes the smaller of the
  requested count and the stack, returns the rest of the request, keeps the inventory well-formed and
  every other template's pieces.\<close>

theorem DestroyItemCount_exact:
  assumes "removable P bag slot p" and "DestroyItemCount E p count update P = (left, P')"
  shows "takes P P' (i_entry (iheap P p)) (min (unat count) (unat (i_count (iheap P p)))) \<and>
    unat left = unat count - unat (i_count (iheap P p))"
  using DestroyItemCount_takes [OF assms] by simp

theorem DestroyItemCount_exact_witness:
  "\<exists>left P'. DestroyItemCount sample_env 0 3 True sample_player = (left, P') \<and> left = 0 \<and> stored_count P' 2589 = 2"
proof -
  obtain left P' where run: "DestroyItemCount sample_env 0 3 True sample_player = (left, P')" by fastforce
  have c: "i_count (iheap sample_player 0) = 5" "i_entry (iheap sample_player 0) = 2589" by (simp_all add: sample_player_def blank_item_def)
  from DestroyItemCount_exact [OF sample_removable run] have "left = 0" and "stored_count P' 2589 + 3 = stored_count sample_player 2589"
    by (auto simp: takes_def c word_unat_eq_iff dest: spec [of _ 2589])
  with run show ?thesis by (auto simp: sample_count)
qed

section \<open>Money\<close>

text \<open>C7: \<open>ModifyMoney\<close> adds a signed amount and saturates. With the amount the money hooks leave, a
  purse at or below the cap ends at the exact sum, cut off at zero and at \<open>MAX_MONEY_AMOUNT\<close>.\<close>

theorem ModifyMoney_saturates:
  assumes "e_moneyhook E d = amount" and "unat (pl_money P) \<le> 2147483646" and "sint amount \<le> 2147483646"
  shows "int (unat (pl_money (ModifyMoney E d P))) = max 0 (min 2147483646 (int (unat (pl_money P)) + sint amount))"
  by (rule ModifyMoney_sum [OF assms])

theorem ModifyMoney_saturates_witness:
  "int (unat (pl_money (ModifyMoney sample_env 2000000000 sample_player))) = 2050000000"
proof -
  have "e_moneyhook sample_env 2000000000 = 2000000000" "pl_money sample_player = 50000000"
    by (simp_all add: sample_env_def sample_player_def)
  then show ?thesis using ModifyMoney_saturates [of sample_env 2000000000 2000000000 sample_player] by simp
qed

end
