(* ===== verification/Bank_Withdraw_Props.thy ===== *)
theory Bank_Withdraw_Props
  imports Bank_Deposit_Props
begin

text \<open>
  Withdrawing conserves pieces: what the bank item loses is what the player gains, for a withdrawal
  into free positions and onto a stack of the same template.
\<close>

section \<open>The bank's half\<close>

definition loses :: "'e Env_scheme \<Rightarrow> Bank \<Rightarrow> Bank \<Rightarrow> uint32 \<Rightarrow> nat \<Rightarrow> bool" where
  "loses E B C entry n \<longleftrightarrow> bank_struct C \<and> stacks_ok (stack_of E) C \<and> (\<forall>e. bank_count C e + (if e = entry then n else 0) = bank_count B e)"

text \<open>The bank after a withdrawal that leaves \<open>left\<close> pieces; the item goes when nothing remains.\<close>

definition bank_after :: "bptr \<Rightarrow> uint32 \<Rightarrow> uint32 \<Rightarrow> Bank \<Rightarrow> Bank" where
  "bank_after q remainer left B =
     (if remainer = 0 then DeleteItem q (upd_bi q (\<lambda>b. b\<lparr>bi_state := ITEM_REMOVED\<rparr>) B)
      else upd_bi q (\<lambda>b. b\<lparr>bi_count := left, bi_state := ITEM_CHANGED\<rparr>) B)"

lemma bank_after_loses:
  assumes ok: "bank_struct B" "stacks_ok (stack_of E) B" and mem: "q \<in> set (b_items B)"
    and n: "unat n \<le> unat (bi_count (b_heap B q))" and r: "remainer = bi_count (b_heap B q) - n"
  shows "loses E B (bank_after q remainer remainer B) (bi_item_template (b_heap B q)) (unat n)"
proof (cases "remainer = 0")
  case True
  let ?f = "\<lambda>b. b\<lparr>bi_state := ITEM_REMOVED\<rparr>"
  have all: "unat n = unat (bi_count (b_heap B q))" using True r by (metis right_minus_eq)
  have st: "bank_struct (DeleteItem q (upd_bi q ?f B))"
    by (intro bank_struct_delete bank_struct_upd ok) (simp add: place_def)
  have so: "stacks_ok (stack_of E) (DeleteItem q (upd_bi q ?f B))"
    by (rule stacks_ok_sub [OF ok(2)])
      (use stacks_okD(1) [OF ok(2)] set_remove1_subset [of q "b_items B"] in \<open>auto dest: subsetD\<close>)
  have "bank_count (DeleteItem q (upd_bi q ?f B)) e + (if e = bi_item_template (b_heap B q) then unat n else 0) = bank_count B e" for e
    using bank_count_delete [of q "upd_bi q ?f B" e] mem bank_count_upd_same [of ?f B q] by (auto simp: bpieces_def all)
  with st so True show ?thesis by (simp add: loses_def bank_after_def)
next
  case False
  let ?f = "\<lambda>b. b\<lparr>bi_count := remainer, bi_state := ITEM_CHANGED\<rparr>"
  have un: "unat remainer = unat (bi_count (b_heap B q)) - unat n" using n by (simp add: r unat_sub32)
  have st: "bank_struct (upd_bi q ?f B)" by (rule bank_struct_upd [OF ok(1)]) (simp add: place_def)
  have so: "stacks_ok (stack_of E) (upd_bi q ?f B)"
    by (rule stacks_ok_upd [OF ok(2)]) (use un stacks_okD(1) [OF ok(2) mem] in auto)
  have "bank_count (upd_bi q ?f B) e + (if e = bi_item_template (b_heap B q) then unat n else 0) = bank_count B e" for e
    using bank_count_upd [OF ok(1) mem, of ?f e] un n by (auto simp: bpieces_def)
  with st so False show ?thesis by (simp add: loses_def bank_after_def)
qed

lemma withdraw_steps_pl [simp]:
  "gs_pl (withdraw_mark t sl q r left sw s) = gs_pl s" "gs_pl (withdraw_finish E t n q s) = gs_pl s"
  by (simp_all add: withdraw_mark_def withdraw_finish_def Let_def)

lemma withdraw_mark_bk: "gs_bk (withdraw_mark t sl q r left sw s) =
    enqueue q (upd_bi q (if r = 0 then (\<lambda>b. b\<lparr>bi_state := ITEM_REMOVED\<rparr>) else (\<lambda>b. b\<lparr>bi_count := left, bi_state := ITEM_CHANGED\<rparr>)) (gs_bk s))"
  by (simp add: withdraw_mark_def Let_def)

lemma bview_delete_cong: "bview B = bview C \<Longrightarrow> bview (DeleteItem q B) = bview (DeleteItem q C)"
  by (simp add: bview_def DeleteItem_def)

lemma withdraw_bank_view:
  assumes "gs_bk s1 = gs_bk (withdraw_mark t sl q r left sw s)"
  shows "bview (gs_bk (withdraw_finish E t' n q s1)) = bview (bank_after q r left (gs_bk s))"
proof (cases "r = 0")
  case True
  have "bview (gs_bk (LogAction E a tt i m b s1)) = bview (upd_bi q (\<lambda>b. b\<lparr>bi_state := ITEM_REMOVED\<rparr>) (gs_bk s))" for a tt i m b
    using True assms by (simp add: withdraw_mark_bk)
  from bview_delete_cong [OF this] show ?thesis
    using True assms by (simp add: withdraw_finish_def Let_def withdraw_mark_bk bank_after_def)
next
  case False
  then show ?thesis using assms by (simp add: withdraw_finish_def Let_def withdraw_mark_bk bank_after_def)
qed

section \<open>The player's half\<close>

definition adds :: "Player \<Rightarrow> Player \<Rightarrow> uint32 \<Rightarrow> nat \<Rightarrow> bool" where
  "adds P P' entry n \<longleftrightarrow> inv_wf P' \<and> pl_frame P' = pl_frame P \<and>
     (\<forall>e. stored_count P' e = stored_count P e + (if e = entry then n else 0))"

lemma loses_adds_conserves:
  assumes "loses E (gs_bk s) (gs_bk s') entry n" and "adds (gs_pl s) (gs_pl s') entry n"
  shows "conserves E s s'"
proof -
  have "both_count s' e = both_count s e" for e
  proof -
    have "bank_count (gs_bk s') e + (if e = entry then n else 0) = bank_count (gs_bk s) e" using assms(1) by (simp only: loses_def)
    moreover have "stored_count (gs_pl s') e = stored_count (gs_pl s) e + (if e = entry then n else 0)"
      using assms(2) by (simp only: adds_def)
    ultimately show ?thesis by (simp add: both_count_def)
  qed
  with assms show ?thesis by (simp add: loses_def adds_def conserves_def state_ok_def fun_eq_iff)
qed

lemma adds_view:
  assumes "adds P Q entry n" and "inv_view Q' = inv_view Q" and "ifreed Q' = ifreed Q" and "pl_frame Q' = pl_frame Q"
  shows "adds P Q' entry n"
  using assms inv_wf_view [OF assms(2)] stock_view [OF assms(2)] by (simp add: adds_def stored_count_def)

lemma core_clone [simp]: "core (CloneItem_to_player g b it) = core it"
  by (simp add: core_def CloneItem_to_player_def Let_def)

text \<open>An item grows where it is.\<close>

lemma increment_adds:
  assumes wf: "inv_wf P" and get: "GetItemByPos P b s = Some p"
    and n: "unat (i_count (iheap P p)) + unat n < 4294967296"
    and view: "inv_view Q = inv_view (upd_item p (\<lambda>it. it\<lparr>i_count := i_count it + n\<rparr>) P)"
    and fr: "ifreed Q = ifreed P" "pl_frame Q = pl_frame P"
  shows "adds P Q (i_entry (iheap P p)) (unat n)"
proof -
  let ?U = "upd_item p (\<lambda>it. it\<lparr>i_count := i_count it + n\<rparr>) P"
  have "inv_wf ?U" by (rule inv_wf_upd_item [OF wf]) simp_all
  then have wfQ: "inv_wf Q" using inv_wf_view [OF view] fr(1) by simp
  have st: "stock Q = (stock P)((b, s) := Some (i_entry (iheap P p), unat (i_count (iheap P p) + n)))"
    unfolding stock_view [OF view] by (rule stock_set_count [OF wf get])
  have "stored_count Q e = stored_count P e + (if e = i_entry (iheap P p) then unat n else 0)" for e
    using total_upd [OF stored_in_all_pos [OF wf get], of "stock P" "Some (i_entry (iheap P p), unat (i_count (iheap P p) + n))" e]
      get n by (auto simp: stored_count_def st stock_def [of P] unat_add32)
  with wfQ fr(2) show ?thesis by (simp add: adds_def)
qed

text \<open>The templates a withdrawal can recreate, and the bag numbers it may be sent to.\<close>

definition withdrawable :: "'e Env_scheme \<Rightarrow> Player \<Rightarrow> uint32 \<Rightarrow> bool" where
  "withdrawable E P entry \<longleftrightarrow> bag_sizes_ok E P \<and> (\<exists>pr. storable E entry pr \<and> stack_ok pr)"

definition bag_arg :: "uint8 \<Rightarrow> bool" where
  "bag_arg bag \<longleftrightarrow> bag = NULL_BAG \<or> bag = INVENTORY_SLOT_BAG_0 \<or> is_bag_index bag"

lemma store_adds:
  assumes wf: "inv_wf P" and w: "withdrawable E P entry" and "bag_arg bag" and "n \<noteq> 0"
    and ok: "CanStoreNewItem E P bag slot entry n = (EQUIP_ERR_OK, dest, left)"
    and run: "StoreNewItem E dest entry u rid P = (r, P')"
  shows "r \<noteq> None" and "adds P P' entry (unat n)"
proof -
  from w obtain pr where pr: "storable E entry pr" "stack_ok pr" "bag_sizes_ok E P" by (auto simp: withdrawable_def)
  from pr(1) have e: "e_protos E entry = Some pr" by (simp add: storable_def)
  have good: "good_dest P pr None (unat n) dest 0"
    by (rule CanStoreItem_impl_sound(1) [OF e pr(2,3) _ assms(4) ok [unfolded CanStoreNewItem_def]])
      (use assms(3) in \<open>simp add: bag_arg_def\<close>)
  from StoreNewItem_adds [OF wf pr(1) good _ unat32_lt _ run] assms(4) pr(2)
  show "r \<noteq> None" "adds P P' entry (unat n)" by (simp_all add: adds_def stack_ok_def unat_gt_0)
qed

section \<open>One withdrawal\<close>

lemma withdraw_new_conserves:
  assumes ok: "state_ok E s" and mem: "q \<in> set (b_items (gs_bk s))"
    and w: "withdrawable E (gs_pl s) (bi_item_template (b_heap (gs_bk s) q))" and "bag_arg bag" and "n \<noteq> 0"
    and n: "unat n \<le> unat (bi_count (b_heap (gs_bk s) q))" and r: "remainer = bi_count (b_heap (gs_bk s) q) - n"
    and chk: "CanStoreNewItem E (gs_pl s) bag slot (bi_item_template (b_heap (gs_bk s) q)) n = (EQUIP_ERR_OK, dest, left)"
  shows "conserves E s (withdraw_new E t sl n dest q remainer sw s)"
proof -
  let ?b = "b_heap (gs_bk s) q"
  obtain i P where run: "StoreNewItem E dest (bi_item_template ?b) True (GenerateItemRandomPropertyId E (bi_item_template ?b)) (gs_pl s) = (i, P)"
    by fastforce
  have wf: "inv_wf (gs_pl s)" using ok by (simp add: state_ok_def)
  from store_adds [OF wf w assms(4,5) chk run] obtain it where i: "i = Some it"
    and add: "adds (gs_pl s) P (bi_item_template ?b) (unat n)" by auto
  define P1 where "P1 = upd_item it (CloneItem_to_player (b_playerGuid (gs_bk s)) ?b) P"
  have add1: "adds (gs_pl s) P1 (bi_item_template ?b) (unat n)"
    by (rule adds_view [OF add]) (simp_all add: P1_def inv_view_upd_item)
  define s2 where "s2 = withdraw_mark t sl q remainer remainer sw (s\<lparr>gs_pl := P1\<rparr>)"
  have res: "withdraw_new E t sl n dest q remainer sw s = withdraw_finish E t n q (emit (SendNewItem it n) s2)"
    by (simp add: withdraw_new_def Let_def run i s2_def P1_def)
  have view: "bview (gs_bk (withdraw_finish E t n q (emit (SendNewItem it n) s2))) = bview (bank_after q remainer remainer (gs_bk s))"
    using withdraw_bank_view [of "emit (SendNewItem it n) s2" t sl q remainer remainer sw "s\<lparr>gs_pl := P1\<rparr>" E t n]
    by (simp add: s2_def)
  have "loses E (gs_bk s) (bank_after q remainer remainer (gs_bk s)) (bi_item_template ?b) (unat n)"
    by (rule bank_after_loses [OF _ _ mem n r]) (use ok in \<open>simp_all add: state_ok_def\<close>)
  then have "loses E (gs_bk s) (gs_bk (withdraw_new E t sl n dest q remainer sw s)) (bi_item_template ?b) (unat n)"
    unfolding res by (simp add: loses_def bank_struct_view [OF view] stacks_ok_view [OF view] bank_count_view [OF view])
  then show ?thesis
    by (rule loses_adds_conserves) (use add1 in \<open>simp add: res s2_def\<close>)
qed

lemma withdraw_onto_conserves:
  assumes ok: "state_ok E s" and mem: "q \<in> set (b_items (gs_bk s))" and get: "GetItemByPos (gs_pl s) pb ps = Some p"
    and same: "i_entry (iheap (gs_pl s) p) = bi_item_template (b_heap (gs_bk s) q)"
    and room: "unat (i_count (iheap (gs_pl s) p)) + unat n < 4294967296"
    and n: "unat n \<le> unat (bi_count (b_heap (gs_bk s) q))" and r: "remainer = bi_count (b_heap (gs_bk s) q) - n"
  shows "conserves E s (withdraw_onto E t sl n q p remainer sw s)"
proof -
  let ?b = "b_heap (gs_bk s) q"
  have wf: "inv_wf (gs_pl s)" using ok by (simp add: state_ok_def)
  define s1 where "s1 = withdraw_mark t sl q remainer remainer sw s"
  define s2 where "s2 = player (\<lambda>P. SetState p ITEM_CHANGED (pemit (CreateUpdateToPlayer p)
      (upd_item p (\<lambda>it. it\<lparr>i_count := i_count it + n\<rparr>) P))) s1"
  have res: "withdraw_onto E t sl n q p remainer sw s = withdraw_finish E t n q s2"
    by (simp add: withdraw_onto_def Let_def s2_def s1_def r [symmetric])
  have view: "bview (gs_bk (withdraw_finish E t n q s2)) = bview (bank_after q remainer remainer (gs_bk s))"
    using withdraw_bank_view [of s2 t sl q remainer remainer sw s E t n] by (simp add: s2_def s1_def)
  have "loses E (gs_bk s) (bank_after q remainer remainer (gs_bk s)) (bi_item_template ?b) (unat n)"
    by (rule bank_after_loses [OF _ _ mem n r]) (use ok in \<open>simp_all add: state_ok_def\<close>)
  then have "loses E (gs_bk s) (gs_bk (withdraw_onto E t sl n q p remainer sw s)) (bi_item_template ?b) (unat n)"
    unfolding res by (simp add: loses_def bank_struct_view [OF view] stacks_ok_view [OF view] bank_count_view [OF view])
  moreover have "adds (gs_pl s) (gs_pl (withdraw_onto E t sl n q p remainer sw s)) (bi_item_template ?b) (unat n)"
    unfolding same [symmetric] res by (rule increment_adds [OF wf get room]) (simp_all add: s2_def s1_def)
  ultimately show ?thesis by (rule loses_adds_conserves)
qed

lemma conserves_refl: "state_ok E s \<Longrightarrow> conserves E s s"
  by (simp add: conserves_def)

lemma conserves_save: "conserves E s t \<Longrightarrow> conserves E s (SaveToDB t)"
  by (rule conserves_trans, assumption, rule conserves_view) (simp_all add: conserves_def)

lemma conserves_if:
  "(b \<Longrightarrow> conserves E s x) \<Longrightarrow> (\<not> b \<Longrightarrow> conserves E s y) \<Longrightarrow> conserves E s (if b then x else y)"
  by simp

lemma conserves_opt:
  "(x = None \<Longrightarrow> conserves E s y) \<Longrightarrow> (\<And>p. x = Some p \<Longrightarrow> conserves E s (z p)) \<Longrightarrow>
   conserves E s (case x of None \<Rightarrow> y | Some p \<Rightarrow> z p)"
  by (simp split: option.split)

lemma WithdrawItem_new_conserves:
  assumes ok: "state_ok E s" and mem: "q \<in> set (b_items (gs_bk s))"
    and w: "withdrawable E (gs_pl s) (bi_item_template (b_heap (gs_bk s) q))" and "bag_arg (ucast pb)" and "n \<noteq> 0"
    and n: "unat n \<le> unat (bi_count (b_heap (gs_bk s) q))" and r: "remainer = bi_count (b_heap (gs_bk s) q) - n"
  shows "conserves E s (WithdrawItem E t sl n pb ps q None remainer sw s)"
proof -
  obtain m dest left where chk: "CanStoreNewItem E (gs_pl s) (ucast pb) (ucast ps) (bi_item_template (b_heap (gs_bk s) q)) n = (m, dest, left)"
    by (metis prod_cases3)
  show ?thesis
  proof (cases "m = EQUIP_ERR_OK")
    case True
    from withdraw_new_conserves [OF ok mem w assms(4,5) n r chk [unfolded True]] True show ?thesis
      by (simp add: WithdrawItem_def chk conserves_save)
  next
    case False
    with ok show ?thesis by (simp add: WithdrawItem_def chk conserves_view)
  qed
qed

lemma WithdrawItem_onto_conserves:
  assumes ok: "state_ok E s" and mem: "q \<in> set (b_items (gs_bk s))" and get: "GetItemByPos (gs_pl s) b sl' = Some p"
    and same: "i_entry (iheap (gs_pl s) p) = bi_item_template (b_heap (gs_bk s) q)"
    and room: "unat (i_count (iheap (gs_pl s) p)) + unat n < 4294967296"
    and n: "unat n \<le> unat (bi_count (b_heap (gs_bk s) q))" and r: "remainer = bi_count (b_heap (gs_bk s) q) - n"
  shows "conserves E s (WithdrawItem E t sl n pb ps q (Some p) remainer sw s)"
  using withdraw_onto_conserves [OF ok mem get same room n r, of t sl sw] ok
  by (simp add: WithdrawItem_def conserves_save conserves_view split: prod.split)

section \<open>The withdrawal message\<close>

text \<open>What a withdrawal that is not a swap meets at its target: nothing, or a stack of the same
  stackable template within its stack size.\<close>

definition no_swap_at :: "'e Env_scheme \<Rightarrow> Player \<Rightarrow> uint8 \<Rightarrow> uint8 \<Rightarrow> uint32 \<Rightarrow> bool" where
  "no_swap_at E P b sl entry \<longleftrightarrow>
     (\<forall>p. GetItemByPos P b sl = Some p \<longrightarrow>
        i_entry (iheap P p) = entry \<and> unat (i_count (iheap P p)) \<le> unat (stack_of E entry) \<and> 1 < unat (stack_of E entry))"

lemma bag_arg_target:
  assumes "unat b \<le> 4" and "withdraw_target b sl = (bag, slot)"
  shows "bag_arg (ucast bag)"
proof (cases "b = 0")
  case True
  with assms(2) show ?thesis by (auto simp: withdraw_target_def Let_def bag_arg_def)
next
  case False
  then have "0 < unat b" by (simp add: unat_gt_0)
  have "unat (b + 18) = unat b + 18" using assms(1) by (simp add: unat_add32)
  moreover have "bag = b + 18" using False assms(2) by (simp add: withdraw_target_def Let_def)
  ultimately have "unat (ucast bag :: uint8) = unat b + 18" using assms(1) by (simp add: ucast_32_8_id)
  with \<open>0 < unat b\<close> assms(1) show ?thesis by (simp add: bag_arg_def is_bag_index_def)
qed

lemma withdraw_to_item_conserves:
  assumes ok: "state_ok E s" and mem: "q \<in> set (b_items (gs_bk s))" and get: "GetItemByPos (gs_pl s) b sl' = Some p"
    and free: "no_swap_at E (gs_pl s) b sl' (bi_item_template (b_heap (gs_bk s) q))"
    and w: "withdrawable E (gs_pl s) (bi_item_template (b_heap (gs_bk s) q))" and n: "unat n \<le> unat (bi_count (b_heap (gs_bk s) q))"
  shows "conserves E s (withdraw_to_item E t sl pb ps n q p s)"
proof -
  obtain bk s1 where ib: "IsItemBankable E p s = (bk, s1)" by fastforce
  note fr = IsItemBankable_frame [OF ib]
  have c1: "conserves E s s1" by (rule conserves_view [OF ok]) (simp_all add: fr)
  then have ok1: "state_ok E s1" by (simp add: conserves_def)
  let ?b = "b_heap (gs_bk s) q" and ?it = "iheap (gs_pl s) p"
  from free get have p: "i_entry ?it = bi_item_template ?b" "unat (i_count ?it) \<le> unat (stack_of E (bi_item_template ?b))"
    "1 < unat (stack_of E (bi_item_template ?b))" by (auto simp: no_swap_at_def)
  from w obtain pr where pr: "e_protos E (bi_item_template ?b) = Some pr" "pr_ItemId pr = bi_item_template ?b"
    by (auto simp: withdrawable_def storable_def)
  then have proto: "the_proto E ?it = pr" "stack_of E (bi_item_template ?b) = pr_Stackable pr"
    using p(1) by (simp_all add: the_proto_def GetProto_def stack_of_def)
  have so: "stacks_ok (stack_of E) (gs_bk s)" using ok by (simp add: state_ok_def)
  note bd = stacks_okD [OF so mem] stacks_ok_size [OF so mem]
  let ?m = "pr_Stackable pr"
  have max: "bi_maxStackSize ?b = ?m" "unat ?m < 2147483648" using bd proto(2) by simp_all
  define n' where "n' = (if n + i_count ?it > ?m then ?m - i_count ?it else n)"
  have le: "unat n' \<le> unat (bi_count ?b) \<and> unat (i_count ?it) + unat n' < 4294967296"
  proof (cases "n + i_count ?it > ?m")
    case True
    have "unat (n + i_count ?it) = unat n + unat (i_count ?it)"
      by (rule unat_add32) (use n bd(1) max p(2) proto(2) in simp)
    with True have "unat ?m < unat n + unat (i_count ?it)" by (simp add: word_nat)
    with True n p(2) proto(2) max(2) show ?thesis by (simp add: n'_def unat_sub32)
  next
    case False
    with n bd(1) max p(2) proto(2) show ?thesis by (simp add: n'_def)
  qed
  show ?thesis
  proof (cases bk)
    case True
    have "withdraw_to_item E t sl pb ps n q p s = WithdrawItem E t sl n' pb ps q (Some p) (bi_count ?b - n') False s1"
      using True pr(2) p(3) proto max(1)
      by (simp add: withdraw_to_item_def ib fr Let_def n'_def GetMaxStackSize_def word_nat)
    moreover have "conserves E s1 (WithdrawItem E t sl n' pb ps q (Some p) (bi_count ?b - n') False s1)"
      by (rule WithdrawItem_onto_conserves [OF ok1, where b = b and sl' = sl']) (use mem get p(1) le in \<open>simp_all add: fr\<close>)
    ultimately show ?thesis using c1 by (auto intro: conserves_trans)
  next
    case False
    with c1 show ?thesis by (simp add: withdraw_to_item_def ib)
  qed
qed

lemma WithdrawItem_msg_conserves_lemma:
  assumes ok: "state_ok E s" and args: "Tokenizer msg CHR '':'' = [cmd, t, sl, b, ps, n]"
    and w: "\<forall>q \<in> set (b_items (gs_bk s)). withdrawable E (gs_pl s) (bi_item_template (b_heap (gs_bk s) q))"
    and bag: "unat (atoi b :: uint32) \<le> 4" and n: "atoi n \<noteq> (0 :: uint32)"
    and free: "\<And>q. GetItem (gs_bk s) (atoi t) (atoi sl) = Some q \<Longrightarrow> \<not> (atoi b = (0 :: uint32) \<and> atoi ps = (0 :: uint32)) \<Longrightarrow>
      no_swap_at E (gs_pl s) (ucast (fst (withdraw_target (atoi b) (atoi ps)))) (ucast (snd (withdraw_target (atoi b) (atoi ps))))
        (bi_item_template (b_heap (gs_bk s) q))"
  shows "conserves E s (WithdrawItem_msg E msg s)"
proof -
  define T SL B PS NN where d: "T = (atoi t :: uint32)" "SL = (atoi sl :: uint32)" "B = (atoi b :: uint32)" "PS = (atoi ps :: uint32)"
    "NN = (atoi n :: uint32)"
  obtain acc s0 where a: "CanAccessTab E (ucast T) ACTION_WITHDRAW_ITEM s = (acc, s0)" by fastforce
  note fr = CanAccessTab_frame [OF a]
  obtain bag slot where tg: "withdraw_target B PS = (bag, slot)" by fastforce
  have c0: "conserves E s s0" by (rule conserves_view [OF ok]) (simp_all add: fr)
  then have ok0: "state_ok E s0" by (simp add: conserves_def)
  have step: "conserves E s s'" if "conserves E s0 s'" for s' using c0 that by (rule conserves_trans)
  have quiet: "conserves E s s'" if "gs_pl s' = gs_pl s" "gs_bk s' = gs_bk s" for s'
    using that by (intro conserves_view [OF ok]) simp_all
  show ?thesis
  proof (cases "GetItem (gs_bk s) T SL")
    case None
    then show ?thesis
      by (auto simp: WithdrawItem_msg_def args Let_def d [symmetric] a fr intro!: quiet)
  next
    case (Some q)
    from GetItem_Some [OF Some] have mem: "q \<in> set (b_items (gs_bk s0))" by (simp add: fr)
    with w have wq: "withdrawable E (gs_pl s0) (bi_item_template (b_heap (gs_bk s0) q))" by (simp add: fr)
    let ?b = "b_heap (gs_bk s) q"
    have auto_w: "conserves E s (WithdrawItem E T SL (bi_count ?b) 0 255 q None 0 False s0)" if "NN = bi_count ?b"
      by (rule step, rule WithdrawItem_new_conserves [OF ok0 mem wq]) (use n that in \<open>simp_all add: fr bag_arg_def d\<close>)
    have new: "conserves E s (WithdrawItem E T SL NN bag slot q None (bi_count ?b - NN) False s0)" if "\<not> NN > bi_count ?b"
      by (rule step, rule WithdrawItem_new_conserves [OF ok0 mem wq])
        (use n that bag_arg_target [OF bag, folded d, OF tg] in \<open>simp_all add: fr d word_nat\<close>)
    have onto: "conserves E s (withdraw_to_item E T SL bag slot NN q p s0)"
      if "\<not> NN > bi_count ?b" "\<not> (B = 0 \<and> PS = 0)" "GetItemByPos (gs_pl s) (ucast bag) (ucast slot) = Some p" for p
      by (rule step, rule withdraw_to_item_conserves [OF ok0 mem _ _ wq])
        (use that free [folded d, OF Some] tg in \<open>auto simp: fr word_nat\<close>)
    have run: "WithdrawItem_msg E msg s =
        (if T = 0 \<or> unat T > MAX_TABS \<or> SL = 0 \<or> unat SL > BANK_TAB_SIZE then send ''WithdrawItem:Error:ParamsOutOfRange'' s
         else if \<not> acc then send ''WithdrawItem:Error:NoRights'' (notify ''You dont have access to this tab.'' s0)
         else if NN > bi_count ?b then send ''WithdrawItem:Error:CantWithdrawMoreThanCount'' s0
         else if B = 0 \<and> PS = 0 then
           (if NN = bi_count ?b then WithdrawItem E T SL (bi_count ?b) 0 255 q None 0 False s0
            else send ''WithdrawItem:Error:CantAutoWithdrawDifferentCount'' s0)
         else case GetItemByPos (gs_pl s) (ucast bag) (ucast slot) of
            Some p \<Rightarrow> withdraw_to_item E T SL bag slot NN q p s0
          | None \<Rightarrow> WithdrawItem E T SL NN bag slot q None (bi_count ?b - NN) False s0)"
      by (simp add: WithdrawItem_msg_def args Let_def d [symmetric] a fr Some tg eq_commute [of "bi_count ?b" NN])
    show ?thesis
      unfolding run
      by (intro conserves_if conserves_opt; (rule auto_w new onto; assumption)?; rule quiet; simp add: fr)
  qed
qed

end
