(* ===== verification/Bank_Transfer_Props.thy ===== *)
theory Bank_Transfer_Props
  imports Bank_Withdraw_Props
begin

text \<open>
  The messages that move items: a deposit message conserves pieces like a withdrawal message does,
  and so does every sequence of deposits, withdrawals, moves and splits in which the player and the
  client behave: deposits name at most the pieces of the stack, and no message asks for a swap.
\<close>

section \<open>The deposit message\<close>

text \<open>What a deposit that is not a swap meets at its target slot: nothing, or a stack of the same
  stackable template.\<close>

definition no_swap_to :: "Bank \<Rightarrow> uint32 \<Rightarrow> uint32 \<Rightarrow> uint32 \<Rightarrow> bool" where
  "no_swap_to B t sl entry \<longleftrightarrow>
     (\<forall>q. GetItem B t sl = Some q \<longrightarrow> bi_item_template (b_heap B q) = entry \<and> 1 < unat (bi_maxStackSize (b_heap B q)))"

lemma deposit_onto_conserves:
  fixes n t sl :: uint8
  assumes ok: "state_ok E s" and it: "bankable_at E (gs_pl s) pb ps p pr" and n: "unat n \<le> unat (i_count (iheap (gs_pl s) p))"
    and q: "GetItem (gs_bk s) (ucast t) (ucast sl) = Some q" and ib: "in_bank (ucast t, ucast sl)"
    and free: "no_swap_to (gs_bk s) (ucast t) (ucast sl) (i_entry (iheap (gs_pl s) p))"
  shows "conserves E s (deposit_onto E t sl p n q s)"
proof -
  let ?d = "b_heap (gs_bk s) q" and ?it = "iheap (gs_pl s) p"
  note d = bankable_atD [OF it]
  have so: "stacks_ok (stack_of E) (gs_bk s)" using ok by (simp add: state_ok_def)
  from GetItem_Some [OF q] have mem: "q \<in> set (b_items (gs_bk s))" by simp
  from free q have same: "bi_item_template ?d = i_entry ?it" and many: "1 < unat (bi_maxStackSize ?d)" by (auto simp: no_swap_to_def)
  note bd = stacks_okD [OF so mem]
  have max: "bi_maxStackSize ?d = pr_Stackable pr" using stacks_ok_size [OF so mem] same d(4) by simp
  have sum: "unat (bi_count ?d + ucast n) = unat (bi_count ?d) + unat n"
    by (subst unat_add32) (use bd unat8_lt [of n] in simp_all)
  have slot: "conserves E s (DepositItemInSlot E (ucast t) (ucast sl) p m 0 ITEM_CHANGED True s)"
    if "unat m \<le> unat (i_count ?it)" "unat (bi_count ?d) + unat m \<le> unat (pr_Stackable pr)" for m
    by (rule deposit_conserves(2) [OF ok it]) (use that ib q same in \<open>simp add: deposit_args_def\<close>)
  have give: "conserves E s (WithdrawItem E (ucast t) (ucast sl) (bi_maxStackSize ?d - ucast n) x y q (Some p)
      (bi_maxStackSize ?d - (bi_maxStackSize ?d - ucast n)) False s)"
    if "unat n < unat (bi_count ?d)" "bi_count ?d = bi_maxStackSize ?d" for x y
    by (rule WithdrawItem_onto_conserves [OF ok mem removableD(2) [OF d(1)]])
      (use that same max d(5,6) bd in \<open>simp_all add: unat_sub32\<close>)
  have rest: "unat (bi_maxStackSize ?d - bi_count ?d) \<le> unat (i_count ?it) \<and>
      unat (bi_count ?d) + unat (bi_maxStackSize ?d - bi_count ?d) \<le> unat (pr_Stackable pr)"
    if "\<not> bi_count ?d + ucast n \<le> bi_maxStackSize ?d"
    using that sum bd(1) n max by (simp add: word_nat unat_sub32)
  show ?thesis
    unfolding deposit_onto_def Let_def
    by (intro conserves_if; (rule slot give)?; (rule conserves_view [OF ok])?)
      (use n sum rest same many max d(2,3) in \<open>auto simp: word_nat\<close>)
qed

lemma DepositItem_conserves_lemma:
  assumes ok: "state_ok E s" and args: "Tokenizer msg CHR '':'' = [cmd, pb, ps, t, sl, n]"
    and src: "deposit_source (atoi pb) (atoi ps) = (b, bs)"
    and it: "\<And>p. GetItemByPos (gs_pl s) b bs = Some p \<Longrightarrow>
      \<exists>pr. bankable_at E (gs_pl s) b bs p pr \<and> unat (atoi n :: uint8) \<le> unat (i_count (iheap (gs_pl s) p)) \<and>
        no_swap_to (gs_bk s) (ucast (atoi t :: uint8)) (ucast (atoi sl :: uint8)) (i_entry (iheap (gs_pl s) p))"
  shows "conserves E s (DepositItem E msg s)"
proof -
  define T SL NN where d: "T = (atoi t :: uint8)" "SL = (atoi sl :: uint8)" "NN = (atoi n :: uint8)"
  obtain acc s0 where a: "CanAccessTab E T ACTION_DEPOSIT_ITEM s = (acc, s0)" by fastforce
  note fr = CanAccessTab_frame [OF a]
  have quiet: "conserves E s s'" if "gs_pl s' = gs_pl s" "gs_bk s' = gs_bk s" for s'
    using that by (intro conserves_view [OF ok]) simp_all
  show ?thesis
  proof (cases "GetItemByPos (gs_pl s) b bs")
    case None
    have "DepositItem E msg s =
        (if T = 0 \<or> unat T > MAX_TABS \<or> unat SL > BANK_TAB_SIZE then send ''DepositItem:Error:ParamsOutOfRange'' s
         else if \<not> acc then send ''DepositItem:Error:NoRights'' (notify ''You dont have access to this tab.'' s0)
         else send (''DepositItem:Error:CantGetPlayerItem:'' @ to_string b @ '':'' @ to_string bs) s0)"
      by (simp add: DepositItem_def args Let_def d [symmetric] a src fr None)
    then show ?thesis by (simp add: quiet fr)
  next
    case (Some p)
    obtain ib s1 where i: "IsItemBankable E p s0 = (ib, s1)" by fastforce
    note fr1 = IsItemBankable_frame [OF i] and fr0 = fr
    have eq: "gs_pl s1 = gs_pl s" "gs_bk s1 = gs_bk s" using fr1 fr0 by simp_all
    from it [OF Some] obtain pr where pr: "bankable_at E (gs_pl s) b bs p pr" and n: "unat NN \<le> unat (i_count (iheap (gs_pl s) p))"
      and free: "no_swap_to (gs_bk s) (ucast T) (ucast SL) (i_entry (iheap (gs_pl s) p))" by (auto simp: d)
    have c1: "conserves E s s1" by (rule quiet) (simp_all add: eq)
    then have ok1: "state_ok E s1" by (simp add: conserves_def)
    have pr1: "bankable_at E (gs_pl s1) b bs p pr" using pr by (simp add: eq)
    have step: "conserves E s s'" if "conserves E s1 s'" for s' using c1 that by (rule conserves_trans)
    have run: "DepositItem E msg s =
        (if T = 0 \<or> unat T > MAX_TABS \<or> unat SL > BANK_TAB_SIZE then send ''DepositItem:Error:ParamsOutOfRange'' s
         else if \<not> acc then send ''DepositItem:Error:NoRights'' (notify ''You dont have access to this tab.'' s0)
         else if \<not> ib then s1
         else if ucast NN > GetMaxStackSize (the_proto E (iheap (gs_pl s) p)) then send ''DepositItem:Error:Count>GetMaxStackCount'' s1
         else if SL = 0 then DepositItemInFreeSlot E (ucast T) p s1
         else case GetItem (gs_bk s) (ucast T) (ucast SL) of
                None \<Rightarrow> DepositItemInSlot E (ucast T) (ucast SL) p (ucast NN) 0 ITEM_NEW False s1
              | Some q \<Rightarrow> deposit_onto E T SL p NN q s1)"
      by (simp add: DepositItem_def args Let_def d [symmetric] a src fr Some i eq split: option.split)
    have t: "1 \<le> unat (ucast T :: uint32)" "unat (ucast T :: uint32) \<le> MAX_TABS" if "\<not> (T = 0 \<or> unat T > MAX_TABS \<or> unat SL > BANK_TAB_SIZE)"
      using that by (auto simp: Suc_le_eq unat_gt_0)
    have place: "in_bank (ucast T, ucast SL)" if "\<not> (T = 0 \<or> unat T > MAX_TABS \<or> unat SL > BANK_TAB_SIZE)" "SL \<noteq> 0"
      using that by (auto simp: in_bank_def Suc_le_eq unat_gt_0)
    have free_slot: "conserves E s (DepositItemInFreeSlot E (ucast T) p s1)" if "\<not> (T = 0 \<or> unat T > MAX_TABS \<or> unat SL > BANK_TAB_SIZE)"
      by (rule step, rule deposit_conserves(1) [OF ok1 pr1 t [OF that]])
    have new: "conserves E s (DepositItemInSlot E (ucast T) (ucast SL) p (ucast NN) 0 ITEM_NEW False s1)"
      if "\<not> (T = 0 \<or> unat T > MAX_TABS \<or> unat SL > BANK_TAB_SIZE)" "SL \<noteq> 0" "GetItem (gs_bk s) (ucast T) (ucast SL) = None"
      by (rule step, rule deposit_conserves(2) [OF ok1 pr1])
        (use place [OF that(1,2)] n that(3) in \<open>simp add: deposit_args_def eq\<close>)
    have onto: "conserves E s (deposit_onto E T SL p NN q s1)"
      if "\<not> (T = 0 \<or> unat T > MAX_TABS \<or> unat SL > BANK_TAB_SIZE)" "SL \<noteq> 0" "GetItem (gs_bk s) (ucast T) (ucast SL) = Some q" for q
      by (rule step, rule deposit_onto_conserves [OF ok1 pr1])
        (use place [OF that(1,2)] n that(3) free in \<open>simp_all add: eq\<close>)
    show ?thesis
      unfolding run
      by (intro conserves_if conserves_opt; (rule c1 free_slot new onto; assumption)?; rule quiet; simp add: fr eq)
  qed
qed

section \<open>Interface: guarded operations\<close>

text \<open>An operation that, under its guard, keeps a state good; so does every run in which each guard
  holds when its operation is reached. A conserving operation keeps an amount the same as well.\<close>

fun guarded_run :: "('x \<Rightarrow> 's \<Rightarrow> 's) \<Rightarrow> ('x \<Rightarrow> 's \<Rightarrow> bool) \<Rightarrow> 'x list \<Rightarrow> 's \<Rightarrow> bool" where
  "guarded_run op guard [] s = True"
| "guarded_run op guard (x # xs) s = (guard x s \<and> guarded_run op guard xs (op x s))"

locale guarded =
  fixes op :: "'x \<Rightarrow> 's \<Rightarrow> 's" and guard :: "'x \<Rightarrow> 's \<Rightarrow> bool" and good :: "'s \<Rightarrow> bool"
  assumes keeps_good: "good s \<Longrightarrow> guard x s \<Longrightarrow> good (op x s)"
begin

lemma run_good: "good s \<Longrightarrow> guarded_run op guard xs s \<Longrightarrow> good (fold op xs s)"
  by (induction xs arbitrary: s) (simp_all add: keeps_good)

end

locale conserving = guarded op guard good
  for op :: "'x \<Rightarrow> 's \<Rightarrow> 's" and guard :: "'x \<Rightarrow> 's \<Rightarrow> bool" and good :: "'s \<Rightarrow> bool" +
  fixes amount :: "'s \<Rightarrow> 'a"
  assumes keeps_amount: "good s \<Longrightarrow> guard x s \<Longrightarrow> amount (op x s) = amount s"
begin

lemma run_amount: "good s \<Longrightarrow> guarded_run op guard xs s \<Longrightarrow> amount (fold op xs s) = amount s"
  by (induction xs arbitrary: s) (simp_all add: keeps_good keeps_amount)

end

text \<open>Operations inside the bank are such operations, without a guard.\<close>

sublocale bank_internal \<subseteq> inside: conserving op "\<lambda>_ _. True" "\<lambda>s. bank_struct (gs_bk s)" gs_pl
  by unfold_locales (simp_all add: op_struct op_player)

section \<open>Transfers\<close>

text \<open>The guards of the two messages that move items between a player and the bank.\<close>

definition deposit_ok :: "'e Env_scheme \<Rightarrow> string \<Rightarrow> GState \<Rightarrow> bool" where
  "deposit_ok E msg s \<longleftrightarrow>
     (let ps = Tokenizer msg CHR '':''; (b, bs) = deposit_source (atoi (ps ! 1)) (atoi (ps ! 2)); P = gs_pl s
      in length ps = 6 \<longrightarrow>
           (case GetItemByPos P b bs of
              None \<Rightarrow> True
            | Some p \<Rightarrow>
                bankable_at E P b bs p (the_proto E (iheap P p)) \<and>
                unat (atoi (ps ! 5) :: uint8) \<le> unat (i_count (iheap P p)) \<and>
                no_swap_to (gs_bk s) (ucast (atoi (ps ! 3) :: uint8)) (ucast (atoi (ps ! 4) :: uint8)) (i_entry (iheap P p))))"

definition withdraw_ok :: "'e Env_scheme \<Rightarrow> string \<Rightarrow> GState \<Rightarrow> bool" where
  "withdraw_ok E msg s \<longleftrightarrow>
     (let ps = Tokenizer msg CHR '':''; (bag, slot) = withdraw_target (atoi (ps ! 3)) (atoi (ps ! 4)); B = gs_bk s
      in length ps = 6 \<longrightarrow>
           (\<forall>q \<in> set (b_items B). withdrawable E (gs_pl s) (bi_item_template (b_heap B q))) \<and>
           unat (atoi (ps ! 3) :: uint32) \<le> 4 \<and> atoi (ps ! 5) \<noteq> (0 :: uint32) \<and>
           (atoi (ps ! 3) = (0 :: uint32) \<and> atoi (ps ! 4) = (0 :: uint32) \<or>
            (case GetItem B (atoi (ps ! 1)) (atoi (ps ! 2)) of
               None \<Rightarrow> True
             | Some q \<Rightarrow> no_swap_at E (gs_pl s) (ucast bag) (ucast slot) (bi_item_template (b_heap B q)))))"

lemma six_args: "length ps = 6 \<Longrightarrow> \<exists>a b c d e f. ps = [a, b, c, d, e, f]"
  by (auto simp: length_Suc_conv eval_nat_numeral)

lemma deposit_ok_conserves:
  assumes "state_ok E s" and "deposit_ok E msg s"
  shows "conserves E s (DepositItem E msg s)"
proof (cases "length (Tokenizer msg CHR '':'') = 6")
  case True
  then obtain cmd pb ps t sl n where args: "Tokenizer msg CHR '':'' = [cmd, pb, ps, t, sl, n]" using six_args by blast
  obtain b bs where src: "deposit_source (atoi pb) (atoi ps) = (b, bs)" by fastforce
  show ?thesis
    by (rule DepositItem_conserves_lemma [OF assms(1) args src])
      (use assms(2) in \<open>auto simp: deposit_ok_def Let_def args src\<close>)
next
  case False
  with assms(1) show ?thesis by (simp add: DepositItem_def Let_def conserves_view)
qed

lemma withdraw_ok_conserves:
  assumes "state_ok E s" and "withdraw_ok E msg s"
  shows "conserves E s (WithdrawItem_msg E msg s)"
proof (cases "length (Tokenizer msg CHR '':'') = 6")
  case True
  then obtain cmd t sl b ps n where args: "Tokenizer msg CHR '':'' = [cmd, t, sl, b, ps, n]" using six_args by blast
  obtain bag slot where tg: "withdraw_target (atoi b) (atoi ps) = (bag, slot)" by fastforce
  show ?thesis
    by (rule WithdrawItem_msg_conserves_lemma [OF assms(1) args])
      (use assms(2) in \<open>auto simp: withdraw_ok_def Let_def args tg\<close>)
next
  case False
  with assms(1) show ?thesis by (simp add: WithdrawItem_msg_def Let_def conserves_view)
qed

text \<open>The item messages of a client, in one type.\<close>

datatype transfer = Deposit string | Withdraw string | Move string | Split string

fun handle_transfer :: "'e BankEnv_scheme \<Rightarrow> transfer \<Rightarrow> GState \<Rightarrow> GState" where
  "handle_transfer E (Deposit msg) s = DepositItem E msg s"
| "handle_transfer E (Withdraw msg) s = WithdrawItem_msg E msg s"
| "handle_transfer E (Move msg) s = MoveItem_msg E msg s"
| "handle_transfer E (Split msg) s = SplitItem E msg s"

fun transfer_ok :: "'e BankEnv_scheme \<Rightarrow> transfer \<Rightarrow> GState \<Rightarrow> bool" where
  "transfer_ok E (Deposit msg) s = deposit_ok E msg s"
| "transfer_ok E (Withdraw msg) s = withdraw_ok E msg s"
| "transfer_ok E _ s = True"

lemma inside_conserves: "state_ok E s \<Longrightarrow> inside_ok s s' \<Longrightarrow> conserves E s s'"
  by (auto simp: inside_ok_def conserves_def state_ok_def both_count_def)

lemma handle_transfer_conserves: "state_ok E s \<Longrightarrow> transfer_ok E m s \<Longrightarrow> conserves E s (handle_transfer E m s)"
  by (cases m) (simp_all add: deposit_ok_conserves withdraw_ok_conserves inside_conserves MoveItem_msg_inside SplitItem_inside)

interpretation tr: conserving "handle_transfer E" "transfer_ok E" "state_ok E" "\<lambda>s. (both_count s, pl_frame (gs_pl s))"
  for E :: "'e BankEnv_scheme"
  by unfold_locales (use handle_transfer_conserves [of E] in \<open>auto simp: conserves_def\<close>)

section \<open>Depositing more than there is\<close>

text \<open>Only the maximal stack size bounds the count of a deposit message. A count above the stack is
  taken from it in 32-bit arithmetic.\<close>

lemma DepositItemInSlot_overdraw:
  assumes ok: "state_ok E s" and it: "bankable_at E (gs_pl s) pb ps p pr" and ib: "in_bank (t, sl)"
    and free: "GetItem (gs_bk s) t sl = None" and n: "unat (i_count (iheap (gs_pl s) p)) < unat n" "unat n \<le> unat (pr_Stackable pr)"
  defines "s' \<equiv> DepositItemInSlot E t sl p n 0 ITEM_NEW False s"
  shows "unat (i_count (iheap (gs_pl s') p)) = 4294967296 + unat (i_count (iheap (gs_pl s) p)) - unat n"
    and "bank_count (gs_bk s') (i_entry (iheap (gs_pl s) p)) = bank_count (gs_bk s) (i_entry (iheap (gs_pl s) p)) + unat n"
proof -
  have b: "bank_struct (gs_bk s)" "stacks_ok (stack_of E) (gs_bk s)" using ok by (auto simp: state_ok_def)
  from deposit_into_new [OF b it ib free n(2), of False] obtain q B where
    into: "deposit_into E t sl p n ITEM_NEW False s = (Some q, s\<lparr>gs_bk := B\<rparr>)" and
    g: "gains E (gs_bk s) B (i_entry (iheap (gs_pl s) p)) (unat n)" by blast
  have ne: "n \<noteq> i_count (iheap (gs_pl s) p)" using n(1) by auto
  have s': "s' = deposit_done E q n (deposit_take p n (s\<lparr>gs_bk := B\<rparr>))"
    using ne by (simp add: s'_def DepositItemInSlot.simps into deposit_take_last_def)
  show "unat (i_count (iheap (gs_pl s') p)) = 4294967296 + unat (i_count (iheap (gs_pl s) p)) - unat n"
  proof -
    have "i_count (iheap (gs_pl s') p) = i_count (iheap (gs_pl s) p) - n"
      unfolding s' deposit_done_frame count_deposit_take by simp
    then show ?thesis using n(1) unat_sub_if' [of "i_count (iheap (gs_pl s) p)" n] by (simp only: not_le [symmetric]) simp
  qed
  have v: "bview (gs_bk s') = bview B" unfolding s' deposit_done_frame by simp
  with g show "bank_count (gs_bk s') (i_entry (iheap (gs_pl s) p)) = bank_count (gs_bk s) (i_entry (iheap (gs_pl s) p)) + unat n"
    by (simp add: gains_def bank_count_view [OF v])
qed

end
