(* ===== verification/Bank_Money_Props.thy ===== *)
theory Bank_Money_Props
  imports Bank_Transfer_Props
begin

text \<open>
  Money and rights: what deposits, withdrawals and unlocking a tab do to the purse and the bank, and
  what a player without rights cannot do.
\<close>

section \<open>Purse and bank\<close>

definition all_money :: "GState \<Rightarrow> nat" where
  "all_money s = unat (pl_money (gs_pl s)) + unat (b_money (gs_bk s))"

text \<open>The money hooks of the script registry pass every amount on unchanged.\<close>

definition no_hook :: "'e Env_scheme \<Rightarrow> bool" where
  "no_hook E \<longleftrightarrow> (\<forall>d. e_moneyhook E d = d)"

lemma sint_neg_small: "unat m \<le> 2147483646 \<Longrightarrow> sint (- m) = - int (unat m)" for m :: uint32
proof (cases "m = 0")
  case False
  assume le: "unat m \<le> 2147483646"
  have u: "unat (- m) = 4294967296 - unat m" using False unat_sub_if' [of 0 m] by (simp add: unat_gt_0)
  have "\<not> unat (- m) < 2147483648" and "int (unat (- m)) - 4294967296 = - int (unat m)" using u le by linarith+
  then show ?thesis unfolding sint_as_unat by (simp only: if_False)
qed simp

lemma ModifyMoney_exact:
  assumes "no_hook E" and cap: "unat (pl_money P) \<le> 2147483646"
    and r: "0 \<le> int (unat (pl_money P)) + sint d" "int (unat (pl_money P)) + sint d \<le> 2147483646"
  shows "int (unat (pl_money (ModifyMoney E d P))) = int (unat (pl_money P)) + sint d"
proof -
  have h: "e_moneyhook E d = d" using assms(1) by (simp only: no_hook_def)
  have "sint d \<le> 2147483646" using r(2) by linarith
  from ModifyMoney_sum [OF h cap this] show ?thesis
    unfolding min.absorb2 [OF r(2)] max.absorb2 [OF r(1)] .
qed

lemma pay:
  assumes "no_hook E" and "unat (pl_money P) \<le> 2147483646" and "unat m \<le> unat (pl_money P)"
  shows "unat (pl_money (ModifyMoney E (- m) P)) = unat (pl_money P) - unat m"
proof -
  have n: "sint (- m) = - int (unat m)" using assms(2,3) by (intro sint_neg_small) linarith
  have "int (unat (pl_money (ModifyMoney E (- m) P))) = int (unat (pl_money P)) + sint (- m)"
    by (rule ModifyMoney_exact [OF assms(1,2)]) (use n assms(2,3) in linarith)+
  then show ?thesis using n assms(3) by linarith
qed

lemma earn:
  assumes "no_hook E" and le: "unat (pl_money P) + unat m \<le> 2147483646"
  shows "unat (pl_money (ModifyMoney E m P)) = unat (pl_money P) + unat m"
proof -
  have "unat m < 2147483648" and cap: "unat (pl_money P) \<le> 2147483646" using le by linarith+
  then have n: "sint m = int (unat m)" unfolding sint_as_unat by (rule_tac if_P)
  have "int (unat (pl_money (ModifyMoney E m P))) = int (unat (pl_money P)) + sint m"
    by (rule ModifyMoney_exact [OF assms(1) cap]) (use n le in linarith)+
  then show ?thesis using n by linarith
qed

section \<open>Deposits and withdrawals\<close>

lemma DepositMoney_run:
  assumes "parse_money msg = Some m"
  shows "pl_money (gs_pl (DepositMoney E msg s)) =
      (if m \<le> 0xFFFFFFFF - b_money (gs_bk s) \<and> m \<le> pl_money (gs_pl s) then pl_money (ModifyMoney E (- m) (gs_pl s)) else pl_money (gs_pl s))"
    "b_money (gs_bk (DepositMoney E msg s)) =
      (if m \<le> 0xFFFFFFFF - b_money (gs_bk s) \<and> m \<le> pl_money (gs_pl s) then b_money (gs_bk s) + m else b_money (gs_bk s))"
  by (auto simp: DepositMoney_def assms Let_def)

lemma DepositMoney_syntax:
  "parse_money msg = None \<Longrightarrow> DepositMoney E msg s = send (wrong_syntax ''DepositMoney'' msg) s"
  by (simp add: DepositMoney_def)

lemma WithdrawMoney_run:
  assumes "parse_money msg = Some m"
  shows "pl_money (gs_pl (WithdrawMoney E msg s)) =
      (if b_playerRankIndex (gs_bk s) \<le> 1 \<and> m \<le> b_money (gs_bk s) then pl_money (ModifyMoney E m (gs_pl s)) else pl_money (gs_pl s))"
    "b_money (gs_bk (WithdrawMoney E msg s)) =
      (if b_playerRankIndex (gs_bk s) \<le> 1 \<and> m \<le> b_money (gs_bk s) then b_money (gs_bk s) - m else b_money (gs_bk s))"
  by (auto simp: WithdrawMoney_def assms CanAccessTab_def Let_def)

lemma WithdrawMoney_syntax:
  "parse_money msg = None \<Longrightarrow> WithdrawMoney E msg s = send (wrong_syntax ''WithdrawMoney'' msg) s"
  by (simp add: WithdrawMoney_def)

lemma DepositMoney_total:
  assumes hook: "no_hook E" and cap: "unat (pl_money (gs_pl s)) \<le> 2147483646"
  shows "all_money (DepositMoney E msg s) = all_money s"
proof (cases "parse_money msg")
  case None
  then show ?thesis by (simp add: DepositMoney_syntax all_money_def)
next
  case (Some m)
  show ?thesis
  proof (cases "m \<le> 0xFFFFFFFF - b_money (gs_bk s) \<and> m \<le> pl_money (gs_pl s)")
    case True
    then have le: "unat m \<le> unat (pl_money (gs_pl s))" and "unat m \<le> unat (0xFFFFFFFF - b_money (gs_bk s))" by (simp_all add: word_nat)
    moreover have "unat (0xFFFFFFFF - b_money (gs_bk s)) = 4294967295 - unat (b_money (gs_bk s))"
      using unat32_lt [of "b_money (gs_bk s)"] by (simp add: unat_sub32)
    ultimately have "unat (b_money (gs_bk s) + m) = unat (b_money (gs_bk s)) + unat m"
      using unat32_lt [of "b_money (gs_bk s)"] by (intro unat_add32) linarith
    with True pay [OF hook cap le] le show ?thesis by (simp add: all_money_def DepositMoney_run [OF Some])
  next
    case False
    show ?thesis unfolding all_money_def DepositMoney_run [OF Some] if_not_P [OF False] ..
  qed
qed

lemma WithdrawMoney_total:
  assumes hook: "no_hook E" and cap: "all_money s \<le> 2147483646"
  shows "all_money (WithdrawMoney E msg s) = all_money s"
proof (cases "parse_money msg")
  case None
  then show ?thesis by (simp add: WithdrawMoney_syntax all_money_def)
next
  case (Some m)
  show ?thesis
  proof (cases "b_playerRankIndex (gs_bk s) \<le> 1 \<and> m \<le> b_money (gs_bk s)")
    case True
    then have le: "unat m \<le> unat (b_money (gs_bk s))" by (simp add: word_nat)
    have "unat (pl_money (gs_pl s)) + unat m \<le> 2147483646" using le cap by (simp add: all_money_def)
    from earn [OF hook this] True le show ?thesis by (simp add: all_money_def WithdrawMoney_run [OF Some] unat_sub32)
  next
    case False
    show ?thesis unfolding all_money_def WithdrawMoney_run [OF Some] if_not_P [OF False] ..
  qed
qed

end
