(* ===== verification/Bank_Progress.thy ===== *)
theory Bank_Progress
  imports Bank_Transfer_Props
begin

text \<open>
  Progress of deposits and withdrawals: a deposit without a target slot empties the player's stack
  whenever the tab has a free slot, and what a deposit message does once its checks have passed.
\<close>

section \<open>A deposit with a free slot at hand banks the whole stack\<close>

definition tab_has_room :: "Bank \<Rightarrow> uint32 \<Rightarrow> bool" where
  "tab_has_room B t \<longleftrightarrow> (\<exists>i \<in> set bank_slots. GetItem B t i = None)"

lemma stacking_keeps_room:
  assumes "deposit_into E t sl p n ITEM_CHANGED stack s = (Some q, s1)" and "tab_has_room (gs_bk s) t"
  shows "tab_has_room (gs_bk s1) t"
proof -
  have "GetItem (gs_bk s1) t i = GetItem (gs_bk s) t i" for i
    using assms(1) by (auto simp: deposit_into_def Let_def GetItem_def intro!: find_cong split: option.splits)
  with assms(2) show ?thesis by (simp add: tab_has_room_def)
qed

lemma room_not_full:
  assumes "tab_has_room B t"
  shows "free_slot_choice E B t it \<noteq> TabFull"
proof
  assume full: "free_slot_choice E B t it = TabFull"
  obtain i where "find (\<lambda>i. GetItem B t i = None) bank_slots = Some i"
    using assms by (cases "find (\<lambda>i. GetItem B t i = None) bank_slots") (auto simp: tab_has_room_def find_None_iff)
  with full show False
    by (auto simp: free_slot_choice_def Let_def partial_stack_def dest: find_Some_in split: option.splits if_splits)
qed

text \<open>What remains for later rounds is exactly the rest of the stack.\<close>

definition whole_rest :: "GState \<Rightarrow> uint32 \<Rightarrow> iptr \<Rightarrow> uint32 \<Rightarrow> uint32 \<Rightarrow> ItemUpdateState \<Rightarrow> bool" where
  "whole_rest s t p n r st \<longleftrightarrow> r = i_count (iheap (gs_pl s) p) - n \<and> (r \<noteq> 0 \<longrightarrow> st = ITEM_CHANGED \<and> tab_has_room (gs_bk s) t)"

lemma bank_count_done: "bank_count (gs_bk (deposit_done E q n s)) = bank_count (gs_bk s)"
  by (rule bank_count_view) (simp add: deposit_done_frame)

lemma deposit_banks_all:
  fixes E :: "'e BankEnv_scheme"
  shows "state_ok E s \<Longrightarrow> bankable_at E (gs_pl s) pb ps p pr \<Longrightarrow> 1 \<le> unat t \<Longrightarrow> unat t \<le> MAX_TABS \<Longrightarrow> tab_has_room (gs_bk s) t \<Longrightarrow>
      bank_count (gs_bk (DepositItemInFreeSlot E t p s)) (pr_ItemId pr) = bank_count (gs_bk s) (pr_ItemId pr) + unat (i_count (iheap (gs_pl s) p))"
    and "state_ok E s \<Longrightarrow> bankable_at E (gs_pl s) pb ps p pr \<Longrightarrow> deposit_args E s t sl p n st stack pr \<Longrightarrow> whole_rest s t p n r st \<Longrightarrow>
      bank_count (gs_bk (DepositItemInSlot E t sl p n r st stack s)) (pr_ItemId pr) =
        bank_count (gs_bk s) (pr_ItemId pr) + unat (i_count (iheap (gs_pl s) p))"
proof (induction E t p s and E t sl p n r st stack s rule: DepositItemInFreeSlot_DepositItemInSlot.induct)
  case (1 E t p s)
  note args = free_choice_args [OF 1(4-7)]
  show ?case
  proof (cases "free_slot_choice E (gs_bk s) t (iheap (gs_pl s) p)")
    case (StackAll i n)
    have "whole_rest s t p n 0 ITEM_CHANGED" using free_choice_cases(1) [OF StackAll] by (auto simp: whole_rest_def)
    from 1(1) [OF StackAll 1(4,5) args(1) [OF StackAll refl] this] show ?thesis
      by (simp add: DepositItemInFreeSlot.simps StackAll)
  next
    case (StackSome i n r)
    have "whole_rest s t p n r ITEM_CHANGED" using free_slot_progress(3) [OF StackSome] 1(8) by (simp add: whole_rest_def)
    from 1(2) [OF StackSome 1(4,5) args(2) [OF StackSome refl] this] show ?thesis
      by (simp add: DepositItemInFreeSlot.simps StackSome)
  next
    case (UseFree i n)
    have "whole_rest s t p n 0 ITEM_NEW" using free_choice_cases(3) [OF UseFree] by (simp add: whole_rest_def)
    from 1(3) [OF UseFree 1(4,5) args(3) [OF UseFree refl] this] show ?thesis
      by (simp add: DepositItemInFreeSlot.simps UseFree)
  next
    case TabFull
    with room_not_full [OF 1(8), of E] show ?thesis by simp
  qed
next
  case (2 E t sl p n r st stack s)
  from deposit_into_gains [OF 2(2-4)] obtain q B where
    into: "deposit_into E t sl p n st stack s = (Some q, s\<lparr>gs_bk := B\<rparr>)" and
    g: "gains E (gs_bk s) B (i_entry (iheap (gs_pl s) p)) (unat n)" by blast
  let ?s1 = "s\<lparr>gs_bk := B\<rparr>"
  note d = bankable_atD [OF 2(3)]
  have n: "unat n \<le> unat (i_count (iheap (gs_pl s) p))" using 2(4) by (simp add: deposit_args_def)
  have B: "bank_count B (pr_ItemId pr) = bank_count (gs_bk s) (pr_ItemId pr) + unat n" using g d(3) by (simp add: gains_def)
  have rest: "r = i_count (iheap (gs_pl s) p) - n" using 2(5) by (simp add: whole_rest_def)
  show ?case
  proof (cases "r = 0")
    case True
    then have "unat n = unat (i_count (iheap (gs_pl s) p))" using rest by (metis right_minus_eq)
    moreover have "bank_count (gs_bk (DepositItemInSlot E t sl p n r st stack s)) = bank_count B"
      by (simp add: DepositItemInSlot.simps [of E t sl p n 0 st stack s] into bank_count_done True)
    ultimately show ?thesis using B by simp
  next
    case False
    let ?s3 = "deposit_take p n ?s1"
    have rem: "removable (gs_pl ?s1) pb ps p" using d(1) by simp
    have c: "conserves E s ?s3"
      using gains_takes_conserves [of E s ?s3] g deposit_take_takes(1) [OF rem, of n] n by simp
    have st: "st = ITEM_CHANGED" "tab_has_room (gs_bk s) t" using False 2(5) by (simp_all add: whole_rest_def)
    have room: "tab_has_room (gs_bk ?s3) t" using stacking_keeps_room [OF into [unfolded st(1)] st(2)] by simp
    have t: "1 \<le> unat t" "unat t \<le> MAX_TABS" using 2(4) by (auto simp: deposit_args_def in_bank_def)
    have "bankable_at E (gs_pl ?s3) pb ps p pr" by (rule bankable_after_take) (use 2(3) n in simp_all)
    from 2(1) [OF into [symmetric] refl False _ this t room] c
    have "bank_count (gs_bk (DepositItemInFreeSlot E t p ?s3)) (pr_ItemId pr) =
        bank_count B (pr_ItemId pr) + unat (i_count (iheap (gs_pl s) p) - n)"
      by (simp add: conserves_def count_deposit_take)
    with False B n show ?thesis
      by (simp add: DepositItemInSlot.simps [of E t sl p n r st stack s] into bank_count_done unat_sub32)
  qed
qed

section \<open>The deposit message past its checks\<close>

text \<open>A message from a member with rights that names a bankable stack and a free slot.\<close>

definition deposit_call :: "'e BankEnv_scheme \<Rightarrow> GState \<Rightarrow> string \<Rightarrow> iptr \<Rightarrow> uint8 \<Rightarrow> uint8 \<Rightarrow> uint8 \<Rightarrow> bool" where
  "deposit_call E s msg p t sl n \<longleftrightarrow>
     (let ps = Tokenizer msg CHR '':''; (b, bs) = deposit_source (atoi (ps ! 1)) (atoi (ps ! 2))
      in length ps = 6 \<and> t = atoi (ps ! 3) \<and> sl = atoi (ps ! 4) \<and> n = atoi (ps ! 5) \<and>
         t \<noteq> 0 \<and> unat t \<le> MAX_TABS \<and> unat sl \<le> BANK_TAB_SIZE \<and>
         CanAccessTab E t ACTION_DEPOSIT_ITEM s = (True, s) \<and> GetItemByPos (gs_pl s) b bs = Some p \<and>
         IsItemBankable E p s = (True, s) \<and> ucast n \<le> GetMaxStackSize (the_proto E (iheap (gs_pl s) p)) \<and>
         (\<exists>pr. bankable_at E (gs_pl s) b bs p pr))"

lemma DepositItem_free_slot:
  assumes "deposit_call E s msg p t sl n" and "sl = 0"
  shows "DepositItem E msg s = DepositItemInFreeSlot E (ucast t) p s"
  using assms by (auto simp: deposit_call_def DepositItem_def Let_def split: prod.splits)

lemma DepositItem_new_slot:
  assumes "deposit_call E s msg p t sl n" and "sl \<noteq> 0" and "GetItem (gs_bk s) (ucast t) (ucast sl) = None"
  shows "DepositItem E msg s = DepositItemInSlot E (ucast t) (ucast sl) p (ucast n) 0 ITEM_NEW False s"
  using assms by (auto simp: deposit_call_def DepositItem_def Let_def split: prod.splits)

end
