(* ===== verification/Bank_Reach.thy ===== *)
theory Bank_Reach
  imports Bank_Progress
begin

text \<open>
  Every state a bank can get into. \<open>bank_run\<close> is the step relation of a running server: any player
  sends any message in any environment, the timer saves the bank, a rank is deleted from the guild. The
  structural invariant of the bank holds in every state it reaches from a bank in order, without any
  assumption on what clients send: wrong counts, swaps and overdrawn deposits included.

  One thing is excluded: the command \<open>UnlockGuildBank\<close> for a bank that has item rows in the database
  already. It loads the items a second time (\<open>unlock_again\<close>).
\<close>

section \<open>Structure, operation by operation\<close>

text \<open>A step keeps a property of states.\<close>

definition keeps :: "(GState \<Rightarrow> bool) \<Rightarrow> GState \<Rightarrow> GState \<Rightarrow> bool" where
  "keeps I s s' \<longleftrightarrow> (I s \<longrightarrow> I s')"

lemma keeps_trans: "keeps I s t \<Longrightarrow> keeps I t u \<Longrightarrow> keeps I s u"
  by (simp add: keeps_def)

lemma keeps_if: "(b \<Longrightarrow> keeps I s x) \<Longrightarrow> (\<not> b \<Longrightarrow> keeps I s y) \<Longrightarrow> keeps I s (if b then x else y)"
  by simp

lemma keeps_opt:
  "(x = None \<Longrightarrow> keeps I s y) \<Longrightarrow> (\<And>p. x = Some p \<Longrightarrow> keeps I s (z p)) \<Longrightarrow> keeps I s (case x of None \<Rightarrow> y | Some p \<Rightarrow> z p)"
  by (simp split: option.split)

lemma keeps_pair: "(\<And>a b. x = (a, b) \<Longrightarrow> keeps I s (f a b)) \<Longrightarrow> keeps I s (case x of (a, b) \<Rightarrow> f a b)"
  by (cases x) simp

lemmas keeps_cases = keeps_if keeps_opt keeps_pair

abbreviation keeps_struct :: "GState \<Rightarrow> GState \<Rightarrow> bool" where
  "keeps_struct \<equiv> keeps (\<lambda>s. bank_struct (gs_bk s))"

lemma keeps_struct_view: "bview (gs_bk s') = bview (gs_bk s) \<Longrightarrow> keeps_struct s s'"
  unfolding keeps_def by (drule bank_struct_view) blast

lemma keeps_struct_same: "gs_bk s' = gs_bk s \<Longrightarrow> keeps_struct s s'"
  by (simp add: keeps_def)

lemma keeps_struct_from: "gs_bk s0 = gs_bk s \<Longrightarrow> keeps_struct s0 s' \<Longrightarrow> keeps_struct s s'"
  by (simp add: keeps_def)

lemma bview_flags [simp]:
  "bview (B\<lparr>b_money_changed := x\<rparr>) = bview B" "bview (B\<lparr>b_tabs_changed := x\<rparr>) = bview B" "bview (B\<lparr>b_money := m\<rparr>) = bview B"
  "bview (B\<lparr>b_money := m, b_money_changed := x\<rparr>) = bview B" "bview (B\<lparr>b_tabs := n\<rparr>) = bview B"
  "bview (B\<lparr>b_tabInfo := i\<rparr>) = bview B" "bview (B\<lparr>b_tabInfo := i, b_tabs_changed := x\<rparr>) = bview B"
  "bview (B\<lparr>b_moneyLog := l\<rparr>) = bview B" "bview (B\<lparr>b_log := l'\<rparr>) = bview B"
  "bview (B\<lparr>b_playerGuid := g, b_playerRankIndex := r\<rparr>) = bview B" "bview (B\<lparr>b_moneyLog_changed := x, b_log_changed := y\<rparr>) = bview B"
  by (simp_all add: bview_def)

subsection \<open>Deposits\<close>

lemma deposit_into_struct:
  assumes "deposit_into E t sl p n st stack s = (r, s1)"
    and "st = ITEM_NEW \<Longrightarrow> in_bank (t, sl) \<and> GetItem (gs_bk s) t sl = None"
  shows "keeps_struct s s1"
proof (cases "st = ITEM_NEW")
  case True
  let ?B = "gs_bk s"
  let ?new = "(new_BankItem E)\<lparr>bi_is_inferno := b_infernoBank ?B, bi_guid := GetNewGuid ?B, bi_guildid := b_guildid ?B,
      bi_count := n, bi_tab := t, bi_slot := sl\<rparr>"
  let ?f = "\<lambda>b. CloneItem_to_bank E (b_infernoBank (snd (balloc ?new ?B))) (iheap (gs_pl s) p) (b\<lparr>bi_state := ITEM_NEW\<rparr>)"
  have "gs_bk s1 = AddItem (b_next ?B) (enqueue (b_next ?B) (upd_bi (b_next ?B) ?f (snd (balloc ?new ?B))))"
    using assms(1) True by (auto simp: deposit_into_def Let_def balloc_def)
  moreover have "place (?f ?new) = (t, sl)" by (simp add: place_def)
  ultimately show ?thesis
    using add_new(1) [of ?B ?f ?new "(t, sl)"] assms(2) [OF True] by (simp add: keeps_def GetItem_None)
next
  case False
  then show ?thesis
    using assms(1) by (auto simp: deposit_into_def Let_def keeps_def place_def bank_struct_upd split: option.splits)
qed

lemma deposit_done_struct: "keeps_struct s (deposit_done E q n s)"
  by (rule keeps_struct_view) (simp add: deposit_done_frame)

lemma deposit_struct:
  fixes E :: "'e BankEnv_scheme"
  shows "1 \<le> unat t \<Longrightarrow> unat t \<le> MAX_TABS \<Longrightarrow> keeps_struct s (DepositItemInFreeSlot E t p s)"
    and "(st = ITEM_NEW \<Longrightarrow> in_bank (t, sl) \<and> GetItem (gs_bk s) t sl = None) \<Longrightarrow> (r \<noteq> 0 \<Longrightarrow> 1 \<le> unat t \<and> unat t \<le> MAX_TABS) \<Longrightarrow>
      keeps_struct s (DepositItemInSlot E t sl p n r st stack s)"
proof (induction E t p s and E t sl p n r st stack s rule: DepositItemInFreeSlot_DepositItemInSlot.induct)
  case (1 E t p s)
  show ?case
  proof (cases "free_slot_choice E (gs_bk s) t (iheap (gs_pl s) p)")
    case (UseFree i n)
    from free_choice_cases(3) [OF this] have "find (\<lambda>i. GetItem (gs_bk s) t i = None) bank_slots = Some i" by simp
    from find_Some_in [OF this] bank_slots_in_bank [OF _ 1(4,5)]
    have "in_bank (t, i) \<and> GetItem (gs_bk s) t i = None" by simp
    with 1(3) [OF UseFree] show ?thesis by (simp add: DepositItemInFreeSlot.simps UseFree)
  next
    case (StackAll i n)
    with 1(1) [OF this] show ?thesis by (simp add: DepositItemInFreeSlot.simps)
  next
    case (StackSome i n r)
    with 1(2) [OF this] 1(4,5) show ?thesis by (simp add: DepositItemInFreeSlot.simps)
  qed (simp add: DepositItemInFreeSlot.simps keeps_struct_view)
next
  case (2 E t sl p n r st stack s)
  obtain q s1 where into: "deposit_into E t sl p n st stack s = (q, s1)" by fastforce
  have s1: "keeps_struct s s1" by (rule deposit_into_struct [OF into 2(2)])
  show ?case
  proof (cases q)
    case None
    with s1 show ?thesis by (simp add: DepositItemInSlot.simps [of E t sl p n r st stack s] into)
  next
    case (Some q')
    define s2 where "s2 = (if r = 0 then deposit_take_last E p n s1 else DepositItemInFreeSlot E t p (deposit_take p n s1))"
    have "keeps_struct s1 s2"
    proof (cases "r = 0")
      case False
      with 2(1) [OF into [symmetric] Some False] 2(3) show ?thesis
        by (auto simp: s2_def intro: keeps_struct_from [of "deposit_take p n s1"])
    qed (simp add: s2_def keeps_struct_view)
    with s1 deposit_done_struct have "keeps_struct s (deposit_done E q' n s2)" by (blast intro: keeps_trans)
    then show ?thesis by (simp add: DepositItemInSlot.simps [of E t sl p n r st stack s] into Some s2_def)
  qed
qed

subsection \<open>Withdrawals and swaps\<close>

lemma bank_after_struct: "bank_struct B \<Longrightarrow> bank_struct (bank_after q r left B)"
  by (simp add: bank_after_def bank_struct_delete bank_struct_upd place_def)

lemma withdraw_struct:
  "keeps_struct s (withdraw_onto E t sl n q p r sw s)" "keeps_struct s (withdraw_new E t sl n dest q r sw s)"
proof -
  have finish: "keeps_struct s (withdraw_finish E t n q s1)" if "gs_bk s1 = gs_bk (withdraw_mark t sl q r left sw u)" "gs_bk u = gs_bk s" for s1 u left
    using bank_struct_view [OF withdraw_bank_view [OF that(1), of E t n]] that(2) by (simp add: keeps_def bank_after_struct)
  show "keeps_struct s (withdraw_onto E t sl n q p r sw s)"
    unfolding withdraw_onto_def Let_def by (rule finish [where u = s]) simp_all
  show "keeps_struct s (withdraw_new E t sl n dest q r sw s)"
  proof -
    have "keeps_struct s (withdraw_finish E t n q (emit e (withdraw_mark t sl q r r sw (s\<lparr>gs_pl := P\<rparr>))))" for e P
      by (rule finish [where left = r and u = "s\<lparr>gs_pl := P\<rparr>"]) simp_all
    then show ?thesis by (auto simp: withdraw_new_def Let_def keeps_struct_view split: option.split prod.split)
  qed
qed

lemma keeps_struct_save: "keeps_struct s t \<Longrightarrow> keeps_struct s (SaveToDB t)"
  by (erule keeps_trans) (simp add: keeps_struct_view)

lemma WithdrawItem_struct: "keeps_struct s (WithdrawItem E t sl n pb ps q pI r sw s)"
  unfolding WithdrawItem_def
  by (auto simp: keeps_struct_view intro!: keeps_struct_save withdraw_struct split: option.split prod.split)

lemma SwapItems_struct: "keeps_struct s (SwapItems E p q s)"
proof -
  let ?b = "b_heap (gs_bk s) q"
  let ?s1 = "s\<lparr>gs_bk := snd (balloc ?b (gs_bk s))\<rparr>"
  have "keeps_struct s ?s1" by (simp add: keeps_def bank_struct_balloc)
  moreover have "keeps_struct ?s1 (DepositItemInSlot E (bi_tab ?b) (bi_slot ?b) p (i_count (iheap (gs_pl ?s1) p)) 0 ITEM_CHANGED False ?s1)"
    by (rule deposit_struct(2)) simp_all
  ultimately show ?thesis
    unfolding SwapItems_def Let_def balloc_def prod.case snd_conv
    by (auto simp: keeps_struct_view intro!: keeps_trans [OF keeps_trans WithdrawItem_struct] split: prod.split)
qed

subsection \<open>Messages\<close>

lemma inside_ok_struct: "inside_ok s s' \<Longrightarrow> keeps_struct s s'"
  by (simp add: inside_ok_def keeps_def)

lemma deposit_onto_struct: "keeps_struct s (deposit_onto E t sl p n q s)"
  unfolding deposit_onto_def Let_def
  by (intro keeps_if WithdrawItem_struct SwapItems_struct deposit_struct(2)) (simp_all add: keeps_struct_view)

text \<open>The slot arguments a deposit message has passed the range check with.\<close>

lemma slot_arg:
  fixes t sl :: uint8
  assumes "\<not> (t = 0 \<or> unat t > MAX_TABS \<or> unat sl > BANK_TAB_SIZE)"
  shows "1 \<le> unat (ucast t :: uint32)" "unat (ucast t :: uint32) \<le> MAX_TABS" "sl \<noteq> 0 \<Longrightarrow> in_bank (ucast t, ucast sl)"
  using assms by (auto simp: in_bank_def Suc_le_eq unat_gt_0)

lemma DepositItem_struct: "keeps_struct s (DepositItem E msg s)"
proof -
  have free: "keeps_struct s (DepositItemInFreeSlot E (ucast t) p s1)" if "\<not> (t = 0 \<or> unat t > MAX_TABS \<or> unat sl > BANK_TAB_SIZE)" "gs_bk s1 = gs_bk s"
    for t sl :: uint8 and p s1
    by (rule keeps_struct_from [OF that(2)], rule deposit_struct(1)) (rule slot_arg [OF that(1)])+
  have new: "keeps_struct s (DepositItemInSlot E (ucast t) (ucast sl) p n 0 ITEM_NEW False s1)"
    if "\<not> (t = 0 \<or> unat t > MAX_TABS \<or> unat sl > BANK_TAB_SIZE)" "gs_bk s1 = gs_bk s" "sl \<noteq> 0" "GetItem (gs_bk s1) (ucast t) (ucast sl) = None"
    for t sl :: uint8 and p n s1
    by (rule keeps_struct_from [OF that(2)], rule deposit_struct(2)) (simp_all add: slot_arg(3) [OF that(1,3)] that(4))
  show ?thesis
    unfolding DepositItem_def Let_def
    by (intro keeps_cases; (rule free new keeps_struct_from [OF _ deposit_onto_struct])?;
        (assumption | rule keeps_struct_same)?; auto dest!: CanAccessTab_frame(2) IsItemBankable_frame(2))
qed

lemma withdraw_to_item_struct: "keeps_struct s (withdraw_to_item E t sl b ps n q p s)"
  unfolding withdraw_to_item_def Let_def
  by (intro keeps_cases; (rule keeps_struct_from [OF _ WithdrawItem_struct] keeps_struct_from [OF _ SwapItems_struct] keeps_struct_same)?;
      auto dest: IsItemBankable_frame(2))

lemma WithdrawItem_msg_struct: "keeps_struct s (WithdrawItem_msg E msg s)"
  unfolding WithdrawItem_msg_def Let_def
  by (intro keeps_cases;
      (rule keeps_struct_from [OF _ WithdrawItem_struct] keeps_struct_from [OF _ withdraw_to_item_struct] keeps_struct_same)?;
      auto dest: CanAccessTab_frame(2))

lemma money_struct:
  "keeps_struct s (DepositMoney E msg s)" "keeps_struct s (WithdrawMoney E msg s)" "keeps_struct s (UnlockTab E msg s)"
  "keeps_struct s (UpdateTab E msg s)" "keeps_struct s (UpdateMinranks rank s)"
proof -
  show "keeps_struct s (DepositMoney E msg s)"
    by (rule keeps_struct_view) (auto simp: DepositMoney_def Let_def split: option.split)
  show "keeps_struct s (WithdrawMoney E msg s)"
    by (rule keeps_struct_view) (auto simp: WithdrawMoney_def CanAccessTab_def Let_def split: option.split)
  show "keeps_struct s (UnlockTab E msg s)"
    by (rule keeps_struct_view) (auto simp: UnlockTab_def unlock_tab_finish_def Let_def)
  show "keeps_struct s (UpdateTab E msg s)"
    by (rule keeps_struct_view) (auto simp: UpdateTab_def Let_def)
  show "keeps_struct s (UpdateMinranks rank s)"
    by (rule keeps_struct_view) (simp add: UpdateMinranks_def Let_def)
qed

lemma AppendLog_view [simp]: "bview (AppendLog E index tab r st B) = bview B"
  by (simp add: AppendLog_def Let_def split: prod.split)

lemma log_rows_view: "bview (load_log_rows E index rs B) = bview B"
  by (induction rs arbitrary: index B) simp_all

lemma tabs_rows_view: "bview (fold load_tabs_row rs B) = bview B"
  by (induction rs arbitrary: B) (simp_all add: load_tabs_row_def bview_def split: prod.split)

lemma exec_other_items:
  "db_items (exec_sql (InsertMoney g i m) db) = db_items db" "db_items (exec_sql (InsertTabs g i n) db) = db_items db"
  by simp_all

lemma UnlockGuildBank_struct:
  assumes "query_items (b_guildid (gs_bk s)) (b_infernoBank (gs_bk s)) (gs_db s) = []"
  shows "keeps_struct s (UnlockGuildBank E msg s)"
proof (rule keeps_struct_view)
  have load: "bview (gs_bk (LoadLog E (LoadBank E s'))) = bview (gs_bk s')"
    if "query_items (b_guildid (gs_bk s')) (b_infernoBank (gs_bk s')) (gs_db s') = []" for s'
    using that by (simp add: LoadLog_def LoadBank_def Let_def log_rows_view tabs_rows_view)
  show "bview (gs_bk (UnlockGuildBank E msg s)) = bview (gs_bk s)"
    using assms by (simp add: UnlockGuildBank_def Let_def load query_items_def)
qed

section \<open>The running server\<close>

lemma run_if_struct: "(\<And>s. keeps_struct s (f s)) \<Longrightarrow> keeps_struct s0 s \<Longrightarrow> keeps_struct s0 (run_if msg cmd f s)"
  by (auto simp: run_if_def intro: keeps_trans)

lemma dispatch_struct: "keeps_struct s (dispatch E msg s)"
  unfolding dispatch_def Let_def DESTROY_ITEM_ALLOWED_def if_False
  by (rule run_if_struct; (rule money_struct DepositItem_struct WithdrawItem_msg_struct inside_ok_struct [OF MoveItem_msg_inside]
        inside_ok_struct [OF SplitItem_inside] | (rule keeps_struct_same, simp; fail))?)+

definition unlock_again :: "string \<Rightarrow> GState \<Rightarrow> bool" where
  "unlock_again msg s \<longleftrightarrow>
     strstr (c_str msg) ''UnlockGuildBank:'' \<and> query_items (b_guildid (gs_bk s)) (b_infernoBank (gs_bk s)) (gs_db s) \<noteq> []"

lemma HandleAddonMessages_struct:
  assumes "\<not> unlock_again msg s"
  shows "keeps_struct s (HandleAddonMessages E msg s)"
proof -
  have set: "keeps_struct s (SetPlayer s)" by (rule keeps_struct_view) (simp add: SetPlayer_def)
  have unlock: "keeps_struct (SetPlayer s) (UnlockGuildBank E msg (SetPlayer s))" if "strstr (c_str msg) ''UnlockGuildBank:''"
    by (rule UnlockGuildBank_struct) (use assms that in \<open>simp add: unlock_again_def SetPlayer_def\<close>)
  show ?thesis
    unfolding HandleAddonMessages_def Let_def
    by (intro keeps_if; (rule set | rule keeps_trans [OF set]); (rule unlock dispatch_struct keeps_struct_same)?; simp)
qed

inductive bank_run :: "GState \<Rightarrow> GState \<Rightarrow> bool" for s0 :: GState where
  start: "bank_run s0 s0"
| message: "bank_run s0 s \<Longrightarrow> \<not> unlock_again msg s \<Longrightarrow> bank_run s0 (HandleAddonMessages (E :: BankEnv) msg (s\<lparr>gs_pl := P\<rparr>))"
| timer: "bank_run s0 s \<Longrightarrow> bank_run s0 (SaveToDB s)"
| rank_deleted: "bank_run s0 s \<Longrightarrow> bank_run s0 (UpdateMinranks rank s)"

lemma bank_run_struct: "bank_run s0 s \<Longrightarrow> bank_struct (gs_bk s0) \<Longrightarrow> bank_struct (gs_bk s)"
proof (induction rule: bank_run.induct)
  case (message s msg E P)
  have "keeps_struct (s\<lparr>gs_pl := P\<rparr>) (HandleAddonMessages E msg (s\<lparr>gs_pl := P\<rparr>))"
    by (rule HandleAddonMessages_struct) (use message(2) in \<open>simp add: unlock_again_def\<close>)
  with message show ?case by (simp add: keeps_def)
next
  case (timer s)
  then show ?case using keeps_struct_save [OF keeps_struct_same [OF refl], of s] by (simp add: keeps_def)
next
  case (rank_deleted s rank)
  then show ?case using money_struct(5) [of s rank] by (simp add: keeps_def)
qed

text \<open>What the invariant gives a reader of the bank: a place names at most one item.\<close>

lemma bank_run_lookup:
  assumes "bank_run s0 s" and "bank_struct (gs_bk s0)"
  shows "GetItem (gs_bk s) t sl = Some q \<longleftrightarrow> q \<in> set (b_items (gs_bk s)) \<and> bi_tab (b_heap (gs_bk s) q) = t \<and> bi_slot (b_heap (gs_bk s) q) = sl"
  using GetItem_iff [OF bank_run_struct [OF assms]] by (simp add: place_def)

end
