(* ===== verification/Bank_Rights.thy ===== *)
theory Bank_Rights
  imports Bank_Money_Props Bank_Reach
begin

text \<open>
  Who may do what: ranks below a tab's minimal rank can change nothing, the weekly limit of the lowest
  admitted rank, the guild master's commands, the vault keeper check and the save lock; and that saving is
  idempotent.
\<close>

section \<open>Ranks\<close>

text \<open>A step without effect: only messages are sent.\<close>

definition no_effect :: "GState \<Rightarrow> GState \<Rightarrow> bool" where
  "no_effect s s' \<longleftrightarrow> gs_pl s' = gs_pl s \<and> gs_bk s' = gs_bk s \<and> gs_db s' = gs_db s"

lemma CanAccessTab_no_effect: "CanAccessTab E t a s = (ok, s') \<Longrightarrow> no_effect s s'"
  by (simp add: no_effect_def CanAccessTab_frame)

lemma no_effect_send [simp]: "no_effect s (send m s') = no_effect s s'" "no_effect s (notify m s') = no_effect s s'" "no_effect s s"
  by (simp_all add: no_effect_def)

definition item_action :: "uint8 \<Rightarrow> bool" where
  "item_action a \<longleftrightarrow> a = ACTION_WITHDRAW_ITEM \<or> a = ACTION_DEPOSIT_ITEM \<or> a = ACTION_MOVE_ITEM \<or> a = ACTION_SPLIT_ITEM \<or> a = ACTION_DESTROY_ITEM"

lemma low_rank_refused:
  assumes "item_action a" and "b_playerRankIndex (gs_bk s) > ucast (bt_minrank (b_tabInfo (gs_bk s) (ucast t)))"
  shows "CanAccessTab E t a s = (False, s)"
  using assms by (auto simp: CanAccessTab_def item_action_def Let_def)

lemma limit_refused:
  assumes "a = ACTION_WITHDRAW_ITEM \<or> a = ACTION_DEPOSIT_ITEM" and "t \<noteq> 0" "unat t \<le> MAX_TABS"
    and "b_playerRankIndex (gs_bk s) = ucast (bt_minrank (b_tabInfo (gs_bk s) (ucast t)))"
    and "bt_withdrawals (b_tabInfo (gs_bk s) (ucast t)) > 0"
    and "unat (bt_withdrawals (b_tabInfo (gs_bk s) (ucast t))) \<le> length (week_withdrawals E (gs_bk s) t)" "length (week_withdrawals E (gs_bk s) t) < 256"
  shows "CanAccessTab E t a s = (False, s)"
proof -
  have "bt_withdrawals (b_tabInfo (gs_bk s) (ucast t)) \<le> of_nat (length (week_withdrawals E (gs_bk s) t))"
    using assms(6,7) by (simp add: word_le_nat_alt unat_of_nat)
  then have "GetTabWithdrawalsLeft E t s = (0, s)" using assms(2,3) by (simp add: GetTabWithdrawalsLeft_def Let_def)
  with assms(1,4,5) show ?thesis by (auto simp: CanAccessTab_def Let_def)
qed

text \<open>The tab a message is about and the action it asks for.\<close>

fun transfer_tab :: "transfer \<Rightarrow> uint8" where
  "transfer_tab (Deposit msg) = atoi (Tokenizer msg CHR '':'' ! 3)"
| "transfer_tab (Withdraw msg) = ucast (atoi (Tokenizer msg CHR '':'' ! 1) :: uint32)"
| "transfer_tab (Move msg) = atoi (Tokenizer msg CHR '':'' ! 1)"
| "transfer_tab (Split msg) = atoi (Tokenizer msg CHR '':'' ! 1)"

fun transfer_action :: "transfer \<Rightarrow> uint8" where
  "transfer_action (Deposit msg) = ACTION_DEPOSIT_ITEM"
| "transfer_action (Withdraw msg) = ACTION_WITHDRAW_ITEM"
| "transfer_action (Move msg) = ACTION_MOVE_ITEM"
| "transfer_action (Split msg) = ACTION_SPLIT_ITEM"

lemma refused_no_effect:
  assumes "CanAccessTab E (transfer_tab m) (transfer_action m) s = (False, s)"
  shows "no_effect s (handle_transfer E m s)"
  using assms by (cases m) (simp_all add: DepositItem_def WithdrawItem_msg_def MoveItem_msg_def SplitItem_def Let_def)

section \<open>Withdrawals are counted\<close>

text \<open>Time stamps are the server's clock in 32 bits; within this range it is not cut off.\<close>

lemma week_log_grows:
  assumes "1 \<le> unat t" "unat t \<le> MAX_TABS" and "0 \<le> be_now E" "be_now E < 4294967296" and "week_start E \<le> be_now E"
  shows "length (week_withdrawals E (gs_bk (LogAction E ACTION_WITHDRAW_ITEM t i n b s)) (ucast t)) =
    Suc (length (week_withdrawals E (gs_bk s) (ucast t)))"
proof -
  have t: "ucast (ucast t :: uint8) = t" using assms(2) by (simp add: word_unat_eq_iff ucast_32_8_id)
  have ne: "t \<noteq> 0" using assms(1) by auto
  have stamp: "uint (stamp_now E) = be_now E" using assms(3,4) by (simp add: stamp_now_def uint_word_of_int)
  show ?thesis
    using assms(2,5) ne by (simp add: LogAction_def Let_def week_withdrawals_def t log_item_entry_def stamp)
qed

section \<open>The guild master\<close>

definition money_sum_change :: "GState \<Rightarrow> GState \<Rightarrow> uint32 \<Rightarrow> bool" where
  "money_sum_change s s' cost \<longleftrightarrow> all_money s' + unat cost = all_money s"

lemma all_money_view:
  "pl_money (gs_pl s') = pl_money (gs_pl s) \<Longrightarrow> b_money (gs_bk s') = b_money (gs_bk s) \<Longrightarrow> all_money s' = all_money s"
  by (simp add: all_money_def)

lemma unlock_tab_finish_frame [simp]:
  "gs_pl (unlock_tab_finish E tab cost a s) = gs_pl s" "b_money (gs_bk (unlock_tab_finish E tab cost a s)) = b_money (gs_bk s)"
  "b_tabs (gs_bk (unlock_tab_finish E tab cost a s)) = ucast tab"
  by (simp_all add: unlock_tab_finish_def Let_def bidD(5) [OF SaveToDB_bk(2)] bidD(5) [OF LogAction_frame(10)])

lemma UnlockTab_paid:
  assumes args: "Tokenizer msg CHR '':'' = [cmd, t, src]" and gm: "b_playerRankIndex (gs_bk s) = 0" and hook: "no_hook E"
    and cap: "unat (pl_money (gs_pl s)) \<le> 2147483646" and t: "2 \<le> unat (atoi t :: uint8)" "unat (atoi t :: uint8) \<le> MAX_TABS"
    and enough: "unat (tab_cost (atoi t)) \<le> unat (if atoi src = (0 :: uint8) then b_money (gs_bk s) else pl_money (gs_pl s))"
  shows "money_sum_change s (UnlockTab E msg s) (tab_cost (atoi t)) \<and> b_tabs (gs_bk (UnlockTab E msg s)) = ucast (atoi t :: uint8)"
proof -
  define T where "T = (atoi t :: uint8)"
  have range: "\<not> (T \<le> 1 \<or> unat T > MAX_TABS)" using t by (simp add: T_def word_le_nat_alt)
  have "unat T = 2 \<or> unat T = 3 \<or> unat T = 4 \<or> unat T = 5" using t unfolding T_def by linarith
  then have "T = 2 \<or> T = 3 \<or> T = 4 \<or> T = 5" by (simp add: word_unat_eq_iff)
  then have cost: "tab_cost T \<noteq> 0" by (auto simp: tab_cost_def)
  show ?thesis
  proof (cases "atoi src = (0 :: uint8)")
    case True
    then have le: "unat (tab_cost T) \<le> unat (b_money (gs_bk s))" using enough by (simp add: T_def)
    then have "UnlockTab E msg s = unlock_tab_finish E T (tab_cost T) ACTION_UNLOCK_TAB_GUILD_MONEY
        (bank (\<lambda>B. B\<lparr>b_money := b_money B - tab_cost T, b_money_changed := True\<rparr>) s)"
      using True gm range cost by (simp add: UnlockTab_def args Let_def T_def [symmetric] word_nat)
    with le show ?thesis by (simp add: money_sum_change_def all_money_def T_def [symmetric] unat_sub32)
  next
    case False
    then have le: "unat (tab_cost T) \<le> unat (pl_money (gs_pl s))" using enough by (simp add: T_def)
    then have "UnlockTab E msg s = unlock_tab_finish E T (tab_cost T) ACTION_UNLOCK_TAB_PERSONAL_MONEY (player (ModifyMoney E (- tab_cost T)) s)"
      using False gm range cost by (simp add: UnlockTab_def args Let_def T_def [symmetric] word_nat)
    with le pay [OF hook cap le] show ?thesis by (simp add: money_sum_change_def all_money_def T_def [symmetric])
  qed
qed

lemma not_gm_no_effect:
  assumes "b_playerRankIndex (gs_bk s) \<noteq> 0"
  shows "no_effect s (UnlockGuildBank E msg s)" "no_effect s (UnlockTab E msg s)" "no_effect s (UpdateTab E msg s)"
  using assms by (simp_all add: UnlockGuildBank_def UnlockTab_def UpdateTab_def)

section \<open>Withdrawing what a purse cannot hold\<close>

lemma WithdrawMoney_capped:
  assumes args: "parse_money msg = Some m" and hook: "no_hook E" and rank: "b_playerRankIndex (gs_bk s) \<le> 1" and le: "m \<le> b_money (gs_bk s)"
    and cap: "unat (pl_money (gs_pl s)) \<le> 2147483646" and m: "unat m \<le> 2147483646" and over: "2147483646 < unat (pl_money (gs_pl s)) + unat m"
  shows "unat (pl_money (gs_pl (WithdrawMoney E msg s))) = 2147483646" and "unat (b_money (gs_bk (WithdrawMoney E msg s))) = unat (b_money (gs_bk s)) - unat m"
proof -
  have h: "e_moneyhook E m = m" using hook by (simp only: no_hook_def)
  have "unat m < 2147483648" using m by linarith
  then have n: "sint m = int (unat m)" unfolding sint_as_unat by (rule if_P)
  have le': "2147483646 \<le> int (unat (pl_money (gs_pl s))) + sint m" and "sint m \<le> 2147483646" using over m n by linarith+
  from ModifyMoney_sum [OF h cap this(2)] have "int (unat (pl_money (ModifyMoney E m (gs_pl s)))) = 2147483646"
    unfolding min.absorb1 [OF le'] by simp
  then have "unat (pl_money (ModifyMoney E m (gs_pl s))) = 2147483646" by linarith
  then show "unat (pl_money (gs_pl (WithdrawMoney E msg s))) = 2147483646"
    using rank le by (simp add: WithdrawMoney_run [OF args])
  show "unat (b_money (gs_bk (WithdrawMoney E msg s))) = unat (b_money (gs_bk s)) - unat m"
    using rank le by (simp add: WithdrawMoney_run [OF args] unat_sub32 word_nat)
qed

section \<open>The entry point\<close>

lemma HandleAddonMessages_away: "\<not> canUseGuildBank E \<Longrightarrow> HandleAddonMessages E msg s = SetPlayer s"
  by (simp add: HandleAddonMessages_def)

lemma HandleAddonMessages_locked:
  "b_saveLock (gs_bk s) \<Longrightarrow> canUseGuildBank E \<Longrightarrow> HandleAddonMessages E msg s = send ''ActionBlockedBySaveLock'' (SetPlayer s)"
  by (simp add: HandleAddonMessages_def SetPlayer_def)

section \<open>Saving twice\<close>

lemma SaveToDB_settles: "\<not> b_saveLock (gs_bk s) \<Longrightarrow> nothing_to_save (gs_bk (SaveToDB s))"
  by (auto simp: SaveToDB_def nothing_to_save_def save_steps_bk settle_items_def)

lemma SaveToDB_again: "SaveToDB (SaveToDB s) = SaveToDB s"
proof (cases "b_saveLock (gs_bk s)")
  case False
  then have "nothing_to_save (gs_bk (SaveToDB s))" by (rule SaveToDB_settles)
  then show ?thesis by (simp add: SaveToDB_def [of "SaveToDB s"])
qed (simp add: SaveToDB_def)

text \<open>The money row of the bank holds the bank's money after a save of changed money.\<close>

lemma fold_log_money:
  "db_money (gs_db (fold (\<lambda>l. if bl_state l = ITEM_NEW then sql (InsertLog (f l)) else id) xs s)) = db_money (gs_db s)"
  "db_money (gs_db (fold (\<lambda>l. if ml_state l = ITEM_NEW then sql (InsertLog (h l)) else id) ys s)) = db_money (gs_db s)"
  by (induction xs arbitrary: s, simp_all) (induction ys arbitrary: s, simp_all)

lemma save_items_money: "db_money (gs_db (save_items s)) = db_money (gs_db s)"
proof -
  have "db_money (gs_db (fold save_item bs s)) = db_money (gs_db s)" for bs
  proof (induction bs arbitrary: s)
    case (Cons b bs)
    have "db_money (gs_db (save_item b s)) = db_money (gs_db s)"
      by (simp add: save_item_def BankItem_AddToDB_def BankItem_SaveToDB_def BankItem_DeleteFromDB_def split: ItemUpdateState.split)
    with Cons show ?case by simp
  qed simp
  then show ?thesis by (simp add: save_items_def)
qed

lemma SaveToDB_money:
  assumes "\<not> b_saveLock (gs_bk s)" and "b_money_changed (gs_bk s)" and "int_fits (b_money (gs_bk s))"
  shows "db_money (gs_db (SaveToDB s)) =
    map (\<lambda>r. if mr_guildid r = b_guildid (gs_bk s) \<and> mr_isInferno r = b_infernoBank (gs_bk s) then r\<lparr>mr_money := b_money (gs_bk s)\<rparr> else r)
      (db_money (gs_db s))"
proof -
  have "\<not> nothing_to_save (gs_bk s)" using assms(2) by (simp add: nothing_to_save_def)
  moreover have "db_money (gs_db (save_tabs u)) = db_money (gs_db u)" "db_money (gs_db (save_money_log u)) = db_money (gs_db u)"
    "db_money (gs_db (save_log u)) = db_money (gs_db u)" for u
    by (simp_all add: save_tabs_def save_money_log_def save_log_def fold_log_money)
  ultimately show ?thesis
    using assms by (simp add: SaveToDB_def save_items_money save_money_def)
qed

end
