(* ===== verification/Bank_Table.thy ===== *)
theory Bank_Table
  imports Bank_Reach
begin

text \<open>
  The item table of the database as a map from guids to rows, and what replaying the bank's queue of
  changed items does to it. The three statements of a bank item (insert, update, delete) are the
  operations of the interface \<open>item_table\<close>; the model of the table interprets it.
\<close>

section \<open>Replaying a queue\<close>

text \<open>A queue replays on a table when every new item is new there and every changed item is there.\<close>

fun replay1 :: "BankItem \<Rightarrow> (uint32 \<rightharpoonup> ItemRow) \<Rightarrow> (uint32 \<rightharpoonup> ItemRow) option" where
  "replay1 b m =
     (case bi_state b of
        ITEM_NEW \<Rightarrow> if m (bi_guid b) = None then Some (m(bi_guid b \<mapsto> item_row b)) else None
      | ITEM_CHANGED \<Rightarrow> if m (bi_guid b) = None then None else Some (m(bi_guid b \<mapsto> item_row b))
      | ITEM_REMOVED \<Rightarrow> Some (m(bi_guid b := None))
      | _ \<Rightarrow> Some m)"

fun replay :: "BankItem list \<Rightarrow> (uint32 \<rightharpoonup> ItemRow) \<Rightarrow> (uint32 \<rightharpoonup> ItemRow) option" where
  "replay [] m = Some m"
| "replay (b # bs) m = Option.bind (replay1 b m) (replay bs)"

declare replay1.simps [simp del]

lemma replay_append: "replay (bs @ cs) m = Option.bind (replay bs m) (replay cs)"
proof (induction bs arbitrary: m)
  case (Cons b bs)
  then show ?case by (cases "replay1 b m") simp_all
qed simp

lemma item_row_ids [simp]: "ir_guildid (item_row b) = bi_guildid b" "ir_isInferno (item_row b) = bi_is_inferno b" "ir_guid (item_row b) = bi_guid b"
  by (simp_all add: item_row_def)

lemma int_fits_nat: "int_fits x \<longleftrightarrow> unat x < 2 ^ 31"
  by (simp add: int_fits_def word_less_nat_alt)

lemma row_fits_item:
  "row_fits (item_row b) \<longleftrightarrow> int_fits (bi_guid b) \<and> unat (bi_slot b) < 2 ^ 8 \<and> int_fits (bi_duration b) \<and>
     unat (bi_randomPropertyId b) < 2 ^ 15 \<and> unat (bi_generated_loot b) < 2 ^ 7 \<and>
     length (bi_charges b) < 2 ^ 8 \<and> length (bi_enchantments b) < 2 ^ 16"
  by (simp add: row_fits_def item_row_def word_less_nat_alt)

text \<open>An item carries the guild and the game mode of its bank, and its values fit the columns.\<close>

definition of_bank :: "uint32 \<Rightarrow> bool \<Rightarrow> BankItem \<Rightarrow> bool" where
  "of_bank g i b \<longleftrightarrow> bi_guildid b = g \<and> bi_is_inferno b = i \<and> row_fits (item_row b)"

text \<open>The statement that saving an item issues.\<close>

definition save_stmt :: "(sqlstmt \<Rightarrow> 'd \<Rightarrow> 'd) \<Rightarrow> BankItem \<Rightarrow> 'd \<Rightarrow> 'd" where
  "save_stmt exec b =
     (case bi_state b of
        ITEM_NEW \<Rightarrow> exec (BankItem_AddToDB b)
      | ITEM_CHANGED \<Rightarrow> exec (BankItem_SaveToDB b)
      | ITEM_REMOVED \<Rightarrow> exec (BankItem_DeleteFromDB b)
      | _ \<Rightarrow> id)"

section \<open>Interface: a table of item rows\<close>

locale item_table =
  fixes exec :: "sqlstmt \<Rightarrow> 'd \<Rightarrow> 'd" and row :: "'d \<Rightarrow> uint32 \<rightharpoonup> ItemRow" and ok :: "'d \<Rightarrow> bool" and g :: uint32 and i :: bool
  assumes insert_ok: "ok d \<Longrightarrow> ir_guildid r = g \<Longrightarrow> ir_isInferno r = i \<Longrightarrow> row_fits r \<Longrightarrow> row d (ir_guid r) = None \<Longrightarrow> ok (exec (InsertItem r) d)"
    and insert_row: "ok d \<Longrightarrow> ir_guildid r = g \<Longrightarrow> ir_isInferno r = i \<Longrightarrow> row_fits r \<Longrightarrow> row d (ir_guid r) = None \<Longrightarrow>
      row (exec (InsertItem r) d) = (row d)(ir_guid r \<mapsto> r)"
    and update_ok: "ok d \<Longrightarrow> ir_guildid r = g \<Longrightarrow> ir_isInferno r = i \<Longrightarrow> row_fits r \<Longrightarrow> row d (ir_guid r) \<noteq> None \<Longrightarrow> ok (exec (UpdateItem r) d)"
    and update_row: "ok d \<Longrightarrow> ir_guildid r = g \<Longrightarrow> ir_isInferno r = i \<Longrightarrow> row_fits r \<Longrightarrow> row d (ir_guid r) \<noteq> None \<Longrightarrow>
      row (exec (UpdateItem r) d) = (row d)(ir_guid r \<mapsto> r)"
    and delete_ok: "ok d \<Longrightarrow> ok (exec (DeleteItemRow g guid i) d)"
    and delete_row: "ok d \<Longrightarrow> row (exec (DeleteItemRow g guid i) d) = (row d)(guid := None)"
begin

lemma save_one:
  assumes "ok d" and "of_bank g i b" and "replay1 b (row d) = Some m"
  shows "ok (save_stmt exec b d) \<and> row (save_stmt exec b d) = m"
proof -
  have r: "ir_guildid (item_row b) = g" "ir_isInferno (item_row b) = i" "row_fits (item_row b)" "ir_guid (item_row b) = bi_guid b"
    using assms(2) by (simp_all add: of_bank_def)
  show ?thesis
    using assms(1,3) insert_ok [OF assms(1) r(1-3)] insert_row [OF assms(1) r(1-3)] update_ok [OF assms(1) r(1-3)]
      update_row [OF assms(1) r(1-3)] delete_ok delete_row assms(2)
    by (auto simp: replay1.simps save_stmt_def BankItem_AddToDB_def BankItem_SaveToDB_def BankItem_DeleteFromDB_def r of_bank_def
        split: ItemUpdateState.splits if_splits)
qed

text \<open>Saving a queue that replays gives the replayed table.\<close>

lemma save_queue:
  "ok d \<Longrightarrow> \<forall>b \<in> set bs. of_bank g i b \<Longrightarrow> replay bs (row d) = Some m \<Longrightarrow>
   ok (fold (save_stmt exec) bs d) \<and> row (fold (save_stmt exec) bs d) = m"
proof (induction bs arbitrary: d)
  case (Cons b bs)
  from Cons.prems(3) obtain m1 where m1: "replay1 b (row d) = Some m1" "replay bs m1 = Some m"
    by (auto split: bind_splits)
  from save_one [OF Cons.prems(1) _ m1(1)] Cons.prems(2)
  have "ok (save_stmt exec b d)" "row (save_stmt exec b d) = m1" by simp_all
  with Cons.IH [of "save_stmt exec b d"] Cons.prems(2) m1(2) show ?case by simp
qed simp

end

section \<open>The table of the model\<close>

definition item_at :: "uint32 \<Rightarrow> bool \<Rightarrow> Db \<Rightarrow> uint32 \<rightharpoonup> ItemRow" where
  "item_at g i db guid = find (\<lambda>r. ir_guildid r = g \<and> ir_isInferno r = i \<and> ir_guid r = guid) (db_items db)"

text \<open>The unique key of the table.\<close>

definition row_key :: "ItemRow \<Rightarrow> uint32 \<times> uint32 \<times> bool" where
  "row_key r = (ir_guildid r, ir_guid r, ir_isInferno r)"

definition keys_ok :: "Db \<Rightarrow> bool" where
  "keys_ok db \<longleftrightarrow> distinct (map row_key (db_items db))"

text \<open>The guild has item rows of one game mode only. The \<open>UPDATE\<close> of an item does not look at that column, so saving is
  right only for such guilds (see \<open>other_mode_update_lost\<close> in Props_Bank_Items).\<close>

definition one_mode :: "uint32 \<Rightarrow> bool \<Rightarrow> Db \<Rightarrow> bool" where
  "one_mode g i db \<longleftrightarrow> (\<forall>r \<in> set (db_items db). ir_guildid r = g \<longrightarrow> ir_isInferno r = i)"

definition table_ok :: "uint32 \<Rightarrow> bool \<Rightarrow> Db \<Rightarrow> bool" where
  "table_ok g i db \<longleftrightarrow> keys_ok db \<and> one_mode g i db"

lemmas table_ok_defs = table_ok_def keys_ok_def one_mode_def

lemma item_at_Some_in: "item_at g i db guid = Some r \<Longrightarrow> r \<in> set (db_items db) \<and> row_key r = (g, guid, i)"
  by (auto simp: item_at_def row_key_def dest!: find_Some_in)

lemma item_at_None_iff: "item_at g i db guid = None \<longleftrightarrow> (\<forall>r \<in> set (db_items db). row_key r \<noteq> (g, guid, i))"
  by (auto simp: item_at_def find_None_all row_key_def)

lemma distinct_key_eq: "distinct (map f xs) \<Longrightarrow> x \<in> set xs \<Longrightarrow> y \<in> set xs \<Longrightarrow> f x = f y \<Longrightarrow> x = y"
  by (auto simp: distinct_map dest: inj_onD)

lemma item_at_eq:
  assumes "table_ok g i db" and "r \<in> set (db_items db)" and "row_key r = (g, guid, i)"
  shows "item_at g i db guid = Some r"
proof (cases "item_at g i db guid")
  case None
  with assms(2,3) show ?thesis by (auto simp: item_at_None_iff)
next
  case (Some x)
  have "x = r"
    by (rule distinct_key_eq [of row_key "db_items db"]) (use assms item_at_Some_in [OF Some] in \<open>auto simp: table_ok_defs\<close>)
  with Some show ?thesis by simp
qed

lemma filter_single:
  assumes "distinct xs" and "x \<in> set xs" and "P x" and only: "\<And>y. y \<in> set xs \<Longrightarrow> P y \<Longrightarrow> y = x"
  shows "filter P xs = [x]"
proof -
  from assms(2) obtain us vs where xs: "xs = us @ x # vs" by (auto dest: split_list)
  then have "x \<notin> set us \<union> set vs" using assms(1) by simp
  then have "\<not> P y" if "y \<in> set us \<union> set vs" for y using only [of y] that by (auto simp: xs)
  then have "filter P us = []" "filter P vs = []" by (auto simp: filter_empty_conv)
  with assms(3) show ?thesis by (simp add: xs)
qed

text \<open>Two tables in order with the same rows of the bank have the same map.\<close>

lemma item_at_ext:
  assumes "table_ok g i db" and "\<And>guid r. m guid = Some r \<longleftrightarrow> r \<in> set (db_items db) \<and> row_key r = (g, guid, i)"
  shows "item_at g i db = m"
proof
  fix guid
  show "item_at g i db guid = m guid"
  proof (cases "m guid")
    case None
    then have "\<nexists>r. r \<in> set (db_items db) \<and> row_key r = (g, guid, i)" using assms(2) by (metis option.distinct(1))
    with None show ?thesis by (auto simp: item_at_None_iff)
  next
    case (Some r)
    with assms(2) have "r \<in> set (db_items db)" "row_key r = (g, guid, i)" by blast+
    from item_at_eq [OF assms(1) this] Some show ?thesis by simp
  qed
qed

lemma item_at_iff: "table_ok g i db \<Longrightarrow> item_at g i db guid = Some r \<longleftrightarrow> r \<in> set (db_items db) \<and> row_key r = (g, guid, i)"
  using item_at_eq item_at_Some_in by metis

lemma insert_item:
  assumes ok: "table_ok g i db" and r: "ir_guildid r = g" "ir_isInferno r = i" and fits: "row_fits r" and new: "item_at g i db (ir_guid r) = None"
  shows "table_ok g i (exec_sql (InsertItem r) db)" "item_at g i (exec_sql (InsertItem r) db) = (item_at g i db)(ir_guid r \<mapsto> r)"
proof -
  have free: "\<forall>x \<in> set (db_items db). row_key x \<noteq> row_key r"
    using new r by (auto simp: item_at_None_iff row_key_def)
  then have "\<not> list_ex (same_key r) (db_items db)"
    unfolding list_ex_iff same_key_def same_item_def row_key_def prod.inject by blast
  then have run: "exec_sql (InsertItem r) db = db\<lparr>db_items := db_items db @ [r]\<rparr>" using fits by simp
  show ok': "table_ok g i (exec_sql (InsertItem r) db)"
    using ok free r unfolding run table_ok_defs by (auto simp: image_iff)
  show "item_at g i (exec_sql (InsertItem r) db) = (item_at g i db)(ir_guid r \<mapsto> r)"
    proof (rule item_at_ext [OF ok'])
    fix guid y
    show "((item_at g i db)(ir_guid r \<mapsto> r)) guid = Some y \<longleftrightarrow>
        y \<in> set (db_items (exec_sql (InsertItem r) db)) \<and> row_key y = (g, guid, i)"
      unfolding run using free r by (auto simp: item_at_iff [OF ok] row_key_def)
  qed
qed

lemma update_item:
  assumes ok: "table_ok g i db" and r: "ir_guildid r = g" "ir_isInferno r = i" and fits: "row_fits r" and old: "item_at g i db (ir_guid r) \<noteq> None"
  shows "table_ok g i (exec_sql (UpdateItem r) db)" "item_at g i (exec_sql (UpdateItem r) db) = (item_at g i db)(ir_guid r \<mapsto> r)"
proof -
  let ?f = "\<lambda>x. if same_item r x then r else x"
  from old obtain x where x: "item_at g i db (ir_guid r) = Some x" by blast
  have same: "same_item r y \<longleftrightarrow> row_key y = row_key r" if "y \<in> set (db_items db)" for y
    using ok that r by (auto simp: same_item_def row_key_def table_ok_defs)
  have keys: "map row_key (map ?f (db_items db)) = map row_key (db_items db)" using same by simp
  have one: "filter (same_item r) (db_items db) = [x]"
  proof (rule filter_single)
    show "distinct (db_items db)" using ok by (simp add: table_ok_defs distinct_map)
    show "x \<in> set (db_items db)" "same_item r x" using item_at_Some_in [OF x] r by (auto simp: same_item_def row_key_def)
    fix y assume "y \<in> set (db_items db)" "same_item r y"
    then show "y = x"
      using same [of y] item_at_Some_in [OF x] r ok distinct_key_eq [of row_key "db_items db" y x] by (auto simp: table_ok_defs row_key_def)
  qed
  have run: "exec_sql (UpdateItem r) db = db\<lparr>db_items := map ?f (db_items db)\<rparr>" by (simp add: one fits)
  show ok': "table_ok g i (exec_sql (UpdateItem r) db)"
    using ok r keys unfolding run table_ok_defs by (auto simp del: map_map)
  have mem: "x \<in> set (db_items db)" "same_item r x"
    using item_at_Some_in [OF x] r by (auto simp: same_item_def row_key_def)
  show "item_at g i (exec_sql (UpdateItem r) db) = (item_at g i db)(ir_guid r \<mapsto> r)"
  proof (rule item_at_ext [OF ok'])
    fix guid y
    have "y \<in> set (map ?f (db_items db)) \<longleftrightarrow> y = r \<or> y \<in> set (db_items db) \<and> row_key y \<noteq> row_key r"
      using mem same by (auto simp: image_iff)
    then show "((item_at g i db)(ir_guid r \<mapsto> r)) guid = Some y \<longleftrightarrow>
        y \<in> set (db_items (exec_sql (UpdateItem r) db)) \<and> row_key y = (g, guid, i)"
      using r unfolding run by (auto simp: item_at_iff [OF ok] row_key_def)
  qed
qed

lemma delete_item:
  assumes ok: "table_ok g i db"
  shows "table_ok g i (exec_sql (DeleteItemRow g guid i) db)" "item_at g i (exec_sql (DeleteItemRow g guid i) db) = (item_at g i db)(guid := None)"
proof -
  show ok': "table_ok g i (exec_sql (DeleteItemRow g guid i) db)"
    using ok by (auto simp: table_ok_defs distinct_map_filter)
  show "item_at g i (exec_sql (DeleteItemRow g guid i) db) = (item_at g i db)(guid := None)"
    by (rule item_at_ext [OF ok']) (auto simp: item_at_iff [OF ok] row_key_def split: if_splits)
qed

interpretation tab: item_table exec_sql "item_at g i" "table_ok g i" g i for g i
  by unfold_locales (simp_all add: insert_item update_item delete_item del: exec_sql.simps)

end
