(* ===== verification/Bank_Sync.thy ===== *)
theory Bank_Sync
  imports Bank_Table
begin

text \<open>
  The bank in memory and its rows in the database. The bank writes nothing when it changes an item; it
  queues a copy and writes the queue later. \<open>synced\<close> is the simulation relation between the two
  sides: replaying the queue on the item table gives exactly the rows of the items in memory. Deposits,
  withdrawals, moves and splits keep it, saving empties the queue, so after saving the table holds
  exactly the items of the bank.
\<close>

section \<open>The relation\<close>

definition mem_rows :: "Bank \<Rightarrow> uint32 \<rightharpoonup> ItemRow" where
  "mem_rows B guid = map_option (\<lambda>q. item_row (b_heap B q)) (find (\<lambda>q. bi_guid (b_heap B q) = guid) (b_items B))"

text \<open>The items of a bank are savable, and no guid is there twice.\<close>

definition guids_ok :: "Bank \<Rightarrow> bool" where
  "guids_ok B \<longleftrightarrow> inj_on (\<lambda>q. bi_guid (b_heap B q)) (set (b_items B)) \<and>
     (\<forall>q \<in> set (b_items B). of_bank (b_guildid B) (b_infernoBank B) (b_heap B q)) \<and>
     (\<forall>b \<in> set (b_itemUpdateQueue B). of_bank (b_guildid B) (b_infernoBank B) b)"

text \<open>\<open>in_step\<close> is the relation between memory and table; \<open>synced\<close> adds the condition under which saving keeps it, that the guild
  has rows of one game mode only.\<close>

definition in_step :: "Db \<Rightarrow> Bank \<Rightarrow> bool" where
  "in_step db B \<longleftrightarrow> guids_ok B \<and> keys_ok db \<and>
     replay (b_itemUpdateQueue B) (item_at (b_guildid B) (b_infernoBank B) db) = Some (mem_rows B)"

definition synced :: "Db \<Rightarrow> Bank \<Rightarrow> bool" where
  "synced db B \<longleftrightarrow> in_step db B \<and> one_mode (b_guildid B) (b_infernoBank B) db"

lemma synced_alt:
  "synced db B \<longleftrightarrow> guids_ok B \<and> table_ok (b_guildid B) (b_infernoBank B) db \<and>
     replay (b_itemUpdateQueue B) (item_at (b_guildid B) (b_infernoBank B) db) = Some (mem_rows B)"
  by (auto simp: synced_def in_step_def table_ok_def)

text \<open>There is a guid left for one more item; the column of the guids is a signed one.\<close>

definition guid_room :: "Bank \<Rightarrow> bool" where
  "guid_room B \<longleftrightarrow> (\<forall>q \<in> set (b_items B). unat (bi_guid (b_heap B q)) + 1 < 2 ^ 31)"

section \<open>New guids are new\<close>

lemma foldl_max:
  fixes f :: "'a \<Rightarrow> uint32"
  shows "a \<le> foldl (\<lambda>g q. if f q > g then f q else g) a qs \<and> (\<forall>q \<in> set qs. f q \<le> foldl (\<lambda>g q. if f q > g then f q else g) a qs) \<and>
    foldl (\<lambda>g q. if f q > g then f q else g) a qs \<in> insert a (f ` set qs)"
proof (induction qs arbitrary: a)
  case (Cons q qs)
  from Cons.IH [of "if f q > a then f q else a"] show ?case by (auto split: if_splits)
qed simp

lemma max_guid_fresh:
  fixes m x :: uint32
  assumes "x \<le> m" and "m \<noteq> 0xFFFFFFFF"
  shows "x \<noteq> m + 1"
proof -
  have "unat m \<noteq> 4294967295" using assms(2) by (simp add: word_unat_eq_iff)
  then have "unat (m + 1) = unat m + 1" using unat32_lt [of m] by (intro trans [OF unat_add32]) simp_all
  with assms(1) show ?thesis by (auto simp: word_nat)
qed

lemma GetNewGuid_fresh:
  assumes "guid_room B" and "q \<in> set (b_items B)"
  shows "bi_guid (b_heap B q) \<noteq> GetNewGuid B"
proof -
  let ?m = "foldl (\<lambda>g q. if bi_guid (b_heap B q) > g then bi_guid (b_heap B q) else g) 0 (b_items B)"
  note m = foldl_max [where f = "\<lambda>q. bi_guid (b_heap B q)" and a = 0 and qs = "b_items B"]
  from m have "?m = 0 \<or> (\<exists>q \<in> set (b_items B). ?m = bi_guid (b_heap B q))" by blast
  with assms(1) have "unat ?m + 1 < 2 ^ 31" by (auto simp: guid_room_def)
  then have "?m \<noteq> 0xFFFFFFFF" by (auto simp: word_unat_eq_iff)
  moreover have "bi_guid (b_heap B q) \<le> ?m" using m assms(2) by blast
  ultimately show ?thesis unfolding GetNewGuid_def by (intro max_guid_fresh)
qed

lemma GetNewGuid_fits:
  assumes "guid_room B"
  shows "int_fits (GetNewGuid B)"
proof -
  let ?m = "foldl (\<lambda>g q. if bi_guid (b_heap B q) > g then bi_guid (b_heap B q) else g) 0 (b_items B)"
  have "?m = 0 \<or> (\<exists>q \<in> set (b_items B). ?m = bi_guid (b_heap B q))"
    using foldl_max [where f = "\<lambda>q. bi_guid (b_heap B q)" and a = 0 and qs = "b_items B"] by blast
  then have m: "unat ?m + 1 < 2 ^ 31" using assms by (auto simp: guid_room_def)
  then have "unat (?m + 1) = unat ?m + 1" by (intro trans [OF unat_add32]) simp_all
  then show ?thesis using m by (simp add: GetNewGuid_def int_fits_nat)
qed

section \<open>Rows in memory under the primitive steps\<close>

lemma mem_rows_iff:
  assumes "inj_on (\<lambda>q. bi_guid (b_heap B q)) (set (b_items B))"
  shows "mem_rows B guid = Some r \<longleftrightarrow> (\<exists>q \<in> set (b_items B). bi_guid (b_heap B q) = guid \<and> item_row (b_heap B q) = r)"
proof (cases "find (\<lambda>q. bi_guid (b_heap B q) = guid) (b_items B)")
  case None
  with None [unfolded find_None_all] show ?thesis by (simp add: mem_rows_def)
next
  case (Some p)
  then have "q = p" if "q \<in> set (b_items B)" "bi_guid (b_heap B q) = guid" for q
    using assms that find_Some_in [OF Some] by (auto dest: inj_onD)
  with Some find_Some_in [OF Some] show ?thesis by (auto simp: mem_rows_def)
qed

lemma map_ext_Some: "(\<And>k v. m k = Some v \<longleftrightarrow> n k = Some v) \<Longrightarrow> m = n"
  by (metis ext not_None_eq)

lemma mem_rows_upd:
  assumes inj: "inj_on (\<lambda>q. bi_guid (b_heap B q)) (set (b_items B))" and q: "q \<in> set (b_items B)"
    and f: "bi_guid (f (b_heap B q)) = bi_guid (b_heap B q)"
  shows "mem_rows (upd_bi q f B) = (mem_rows B)(bi_guid (b_heap B q) \<mapsto> item_row (f (b_heap B q)))"
    "inj_on (\<lambda>r. bi_guid (b_heap (upd_bi q f B) r)) (set (b_items B))"
proof -
  have g: "bi_guid (b_heap (upd_bi q f B) r) = bi_guid (b_heap B r)" for r using f by simp
  show inj': "inj_on (\<lambda>r. bi_guid (b_heap (upd_bi q f B) r)) (set (b_items B))" using inj unfolding g .
  have same: "r = q" if "r \<in> set (b_items B)" "bi_guid (b_heap B r) = bi_guid (b_heap B q)" for r
    using inj q that by (auto dest: inj_onD)
  show "mem_rows (upd_bi q f B) = (mem_rows B)(bi_guid (b_heap B q) \<mapsto> item_row (f (b_heap B q)))"
  proof (rule map_ext_Some)
    fix k v
    show "mem_rows (upd_bi q f B) k = Some v \<longleftrightarrow> ((mem_rows B)(bi_guid (b_heap B q) \<mapsto> item_row (f (b_heap B q)))) k = Some v"
    proof (cases "k = bi_guid (b_heap B q)")
      case True
      with inj' q same show ?thesis by (auto simp: mem_rows_iff f)
    next
      case False
      with inj' show ?thesis by (simp add: mem_rows_iff inj f) (auto simp: f)
    qed
  qed
qed

lemma mem_rows_add:
  assumes inj: "inj_on (\<lambda>q. bi_guid (b_heap B q)) (set (b_items B))"
    and new: "\<forall>r \<in> set (b_items B). bi_guid (b_heap B r) \<noteq> bi_guid (b_heap B q)"
  shows "mem_rows (AddItem q B) = (mem_rows B)(bi_guid (b_heap B q) \<mapsto> item_row (b_heap B q))"
    "inj_on (\<lambda>r. bi_guid (b_heap B r)) (set (b_items B @ [q]))"
proof -
  show inj': "inj_on (\<lambda>r. bi_guid (b_heap B r)) (set (b_items B @ [q]))" using inj new by (auto simp: inj_on_def)
  show "mem_rows (AddItem q B) = (mem_rows B)(bi_guid (b_heap B q) \<mapsto> item_row (b_heap B q))"
  proof (rule map_ext_Some)
    fix k v
    have "inj_on (\<lambda>r. bi_guid (b_heap (AddItem q B) r)) (set (b_items (AddItem q B)))" using inj' by simp
    from mem_rows_iff [OF this, of k v]
    show "mem_rows (AddItem q B) k = Some v \<longleftrightarrow> ((mem_rows B)(bi_guid (b_heap B q) \<mapsto> item_row (b_heap B q))) k = Some v"
      using new by (auto simp: mem_rows_iff [OF inj])
  qed
qed

lemma mem_rows_delete:
  assumes inj: "inj_on (\<lambda>q. bi_guid (b_heap B q)) (set (b_items B))" and "distinct (b_items B)" and q: "q \<in> set (b_items B)"
  shows "mem_rows (DeleteItem q B) = (mem_rows B)(bi_guid (b_heap B q) := None)"
    "inj_on (\<lambda>r. bi_guid (b_heap B r)) (set (remove1 q (b_items B)))"
proof -
  have set: "set (remove1 q (b_items B)) = set (b_items B) - {q}" using assms(2) by simp
  show inj': "inj_on (\<lambda>r. bi_guid (b_heap B r)) (set (remove1 q (b_items B)))"
    using inj unfolding set by (auto intro: inj_on_subset)
  have same: "r = q" if "r \<in> set (b_items B)" "bi_guid (b_heap B r) = bi_guid (b_heap B q)" for r
    using inj q that by (auto dest: inj_onD)
  show "mem_rows (DeleteItem q B) = (mem_rows B)(bi_guid (b_heap B q) := None)"
  proof (rule map_ext_Some)
    fix k v
    have "inj_on (\<lambda>r. bi_guid (b_heap (DeleteItem q B) r)) (set (b_items (DeleteItem q B)))" using inj' by simp
    from mem_rows_iff [OF this, of k v]
    show "mem_rows (DeleteItem q B) k = Some v \<longleftrightarrow> ((mem_rows B)(bi_guid (b_heap B q) := None)) k = Some v"
      using same by (auto simp: mem_rows_iff [OF inj] set)
  qed
qed

section \<open>The relation under the primitive steps\<close>

lemma syncedD:
  assumes "synced db B"
  shows "inj_on (\<lambda>q. bi_guid (b_heap B q)) (set (b_items B))"
    "q \<in> set (b_items B) \<Longrightarrow> of_bank (b_guildid B) (b_infernoBank B) (b_heap B q)"
    "b \<in> set (b_itemUpdateQueue B) \<Longrightarrow> of_bank (b_guildid B) (b_infernoBank B) b"
    "table_ok (b_guildid B) (b_infernoBank B) db"
    "replay (b_itemUpdateQueue B) (item_at (b_guildid B) (b_infernoBank B) db) = Some (mem_rows B)"
  using assms by (auto simp: synced_alt guids_ok_def)

text \<open>One more item in the queue.\<close>

lemma synced_push:
  assumes sy: "synced db B"
    and inj: "inj_on (\<lambda>q. bi_guid (b_heap C q)) (set (b_items C))"
    and items: "\<forall>q \<in> set (b_items C). of_bank (b_guildid C) (b_infernoBank C) (b_heap C q)"
    and id: "b_guildid C = b_guildid B" "b_infernoBank C = b_infernoBank B"
    and queue: "b_itemUpdateQueue C = b_itemUpdateQueue B @ [b]" and b: "of_bank (b_guildid B) (b_infernoBank B) b"
    and step: "replay1 b (mem_rows B) = Some (mem_rows C)"
  shows "synced db C"
  using syncedD(3-5) [OF sy] inj items b step
  by (auto simp: synced_alt guids_ok_def id queue replay_append)

lemma bank_ids [simp]:
  "b_guildid (upd_bi q f B) = b_guildid B" "b_infernoBank (upd_bi q f B) = b_infernoBank B"
  "b_guildid (enqueue q B) = b_guildid B" "b_infernoBank (enqueue q B) = b_infernoBank B"
  "b_guildid (AddItem q B) = b_guildid B" "b_infernoBank (AddItem q B) = b_infernoBank B"
  "b_guildid (DeleteItem q B) = b_guildid B" "b_infernoBank (DeleteItem q B) = b_infernoBank B"
  "b_guildid (snd (balloc it B)) = b_guildid B" "b_infernoBank (snd (balloc it B)) = b_infernoBank B"
  by (simp_all add: upd_bi_def enqueue_def AddItem_def DeleteItem_def balloc_def)

lemma mem_rows_enqueue [simp]: "mem_rows (enqueue q B) = mem_rows B"
  by (simp add: mem_rows_def fun_eq_iff)

definition keeps_ids :: "BankItem \<Rightarrow> BankItem \<Rightarrow> bool" where
  "keeps_ids b c \<longleftrightarrow> bi_guid c = bi_guid b \<and> bi_guildid c = bi_guildid b \<and> bi_is_inferno c = bi_is_inferno b \<and>
     (row_fits (item_row b) \<longrightarrow> row_fits (item_row c))"

lemma synced_change:
  assumes sy: "synced db B" and q: "q \<in> set (b_items B)" and f: "keeps_ids (b_heap B q) (f (b_heap B q))"
    and st: "bi_state (f (b_heap B q)) = ITEM_CHANGED"
  shows "synced db (enqueue q (upd_bi q f B))"
proof -
  note d = syncedD [OF sy]
  note m = mem_rows_upd [OF d(1) q, of f]
  have g: "bi_guid (f (b_heap B q)) = bi_guid (b_heap B q)" using f by (simp add: keeps_ids_def)
  have old: "mem_rows B (bi_guid (b_heap B q)) \<noteq> None" using mem_rows_iff [OF d(1)] q by auto
  show ?thesis
  proof (rule synced_push [OF sy])
    show "b_itemUpdateQueue (enqueue q (upd_bi q f B)) = b_itemUpdateQueue B @ [f (b_heap B q)]" by simp
    show "of_bank (b_guildid B) (b_infernoBank B) (f (b_heap B q))" using d(2) [OF q] f by (simp add: of_bank_def keeps_ids_def)
    show "replay1 (f (b_heap B q)) (mem_rows B) = Some (mem_rows (enqueue q (upd_bi q f B)))"
      using m(1) [OF g] st g old by (simp add: replay1.simps)
  qed (use m(2) [OF g] d(2) f in \<open>auto simp: of_bank_def keeps_ids_def\<close>)
qed

lemma synced_remove:
  assumes sy: "synced db B" and struct: "bank_struct B" and q: "q \<in> set (b_items B)"
  shows "synced db (DeleteItem q (enqueue q (upd_bi q (\<lambda>b. b\<lparr>bi_state := ITEM_REMOVED\<rparr>) B)))"
proof -
  let ?f = "\<lambda>b. b\<lparr>bi_state := ITEM_REMOVED\<rparr>" let ?C = "enqueue q (upd_bi q ?f B)"
  note d = syncedD [OF sy]
  have inj: "inj_on (\<lambda>r. bi_guid (b_heap ?C r)) (set (b_items ?C))" using mem_rows_upd(2) [OF d(1) q, of ?f] by simp
  have rows: "mem_rows ?C = mem_rows B"
  proof -
    have "item_row (?f (b_heap B q)) = item_row (b_heap B q)" by (simp add: item_row_def)
    moreover have "mem_rows B (bi_guid (b_heap B q)) = Some (item_row (b_heap B q))" using mem_rows_iff [OF d(1)] q by auto
    ultimately show ?thesis using mem_rows_upd(1) [OF d(1) q, of ?f] by (simp add: fun_upd_idem)
  qed
  have dist: "distinct (b_items ?C)" and mem: "q \<in> set (b_items ?C)" using bank_struct_distinct [OF struct] q by simp_all
  note m = mem_rows_delete [OF inj dist mem]
  show ?thesis
  proof (rule synced_push [OF sy])
    show "b_itemUpdateQueue (DeleteItem q ?C) = b_itemUpdateQueue B @ [?f (b_heap B q)]" by simp
    show "of_bank (b_guildid B) (b_infernoBank B) (?f (b_heap B q))" using d(2) [OF q] by (simp add: of_bank_def row_fits_item)
    show "replay1 (?f (b_heap B q)) (mem_rows B) = Some (mem_rows (DeleteItem q ?C))"
      using m(1) rows by (simp add: replay1.simps)
    show "inj_on (\<lambda>r. bi_guid (b_heap (DeleteItem q ?C) r)) (set (b_items (DeleteItem q ?C)))" using m(2) by simp
    show "\<forall>r \<in> set (b_items (DeleteItem q ?C)). of_bank (b_guildid (DeleteItem q ?C)) (b_infernoBank (DeleteItem q ?C)) (b_heap (DeleteItem q ?C) r)"
      using d(2) by (auto simp: of_bank_def row_fits_item dest: notin_set_remove1 set_remove1_subset [THEN subsetD])
  qed simp_all
qed

lemma synced_new:
  fixes it :: BankItem
  assumes sy: "synced db B" and struct: "bank_struct B" and it: "of_bank (b_guildid B) (b_infernoBank B) (f it)" "bi_state (f it) = ITEM_NEW"
    and new: "\<forall>r \<in> set (b_items B). bi_guid (b_heap B r) \<noteq> bi_guid (f it)"
  shows "synced db (AddItem (b_next B) (enqueue (b_next B) (upd_bi (b_next B) f (snd (balloc it B)))))"
proof -
  let ?q = "b_next B" let ?C = "enqueue ?q (upd_bi ?q f (snd (balloc it B)))"
  note d = syncedD [OF sy]
  have out: "?q \<notin> set (b_items B)" using bank_structD(1) [OF struct] by auto
  have old: "b_heap ?C r = b_heap B r" if "r \<in> set (b_items B)" for r using out that by auto
  have here: "b_heap ?C ?q = f it" by simp
  have inj: "inj_on (\<lambda>r. bi_guid (b_heap ?C r)) (set (b_items ?C))"
    using d(1) old by (auto simp: inj_on_def)
  have rows: "mem_rows ?C = mem_rows B"
  proof (rule map_ext_Some)
    fix k v show "mem_rows ?C k = Some v \<longleftrightarrow> mem_rows B k = Some v"
      unfolding mem_rows_iff [OF inj] mem_rows_iff [OF d(1)] using old by auto
  qed
  have new': "\<forall>r \<in> set (b_items ?C). bi_guid (b_heap ?C r) \<noteq> bi_guid (b_heap ?C ?q)" using new old here by auto
  note m = mem_rows_add [OF inj new']
  have none: "mem_rows B (bi_guid (f it)) = None" using new mem_rows_iff [OF d(1)] by (metis not_None_eq)
  show ?thesis
  proof (rule synced_push [OF sy])
    show "b_itemUpdateQueue (AddItem ?q ?C) = b_itemUpdateQueue B @ [f it]" by simp
    show "replay1 (f it) (mem_rows B) = Some (mem_rows (AddItem ?q ?C))"
      using m(1) rows none it(2) by (simp add: replay1.simps)
    show "inj_on (\<lambda>r. bi_guid (b_heap (AddItem ?q ?C) r)) (set (b_items (AddItem ?q ?C)))" using m(2) by simp
  qed (use it(1) d(2) out in \<open>auto simp: of_bank_def\<close>)
qed

lemma synced_view:
  assumes "synced db B" and v: "bview C = bview B" and "b_guildid C = b_guildid B" "b_infernoBank C = b_infernoBank B"
    and "b_itemUpdateQueue C = b_itemUpdateQueue B"
  shows "synced db C"
proof -
  have "mem_rows C = mem_rows B"
    by (simp add: mem_rows_def fun_eq_iff bviewD(1) [OF v] bview_itemD(2,9) [OF v])
  with assms show ?thesis
    by (simp add: synced_alt guids_ok_def bviewD(1) [OF v] bview_itemD [OF v] of_bank_def)
qed

section \<open>Saving\<close>

lemma table_cong: "db_items db = db_items db' \<Longrightarrow> synced db B = synced db' B"
  by (simp add: synced_alt table_ok_defs item_at_def [abs_def])

lemma gs_db_save_queue: "gs_db (fold save_item bs s) = fold (save_stmt exec_sql) bs (gs_db s)"
  by (induction bs arbitrary: s) (simp_all add: save_item_def save_stmt_def split: ItemUpdateState.split)

lemma fold_log_items:
  "db_items (gs_db (fold (\<lambda>l. if bl_state l = ITEM_NEW then sql (InsertLog (f l)) else id) xs s)) = db_items (gs_db s)"
  "db_items (gs_db (fold (\<lambda>l. if ml_state l = ITEM_NEW then sql (InsertLog (h l)) else id) ys s)) = db_items (gs_db s)"
  by (induction xs arbitrary: s, simp_all) (induction ys arbitrary: s, simp_all)

lemma save_other_items:
  "db_items (gs_db (save_money s)) = db_items (gs_db s)" "db_items (gs_db (save_tabs s)) = db_items (gs_db s)"
  "db_items (gs_db (save_money_log s)) = db_items (gs_db s)" "db_items (gs_db (save_log s)) = db_items (gs_db s)"
  by (simp_all add: save_money_def save_tabs_def save_money_log_def save_log_def fold_log_items)

text \<open>What is saved before the items leaves items and queue alone.\<close>

definition save_rest :: "GState \<Rightarrow> GState" where
  "save_rest s = save_log (save_money_log (save_tabs (save_money (bank (\<lambda>B. B\<lparr>b_saveLock := True\<rparr>) s))))"

lemma save_rest_frame:
  "db_items (gs_db (save_rest s)) = db_items (gs_db s)" "bview (gs_bk (save_rest s)) = bview (gs_bk s)"
  "b_guildid (gs_bk (save_rest s)) = b_guildid (gs_bk s)" "b_infernoBank (gs_bk (save_rest s)) = b_infernoBank (gs_bk s)"
  "b_itemUpdateQueue (gs_bk (save_rest s)) = b_itemUpdateQueue (gs_bk s)"
  by (simp_all add: save_rest_def save_other_items save_steps_bk bview_def)

lemma synced_items:
  assumes "synced (gs_db s) (gs_bk s)"
  shows "synced (gs_db (save_items s)) (gs_bk (save_items s)) \<and> b_itemUpdateQueue (gs_bk (save_items s)) = []"
proof (cases "b_itemUpdateQueue (gs_bk s) = []")
  case False
  let ?B = "gs_bk s" let ?C = "settle_items ?B"
  note d = syncedD [OF assms]
  have q: "\<forall>b \<in> set (b_itemUpdateQueue ?B). of_bank (b_guildid ?B) (b_infernoBank ?B) b" using d(3) by blast
  note saved = tab.save_queue [OF d(4) q d(5)]
  have db: "gs_db (save_items s) = fold (save_stmt exec_sql) (b_itemUpdateQueue ?B) (gs_db s)" and bk: "gs_bk (save_items s) = ?C"
    using False by (simp_all add: save_items_def gs_db_save_queue fold_sql_frame(2) [OF save_item_frame])
  have v: "bview ?C = bview ?B" by (auto simp: bview_def settle_items_def bcore_def)
  have rows: "mem_rows ?C = mem_rows ?B"
    by (simp add: mem_rows_def fun_eq_iff bviewD(1) [OF v] bview_itemD(2,9) [OF v])
  have id: "b_guildid ?C = b_guildid ?B" "b_infernoBank ?C = b_infernoBank ?B" "b_itemUpdateQueue ?C = []"
    by (simp_all add: settle_items_def)
  show ?thesis
    using saved d(1,2) unfolding db bk synced_alt guids_ok_def id rows
    by (simp add: bviewD(1) [OF v] bview_itemD [OF v] of_bank_def)
qed (use assms in \<open>simp add: save_items_def\<close>)

lemma SaveToDB_synced:
  assumes "synced (gs_db s) (gs_bk s)"
  shows "synced (gs_db (SaveToDB s)) (gs_bk (SaveToDB s))"
    and "\<not> b_saveLock (gs_bk s) \<Longrightarrow> b_itemUpdateQueue (gs_bk (SaveToDB s)) = []"
proof -
  have "synced (gs_db (save_rest s)) (gs_bk (save_rest s))"
    unfolding table_cong [OF save_rest_frame(1)] by (rule synced_view [OF assms save_rest_frame(2-5)])
  note saved = synced_items [OF this]
  have unlock: "synced db (B\<lparr>b_saveLock := False\<rparr>)" if "synced db B" for db B
    by (rule synced_view [OF that]) (simp_all add: bview_def)
  show "synced (gs_db (SaveToDB s)) (gs_bk (SaveToDB s))"
    using assms saved unlock by (auto simp: SaveToDB_def save_rest_def [symmetric])
  show "b_itemUpdateQueue (gs_bk (SaveToDB s)) = []" if "\<not> b_saveLock (gs_bk s)"
    using saved that by (auto simp: SaveToDB_def save_rest_def [symmetric] nothing_to_save_def)
qed

end
