(* ===== verification/Bank_Sync_Props.thy ===== *)
theory Bank_Sync_Props
  imports Bank_Sync "HOL-Library.Multiset"
begin

text \<open>
  Every item message keeps memory and database in step, as long as it is not a swap and a guid is left:
  handler by handler, then for whole sessions. Saving at the end makes the item table equal to the items
  in memory, and loading a fresh bank from it brings every item back to its place.
\<close>

section \<open>Deposits\<close>

abbreviation keeps_sync :: "GState \<Rightarrow> GState \<Rightarrow> bool" where
  "keeps_sync \<equiv> keeps (\<lambda>s. bank_struct (gs_bk s) \<and> synced (gs_db s) (gs_bk s))"

lemma keeps_syncI:
  assumes "keeps_struct s s'" and "bank_struct (gs_bk s) \<Longrightarrow> synced (gs_db s) (gs_bk s) \<Longrightarrow> synced (gs_db s') (gs_bk s')"
  shows "keeps_sync s s'"
  using assms by (simp add: keeps_def)

lemma keeps_sync_same: "gs_bk s' = gs_bk s \<Longrightarrow> gs_db s' = gs_db s \<Longrightarrow> keeps_sync s s'"
  by (simp add: keeps_def)

lemma keeps_sync_from: "gs_bk s0 = gs_bk s \<Longrightarrow> gs_db s0 = gs_db s \<Longrightarrow> keeps_sync s0 s' \<Longrightarrow> keeps_sync s s'"
  by (simp add: keeps_def)

lemma keeps_sync_save: "keeps_sync s t \<Longrightarrow> keeps_sync s (SaveToDB t)"
  using keeps_struct_save [OF keeps_struct_same [OF refl], of t] by (auto simp: keeps_def SaveToDB_synced)

lemma keeps_sync_view:
  assumes "gs_db s' = gs_db s" and "bview (gs_bk s') = bview (gs_bk s)" and "b_itemUpdateQueue (gs_bk s') = b_itemUpdateQueue (gs_bk s)"
    and "bid (gs_bk s') = bid (gs_bk s)"
  shows "keeps_sync s s'"
  by (rule keeps_syncI [OF keeps_struct_view [OF assms(2)]])
    (use assms synced_view [OF _ assms(2)] in \<open>simp add: bidD(1,2) [OF assms(4)]\<close>)

lemma upd_bi_twice: "upd_bi q f (upd_bi q g B) = upd_bi q (\<lambda>b. f (g b)) B"
  by (simp add: upd_bi_def)

lemma guid_room_upd: "bi_guid (f (b_heap B q)) = bi_guid (b_heap B q) \<Longrightarrow> guid_room (upd_bi q f B) = guid_room B"
  by (auto simp: guid_room_def)

lemma guid_room_enqueue [simp]: "guid_room (enqueue q B) = guid_room B"
  by (simp add: guid_room_def)

lemma clone_guid [simp]: "bi_guid (CloneItem_to_bank E i it b) = bi_guid b"
  by (simp add: CloneItem_to_bank_def Let_def)

text \<open>What a player item gives to a row fits its columns.\<close>

definition item_fits :: "Item \<Rightarrow> bool" where
  "item_fits it \<longleftrightarrow> int_fits (i_duration it) \<and> i_randprop it < 0x8000 \<and>
     int (length (charges_text it)) < 0x100 \<and> int (length (enchants_text it)) < 0x10000"

lemma clone_fits:
  "row_fits (item_row (CloneItem_to_bank E i it b)) \<longleftrightarrow> int_fits (bi_guid b) \<and> unat (bi_slot b) < 2 ^ 8 \<and> item_fits it"
  by (auto simp: row_fits_item item_fits_def CloneItem_to_bank_def Let_def word_less_nat_alt)

lemma item_fits_cong:
  "i_duration it = i_duration it' \<Longrightarrow> i_randprop it = i_randprop it' \<Longrightarrow> i_charges it = i_charges it' \<Longrightarrow> i_enchant it = i_enchant it' \<Longrightarrow>
   item_fits it = item_fits it'"
  by (simp add: item_fits_def charges_text_def enchants_text_def GetEnchantmentId_def GetEnchantmentDuration_def GetEnchantmentCharges_def)

lemma item_fits_take [simp]: "item_fits (iheap (gs_pl (deposit_take p n s)) p) = item_fits (iheap (gs_pl s) p)"
  by (rule item_fits_cong) (simp_all add: deposit_take_def SetState_def AddToUpdateQueueOf_def pemit_def upd_item_def split: option.split)

lemma deposit_into_sync:
  assumes run: "deposit_into E t sl p n st stack s = (r, s1)" and sy: "synced (gs_db s) (gs_bk s)" and struct: "bank_struct (gs_bk s)"
    and st: "st = ITEM_NEW \<and> guid_room (gs_bk s) \<and> unat sl < 2 ^ 8 \<or> st = ITEM_CHANGED" and fits: "item_fits (iheap (gs_pl s) p)"
  shows "synced (gs_db s1) (gs_bk s1)" and "st = ITEM_CHANGED \<Longrightarrow> guid_room (gs_bk s1) = guid_room (gs_bk s)"
proof -
  let ?B = "gs_bk s" and ?it = "iheap (gs_pl s) p"
  show "synced (gs_db s1) (gs_bk s1)"
  proof (cases "st = ITEM_NEW")
    case True
    let ?new = "(new_BankItem E)\<lparr>bi_is_inferno := b_infernoBank ?B, bi_guid := GetNewGuid ?B, bi_guildid := b_guildid ?B,
        bi_count := n, bi_tab := t, bi_slot := sl\<rparr>"
    let ?f = "\<lambda>b. CloneItem_to_bank E (b_infernoBank (snd (balloc ?new ?B))) ?it (b\<lparr>bi_state := ITEM_NEW\<rparr>)"
    have "s1 = s\<lparr>gs_bk := AddItem (b_next ?B) (enqueue (b_next ?B) (upd_bi (b_next ?B) ?f (snd (balloc ?new ?B))))\<rparr>"
      using run True by (auto simp: deposit_into_def Let_def balloc_def)
    moreover have "synced (gs_db s) (AddItem (b_next ?B) (enqueue (b_next ?B) (upd_bi (b_next ?B) ?f (snd (balloc ?new ?B)))))"
      by (rule synced_new [OF sy struct])
        (use True st fits GetNewGuid_fresh GetNewGuid_fits in \<open>auto simp: of_bank_def clone_fits\<close>, simp_all add: CloneItem_to_bank_def Let_def)
    ultimately show ?thesis by simp
  next
    case False
    with st have c: "st = ITEM_CHANGED" by simp
    show ?thesis
    proof (cases "GetItem ?B t sl")
      case None
      with c run sy show ?thesis by (auto simp: deposit_into_def Let_def)
    next
      case (Some q)
      let ?f = "\<lambda>b. CloneItem_to_bank E (b_infernoBank ?B) ?it ((b\<lparr>bi_count := (if stack then bi_count b + n else n)\<rparr>)\<lparr>bi_state := ITEM_CHANGED\<rparr>)"
      have mem: "q \<in> set (b_items ?B)" using GetItem_Some [OF Some] by simp
      have s1: "s1 = s\<lparr>gs_bk := enqueue q (upd_bi q ?f ?B)\<rparr>"
        using run c Some by (auto simp: deposit_into_def Let_def upd_bi_twice)
      have old: "int_fits (bi_guid (b_heap ?B q)) \<and> unat (bi_slot (b_heap ?B q)) < 2 ^ 8" "bi_is_inferno (b_heap ?B q) = b_infernoBank ?B"
        using syncedD(2) [OF sy mem] by (simp_all add: of_bank_def row_fits_item)
      then have "row_fits (item_row (?f (b_heap ?B q)))" using fits by (simp add: clone_fits)
      then have "keeps_ids (b_heap ?B q) (?f (b_heap ?B q))" using old by (simp add: keeps_ids_def) (simp add: CloneItem_to_bank_def Let_def)
      then have "synced (gs_db s) (enqueue q (upd_bi q ?f ?B))"
        by (rule synced_change [OF sy mem]) (simp add: CloneItem_to_bank_def Let_def)
      then show ?thesis by (simp add: s1)
    qed
  qed
  show "guid_room (gs_bk s1) = guid_room (gs_bk s)" if "st = ITEM_CHANGED"
    using run that by (auto simp: deposit_into_def Let_def guid_room_upd split: option.splits)
qed

lemma deposit_done_sync: "keeps_sync s (deposit_done E q n s)"
  unfolding deposit_done_def Let_def by (intro keeps_sync_save keeps_sync_view) simp_all

lemma deposit_take_db [simp]: "gs_db (deposit_take p n s) = gs_db s" "gs_db (deposit_take_last E p n s) = gs_db s"
  by (simp_all add: deposit_take_def deposit_take_last_def)

lemma deposit_sync:
  fixes E :: "'e BankEnv_scheme"
  shows "guid_room (gs_bk s) \<Longrightarrow> item_fits (iheap (gs_pl s) p) \<Longrightarrow> 1 \<le> unat t \<Longrightarrow> unat t \<le> MAX_TABS \<Longrightarrow>
      keeps_sync s (DepositItemInFreeSlot E t p s)"
    and "st = ITEM_NEW \<and> in_bank (t, sl) \<and> GetItem (gs_bk s) t sl = None \<and> guid_room (gs_bk s) \<and> r = 0 \<or>
         st = ITEM_CHANGED \<and> (r \<noteq> 0 \<longrightarrow> guid_room (gs_bk s) \<and> 1 \<le> unat t \<and> unat t \<le> MAX_TABS) \<Longrightarrow>
      item_fits (iheap (gs_pl s) p) \<Longrightarrow> keeps_sync s (DepositItemInSlot E t sl p n r st stack s)"
proof (induction E t p s and E t sl p n r st stack s rule: DepositItemInFreeSlot_DepositItemInSlot.induct)
  case (1 E t p s)
  show ?case
  proof (cases "free_slot_choice E (gs_bk s) t (iheap (gs_pl s) p)")
    case (UseFree i n)
    from free_choice_cases(3) [OF this] have "find (\<lambda>i. GetItem (gs_bk s) t i = None) bank_slots = Some i" by simp
    from find_Some_in [OF this] bank_slots_in_bank [OF _ 1(6,7)]
    have "in_bank (t, i) \<and> GetItem (gs_bk s) t i = None" by simp
    with 1(3) [OF UseFree] 1(4,5) show ?thesis by (simp add: DepositItemInFreeSlot.simps UseFree)
  next
    case (StackAll i n)
    with 1(1) [OF this] 1(5) show ?thesis by (simp add: DepositItemInFreeSlot.simps)
  next
    case (StackSome i n r)
    with 1(2) [OF this] 1(4-7) show ?thesis by (simp add: DepositItemInFreeSlot.simps)
  qed (simp add: DepositItemInFreeSlot.simps keeps_sync_same)
next
  case (2 E t sl p n r st stack s)
  obtain q s1 where into: "deposit_into E t sl p n st stack s = (q, s1)" by fastforce
  have struct: "keeps_struct s s1" by (rule deposit_into_struct [OF into]) (use 2(2) in auto)
  have s1: "keeps_sync s s1"
    by (rule keeps_syncI [OF struct], rule deposit_into_sync [OF into]) (use 2(2,3) in \<open>auto simp: in_bank_def\<close>)
  have pl: "gs_pl s1 = gs_pl s" using into by (auto simp: deposit_into_def Let_def balloc_def split: option.splits if_splits)
  show ?case
  proof (cases q)
    case None
    with s1 show ?thesis by (simp add: DepositItemInSlot.simps [of E t sl p n r st stack s] into)
  next
    case (Some q')
    define s2 where "s2 = (if r = 0 then deposit_take_last E p n s1 else DepositItemInFreeSlot E t p (deposit_take p n s1))"
    have "keeps_sync s s2"
    proof (cases "r = 0")
      case True
      with s1 show ?thesis by (simp add: s2_def keeps_def)
    next
      case False
      with 2(2) have c: "st = ITEM_CHANGED" "guid_room (gs_bk s)" "1 \<le> unat t" "unat t \<le> MAX_TABS" by auto
      have "keeps_sync (deposit_take p n s1) (DepositItemInFreeSlot E t p (deposit_take p n s1))" if "guid_room (gs_bk s1)"
        by (rule 2(1) [OF into [symmetric] Some False]) (use that c 2(3) in \<open>simp_all add: pl\<close>)
      moreover have "guid_room (gs_bk s1)" if "bank_struct (gs_bk s)" "synced (gs_db s) (gs_bk s)"
        using deposit_into_sync(2) [OF into that(2,1) _ 2(3)] c by simp
      ultimately show ?thesis using s1 False by (simp add: s2_def keeps_def)
    qed
    then have "keeps_sync s (deposit_done E q' n s2)" using deposit_done_sync by (rule keeps_trans)
    then show ?thesis by (simp add: DepositItemInSlot.simps [of E t sl p n r st stack s] into Some s2_def)
  qed
qed

section \<open>Withdrawals\<close>

lemma withdraw_finish_sync:
  assumes sy: "synced (gs_db s) (gs_bk s)" and struct: "bank_struct (gs_bk s)" and mem: "q \<in> set (b_items (gs_bk s))"
    and bk: "gs_bk s1 = gs_bk (withdraw_mark t sl q r left sw s)" and db: "gs_db s1 = gs_db s"
  shows "synced (gs_db (withdraw_finish E t' n q s1)) (gs_bk (withdraw_finish E t' n q s1))"
proof -
  let ?C = "gs_bk s1"
  have C: "?C = enqueue q (upd_bi q (if r = 0 then (\<lambda>b. b\<lparr>bi_state := ITEM_REMOVED\<rparr>) else (\<lambda>b. b\<lparr>bi_count := left, bi_state := ITEM_CHANGED\<rparr>)) (gs_bk s))"
    by (simp add: bk withdraw_mark_bk)
  define D where "D = (if r = 0 then DeleteItem q ?C else ?C)"
  have "synced (gs_db s) D"
  proof (cases "r = 0")
    case True
    with synced_remove [OF sy struct mem] show ?thesis by (simp add: D_def C)
  next
    case False
    have "synced (gs_db s) (enqueue q (upd_bi q (\<lambda>b. b\<lparr>bi_count := left, bi_state := ITEM_CHANGED\<rparr>) (gs_bk s)))"
      by (rule synced_change [OF sy mem]) (simp_all add: keeps_ids_def row_fits_item)
    with False show ?thesis by (simp add: D_def C)
  qed
  define L where "L = LogAction E ACTION_WITHDRAW_ITEM (bi_tab (b_heap ?C q)) (bi_item_template (b_heap ?C q)) n (Some (b_heap ?C q)) s1"
  have fin: "gs_bk (withdraw_finish E t' n q s1) = (if r = 0 then DeleteItem q (gs_bk L) else gs_bk L)"
    by (simp add: withdraw_finish_def Let_def L_def [symmetric]) (simp add: L_def C)
  have fin_db: "gs_db (withdraw_finish E t' n q s1) = gs_db s"
    by (simp add: withdraw_finish_def Let_def db)
  have v: "bview (gs_bk L) = bview ?C" by (simp add: L_def)
  have id: "b_guildid (gs_bk L) = b_guildid ?C" "b_infernoBank (gs_bk L) = b_infernoBank ?C"
    unfolding L_def by (rule bidD(1,2) [OF LogAction_frame(10)])+
  have q: "b_itemUpdateQueue (gs_bk L) = b_itemUpdateQueue ?C" by (simp add: L_def)
  show ?thesis
    unfolding fin fin_db by (rule synced_view [OF \<open>synced (gs_db s) D\<close>]) (simp_all add: D_def v id q bview_delete_cong [OF v])
qed

lemma withdraw_db [simp]: "gs_db (withdraw_mark t sl q r left sw s) = gs_db s"
  by (simp add: withdraw_mark_def Let_def)

lemma withdraw_sync:
  assumes "q \<in> set (b_items (gs_bk s))"
  shows "keeps_sync s (withdraw_onto E t sl n q p r sw s)" "keeps_sync s (withdraw_new E t sl n dest q r sw s)"
proof -
  show "keeps_sync s (withdraw_onto E t sl n q p r sw s)"
    by (rule keeps_syncI [OF withdraw_struct(1)], unfold withdraw_onto_def Let_def, rule withdraw_finish_sync) (use assms in simp_all)
  have "synced (gs_db u) (gs_bk u)" if "synced (gs_db s) (gs_bk s)" "bank_struct (gs_bk s)"
      "u = withdraw_finish E t n q (emit e (withdraw_mark t sl q r r sw (s\<lparr>gs_pl := P\<rparr>)))" for u e P
    unfolding that(3) by (rule withdraw_finish_sync [where s = "s\<lparr>gs_pl := P\<rparr>"]) (use assms that in simp_all)
  then show "keeps_sync s (withdraw_new E t sl n dest q r sw s)"
    by (intro keeps_syncI [OF withdraw_struct(2)]) (auto simp: withdraw_new_def Let_def split: option.split prod.split)
qed

lemma WithdrawItem_sync: "q \<in> set (b_items (gs_bk s)) \<Longrightarrow> keeps_sync s (WithdrawItem E t sl n pb ps q pI r sw s)"
  unfolding WithdrawItem_def
  by (intro keeps_cases keeps_sync_save withdraw_sync) (simp_all add: keeps_sync_same)

section \<open>Moves and splits\<close>

lemma change_item_sync:
  assumes "synced (gs_db s) (gs_bk s)" and "q \<in> set (b_items (gs_bk s))" and "keeps_ids (b_heap (gs_bk s) q) (f (b_heap (gs_bk s) q))"
    and "bi_state (f (b_heap (gs_bk s) q)) = ITEM_CHANGED"
  shows "synced (gs_db (change_item q f s)) (gs_bk (change_item q f s))"
  using synced_change [OF assms(1,2), of f] assms(3,4) by simp

lemma two_changes_sync:
  assumes "synced (gs_db s) (gs_bk s)" and "q \<in> set (b_items (gs_bk s))" and "r \<in> set (b_items (gs_bk s))"
    and "\<And>b. keeps_ids b (f b) \<and> bi_state (f b) = ITEM_CHANGED" and "\<And>b. keeps_ids b (h b) \<and> bi_state (h b) = ITEM_CHANGED"
  shows "synced (gs_db s) (gs_bk (change_item r h (change_item q f s)))"
proof -
  have "synced (gs_db (change_item q f s)) (gs_bk (change_item q f s))" by (rule change_item_sync) (use assms in simp_all)
  from change_item_sync [OF this, of r h] assms(3,5) show ?thesis by simp
qed

lemma keeps_ids_fields [simp]:
  "keeps_ids b (b\<lparr>bi_slot := ucast (x :: uint8), bi_state := st\<rparr>)" "keeps_ids b (b\<lparr>bi_count := n, bi_state := st\<rparr>)"
  using unat8_lt [of x] by (simp_all add: keeps_ids_def row_fits_item unat_ucast_8_32)

lemma ucast_slot_eq: "(ucast (a :: uint8) :: uint32) = ucast b \<longleftrightarrow> a = b"
  by (metis unat_ucast_8_32 word_unat_eq_iff)

lemma move_sync:
  assumes sy: "synced (gs_db s) (gs_bk s)" and struct: "bank_struct (gs_bk s)"
    and mem: "sq \<in> set (b_items (gs_bk s))" "dq \<in> set (b_items (gs_bk s))"
  shows "synced (gs_db (move_swap sq dq fs ts s)) (gs_bk (move_swap sq dq fs ts s))"
    "synced (gs_db (move_merge_some sq dq s)) (gs_bk (move_merge_some sq dq s))"
    "synced (gs_db (move_merge_all sq dq tab fs s)) (gs_bk (move_merge_all sq dq tab fs s))"
    "synced (gs_db (move_to_free sq tab fs ts s)) (gs_bk (move_to_free sq tab fs ts s))"
proof -
  have quiet: "synced (gs_db (SaveToDB (SendGuildMessage m u))) (gs_bk (SaveToDB (SendGuildMessage m u)))" if "synced (gs_db u) (gs_bk u)" for m u
    by (rule SaveToDB_synced) (use that in simp)
  show "synced (gs_db (move_swap sq dq fs ts s)) (gs_bk (move_swap sq dq fs ts s))"
    unfolding move_swap_def Let_def
    by (rule quiet) (use two_changes_sync [OF sy mem, of "\<lambda>b. b\<lparr>bi_slot := ucast ts, bi_state := ITEM_CHANGED\<rparr>"
          "\<lambda>b. b\<lparr>bi_slot := ucast fs, bi_state := ITEM_CHANGED\<rparr>"] in simp)
  show "synced (gs_db (move_merge_some sq dq s)) (gs_bk (move_merge_some sq dq s))"
    using two_changes_sync [OF sy mem, of
        "\<lambda>b. b\<lparr>bi_count := bi_count (b_heap (gs_bk s) sq) - (bi_maxStackSize (b_heap (gs_bk s) sq) - bi_count (b_heap (gs_bk s) dq)), bi_state := ITEM_CHANGED\<rparr>"
        "\<lambda>b. b\<lparr>bi_count := bi_maxStackSize (b_heap (gs_bk s) dq), bi_state := ITEM_CHANGED\<rparr>"]
    by (simp add: move_merge_some_def Let_def)
  show "synced (gs_db (move_to_free sq tab fs ts s)) (gs_bk (move_to_free sq tab fs ts s))"
    using change_item_sync [OF sy mem(1), of "\<lambda>b. b\<lparr>bi_slot := ucast ts, bi_state := ITEM_CHANGED\<rparr>"]
    by (simp add: move_to_free_def Let_def)
  show "synced (gs_db (move_merge_all sq dq tab fs s)) (gs_bk (move_merge_all sq dq tab fs s))"
  proof -
    let ?f = "\<lambda>b. b\<lparr>bi_count := bi_count (b_heap (gs_bk s) sq) + bi_count (b_heap (gs_bk s) dq), bi_state := ITEM_CHANGED\<rparr>"
    have "synced (gs_db s) (enqueue dq (upd_bi dq ?f (gs_bk s)))" by (rule synced_change [OF sy mem(2)]) simp_all
    moreover have "bank_struct (enqueue dq (upd_bi dq ?f (gs_bk s)))" using struct by (simp add: bank_struct_upd place_def)
    ultimately have "synced (gs_db s) (DeleteItem sq (enqueue sq (upd_bi sq (\<lambda>b. b\<lparr>bi_state := ITEM_REMOVED\<rparr>) (enqueue dq (upd_bi dq ?f (gs_bk s))))))"
      by (rule synced_remove) (use mem(1) in simp)
    then show ?thesis by (simp add: move_merge_all_def Let_def)
  qed
qed

lemma MoveItem_sync:
  assumes sy: "synced (gs_db s) (gs_bk s)" and struct: "bank_struct (gs_bk s)"
  shows "synced (gs_db (MoveItem (GetItem (gs_bk s) t fs') (GetItem (gs_bk s) t ts') tab fs ts s))
    (gs_bk (MoveItem (GetItem (gs_bk s) t fs') (GetItem (gs_bk s) t ts') tab fs ts s))"
proof -
  have mem: "q \<in> set (b_items (gs_bk s))" if "GetItem (gs_bk s) a b = Some q" for a b q using GetItem_Some [OF that] by simp
  show ?thesis
    using sy by (auto simp: MoveItem_def Let_def split: option.split intro: move_sync [OF sy struct] mem)
qed

lemma MoveItem_msg_sync: "keeps_sync s (MoveItem_msg E msg s)"
proof (rule keeps_syncI [OF inside_ok_struct [OF MoveItem_msg_inside]])
  assume st: "bank_struct (gs_bk s)" and sy: "synced (gs_db s) (gs_bk s)"
  have "synced (gs_db s0) (gs_bk s0)" "bank_struct (gs_bk s0)" if "CanAccessTab E t a s = (ok, s0)" for t a ok s0
    using sy st CanAccessTab_frame [OF that] by simp_all
  then show "synced (gs_db (MoveItem_msg E msg s)) (gs_bk (MoveItem_msg E msg s))"
    using sy by (auto simp: MoveItem_msg_def Let_def intro!: MoveItem_sync split: prod.split)
qed

lemma CloneBankItem_new:
  "\<exists>it. CloneBankItem E q B = balloc it B \<and> bi_guid it = GetNewGuid B \<and> bi_guildid it = b_guildid B \<and>
     bi_is_inferno it = bi_is_inferno (b_heap B q) \<and>
     (int_fits (GetNewGuid B) \<longrightarrow> row_fits (item_row (b_heap B q)) \<longrightarrow> row_fits (item_row it))"
  unfolding CloneBankItem_def Let_def by (rule exI, rule conjI, rule refl) (simp add: row_fits_item)

lemma split_to_free_sync:
  assumes sy: "synced (gs_db s) (gs_bk s)" and struct: "bank_struct (gs_bk s)" and mem: "sq \<in> set (b_items (gs_bk s))"
    and room: "guid_room (gs_bk s)"
  shows "synced (gs_db (split_to_free E sq ts n s)) (gs_bk (split_to_free E sq ts n s))"
proof -
  let ?f = "\<lambda>b. b\<lparr>bi_count := bi_count (b_heap (gs_bk s) sq) - ucast n, bi_state := ITEM_CHANGED\<rparr>"
  let ?h = "\<lambda>b. b\<lparr>bi_slot := ucast ts, bi_count := ucast n, bi_state := ITEM_NEW\<rparr>"
  let ?B1 = "enqueue sq (upd_bi sq ?f (gs_bk s))"
  obtain it where it: "CloneBankItem E sq ?B1 = balloc it ?B1" "bi_guid it = GetNewGuid ?B1" "bi_guildid it = b_guildid ?B1"
    "bi_is_inferno it = bi_is_inferno (b_heap ?B1 sq)"
    "int_fits (GetNewGuid ?B1) \<longrightarrow> row_fits (item_row (b_heap ?B1 sq)) \<longrightarrow> row_fits (item_row it)" using CloneBankItem_new by blast
  have sy1: "synced (gs_db s) ?B1" by (rule synced_change [OF sy mem]) simp_all
  have struct1: "bank_struct ?B1" using struct by (simp add: bank_struct_upd place_def)
  have room1: "guid_room ?B1" using room by (simp add: guid_room_upd)
  have "sq \<in> set (b_items ?B1)" using mem by simp
  from syncedD(2) [OF sy1 this] it(5) GetNewGuid_fits [OF room1] have "row_fits (item_row it)" by (simp add: of_bank_def)
  then have "row_fits (item_row (?h it))" using unat8_lt [of ts] by (simp add: row_fits_item unat_ucast_8_32)
  then have "synced (gs_db s) (AddItem (b_next ?B1) (enqueue (b_next ?B1) (upd_bi (b_next ?B1) ?h (snd (balloc it ?B1)))))"
    by (intro synced_new [OF sy1 struct1])
      (use it syncedD(2) [OF sy mem] GetNewGuid_fresh [OF room1] in \<open>auto simp: of_bank_def\<close>)
  moreover have clone: "CloneBankItem E sq ?B1 = (b_next (gs_bk s), snd (balloc it ?B1))"
    unfolding it(1) by (simp add: prod_eq_iff)
  ultimately show ?thesis
    using sy by (simp add: split_to_free_def Let_def clone SaveToDB_synced)
qed

lemma split_onto_sync:
  assumes "synced (gs_db s) (gs_bk s)" and "sq \<in> set (b_items (gs_bk s))" "dq \<in> set (b_items (gs_bk s))"
  shows "synced (gs_db (split_onto sq dq n s)) (gs_bk (split_onto sq dq n s))"
  using assms(1) two_changes_sync [OF assms, of
      "\<lambda>b. b\<lparr>bi_count := bi_count (b_heap (gs_bk s) sq) - ucast n, bi_state := ITEM_CHANGED\<rparr>"
      "\<lambda>b. b\<lparr>bi_count := bi_count (b_heap (gs_bk s) dq) + ucast n, bi_state := ITEM_CHANGED\<rparr>"]
  by (simp add: split_onto_def Let_def)

lemma SplitItem_sync:
  assumes "guid_room (gs_bk s)"
  shows "keeps_sync s (SplitItem E msg s)"
proof (rule keeps_syncI [OF inside_ok_struct [OF SplitItem_inside]])
  assume st: "bank_struct (gs_bk s)" and sy: "synced (gs_db s) (gs_bk s)"
  have fr: "synced (gs_db s0) (gs_bk s0)" "bank_struct (gs_bk s0)" "guid_room (gs_bk s0)" if "CanAccessTab E t a s = (ok, s0)" for t a ok s0
    using sy st assms CanAccessTab_frame [OF that] by simp_all
  have mem: "q \<in> set (b_items B)" if "GetItem B a b = Some q" for B a b q using GetItem_Some [OF that] by simp
  show "synced (gs_db (SplitItem E msg s)) (gs_bk (SplitItem E msg s))"
    using sy by (auto simp: SplitItem_def Let_def intro!: split_to_free_sync split_onto_sync dest: fr mem split: prod.split option.split)
qed

section \<open>Messages that are not swaps\<close>

definition sync_deposit :: "'e Env_scheme \<Rightarrow> string \<Rightarrow> GState \<Rightarrow> bool" where
  "sync_deposit E msg s \<longleftrightarrow>
     (let ps = Tokenizer msg CHR '':''; (b, bs) = deposit_source (atoi (ps ! 1)) (atoi (ps ! 2)); P = gs_pl s
      in guid_room (gs_bk s) \<and>
         (case GetItemByPos P b bs of
            None \<Rightarrow> True
          | Some p \<Rightarrow> item_fits (iheap P p) \<and> no_swap_to (gs_bk s) (ucast (atoi (ps ! 3) :: uint8)) (ucast (atoi (ps ! 4) :: uint8)) (pr_ItemId (the_proto E (iheap P p)))))"

definition sync_withdraw :: "'e Env_scheme \<Rightarrow> string \<Rightarrow> GState \<Rightarrow> bool" where
  "sync_withdraw E msg s \<longleftrightarrow>
     (let ps = Tokenizer msg CHR '':''; (bag, slot) = withdraw_target (atoi (ps ! 3)) (atoi (ps ! 4)); P = gs_pl s
      in case GetItemByPos P (ucast bag) (ucast slot) of
           None \<Rightarrow> True
         | Some p \<Rightarrow> no_swap_to (gs_bk s) (atoi (ps ! 1)) (atoi (ps ! 2)) (pr_ItemId (the_proto E (iheap P p))))"

lemma deposit_onto_sync:
  assumes "GetItem (gs_bk s) (ucast t) (ucast sl) = Some q" and "no_swap_to (gs_bk s) (ucast t) (ucast sl) (pr_ItemId (the_proto E (iheap (gs_pl s) p)))"
    and "item_fits (iheap (gs_pl s) p)"
  shows "keeps_sync s (deposit_onto E t sl p n q s)"
proof -
  have mem: "q \<in> set (b_items (gs_bk s))" using GetItem_Some [OF assms(1)] by simp
  have "bi_item_template (b_heap (gs_bk s) q) = pr_ItemId (the_proto E (iheap (gs_pl s) p)) \<and> 1 < bi_maxStackSize (b_heap (gs_bk s) q)"
    using assms by (simp add: no_swap_to_def word_nat)
  then show ?thesis
    unfolding deposit_onto_def Let_def
    by (intro keeps_if WithdrawItem_sync [OF mem] deposit_sync(2)) (simp_all add: keeps_sync_same assms(3))
qed

lemma DepositItem_sync:
  assumes ok: "sync_deposit E msg s"
  shows "keeps_sync s (DepositItem E msg s)"
proof -
  define ps where "ps = Tokenizer msg CHR '':''"
  define T SL NN where d: "T = (atoi (ps ! 3) :: uint8)" "SL = (atoi (ps ! 4) :: uint8)" "NN = (atoi (ps ! 5) :: uint8)"
  obtain b bs where src: "deposit_source (atoi (ps ! 1)) (atoi (ps ! 2)) = (b, bs)" by fastforce
  have room: "guid_room (gs_bk s)" and swap: "GetItemByPos (gs_pl s) b bs = Some p \<Longrightarrow>
      item_fits (iheap (gs_pl s) p) \<and> no_swap_to (gs_bk s) (ucast T) (ucast SL) (pr_ItemId (the_proto E (iheap (gs_pl s) p)))" for p
    using ok unfolding sync_deposit_def Let_def ps_def [symmetric] src prod.case d [symmetric] by auto
  obtain acc s0 where a: "CanAccessTab E T ACTION_DEPOSIT_ITEM s = (acc, s0)" by fastforce
  note fr = CanAccessTab_frame [OF a]
  have fr1: "gs_pl s1 = gs_pl s \<and> gs_bk s1 = gs_bk s \<and> gs_db s1 = gs_db s" if "IsItemBankable E p s0 = (ib, s1)" for p ib s1
    using fr IsItemBankable_frame [OF that] by simp
  show ?thesis
    unfolding DepositItem_def Let_def ps_def [symmetric] d [symmetric] src a prod.case
    by (intro keeps_cases;
        (rule keeps_sync_from [OF _ _ deposit_sync(1)] keeps_sync_from [OF _ _ deposit_sync(2)] keeps_sync_from [OF _ _ deposit_onto_sync]
         | rule keeps_sync_same);
        (drule fr1)?; (simp add: fr room; fail)?; use fr room swap slot_arg [of T SL] in simp)
qed

lemma withdraw_to_item_sync:
  assumes mem: "q \<in> set (b_items (gs_bk s))"
    and "bi_item_template (b_heap (gs_bk s) q) = pr_ItemId (the_proto E (iheap (gs_pl s) p))" "1 < unat (bi_maxStackSize (b_heap (gs_bk s) q))"
  shows "keeps_sync s (withdraw_to_item E t sl b ps n q p s)"
proof -
  obtain ok s1 where ib: "IsItemBankable E p s = (ok, s1)" by fastforce
  note fr = IsItemBankable_frame [OF ib]
  have run: "withdraw_to_item E t sl b ps n q p s =
      (if \<not> ok then s1 else
        (let it = iheap (gs_pl s) p; pr = the_proto E it;
             count = (if n + i_count it > GetMaxStackSize pr then GetMaxStackSize pr - i_count it else n)
         in WithdrawItem E t sl count b ps q (Some p) (bi_count (b_heap (gs_bk s) q) - count) False s1))"
    using assms(2,3) by (simp add: withdraw_to_item_def Let_def ib fr word_nat)
  show ?thesis
    unfolding run Let_def
    by (intro keeps_if keeps_sync_from [OF fr(2,3) WithdrawItem_sync]) (simp_all add: fr mem keeps_sync_same)
qed

lemma WithdrawItem_msg_sync:
  assumes ok: "sync_withdraw E msg s"
  shows "keeps_sync s (WithdrawItem_msg E msg s)"
proof -
  define ps where "ps = Tokenizer msg CHR '':''"
  obtain bag slot where tg: "withdraw_target (atoi (ps ! 3)) (atoi (ps ! 4)) = (bag, slot)" by fastforce
  have swap: "bi_item_template (b_heap (gs_bk s) q) = pr_ItemId (the_proto E (iheap (gs_pl s) p)) \<and> Suc 0 < unat (bi_maxStackSize (b_heap (gs_bk s) q))"
    if "GetItemByPos (gs_pl s) (ucast bag) (ucast slot) = Some p" "GetItem (gs_bk s) (atoi (ps ! 1)) (atoi (ps ! 2)) = Some q" for p q
    using ok that unfolding sync_withdraw_def Let_def ps_def [symmetric] tg prod.case by (simp add: no_swap_to_def)
  define acc s0 where "acc = fst (CanAccessTab E (ucast (atoi (ps ! 1) :: uint32)) ACTION_WITHDRAW_ITEM s)"
    and "s0 = snd (CanAccessTab E (ucast (atoi (ps ! 1) :: uint32)) ACTION_WITHDRAW_ITEM s)"
  then have a: "CanAccessTab E (ucast (atoi (ps ! 1) :: uint32)) ACTION_WITHDRAW_ITEM s = (acc, s0)" by simp
  note fr = CanAccessTab_frame [OF a]
  have mem: "q \<in> set (b_items B)" if "GetItem B a b = Some q" for B a b q using GetItem_Some [OF that] by simp
  show ?thesis
    unfolding WithdrawItem_msg_def Let_def ps_def [symmetric] a tg prod.case
    by (intro keeps_if keeps_opt;
        (rule keeps_sync_from [OF fr(2,3) WithdrawItem_sync] keeps_sync_from [OF fr(2,3) withdraw_to_item_sync] | rule keeps_sync_same);
        (simp add: fr mem swap; fail)?)
qed

section \<open>Sessions\<close>

fun sync_ok :: "'e BankEnv_scheme \<Rightarrow> transfer \<Rightarrow> GState \<Rightarrow> bool" where
  "sync_ok E (Deposit msg) s = sync_deposit E msg s"
| "sync_ok E (Withdraw msg) s = sync_withdraw E msg s"
| "sync_ok E (Move msg) s = True"
| "sync_ok E (Split msg) s = guid_room (gs_bk s)"

lemma handle_transfer_sync: "sync_ok E m s \<Longrightarrow> keeps_sync s (handle_transfer E m s)"
  by (cases m) (simp_all add: DepositItem_sync WithdrawItem_msg_sync MoveItem_msg_sync SplitItem_sync)

interpretation ses: guarded "handle_transfer E" "sync_ok E" "\<lambda>s. bank_struct (gs_bk s) \<and> synced (gs_db s) (gs_bk s)"
  for E :: "'e BankEnv_scheme"
  by unfold_locales (use handle_transfer_sync [of E] in \<open>simp add: keeps_def\<close>)

lemma synced_saved:
  assumes "synced (gs_db s) (gs_bk s)" and "\<not> b_saveLock (gs_bk s)"
  shows "item_at (b_guildid (gs_bk s)) (b_infernoBank (gs_bk s)) (gs_db (SaveToDB s)) = mem_rows (gs_bk s)"
proof -
  note d = SaveToDB_synced [OF assms(1)]
  have v: "bview (gs_bk (SaveToDB s)) = bview (gs_bk s)" by simp
  have "mem_rows (gs_bk (SaveToDB s)) = mem_rows (gs_bk s)"
    by (simp add: mem_rows_def fun_eq_iff bview_itemD(2,9) [OF v])
  with syncedD(5) [OF d(1)] d(2) [OF assms(2)] show ?thesis by (simp add: bidD(1,2) [OF SaveToDB_bk(2)])
qed

section \<open>Loading what was saved\<close>

text \<open>The rows of the items in memory, in the order of the item vector.\<close>

definition bank_rows :: "Bank \<Rightarrow> ItemRow list" where
  "bank_rows B = map (\<lambda>q. item_row (b_heap B q)) (b_items B)"

text \<open>A row as it comes back: tab and slot are read as 8-bit numbers, the random property as a signed 16-bit number.\<close>

definition row_read :: "ItemRow \<Rightarrow> ItemRow" where
  "row_read r = r\<lparr>ir_tab := ucast (ucast (ir_tab r) :: uint8), ir_slot := ucast (ucast (ir_slot r) :: uint8),
     ir_randomPropertyId := scast (ucast (ir_randomPropertyId r) :: uint16)\<rparr>"

lemma load_item_rows:
  assumes "\<forall>q \<in> set (b_items B). q < b_next B"
  shows "bank_rows (load_item E r B) = bank_rows B @ [row_read r]" "\<forall>q \<in> set (b_items (load_item E r B)). q < b_next (load_item E r B)"
proof -
  obtain it where it: "load_item E r B = AddItem (b_next B) (snd (balloc it B))" "item_row it = row_read r"
  proof
    let ?b = "LoadFromDB r (new_BankItem E)"
    let ?b1 = "case e_protos E (bi_item_template ?b) of None \<Rightarrow> ?b
      | Some pr \<Rightarrow> ?b\<lparr>bi_Name := (if sint (bi_randomPropertyId ?b) > 0 then pr_Name1 pr @ '' '' @ nameSuffix E (bi_randomPropertyId ?b) else pr_Name1 pr),
          bi_quality := pr_Quality pr, bi_maxStackSize := GetMaxStackSize pr\<rparr>"
    show "load_item E r B = AddItem (b_next B) (snd (balloc (?b1\<lparr>bi_state := ITEM_UNCHANGED\<rparr>) B))"
      by (simp add: load_item_def Let_def balloc_def)
    show "item_row (?b1\<lparr>bi_state := ITEM_UNCHANGED\<rparr>) = row_read r"
      by (simp add: item_row_def row_read_def LoadFromDB_def Let_def split: option.split)
  qed
  have "b_heap (snd (balloc it B)) q = b_heap B q" if "q \<in> set (b_items B)" for q using assms that by auto
  then show "bank_rows (load_item E r B) = bank_rows B @ [row_read r]" by (simp add: bank_rows_def it)
  show "\<forall>q \<in> set (b_items (load_item E r B)). q < b_next (load_item E r B)"
    using assms unfolding it(1) by auto
qed

lemma load_items_rows:
  "\<forall>q \<in> set (b_items B). q < b_next B \<Longrightarrow> bank_rows (fold (load_item E) rs B) = bank_rows B @ map row_read rs"
proof (induction rs arbitrary: B)
  case (Cons r rs)
  show ?case
    by (simp add: Cons.IH [OF load_item_rows(2) [OF Cons.prems]] load_item_rows(1) [OF Cons.prems])
qed simp

lemma scast_ucast_small:
  fixes w :: int32
  assumes "unat w < 2 ^ 15"
  shows "scast (ucast w :: uint16) = w"
proof -
  have "take_bit 15 w = w" using assms by (simp add: word_unat_eq_iff unsigned_take_bit_eq take_bit_nat_eq_self)
  then have z: "\<not> bit w n" if "15 \<le> n" for n using that bit_take_bit_iff [of 15 w n] by simp
  show ?thesis
  proof (rule bit_word_eqI)
    fix n assume "n < LENGTH(32)"
    then show "bit (scast (ucast w :: uint16) :: int32) n \<longleftrightarrow> bit w n" using z [of n] z [of 15]
      by (cases "n < 15") (simp_all add: bit_signed_iff bit_unsigned_iff min_def)
  qed
qed

lemma row_read_item: "in_bank (place b) \<Longrightarrow> row_fits (item_row b) \<Longrightarrow> row_read (item_row b) = item_row b"
proof -
  have cast: "ucast (ucast w :: uint8) = w" if "unat w \<le> 98" for w :: uint32
    using that by (simp add: word_unat_eq_iff ucast_32_8_id)
  assume "in_bank (place b)" "row_fits (item_row b)"
  then show ?thesis
    using scast_ucast_small [of "bi_randomPropertyId b"] by (simp add: row_fits_item) (simp add: row_read_def item_row_def in_bank_def place_def cast)
qed

lemma saved_rows:
  assumes "table_ok g i db" and "item_at g i db = mem_rows B" and "inj_on (\<lambda>q. bi_guid (b_heap B q)) (set (b_items B))"
    and "\<forall>q \<in> set (b_items B). of_bank g i (b_heap B q)"
  shows "set (query_items g i db) = set (bank_rows B)"
proof -
  have key: "mem_rows B (ir_guid r) = Some r \<longleftrightarrow> r \<in> set (db_items db) \<and> row_key r = (g, ir_guid r, i)" for r
    using item_at_iff [OF assms(1), of "ir_guid r" r] assms(2) by simp
  have "r \<in> set (query_items g i db) \<longleftrightarrow> mem_rows B (ir_guid r) = Some r \<and> ir_guildid r = g \<and> ir_isInferno r = i" for r
    unfolding key by (auto simp: query_items_def row_key_def)
  moreover have "mem_rows B (ir_guid r) = Some r \<and> ir_guildid r = g \<and> ir_isInferno r = i \<longleftrightarrow> r \<in> (\<lambda>q. item_row (b_heap B q)) ` set (b_items B)" for r
    proof -
    have "ir_guid (item_row b) = bi_guid b \<and> ir_guildid (item_row b) = bi_guildid b \<and> ir_isInferno (item_row b) = bi_is_inferno b" for b
      by (simp add: item_row_def)
    with assms(4) show ?thesis unfolding mem_rows_iff [OF assms(3)] by (auto simp: of_bank_def)
  qed
  ultimately show ?thesis unfolding bank_rows_def set_map by blast
qed

lemma load_saved:
  assumes sy: "synced db B" and struct: "bank_struct B" and "b_itemUpdateQueue B = []"
    and s0: "gs_db s0 = db" "b_guildid (gs_bk s0) = b_guildid B" "b_infernoBank (gs_bk s0) = b_infernoBank B" "b_items (gs_bk s0) = []"
    and tabs: "query_tabs (b_guildid B) (b_infernoBank B) db \<noteq> []"
  shows "mset (bank_rows (gs_bk (LoadBank E s0))) = mset (bank_rows B)"
proof -
  note d = syncedD [OF sy]
  let ?rows = "query_items (b_guildid B) (b_infernoBank B) db"
  have rows: "set ?rows = set (bank_rows B)"
    by (rule saved_rows [OF d(4) _ d(1)]) (use d(2,5) assms(3) in auto)
  have "distinct (map row_key (db_items db))" using d(4) by (simp add: table_ok_defs)
  then have "distinct ?rows" by (simp add: query_items_def distinct_map)
  moreover have "distinct (bank_rows B)"
    unfolding bank_rows_def distinct_map using bank_struct_distinct [OF struct] d(1) item_row_ids(3) by (metis (mono_tags, lifting) inj_on_def)
  ultimately have rows': "mset ?rows = mset (bank_rows B)" using rows by (simp add: set_eq_iff_mset_eq_distinct)
  have "row_read r = r" if "r \<in> set ?rows" for r
    using that d(2) row_read_item bank_structD(3) [OF struct] unfolding rows bank_rows_def by (auto simp: of_bank_def)
  then have read: "map row_read ?rows = ?rows" by (rule map_idI)
  obtain B2 where B2: "gs_bk (LoadBank E s0) = fold (load_item E) ?rows B2" "b_items B2 = []"
  proof
    let ?B1 = "fold load_tabs_row (query_tabs (b_guildid B) (b_infernoBank B) db) ((gs_bk s0)\<lparr>b_tabs := 0\<rparr>)"
    let ?B2 = "?B1\<lparr>b_tabInfo := (b_tabInfo ?B1)(TAB_MONEY := (b_tabInfo ?B1 TAB_MONEY)\<lparr>bt_minrank := 1\<rparr>)\<rparr>"
    show "gs_bk (LoadBank E s0) = fold (load_item E) ?rows ?B2" using tabs s0 by (simp add: LoadBank_def Let_def)
    show "b_items ?B2 = []" using bviewD(1) [OF tabs_rows_view, of "query_tabs (b_guildid B) (b_infernoBank B) db" "(gs_bk s0)\<lparr>b_tabs := 0\<rparr>"] s0(4) by simp
  qed
  have "bank_rows (gs_bk (LoadBank E s0)) = ?rows"
    using load_items_rows [of B2 E ?rows] B2 read by (simp add: bank_rows_def)
  then show ?thesis using rows' by simp
qed

end
