(* ===== verification/Bank_Clone.thy ===== *)
theory Bank_Clone
  imports Bank_Frames
begin

text \<open>
  Round trips of the bank's text: an item that is deposited and withdrawn again comes back with the
  same charges, enchantments and other properties, as far as the 8-bit columns of a bank item can hold
  them; and the messages that carry the lines of a log or the items of a tab carry all of them, in order.
\<close>

section \<open>Items through the bank\<close>

definition bank_fields_fit :: "Item \<Rightarrow> bool" where
  "bank_fields_fit it \<longleftrightarrow> length (i_charges it) = MAX_ITEM_PROTO_SPELLS \<and>
     length (i_enchant it) = MAX_ENCHANTMENT_SLOT * MAX_ENCHANTMENT_OFFSET \<and> unat (i_flags it) < 256 \<and> unat (i_durability it) < 256"

text \<open>The properties of an item that the bank keeps.\<close>

definition bank_fields where
  "bank_fields it = (i_creator it, i_giftcreator it, i_duration it, i_charges it, i_flags it, i_enchant it, i_randprop it,
     i_transmog it, i_durability it, i_text it, i_genloot it)"

lemma charges_tokens: "Tokenizer (charges_text it) CHR '' '' = map (\<lambda>i. to_string_int (i_charges it ! i)) [0..<MAX_ITEM_PROTO_SPELLS]"
  unfolding charges_text_def by (rule Tokenizer_join_term) (auto intro!: to_string_int_plain simp: is_digit_def)

lemma enchants_tokens:
  "Tokenizer (enchants_text it) CHR '' '' =
     concat (map (\<lambda>i. [to_string (GetEnchantmentId it i), to_string (GetEnchantmentDuration it i), to_string (GetEnchantmentCharges it i)])
       [0..<MAX_ENCHANTMENT_SLOT])"
  unfolding enchants_text_def by (rule Tokenizer_join_term) (auto intro!: to_string_plain simp: is_digit_def)

lemma enchants_read:
  assumes "length (i_enchant it) = MAX_ENCHANTMENT_SLOT * MAX_ENCHANTMENT_OFFSET"
  shows "map (\<lambda>k. of_nat (fst (strtoul (token (Tokenizer (enchants_text it) CHR '' '') k)))) [0..<MAX_ENCHANTMENT_SLOT * MAX_ENCHANTMENT_OFFSET] = i_enchant it"
proof -
  have "Tokenizer (enchants_text it) CHR '' '' = map (\<lambda>k. to_string (i_enchant it ! k)) [0..<MAX_ENCHANTMENT_SLOT * MAX_ENCHANTMENT_OFFSET]"
    by (simp add: enchants_tokens GetEnchantmentId_def GetEnchantmentDuration_def GetEnchantmentCharges_def upt_rec eval_nat_numeral)
  then show ?thesis
    using assms by (intro nth_equalityI) (simp_all add: token_def strtoul_to_string32)
qed

lemma charges_read:
  assumes "length (i_charges it) = MAX_ITEM_PROTO_SPELLS"
  shows "map atoi (Tokenizer (charges_text it) CHR '' '') = i_charges it"
  using assms by (intro nth_equalityI) (simp_all add: charges_tokens atoi_to_string_int32)

lemma ucast_8_back: "unat (w :: uint32) < 256 \<Longrightarrow> ucast (ucast w :: uint8) = w"
  by (simp add: word_unat_eq_iff ucast_32_8_id)

lemma clone_back:
  assumes "bank_fields_fit it"
  shows "bank_fields (CloneItem_to_player g (CloneItem_to_bank E inferno it b) new) = bank_fields it"
  using assms charges_read [of it] enchants_read [of it]
  by (simp add: bank_fields_def bank_fields_fit_def CloneItem_to_player_def CloneItem_to_bank_def Let_def charges_tokens ucast_8_back)

section \<open>Lines in messages\<close>

text \<open>What a client reads from the messages of one transfer: it takes the head off each message, puts
  the separator that was cut at the end back, and stops at the \<open>end\<close> message.\<close>

fun unpack_lines :: "string \<Rightarrow> char \<Rightarrow> string list \<Rightarrow> string option" where
  "unpack_lines head sep [] = None"
| "unpack_lines head sep (m # ms) =
     (if m = head @ ''end'' then (if ms = [] then Some [] else None)
      else map_option (\<lambda>rest. drop (length head) m @ [sep] @ rest) (unpack_lines head sep ms))"

text \<open>A line ends with the separator and is not to be taken for the word \<open>end\<close>.\<close>

definition line_ok :: "char \<Rightarrow> string \<Rightarrow> bool" where
  "line_ok sep l \<longleftrightarrow> l \<noteq> [] \<and> last l = sep \<and> (\<exists>c \<in> set (butlast l). c \<notin> set ''end'')"

lemma line_ok_append: "line_ok sep l \<Longrightarrow> line_ok sep (acc @ l)"
  by (auto simp: line_ok_def butlast_append)

lemma closed_message:
  assumes "line_ok sep body"
  shows "butlast (head @ body) \<noteq> head @ ''end''" "drop (length head) (butlast (head @ body)) @ [sep] = body"
  using assms by (auto simp: line_ok_def butlast_append)

lemma unpack_pack:
  assumes "\<forall>l \<in> set ls. line_ok sep l" and "acc = [] \<or> line_ok sep acc"
  shows "unpack_lines head sep (pack_lines head (head @ acc) ls) = Some (acc @ concat ls)"
  using assms
proof (induction ls arbitrary: acc)
  case Nil
  then show ?case using closed_message [of sep acc head] by (auto simp: line_ok_def)
next
  case (Cons l ls)
  have l: "line_ok sep (acc @ l)" using Cons.prems(1) by (simp add: line_ok_append)
  show ?case
  proof (cases "length (head @ acc @ l) > ADDON_MAX_PACKET_SIZE")
    case True
    have "unpack_lines head sep (pack_lines head (head @ []) ls) = Some ([] @ concat ls)" by (rule Cons.IH) (use Cons.prems in auto)
    with True closed_message [OF l, of head] show ?thesis by (simp add: append_assoc [symmetric] del: append_assoc)
  next
    case False
    have "unpack_lines head sep (pack_lines head (head @ (acc @ l)) ls) = Some ((acc @ l) @ concat ls)"
      by (rule Cons.IH) (use Cons.prems l in auto)
    with False show ?thesis by simp
  qed
qed

text \<open>A message is never longer than the packet size and one line.\<close>

lemma pack_length:
  assumes "\<forall>l \<in> set ls. length l \<le> n" and "length message \<le> ADDON_MAX_PACKET_SIZE" and "length head + 3 \<le> ADDON_MAX_PACKET_SIZE"
  shows "\<forall>m \<in> set (pack_lines head message ls). length m \<le> ADDON_MAX_PACKET_SIZE + n"
  using assms
proof (induction head message ls rule: pack_lines.induct)
  case (2 head message l ls)
  show ?case
  proof (cases "length (message @ l) > ADDON_MAX_PACKET_SIZE")
    case True
    with 2(1) [OF True] 2(3-5) show ?thesis by auto
  next
    case False
    with 2(2) [OF False] 2(3-5) show ?thesis by auto
  qed
qed auto

lemma log_lines_ok: "line_ok CHR ''='' (log_line l)" "line_ok CHR ''='' (money_log_line m)" "line_ok CHR '';'' (item_text b @ '';'')"
  by (auto simp: line_ok_def log_line_def money_log_line_def item_text_def butlast_append)

text \<open>What the server puts into the output for a log or a tab.\<close>

lemma send_all_out: "gs_out (send_all ms s) = gs_out s @ map SendAddonMessage ms"
  unfolding send_all_def by (induction ms arbitrary: s) simp_all

end
