(* ===== verification/Bank_Lock.thy ===== *)
theory Bank_Lock
  imports Bank_Reach
begin

text \<open>
  The save lock: item messages leave it open. \<open>SaveToDB\<close> takes and releases it; only \<open>DeleteFromDB\<close>
  closes it for good.
\<close>

abbreviation keeps_open :: "GState \<Rightarrow> GState \<Rightarrow> bool" where
  "keeps_open \<equiv> keeps (\<lambda>s. \<not> b_saveLock (gs_bk s))"

lemma keeps_open_eq: "b_saveLock (gs_bk s') = b_saveLock (gs_bk s) \<Longrightarrow> keeps_open s s'"
  by (simp add: keeps_def)

lemma keeps_open_from: "b_saveLock (gs_bk s0) = b_saveLock (gs_bk s) \<Longrightarrow> keeps_open s0 s' \<Longrightarrow> keeps_open s s'"
  by (simp add: keeps_def)

lemma deposit_into_open: "deposit_into E t sl p n st stack s = (r, s1) \<Longrightarrow> b_saveLock (gs_bk s1) = b_saveLock (gs_bk s)"
  by (auto simp: deposit_into_def Let_def balloc_def split: option.splits if_splits)

lemma deposit_done_open: "b_saveLock (gs_bk (deposit_done E q n s)) = b_saveLock (gs_bk s)"
  by (simp add: deposit_done_def Let_def)

lemma deposit_open:
  fixes E :: "'e BankEnv_scheme"
  shows "b_saveLock (gs_bk (DepositItemInFreeSlot E t p s)) = b_saveLock (gs_bk s)"
    and "b_saveLock (gs_bk (DepositItemInSlot E t sl p n r st stack s)) = b_saveLock (gs_bk s)"
proof (induction E t p s and E t sl p n r st stack s rule: DepositItemInFreeSlot_DepositItemInSlot.induct)
  case (1 E t p s)
  then show ?case by (simp add: DepositItemInFreeSlot.simps [of E t p s] split: free_choice.split)
next
  case (2 E t sl p n r st stack s)
  obtain q s1 where into: "deposit_into E t sl p n st stack s = (q, s1)" by fastforce
  have "b_saveLock (gs_bk (DepositItemInFreeSlot E t p (deposit_take p n s1))) = b_saveLock (gs_bk s1)" if "r \<noteq> 0" "q = Some x" for x
    using 2 [OF into [symmetric] that(2,1)] by simp
  then show ?case
    by (auto simp: DepositItemInSlot.simps [of E t sl p n r st stack s] into deposit_done_open deposit_into_open [OF into] split: option.split)
qed

lemma withdraw_open:
  "b_saveLock (gs_bk (withdraw_onto E t sl n q p r sw s)) = b_saveLock (gs_bk s)"
  "b_saveLock (gs_bk (withdraw_new E t sl n dest q r sw s)) = b_saveLock (gs_bk s)"
proof -
  have fin: "b_saveLock (gs_bk (withdraw_finish E t n q u)) = b_saveLock (gs_bk u)" for u
    by (simp add: withdraw_finish_def Let_def)
  have mark: "b_saveLock (gs_bk (withdraw_mark t sl q r left sw u)) = b_saveLock (gs_bk u)" for left u
    by (simp add: withdraw_mark_bk)
  show "b_saveLock (gs_bk (withdraw_onto E t sl n q p r sw s)) = b_saveLock (gs_bk s)"
    by (simp add: withdraw_onto_def Let_def fin mark)
  show "b_saveLock (gs_bk (withdraw_new E t sl n dest q r sw s)) = b_saveLock (gs_bk s)"
    by (simp add: withdraw_new_def Let_def fin mark split: option.split prod.split)
qed

lemma WithdrawItem_open: "b_saveLock (gs_bk (WithdrawItem E t sl n pb ps q pI r sw s)) = b_saveLock (gs_bk s)"
  by (simp add: WithdrawItem_def withdraw_open split: option.split prod.split)

lemma SwapItems_open: "b_saveLock (gs_bk (SwapItems E p q s)) = b_saveLock (gs_bk s)"
  by (simp add: SwapItems_def Let_def WithdrawItem_open deposit_open balloc_def split: prod.split)

lemma move_open:
  "b_saveLock (gs_bk (MoveItem sI dI t fs ts s)) = b_saveLock (gs_bk s)"
  "b_saveLock (gs_bk (split_to_free E sq ts' n s)) = b_saveLock (gs_bk s)"
  "b_saveLock (gs_bk (split_onto sq dq n s)) = b_saveLock (gs_bk s)"
proof -
  show "b_saveLock (gs_bk (MoveItem sI dI t fs ts s)) = b_saveLock (gs_bk s)"
    by (simp add: MoveItem_def move_to_free_def move_swap_def move_merge_all_def move_merge_some_def Let_def split: option.split)
  show "b_saveLock (gs_bk (split_to_free E sq ts' n s)) = b_saveLock (gs_bk s)"
    by (simp add: split_to_free_def CloneBankItem_def balloc_def Let_def)
  show "b_saveLock (gs_bk (split_onto sq dq n s)) = b_saveLock (gs_bk s)"
    by (simp add: split_onto_def Let_def)
qed

lemma deposit_onto_open: "keeps_open s (deposit_onto E t sl p n q s)"
  by (rule keeps_open_eq) (simp add: deposit_onto_def Let_def WithdrawItem_open SwapItems_open deposit_open)

lemmas access_open = CanAccessTab_frame(2) [THEN arg_cong [where f = b_saveLock]] IsItemBankable_frame(2) [THEN arg_cong [where f = b_saveLock]]

lemma transfer_open:
  "keeps_open s (DepositItem E msg s)" "keeps_open s (WithdrawItem_msg E msg s)" "keeps_open s (MoveItem_msg E msg s)" "keeps_open s (SplitItem E msg s)"
proof -
  have to_item: "keeps_open s0 (withdraw_to_item E t sl b ps n q p s0)" for t sl b ps n q p s0
    unfolding withdraw_to_item_def Let_def
    by (intro keeps_cases; rule keeps_open_eq; simp add: WithdrawItem_open SwapItems_open access_open)
  show "keeps_open s (DepositItem E msg s)"
    unfolding DepositItem_def Let_def
    by (intro keeps_cases; (rule keeps_open_from [OF _ deposit_onto_open] | rule keeps_open_eq); simp add: deposit_open; (drule access_open)+; simp)
  show "keeps_open s (WithdrawItem_msg E msg s)"
    unfolding WithdrawItem_msg_def Let_def
    by (intro keeps_cases; (rule keeps_open_from [OF _ to_item] | rule keeps_open_eq); simp add: WithdrawItem_open; (drule access_open)+; simp)
  show "keeps_open s (MoveItem_msg E msg s)"
    unfolding MoveItem_msg_def Let_def by (intro keeps_cases; rule keeps_open_eq; simp add: move_open; (drule access_open)+; simp)
  show "keeps_open s (SplitItem E msg s)"
    unfolding SplitItem_def Let_def by (intro keeps_cases; rule keeps_open_eq; simp add: move_open; (drule access_open)+; simp)
qed

interpretation opn: guarded "handle_transfer E" "\<lambda>_ _. True" "\<lambda>s. \<not> b_saveLock (gs_bk s)" for E :: "'e BankEnv_scheme"
proof unfold_locales
  fix s :: GState and m :: transfer
  assume "\<not> b_saveLock (gs_bk s)"
  then show "\<not> b_saveLock (gs_bk (handle_transfer E m s))"
    using transfer_open [of s E] by (cases m) (simp_all add: keeps_def)
qed

lemma guarded_run_True: "guarded_run op (\<lambda>_ _. True) xs s"
  by (induction xs arbitrary: s) simp_all

lemma session_open: "\<not> b_saveLock (gs_bk s) \<Longrightarrow> \<not> b_saveLock (gs_bk (fold (handle_transfer E) ms s))"
  by (rule opn.run_good [OF _ guarded_run_True])

end
