(* ===== verification/Props_Bank_Items.thy ===== *)
theory Props_Bank_Items
  imports Props_Inventory Bank_Rights Bank_Sync_Props Bank_Clone Bank_Lock
begin

text \<open>
  The properties of the guild bank's item messages: pieces are conserved, the structure of the bank is
  kept in every reachable state, and memory and database stay in step. The witnesses run on the sample
  world of theory Sample_State.
\<close>

section \<open>The messages of the witnesses\<close>

lemma sample_tokens:
  "Tokenizer ''DepositItem:0:1:1:5:3'' CHR '':'' = [''DepositItem'', ''0'', ''1'', ''1'', ''5'', ''3'']"
  "Tokenizer ''DepositItem:0:1:1:0:5'' CHR '':'' = [''DepositItem'', ''0'', ''1'', ''1'', ''0'', ''5'']"
  "Tokenizer ''DepositItem:0:1:1:5:20'' CHR '':'' = [''DepositItem'', ''0'', ''1'', ''1'', ''5'', ''20'']"
  "Tokenizer ''WithdrawItem:1:1:0:0:12'' CHR '':'' = [''WithdrawItem'', ''1'', ''1'', ''0'', ''0'', ''12'']"
  by code_simp+

lemma sample_numbers [simp]:
  "atoi ''0'' = (0 :: uint8)" "atoi ''1'' = (1 :: uint8)" "atoi ''3'' = (3 :: uint8)" "atoi ''5'' = (5 :: uint8)" "atoi ''20'' = (20 :: uint8)"
  "atoi ''0'' = (0 :: uint32)" "atoi ''1'' = (1 :: uint32)" "atoi ''12'' = (12 :: uint32)"
  by code_simp+

lemma sample_source [simp]: "deposit_source 0 1 = (255, 23)"
  by (simp add: deposit_source_def)

lemma sample_item [simp]: "i_entry (iheap sample_player 0) = 2589" "i_count (iheap sample_player 0) = 5" "the_proto sample_env (iheap sample_player 0) = cloth"
  by (simp_all add: sample_player_def blank_item_def the_proto_def GetProto_def)

lemma sample_free [simp]: "GetItem sample_bank 1 5 = None"
  by (simp add: GetItem_def sample_bank_def bank_cloth_def)

lemma sample_deposit_ok [simp]: "deposit_ok sample_env ''DepositItem:0:1:1:5:3'' sample_state"
  by (simp add: deposit_ok_def Let_def sample_tokens sample_get no_swap_to_def)

section \<open>Conservation\<close>

text \<open>C8: a deposit conserves pieces. In a state in order, a \<open>DepositItem\<close> message that names at most
  the pieces of the stack and asks for no swap leaves, for every template, the pieces of player and bank
  together unchanged, keeps both sides in order and does not touch the player's money or identity. This
  covers a given slot, merging with a stack, overfull stacks and the recursion over the partial stacks
  of the tab.\<close>

theorem DepositItem_conserves:
  assumes "state_ok E s" and "deposit_ok E msg s"
  shows "state_ok E (DepositItem E msg s) \<and> (\<forall>e. both_count (DepositItem E msg s) e = both_count s e) \<and>
    pl_frame (gs_pl (DepositItem E msg s)) = pl_frame (gs_pl s)"
  using deposit_ok_conserves [OF assms] by (simp add: conserves_def)

theorem DepositItem_conserves_witness:
  "both_count (DepositItem sample_env ''DepositItem:0:1:1:5:3'' sample_state) 2589 = 32"
proof -
  have "both_count sample_state 2589 = 32"
    by (simp add: both_count_def sample_count bank_count_def sample_bank_def bpieces_def bank_cloth_def)
  with DepositItem_conserves [OF sample_ok sample_deposit_ok] show ?thesis by simp
qed

text \<open>C9: a withdrawal conserves pieces. In a state in order, a \<open>WithdrawItem\<close> message into a bag slot
  that exists, for at least one piece and no swap, leaves the pieces of player and bank together unchanged
  for every template, whether the item is refused, stored in new places, merged with a stack or only
  partly withdrawn.\<close>

theorem WithdrawItem_conserves:
  assumes "state_ok E s" and "withdraw_ok E msg s"
  shows "state_ok E (WithdrawItem_msg E msg s) \<and> (\<forall>e. both_count (WithdrawItem_msg E msg s) e = both_count s e) \<and>
    pl_frame (gs_pl (WithdrawItem_msg E msg s)) = pl_frame (gs_pl s)"
  using withdraw_ok_conserves [OF assms] by (simp add: conserves_def)

lemma sample_withdrawable [simp]: "withdrawable sample_env sample_player 2589"
  unfolding withdrawable_def using sample_bags cloth_stack(1,2) by blast

lemma sample_withdraw_ok [simp]: "withdraw_ok sample_env ''WithdrawItem:1:1:0:0:12'' sample_state"
proof -
  have "\<forall>q \<in> set (b_items sample_bank). bi_item_template (b_heap sample_bank q) = 2589"
    by (simp add: sample_bank_def bank_cloth_def)
  then show ?thesis by (simp add: withdraw_ok_def Let_def sample_tokens split: prod.split)
qed

theorem WithdrawItem_conserves_witness:
  "state_ok sample_env (WithdrawItem_msg sample_env ''WithdrawItem:1:1:0:0:12'' sample_state) \<and>
   both_count (WithdrawItem_msg sample_env ''WithdrawItem:1:1:0:0:12'' sample_state) 2589 = both_count sample_state 2589"
  using WithdrawItem_conserves [OF sample_ok sample_withdraw_ok] by simp

text \<open>C10: whole sessions conserve pieces. However deposits, withdrawals, moves and splits are interleaved,
  as long as every message meets its condition when it is handled, the pieces of player and bank together
  never change, and neither does the player's money.\<close>

theorem transfers_conserve:
  assumes "state_ok E s" and "guarded_run (handle_transfer E) (transfer_ok E) ms s"
  shows "state_ok E (fold (handle_transfer E) ms s) \<and> both_count (fold (handle_transfer E) ms s) = both_count s \<and>
    pl_frame (gs_pl (fold (handle_transfer E) ms s)) = pl_frame (gs_pl s)"
  using tr.run_good [OF assms] tr.run_amount [OF assms] by simp

theorem transfers_conserve_witness:
  "both_count (fold (handle_transfer sample_env)
     [Deposit ''DepositItem:0:1:1:5:3'', Move ''MoveItem:1:1:5'', Split ''SplitItem:1:4:9:6''] sample_state) = both_count sample_state"
proof -
  have "guarded_run (handle_transfer sample_env) (transfer_ok sample_env)
      [Deposit ''DepositItem:0:1:1:5:3'', Move ''MoveItem:1:1:5'', Split ''SplitItem:1:4:9:6''] sample_state" by simp
  from transfers_conserve [OF sample_ok this] show ?thesis by simp
qed

text \<open>Moving and splitting happen inside the bank. For any sequence of \<open>MoveItem\<close> and
  \<open>SplitItem\<close> messages, well-formed or not, from any players, the bank keeps its structure and the
  pieces of every template, and no player's inventory is touched.\<close>

lemma moves_stay_inside:
  assumes "bank_struct (gs_bk s)" and "stacks_ok ms (gs_bk s)"
  shows "bank_struct (gs_bk (fold handle_inner xs s)) \<and> bank_count (gs_bk (fold handle_inner xs s)) = bank_count (gs_bk s) \<and>
    gs_pl (fold handle_inner xs s) = gs_pl s"
  by (intro conjI inner.run_struct [OF assms(1)] inner.run_count [OF assms] inner.run_player)

lemma moves_stay_inside_example:
  "bank_count (gs_bk (fold handle_inner [MoveMsg sample_env ''MoveItem:1:1:4'', SplitMsg sample_env ''SplitItem:1:4:30:7''] sample_state)) =
   bank_count sample_bank"
  using moves_stay_inside [of sample_state "stack_of sample_env"
      "[MoveMsg sample_env ''MoveItem:1:1:4'', SplitMsg sample_env ''SplitItem:1:4:30:7'']"] by simp

section \<open>Progress and errors of deposits\<close>

text \<open>C22: a deposit without a target slot always finds room while the tab has a free slot: the message
  banks the whole stack, however it has to be spread over partial stacks, and the player is left with that
  many pieces less.\<close>

theorem DepositItem_banks_stack:
  assumes "state_ok E s" and "deposit_call E s msg p t 0 n" and "tab_has_room (gs_bk s) (ucast t)" and "the_proto E (iheap (gs_pl s) p) = pr"
  shows "bank_count (gs_bk (DepositItem E msg s)) (pr_ItemId pr) = bank_count (gs_bk s) (pr_ItemId pr) + unat (i_count (iheap (gs_pl s) p)) \<and>
    stored_count (gs_pl (DepositItem E msg s)) (pr_ItemId pr) + unat (i_count (iheap (gs_pl s) p)) = stored_count (gs_pl s) (pr_ItemId pr)"
proof -
  from assms(2) obtain b bs pr' where it: "bankable_at E (gs_pl s) b bs p pr'" and t: "1 \<le> unat (ucast t :: uint32)" "unat (ucast t :: uint32) \<le> MAX_TABS"
    by (auto simp: deposit_call_def Let_def Suc_le_eq unat_gt_0 split: prod.splits)
  have pr: "pr' = pr" using bankable_atD(2) [OF it] assms(4) by simp
  note run = DepositItem_free_slot [OF assms(2) refl]
  note all = deposit_banks_all(1) [OF assms(1) it t assms(3)]
  have "both_count (DepositItem E msg s) (pr_ItemId pr) = both_count s (pr_ItemId pr)"
    using deposit_conserves(1) [OF assms(1) it t] by (simp add: run conserves_def)
  with all show ?thesis by (simp add: run both_count_def pr)
qed

lemma sample_call [simp]: "deposit_call sample_env sample_state ''DepositItem:0:1:1:0:5'' 0 1 0 5"
proof -
  have "CanAccessTab sample_env 1 ACTION_DEPOSIT_ITEM sample_state = (True, sample_state)"
    by (simp add: CanAccessTab_def sample_bank_def sample_tab_def)
  moreover have "IsItemBankable sample_env 0 sample_state = (True, sample_state)"
    by (simp add: IsItemBankable_def Let_def cloth_def IsConjuredConsumable_def IsSoulBound_def) (simp add: sample_player_def blank_item_def has_flag_def)
  moreover have "\<exists>pr. bankable_at sample_env sample_player 255 23 0 pr" using sample_bankable by blast
  ultimately show ?thesis
    by (simp add: deposit_call_def Let_def sample_tokens sample_get GetMaxStackSize_def cloth_def word_le_nat_alt)
qed

lemma sample_room [simp]: "tab_has_room sample_bank 1"
proof -
  have "(5 :: uint32) = of_nat 5" by simp
  then have "(5 :: uint32) \<in> set bank_slots" unfolding bank_slots_def by (auto simp del: of_nat_numeral)
  then show ?thesis unfolding tab_has_room_def using sample_free by blast
qed

theorem DepositItem_banks_stack_witness:
  "bank_count (gs_bk (DepositItem sample_env ''DepositItem:0:1:1:0:5'' sample_state)) 2589 = 32"
proof -
  have "bank_count sample_bank 2589 = 27" by (simp add: bank_count_def sample_bank_def bpieces_def bank_cloth_def)
  with DepositItem_banks_stack [OF sample_ok sample_call, of cloth] show ?thesis by (simp add: cloth_def)
qed

text \<open>Each round of a spread-out deposit takes at least one piece off the player's stack and leaves at
  least one, whatever numbers the bank item holds: the mutual recursion of
  \<open>DepositItemInFreeSlot\<close> and \<open>DepositItemInSlot\<close> ends.\<close>

lemma deposit_round_progress:
  assumes "free_slot_choice E B tab it = StackSome i n remainer"
  shows "0 < unat n \<and> unat n < unat (i_count it) \<and> unat remainer < unat (i_count it)"
  using free_slot_progress [OF assms] by (simp add: unat_sub32)

lemma deposit_round_progress_example:
  "\<exists>i n remainer. free_slot_choice sample_env sample_bank 1 (blank_item\<lparr>i_entry := 2589, i_count := 19\<rparr>) = StackSome i n remainer \<and>
     unat remainer < 19"
proof -
  have "free_slot_choice sample_env sample_bank 1 (blank_item\<lparr>i_entry := 2589, i_count := 19\<rparr>) = StackSome 1 8 11" by code_simp
  with deposit_round_progress [OF this] show ?thesis by (simp add: blank_item_def)
qed

text \<open>C23: only the maximal stack size bounds the count of a deposit message. A message for a free slot
  with a count above the pieces of the stack is carried out: the bank gains the pieces of the message,
  and the player's stack wraps around below zero instead of shrinking, so pieces are made from nothing.\<close>

theorem DepositItem_overdraws:
  assumes "state_ok E s" and "deposit_call E s msg p t sl n" and "sl \<noteq> 0" and "GetItem (gs_bk s) (ucast t) (ucast sl) = None"
    and "unat (i_count (iheap (gs_pl s) p)) < unat n"
  shows "unat (i_count (iheap (gs_pl (DepositItem E msg s)) p)) = 4294967296 + unat (i_count (iheap (gs_pl s) p)) - unat n \<and>
    bank_count (gs_bk (DepositItem E msg s)) (i_entry (iheap (gs_pl s) p)) = bank_count (gs_bk s) (i_entry (iheap (gs_pl s) p)) + unat n"
proof -
  from assms(2) obtain b bs pr where it: "bankable_at E (gs_pl s) b bs p pr" and max: "unat n \<le> unat (pr_Stackable pr)" and ib: "in_bank (ucast t, ucast sl)"
    using assms(3) bankable_atD(2)
    by (fastforce simp: deposit_call_def Let_def in_bank_def Suc_le_eq unat_gt_0 GetMaxStackSize_def word_nat split: prod.splits)
  have "unat (i_count (iheap (gs_pl s) p)) < unat (ucast n :: uint32)" "unat (ucast n :: uint32) \<le> unat (pr_Stackable pr)" using assms(5) max by simp_all
  from DepositItemInSlot_overdraw [OF assms(1) it ib assms(4) this] show ?thesis
    by (simp add: DepositItem_new_slot [OF assms(2-4)])
qed

theorem DepositItem_overdraws_witness:
  "unat (i_count (iheap (gs_pl (DepositItem sample_env ''DepositItem:0:1:1:5:20'' sample_state)) 0)) = 4294967281 \<and>
   bank_count (gs_bk (DepositItem sample_env ''DepositItem:0:1:1:5:20'' sample_state)) 2589 = bank_count sample_bank 2589 + 20"
proof -
  have call: "deposit_call sample_env sample_state ''DepositItem:0:1:1:5:20'' 0 1 5 20"
    using sample_call by (simp add: deposit_call_def Let_def sample_tokens GetMaxStackSize_def cloth_def)
  from DepositItem_overdraws [OF sample_ok call] show ?thesis by simp
qed

section \<open>Every reachable state\<close>

text \<open>C20: the bank does not fall into disorder. From a bank in order, after any messages of any players (malformed, overdrawn and
  swapping ones included) other than an \<open>UnlockGuildBank\<close> message to a bank that has item rows in the database
  (\<open>unlock_again\<close>; \<open>UnlockGuildBank_again\<close> shows what that does), and after timer saves and rank deletions, no item pointer is
  stored twice or freed while in use, nothing is freed twice, every item is inside a tab, and a tab and
  slot name at most one item: \<open>GetItem\<close> finds exactly the item that is there.\<close>

theorem bank_reachable_struct:
  assumes "bank_run s0 s" and "bank_struct (gs_bk s0)"
  shows "bank_struct (gs_bk s) \<and>
    (\<forall>t sl q. GetItem (gs_bk s) t sl = Some q \<longleftrightarrow>
       q \<in> set (b_items (gs_bk s)) \<and> bi_tab (b_heap (gs_bk s) q) = t \<and> bi_slot (b_heap (gs_bk s) q) = sl)"
  using bank_run_struct [OF assms] bank_run_lookup [OF assms] by simp

theorem bank_reachable_struct_witness:
  "bank_struct (gs_bk (SaveToDB (HandleAddonMessages sample_env ''DepositItem:0:1:1:5:20'' sample_state)))"
proof -
  have msg: "strstr (c_str ''DepositItem:0:1:1:5:20'') ''UnlockGuildBank:'' = False" by code_simp
  have "bank_run sample_state (HandleAddonMessages sample_env ''DepositItem:0:1:1:5:20'' (sample_state\<lparr>gs_pl := sample_player\<rparr>))"
    by (intro bank_run.message bank_run.start) (simp add: unlock_again_def msg)
  moreover have "sample_state\<lparr>gs_pl := sample_player\<rparr> = sample_state" by (simp add: sample_state_def)
  ultimately have "bank_run sample_state (SaveToDB (HandleAddonMessages sample_env ''DepositItem:0:1:1:5:20'' sample_state))"
    by (intro bank_run.timer) simp
  from bank_reachable_struct [OF this] show ?thesis by simp
qed

lemma query_tabs_nonempty:
  assumes "t \<in> set (db_tabs db)" and "tr_guildid t = g" "tr_isInferno t = i" and "\<exists>m \<in> set (db_money db). mr_guildid m = g \<and> mr_isInferno m = i"
  shows "query_tabs g i db \<noteq> []"
proof -
  from assms(4) obtain m where "m \<in> set (db_money db)" "mr_guildid m = g" "mr_isInferno m = i" by blast
  with assms(1-3) have "(tr_tabs t, mr_money m, tr_info t) \<in> set (query_tabs g i db)" unfolding query_tabs_def by force
  then show ?thesis by auto
qed

text \<open>C25: \<open>UnlockGuildBank\<close> does not check whether the bank is unlocked. Sent again by a guild master
  with enough money it loads every item row of the database into the bank a second time.\<close>

theorem UnlockGuildBank_again:
  assumes "b_playerRankIndex (gs_bk s) = 0" and "Tokenizer msg CHR '':'' = [cmd, ''Ok'']" and "GUILD_BANK_COST \<le> pl_money (gs_pl s)"
  shows "length (b_items (gs_bk (UnlockGuildBank E msg s))) =
    length (b_items (gs_bk s)) + length (query_items (b_guildid (gs_bk s)) (b_infernoBank (gs_bk s)) (gs_db s))"
proof -
  have one: "length (b_items (load_item E r B)) = Suc (length (b_items B))" for r B
    by (simp add: load_item_def Let_def balloc_def)
  have load: "length (b_items (fold (load_item E) rs B)) = length (b_items B) + length rs" for rs B
    by (induction rs arbitrary: B) (simp_all add: one)
  let ?g = "b_guildid (gs_bk s)" let ?i = "b_infernoBank (gs_bk s)"
  have rows: "query_tabs ?g ?i (exec_sql (InsertMoney ?g ?i 0) (exec_sql (InsertTabs ?g ?i 1) (gs_db s))) \<noteq> []"
  proof -
    let ?db = "exec_sql (InsertMoney ?g ?i 0) (exec_sql (InsertTabs ?g ?i 1) (gs_db s))"
    let ?t = "\<lparr>tr_guildid = ?g, tr_isInferno = ?i, tr_tabs = 1, tr_info = default_tabs\<rparr>"
    let ?m = "\<lparr>mr_guildid = ?g, mr_isInferno = ?i, mr_money = 0\<rparr>"
    have t: "?t \<in> set (db_tabs ?db)" by simp
    have "\<exists>m \<in> set (db_money ?db). mr_guildid m = ?g \<and> mr_isInferno m = ?i"
      by (cases "list_ex (\<lambda>x. mr_guildid x = ?g \<and> mr_isInferno x = ?i) (db_money (gs_db s))")
        (simp add: list_ex_iff, simp add: bexI [of _ ?m])
    then show ?thesis using query_tabs_nonempty [OF t] by simp
  qed
  have items: "query_items ?g ?i (exec_sql (InsertMoney ?g ?i 0) (exec_sql (InsertTabs ?g ?i 1) (gs_db s))) = query_items ?g ?i (gs_db s)"
    by (simp add: query_items_def)
  have tabs: "b_items (fold load_tabs_row rs B) = b_items B" for rs B by (rule bviewD(1) [OF tabs_rows_view])
  have log: "b_items (gs_bk (LoadLog E u)) = b_items (gs_bk u)" for u
    by (simp add: LoadLog_def Let_def bviewD(1) [OF log_rows_view])
  show ?thesis
    using assms rows by (simp add: UnlockGuildBank_def Let_def log LoadBank_def load tabs items word_nat del: exec_sql.simps)
qed

theorem UnlockGuildBank_again_witness:
  "length (b_items (gs_bk (UnlockGuildBank sample_env ''UnlockGuildBank:Ok'' sample_state))) = 4"
proof -
  have msg: "Tokenizer ''UnlockGuildBank:Ok'' CHR '':'' = [''UnlockGuildBank'', ''Ok'']" by code_simp
  have m: "GUILD_BANK_COST \<le> pl_money (gs_pl sample_state)" by (simp add: sample_player_def word_nat)
  have r: "b_playerRankIndex (gs_bk sample_state) = 0" by (simp add: sample_bank_def)
  from UnlockGuildBank_again [OF r msg m, of sample_env] show ?thesis
    by (simp add: sample_bank_def sample_db_def query_items_def item_row_def bank_cloth_def)
qed

section \<open>Memory and database\<close>

text \<open>A new guid is new: while no item has the largest guid the column takes, \<open>GetNewGuid\<close> gives a number
  that no item of the bank has.\<close>

lemma GetNewGuid_unused:
  assumes "guid_room B" and "q \<in> set (b_items B)"
  shows "bi_guid (b_heap B q) \<noteq> GetNewGuid B"
  by (rule GetNewGuid_fresh [OF assms])

lemma sample_guid_room [simp]: "guid_room sample_bank"
  by (simp add: guid_room_def sample_bank_def bank_cloth_def)

lemma GetNewGuid_unused_example: "bi_guid (b_heap sample_bank 1) \<noteq> GetNewGuid sample_bank"
  by (rule GetNewGuid_unused [OF sample_guid_room]) (simp add: sample_bank_def)

text \<open>C11: the database follows memory. The bank only queues copies of changed items. Take a bank in step with its table, of a guild
  whose item rows are all of the game mode of this bank. After any session of item messages that are no
  swaps, deposit items whose values fit the columns of the table and leave a guid free, saving writes the
  queue so that the item table holds, guid by guid, exactly the rows of the items in memory: nothing is
  lost, duplicated or stale. The condition on the game mode is needed: see \<open>other_mode_update_lost\<close>.\<close>

theorem session_saved:
  assumes "bank_struct (gs_bk s)" and "in_step (gs_db s) (gs_bk s)" and "one_mode (b_guildid (gs_bk s)) (b_infernoBank (gs_bk s)) (gs_db s)"
    and "\<not> b_saveLock (gs_bk s)" and "guarded_run (handle_transfer E) (sync_ok E) ms s" and "s' = fold (handle_transfer E) ms s"
  shows "item_at (b_guildid (gs_bk s')) (b_infernoBank (gs_bk s')) (gs_db (SaveToDB s')) = mem_rows (gs_bk s')"
  using ses.run_good [OF conjI [OF assms(1)] assms(5)] session_open [OF assms(4), of E ms] assms(2,3,6)
  by (simp add: synced_saved synced_def)

lemma sample_in_step [simp]: "in_step sample_db sample_bank" "one_mode (b_guildid sample_bank) (b_infernoBank sample_bank) sample_db"
proof -
  have "replay (b_itemUpdateQueue sample_bank) (item_at (b_guildid sample_bank) (b_infernoBank sample_bank) sample_db) = Some (mem_rows sample_bank)"
    by (simp add: sample_bank_def sample_db_def item_at_def mem_rows_def fun_eq_iff item_row_def bank_cloth_def)
  moreover have "guids_ok sample_bank" by (simp add: guids_ok_def of_bank_def row_fits_item int_fits_def sample_bank_def bank_cloth_def)
  moreover have "keys_ok sample_db" by (simp add: keys_ok_def sample_db_def row_key_def bank_cloth_def)
  ultimately show "in_step sample_db sample_bank" by (simp add: in_step_def)
  show "one_mode (b_guildid sample_bank) (b_infernoBank sample_bank) sample_db"
    by (simp add: one_mode_def sample_bank_def sample_db_def bank_cloth_def)
qed

lemma sample_item_fits: "item_fits (iheap sample_player p)"
proof -
  have "item_fits blank_item" by code_simp
  moreover have "item_fits (iheap sample_player p) = item_fits blank_item" by (rule item_fits_cong) (simp_all add: sample_player_def)
  ultimately show ?thesis by simp
qed

lemma sample_sync_ok:
  "guarded_run (handle_transfer sample_env) (sync_ok sample_env) [Deposit ''DepositItem:0:1:1:5:3'', Move ''MoveItem:1:1:9''] sample_state"
  by (simp add: sync_deposit_def Let_def sample_tokens sample_get no_swap_to_def sample_item_fits)

theorem session_saved_witness:
  "\<exists>s'. s' = fold (handle_transfer sample_env) [Deposit ''DepositItem:0:1:1:5:3'', Move ''MoveItem:1:1:9''] sample_state \<and>
     item_at (b_guildid (gs_bk s')) (b_infernoBank (gs_bk s')) (gs_db (SaveToDB s')) = mem_rows (gs_bk s')"
proof -
  have "\<not> b_saveLock (gs_bk sample_state)" by (simp add: sample_bank_def)
  from session_saved [OF _ _ _ this sample_sync_ok refl] show ?thesis by simp
qed

text \<open>C21: a restart loses nothing. Take a bank in step with its table, of a guild whose item rows are all of the game mode of this
  bank. After a save, \<open>LoadBank\<close> on an empty bank object of the same guild brings back exactly the items of
  the bank with the values of all columns: guid, tab, slot, template, creators, count, duration, charges,
  flags, enchantments, random property, transmogrification, durability, text and loot flag. \<open>in_step\<close> asks that
  these values fit the columns.\<close>

theorem saved_bank_reloads:
  assumes "bank_struct (gs_bk s)" and "in_step (gs_db s) (gs_bk s)" and "one_mode (b_guildid (gs_bk s)) (b_infernoBank (gs_bk s)) (gs_db s)"
    and "\<not> b_saveLock (gs_bk s)"
    and "gs_db s0 = gs_db (SaveToDB s)" and "b_guildid (gs_bk s0) = b_guildid (gs_bk s)" and "b_infernoBank (gs_bk s0) = b_infernoBank (gs_bk s)"
    and "b_items (gs_bk s0) = []" and "query_tabs (b_guildid (gs_bk s)) (b_infernoBank (gs_bk s)) (gs_db s0) \<noteq> []"
  shows "mset (bank_rows (gs_bk (LoadBank E s0))) = mset (bank_rows (gs_bk s))"
proof -
  let ?B = "gs_bk (SaveToDB s)"
  note id = bidD(1,2) [OF SaveToDB_bk(2) [of s]]
  have sy: "synced (gs_db s) (gs_bk s)" using assms(2,3) by (simp add: synced_def)
  have v: "bview ?B = bview (gs_bk s)" by simp
  have "mset (bank_rows (gs_bk (LoadBank E s0))) = mset (bank_rows ?B)"
    by (rule load_saved [OF SaveToDB_synced(1) [OF sy] _ SaveToDB_synced(2) [OF sy assms(4)] assms(5)])
      (use assms bank_struct_view [OF v] in \<open>simp_all add: id\<close>)
  also have "bank_rows ?B = bank_rows (gs_bk s)"
    by (simp add: bank_rows_def bviewD(1) [OF v] bview_itemD [OF v])
  finally show ?thesis .
qed

definition empty_bank :: Bank where
  "empty_bank = sample_bank\<lparr>b_items := [], b_next := 0\<rparr>"

theorem saved_bank_reloads_witness:
  "mset (bank_rows (gs_bk (LoadBank sample_env (sample_state\<lparr>gs_bk := empty_bank\<rparr>)))) = mset (bank_rows sample_bank)"
proof -
  have lock: "\<not> b_saveLock (gs_bk sample_state)" by (simp add: sample_bank_def)
  have save: "SaveToDB sample_state = sample_state"
    by (simp add: SaveToDB_def nothing_to_save_def) (simp add: sample_bank_def)
  have tabs: "query_tabs (b_guildid (gs_bk sample_state)) (b_infernoBank (gs_bk sample_state)) (gs_db sample_state) \<noteq> []"
    by (simp add: query_tabs_def sample_db_def sample_bank_def)
  from saved_bank_reloads [OF _ _ _ lock, of "sample_state\<lparr>gs_bk := empty_bank\<rparr>" sample_env] tabs show ?thesis
    by (simp add: save) (simp add: empty_bank_def)
qed







end
