(* ===== verification/Props_Bank_Rules.thy ===== *)
theory Props_Bank_Rules
  imports Props_Bank_Items
begin

text \<open>
  The properties of money, rights, saving and text of the guild bank.
\<close>

section \<open>Money\<close>

text \<open>C34: a money deposit moves money. For a purse within the cap and hooks that pass amounts on,
  whatever the message says, purse and bank together hold the same amount afterwards: a malformed amount,
  more than the purse holds or more than the bank can hold changes nothing.\<close>

theorem DepositMoney_conserves:
  assumes "no_hook E" and "unat (pl_money (gs_pl s)) \<le> 2147483646"
  shows "all_money (DepositMoney E msg s) = all_money s"
  by (rule DepositMoney_total [OF assms])

lemma sample_hook [simp]: "no_hook sample_env"
  by (simp add: no_hook_def sample_env_def)

theorem DepositMoney_conserves_witness: "all_money (DepositMoney sample_env ''DepositMoney:700'' sample_state) = 51000000"
proof -
  have "unat (pl_money (gs_pl sample_state)) \<le> 2147483646" by (simp add: sample_player_def)
  from DepositMoney_conserves [OF sample_hook this] show ?thesis by (simp add: all_money_def sample_player_def sample_bank_def)
qed

text \<open>C35: a money withdrawal moves money as long as purse and bank together stay within the money cap of a
  player.\<close>

theorem WithdrawMoney_conserves:
  assumes "no_hook E" and "all_money s \<le> 2147483646"
  shows "all_money (WithdrawMoney E msg s) = all_money s"
  by (rule WithdrawMoney_total [OF assms])

theorem WithdrawMoney_conserves_witness: "all_money (WithdrawMoney sample_env ''WithdrawMoney:999'' sample_state) = 51000000"
proof -
  have "all_money sample_state = 51000000" by (simp add: all_money_def sample_player_def sample_bank_def)
  with WithdrawMoney_conserves [OF sample_hook, of sample_state] show ?thesis by simp
qed

text \<open>C36: beyond the cap money is lost. When the purse cannot hold the withdrawn amount, the bank still
  pays all of it and the purse is filled to the cap only.\<close>

theorem WithdrawMoney_overflow_lost:
  assumes "parse_money msg = Some m" and "no_hook E" and "b_playerRankIndex (gs_bk s) \<le> 1" and "m \<le> b_money (gs_bk s)"
    and "unat (pl_money (gs_pl s)) \<le> 2147483646" and "unat m \<le> 2147483646" and "2147483646 < unat (pl_money (gs_pl s)) + unat m"
  shows "all_money (WithdrawMoney E msg s) + (unat (pl_money (gs_pl s)) + unat m - 2147483646) = all_money s"
  using WithdrawMoney_capped [OF assms] assms(4,7) by (simp add: all_money_def word_nat)

definition rich_state :: GState where
  "rich_state = sample_state\<lparr>gs_pl := sample_player\<lparr>pl_money := 2147000000\<rparr>\<rparr>"

theorem WithdrawMoney_overflow_lost_witness:
  "all_money (WithdrawMoney sample_env ''WithdrawMoney:1000000'' rich_state) + 516354 = all_money rich_state"
proof -
  have "Tokenizer ''WithdrawMoney:1000000'' CHR '':'' = [''WithdrawMoney'', ''1000000'']" by code_simp
  moreover have "''1000000'' = show_nat 1000000" by (simp add: show_nat.simps char_of_def bit_0)
  ultimately have "parse_money ''WithdrawMoney:1000000'' = Some 1000000" by (simp add: parse_money_def strtoul_show_nat)
  from WithdrawMoney_overflow_lost [OF this sample_hook, of rich_state] show ?thesis
    by (simp add: rich_state_def) (simp add: sample_bank_def word_nat)
qed

text \<open>Unlocking a tab costs its price, once: for a guild master and a source with enough money, purse
  and bank together lose exactly the price of the tab, and the bank has the new number of tabs.\<close>

lemma UnlockTab_exact:
  assumes "Tokenizer msg CHR '':'' = [cmd, t, src]" and "b_playerRankIndex (gs_bk s) = 0" and "no_hook E"
    and "unat (pl_money (gs_pl s)) \<le> 2147483646" and "2 \<le> unat (atoi t :: uint8)" "unat (atoi t :: uint8) \<le> MAX_TABS"
    and "unat (tab_cost (atoi t)) \<le> unat (if atoi src = (0 :: uint8) then b_money (gs_bk s) else pl_money (gs_pl s))"
  shows "all_money (UnlockTab E msg s) + unat (tab_cost (atoi t)) = all_money s \<and>
    b_tabs (gs_bk (UnlockTab E msg s)) = ucast (atoi t :: uint8)"
  using UnlockTab_paid [OF assms] by (simp add: money_sum_change_def)

lemma UnlockTab_exact_example:
  "all_money (UnlockTab sample_env ''UnlockTab:3:1'' sample_state) + 10000000 = all_money sample_state"
proof -
  have msg: "Tokenizer ''UnlockTab:3:1'' CHR '':'' = [''UnlockTab'', ''3'', ''1'']" by code_simp
  from UnlockTab_exact [OF msg _ sample_hook, of sample_state] show ?thesis
    by (simp add: tab_cost_def) (simp add: sample_bank_def sample_player_def)
qed

section \<open>Rights\<close>

text \<open>C37: a rank below the minimal rank of a tab can do nothing there. Deposit, withdraw, move and split
  messages of a member whose rank index is above the tab's \<open>minrank\<close> change neither the player nor
  the bank nor the database.\<close>

theorem low_rank_no_effect:
  assumes "b_playerRankIndex (gs_bk s) > ucast (bt_minrank (b_tabInfo (gs_bk s) (ucast (transfer_tab m))))"
  shows "no_effect s (handle_transfer E m s)"
  by (rule refused_no_effect, rule low_rank_refused [OF _ assms]) (cases m; simp add: item_action_def)

definition low_state :: GState where
  "low_state = sample_state\<lparr>gs_bk := sample_bank\<lparr>b_playerRankIndex := 6\<rparr>\<rparr>"

theorem low_rank_no_effect_witness: "no_effect low_state (handle_transfer sample_env (Withdraw ''WithdrawItem:1:1:0:0:12'') low_state)"
  by (rule low_rank_no_effect) (simp add: sample_tokens low_state_def, simp add: sample_bank_def sample_tab_def)

text \<open>The weekly limit binds. For the lowest admitted rank of a tab with a limit, once the log holds
  that many withdrawals of the player in the current week, further deposits and withdrawals there are
  refused without effect; and every withdrawal adds one entry to that count.\<close>

lemma weekly_limit_binds:
  assumes "m = Withdraw msg \<or> m = Deposit msg" and "t = transfer_tab m" and "t \<noteq> 0" "unat t \<le> MAX_TABS"
    and "b_playerRankIndex (gs_bk s) = ucast (bt_minrank (b_tabInfo (gs_bk s) (ucast t)))"
    and "bt_withdrawals (b_tabInfo (gs_bk s) (ucast t)) > 0"
    and "unat (bt_withdrawals (b_tabInfo (gs_bk s) (ucast t))) \<le> length (week_withdrawals E (gs_bk s) t)"
    and "length (week_withdrawals E (gs_bk s) t) < 256"
  shows "no_effect s (handle_transfer E m s)"
proof (rule refused_no_effect)
  have "transfer_action m = ACTION_WITHDRAW_ITEM \<or> transfer_action m = ACTION_DEPOSIT_ITEM" using assms(1) by auto
  from limit_refused [OF this assms(3-8)] show "CanAccessTab E (transfer_tab m) (transfer_action m) s = (False, s)" by (simp add: assms(2))
qed

definition spent_state :: GState where
  "spent_state = sample_state\<lparr>gs_bk := sample_bank\<lparr>b_playerRankIndex := 4, b_tabInfo := (\<lambda>_. sample_tab\<lparr>bt_withdrawals := 1\<rparr>),
     b_log := (\<lambda>_. [zero_log\<lparr>bl_player := 7, bl_tab := 1, bl_stamp := 1000000\<rparr>])\<rparr>\<rparr>"

lemma weekly_limit_binds_example:
  "no_effect spent_state (handle_transfer sample_env (Withdraw ''WithdrawItem:1:1:0:0:12'') spent_state)"
proof -
  have log: "length (week_withdrawals sample_env (gs_bk spent_state) 1) = 1"
    by (simp add: week_withdrawals_def week_start_def spent_state_def sample_bank_def sample_env_def zero_log_def Let_def)
  show ?thesis
    by (rule weekly_limit_binds [where t = 1, OF disjI1 [OF refl]])
      (simp_all add: log sample_tokens, simp_all add: spent_state_def sample_bank_def sample_tab_def)
qed

text \<open>Every withdrawal counts against the limit: logging it raises the player's count of the week by one
  (with the clock inside its 32 bits).\<close>

lemma withdrawal_counted:
  assumes "1 \<le> unat t" "unat t \<le> MAX_TABS" and "0 \<le> be_now E" "be_now E < 4294967296" and "week_start E \<le> be_now E"
  shows "length (week_withdrawals E (gs_bk (LogAction E ACTION_WITHDRAW_ITEM t i n b s)) (ucast t)) =
    Suc (length (week_withdrawals E (gs_bk s) (ucast t)))"
  by (rule week_log_grows [OF assms])

lemma withdrawal_counted_example:
  "length (week_withdrawals sample_env (gs_bk (LogAction sample_env ACTION_WITHDRAW_ITEM 1 2589 4 None sample_state)) 1) = 1"
  using withdrawal_counted [of 1 sample_env 2589 4 None sample_state]
  by (simp add: week_start_def sample_env_def Let_def) (simp add: week_withdrawals_def sample_bank_def)

text \<open>Only the guild master unlocks the bank, unlocks tabs and changes tab settings: for any other rank
  these commands have no effect.\<close>

lemma guild_master_only:
  assumes "b_playerRankIndex (gs_bk s) \<noteq> 0"
  shows "no_effect s (UnlockGuildBank E msg s) \<and> no_effect s (UnlockTab E msg s) \<and> no_effect s (UpdateTab E msg s)"
  using not_gm_no_effect [OF assms] by blast

lemma guild_master_only_example: "no_effect low_state (UnlockTab sample_env ''UnlockTab:2:0'' low_state)"
  using guild_master_only [of low_state sample_env "''UnlockTab:2:0''"] by (simp add: low_state_def)

text \<open>The bank is closed away from a vault keeper and while it is locked for saving: no command of any
  message runs, only the acting player is noted.\<close>

lemma closed_bank:
  assumes "\<not> canUseGuildBank E \<or> b_saveLock (gs_bk s)"
  shows "no_effect (SetPlayer s) (HandleAddonMessages E msg s)"
  using assms HandleAddonMessages_away [of E msg s] HandleAddonMessages_locked [of s E msg]
  by (cases "canUseGuildBank E") auto

lemma closed_bank_example:
  "no_effect (SetPlayer sample_state) (HandleAddonMessages (sample_env\<lparr>be_selected := None\<rparr>) ''DepositItem:0:1:1:5:3'' sample_state)"
proof (rule closed_bank)
  have "\<not> canUseGuildBank (sample_env\<lparr>be_selected := None\<rparr>)"
    by (simp add: canUseGuildBank_def GetGuildBankNpcEntries_def npc_entries_def sample_env_def)
  then show "\<not> canUseGuildBank (sample_env\<lparr>be_selected := None\<rparr>) \<or> b_saveLock (gs_bk sample_state)" ..
qed

section \<open>Saving\<close>

text \<open>Saving is idempotent: a second \<open>SaveToDB\<close> issues no statement, so no log entry and no item
  is written twice.\<close>

lemma SaveToDB_idempotent: "SaveToDB (SaveToDB s) = SaveToDB s"
  by (rule SaveToDB_again)

text \<open>A money change reaches the database: an unlocked save of changed money that fits the column sets the money of exactly the
  rows of this bank to the bank's money.\<close>

lemma SaveToDB_writes_money:
  assumes "\<not> b_saveLock (gs_bk s)" and "b_money_changed (gs_bk s)" and "int_fits (b_money (gs_bk s))"
  shows "db_money (gs_db (SaveToDB s)) =
    map (\<lambda>r. if mr_guildid r = b_guildid (gs_bk s) \<and> mr_isInferno r = b_infernoBank (gs_bk s) then r\<lparr>mr_money := b_money (gs_bk s)\<rparr> else r)
      (db_money (gs_db s))"
  by (rule SaveToDB_money [OF assms])

lemma SaveToDB_writes_money_example:
  "db_money (gs_db (SaveToDB (sample_state\<lparr>gs_bk := sample_bank\<lparr>b_money := 5, b_money_changed := True\<rparr>\<rparr>))) =
   [\<lparr>mr_guildid = 3, mr_isInferno = False, mr_money = 5\<rparr>]"
  using SaveToDB_writes_money [of "sample_state\<lparr>gs_bk := sample_bank\<lparr>b_money := 5, b_money_changed := True\<rparr>\<rparr>"]
  by (simp add: sample_db_def int_fits_def) (simp add: sample_bank_def)

section \<open>Text\<close>

text \<open>C38: an item comes back as it went in. When flags and durability fit the 8-bit columns of a bank item,
  depositing and withdrawing restores creator, gift creator, duration, charges, flags, all enchantments,
  random property, transmogrification, durability, text and loot flag, through the text form of charges and
  enchantments.\<close>

theorem clone_round_trip:
  assumes "bank_fields_fit it"
  shows "bank_fields (CloneItem_to_player g (CloneItem_to_bank E inferno it b) new) = bank_fields it"
  by (rule clone_back [OF assms])

theorem clone_round_trip_witness:
  "bank_fields (CloneItem_to_player 9 (CloneItem_to_bank sample_env False (blank_item\<lparr>i_enchant := replicate 21 4000000000, i_durability := 45\<rparr>)
     (bank_cloth 1 1 1)) blank_item) = bank_fields (blank_item\<lparr>i_enchant := replicate 21 4000000000, i_durability := 45\<rparr>)"
  by (rule clone_round_trip) (simp add: bank_fields_fit_def blank_item_def)

text \<open>C39: a log query delivers every line. The messages \<open>SendTabLog\<close> sends for a tab are the packed lines
  of the last entries; a client that strips the heads, restores the separators and stops at the
  \<open>end\<close> message reads exactly these lines, in order and complete.\<close>

theorem SendTabLog_delivers:
  assumes "Tokenizer msg CHR '':'' = [cmd, t]" and "atoi t \<noteq> (0 :: uint8)" "unat (atoi t :: uint8) \<le> MAX_TABS"
  shows "\<exists>ms. gs_out (SendTabLog msg s) = gs_out s @ map SendAddonMessage ms \<and>
    unpack_lines (''TabLog:'' @ to_string (atoi t :: uint8) @ '':'') CHR ''='' ms =
      Some (concat (map log_line (last_lines (b_log (gs_bk s) (ucast (atoi t :: uint8))))))"
proof -
  let ?h = "''TabLog:'' @ to_string (atoi t :: uint8) @ '':''"
  let ?ls = "map log_line (last_lines (b_log (gs_bk s) (ucast (atoi t :: uint8))))"
  have "unpack_lines ?h CHR ''='' (pack_lines ?h (?h @ []) ?ls) = Some ([] @ concat ?ls)"
    by (rule unpack_pack) (auto simp: log_lines_ok)
  moreover have "SendTabLog msg s = send_all (pack_lines ?h ?h ?ls) s"
    using assms by (simp add: SendTabLog_def Let_def)
  ultimately show ?thesis by (auto simp: send_all_out)
qed

theorem SendTabLog_delivers_witness:
  "\<exists>ms. gs_out (SendTabLog ''GetTabLog:1'' spent_state) = gs_out spent_state @ map SendAddonMessage ms \<and>
     unpack_lines (''TabLog:'' @ to_string (atoi ''1'' :: uint8) @ '':'') CHR ''='' ms =
       Some (concat (map log_line (last_lines (b_log (gs_bk spent_state) (ucast (atoi ''1'' :: uint8))))))"
proof -
  have "Tokenizer ''GetTabLog:1'' CHR '':'' = [''GetTabLog'', ''1'']" by code_simp
  from SendTabLog_delivers [OF this] show ?thesis by simp
qed

text \<open>C40: what a client joins the server takes apart: tokens without the separator and without NUL, the last
  one not empty, come back from the \<open>Tokenizer\<close> unchanged, empty tokens in between included.\<close>

theorem Tokenizer_reads_join:
  assumes "\<forall>t \<in> set ts. plain_token sep t" and "ts \<noteq> [] \<longrightarrow> last ts \<noteq> []"
  shows "Tokenizer (join sep ts) sep = ts"
  by (rule Tokenizer_join [OF assms])

theorem Tokenizer_reads_join_witness: "Tokenizer (join CHR '':'' [''UpdateTab'', ''1'', [], ''5'']) CHR '':'' = [''UpdateTab'', ''1'', [], ''5'']"
  by (rule Tokenizer_reads_join) (simp_all add: plain_token_def)

end
