(* ===== verification/Utf8_Names.thy ===== *)
theory Utf8_Names
  imports Text_Util
begin

unbundle bit_operations_syntax

text \<open>
  Names in UTF-8: the checked decoder and encoder the server uses (dep/include/utf8cpp: core.h,
  checked.h), the conversions \<open>Utf8toWStr\<close> and \<open>WStrToUtf8\<close> and the case tables of src/shared/Util,
  and \<open>normalizePlayerName\<close> of src/game/ObjectMgr.cpp, which every handler that takes a name calls.

  A \<open>std::string\<close> is its bytes. The wide string holds what \<open>utf8to16\<close> writes, which casts each unit
  to 16 bits, so a \<open>wchar_t\<close> is a \<open>uint16\<close>. A position of the decoder is the rest of the text from
  there on; the exceptions of the library are the left values of a sum.
\<close>

section \<open>The decoder\<close>

datatype utf_error = NOT_ENOUGH_ROOM | INVALID_LEAD | INCOMPLETE_SEQUENCE | OVERLONG_SEQUENCE | INVALID_CODE_POINT

definition mask8 :: "char \<Rightarrow> uint32" where
  "mask8 oc = of_char oc"

definition is_trail :: "char \<Rightarrow> bool" where
  "is_trail oc \<longleftrightarrow> drop_bit 6 (mask8 oc) = 2"

definition is_lead_surrogate :: "uint32 \<Rightarrow> bool" where
  "is_lead_surrogate cp \<longleftrightarrow> cp \<ge> 0xd800 \<and> cp \<le> 0xdbff"

definition is_trail_surrogate :: "uint32 \<Rightarrow> bool" where
  "is_trail_surrogate cp \<longleftrightarrow> cp \<ge> 0xdc00 \<and> cp \<le> 0xdfff"

definition is_surrogate :: "uint32 \<Rightarrow> bool" where
  "is_surrogate cp \<longleftrightarrow> cp \<ge> 0xd800 \<and> cp \<le> 0xdfff"

definition is_code_point_valid :: "uint32 \<Rightarrow> bool" where
  "is_code_point_valid cp \<longleftrightarrow> cp \<le> 0x10ffff \<and> \<not> is_surrogate cp \<and> cp \<noteq> 0xfffe \<and> cp \<noteq> 0xffff"

definition sequence_length :: "char \<Rightarrow> nat" where
  "sequence_length c =
     (let lead = mask8 c
      in if lead < 0x80 then 1
         else if drop_bit 5 lead = 0x6 then 2
         else if drop_bit 4 lead = 0xe then 3
         else if drop_bit 3 lead = 0x1e then 4
         else 0)"

definition is_overlong_sequence :: "uint32 \<Rightarrow> nat \<Rightarrow> bool" where
  "is_overlong_sequence cp len =
     (if cp < 0x80 then len \<noteq> 1
      else if cp < 0x800 then len \<noteq> 2
      else if cp < 0x10000 then len \<noteq> 3
      else False)"

text \<open>The decoders of one sequence give the code point and the position of its last octet.\<close>

fun get_sequence_1 :: "string \<Rightarrow> utf_error + uint32 \<times> string" where
  "get_sequence_1 [] = Inl NOT_ENOUGH_ROOM"
| "get_sequence_1 (a # s) = Inr (mask8 a, a # s)"

fun get_sequence_2 :: "string \<Rightarrow> utf_error + uint32 \<times> string" where
  "get_sequence_2 (a # b # s) =
     (if is_trail b then Inr ((push_bit 6 (mask8 a) AND 0x7ff) + (mask8 b AND 0x3f), b # s)
      else Inl INCOMPLETE_SEQUENCE)"
| "get_sequence_2 _ = Inl NOT_ENOUGH_ROOM"

fun get_sequence_3 :: "string \<Rightarrow> utf_error + uint32 \<times> string" where
  "get_sequence_3 (a # b # s) =
     (if is_trail b then
        (let cp = (push_bit 12 (mask8 a) AND 0xffff) + (push_bit 6 (mask8 b) AND 0xfff)
         in case s of
              [] \<Rightarrow> Inl NOT_ENOUGH_ROOM
            | c # s' \<Rightarrow> if is_trail c then Inr (cp + (mask8 c AND 0x3f), c # s') else Inl INCOMPLETE_SEQUENCE)
      else Inl INCOMPLETE_SEQUENCE)"
| "get_sequence_3 _ = Inl NOT_ENOUGH_ROOM"

fun get_sequence_4 :: "string \<Rightarrow> utf_error + uint32 \<times> string" where
  "get_sequence_4 (a # b # s) =
     (if is_trail b then
        (let cp = (push_bit 18 (mask8 a) AND 0x1fffff) + (push_bit 12 (mask8 b) AND 0x3ffff)
         in case s of
              [] \<Rightarrow> Inl NOT_ENOUGH_ROOM
            | c # s' \<Rightarrow>
                if is_trail c then
                  (let cp = cp + (push_bit 6 (mask8 c) AND 0xfff)
                   in case s' of
                        [] \<Rightarrow> Inl NOT_ENOUGH_ROOM
                      | d # s'' \<Rightarrow>
                          if is_trail d then Inr (cp + (mask8 d AND 0x3f), d # s'') else Inl INCOMPLETE_SEQUENCE)
                else Inl INCOMPLETE_SEQUENCE)
      else Inl INCOMPLETE_SEQUENCE)"
| "get_sequence_4 _ = Inl NOT_ENOUGH_ROOM"

text \<open>The text is not empty here (\<open>utf8to16\<close> compares the position with the end first).\<close>

fun validate_next :: "string \<Rightarrow> utf_error + uint32 \<times> string" where
  "validate_next [] = Inl NOT_ENOUGH_ROOM"
| "validate_next (a # s) =
     (let len = sequence_length a
      in if len = 0 then Inl INVALID_LEAD
         else case (if len = 1 then get_sequence_1 (a # s)
                    else if len = 2 then get_sequence_2 (a # s)
                    else if len = 3 then get_sequence_3 (a # s)
                    else get_sequence_4 (a # s)) of
                Inl err \<Rightarrow> Inl err
              | Inr (cp, it) \<Rightarrow>
                  if is_code_point_valid cp then
                    (if \<not> is_overlong_sequence cp len then Inr (cp, tl it) else Inl OVERLONG_SEQUENCE)
                  else Inl INVALID_CODE_POINT)"

lemma get_sequence_shorter:
  "get_sequence_1 s = Inr (cp, it) \<Longrightarrow> length it \<le> length s"
  "get_sequence_2 s = Inr (cp, it) \<Longrightarrow> length it \<le> length s"
  "get_sequence_3 s = Inr (cp, it) \<Longrightarrow> length it \<le> length s"
  "get_sequence_4 s = Inr (cp, it) \<Longrightarrow> length it \<le> length s"
  by (auto simp: Let_def split: if_splits list.splits
        elim!: get_sequence_1.elims get_sequence_2.elims get_sequence_3.elims get_sequence_4.elims)

lemma validate_next_shorter: "validate_next s = Inr (cp, s') \<Longrightarrow> length s' < length s"
  by (cases s) (auto simp: Let_def split: if_splits sum.splits prod.splits dest!: get_sequence_shorter)

text \<open>\<open>utf8to16\<close>, whose calls of \<open>next\<close> throw the error of \<open>validate_next\<close>.\<close>

definition utf16_units :: "uint32 \<Rightarrow> uint16 list" where
  "utf16_units cp =
     (if cp > 0xffff then [ucast (drop_bit 10 cp + (0xd800 - drop_bit 10 0x10000)), ucast ((cp AND 0x3ff) + 0xdc00)]
      else [ucast cp])"

function utf8to16 :: "string \<Rightarrow> utf_error + uint16 list" where
  "utf8to16 s =
     (if s = [] then Inr []
      else case validate_next s of
             Inl err \<Rightarrow> Inl err
           | Inr (cp, s') \<Rightarrow>
               (case utf8to16 s' of Inl err \<Rightarrow> Inl err | Inr us \<Rightarrow> Inr (utf16_units cp @ us)))"
  by pat_completeness auto
termination
  by (relation "measure length") (auto dest: validate_next_shorter)

declare utf8to16.simps [simp del]

section \<open>The encoder\<close>

datatype utf_exception = invalid_code_point uint32 | invalid_utf16 uint16

definition put8 :: "uint32 \<Rightarrow> char" where
  "put8 w = char_of (unat w)"

definition append_cp :: "uint32 \<Rightarrow> utf_exception + string" where
  "append_cp cp =
     (if \<not> is_code_point_valid cp then Inl (invalid_code_point cp)
      else if cp < 0x80 then Inr [put8 cp]
      else if cp < 0x800 then Inr [put8 (drop_bit 6 cp OR 0xc0), put8 ((cp AND 0x3f) OR 0x80)]
      else if cp < 0x10000 then
        Inr [put8 (drop_bit 12 cp OR 0xe0), put8 ((drop_bit 6 cp AND 0x3f) OR 0x80), put8 ((cp AND 0x3f) OR 0x80)]
      else
        Inr [put8 (drop_bit 18 cp OR 0xf0), put8 ((drop_bit 12 cp AND 0x3f) OR 0x80),
             put8 ((drop_bit 6 cp AND 0x3f) OR 0x80), put8 ((cp AND 0x3f) OR 0x80)])"

definition SURROGATE_OFFSET :: uint32 where
  "SURROGATE_OFFSET = 0x10000 - push_bit 10 0xd800 - 0xdc00"

fun utf16to8 :: "uint16 list \<Rightarrow> utf_exception + string" where
  "utf16to8 [] = Inr []"
| "utf16to8 (u # us) =
     (let cp = ucast u
      in if is_lead_surrogate cp then
           (case us of
              [] \<Rightarrow> Inl (invalid_utf16 u)
            | t # us' \<Rightarrow>
                if is_trail_surrogate (ucast t) then
                  (case append_cp (push_bit 10 cp + ucast t + SURROGATE_OFFSET) of
                     Inl e \<Rightarrow> Inl e
                   | Inr bs \<Rightarrow> (case utf16to8 us' of Inl e \<Rightarrow> Inl e | Inr r \<Rightarrow> Inr (bs @ r)))
                else Inl (invalid_utf16 t))
         else if is_trail_surrogate cp then Inl (invalid_utf16 u)
         else
           (case append_cp cp of
              Inl e \<Rightarrow> Inl e
            | Inr bs \<Rightarrow> (case utf16to8 us of Inl e \<Rightarrow> Inl e | Inr r \<Rightarrow> Inr (bs @ r))))"

section \<open>Wide strings and names\<close>

text \<open>Both conversions give whether they succeeded and the string they leave.\<close>

definition Utf8toWStr :: "string \<Rightarrow> bool \<times> uint16 list" where
  "Utf8toWStr s = (case utf8to16 s of Inl _ \<Rightarrow> (False, []) | Inr w \<Rightarrow> (True, w))"

definition WStrToUtf8 :: "uint16 list \<Rightarrow> bool \<times> string" where
  "WStrToUtf8 w = (case utf16to8 w of Inl _ \<Rightarrow> (False, []) | Inr s \<Rightarrow> (True, s))"

definition wcharToUpper :: "uint16 \<Rightarrow> uint16" where
  "wcharToUpper w =
     (if w \<ge> 0x61 \<and> w \<le> 0x7a then w - 0x20
      else if w = 0xdf then 0x1e9e
      else if w \<ge> 0xe0 \<and> w \<le> 0xf6 then w - 0x20
      else if w \<ge> 0xf8 \<and> w \<le> 0xfe then w - 0x20
      else if w \<ge> 0x101 \<and> w \<le> 0x12f \<and> w mod 2 = 1 then w - 1
      else if w \<ge> 0x430 \<and> w \<le> 0x44f then w - 0x20
      else if w = 0x451 then 0x401
      else w)"

definition wcharToLower :: "uint16 \<Rightarrow> uint16" where
  "wcharToLower w =
     (if w \<ge> 0x41 \<and> w \<le> 0x5a then w + 0x20
      else if w \<ge> 0xc0 \<and> w \<le> 0xd6 then w + 0x20
      else if w \<ge> 0xd8 \<and> w \<le> 0xde then w + 0x20
      else if w \<ge> 0x100 \<and> w \<le> 0x12e \<and> w mod 2 = 0 then w + 1
      else if w = 0x1e9e then 0xdf
      else if w = 0x401 then 0x451
      else if w \<ge> 0x410 \<and> w \<le> 0x42f then w + 0x20
      else w)"

text \<open>\<open>wstr_buf[0]\<close> of an empty wide string would be its terminator; a non-empty name never decodes to
  one. \<open>name[1]\<close> of a one-byte name is the terminator.\<close>

fun capitalize :: "uint16 list \<Rightarrow> uint16 list" where
  "capitalize [] = []"
| "capitalize (w # ws) = wcharToUpper w # map wcharToLower ws"

definition starts_sharp_s :: "string \<Rightarrow> bool" where
  "starts_sharp_s name \<longleftrightarrow> take 2 name = [CHR 0xC3, CHR 0x9F]"

definition normalizePlayerName :: "string \<Rightarrow> nat \<Rightarrow> bool \<Rightarrow> bool \<times> string" where
  "normalizePlayerName name max_len checkCaps =
     (if name = [] then (False, name)
      else if starts_sharp_s name then (False, name)
      else
        (let (ok, wstr_buf) = Utf8toWStr name
         in if \<not> ok then (False, name)
            else if length wstr_buf > max_len then (False, name)
            else WStrToUtf8 (if checkCaps then capitalize wstr_buf else wstr_buf)))"

end
