(* ===== verification/Utf8_Roundtrip.thy ===== *)
theory Utf8_Roundtrip
  imports Utf8_Names
begin

unbundle bit_operations_syntax

text \<open>
  Decoder and encoder of the name layer are inverse to each other on the texts they accept: octets
  and bits as numbers, one code point (\<open>decode_encode\<close>, \<open>encode_decode\<close>), whole texts
  (\<open>utf8to16_utf16to8\<close>, \<open>utf16to8_utf8to16\<close>). The case tables are idempotent.
\<close>

section \<open>Octets and bits as numbers\<close>

lemma or_high: "a < 2 ^ k \<Longrightarrow> a OR b * 2 ^ k = a + b * 2 ^ k" for a b :: nat
proof -
  assume "a < 2 ^ k"
  then have t: "take_bit k a = a" by (simp add: take_bit_nat_eq_self)
  have "a AND push_bit k b = 0"
    by (rule bit_eqI) (metis t bit_and_iff bit_push_bit_iff_nat bit_take_bit_iff bit_0_eq bot_apply bot_bool_def leD)
  then show ?thesis by (metis disjunctive_add_eq_or push_bit_eq_mult)
qed

lemma of_char_lt: "(of_char c :: nat) < 256"
  by (metis char_of_char of_char_of mod_less_divisor zero_less_numeral)

lemma unat_mask8 [simp]: "unat (mask8 c) = of_char c"
proof -
  have "mask8 c = of_nat (of_char c)" by (simp add: mask8_def of_nat_of_char)
  moreover have "(of_char c :: nat) < 4294967296" using of_char_lt [of c] by linarith
  ultimately show ?thesis by (simp add: unat_of_nat)
qed

lemma unat_and_mask: "unat (w AND mask n) = unat w mod 2 ^ n" for w :: uint32
  unfolding take_bit_eq_mask [symmetric] unsigned_take_bit_eq by (simp add: take_bit_eq_mod)

lemma unat_and_masks:
  fixes w :: uint32
  shows "unat (w AND 0x3f) = unat w mod 64" "unat (w AND 0x3ff) = unat w mod 1024" "unat (w AND 0x7ff) = unat w mod 2048"
    "unat (w AND 0xfff) = unat w mod 4096" "unat (w AND 0xffff) = unat w mod 65536"
    "unat (w AND 0x3ffff) = unat w mod 262144" "unat (w AND 0x1fffff) = unat w mod 2097152"
  using unat_and_mask [of w 6] unat_and_mask [of w 10] unat_and_mask [of w 11] unat_and_mask [of w 12]
    unat_and_mask [of w 16] unat_and_mask [of w 18] unat_and_mask [of w 21]
  by (simp_all add: mask_numeral)

lemma unat_drop: "unat (drop_bit n w) = unat w div 2 ^ n" for w :: uint32
  unfolding unat_drop_bit_eq by (rule drop_bit_eq_div)

lemma unat_push: "unat (push_bit n w) = unat w * 2 ^ n mod 4294967296" for w :: uint32
  unfolding unsigned_push_bit_eq by (simp add: take_bit_eq_mod push_bit_eq_mult)

lemma unat_or: "unat (v OR w) = unat v OR unat w" for v w :: uint32
  by (simp add: unsigned_or_eq)

lemma or_marks:
  fixes a :: nat
  shows "a < 64 \<Longrightarrow> a OR 0x80 = a + 0x80" "a < 32 \<Longrightarrow> a OR 0xc0 = a + 0xc0" "a < 16 \<Longrightarrow> a OR 0xe0 = a + 0xe0"
    "a < 8 \<Longrightarrow> a OR 0xf0 = a + 0xf0"
  using or_high [of a 6 2] or_high [of a 5 6] or_high [of a 4 14] or_high [of a 3 30] by simp_all

lemma put8_eq: "put8 w = c \<longleftrightarrow> unat w mod 256 = of_char c"
  by (metis put8_def char_of_char of_char_of)

lemmas octet_nat = unat_and_masks unat_drop unat_push unat_or or_marks word_nat unat_eq_iff32 unat_add32_wrap

section \<open>Decoding and encoding one code point\<close>

lemma of_char_eq: "(of_char c :: nat) = of_char d \<longleftrightarrow> c = d"
  by (metis char_of_char)

lemma is_trail_nat: "is_trail c \<longleftrightarrow> (of_char c :: nat) div 64 = 2"
  by (simp add: is_trail_def octet_nat)

lemma sequence_length_nat:
  "sequence_length c = 1 \<longleftrightarrow> (of_char c :: nat) < 128"
  "sequence_length c = 2 \<longleftrightarrow> (of_char c :: nat) div 32 = 6"
  "sequence_length c = 3 \<longleftrightarrow> (of_char c :: nat) div 16 = 14"
  "sequence_length c = 4 \<longleftrightarrow> (of_char c :: nat) div 8 = 30"
  by (auto simp: sequence_length_def Let_def octet_nat)

lemma unat_push8:
  "unat (push_bit 6 (mask8 c)) = of_char c * 64" "unat (push_bit 12 (mask8 c)) = of_char c * 4096"
  "unat (push_bit 18 (mask8 c)) = of_char c * 262144"
proof -
  have "(of_char c :: nat) * 64 < 4294967296" "(of_char c :: nat) * 4096 < 4294967296"
    "(of_char c :: nat) * 262144 < 4294967296"
    using of_char_lt [of c] by linarith+
  then show "unat (push_bit 6 (mask8 c)) = of_char c * 64" "unat (push_bit 12 (mask8 c)) = of_char c * 4096"
    "unat (push_bit 18 (mask8 c)) = of_char c * 262144"
    by (simp_all add: unat_push)
qed

lemma scaled_mod:
  fixes x :: nat
  shows "x * 64 mod 2048 = x mod 32 * 64" "x * 4096 mod 65536 = x mod 16 * 4096" "x * 262144 mod 2097152 = x mod 8 * 262144"
    "x * 64 mod 4096 = x mod 64 * 64" "x * 4096 mod 262144 = x mod 64 * 4096"
  using mod_mult_mult2 [of x 64 32] mod_mult_mult2 [of x 4096 16] mod_mult_mult2 [of x 262144 8]
    mod_mult_mult2 [of x 64 64] mod_mult_mult2 [of x 4096 64]
  by (simp_all only: arith_simps)

lemma unat_lead:
  "unat (push_bit 6 (mask8 c) AND 0x7ff) = of_char c mod 32 * 64"
  "unat (push_bit 12 (mask8 c) AND 0xffff) = of_char c mod 16 * 4096"
  "unat (push_bit 18 (mask8 c) AND 0x1fffff) = of_char c mod 8 * 262144"
  "unat (push_bit 6 (mask8 c) AND 0xfff) = of_char c mod 64 * 64"
  "unat (push_bit 12 (mask8 c) AND 0x3ffff) = of_char c mod 64 * 4096"
  by (simp_all only: unat_and_masks unat_push8 scaled_mod)

lemma unat_add32_3: "unat a + unat b + unat c < 4294967296 \<Longrightarrow> unat (a + b + c) = unat a + unat b + unat c"
  for a b c :: uint32
  by (simp add: unat_add32)

lemma unat_add32_4: "unat a + unat b + unat c + unat d < 4294967296 \<Longrightarrow> unat (a + b + c + d) = unat a + unat b + unat c + unat d"
  for a b c d :: uint32
  by (simp add: unat_add32)

lemma sequence_values:
  "unat ((push_bit 6 (mask8 a) AND 0x7ff) + (mask8 b AND 0x3f)) = of_char a mod 32 * 64 + of_char b mod 64"
  "unat ((push_bit 12 (mask8 a) AND 0xffff) + (push_bit 6 (mask8 b) AND 0xfff) + (mask8 c AND 0x3f)) =
     of_char a mod 16 * 4096 + of_char b mod 64 * 64 + of_char c mod 64"
  "unat ((push_bit 18 (mask8 a) AND 0x1fffff) + (push_bit 12 (mask8 b) AND 0x3ffff) + (push_bit 6 (mask8 c) AND 0xfff) +
      (mask8 d AND 0x3f)) =
     of_char a mod 8 * 262144 + of_char b mod 64 * 4096 + of_char c mod 64 * 64 + of_char d mod 64"
proof -
  note v = unat_lead unat_and_masks(1) unat_mask8
  show "unat ((push_bit 6 (mask8 a) AND 0x7ff) + (mask8 b AND 0x3f)) = of_char a mod 32 * 64 + of_char b mod 64"
    by (subst unat_add32; simp only: v)
  show "unat ((push_bit 12 (mask8 a) AND 0xffff) + (push_bit 6 (mask8 b) AND 0xfff) + (mask8 c AND 0x3f)) =
     of_char a mod 16 * 4096 + of_char b mod 64 * 64 + of_char c mod 64"
    by (subst unat_add32_3; simp only: v)
  show "unat ((push_bit 18 (mask8 a) AND 0x1fffff) + (push_bit 12 (mask8 b) AND 0x3ffff) + (push_bit 6 (mask8 c) AND 0xfff) +
      (mask8 d AND 0x3f)) =
     of_char a mod 8 * 262144 + of_char b mod 64 * 4096 + of_char c mod 64 * 64 + of_char d mod 64"
    by (subst unat_add32_4; simp only: v)
qed

lemma not_overlong:
  "\<not> is_overlong_sequence cp 2 \<Longrightarrow> 128 \<le> unat cp" "\<not> is_overlong_sequence cp 3 \<Longrightarrow> 2048 \<le> unat cp"
  "\<not> is_overlong_sequence cp 4 \<Longrightarrow> 65536 \<le> unat cp"
  by (auto simp: is_overlong_sequence_def word_nat split: if_splits)

lemmas read_facts = sequence_length_nat is_trail_nat sequence_values
  not_overlong(1) [of "(push_bit 6 (mask8 a) AND 0x7ff) + (mask8 b AND 0x3f)" for a b, unfolded sequence_values]
  not_overlong(2) [of "(push_bit 12 (mask8 a) AND 0xffff) + (push_bit 6 (mask8 b) AND 0xfff) + (mask8 c AND 0x3f)" for a b c,
    unfolded sequence_values]
  not_overlong(3) [of "(push_bit 18 (mask8 a) AND 0x1fffff) + (push_bit 12 (mask8 b) AND 0x3ffff) +
    (push_bit 6 (mask8 c) AND 0xfff) + (mask8 d AND 0x3f)" for a b c d, unfolded sequence_values]

text \<open>What a successful step of the decoder has read, by the length of the sequence.\<close>

lemma validate_next_cases:
  assumes "validate_next s = Inr (cp, s')"
  obtains
    (one) a where "s = a # s'" "unat cp = of_char a" "unat cp < 128"
  | (two) a b where "s = a # b # s'" "(of_char a :: nat) div 32 = 6" "(of_char b :: nat) div 64 = 2"
      "unat cp = of_char a mod 32 * 64 + of_char b mod 64" "128 \<le> unat cp"
  | (three) a b c where "s = a # b # c # s'" "(of_char a :: nat) div 16 = 14" "(of_char b :: nat) div 64 = 2"
      "(of_char c :: nat) div 64 = 2" "unat cp = of_char a mod 16 * 4096 + of_char b mod 64 * 64 + of_char c mod 64"
      "2048 \<le> unat cp"
  | (four) a b c d where "s = a # b # c # d # s'" "(of_char a :: nat) div 8 = 30" "(of_char b :: nat) div 64 = 2"
      "(of_char c :: nat) div 64 = 2" "(of_char d :: nat) div 64 = 2"
      "unat cp = of_char a mod 8 * 262144 + of_char b mod 64 * 4096 + of_char c mod 64 * 64 + of_char d mod 64"
      "65536 \<le> unat cp"
proof -
  obtain a t where s: "s = a # t" using assms by (cases s) auto
  let ?n = "sequence_length a"
  have n: "?n \<in> {0, 1, 2, 3, 4}" by (simp add: sequence_length_def Let_def)
  from assms s have "?n \<noteq> 0" by (auto simp: Let_def split: if_splits)
  with n consider "?n = 1" | "?n = 2" | "?n = 3" | "?n = 4" by auto
  then show thesis
  proof cases
    case 1
    with assms s show thesis
      by (intro one) (auto simp: Let_def sequence_length_nat(1) [unfolded One_nat_def] split: if_splits)
  next
    case 2
    with assms s obtain b where "t = b # s'" "is_trail b" "cp = (push_bit 6 (mask8 a) AND 0x7ff) + (mask8 b AND 0x3f)"
      "\<not> is_overlong_sequence cp 2"
      by (auto simp: Let_def split: if_splits sum.splits elim!: get_sequence_2.elims)
    with 2 s show thesis
      by (intro two) (simp_all add: read_facts)
  next
    case 3
    with assms s obtain b c where "t = b # c # s'" "is_trail b" "is_trail c"
      "cp = (push_bit 12 (mask8 a) AND 0xffff) + (push_bit 6 (mask8 b) AND 0xfff) + (mask8 c AND 0x3f)"
      "\<not> is_overlong_sequence cp 3"
      by (auto simp: Let_def split: if_splits sum.splits list.splits elim!: get_sequence_3.elims)
    with 3 s show thesis
      by (intro three) (simp_all add: read_facts)
  next
    case 4
    with assms s obtain b c d where "t = b # c # d # s'" "is_trail b" "is_trail c" "is_trail d"
      "cp = (push_bit 18 (mask8 a) AND 0x1fffff) + (push_bit 12 (mask8 b) AND 0x3ffff) + (push_bit 6 (mask8 c) AND 0xfff) + (mask8 d AND 0x3f)"
      "\<not> is_overlong_sequence cp 4"
      by (auto simp: Let_def split: if_splits sum.splits list.splits elim!: get_sequence_4.elims)
    with 4 s show thesis
      by (intro four) (simp_all add: read_facts)
  qed
qed

text \<open>The octets the encoder writes.\<close>

lemma of_char_put8: "(of_char (put8 w) :: nat) = unat w mod 256"
  by (simp add: put8_def)

lemma written_octets:
  "(of_char (put8 ((w AND 0x3f) OR 0x80)) :: nat) = unat w mod 64 + 128"
  "unat w < 2048 \<Longrightarrow> (of_char (put8 (drop_bit 6 w OR 0xc0)) :: nat) = unat w div 64 + 192"
  "unat w < 65536 \<Longrightarrow> (of_char (put8 (drop_bit 12 w OR 0xe0)) :: nat) = unat w div 4096 + 224"
  "unat w < 2097152 \<Longrightarrow> (of_char (put8 (drop_bit 18 w OR 0xf0)) :: nat) = unat w div 262144 + 240"
proof -
  have "unat w mod 64 < 64" by simp
  then show "(of_char (put8 ((w AND 0x3f) OR 0x80)) :: nat) = unat w mod 64 + 128"
    by (simp add: of_char_put8 unat_or unat_and_masks or_marks(1))
next
  assume "unat w < 2048"
  then have "unat w div 64 < 32" by linarith
  then show "(of_char (put8 (drop_bit 6 w OR 0xc0)) :: nat) = unat w div 64 + 192"
    by (simp add: of_char_put8 unat_or unat_drop or_marks(2))
next
  assume "unat w < 65536"
  then have "unat w div 4096 < 16" by linarith
  then show "(of_char (put8 (drop_bit 12 w OR 0xe0)) :: nat) = unat w div 4096 + 224"
    by (simp add: of_char_put8 unat_or unat_drop or_marks(3))
next
  assume "unat w < 2097152"
  then have "unat w div 262144 < 8" by linarith
  then show "(of_char (put8 (drop_bit 18 w OR 0xf0)) :: nat) = unat w div 262144 + 240"
    by (simp add: of_char_put8 unat_or unat_drop or_marks(4))
qed

lemma put8_is: "(of_char (put8 w) :: nat) = n \<Longrightarrow> n = of_char c \<Longrightarrow> put8 w = c"
  by (simp add: of_char_eq)

text \<open>Numbers in base 64.\<close>

lemma base64_2:
  fixes x y :: nat
  assumes "n = x * 64 + y" "y < 64"
  shows "n mod 64 = y" "n div 64 = x"
  using assms by simp_all

lemma base64_3:
  fixes x y z :: nat
  assumes n: "n = x * 4096 + y * 64 + z" and b: "y < 64" "z < 64"
  shows "n mod 64 = z" "n div 64 mod 64 = y" "n div 4096 = x"
proof -
  have e: "n = (x * 64 + y) * 64 + z" unfolding n by (simp add: algebra_simps)
  note d = base64_2 [OF e b(2)]
  show "n mod 64 = z" "n div 64 mod 64 = y" using d b by simp_all
  have "n div 4096 = n div 64 div 64" by (simp add: div_mult2_eq [symmetric])
  then show "n div 4096 = x" using d b by simp
qed

lemma base64_4:
  fixes x y z w :: nat
  assumes n: "n = x * 262144 + y * 4096 + z * 64 + w" and b: "y < 64" "z < 64" "w < 64"
  shows "n mod 64 = w" "n div 64 mod 64 = z" "n div 4096 mod 64 = y" "n div 262144 = x"
proof -
  have e: "n = (x * 64 + y) * 4096 + z * 64 + w" unfolding n by (simp add: algebra_simps)
  note d = base64_3 [OF e b(2,3)]
  show "n mod 64 = w" "n div 64 mod 64 = z" "n div 4096 mod 64 = y" using d b by simp_all
  have "n div 262144 = n div 4096 div 64" by (simp add: div_mult2_eq [symmetric])
  then show "n div 262144 = x" using d b by simp
qed

lemma validate_next_valid: "validate_next s = Inr (cp, s') \<Longrightarrow> is_code_point_valid cp"
  by (cases s) (auto simp: Let_def split: if_splits sum.splits prod.splits)

lemma octet_of_parts:
  fixes x :: nat
  shows "x div 64 = 2 \<Longrightarrow> x mod 64 + 128 = x" "x div 32 = 6 \<Longrightarrow> x mod 32 + 192 = x"
    "x div 16 = 14 \<Longrightarrow> x mod 16 + 224 = x" "x div 8 = 30 \<Longrightarrow> x mod 8 + 240 = x"
  using div_mult_mod_eq [of x 64] div_mult_mod_eq [of x 32] div_mult_mod_eq [of x 16] div_mult_mod_eq [of x 8] by simp_all

lemma decode_encode:
  assumes "validate_next s = Inr (cp, s')"
  shows "\<exists>bs. append_cp cp = Inr bs \<and> s = bs @ s'"
proof -
  note v = validate_next_valid [OF assms]
  have m: "(of_char x :: nat) mod 64 < 64" "(of_char x :: nat) mod 32 < 32" "(of_char x :: nat) mod 16 < 16"
    "(of_char x :: nat) mod 8 < 8" for x by simp_all
  note w = of_char_eq [symmetric] written_octets unat_drop power_numeral
  from assms show ?thesis
  proof (cases rule: validate_next_cases)
    case (one a)
    then have "put8 cp = a" by (simp add: put8_eq)
    with one v show ?thesis by (auto simp: append_cp_def word_nat)
  next
    case (two a b)
    note d = base64_2 [OF two(4) m(1)]
    have "unat cp < 2048" using two(4) m(1) [of b] m(2) [of a] by linarith
    moreover from this two(2,3) have "put8 (drop_bit 6 cp OR 0xc0) = a" "put8 ((cp AND 0x3f) OR 0x80) = b"
      by (simp_all only: w d octet_of_parts)
    ultimately show ?thesis using two(1,5) v by (auto simp: append_cp_def word_nat)
  next
    case (three a b c)
    note d = base64_3 [OF three(5) m(1) m(1)]
    have "unat cp < 65536" using three(5) m(1) [of b] m(1) [of c] m(3) [of a] by linarith
    moreover from this three(2-4) have "put8 (drop_bit 12 cp OR 0xe0) = a" "put8 ((drop_bit 6 cp AND 0x3f) OR 0x80) = b"
      "put8 ((cp AND 0x3f) OR 0x80) = c"
      using d by (simp_all add: w octet_of_parts)
    ultimately show ?thesis using three(1,6) v by (auto simp: append_cp_def word_nat)
  next
    case (four a b c d)
    note d = base64_4 [OF four(6) m(1) m(1) m(1)]
    have "unat cp < 2097152" using four(6) m(1) [of b] m(1) [of c] m(1) [of d] m(4) [of a] by linarith
    moreover from this four(2-5) have "put8 (drop_bit 18 cp OR 0xf0) = a" "put8 ((drop_bit 12 cp AND 0x3f) OR 0x80) = b"
      "put8 ((drop_bit 6 cp AND 0x3f) OR 0x80) = c" "put8 ((cp AND 0x3f) OR 0x80) = d"
      using d by (simp_all add: w octet_of_parts)
    ultimately show ?thesis using four(1,7) v by (auto simp: append_cp_def word_nat)
  qed
qed

lemma trail_written: "is_trail (put8 ((w AND 0x3f) OR 0x80))"
proof -
  have "(unat w mod 64 + 128) div 64 = 2" by simp
  then show ?thesis by (simp only: is_trail_nat written_octets)
qed

lemma trail_value: "(of_char (put8 ((w AND 0x3f) OR 0x80)) :: nat) mod 64 = unat w mod 64"
  using mod_mult_self1 [of "unat w mod 64" 2 64] by (simp add: written_octets)

lemma lead_written:
  "unat w < 2048 \<Longrightarrow> sequence_length (put8 (drop_bit 6 w OR 0xc0)) = 2"
  "unat w < 65536 \<Longrightarrow> sequence_length (put8 (drop_bit 12 w OR 0xe0)) = 3"
  "unat w < 2097152 \<Longrightarrow> sequence_length (put8 (drop_bit 18 w OR 0xf0)) = 4"
  by (simp_all only: sequence_length_nat written_octets)

lemma lead_value:
  "unat w < 2048 \<Longrightarrow> (of_char (put8 (drop_bit 6 w OR 0xc0)) :: nat) mod 32 = unat w div 64"
  "unat w < 65536 \<Longrightarrow> (of_char (put8 (drop_bit 12 w OR 0xe0)) :: nat) mod 16 = unat w div 4096"
  "unat w < 2097152 \<Longrightarrow> (of_char (put8 (drop_bit 18 w OR 0xf0)) :: nat) mod 8 = unat w div 262144"
  using mod_mult_self1 [of "unat w div 64" 6 32] mod_mult_self1 [of "unat w div 4096" 14 16]
    mod_mult_self1 [of "unat w div 262144" 30 8]
  by (simp_all add: written_octets)

lemma digits_of:
  fixes n :: nat
  shows "n div 64 * 64 + n mod 64 = n" "n div 4096 * 4096 + n div 64 mod 64 * 64 + n mod 64 = n"
    "n div 262144 * 262144 + n div 4096 mod 64 * 4096 + n div 64 mod 64 * 64 + n mod 64 = n"
proof -
  have a: "n div 64 * 64 + n mod 64 = n" by simp
  have e: "n div 4096 = n div 64 div 64" "n div 262144 = n div 4096 div 64" by (simp_all add: div_mult2_eq [symmetric])
  have b: "n div 4096 * 64 + n div 64 mod 64 = n div 64" unfolding e by simp
  have c: "n div 262144 * 64 + n div 4096 mod 64 = n div 4096" unfolding e(2) by simp
  show "n div 64 * 64 + n mod 64 = n" by (rule a)
  from a b show "n div 4096 * 4096 + n div 64 mod 64 * 64 + n mod 64 = n" by linarith
  with c show "n div 262144 * 262144 + n div 4096 mod 64 * 4096 + n div 64 mod 64 * 64 + n mod 64 = n" by linarith
qed

lemma encode_decode:
  assumes "append_cp cp = Inr bs"
  shows "validate_next (bs @ s) = Inr (cp, s)"
proof -
  have v: "is_code_point_valid cp" using assms by (simp add: append_cp_def split: if_splits)
  then have max: "unat cp < 2097152" by (simp add: is_code_point_valid_def word_nat)
  consider "unat cp < 128" | "128 \<le> unat cp" "unat cp < 2048" | "2048 \<le> unat cp" "unat cp < 65536" | "65536 \<le> unat cp"
    by linarith
  then show ?thesis
  proof cases
    case 1
    then have bs: "bs = [put8 cp]" using assms v by (simp add: append_cp_def word_nat)
    have "mask8 (put8 cp) = cp" "sequence_length (put8 cp) = 1" using 1
      by (simp_all add: unat_eq_iff32 of_char_put8 sequence_length_nat(1) [unfolded One_nat_def])
    with v 1 show ?thesis by (simp add: bs Let_def is_overlong_sequence_def word_nat)
  next
    case 2
    let ?a = "put8 (drop_bit 6 cp OR 0xc0)" and ?b = "put8 ((cp AND 0x3f) OR 0x80)"
    have bs: "bs = [?a, ?b]" using 2 assms v by (simp add: append_cp_def word_nat)
    have g: "get_sequence_2 (?a # ?b # s) = Inr (cp, ?b # s)"
      using 2 digits_of(1) [of "unat cp"] by (simp add: trail_written unat_eq_iff32 sequence_values lead_value trail_value)
    have "\<not> is_overlong_sequence cp 2" using 2 by (simp add: is_overlong_sequence_def word_nat)
    with v 2 g show ?thesis by (simp add: bs lead_written del: get_sequence_2.simps)
  next
    case 3
    let ?a = "put8 (drop_bit 12 cp OR 0xe0)" and ?b = "put8 ((drop_bit 6 cp AND 0x3f) OR 0x80)"
    and ?c = "put8 ((cp AND 0x3f) OR 0x80)"
    have bs: "bs = [?a, ?b, ?c]" using 3 assms v by (simp add: append_cp_def word_nat)
    have g: "get_sequence_3 (?a # ?b # ?c # s) = Inr (cp, ?c # s)"
      using 3 digits_of(2) [of "unat cp"]
      by (simp add: trail_written unat_eq_iff32 sequence_values lead_value trail_value unat_drop)
    have "\<not> is_overlong_sequence cp 3" using 3 by (simp add: is_overlong_sequence_def word_nat)
    with v 3 g show ?thesis by (simp add: bs lead_written del: get_sequence_3.simps)
  next
    case 4
    let ?a = "put8 (drop_bit 18 cp OR 0xf0)" and ?b = "put8 ((drop_bit 12 cp AND 0x3f) OR 0x80)"
    and ?c = "put8 ((drop_bit 6 cp AND 0x3f) OR 0x80)" and ?d = "put8 ((cp AND 0x3f) OR 0x80)"
    have bs: "bs = [?a, ?b, ?c, ?d]" using 4 assms v by (simp add: append_cp_def word_nat)
    have g: "get_sequence_4 (?a # ?b # ?c # ?d # s) = Inr (cp, ?d # s)"
      using 4 max digits_of(3) [of "unat cp"]
      by (simp add: trail_written unat_eq_iff32 sequence_values lead_value trail_value unat_drop)
    have "\<not> is_overlong_sequence cp 4" using 4 by (simp add: is_overlong_sequence_def word_nat)
    with v 4 max g show ?thesis by (simp add: bs lead_written del: get_sequence_4.simps)
  qed
qed

section \<open>UTF-16\<close>

lemma unat_ucast_16_32 [simp]: "unat (ucast (u :: uint16) :: uint32) = unat u"
  by (simp add: unsigned_ucast_eq take_bit_nat_eq_self unsigned_less [THEN less_trans])

lemma unat_ucast_32_16: "unat (ucast (w :: uint32) :: uint16) = unat w mod 65536"
  by (simp add: unsigned_ucast_eq take_bit_eq_mod)

lemma unat16_lt: "unat (u :: uint16) < 65536"
  using unsigned_less [of u, where 'a = nat] by simp

lemma unat_eq_iff16: "(u :: uint16) = v \<longleftrightarrow> unat u = unat v"
  by (simp add: word_unat_eq_iff)

lemma surrogate_value:
  fixes u t :: uint32
  assumes "is_lead_surrogate u" "is_trail_surrogate t"
  shows "unat (push_bit 10 u + t + SURROGATE_OFFSET) = (unat u - 0xd800) * 1024 + (unat t - 0xdc00) + 0x10000"
proof -
  obtain x where x: "unat u = 0xd800 + x" "x < 1024"
    using assms(1) by (auto simp: is_lead_surrogate_def word_nat intro: that [of "unat u - 0xd800"])
  obtain y where y: "unat t = 0xdc00 + y" "y < 1024"
    using assms(2) by (auto simp: is_trail_surrogate_def word_nat intro: that [of "unat t - 0xdc00"])
  have "unat SURROGATE_OFFSET = 4238353408" by (simp add: SURROGATE_OFFSET_def)
  then have "unat (push_bit 10 u + t + SURROGATE_OFFSET) = ((0xd800 + x) * 1024 + (0xdc00 + y) + 4238353408) mod 4294967296"
    using x y by (simp add: unat_add32_wrap unat_push mod_add_left_eq mod_add_right_eq)
  also have "((0xd800 + x) * 1024 + (0xdc00 + y) + 4238353408) = (x * 1024 + y + 0x10000) + 4294967296" by simp
  also have "\<dots> mod 4294967296 = x * 1024 + y + 0x10000" using x y by (subst mod_add_self2) simp
  finally show ?thesis using x y by simp
qed

lemma units_of_pair:
  fixes cp :: uint32
  assumes "0x10000 \<le> unat cp" "unat cp < 0x110000"
  shows "unat (ucast (drop_bit 10 cp + (0xd800 - drop_bit 10 0x10000)) :: uint16) = unat cp div 1024 + 0xd7c0"
    and "unat (ucast ((cp AND 0x3ff) + 0xdc00) :: uint16) = unat cp mod 1024 + 0xdc00"
proof -
  have d: "unat cp div 1024 < 1088" using assms by linarith
  have m: "unat cp mod 1024 < 1024" by simp
  show "unat (ucast (drop_bit 10 cp + (0xd800 - drop_bit 10 0x10000)) :: uint16) = unat cp div 1024 + 0xd7c0"
    using d by (simp add: unat_ucast_32_16 unat_add32_wrap unat_drop)
  show "unat (ucast ((cp AND 0x3ff) + 0xdc00) :: uint16) = unat cp mod 1024 + 0xdc00"
    using m by (simp add: unat_ucast_32_16 unat_add32_wrap unat_and_masks)
qed

lemma units_encode:
  assumes "is_code_point_valid cp" and "append_cp cp = Inr bs" and "utf16to8 us = Inr r"
  shows "utf16to8 (utf16_units cp @ us) = Inr (bs @ r)"
proof (cases "unat cp < 0x10000")
  case True
  then have u: "utf16_units cp = [ucast cp]" by (simp add: utf16_units_def word_nat)
  from True have "ucast (ucast cp :: uint16) = cp" by (simp add: unat_eq_iff32 unat_ucast_32_16)
  with assms u show ?thesis
    by (auto simp: Let_def is_code_point_valid_def is_surrogate_def is_lead_surrogate_def is_trail_surrogate_def word_nat)
next
  case False
  with assms(1) have b: "0x10000 \<le> unat cp" "unat cp < 0x110000" by (simp_all add: is_code_point_valid_def word_nat)
  define h l :: uint16 where "h = ucast (drop_bit 10 cp + (0xd800 - drop_bit 10 0x10000))" and "l = ucast ((cp AND 0x3ff) + 0xdc00)"
  have u: "utf16_units cp = [h, l]" using False by (simp add: utf16_units_def h_def l_def word_nat)
  have n: "unat h = unat cp div 1024 + 0xd7c0" "unat l = unat cp mod 1024 + 0xdc00"
    unfolding h_def l_def by (rule units_of_pair [OF b])+
  have m: "unat cp mod 1024 < 1024" by simp
  have d: "64 \<le> unat cp div 1024" "unat cp div 1024 < 1088" using b by linarith+
  have s: "is_lead_surrogate (ucast h)" "is_trail_surrogate (ucast l)"
    using m d by (simp_all add: is_lead_surrogate_def is_trail_surrogate_def word_nat n)
  have "unat (push_bit 10 (ucast h) + ucast l + SURROGATE_OFFSET) = unat cp"
    unfolding surrogate_value [OF s] using d div_mult_mod_eq [of "unat cp" 1024] by (simp add: n diff_mult_distrib)
  then have "push_bit 10 (ucast h) + ucast l + SURROGATE_OFFSET = cp" by (simp add: unat_eq_iff32)
  with assms s u show ?thesis by (simp add: Let_def)
qed

lemma utf8to16_utf16to8: "utf8to16 s = Inr us \<Longrightarrow> utf16to8 us = Inr s"
proof (induction s arbitrary: us rule: utf8to16.induct)
  case (1 s)
  show ?case
  proof (cases "s = []")
    case True
    with "1.prems" show ?thesis by (simp add: utf8to16.simps)
  next
    case False
    with "1.prems" obtain cp s' us' where v: "validate_next s = Inr (cp, s')" and r: "utf8to16 s' = Inr us'"
      and us: "us = utf16_units cp @ us'"
      by (subst (asm) utf8to16.simps) (auto split: sum.splits prod.splits)
    obtain bs where bs: "append_cp cp = Inr bs" "s = bs @ s'" using decode_encode [OF v] by blast
    have "utf16to8 us' = Inr s'" by (rule "1.IH" [OF False v refl r])
    then show ?thesis using units_encode [OF validate_next_valid [OF v] bs(1)] bs(2) us by simp
  qed
qed

lemma append_cp_ok: "append_cp cp = Inr bs \<Longrightarrow> is_code_point_valid cp \<and> bs \<noteq> []"
  by (auto simp: append_cp_def split: if_splits)

lemma utf8to16_step:
  assumes "append_cp cp = Inr bs" and "utf8to16 r = Inr us"
  shows "utf8to16 (bs @ r) = Inr (utf16_units cp @ us)"
  using append_cp_ok [OF assms(1)] encode_decode [OF assms(1), of r] assms(2)
  by (subst utf8to16.simps) simp

lemma units_of_unit: "unat u < 0x10000 \<Longrightarrow> utf16_units (ucast u) = [u]" for u :: uint16
  by (simp add: utf16_units_def word_nat unat_eq_iff16 unat_ucast_32_16)

lemma units_of_surrogates:
  fixes u t :: uint16
  assumes "is_lead_surrogate (ucast u)" "is_trail_surrogate (ucast t)"
  shows "utf16_units (push_bit 10 (ucast u) + ucast t + SURROGATE_OFFSET) = [u, t]"
proof -
  let ?cp = "push_bit 10 (ucast u) + ucast t + SURROGATE_OFFSET :: uint32"
  obtain x where x: "unat u = 0xd800 + x" "x < 1024"
    using assms(1) by (auto simp: is_lead_surrogate_def word_nat intro: that [of "unat u - 0xd800"])
  obtain y where y: "unat t = 0xdc00 + y" "y < 1024"
    using assms(2) by (auto simp: is_trail_surrogate_def word_nat intro: that [of "unat t - 0xdc00"])
  have v: "unat ?cp = (x + 64) * 1024 + y" using surrogate_value [OF assms] x y by simp
  have d: "unat ?cp div 1024 = x + 64" "unat ?cp mod 1024 = y"
    unfolding v using y mod_mult_self3 [of "x + 64" 1024 y] by (simp_all del: add_mult_distrib)
  have b: "0x10000 \<le> unat ?cp" "unat ?cp < 0x110000" unfolding v using x(2) y(2) by simp_all
  then have "utf16_units ?cp = [ucast (drop_bit 10 ?cp + (0xd800 - drop_bit 10 0x10000)), ucast ((?cp AND 0x3ff) + 0xdc00)]"
    by (simp add: utf16_units_def word_nat)
  then show ?thesis using units_of_pair [OF b] d x y by (simp add: unat_eq_iff16)
qed

lemma utf16to8_utf8to16: "utf16to8 us = Inr s \<Longrightarrow> utf8to16 s = Inr us"
proof (induction us arbitrary: s rule: utf16to8.induct)
  case 1
  then show ?case by (simp add: utf8to16.simps)
next
  case (2 u us)
  show ?case
  proof (cases "is_lead_surrogate (ucast u)")
    case True
    with "2.prems" obtain t us' bs r where us: "us = t # us'" and t: "is_trail_surrogate (ucast t)"
      and a: "append_cp (push_bit 10 (ucast u) + ucast t + SURROGATE_OFFSET) = Inr bs"
      and r: "utf16to8 us' = Inr r" and s: "s = bs @ r"
      by (auto simp: Let_def split: list.splits if_splits sum.splits)
    have "utf8to16 r = Inr us'" using "2.IH"(1) [OF refl True us t a r] .
    from utf8to16_step [OF a this] show ?thesis by (simp add: s us units_of_surrogates [OF True t])
  next
    case False
    with "2.prems" obtain bs r where n: "\<not> is_trail_surrogate (ucast u)" and a: "append_cp (ucast u) = Inr bs"
      and r: "utf16to8 us = Inr r" and s: "s = bs @ r"
      by (auto simp: Let_def split: if_splits sum.splits)
    have "utf8to16 r = Inr us" using "2.IH"(2) [OF refl False n a r] .
    from utf8to16_step [OF a this] show ?thesis by (simp add: s units_of_unit unat16_lt)
  qed
qed

section \<open>Names\<close>

lemma word16_nat:
  fixes u v :: uint16
  shows "u \<le> v \<longleftrightarrow> unat u \<le> unat v" "u = v \<longleftrightarrow> unat u = unat v" "unat (u mod v) = unat u mod unat v"
    "unat v \<le> unat u \<Longrightarrow> unat (u - v) = unat u - unat v" "unat (u + v) = (unat u + unat v) mod 65536"
  by (simp_all add: word_le_nat_alt word_unat_eq_iff unat_mod_distrib unat_sub word_le_nat_alt unat_word_ariths)

text \<open>The two case tables by number.\<close>

definition upper_code :: "nat \<Rightarrow> nat" where
  "upper_code n =
     (if 97 \<le> n \<and> n \<le> 122 \<or> 224 \<le> n \<and> n \<le> 246 \<or> 248 \<le> n \<and> n \<le> 254 \<or> 1072 \<le> n \<and> n \<le> 1103 then n - 32
      else if n = 223 then 7838 else if 257 \<le> n \<and> n \<le> 303 \<and> odd n then n - 1 else if n = 1105 then 1025 else n)"

definition lower_code :: "nat \<Rightarrow> nat" where
  "lower_code n =
     (if 65 \<le> n \<and> n \<le> 90 \<or> 192 \<le> n \<and> n \<le> 214 \<or> 216 \<le> n \<and> n \<le> 222 \<or> 1040 \<le> n \<and> n \<le> 1071 then n + 32
      else if n = 7838 then 223 else if 256 \<le> n \<and> n \<le> 302 \<and> even n then n + 1 else if n = 1025 then 1105 else n)"

lemma wcharToUpper_nat: "unat (wcharToUpper w) = upper_code (unat w)"
  by (simp add: wcharToUpper_def word16_nat upper_code_def odd_iff_mod_2_eq_one)

lemma wcharToLower_nat: "unat (wcharToLower w) = lower_code (unat w)"
  by (simp add: wcharToLower_def word16_nat lower_code_def even_iff_mod_2_eq_zero)

lemma upper_code_cases:
  obtains (block) m where "upper_code n = m" "65 \<le> m \<and> m \<le> 90 \<or> 192 \<le> m \<and> m \<le> 222 \<or> 1025 \<le> m \<and> m \<le> 1071 \<or> m = 7838"
  | (pair) "upper_code n = n - 1" "257 \<le> n" "n \<le> 303" "odd n"
  | (same) "upper_code n = n" "\<not> (97 \<le> n \<and> n \<le> 122)" "\<not> (223 \<le> n \<and> n \<le> 246)" "\<not> (248 \<le> n \<and> n \<le> 254)"
      "\<not> (257 \<le> n \<and> n \<le> 303 \<and> odd n)" "\<not> (1072 \<le> n \<and> n \<le> 1103)" "n \<noteq> 1105"
proof -
  consider (a) "97 \<le> n" "n \<le> 122" | (b) "224 \<le> n" "n \<le> 246" | (c) "248 \<le> n" "n \<le> 254" | (d) "1072 \<le> n" "n \<le> 1103"
    | (e) "n = 223" | (f) "257 \<le> n" "n \<le> 303" "odd n" | (g) "n = 1105"
    | (h) "\<not> (97 \<le> n \<and> n \<le> 122)" "\<not> (224 \<le> n \<and> n \<le> 246)" "\<not> (248 \<le> n \<and> n \<le> 254)"
      "\<not> (257 \<le> n \<and> n \<le> 303 \<and> odd n)" "\<not> (1072 \<le> n \<and> n \<le> 1103)" "n \<noteq> 1105" "n \<noteq> 223"
    by blast
  then show thesis
  proof cases
    case a then show ?thesis by (intro block [of "n - 32"]) (auto simp: upper_code_def)
  next
    case b then show ?thesis by (intro block [of "n - 32"]) (auto simp: upper_code_def)
  next
    case c then show ?thesis by (intro block [of "n - 32"]) (auto simp: upper_code_def)
  next
    case d then show ?thesis by (intro block [of "n - 32"]) (auto simp: upper_code_def)
  next
    case e then show ?thesis by (intro block [of 7838]) (simp_all add: upper_code_def)
  next
    case f then show ?thesis by (intro pair) (simp_all add: upper_code_def)
  next
    case g then show ?thesis by (intro block [of 1025]) (simp_all add: upper_code_def)
  next
    case h
    then have "\<not> (223 \<le> n \<and> n \<le> 246)" by linarith
    with h show ?thesis by (intro same) (auto simp: upper_code_def)
  qed
qed

lemma upper_code_idem: "upper_code (upper_code n) = upper_code n"
proof (cases rule: upper_code_cases [of n])
  case (block m)
  then have "upper_code m = m" by (auto simp: upper_code_def)
  with block show ?thesis by simp
next
  case pair
  then have "upper_code (n - 1) = n - 1" by (auto simp: upper_code_def)
  with pair show ?thesis by simp
qed simp

lemma wcharToUpper_idem: "wcharToUpper (wcharToUpper w) = wcharToUpper w"
  by (simp only: word16_nat(2) wcharToUpper_nat upper_code_idem)

lemma wcharToUpper_no_sharp_s: "wcharToUpper w \<noteq> 0xdf"
proof -
  have "upper_code (unat w) \<noteq> 223" by (cases rule: upper_code_cases [of "unat w"]) auto
  then show ?thesis by (simp add: word16_nat(2) wcharToUpper_nat)
qed

lemma lower_code_idem: "lower_code (lower_code n) = lower_code n"
proof -
  consider "65 \<le> n" "n \<le> 90" | "192 \<le> n" "n \<le> 214" | "216 \<le> n" "n \<le> 222" | "1040 \<le> n" "n \<le> 1071"
    | "n = 7838" | "256 \<le> n" "n \<le> 302" "even n" | "n = 1025"
    | "\<not> (65 \<le> n \<and> n \<le> 90 \<or> 192 \<le> n \<and> n \<le> 214 \<or> 216 \<le> n \<and> n \<le> 222 \<or> 1040 \<le> n \<and> n \<le> 1071)" "n \<noteq> 7838"
      "\<not> (256 \<le> n \<and> n \<le> 302 \<and> even n)" "n \<noteq> 1025"
    by blast
  then show ?thesis
  proof cases
    case 6
    then have "lower_code n = n + 1" "lower_code (n + 1) = n + 1" by (auto simp: lower_code_def)
    then show ?thesis by simp
  qed (simp_all add: lower_code_def)
qed

lemma wcharToLower_idem: "wcharToLower (wcharToLower w) = wcharToLower w"
  by (simp only: word16_nat(2) wcharToLower_nat lower_code_idem)

lemma capitalize_idem: "capitalize (capitalize ws) = capitalize ws"
  by (cases ws) (simp_all add: wcharToUpper_idem wcharToLower_idem)

lemma length_capitalize [simp]: "length (capitalize ws) = length ws"
  by (cases ws) simp_all

lemma capitalize_Nil [simp]: "capitalize ws = [] \<longleftrightarrow> ws = []"
  by (cases ws) simp_all

text \<open>A text whose first two octets are the sharp s decodes to one.\<close>

lemma sharp_s_decodes:
  assumes "starts_sharp_s s" and "utf8to16 s = Inr us"
  shows "us \<noteq> [] \<and> hd us = 0xdf"
proof -
  obtain r where s: "s = [CHR 0xC3, CHR 0x9F] @ r"
    using assms(1) by (metis starts_sharp_s_def append_take_drop_id)
  have a: "append_cp 0xdf = Inr [CHR 0xC3, CHR 0x9F]"
    by (simp add: append_cp_def is_code_point_valid_def is_surrogate_def put8_def char_of_def bit_0)
  from encode_decode [OF a, of r] assms(2) obtain us' where "us = utf16_units 0xdf @ us'"
    by (subst (asm) utf8to16.simps) (auto simp: s split: sum.splits prod.splits)
  then show ?thesis by (simp add: utf16_units_def)
qed

lemma utf8to16_Nil: "utf8to16 s = Inr [] \<Longrightarrow> s = []"
  using utf8to16_utf16to8 by force

text \<open>The only ways a name is accepted.\<close>

lemma normalized:
  "normalizePlayerName name m caps = (True, n) \<longleftrightarrow>
     name \<noteq> [] \<and> \<not> starts_sharp_s name \<and>
     (\<exists>w. utf8to16 name = Inr w \<and> length w \<le> m \<and> utf16to8 (if caps then capitalize w else w) = Inr n)"
  by (auto simp: normalizePlayerName_def Utf8toWStr_def WStrToUtf8_def Let_def split: sum.splits)

end
