(* ===== verification/Name_Rules.thy ===== *)
theory Name_Rules
  imports Utf8_Roundtrip
begin

unbundle bit_operations_syntax

text \<open>
  Which names the server accepts: the character classes of src/shared/Util.h and the checks of src/game/ObjectMgr.cpp
  (reserved names, the language rules of a realm, names of players, pets and guild charters).

  The configuration is a record. The patterns of the client data files against which
  \<open>ValidateName\<close> searches a name are the parameter \<open>nr_validate\<close>. The set \<open>m_ReservedNames\<close> is a list.
\<close>

section \<open>Character classes\<close>

definition isBasicLatinCharacter :: "uint16 \<Rightarrow> bool" where
  "isBasicLatinCharacter c \<longleftrightarrow> 0x61 \<le> c \<and> c \<le> 0x7a \<or> 0x41 \<le> c \<and> c \<le> 0x5a"

definition isExtendedLatinCharacter :: "uint16 \<Rightarrow> bool" where
  "isExtendedLatinCharacter c \<longleftrightarrow> isBasicLatinCharacter c \<or> 0xC0 \<le> c \<and> c \<le> 0xD6 \<or> 0xD8 \<le> c \<and> c \<le> 0xDE \<or> c = 0xDF \<or>
     0xE0 \<le> c \<and> c \<le> 0xF6 \<or> 0xF8 \<le> c \<and> c \<le> 0xFE \<or> 0x100 \<le> c \<and> c \<le> 0x12F \<or> c = 0x1E9E"

definition isCyrillicCharacter :: "uint16 \<Rightarrow> bool" where
  "isCyrillicCharacter c \<longleftrightarrow> 0x410 \<le> c \<and> c \<le> 0x44F \<or> c = 0x401 \<or> c = 0x451"

definition isEastAsianCharacter :: "uint16 \<Rightarrow> bool" where
  "isEastAsianCharacter c \<longleftrightarrow> 0x1100 \<le> c \<and> c \<le> 0x11F9 \<or> 0x3041 \<le> c \<and> c \<le> 0x30FF \<or> 0x3131 \<le> c \<and> c \<le> 0x318E \<or>
     0x31F0 \<le> c \<and> c \<le> 0x31FF \<or> 0x3400 \<le> c \<and> c \<le> 0x4DB5 \<or> 0x4E00 \<le> c \<and> c \<le> 0x9FC3 \<or> 0xAC00 \<le> c \<and> c \<le> 0xD7A3 \<or>
     0xFF01 \<le> c \<and> c \<le> 0xFFEE"

definition isNumeric :: "uint16 \<Rightarrow> bool" where
  "isNumeric c \<longleftrightarrow> 0x30 \<le> c \<and> c \<le> 0x39"

definition isNumericOrSpace :: "uint16 \<Rightarrow> bool" where
  "isNumericOrSpace c \<longleftrightarrow> isNumeric c \<or> c = 0x20"

fun isBasicLatinString :: "uint16 list \<Rightarrow> bool \<Rightarrow> bool" where
  "isBasicLatinString [] numericOrSpace = True"
| "isBasicLatinString (c # cs) numericOrSpace =
     (if \<not> isBasicLatinCharacter c \<and> (\<not> numericOrSpace \<or> \<not> isNumericOrSpace c) then False else isBasicLatinString cs numericOrSpace)"

fun isExtendedLatinString :: "uint16 list \<Rightarrow> bool \<Rightarrow> bool" where
  "isExtendedLatinString [] numericOrSpace = True"
| "isExtendedLatinString (c # cs) numericOrSpace =
     (if \<not> isExtendedLatinCharacter c \<and> (\<not> numericOrSpace \<or> \<not> isNumericOrSpace c) then False else isExtendedLatinString cs numericOrSpace)"

fun isCyrillicString :: "uint16 list \<Rightarrow> bool \<Rightarrow> bool" where
  "isCyrillicString [] numericOrSpace = True"
| "isCyrillicString (c # cs) numericOrSpace =
     (if \<not> isCyrillicCharacter c \<and> (\<not> numericOrSpace \<or> \<not> isNumericOrSpace c) then False else isCyrillicString cs numericOrSpace)"

fun isEastAsianString :: "uint16 list \<Rightarrow> bool \<Rightarrow> bool" where
  "isEastAsianString [] numericOrSpace = True"
| "isEastAsianString (c # cs) numericOrSpace =
     (if \<not> isEastAsianCharacter c \<and> (\<not> numericOrSpace \<or> \<not> isNumericOrSpace c) then False else isEastAsianString cs numericOrSpace)"

section \<open>Reserved names\<close>

definition wstrToLower :: "uint16 list \<Rightarrow> uint16 list" where
  "wstrToLower = map wcharToLower"

definition AddReservedName :: "string \<Rightarrow> uint16 list list \<Rightarrow> uint16 list list" where
  "AddReservedName name reserved =
     (case Utf8toWStr name of (ok, wstr) \<Rightarrow> if \<not> ok then reserved else List.insert (wstrToLower wstr) reserved)"

text \<open>The result of a query is \<open>None\<close> when it has no row. A row whose name does not decode is skipped.\<close>

definition LoadReservedPlayersNames :: "bool \<Rightarrow> string list option \<Rightarrow> string list option \<Rightarrow> uint16 list list" where
  "LoadReservedPlayersNames sea result result2 =
     (case result of
        None \<Rightarrow> []
      | Some names \<Rightarrow>
          (let reserved = fold AddReservedName names []
           in if sea then (case result2 of None \<Rightarrow> reserved | Some names2 \<Rightarrow> fold AddReservedName names2 reserved)
              else reserved))"

definition IsReservedName :: "uint16 list list \<Rightarrow> string \<Rightarrow> bool" where
  "IsReservedName reserved name =
     (case Utf8toWStr name of (ok, wstr) \<Rightarrow> if \<not> ok then False else wstrToLower wstr \<in> set reserved)"

section \<open>Languages\<close>

datatype NameResult =
    CHAR_NAME_NO_NAME | CHAR_NAME_TOO_SHORT | CHAR_NAME_TOO_LONG | CHAR_NAME_INVALID_CHARACTER | CHAR_NAME_MIXED_LANGUAGES
  | CHAR_NAME_PROFANE | CHAR_NAME_RESERVED | CHAR_NAME_INVALID_APOSTROPHE | CHAR_NAME_MULTIPLE_APOSTROPHES
  | CHAR_NAME_THREE_CONSECUTIVE | CHAR_NAME_INVALID_SPACE | CHAR_NAME_CONSECUTIVE_SPACES | CHAR_NAME_FAILURE | CHAR_NAME_SUCCESS

datatype PetNameInvalidReason =
    PET_NAME_SUCCESS | PET_NAME_INVALID | PET_NAME_NO_NAME | PET_NAME_TOO_SHORT | PET_NAME_TOO_LONG | PET_NAME_MIXED_LANGUAGES
  | PET_NAME_PROFANE | PET_NAME_RESERVED | PET_NAME_THREE_CONSECUTIVE | PET_NAME_INVALID_SPACE | PET_NAME_CONSECUTIVE_SPACES
  | PET_NAME_RUSSIAN_CONSECUTIVE_SILENT_CHARACTERS | PET_NAME_RUSSIAN_SILENT_CHARACTER_AT_BEGINNING_OR_END
  | PET_NAME_DECLENSION_DOESNT_MATCH_BASE_NAME

abbreviation MAX_PLAYER_NAME :: nat where "MAX_PLAYER_NAME \<equiv> 12"
abbreviation MAX_PET_NAME :: nat where "MAX_PET_NAME \<equiv> 12"
abbreviation MAX_CHARTER_NAME :: nat where "MAX_CHARTER_NAME \<equiv> 24"

record NameRules =
  nr_realmZone :: uint32
  nr_minPlayerName :: uint32
  nr_minPetName :: uint32
  nr_minCharterName :: uint32
  nr_strictPlayerNames :: uint32
  nr_strictPetNames :: uint32
  nr_strictCharterNames :: uint32
  nr_validate :: "uint16 list \<Rightarrow> NameResult"

abbreviation LT_BASIC_LATIN :: uint32 where "LT_BASIC_LATIN \<equiv> 0x0000"
abbreviation LT_EXTENDEN_LATIN :: uint32 where "LT_EXTENDEN_LATIN \<equiv> 0x0001"
abbreviation LT_CYRILLIC :: uint32 where "LT_CYRILLIC \<equiv> 0x0002"
abbreviation LT_EAST_ASIA :: uint32 where "LT_EAST_ASIA \<equiv> 0x0004"
abbreviation LT_ANY :: uint32 where "LT_ANY \<equiv> 0xFFFF"

text \<open>The realm zones by their numbers: 0, 1, 26 and 28 are unknown, development, test and QA; 2 to 4
  and 8 to 11 the Latin ones, 6, 14 and 16 Korea, Taiwan and China, 12 the Russian one.\<close>

definition GetRealmLanguageType :: "uint32 \<Rightarrow> bool \<Rightarrow> uint32" where
  "GetRealmLanguageType zone create =
     (if zone \<in> {0, 1, 26, 28} then LT_ANY
      else if zone \<in> {2, 3, 4, 8, 9, 10, 11} then LT_EXTENDEN_LATIN
      else if zone \<in> {6, 14, 16} then LT_EAST_ASIA
      else if zone = 12 then LT_CYRILLIC
      else if create then LT_BASIC_LATIN else LT_ANY)"

definition isValidString :: "uint32 \<Rightarrow> uint16 list \<Rightarrow> uint32 \<Rightarrow> bool \<Rightarrow> bool \<Rightarrow> bool" where
  "isValidString zone wstr strictMask numericOrSpace create =
     (if strictMask = 0 then
        isExtendedLatinString wstr numericOrSpace \<or> isCyrillicString wstr numericOrSpace \<or> isEastAsianString wstr numericOrSpace
      else
        (strictMask AND 2 \<noteq> 0 \<and>
           (let lt = GetRealmLanguageType zone create
            in (lt AND LT_EXTENDEN_LATIN \<noteq> 0 \<and> isExtendedLatinString wstr numericOrSpace) \<or>
               (lt AND LT_CYRILLIC \<noteq> 0 \<and> isCyrillicString wstr numericOrSpace) \<or>
               (lt AND LT_EAST_ASIA \<noteq> 0 \<and> isEastAsianString wstr numericOrSpace))) \<or>
        (strictMask AND 1 \<noteq> 0 \<and> isBasicLatinString wstr numericOrSpace))"

section \<open>The checks\<close>

definition CheckPlayerName :: "NameRules \<Rightarrow> string \<Rightarrow> bool \<Rightarrow> NameResult" where
  "CheckPlayerName R name create =
     (case Utf8toWStr name of (ok, wname) \<Rightarrow>
        if \<not> ok then CHAR_NAME_INVALID_CHARACTER
        else if length wname > MAX_PLAYER_NAME then CHAR_NAME_TOO_LONG
        else if length wname < unat (nr_minPlayerName R) then CHAR_NAME_TOO_SHORT
        else if \<not> isValidString (nr_realmZone R) wname (nr_strictPlayerNames R) False create then CHAR_NAME_MIXED_LANGUAGES
        else nr_validate R wname)"

definition IsValidCharterName :: "NameRules \<Rightarrow> string \<Rightarrow> bool" where
  "IsValidCharterName R name =
     (case Utf8toWStr name of (ok, wname) \<Rightarrow>
        if \<not> ok then False
        else if length wname > MAX_CHARTER_NAME then False
        else if length wname < unat (nr_minCharterName R) then False
        else isValidString (nr_realmZone R) wname (nr_strictCharterNames R) True False)"

definition CheckPetName :: "NameRules \<Rightarrow> string \<Rightarrow> PetNameInvalidReason" where
  "CheckPetName R name =
     (case Utf8toWStr name of (ok, wname) \<Rightarrow>
        if \<not> ok then PET_NAME_INVALID
        else if length wname > MAX_PET_NAME then PET_NAME_TOO_LONG
        else if length wname < unat (nr_minPetName R) then PET_NAME_TOO_SHORT
        else if \<not> isValidString (nr_realmZone R) wname (nr_strictPetNames R) False False then PET_NAME_MIXED_LANGUAGES
        else if nr_validate R wname = CHAR_NAME_PROFANE then PET_NAME_PROFANE
        else if nr_validate R wname = CHAR_NAME_RESERVED then PET_NAME_RESERVED
        else PET_NAME_SUCCESS)"

text \<open>A configuration for the witnesses: an English realm.\<close>

definition sample_name_rules :: NameRules where
  "sample_name_rules = \<lparr>nr_realmZone = 8, nr_minPlayerName = 2, nr_minPetName = 2, nr_minCharterName = 2, nr_strictPlayerNames = 2,
     nr_strictPetNames = 2, nr_strictCharterNames = 0, nr_validate = (\<lambda>_. CHAR_NAME_SUCCESS)\<rparr>"

section \<open>What an accepted name is made of\<close>

text \<open>A letter of one of the three alphabets, or with \<open>numericOrSpace\<close> a digit or a space.\<close>

definition name_unit :: "bool \<Rightarrow> uint16 \<Rightarrow> bool" where
  "name_unit numericOrSpace c \<longleftrightarrow>
     isExtendedLatinCharacter c \<or> isCyrillicCharacter c \<or> isEastAsianCharacter c \<or> numericOrSpace \<and> isNumericOrSpace c"

lemma string_classes:
  "isBasicLatinString w n \<longleftrightarrow> (\<forall>c \<in> set w. isBasicLatinCharacter c \<or> n \<and> isNumericOrSpace c)"
  "isExtendedLatinString w n \<longleftrightarrow> (\<forall>c \<in> set w. isExtendedLatinCharacter c \<or> n \<and> isNumericOrSpace c)"
  "isCyrillicString w n \<longleftrightarrow> (\<forall>c \<in> set w. isCyrillicCharacter c \<or> n \<and> isNumericOrSpace c)"
  "isEastAsianString w n \<longleftrightarrow> (\<forall>c \<in> set w. isEastAsianCharacter c \<or> n \<and> isNumericOrSpace c)"
  by (induction w) auto

lemma valid_units: "isValidString zone w strict n create \<Longrightarrow> c \<in> set w \<Longrightarrow> name_unit n c"
  by (auto simp: isValidString_def Let_def string_classes name_unit_def isExtendedLatinCharacter_def split: if_splits)

text \<open>Below 128 the units are letters, digits and spaces; none is a surrogate.\<close>

lemma ascii_unit:
  assumes "name_unit n c" and "unat c < 128"
  shows "isBasicLatinCharacter c \<or> n \<and> isNumericOrSpace c"
  using assms
  by (auto simp: name_unit_def isExtendedLatinCharacter_def isCyrillicCharacter_def isEastAsianCharacter_def word_le_nat_alt)

lemma unit_no_surrogate: "name_unit n c \<Longrightarrow> \<not> is_lead_surrogate (ucast c) \<and> \<not> is_trail_surrogate (ucast c)"
  by (auto simp: name_unit_def isExtendedLatinCharacter_def isBasicLatinCharacter_def isCyrillicCharacter_def isEastAsianCharacter_def
      isNumericOrSpace_def isNumeric_def is_lead_surrogate_def is_trail_surrogate_def word_le_nat_alt)

text \<open>A byte below 128 of a decoded text is one of its units.\<close>

lemma append_cp_ascii:
  assumes "append_cp cp = Inr bs" and "b \<in> set bs" and "(of_char b :: nat) < 128"
  shows "unat cp = of_char b"
proof (cases "unat cp < 128")
  case True
  with assms have "bs = [put8 cp]" by (auto simp: append_cp_def word_less_nat_alt split: if_splits)
  with assms(2) True show ?thesis by (simp add: of_char_put8)
next
  case False
  from assms(1) have "is_code_point_valid cp" by (auto simp: append_cp_def split: if_splits)
  then have u: "unat cp < 2097152" by (simp add: is_code_point_valid_def word_le_nat_alt)
  have "128 \<le> (of_char b :: nat)"
    using assms(1,2) False u by (auto simp: append_cp_def word_less_nat_alt written_octets split: if_splits)
  with assms(3) show ?thesis by simp
qed

lemma ascii_byte_is_unit:
  assumes "utf16to8 us = Inr s" and "\<And>u. u \<in> set us \<Longrightarrow> \<not> is_lead_surrogate (ucast u) \<and> \<not> is_trail_surrogate (ucast u)"
    and "b \<in> set s" and "(of_char b :: nat) < 128"
  shows "\<exists>u \<in> set us. unat u = of_char b"
  using assms
proof (induction us arbitrary: s)
  case (Cons u us)
  then obtain bs r where r: "append_cp (ucast u) = Inr bs" "utf16to8 us = Inr r" "s = bs @ r"
    by (auto simp: Let_def split: sum.splits if_splits)
  then show ?case using Cons append_cp_ascii [OF r(1) _ Cons.prems(4)] by auto
qed simp

text \<open>So the bytes below 128 of an accepted name are letters, digits and spaces.\<close>

definition plain_byte :: "bool \<Rightarrow> char \<Rightarrow> bool" where
  "plain_byte numericOrSpace b \<longleftrightarrow>
     (let n = of_char b :: nat
      in 128 \<le> n \<or> 0x61 \<le> n \<and> n \<le> 0x7a \<or> 0x41 \<le> n \<and> n \<le> 0x5a \<or> numericOrSpace \<and> (0x30 \<le> n \<and> n \<le> 0x39 \<or> n = 0x20))"

lemma valid_name_bytes:
  assumes "utf8to16 name = Inr w" and "isValidString zone w strict n create" and "b \<in> set name"
  shows "plain_byte n b"
proof (cases "(of_char b :: nat) < 128")
  case True
  have u: "name_unit n c" if "c \<in> set w" for c by (rule valid_units [OF assms(2) that])
  obtain c where c: "c \<in> set w" "unat c = of_char b"
    using ascii_byte_is_unit [OF utf8to16_utf16to8 [OF assms(1)] unit_no_surrogate [OF u] assms(3) True] by blast
  with ascii_unit [OF u [OF c(1)]] True show ?thesis
    by (auto simp: plain_byte_def Let_def isBasicLatinCharacter_def isNumericOrSpace_def isNumeric_def word_le_nat_alt word_unat_eq_iff)
qed (simp add: plain_byte_def)

text \<open>In a zone with \<open>LT_BASIC_LATIN\<close>, which is 0, the realm-specific rule alone accepts nothing when a
  character is created.\<close>

lemma basic_latin_zone_refuses:
  assumes "zone \<notin> {0, 1, 26, 28, 2, 3, 4, 8, 9, 10, 11, 6, 14, 16, 12}"
  shows "\<not> isValidString zone w 2 n True"
  using assms by (simp add: isValidString_def GetRealmLanguageType_def)

text \<open>Lower case does not change what \<open>IsReservedName\<close> finds.\<close>

lemma reserved_after_add:
  "IsReservedName (AddReservedName name R) n \<longleftrightarrow>
     IsReservedName R n \<or> fst (Utf8toWStr name) \<and> fst (Utf8toWStr n) \<and> wstrToLower (snd (Utf8toWStr n)) = wstrToLower (snd (Utf8toWStr name))"
  by (cases "Utf8toWStr name"; cases "Utf8toWStr n") (auto simp: IsReservedName_def AddReservedName_def)

lemma reserved_after_load:
  "IsReservedName (fold AddReservedName names R) n \<longleftrightarrow>
     IsReservedName R n \<or> (\<exists>name \<in> set names. fst (Utf8toWStr name) \<and> fst (Utf8toWStr n) \<and>
       wstrToLower (snd (Utf8toWStr n)) = wstrToLower (snd (Utf8toWStr name)))"
  by (induction names arbitrary: R) (auto simp: reserved_after_add)

end
