(* ===== verification/Props_Names.thy ===== *)
theory Props_Names
  imports Name_Rules
begin

text \<open>
  Properties of name normalization: the text that is not capitalized is never changed, and a
  normalized name is a fixed point.
\<close>

text \<open>C27: without the capitalization flag (notes, rank names, the guild's information text)
  \<open>normalizePlayerName\<close> leaves every text as it is, also one it refuses: decoding to UTF-16 and encoding again is the identity. It
  accepts exactly the non-empty texts that do not start with a sharp s, are valid UTF-8 and have at most
  \<open>max_len\<close> UTF-16 units.\<close>

theorem normalizePlayerName_exact:
  "normalizePlayerName name m False =
     (name \<noteq> [] \<and> \<not> starts_sharp_s name \<and> (case utf8to16 name of Inl e \<Rightarrow> False | Inr w \<Rightarrow> length w \<le> m), name)"
  using utf8to16_utf16to8 [of name]
  by (auto simp: normalizePlayerName_def Utf8toWStr_def WStrToUtf8_def split: sum.splits)

text \<open>C28: a normalized name is normalized: when \<open>normalizePlayerName\<close> accepts a text, with or without
  capitalization, its result is accepted again under the same limit, comes back unchanged, and has at most
  \<open>max_len\<close> UTF-16 units. So looking a player up by the normalized name, which normalizes it a second time
  (\<open>FindPlayerByName\<close>), uses the same key.\<close>

theorem normalizePlayerName_idem:
  assumes "normalizePlayerName name m caps = (True, n)"
  shows "normalizePlayerName n m caps = (True, n) \<and> (\<exists>w. utf8to16 n = Inr w \<and> length w \<le> m)"
proof -
  from assms obtain w where w: "name \<noteq> []" "\<not> starts_sharp_s name" "utf8to16 name = Inr w" "length w \<le> m"
    "utf16to8 (if caps then capitalize w else w) = Inr n"
    unfolding normalized by blast
  let ?w = "if caps then capitalize w else w"
  have d: "utf8to16 n = Inr ?w" by (rule utf16to8_utf8to16 [OF w(5)])
  have "w \<noteq> []" using w utf8to16_Nil by blast
  then have n: "n \<noteq> []" using d by (cases w) (auto simp: utf8to16.simps split: if_splits)
  have s: "\<not> starts_sharp_s n"
  proof
    assume *: "starts_sharp_s n"
    from sharp_s_decodes [OF * d] have h: "hd ?w = 0xdf" by simp
    show False
    proof (cases caps)
      case True
      with h \<open>w \<noteq> []\<close> show False by (cases w) (simp_all add: wcharToUpper_no_sharp_s)
    next
      case False
      with w utf8to16_utf16to8 [OF w(3)] * show False by simp
    qed
  qed
  have "(if caps then capitalize ?w else ?w) = ?w" by (simp add: capitalize_idem)
  with n s d w have "normalizePlayerName n m caps = (True, n)" by (auto simp: normalized)
  moreover from d w have "\<exists>w. utf8to16 n = Inr w \<and> length w \<le> m" by auto
  ultimately show ?thesis by blast
qed

theorem normalizePlayerName_idem_witness:
  "normalizePlayerName [CHR 0xC3, CHR 0xA9, CHR ''V'', CHR ''a''] 12 True = (True, [CHR 0xC3, CHR 0x89, CHR ''v'', CHR ''a'']) \<and>
   normalizePlayerName [CHR 0xC3, CHR 0x89, CHR ''v'', CHR ''a''] 12 True = (True, [CHR 0xC3, CHR 0x89, CHR ''v'', CHR ''a''])"
proof -
  have "normalizePlayerName [CHR 0xC3, CHR 0xA9, CHR ''V'', CHR ''a''] 12 True = (True, [CHR 0xC3, CHR 0x89, CHR ''v'', CHR ''a''])"
    by code_simp
  with normalizePlayerName_idem [OF this] show ?thesis by simp
qed

text \<open>C29: whatever the configuration and the realm, a name that passes the check for guild charters is valid UTF-8,
  has between the configured minimum and 24 UTF-16 units, comes back unchanged from the wide string, and every byte of it below 128 is a
  letter, a digit or a space; a name that passes the check for players has at most 12 units and
  its bytes below 128 are letters. So no accepted name has a quote, a backslash, a control character or a
  bar, which the SQL texts and the chat links would give a meaning.\<close>

theorem accepted_names_plain:
  "(IsValidCharterName R name \<longrightarrow>
      (\<exists>w. utf8to16 name = Inr w \<and> utf16to8 w = Inr name \<and> unat (nr_minCharterName R) \<le> length w \<and> length w \<le> 24) \<and>
      (\<forall>b \<in> set name. plain_byte True b)) \<and>
   (CheckPlayerName R name create = CHAR_NAME_SUCCESS \<longrightarrow>
      (\<exists>w. utf8to16 name = Inr w \<and> utf16to8 w = Inr name \<and> unat (nr_minPlayerName R) \<le> length w \<and> length w \<le> 12) \<and>
      (\<forall>b \<in> set name. plain_byte False b))"
proof (intro conjI impI)
  assume "IsValidCharterName R name"
  then obtain w where w: "utf8to16 name = Inr w" "length w \<le> 24" "unat (nr_minCharterName R) \<le> length w"
    "isValidString (nr_realmZone R) w (nr_strictCharterNames R) True False"
    by (auto simp: IsValidCharterName_def Utf8toWStr_def split: sum.splits if_splits)
  then show "\<exists>w. utf8to16 name = Inr w \<and> utf16to8 w = Inr name \<and> unat (nr_minCharterName R) \<le> length w \<and> length w \<le> 24"
    using utf8to16_utf16to8 by blast
  show "\<forall>b \<in> set name. plain_byte True b" using valid_name_bytes [OF w(1,4)] by blast
next
  assume "CheckPlayerName R name create = CHAR_NAME_SUCCESS"
  then obtain w where w: "utf8to16 name = Inr w" "length w \<le> 12" "unat (nr_minPlayerName R) \<le> length w"
    "isValidString (nr_realmZone R) w (nr_strictPlayerNames R) False create"
    by (auto simp: CheckPlayerName_def Utf8toWStr_def split: sum.splits if_splits)
  then show "\<exists>w. utf8to16 name = Inr w \<and> utf16to8 w = Inr name \<and> unat (nr_minPlayerName R) \<le> length w \<and> length w \<le> 12"
    using utf8to16_utf16to8 by blast
  show "\<forall>b \<in> set name. plain_byte False b" using valid_name_bytes [OF w(1,4)] by blast
qed

theorem accepted_names_plain_witness:
  "IsValidCharterName sample_name_rules ''Frost 1'' \<and> list_all (plain_byte True) ''Frost 1'' \<and>
   \<not> IsValidCharterName sample_name_rules [CHR ''A'', CHR 0x27] \<and>
   CheckPlayerName sample_name_rules ''Thrall'' True = CHAR_NAME_SUCCESS \<and> list_all (plain_byte False) ''Thrall''"
proof -
  have a: "IsValidCharterName sample_name_rules ''Frost 1''" "\<not> IsValidCharterName sample_name_rules [CHR ''A'', CHR 0x27]"
    "CheckPlayerName sample_name_rules ''Thrall'' True = CHAR_NAME_SUCCESS"
    by code_simp+
  with accepted_names_plain [of sample_name_rules "''Frost 1''"] accepted_names_plain [of sample_name_rules "''Thrall''" True]
  show ?thesis unfolding list_all_iff by blast
qed

end
