(* ===== verification/Guild_Model.thy ===== *)
theory Guild_Model
  imports Bank_Log Name_Rules "HOL-Library.AList"
begin

unbundle bit_operations_syntax

text \<open>
  Guilds: data and environment (src/game/Guild: Guild.h, Guild.cpp, GuildMgr.h, GuildMgr.cpp).

  A player guid is its counter (\<open>HIGHGUID_PLAYER\<close> is 0, so the two are the same number; 0 is the empty
  guid). The members are an \<open>unordered_map\<close>: here the list of its entries in iteration order. Erasing
  keeps the order of the others, inserting may rehash, after which the order is \<open>gv_order\<close> of the
  environment. A \<open>MemberSlot*\<close> is the key of its entry.

  A method of \<open>Guild\<close> works on a pair of the guild object and the world (\<open>gs\<close>): the guild is in the map
  of the guild manager or, while it is created or loaded, not yet. The world has the guild map and
  the member index of the manager (association list and map), the player objects, the petitions, the tables and the packets
  sent so far, each with its receiver. \<open>HashMapHolder<Player>\<close> is \<open>w_players\<close>; \<open>FindPlayer\<close> gives only players
  in the world.

  The tables have the keys of sql/create_databases.sql; \<open>escape_string\<close> of the MySQL client is a
  parameter, and a literal built from an escaped text stores that text. Script hooks get the guild
  and the player; only \<open>OnAddMember\<close> answers, with a rank. \<open>gv_character\<close> gives name, level, class, zone,
  logout time and account of a row of \<open>characters\<close>, empty ones where the join finds none.

  The petitions are the map of the manager as the list of its entries, each under its own id;
  \<open>gv_porder\<close> is the order after an insertion. \<open>gv_petitioner\<close> gives for a player and the guid of a
  creature whether the player can use it as a petitioner, and then whether it is a tabard designer;
  \<open>gv_itemGuid\<close> the low guid of the item at an address of a player. Two effects outside of guilds are listed among the packets
  of the player they concern: the end of feigned death and the save of inventory and gold.
\<close>

section \<open>Constants\<close>

type_synonym uint64 = "64 word"

abbreviation GUILD_RANKS_MIN_COUNT :: nat where "GUILD_RANKS_MIN_COUNT \<equiv> 5"
abbreviation GUILD_RANKS_MAX_COUNT :: nat where "GUILD_RANKS_MAX_COUNT \<equiv> 10"
abbreviation GUILD_NOTE_MAX_LENGTH :: nat where "GUILD_NOTE_MAX_LENGTH \<equiv> 31"
abbreviation GUILD_INFO_MAX_LENGTH :: nat where "GUILD_INFO_MAX_LENGTH \<equiv> 500"
abbreviation GUILD_MOTD_MAX_LENGTH :: nat where "GUILD_MOTD_MAX_LENGTH \<equiv> 128"
abbreviation GUILD_EVENTLOG_MAX_RECORDS :: nat where "GUILD_EVENTLOG_MAX_RECORDS \<equiv> 100"
abbreviation OnlineMemberCache :: nat where "OnlineMemberCache \<equiv> 1000"
abbreviation MAX_INTERNAL_PLAYER_NAME :: nat where "MAX_INTERNAL_PLAYER_NAME \<equiv> 15"

abbreviation GR_GUILDMASTER :: uint32 where "GR_GUILDMASTER \<equiv> 0"
abbreviation GR_OFFICER :: uint32 where "GR_OFFICER \<equiv> 1"

abbreviation GR_RIGHT_EMPTY :: uint32 where "GR_RIGHT_EMPTY \<equiv> 0x00000040"
abbreviation GR_RIGHT_GCHATLISTEN :: uint32 where "GR_RIGHT_GCHATLISTEN \<equiv> 0x00000041"
abbreviation GR_RIGHT_GCHATSPEAK :: uint32 where "GR_RIGHT_GCHATSPEAK \<equiv> 0x00000042"
abbreviation GR_RIGHT_PROMOTE :: uint32 where "GR_RIGHT_PROMOTE \<equiv> 0x000000C0"
abbreviation GR_RIGHT_DEMOTE :: uint32 where "GR_RIGHT_DEMOTE \<equiv> 0x00000140"
abbreviation GR_RIGHT_INVITE :: uint32 where "GR_RIGHT_INVITE \<equiv> 0x00000050"
abbreviation GR_RIGHT_REMOVE :: uint32 where "GR_RIGHT_REMOVE \<equiv> 0x00000060"
abbreviation GR_RIGHT_SETMOTD :: uint32 where "GR_RIGHT_SETMOTD \<equiv> 0x00001040"
abbreviation GR_RIGHT_EPNOTE :: uint32 where "GR_RIGHT_EPNOTE \<equiv> 0x00002040"
abbreviation GR_RIGHT_EOFFNOTE :: uint32 where "GR_RIGHT_EOFFNOTE \<equiv> 0x00008040"
abbreviation GR_RIGHT_MODIFY_GUILD_INFO :: uint32 where "GR_RIGHT_MODIFY_GUILD_INFO \<equiv> 0x00010040"
abbreviation GR_RIGHT_ALL :: uint32 where "GR_RIGHT_ALL \<equiv> 0x000FF1FF"

datatype Typecommand = GUILD_CREATE_S | GUILD_INVITE_S | GUILD_QUIT_S | GUILD_FOUNDER_S | GUILD_UNK19 | GUILD_UNK20

datatype GuildAddStatus = GuildAdd_OK | GUILD_FULL | ALREADY_IN_GUILD | UNKNOWN_PLAYER | PLAYER_DATA_ERROR

text \<open>\<open>ERR_GUILD_LEADER_LEAVE\<close> and \<open>ERR_GUILD_PERMISSIONS\<close> are the same number on the wire.\<close>

datatype CommandErrors =
    ERR_PLAYER_NO_MORE_IN_GUILD | ERR_GUILD_INTERNAL | ERR_ALREADY_IN_GUILD | ERR_ALREADY_IN_GUILD_S | ERR_INVITED_TO_GUILD
  | ERR_ALREADY_INVITED_TO_GUILD_S | ERR_GUILD_NAME_INVALID | ERR_GUILD_NAME_EXISTS_S | ERR_GUILD_LEADER_LEAVE | ERR_GUILD_PERMISSIONS
  | ERR_GUILD_PLAYER_NOT_IN_GUILD | ERR_GUILD_PLAYER_NOT_IN_GUILD_S | ERR_GUILD_PLAYER_NOT_FOUND_S | ERR_GUILD_NOT_ALLIED
  | ERR_GUILD_RANK_TOO_HIGH_S | ERR_GUILD_RANK_TOO_LOW_S | ERR_GUILD_RANKS_LOCKED | ERR_GUILD_RANK_IN_USE
  | ERR_GUILD_IGNORING_YOU_S | ERR_GUILD_UNK20

datatype GuildEvents =
    GE_PROMOTION | GE_DEMOTION | GE_MOTD | GE_JOINED | GE_LEFT | GE_REMOVED | GE_LEADER_IS | GE_LEADER_CHANGED | GE_DISBANDED
  | GE_TABARDCHANGE | GE_UNK1 | GE_UNK2 | GE_SIGNED_ON | GE_SIGNED_OFF

datatype PetitionSigns =
    PETITION_SIGN_OK | PETITION_SIGN_ALREADY_SIGNED | PETITION_SIGN_ALREADY_IN_GUILD | PETITION_SIGN_CANT_SIGN_OWN
  | PETITION_SIGN_NEED_MORE | PETITION_SIGN_NOT_SERVER

datatype BuyResult =
    BUY_ERR_CANT_FIND_ITEM | BUY_ERR_ITEM_ALREADY_SOLD | BUY_ERR_NOT_ENOUGHT_MONEY | BUY_ERR_SELLER_DONT_LIKE_YOU
  | BUY_ERR_DISTANCE_TOO_FAR | BUY_ERR_ITEM_SOLD_OUT | BUY_ERR_CANT_CARRY_MORE | BUY_ERR_RANK_REQUIRE | BUY_ERR_REPUTATION_REQUIRE

datatype GuildEmblem =
    ERR_GUILDEMBLEM_SUCCESS | ERR_GUILDEMBLEM_INVALID_TABARD_COLORS | ERR_GUILDEMBLEM_NOGUILD | ERR_GUILDEMBLEM_NOTGUILDMASTER
  | ERR_GUILDEMBLEM_NOTENOUGHMONEY | ERR_GUILDEMBLEM_FAIL_NO_MESSAGE

abbreviation GUILD_EVENT_LOG_INVITE_PLAYER :: uint8 where "GUILD_EVENT_LOG_INVITE_PLAYER \<equiv> 1"
abbreviation GUILD_EVENT_LOG_JOIN_GUILD :: uint8 where "GUILD_EVENT_LOG_JOIN_GUILD \<equiv> 2"
abbreviation GUILD_EVENT_LOG_PROMOTE_PLAYER :: uint8 where "GUILD_EVENT_LOG_PROMOTE_PLAYER \<equiv> 3"
abbreviation GUILD_EVENT_LOG_DEMOTE_PLAYER :: uint8 where "GUILD_EVENT_LOG_DEMOTE_PLAYER \<equiv> 4"
abbreviation GUILD_EVENT_LOG_UNINVITE_PLAYER :: uint8 where "GUILD_EVENT_LOG_UNINVITE_PLAYER \<equiv> 5"
abbreviation GUILD_EVENT_LOG_LEAVE_GUILD :: uint8 where "GUILD_EVENT_LOG_LEAVE_GUILD \<equiv> 6"

section \<open>Data\<close>

record GuildEventLogEntry =
  ev_EventType :: uint8
  ev_PlayerGuid1 :: uint32
  ev_PlayerGuid2 :: uint32
  ev_NewRank :: uint8
  ev_TimeStamp :: uint64

record MemberSlot =
  ms_guid :: uint32
  ms_accountId :: uint32
  ms_Name :: string
  ms_RankId :: uint32
  ms_Level :: uint8
  ms_Class :: uint8
  ms_ZoneId :: uint32
  ms_LogoutTime :: uint64
  ms_PublicNote :: string
  ms_OfficerNote :: string

record RankInfo =
  ri_Name :: string
  ri_Rights :: uint32

record Emblem =
  em_Style :: uint32
  em_Color :: uint32
  em_BorderStyle :: uint32
  em_BorderColor :: uint32
  em_BackgroundColor :: uint32

type_synonym MemberList = "(uint32 \<times> MemberSlot) list"

record Guild =
  m_Id :: uint32
  m_Name :: string
  m_LeaderGuid :: uint32
  m_motd :: string
  m_info :: string
  m_Created :: "uint32 \<times> uint32 \<times> uint32"  \<comment> \<open>day, month, year\<close>
  m_Emblem :: Emblem
  m_accountsNumber :: uint32
  m_Ranks :: "RankInfo list"
  members :: MemberList
  m_onlineMemberCache :: "uint32 list"
  m_GuildEventLog :: "GuildEventLogEntry list"
  m_GmListeners :: "uint32 list"
  m_GuildEventLogNextGuid :: uint32
  m_Bank :: "Bank option"
  m_InfernoBank :: "Bank option"

text \<open>A player object: the player of the item model with the fields the guild code uses.\<close>

record GuildPlayer =
  gp_pl :: Player
  gp_account :: uint32
  gp_level :: uint8
  gp_class :: uint8
  gp_zone :: uint32
  gp_race :: uint8
  gp_team :: uint32
  gp_guildId :: uint32
  gp_guildIdInvited :: uint32

record PlayerCacheData =
  pc_Name :: string
  pc_Level :: uint32
  pc_Class :: uint32
  pc_ZoneId :: uint32
  pc_Account :: uint32
  pc_Race :: uint32

record PetitionSignature =
  sg_playerGuid :: uint32
  sg_playerAccount :: uint32

record Petition =
  pt_id :: uint32
  pt_charterGuid :: uint64
  pt_ownerGuid :: uint32
  pt_name :: string
  pt_team :: uint32
  pt_signatures :: "PetitionSignature list"

section \<open>The tables\<close>

record GuildRow =
  gr_guildid :: uint32
  gr_name :: string
  gr_leaderguid :: uint32
  gr_info :: string
  gr_motd :: string
  gr_createdate :: uint64
  gr_emblem :: Emblem

record MemberRow =
  mw_guildid :: uint32
  mw_guid :: uint32
  mw_rank :: uint32
  mw_pnote :: string
  mw_offnote :: string

record RankRow =
  rr_guildid :: uint32
  rr_rid :: uint32
  rr_name :: string
  rr_rights :: uint32

record EventRow =
  er_guildid :: uint32
  er_LogGuid :: uint32
  er_entry :: GuildEventLogEntry

record SignRow =
  sr_ownerguid :: uint32
  sr_petitionguid :: uint32
  sr_playerguid :: uint32
  sr_account :: uint32

record PetitionRow =
  pw_ownerguid :: uint32
  pw_petitionguid :: uint32
  pw_charterguid :: uint32
  pw_name :: string

record GuildDb =
  gd_guild :: "GuildRow list"
  gd_member :: "MemberRow list"
  gd_rank :: "RankRow list"
  gd_eventlog :: "EventRow list"
  gd_petition :: "PetitionRow list"
  gd_sign :: "SignRow list"

datatype gstmt =
    DeleteMembersOf uint32
  | InsertGuild GuildRow
  | UpdateGuildName uint32 string
  | UpdateMotd uint32 string
  | UpdateInfo uint32 string
  | UpdateLeader uint32 uint32
  | UpdateEmblem uint32 Emblem
  | DeleteGuildRow uint32
  | InsertMember MemberRow
  | DeleteMember uint32
  | UpdateMemberRank uint32 uint32
  | UpdatePnote uint32 string
  | UpdateOffnote uint32 string
  | InsertRank RankRow
  | DeleteRanksOf uint32
  | DeleteRanksFrom uint32 uint32
  | UpdateRankName uint32 uint32 string
  | UpdateRankRights uint32 uint32 uint32
  | InsertEvent EventRow
  | DeleteEvent uint32 uint32
  | DeleteEventsOf uint32
  | DeleteEventsAbove uint32
  | DeleteSignsOfOwner uint32
  | InsertPetition PetitionRow
  | UpdatePetitionName uint32 string
  | DeletePetitionRow uint32
  | InsertSign SignRow
  | DeleteSignsOf uint32
  | UpdateSignOwner uint32 uint32

fun exec_gsql :: "gstmt \<Rightarrow> GuildDb \<Rightarrow> GuildDb" where
  "exec_gsql (DeleteMembersOf g) d = d\<lparr>gd_member := filter (\<lambda>r. mw_guildid r \<noteq> g) (gd_member d)\<rparr>"
| "exec_gsql (InsertGuild r) d =
     (if list_ex (\<lambda>x. gr_guildid x = gr_guildid r) (gd_guild d) then d else d\<lparr>gd_guild := gd_guild d @ [r]\<rparr>)"
| "exec_gsql (UpdateGuildName g n) d =
     d\<lparr>gd_guild := map (\<lambda>r. if gr_guildid r = g then r\<lparr>gr_name := n\<rparr> else r) (gd_guild d)\<rparr>"
| "exec_gsql (UpdateMotd g m) d =
     d\<lparr>gd_guild := map (\<lambda>r. if gr_guildid r = g then r\<lparr>gr_motd := m\<rparr> else r) (gd_guild d)\<rparr>"
| "exec_gsql (UpdateInfo g i) d =
     d\<lparr>gd_guild := map (\<lambda>r. if gr_guildid r = g then r\<lparr>gr_info := i\<rparr> else r) (gd_guild d)\<rparr>"
| "exec_gsql (UpdateLeader g l) d =
     d\<lparr>gd_guild := map (\<lambda>r. if gr_guildid r = g then r\<lparr>gr_leaderguid := l\<rparr> else r) (gd_guild d)\<rparr>"
| "exec_gsql (UpdateEmblem g e) d =
     d\<lparr>gd_guild := map (\<lambda>r. if gr_guildid r = g then r\<lparr>gr_emblem := e\<rparr> else r) (gd_guild d)\<rparr>"
| "exec_gsql (DeleteGuildRow g) d = d\<lparr>gd_guild := filter (\<lambda>r. gr_guildid r \<noteq> g) (gd_guild d)\<rparr>"
| "exec_gsql (InsertMember r) d =
     (if list_ex (\<lambda>x. mw_guid x = mw_guid r) (gd_member d) then d else d\<lparr>gd_member := gd_member d @ [r]\<rparr>)"
| "exec_gsql (DeleteMember p) d = d\<lparr>gd_member := filter (\<lambda>r. mw_guid r \<noteq> p) (gd_member d)\<rparr>"
| "exec_gsql (UpdateMemberRank p k) d =
     d\<lparr>gd_member := map (\<lambda>r. if mw_guid r = p then r\<lparr>mw_rank := k\<rparr> else r) (gd_member d)\<rparr>"
| "exec_gsql (UpdatePnote p n) d =
     d\<lparr>gd_member := map (\<lambda>r. if mw_guid r = p then r\<lparr>mw_pnote := n\<rparr> else r) (gd_member d)\<rparr>"
| "exec_gsql (UpdateOffnote p n) d =
     d\<lparr>gd_member := map (\<lambda>r. if mw_guid r = p then r\<lparr>mw_offnote := n\<rparr> else r) (gd_member d)\<rparr>"
| "exec_gsql (InsertRank r) d =
     (if list_ex (\<lambda>x. rr_guildid x = rr_guildid r \<and> rr_rid x = rr_rid r) (gd_rank d) then d
      else d\<lparr>gd_rank := gd_rank d @ [r]\<rparr>)"
| "exec_gsql (DeleteRanksOf g) d = d\<lparr>gd_rank := filter (\<lambda>r. rr_guildid r \<noteq> g) (gd_rank d)\<rparr>"
| "exec_gsql (DeleteRanksFrom k g) d =
     d\<lparr>gd_rank := filter (\<lambda>r. \<not> (rr_rid r \<ge> k \<and> rr_guildid r = g)) (gd_rank d)\<rparr>"
| "exec_gsql (UpdateRankName g k n) d =
     d\<lparr>gd_rank := map (\<lambda>r. if rr_rid r = k \<and> rr_guildid r = g then r\<lparr>rr_name := n\<rparr> else r) (gd_rank d)\<rparr>"
| "exec_gsql (UpdateRankRights g k x) d =
     d\<lparr>gd_rank := map (\<lambda>r. if rr_rid r = k \<and> rr_guildid r = g then r\<lparr>rr_rights := x\<rparr> else r) (gd_rank d)\<rparr>"
| "exec_gsql (InsertEvent r) d =
     (if list_ex (\<lambda>x. er_guildid x = er_guildid r \<and> er_LogGuid x = er_LogGuid r) (gd_eventlog d) then d
      else d\<lparr>gd_eventlog := gd_eventlog d @ [r]\<rparr>)"
| "exec_gsql (DeleteEvent g l) d =
     d\<lparr>gd_eventlog := filter (\<lambda>r. \<not> (er_guildid r = g \<and> er_LogGuid r = l)) (gd_eventlog d)\<rparr>"
| "exec_gsql (DeleteEventsOf g) d = d\<lparr>gd_eventlog := filter (\<lambda>r. er_guildid r \<noteq> g) (gd_eventlog d)\<rparr>"
| "exec_gsql (DeleteEventsAbove n) d = d\<lparr>gd_eventlog := filter (\<lambda>r. er_LogGuid r \<le> n) (gd_eventlog d)\<rparr>"
| "exec_gsql (DeleteSignsOfOwner p) d = d\<lparr>gd_sign := filter (\<lambda>r. sr_ownerguid r \<noteq> p) (gd_sign d)\<rparr>"
| "exec_gsql (InsertPetition r) d =
     (if list_ex (\<lambda>x. pw_ownerguid x = pw_ownerguid r \<or> pw_charterguid x = pw_charterguid r) (gd_petition d) then d
      else d\<lparr>gd_petition := gd_petition d @ [r]\<rparr>)"
| "exec_gsql (UpdatePetitionName i n) d =
     d\<lparr>gd_petition := map (\<lambda>r. if pw_petitionguid r = i then r\<lparr>pw_name := n\<rparr> else r) (gd_petition d)\<rparr>"
| "exec_gsql (DeletePetitionRow i) d = d\<lparr>gd_petition := filter (\<lambda>r. pw_petitionguid r \<noteq> i) (gd_petition d)\<rparr>"
| "exec_gsql (InsertSign r) d =
     (if list_ex (\<lambda>x. sr_petitionguid x = sr_petitionguid r \<and> sr_playerguid x = sr_playerguid r) (gd_sign d) then d
      else d\<lparr>gd_sign := gd_sign d @ [r]\<rparr>)"
| "exec_gsql (DeleteSignsOf i) d = d\<lparr>gd_sign := filter (\<lambda>r. sr_petitionguid r \<noteq> i) (gd_sign d)\<rparr>"
| "exec_gsql (UpdateSignOwner o' i) d =
     d\<lparr>gd_sign := map (\<lambda>r. if sr_petitionguid r = i then r\<lparr>sr_ownerguid := o'\<rparr> else r) (gd_sign d)\<rparr>"

section \<open>The environment and the world\<close>

record GuildEnv = BankEnv +
  gv_date :: "int \<Rightarrow> uint32 \<times> uint32 \<times> uint32"
  gv_order :: "MemberList \<Rightarrow> MemberList"
  gv_escape :: "string \<Rightarrow> string"
  gv_onAddMember :: "uint32 \<Rightarrow> uint32 \<Rightarrow> uint8 \<Rightarrow> uint8"
  gv_cache :: "uint32 \<Rightarrow> PlayerCacheData option"
  gv_teamForRace :: "uint8 \<Rightarrow> uint32"
  gv_twoSide :: bool
  gv_eventLogCount :: uint32
  gv_string :: "nat \<Rightarrow> string"
  gv_newGuildId :: uint32
  gv_byName :: "string \<Rightarrow> uint32 option"
  gv_ignores :: "uint32 \<Rightarrow> uint32 \<Rightarrow> bool"
  gv_master :: "uint32 \<Rightarrow> bool"
  gv_designer :: bool
  gv_zoneFromDB :: "uint32 \<Rightarrow> uint32"
  gv_character :: "uint32 \<Rightarrow> string \<times> uint8 \<times> uint8 \<times> uint32 \<times> uint64 \<times> uint32"
  gv_minSigns :: uint32
  gv_newPetitionId :: uint32
  gv_porder :: "Petition list \<Rightarrow> Petition list"
  gv_petitioner :: "uint32 \<Rightarrow> uint64 \<Rightarrow> bool option"
  gv_feign :: "uint32 \<Rightarrow> bool"
  gv_itemGuid :: "uint32 \<Rightarrow> iptr \<Rightarrow> uint32"
  gv_nameRules :: NameRules
  gv_reserved :: "uint16 list list"
  gv_idle :: Player
  gv_bank0 :: Bank

datatype gpacket =
    SMSG_GUILD_EVENT GuildEvents "string list" uint32
  | SMSG_GUILD_COMMAND_RESULT Typecommand string CommandErrors
  | SMSG_GUILD_INVITE string string
  | SMSG_GUILD_DECLINE string
  | SMSG_GUILD_INFO string "uint32 \<times> uint32 \<times> uint32" nat uint32
  | SMSG_GUILD_QUERY_RESPONSE uint32 string "string list" Emblem
  | SMSG_GUILD_ROSTER uint32
  | MSG_SAVE_GUILD_EMBLEM GuildEmblem
  | GuildBankMessage string
  | SMSG_PETITION_SIGN_RESULTS uint64 uint32 PetitionSigns
  | SMSG_PETITION_SHOW_SIGNATURES uint64 uint32 uint32 uint8 "uint32 list"
  | SMSG_PETITION_QUERY_RESPONSE uint32 uint32 string
  | SMSG_PETITION_SHOWLIST uint64
  | SMSG_TURN_IN_PETITION_RESULTS PetitionSigns
  | PETITION_RENAMED uint64 string
  | PETITION_DECLINED uint32
  | SMSG_BUY_FAILED BuyResult uint32
  | SMSG_INVENTORY_CHANGE_FAILURE InventoryResult uint32
  | SMSG_ITEM_PUSH_RESULT iptr uint32
  | FeignDeathRemoved
  | InventoryAndGoldSaved

record GWorld =
  w_guilds :: "(uint32 \<times> Guild) list"
  w_guid2guild :: "uint32 \<rightharpoonup> uint32"
  w_players :: "uint32 \<rightharpoonup> GuildPlayer"
  w_petitions :: "Petition list"
  w_gdb :: GuildDb
  w_bdb :: Db
  w_out :: "(uint32 \<times> gpacket) list"
  w_bankSaveTimer :: uint32

type_synonym gs = "Guild \<times> GWorld"

definition gsql :: "gstmt \<Rightarrow> GWorld \<Rightarrow> GWorld" where
  "gsql st w = w\<lparr>w_gdb := exec_gsql st (w_gdb w)\<rparr>"

definition gsend :: "uint32 \<Rightarrow> gpacket \<Rightarrow> GWorld \<Rightarrow> GWorld" where
  "gsend to p w = w\<lparr>w_out := w_out w @ [(to, p)]\<rparr>"

definition FindPlayerNotInWorld :: "GWorld \<Rightarrow> uint32 \<Rightarrow> GuildPlayer option" where
  "FindPlayerNotInWorld w guid = (if guid = 0 then None else w_players w guid)"

definition FindPlayer :: "GWorld \<Rightarrow> uint32 \<Rightarrow> GuildPlayer option" where
  "FindPlayer w guid =
     (case FindPlayerNotInWorld w guid of
        None \<Rightarrow> None
      | Some p \<Rightarrow> if pl_inworld (gp_pl p) then Some p else None)"

definition set_player :: "uint32 \<Rightarrow> GuildPlayer \<Rightarrow> GWorld \<Rightarrow> GWorld" where
  "set_player guid p w = w\<lparr>w_players := (w_players w)(guid \<mapsto> p)\<rparr>"

definition SetInGuild :: "uint32 \<Rightarrow> GuildPlayer \<Rightarrow> GuildPlayer" where
  "SetInGuild g p = p\<lparr>gp_guildId := g\<rparr>"

definition SetRank :: "uint32 \<Rightarrow> GuildPlayer \<Rightarrow> GuildPlayer" where
  "SetRank r p = p\<lparr>gp_pl := (gp_pl p)\<lparr>pl_rank := r\<rparr>\<rparr>"

definition SetGuildIdInvited :: "uint32 \<Rightarrow> GuildPlayer \<Rightarrow> GuildPlayer" where
  "SetGuildIdInvited g p = p\<lparr>gp_guildIdInvited := g\<rparr>"

definition GuildMemberAdded :: "uint32 \<Rightarrow> uint32 \<Rightarrow> GWorld \<Rightarrow> GWorld" where
  "GuildMemberAdded g m w = w\<lparr>w_guid2guild := (w_guid2guild w)(m \<mapsto> g)\<rparr>"

definition GuildMemberRemoved :: "uint32 \<Rightarrow> GWorld \<Rightarrow> GWorld" where
  "GuildMemberRemoved m w = w\<lparr>w_guid2guild := (w_guid2guild w)(m := None)\<rparr>"

text \<open>A new object of class \<open>Guild\<close>.\<close>

definition no_emblem :: Emblem where
  "no_emblem = \<lparr>em_Style = 0, em_Color = 0, em_BorderStyle = 0, em_BorderColor = 0, em_BackgroundColor = 0\<rparr>"

definition new_Guild :: Guild where
  "new_Guild = \<lparr>m_Id = 0, m_Name = [], m_LeaderGuid = 0, m_motd = [], m_info = [], m_Created = (0, 0, 0), m_Emblem = no_emblem,
     m_accountsNumber = 0, m_Ranks = [], members = [], m_onlineMemberCache = [], m_GuildEventLog = [], m_GmListeners = [],
     m_GuildEventLogNextGuid = 0, m_Bank = None, m_InfernoBank = None\<rparr>"

end
