(* ===== verification/Guild_Ops.thy ===== *)
theory Guild_Ops
  imports Guild_Model
begin

unbundle bit_operations_syntax

text \<open>
  The operations of the class \<open>Guild\<close> (src/game/Guild/Guild.cpp, Guild.h): packets to the guild, members,
  the leader, ranks, the event log, and disbanding.
\<close>

section \<open>Members and packets\<close>

definition GetMemberSlot :: "Guild \<Rightarrow> uint32 \<Rightarrow> MemberSlot option" where
  "GetMemberSlot g guid = map_of (members g) guid"

definition GetMemberSlotByName :: "Guild \<Rightarrow> string \<Rightarrow> (uint32 \<times> MemberSlot) option" where
  "GetMemberSlotByName g name = find (\<lambda>(k, m). ms_Name m = name) (members g)"

definition upd_member :: "uint32 \<Rightarrow> (MemberSlot \<Rightarrow> MemberSlot) \<Rightarrow> Guild \<Rightarrow> Guild" where
  "upd_member k f g = g\<lparr>members := map (\<lambda>(k', m). if k' = k then (k', f m) else (k', m)) (members g)\<rparr>"

text \<open>\<open>int32 GetRank\<close>: the rank of a member, \<open>-1\<close> otherwise.\<close>

definition GetRank :: "Guild \<Rightarrow> uint32 \<Rightarrow> int" where
  "GetRank g guid = (case GetMemberSlot g guid of Some m \<Rightarrow> sint (ms_RankId m) | None \<Rightarrow> -1)"

definition GetLowestRank :: "Guild \<Rightarrow> uint32" where
  "GetLowestRank g = of_nat (length (m_Ranks g)) - 1"

definition GetRankRights :: "Guild \<Rightarrow> uint32 \<Rightarrow> uint32" where
  "GetRankRights g rankId = (if unat rankId \<ge> length (m_Ranks g) then 0 else ri_Rights (m_Ranks g ! unat rankId))"

definition GetRankName :: "Guild \<Rightarrow> uint32 \<Rightarrow> string" where
  "GetRankName g rankId = (if unat rankId \<ge> length (m_Ranks g) then ''<unknown>'' else ri_Name (m_Ranks g ! unat rankId))"

definition HasRankRight :: "Guild \<Rightarrow> uint32 \<Rightarrow> uint32 \<Rightarrow> bool" where
  "HasRankRight g rankId right \<longleftrightarrow> GetRankRights g rankId AND right \<noteq> GR_RIGHT_EMPTY"

definition BroadcastPacket :: "'e GuildEnv_scheme \<Rightarrow> gpacket \<Rightarrow> gs \<Rightarrow> gs" where
  "BroadcastPacket E p s =
     (case s of (g, w) \<Rightarrow>
        let w1 = (if length (members g) \<ge> OnlineMemberCache
                  then fold (\<lambda>k. if k \<noteq> 0 \<and> gv_master E k then gsend k p else id) (m_onlineMemberCache g) w
                  else fold (\<lambda>(k, m). if FindPlayer w k \<noteq> None then gsend k p else id) (members g) w)
        in (g, fold (\<lambda>k. if FindPlayer w k \<noteq> None then gsend k p else id) (m_GmListeners g) w1))"

definition BroadcastEvent :: "'e GuildEnv_scheme \<Rightarrow> GuildEvents \<Rightarrow> uint32 \<Rightarrow> string list \<Rightarrow> gs \<Rightarrow> gs" where
  "BroadcastEvent E event guid strs = BroadcastPacket E (SMSG_GUILD_EVENT event strs guid)"

definition BroadcastPacketToRank :: "gpacket \<Rightarrow> uint32 \<Rightarrow> gs \<Rightarrow> gs" where
  "BroadcastPacketToRank p rankId s =
     (case s of (g, w) \<Rightarrow>
        (g, fold (\<lambda>(k, m). if ms_RankId m = rankId \<and> FindPlayer w k \<noteq> None then gsend k p else id) (members g) w))"

text \<open>\<open>MemberSlot::SetMemberStats\<close> and \<open>UpdateLogoutTime\<close> on a slot.\<close>

definition SetMemberStats :: "GuildPlayer \<Rightarrow> MemberSlot \<Rightarrow> MemberSlot" where
  "SetMemberStats p m = m\<lparr>ms_Name := pl_name (gp_pl p), ms_Level := gp_level p, ms_Class := gp_class p, ms_ZoneId := gp_zone p\<rparr>"

definition UpdateLogoutTime :: "'e GuildEnv_scheme \<Rightarrow> MemberSlot \<Rightarrow> MemberSlot" where
  "UpdateLogoutTime E m = m\<lparr>ms_LogoutTime := word_of_int (be_now E)\<rparr>"

text \<open>\<open>MemberSlot::ChangeRank\<close> on the slot with key \<open>k\<close>.\<close>

definition ChangeRank :: "uint32 \<Rightarrow> uint32 \<Rightarrow> gs \<Rightarrow> gs" where
  "ChangeRank k newRank s =
     (case s of (g, w) \<Rightarrow>
        case GetMemberSlot g k of
          None \<Rightarrow> (g, w)
        | Some m \<Rightarrow>
            let w1 = (case FindPlayer w (ms_guid m) of
                        None \<Rightarrow> w
                      | Some p \<Rightarrow> set_player (ms_guid m) (SetRank newRank p) w)
            in (upd_member k (\<lambda>m. m\<lparr>ms_RankId := newRank\<rparr>) g, gsql (UpdateMemberRank (ms_guid m) newRank) w1))"

text \<open>\<open>SetPublicNote\<close> and \<open>SetOfficerNote\<close> escape the note in place.\<close>

definition SetPublicNote :: "'e GuildEnv_scheme \<Rightarrow> uint32 \<Rightarrow> string \<Rightarrow> gs \<Rightarrow> gs" where
  "SetPublicNote E k note s =
     (case s of (g, w) \<Rightarrow>
        case GetMemberSlot g k of
          None \<Rightarrow> (g, w)
        | Some m \<Rightarrow>
            if ms_PublicNote m = note then (g, w)
            else (upd_member k (\<lambda>m. m\<lparr>ms_PublicNote := gv_escape E note\<rparr>) g, gsql (UpdatePnote (ms_guid m) note) w))"

definition SetOfficerNote :: "'e GuildEnv_scheme \<Rightarrow> uint32 \<Rightarrow> string \<Rightarrow> gs \<Rightarrow> gs" where
  "SetOfficerNote E k note s =
     (case s of (g, w) \<Rightarrow>
        case GetMemberSlot g k of
          None \<Rightarrow> (g, w)
        | Some m \<Rightarrow>
            if ms_OfficerNote m = note then (g, w)
            else (upd_member k (\<lambda>m. m\<lparr>ms_OfficerNote := gv_escape E note\<rparr>) g, gsql (UpdateOffnote (ms_guid m) note) w))"

section \<open>Joining\<close>

text \<open>The first signature of the player over the petitions, taken out of its petition.\<close>

fun drop_signature :: "uint32 \<Rightarrow> Petition list \<Rightarrow> Petition list option" where
  "drop_signature guid [] = None"
| "drop_signature guid (p # ps) =
     (case find (\<lambda>x. sg_playerGuid x = guid) (pt_signatures p) of
        Some x \<Rightarrow> Some (p\<lparr>pt_signatures := remove1 x (pt_signatures p)\<rparr> # ps)
      | None \<Rightarrow> map_option (Cons p) (drop_signature guid ps))"

text \<open>\<open>DeleteFromDB\<close> of the signature deletes by owner.\<close>

definition unsign :: "uint32 \<Rightarrow> GWorld \<Rightarrow> GWorld" where
  "unsign guid w =
     (case drop_signature guid (w_petitions w) of
        None \<Rightarrow> w
      | Some ps \<Rightarrow> gsql (DeleteSignsOfOwner guid) (w\<lparr>w_petitions := ps\<rparr>))"

text \<open>\<open>(1 << (Class - 1)) & CLASSMASK_ALL_PLAYABLE\<close>; the machine takes shift counts modulo 32.\<close>

definition class_playable :: "uint8 \<Rightarrow> bool" where
  "class_playable c \<longleftrightarrow> push_bit ((unat c + 31) mod 32) 1 AND (0x5DF :: uint32) \<noteq> 0"

definition put_member :: "'e GuildEnv_scheme \<Rightarrow> uint32 \<Rightarrow> MemberSlot \<Rightarrow> Guild \<Rightarrow> Guild" where
  "put_member E k m g =
     (if k \<in> set (map fst (members g)) then upd_member k (\<lambda>_. m) g
      else g\<lparr>members := gv_order E (members g @ [(k, m)])\<rparr>)"

definition AddToCache :: "uint32 \<Rightarrow> Guild \<Rightarrow> Guild" where
  "AddToCache k g = g\<lparr>m_onlineMemberCache := List.insert k (m_onlineMemberCache g)\<rparr>"

definition RemoveFromCache :: "uint32 \<Rightarrow> Guild \<Rightarrow> Guild" where
  "RemoveFromCache k g = g\<lparr>m_onlineMemberCache := removeAll k (m_onlineMemberCache g)\<rparr>"

definition UpdateAccountsNumber :: "Guild \<Rightarrow> Guild" where
  "UpdateAccountsNumber g = g\<lparr>m_accountsNumber := 0\<rparr>"

text \<open>The data of a new member: from the player object, or from the character cache.\<close>

definition member_data :: "'e GuildEnv_scheme \<Rightarrow> uint32 \<Rightarrow> uint32 \<Rightarrow> GuildPlayer option \<Rightarrow> GuildAddStatus + MemberSlot" where
  "member_data E guid rank pl =
     (let slot = (\<lambda>acc name lvl cls zone. \<lparr>ms_guid = guid, ms_accountId = acc, ms_Name = name, ms_RankId = rank, ms_Level = lvl,
                    ms_Class = cls, ms_ZoneId = zone, ms_LogoutTime = word_of_int (be_now E), ms_PublicNote = [], ms_OfficerNote = []\<rparr>)
      in case pl of
           Some p \<Rightarrow> Inr (slot (gp_account p) (pl_name (gp_pl p)) (gp_level p) (gp_class p) (gp_zone p))
         | None \<Rightarrow>
             (case gv_cache E guid of
                None \<Rightarrow> Inl UNKNOWN_PLAYER
              | Some d \<Rightarrow>
                  if pc_Name d = [] then Inl UNKNOWN_PLAYER
                  else
                    (let lvl = ucast (pc_Level d); cls = ucast (pc_Class d)
                     in if lvl < (1 :: uint8) \<or> lvl > 255 \<or> \<not> class_playable cls then Inl PLAYER_DATA_ERROR
                        else Inr (slot (pc_Account d) (pc_Name d) lvl cls (pc_ZoneId d)))))"

definition AddMember :: "'e GuildEnv_scheme \<Rightarrow> uint32 \<Rightarrow> uint32 \<Rightarrow> gs \<Rightarrow> GuildAddStatus \<times> gs" where
  "AddMember E guid plRank s =
     (case s of (g, w) \<Rightarrow>
        let pl = FindPlayerNotInWorld w guid
        in if (case pl of Some p \<Rightarrow> gp_guildId p \<noteq> 0 | None \<Rightarrow> GetMemberSlot g guid \<noteq> None) then (ALREADY_IN_GUILD, g, w)
           else
             (let w1 = unsign guid w
              in case member_data E guid plRank pl of
                   Inl err \<Rightarrow> (err, g, w1)
                 | Inr m0 \<Rightarrow>
                     let m = (case pl of
                                None \<Rightarrow> m0
                              | Some _ \<Rightarrow> m0\<lparr>ms_RankId := ucast (gv_onAddMember E (m_Id g) guid (ucast plRank))\<rparr>);
                         g1 = put_member E guid m g;
                         w2 = gsql (InsertMember \<lparr>mw_guildid = m_Id g, mw_guid = guid, mw_rank = ms_RankId m, mw_pnote = [], mw_offnote = []\<rparr>)
                                (GuildMemberAdded (m_Id g) guid w1)
                     in case pl of
                          None \<Rightarrow> (GuildAdd_OK, UpdateAccountsNumber g1, w2)
                        | Some p \<Rightarrow>
                            (GuildAdd_OK, UpdateAccountsNumber (AddToCache guid g1),
                             set_player guid (SetGuildIdInvited 0 (SetRank (ms_RankId m) (SetInGuild (m_Id g) p))) w2)))"

section \<open>The leader, leaving\<close>

definition SetLeader :: "uint32 \<Rightarrow> gs \<Rightarrow> gs" where
  "SetLeader k s =
     (case s of (g, w) \<Rightarrow>
        case GetMemberSlot g k of
          None \<Rightarrow> (g, w)
        | Some m \<Rightarrow>
            (case ChangeRank k GR_GUILDMASTER (g\<lparr>m_LeaderGuid := ms_guid m\<rparr>, w) of
               (g1, w1) \<Rightarrow> (g1, gsql (UpdateLeader (m_Id g1) (ms_guid m)) w1)))"

definition member_name :: "Guild \<Rightarrow> uint32 \<Rightarrow> string" where
  "member_name g k = (case GetMemberSlot g k of None \<Rightarrow> [] | Some m \<Rightarrow> ms_Name m)"

text \<open>\<open>SetNewLeader\<close> on two slots; the old one may be missing.\<close>

definition SetNewLeader :: "'e GuildEnv_scheme \<Rightarrow> uint32 \<Rightarrow> uint32 option \<Rightarrow> gs \<Rightarrow> gs" where
  "SetNewLeader E new old s =
     (let s1 = SetLeader new s
      in case old of
           None \<Rightarrow> s1
         | Some k \<Rightarrow>
             let s2 = ChangeRank k GR_OFFICER s1
             in BroadcastEvent E GE_LEADER_CHANGED 0 [member_name (fst s2) k, member_name (fst s2) new] s2)"

definition SetNewLeader_guid :: "'e GuildEnv_scheme \<Rightarrow> uint32 \<Rightarrow> gs \<Rightarrow> gs" where
  "SetNewLeader_guid E new s =
     (let g = fst s
      in if GetMemberSlot g new = None then s
         else if GetMemberSlot g (m_LeaderGuid g) = None then s
         else if new = m_LeaderGuid g then s
         else SetNewLeader E new (Some (m_LeaderGuid g)) s)"

text \<open>The two loops of \<open>GetSuitableNewLeader\<close>: the first member with the best rank, and with
  \<open>preferOldestOfficer\<close> the officer with the oldest invitation still in the log.\<close>

fun best_member :: "uint32 \<Rightarrow> MemberList \<Rightarrow> (uint32 \<times> MemberSlot) option \<Rightarrow> (uint32 \<times> MemberSlot) option" where
  "best_member lowGuid [] best = best"
| "best_member lowGuid ((k, m) # ms) best =
     (if k = lowGuid then best_member lowGuid ms best
      else best_member lowGuid ms
        (case best of
           None \<Rightarrow> Some (k, m)
         | Some (k', m') \<Rightarrow> if ms_RankId m' > ms_RankId m then Some (k, m) else best))"

fun oldest_officer :: "Guild \<Rightarrow> uint32 \<Rightarrow> GuildEventLogEntry list \<Rightarrow> uint32 option" where
  "oldest_officer g lowGuid [] = None"
| "oldest_officer g lowGuid (e # es) =
     (if ev_EventType e \<noteq> GUILD_EVENT_LOG_INVITE_PLAYER \<or> ev_PlayerGuid2 e = lowGuid then oldest_officer g lowGuid es
      else case GetMemberSlot g (ev_PlayerGuid2 e) of
             Some m \<Rightarrow> if ms_RankId m = GR_OFFICER then Some (ev_PlayerGuid2 e) else oldest_officer g lowGuid es
           | None \<Rightarrow> oldest_officer g lowGuid es)"

definition GetSuitableNewLeader :: "bool \<Rightarrow> Guild \<Rightarrow> uint32 option \<times> uint32 option" where
  "GetSuitableNewLeader preferOldestOfficer g =
     (let lowGuid = m_LeaderGuid g;
          old = (if lowGuid \<in> set (map fst (members g)) then Some lowGuid else None);
          best = map_option fst (best_member lowGuid (members g) None);
          officer = (if preferOldestOfficer then oldest_officer g lowGuid (m_GuildEventLog g) else None)
      in (if officer \<noteq> None then officer else best, old))"

definition DelMember :: "'e GuildEnv_scheme \<Rightarrow> uint32 \<Rightarrow> bool \<Rightarrow> gs \<Rightarrow> bool \<times> gs" where
  "DelMember E guid isDisbanding s =
     (let (g0, w0) = s;
          (best, old) = GetSuitableNewLeader False g0;
          leader = (m_LeaderGuid g0 = guid \<and> \<not> isDisbanding)
      in if leader \<and> best = None then (True, s)
         else
           (let (g1, w1) =
                  (if leader then
                     (let s1 = SetNewLeader E (the best) old s
                      in case old of
                           None \<Rightarrow> s1
                         | Some k \<Rightarrow> BroadcastEvent E GE_LEFT guid [member_name (fst s1) k] s1)
                   else s);
                g2 = RemoveFromCache guid (g1\<lparr>members := filter (\<lambda>(k, m). k \<noteq> guid) (members g1)\<rparr>);
                w2 = GuildMemberRemoved guid w1;
                w3 = (case FindPlayer w2 guid of
                        None \<Rightarrow> w2
                      | Some p \<Rightarrow> set_player guid (SetRank 0 (SetInGuild 0 p)) w2);
                w4 = gsql (DeleteMember guid) w3;
                g3 = (if isDisbanding then g2 else UpdateAccountsNumber g2)
            in (members g3 = [], g3, w4)))"

end
