(* ===== verification/Guild_Admin.thy ===== *)
theory Guild_Admin
  imports Guild_Ops
begin

unbundle bit_operations_syntax

text \<open>
  Ranks, texts, the event log, creation, disbanding and loading of guilds (src/game/Guild/Guild.cpp), and the
  guild manager (src/game/Guild/GuildMgr.cpp).

  The bank operations called here do not look at the player of the bank's state, whose place
  \<open>gv_idle\<close> takes; members of \<open>new GuildBank\<close> without an initialiser come from \<open>gv_bank0\<close>. What
  \<open>UpdateMinranks\<close> sends goes through the session of the player who used the bank last; it is
  recorded with the empty receiver.

  A query result that several guilds read in turn is the list of its remaining rows.
\<close>

section \<open>Ranks\<close>

definition AddRank :: "string \<Rightarrow> uint32 \<Rightarrow> Guild \<Rightarrow> Guild" where
  "AddRank name rights g = g\<lparr>m_Ranks := m_Ranks g @ [\<lparr>ri_Name = name, ri_Rights = rights\<rparr>]\<rparr>"

definition CreateRank :: "string \<Rightarrow> uint32 \<Rightarrow> gs \<Rightarrow> gs" where
  "CreateRank name rights s =
     (case s of (g, w) \<Rightarrow>
        if length (m_Ranks g) \<ge> GUILD_RANKS_MAX_COUNT then (g, w)
        else (AddRank name rights g,
              gsql (InsertRank \<lparr>rr_guildid = m_Id g, rr_rid = of_nat (length (m_Ranks g)), rr_name = name, rr_rights = rights\<rparr>) w))"

definition CreateDefaultGuildRanks :: "'e GuildEnv_scheme \<Rightarrow> gs \<Rightarrow> gs" where
  "CreateDefaultGuildRanks E s =
     (let chat = GR_RIGHT_GCHATLISTEN OR GR_RIGHT_GCHATSPEAK
      in CreateRank (gv_string E 815) chat (CreateRank (gv_string E 814) chat (CreateRank (gv_string E 813) chat
           (CreateRank (gv_string E 812) GR_RIGHT_ALL (CreateRank (gv_string E 811) GR_RIGHT_ALL
             (case s of (g, w) \<Rightarrow> (g, gsql (DeleteRanksOf (m_Id g)) w)))))))"

definition bank_call :: "'e GuildEnv_scheme \<Rightarrow> (GState \<Rightarrow> GState) \<Rightarrow> Bank \<Rightarrow> GWorld \<Rightarrow> Bank \<times> GWorld" where
  "bank_call E f b w =
     (let s = f \<lparr>gs_pl = gv_idle E, gs_bk = b, gs_db = w_bdb w, gs_out = []\<rparr>
      in (gs_bk s, fold (\<lambda>e. case e of BroadcastToGuild m \<Rightarrow> gsend 0 (GuildBankMessage m) | _ \<Rightarrow> id) (gs_out s)
                     (w\<lparr>w_bdb := gs_db s\<rparr>)))"

text \<open>\<open>DelRank\<close> calls both banks through their pointers. Every guild of the manager's map has both banks: \<open>AddGuild\<close>
  makes them, and no code takes them away. A guild without banks is one that is being created or loaded.\<close>

definition on_banks :: "'e GuildEnv_scheme \<Rightarrow> (GState \<Rightarrow> GState) \<Rightarrow> gs \<Rightarrow> gs" where
  "on_banks E f s =
     (let (g, w) = s;
          (g1, w1) = (case m_Bank g of None \<Rightarrow> (g, w) | Some b \<Rightarrow> case bank_call E f b w of (b', w') \<Rightarrow> (g\<lparr>m_Bank := Some b'\<rparr>, w'))
      in case m_InfernoBank g1 of
           None \<Rightarrow> (g1, w1)
         | Some b \<Rightarrow> case bank_call E f b w1 of (b', w') \<Rightarrow> (g1\<lparr>m_InfernoBank := Some b'\<rparr>, w'))"

definition DelRank :: "'e GuildEnv_scheme \<Rightarrow> gs \<Rightarrow> gs" where
  "DelRank E s =
     (case s of (g, w) \<Rightarrow>
        if length (m_Ranks g) \<le> GUILD_RANKS_MIN_COUNT then (g, w)
        else
          (let rank = GetLowestRank g;
               (g1, w1) = on_banks E (UpdateMinranks rank) (g, gsql (DeleteRanksFrom rank (m_Id g)) w)
           in (g1\<lparr>m_Ranks := butlast (m_Ranks g1)\<rparr>, w1)))"

definition SetRankName :: "uint32 \<Rightarrow> string \<Rightarrow> gs \<Rightarrow> gs" where
  "SetRankName rankId name s =
     (case s of (g, w) \<Rightarrow>
        if unat rankId \<ge> length (m_Ranks g) then (g, w)
        else (g\<lparr>m_Ranks := (m_Ranks g)[unat rankId := (m_Ranks g ! unat rankId)\<lparr>ri_Name := name\<rparr>]\<rparr>,
              gsql (UpdateRankName (m_Id g) rankId name) w))"

definition SetRankRights :: "uint32 \<Rightarrow> uint32 \<Rightarrow> gs \<Rightarrow> gs" where
  "SetRankRights rankId rights s =
     (case s of (g, w) \<Rightarrow>
        if unat rankId \<ge> length (m_Ranks g) then (g, w)
        else (g\<lparr>m_Ranks := (m_Ranks g)[unat rankId := (m_Ranks g ! unat rankId)\<lparr>ri_Rights := rights\<rparr>]\<rparr>,
              gsql (UpdateRankRights (m_Id g) rankId rights) w))"

section \<open>Texts, emblem, listeners, accounts\<close>

definition Rename :: "string \<Rightarrow> gs \<Rightarrow> gs" where
  "Rename newName s = (case s of (g, w) \<Rightarrow> (g\<lparr>m_Name := newName\<rparr>, gsql (UpdateGuildName (m_Id g) newName) w))"

definition SetMOTD :: "string \<Rightarrow> gs \<Rightarrow> gs" where
  "SetMOTD motd s = (case s of (g, w) \<Rightarrow> (g\<lparr>m_motd := motd\<rparr>, gsql (UpdateMotd (m_Id g) motd) w))"

definition SetGINFO :: "string \<Rightarrow> gs \<Rightarrow> gs" where
  "SetGINFO ginfo s = (case s of (g, w) \<Rightarrow> (g\<lparr>m_info := ginfo\<rparr>, gsql (UpdateInfo (m_Id g) ginfo) w))"

definition SetEmblem :: "Emblem \<Rightarrow> gs \<Rightarrow> gs" where
  "SetEmblem e s = (case s of (g, w) \<Rightarrow> (g\<lparr>m_Emblem := e\<rparr>, gsql (UpdateEmblem (m_Id g) e) w))"

definition AddGMListener :: "uint32 \<Rightarrow> Guild \<Rightarrow> bool \<times> Guild" where
  "AddGMListener gm g =
     (if gm \<in> set (m_GmListeners g) then (False, g) else (True, g\<lparr>m_GmListeners := gm # m_GmListeners g\<rparr>))"

definition GetAccountsNumber :: "Guild \<Rightarrow> uint32 \<times> Guild" where
  "GetAccountsNumber g =
     (if m_accountsNumber g \<noteq> 0 then (m_accountsNumber g, g)
      else let n = of_nat (length (remdups (map (ms_accountId \<circ> snd) (members g)))) in (n, g\<lparr>m_accountsNumber := n\<rparr>))"

definition QueryGuild :: "uint32 \<Rightarrow> gs \<Rightarrow> gs" where
  "QueryGuild to s =
     (case s of (g, w) \<Rightarrow>
        (g, gsend to (SMSG_GUILD_QUERY_RESPONSE (m_Id g) (m_Name g)
              (map (\<lambda>i. if i < length (m_Ranks g) then ri_Name (m_Ranks g ! i) else []) [0..<GUILD_RANKS_MAX_COUNT]) (m_Emblem g)) w))"

section \<open>Event log\<close>

definition LogGuildEvent :: "'e GuildEnv_scheme \<Rightarrow> uint8 \<Rightarrow> uint32 \<Rightarrow> uint32 \<Rightarrow> uint8 \<Rightarrow> gs \<Rightarrow> gs" where
  "LogGuildEvent E EventType guid1 guid2 newRank s =
     (case s of (g, w) \<Rightarrow>
        let e = \<lparr>ev_EventType = EventType, ev_PlayerGuid1 = guid1, ev_PlayerGuid2 = guid2, ev_NewRank = newRank,
                 ev_TimeStamp = ucast (word_of_int (be_now E) :: uint32)\<rparr>;
            next = (m_GuildEventLogNextGuid g + 1) mod gv_eventLogCount E;
            log = (if length (m_GuildEventLog g) \<ge> GUILD_EVENTLOG_MAX_RECORDS then tl (m_GuildEventLog g) else m_GuildEventLog g)
        in (g\<lparr>m_GuildEventLogNextGuid := next, m_GuildEventLog := log @ [e]\<rparr>,
            gsql (InsertEvent \<lparr>er_guildid = m_Id g, er_LogGuid = next, er_entry = e\<rparr>) (gsql (DeleteEvent (m_Id g) next) w)))"

definition GetGuildInviter :: "Guild \<Rightarrow> uint32 \<Rightarrow> uint32" where
  "GetGuildInviter g guid =
     (case find (\<lambda>e. ev_EventType e = GUILD_EVENT_LOG_INVITE_PLAYER \<and> ev_PlayerGuid2 e = guid) (m_GuildEventLog g) of
        None \<Rightarrow> 0
      | Some e \<Rightarrow> ev_PlayerGuid1 e)"

text \<open>The rows come newest first, at most \<open>GUILD_EVENTLOG_MAX_RECORDS\<close> of them, and each is put in front.\<close>

definition query_events :: "uint32 \<Rightarrow> GuildDb \<Rightarrow> EventRow list" where
  "query_events g d =
     take GUILD_EVENTLOG_MAX_RECORDS
       (rev (sort_key (\<lambda>r. ev_TimeStamp (er_entry r)) (sort_key er_LogGuid (filter (\<lambda>r. er_guildid r = g) (gd_eventlog d)))))"

definition LoadGuildEventLogFromDB :: "gs \<Rightarrow> gs" where
  "LoadGuildEventLogFromDB s =
     (case s of (g, w) \<Rightarrow>
        case query_events (m_Id g) (w_gdb w) of
          [] \<Rightarrow> (g, w)
        | r # rs \<Rightarrow>
            (g\<lparr>m_GuildEventLogNextGuid := er_LogGuid r, m_GuildEventLog := rev (map er_entry (r # rs)) @ m_GuildEventLog g\<rparr>, w))"

section \<open>Disbanding\<close>

lemma DelMember_disbanding:
  "members (fst (snd (DelMember E k True (g, w)))) = filter (\<lambda>(k', m). k' \<noteq> k) (members g)"
  by (simp add: DelMember_def RemoveFromCache_def Let_def split: prod.split)

function del_members :: "'e GuildEnv_scheme \<Rightarrow> gs \<Rightarrow> gs" where
  "del_members E s =
     (case members (fst s) of
        [] \<Rightarrow> s
      | (k, m) # _ \<Rightarrow> del_members E (snd (DelMember E k True s)))"
  by pat_completeness auto
termination
  by (relation "measure (\<lambda>(E, s). length (members (fst s)))")
     (auto simp: DelMember_disbanding less_Suc_eq_le)

declare del_members.simps [simp del]

definition delete_bank_rows :: "uint32 \<Rightarrow> Db \<Rightarrow> Db" where
  "delete_bank_rows g db =
     db\<lparr>db_items := filter (\<lambda>r. ir_guildid r \<noteq> g) (db_items db), db_log := filter (\<lambda>r. lr_guildid r \<noteq> g) (db_log db),
        db_tabs := filter (\<lambda>r. tr_guildid r \<noteq> g) (db_tabs db), db_money := filter (\<lambda>r. mr_guildid r \<noteq> g) (db_money db)\<rparr>"

definition RemoveGuild :: "uint32 \<Rightarrow> GWorld \<Rightarrow> GWorld" where
  "RemoveGuild guildId w = w\<lparr>w_guilds := AList.delete guildId (w_guilds w)\<rparr>"

text \<open>\<open>Disband\<close>; the caller deletes the object, so what is left is the world.\<close>

definition Disband :: "'e GuildEnv_scheme \<Rightarrow> gs \<Rightarrow> GWorld" where
  "Disband E s =
     (let (g, w) = del_members E (BroadcastEvent E GE_DISBANDED 0 [] s);
          w1 = gsql (DeleteEventsOf (m_Id g)) (gsql (DeleteRanksOf (m_Id g)) (gsql (DeleteGuildRow (m_Id g)) w));
          w2 = w1\<lparr>w_bdb := delete_bank_rows (m_Id g) (w_bdb w1)\<rparr>;
          (g3, w3) = on_banks E DeleteFromDB (g, w2)
      in RemoveGuild (m_Id g) w3)"

section \<open>Creation\<close>

definition new_GuildBank :: "'e GuildEnv_scheme \<Rightarrow> bool \<Rightarrow> Bank" where
  "new_GuildBank E inferno =
     (gv_bank0 E)\<lparr>b_tabs := 0, b_items := [], b_next := 0, b_freed := [], b_tabInfo := (\<lambda>_. zero_tab), b_log := (\<lambda>_. []),
       b_moneyLog := [], b_itemUpdateQueue := [], b_saveLock := False, b_infernoBank := inferno\<rparr>"

text \<open>Both \<open>Guild::Create\<close> and \<open>GuildMgr::AddGuild\<close> make the two banks.\<close>

definition make_banks :: "'e GuildEnv_scheme \<Rightarrow> gs \<Rightarrow> gs" where
  "make_banks E s =
     on_banks E (\<lambda>b. SetGuild (BankEnv.truncate E) (m_Id (fst s)) b)
       ((fst s)\<lparr>m_Bank := Some (new_GuildBank E False), m_InfernoBank := Some (new_GuildBank E True)\<rparr>, snd s)"

definition GetGuildById :: "GWorld \<Rightarrow> uint32 \<Rightarrow> Guild option" where
  "GetGuildById w guildId = map_of (w_guilds w) guildId"

definition GetGuildByName :: "GWorld \<Rightarrow> string \<Rightarrow> Guild option" where
  "GetGuildByName w name = map_option snd (find (\<lambda>(i, g). m_Name g = name) (w_guilds w))"

definition GetPlayerGuild :: "GWorld \<Rightarrow> uint32 \<Rightarrow> Guild option" where
  "GetPlayerGuild w guid = (case w_guid2guild w guid of None \<Rightarrow> None | Some i \<Rightarrow> GetGuildById w i)"

text \<open>A method called on a guild of the map.\<close>

definition put_guild :: "uint32 \<Rightarrow> gs \<Rightarrow> GWorld" where
  "put_guild i s = (case s of (g, w) \<Rightarrow> w\<lparr>w_guilds := AList.update i g (w_guilds w)\<rparr>)"

definition AddGuild :: "'e GuildEnv_scheme \<Rightarrow> gs \<Rightarrow> GWorld" where
  "AddGuild E s = (case make_banks E s of (g, w) \<Rightarrow> put_guild (m_Id g) (g, w))"

definition guild_row :: "'e GuildEnv_scheme \<Rightarrow> Guild \<Rightarrow> GuildRow" where
  "guild_row E g = \<lparr>gr_guildid = m_Id g, gr_name = m_Name g, gr_leaderguid = m_LeaderGuid g, gr_info = m_info g, gr_motd = m_motd g,
     gr_createdate = word_of_int (be_now E), gr_emblem = m_Emblem g\<rparr>"

definition Create :: "'e GuildEnv_scheme \<Rightarrow> uint32 \<Rightarrow> string \<Rightarrow> gs \<Rightarrow> bool \<times> gs" where
  "Create E leader gname s =
     (case s of (g, w) \<Rightarrow>
        if GetGuildByName w gname \<noteq> None then (False, g, w)
        else
          (let g1 = g\<lparr>m_LeaderGuid := leader, m_Name := gname, m_info := [], m_motd := ''No message set.'',
                      m_Id := gv_newGuildId E, m_Created := gv_date E (be_now E)\<rparr>;
               w1 = gsql (InsertGuild (guild_row E g1)) (gsql (DeleteMembersOf (m_Id g1)) w);
               (status, s3) = AddMember E leader GR_GUILDMASTER (make_banks E (CreateDefaultGuildRanks E (g1, w1)))
           in (status = GuildAdd_OK, s3)))"

definition Create_petition :: "'e GuildEnv_scheme \<Rightarrow> Petition \<Rightarrow> uint32 \<Rightarrow> gs \<Rightarrow> bool \<times> gs" where
  "Create_petition E petition leader s =
     (case Create E leader (pt_name petition) s of
        (False, s1) \<Rightarrow> (False, s1)
      | (True, s1) \<Rightarrow>
          (True, fold (\<lambda>x s. if sg_playerGuid x = 0 then s else snd (AddMember E (sg_playerGuid x) (GetLowestRank (fst s)) s))
                   (pt_signatures petition) s1))"

section \<open>Loading\<close>

definition LoadGuildFromDB :: "'e GuildEnv_scheme \<Rightarrow> GuildRow \<Rightarrow> Guild \<Rightarrow> Guild" where
  "LoadGuildFromDB E r g =
     (let g1 = g\<lparr>m_Id := gr_guildid r, m_Name := gr_name r, m_LeaderGuid := gr_leaderguid r, m_Emblem := gr_emblem r,
                 m_info := gr_info r, m_motd := gr_motd r\<rparr>
      in if sint (gr_createdate r) > 0 then g1\<lparr>m_Created := gv_date E (sint (gr_createdate r))\<rparr> else g1)"

text \<open>The loop over the rank rows, with the flag \<open>broken_ranks\<close>; it gives the rows it leaves.\<close>

fun load_rank_rows :: "RankRow list \<Rightarrow> bool \<Rightarrow> gs \<Rightarrow> RankRow list \<times> bool \<times> gs" where
  "load_rank_rows [] broken s = ([], broken, s)"
| "load_rank_rows (r # rs) broken (g, w) =
     (if rr_guildid r < m_Id g then load_rank_rows rs broken (g, gsql (DeleteRanksOf (rr_guildid r)) w)
      else if rr_guildid r > m_Id g then (r # rs, broken, g, w)
      else load_rank_rows rs (broken \<or> rr_rid r \<noteq> of_nat (length (m_Ranks g)))
             (AddRank (rr_name r) (if m_Ranks g = [] then rr_rights r OR GR_RIGHT_ALL else rr_rights r) g, w))"

definition rewrite_ranks :: "gs \<Rightarrow> gs" where
  "rewrite_ranks s =
     (case s of (g, w) \<Rightarrow>
        (g, fold (\<lambda>(i, x). gsql (InsertRank \<lparr>rr_guildid = m_Id g, rr_rid = of_nat i, rr_name = ri_Name x, rr_rights = ri_Rights x\<rparr>))
              (enumerate 0 (m_Ranks g)) (gsql (DeleteRanksOf (m_Id g)) w)))"

text \<open>\<open>None\<close> is a query without a result.\<close>

definition LoadRanksFromDB :: "'e GuildEnv_scheme \<Rightarrow> RankRow list option \<Rightarrow> gs \<Rightarrow> RankRow list option \<times> gs" where
  "LoadRanksFromDB E result s =
     (case result of
        None \<Rightarrow> (None, CreateDefaultGuildRanks E s)
      | Some rows \<Rightarrow>
          case load_rank_rows rows False s of (rest, broken, g, w) \<Rightarrow>
            (Some rest,
             if length (m_Ranks g) < GUILD_RANKS_MIN_COUNT then CreateDefaultGuildRanks E (g\<lparr>m_Ranks := []\<rparr>, w)
             else if broken then rewrite_ranks (g, w)
             else (g, w)))"

text \<open>A row of \<open>guild_member\<close> joined with \<open>characters\<close>; absent columns read as empty.\<close>

record LoadRow =
  lw_guildid :: uint32
  lw_guid :: uint32
  lw_rank :: uint32
  lw_pnote :: string
  lw_offnote :: string
  lw_name :: string
  lw_level :: uint8
  lw_class :: uint8
  lw_zone :: uint32
  lw_logout :: uint64
  lw_account :: uint32

definition loaded_slot :: "'e GuildEnv_scheme \<Rightarrow> Guild \<Rightarrow> LoadRow \<Rightarrow> MemberSlot" where
  "loaded_slot E g r = \<lparr>ms_guid = lw_guid r, ms_accountId = lw_account r, ms_Name = lw_name r,
     ms_RankId = (if unat (lw_rank r) \<ge> length (m_Ranks g) then GetLowestRank g else lw_rank r),
     ms_Level = lw_level r, ms_Class = lw_class r,
     ms_ZoneId = (if lw_zone r = 0 then gv_zoneFromDB E (lw_guid r) else lw_zone r), ms_LogoutTime = lw_logout r,
     ms_PublicNote = lw_pnote r, ms_OfficerNote = lw_offnote r\<rparr>"

fun load_member_rows :: "'e GuildEnv_scheme \<Rightarrow> LoadRow list \<Rightarrow> gs \<Rightarrow> LoadRow list \<times> gs" where
  "load_member_rows E [] s = ([], s)"
| "load_member_rows E (r # rs) (g, w) =
     (if lw_guildid r < m_Id g then load_member_rows E rs (g, gsql (DeleteMembersOf (lw_guildid r)) w)
      else if lw_guildid r > m_Id g then (r # rs, g, w)
      else if lw_level r < 1 \<or> lw_level r > 255 \<or> \<not> class_playable (lw_class r) \<or> lw_name r = [] then
        load_member_rows E rs (g, gsql (DeleteMember (lw_guid r)) w)
      else load_member_rows E rs
             (put_member E (lw_guid r) (loaded_slot E g r) g, GuildMemberAdded (m_Id g) (lw_guid r) w))"

definition LoadMembersFromDB :: "'e GuildEnv_scheme \<Rightarrow> LoadRow list option \<Rightarrow> gs \<Rightarrow> bool \<times> LoadRow list option \<times> gs" where
  "LoadMembersFromDB E result s =
     (case result of
        None \<Rightarrow> (False, None, s)
      | Some rows \<Rightarrow>
          case load_member_rows E rows s of (rest, g, w) \<Rightarrow>
            if members g = [] then (False, Some rest, g, w)
            else (True, Some rest, UpdateAccountsNumber g, w))"

definition one_master :: "uint32 \<Rightarrow> gs \<Rightarrow> gs" where
  "one_master k s =
     (case GetMemberSlot (fst s) k of
        None \<Rightarrow> s
      | Some m \<Rightarrow> if ms_RankId m = GR_GUILDMASTER \<and> m_LeaderGuid (fst s) \<noteq> ms_guid m then ChangeRank k GR_OFFICER s else s)"

definition CheckGuildStructure :: "'e GuildEnv_scheme \<Rightarrow> gs \<Rightarrow> bool \<times> gs" where
  "CheckGuildStructure E s =
     (let g = fst s; GM_rights = GetRank g (m_LeaderGuid g);
          (gone, s1) = (if GM_rights = -1 then DelMember E (m_LeaderGuid g) False s
                        else if GM_rights \<noteq> 0 then (False, SetLeader (m_LeaderGuid g) s)
                        else (False, s))
      in if gone then (False, s1)
         else (True, fold one_master (map fst (members (fst s1))) s1))"

text \<open>The loop of \<open>LoadGuilds\<close>.\<close>

fun load_guilds :: "'e GuildEnv_scheme \<Rightarrow> GuildRow list \<Rightarrow> RankRow list option \<Rightarrow> LoadRow list option \<Rightarrow> GWorld \<Rightarrow> GWorld" where
  "load_guilds E [] ranks mems w = w"
| "load_guilds E (r # rs) ranks mems w =
     (case LoadRanksFromDB E ranks (LoadGuildFromDB E r new_Guild, w) of (ranks1, s1) \<Rightarrow>
        case LoadMembersFromDB E mems s1 of
          (False, mems1, s2) \<Rightarrow> load_guilds E rs ranks1 mems1 (Disband E s2)
        | (True, mems1, s2) \<Rightarrow>
            (case CheckGuildStructure E s2 of
               (False, s3) \<Rightarrow> load_guilds E rs ranks1 mems1 (Disband E s3)
             | (True, s3) \<Rightarrow> load_guilds E rs ranks1 mems1 (AddGuild E (LoadGuildEventLogFromDB s3))))"

definition load_row :: "'e GuildEnv_scheme \<Rightarrow> MemberRow \<Rightarrow> LoadRow" where
  "load_row E r =
     (case gv_character E (mw_guid r) of (name, lvl, cls, zone, logout, acc) \<Rightarrow>
        \<lparr>lw_guildid = mw_guildid r, lw_guid = mw_guid r, lw_rank = mw_rank r, lw_pnote = mw_pnote r, lw_offnote = mw_offnote r,
         lw_name = name, lw_level = lvl, lw_class = cls, lw_zone = zone, lw_logout = logout, lw_account = acc\<rparr>)"

definition rows_or_none :: "'a list \<Rightarrow> 'a list option" where
  "rows_or_none xs = (if xs = [] then None else Some xs)"

definition LoadGuilds :: "'e GuildEnv_scheme \<Rightarrow> GWorld \<Rightarrow> GWorld" where
  "LoadGuilds E w =
     (let d = w_gdb w
      in if gd_guild d = [] then w
         else gsql (DeleteEventsAbove (gv_eventLogCount E))
                (load_guilds E (sort_key gr_guildid (gd_guild d))
                   (rows_or_none (sort_key rr_guildid (sort_key rr_rid (gd_rank d))))
                   (rows_or_none (map (load_row E) (sort_key mw_guildid (gd_member d)))) w))"

definition SaveGuildBanks :: "'e GuildEnv_scheme \<Rightarrow> GWorld \<Rightarrow> GWorld" where
  "SaveGuildBanks E w =
     fold (\<lambda>(i, g) w. put_guild i (on_banks E SaveToDB (g, w))) (w_guilds w) (w\<lparr>w_bankSaveTimer := 60000\<rparr>)"

text \<open>\<open>GuildMgr::Update\<close>; the roster packets that \<open>UpdateCaches\<close> keeps for large guilds are not part of the
  model.\<close>

definition GuildMgr_Update :: "'e GuildEnv_scheme \<Rightarrow> uint32 \<Rightarrow> GWorld \<Rightarrow> GWorld" where
  "GuildMgr_Update E diff w =
     (if w_bankSaveTimer w < diff then SaveGuildBanks E w
      else w\<lparr>w_bankSaveTimer := w_bankSaveTimer w - diff\<rparr>)"

text \<open>\<open>Player::_LoadGuild\<close>, at login.\<close>

definition LoadGuild :: "GWorld \<Rightarrow> uint32 \<Rightarrow> GuildPlayer \<Rightarrow> GuildPlayer" where
  "LoadGuild w guid p =
     (let p1 = (case find (\<lambda>r. mw_guid r = guid) (gd_member (w_gdb w)) of
                  Some r \<Rightarrow> SetRank (mw_rank r) (SetInGuild (mw_guildid r) p)
                | None \<Rightarrow> SetRank 0 (SetInGuild 0 p))
      in if gp_guildId p1 \<noteq> 0 \<and> GetGuildById w (gp_guildId p1) = None then SetRank 0 (SetInGuild 0 p1) else p1)"

end
