(* ===== verification/Guild_Petition.thy ===== *)
theory Guild_Petition
  imports Guild_Admin Item_Store
begin

unbundle bit_operations_syntax

text \<open>
  Petitions (src/game/Guild: GuildMgr.h, GuildMgr.cpp, classes \<open>Petition\<close> and \<open>PetitionSignature\<close>
  and the petition map of \<open>GuildMgr\<close>). A \<open>Petition*\<close> is the id under which the map holds it; a
  petition that is replaced or erased in the map is gone. A signature is found by its signer.
\<close>

section \<open>Lookup\<close>

definition item_guid :: "uint32 \<Rightarrow> uint64" where
  "item_guid counter = (if counter \<noteq> 0 then ucast counter OR push_bit 48 0x4000 else 0)"

definition GetPetitionById :: "GWorld \<Rightarrow> uint32 \<Rightarrow> Petition option" where
  "GetPetitionById w i = find (\<lambda>p. pt_id p = i) (w_petitions w)"

definition GetPetitionByCharterGuid :: "GWorld \<Rightarrow> uint64 \<Rightarrow> Petition option" where
  "GetPetitionByCharterGuid w charterGuid = find (\<lambda>p. pt_charterGuid p = charterGuid) (w_petitions w)"

definition GetPetitionByOwnerGuid :: "GWorld \<Rightarrow> uint32 \<Rightarrow> Petition option" where
  "GetPetitionByOwnerGuid w ownerGuid = find (\<lambda>p. pt_ownerGuid p = ownerGuid) (w_petitions w)"

definition GetSignatureForPlayerGuid :: "Petition \<Rightarrow> uint32 \<Rightarrow> PetitionSignature option" where
  "GetSignatureForPlayerGuid petition guid = find (\<lambda>x. sg_playerGuid x = guid) (pt_signatures petition)"

definition GetSignatureForAccount :: "Petition \<Rightarrow> uint32 \<Rightarrow> PetitionSignature option" where
  "GetSignatureForAccount petition accountId = find (\<lambda>x. sg_playerAccount x = accountId) (pt_signatures petition)"

definition GetSignatureForPlayer :: "Petition \<Rightarrow> uint32 \<Rightarrow> uint32 \<Rightarrow> PetitionSignature option" where
  "GetSignatureForPlayer petition guid accountId =
     (case GetSignatureForAccount petition accountId of
        Some x \<Rightarrow> Some x
      | None \<Rightarrow> GetSignatureForPlayerGuid petition guid)"

definition GetSignatureCount :: "Petition \<Rightarrow> uint8" where
  "GetSignatureCount petition = of_nat (length (pt_signatures petition))"

definition IsComplete :: "'e GuildEnv_scheme \<Rightarrow> Petition \<Rightarrow> bool" where
  "IsComplete E petition \<longleftrightarrow> length (pt_signatures petition) = unat (gv_minSigns E)"

section \<open>Changing a petition\<close>

definition upd_petition :: "uint32 \<Rightarrow> (Petition \<Rightarrow> Petition) \<Rightarrow> GWorld \<Rightarrow> GWorld" where
  "upd_petition i f w = w\<lparr>w_petitions := map (\<lambda>p. if pt_id p = i then f p else p) (w_petitions w)\<rparr>"

definition Petition_SaveToDB :: "uint32 \<Rightarrow> Petition \<Rightarrow> GWorld \<Rightarrow> GWorld" where
  "Petition_SaveToDB charterCounter petition =
     gsql (InsertPetition \<lparr>pw_ownerguid = pt_ownerGuid petition, pw_petitionguid = pt_id petition, pw_charterguid = charterCounter,
       pw_name = pt_name petition\<rparr>)"

definition Petition_Delete :: "uint32 \<Rightarrow> GWorld \<Rightarrow> GWorld" where
  "Petition_Delete i w = (if i \<noteq> 0 then gsql (DeleteSignsOf i) (gsql (DeletePetitionRow i) w) else w)"

definition put_petition :: "'e GuildEnv_scheme \<Rightarrow> Petition \<Rightarrow> GWorld \<Rightarrow> GWorld" where
  "put_petition E petition w =
     (if pt_id petition \<in> set (map pt_id (w_petitions w)) then upd_petition (pt_id petition) (\<lambda>_. petition) w
      else w\<lparr>w_petitions := gv_porder E (w_petitions w @ [petition])\<rparr>)"

text \<open>The counter of the charter's guid is what the row stores.\<close>

definition CreatePetition :: "'e GuildEnv_scheme \<Rightarrow> uint32 \<Rightarrow> uint32 \<Rightarrow> uint32 \<Rightarrow> uint32 \<Rightarrow> string \<Rightarrow> GWorld \<Rightarrow> GWorld" where
  "CreatePetition E i owner team charterCounter name w =
     (let petition = \<lparr>pt_id = i, pt_charterGuid = item_guid charterCounter, pt_ownerGuid = owner, pt_name = name, pt_team = team,
                      pt_signatures = []\<rparr>
      in put_petition E petition (Petition_SaveToDB charterCounter petition w))"

definition DeletePetition :: "uint32 \<Rightarrow> GWorld \<Rightarrow> GWorld" where
  "DeletePetition i w = Petition_Delete i (w\<lparr>w_petitions := filter (\<lambda>p. pt_id p \<noteq> i) (w_petitions w)\<rparr>)"

definition Petition_Rename :: "uint32 \<Rightarrow> string \<Rightarrow> GWorld \<Rightarrow> GWorld" where
  "Petition_Rename i newname w = upd_petition i (\<lambda>p. p\<lparr>pt_name := newname\<rparr>) (gsql (UpdatePetitionName i newname) w)"

definition AddSignature :: "PetitionSignature \<Rightarrow> Petition \<Rightarrow> Petition" where
  "AddSignature x p = p\<lparr>pt_signatures := pt_signatures p @ [x]\<rparr>"

definition PetitionSignature_SaveToDB :: "Petition \<Rightarrow> PetitionSignature \<Rightarrow> GWorld \<Rightarrow> GWorld" where
  "PetitionSignature_SaveToDB petition x =
     gsql (InsertSign \<lparr>sr_ownerguid = pt_ownerGuid petition, sr_petitionguid = pt_id petition, sr_playerguid = sg_playerGuid x,
       sr_account = sg_playerAccount x\<rparr>)"

definition AddNewSignature :: "'e GuildEnv_scheme \<Rightarrow> uint32 \<Rightarrow> uint32 \<Rightarrow> uint32 \<Rightarrow> GWorld \<Rightarrow> bool \<times> GWorld" where
  "AddNewSignature E i guid accountId w =
     (case GetPetitionById w i of
        None \<Rightarrow> (False, w)
      | Some petition \<Rightarrow>
          if IsComplete E petition then (False, w)
          else
            (let x = \<lparr>sg_playerGuid = guid, sg_playerAccount = accountId\<rparr>
             in (True, upd_petition i (AddSignature x) (PetitionSignature_SaveToDB petition x w))))"

section \<open>Loading\<close>

text \<open>\<open>GetPlayerTeamByGUID\<close> is the parameter \<open>team\<close>. The rows are read before anything is changed.\<close>

definition Petition_LoadFromDB :: "(uint32 \<Rightarrow> uint32) \<Rightarrow> PetitionRow \<Rightarrow> Petition" where
  "Petition_LoadFromDB team r =
     \<lparr>pt_id = pw_petitionguid r, pt_charterGuid = item_guid (pw_charterguid r), pt_ownerGuid = pw_ownerguid r, pt_name = pw_name r,
      pt_team = team (pw_ownerguid r), pt_signatures = []\<rparr>"

definition load_signature :: "SignRow \<Rightarrow> GWorld \<Rightarrow> GWorld" where
  "load_signature r w =
     (case GetPetitionById w (sr_petitionguid r) of
        None \<Rightarrow> gsql (DeleteSignsOf (sr_petitionguid r)) w
      | Some petition \<Rightarrow>
          upd_petition (pt_id petition) (AddSignature \<lparr>sg_playerGuid = sr_playerguid r, sg_playerAccount = sr_account r\<rparr>)
            (if sr_ownerguid r \<noteq> pt_ownerGuid petition then gsql (UpdateSignOwner (pt_ownerGuid petition) (pt_id petition)) w else w))"

definition LoadPetitions :: "'e GuildEnv_scheme \<Rightarrow> (uint32 \<Rightarrow> uint32) \<Rightarrow> GWorld \<Rightarrow> GWorld" where
  "LoadPetitions E team w =
     (let w0 = w\<lparr>w_petitions := []\<rparr>
      in if gd_petition (w_gdb w) = [] then w0
         else fold load_signature (gd_sign (w_gdb w))
                (fold (\<lambda>r. put_petition E (Petition_LoadFromDB team r)) (gd_petition (w_gdb w)) w0))"

section \<open>Players and their charters\<close>

text \<open>\<open>Player::DestroyItem\<close> of a player in the guild world: the manager's petitions decide whether a
  destroyed charter deletes one.\<close>

definition deleted_petitions :: "pevent list \<Rightarrow> uint32 list" where
  "deleted_petitions evs = List.map_filter (\<lambda>e. case e of PetitionDeleted i \<Rightarrow> Some i | _ \<Rightarrow> None) evs"

definition item_env :: "'e GuildEnv_scheme \<Rightarrow> GWorld \<Rightarrow> 'e GuildEnv_scheme" where
  "item_env E w = E\<lparr>e_petition := \<lambda>i. GetPetitionById w i \<noteq> None\<rparr>"

definition Player_DestroyItem :: "'e GuildEnv_scheme \<Rightarrow> uint32 \<Rightarrow> uint8 \<Rightarrow> uint8 \<Rightarrow> GWorld \<Rightarrow> GWorld" where
  "Player_DestroyItem E me bag slot w =
     (case w_players w me of
        None \<Rightarrow> w
      | Some p \<Rightarrow>
          (let P = DestroyItem (item_env E w) bag slot True (gp_pl p)
           in fold DeletePetition (deleted_petitions (drop (length (pl_events (gp_pl p))) (pl_events P)))
                (set_player me (p\<lparr>gp_pl := P\<rparr>) w)))"

text \<open>\<open>Player::GetItemByGuid\<close> visits the slots in this order.\<close>

definition guid_items :: "Player \<Rightarrow> iptr list" where
  "guid_items P =
     List.map_filter (m_items P) [0..<INVENTORY_SLOT_ITEM_END] @
     List.map_filter (m_items P) [KEYRING_SLOT_START..<KEYRING_SLOT_END] @
     concat (map (bag_items P) [INVENTORY_SLOT_BAG_START..<INVENTORY_SLOT_BAG_END]) @
     List.map_filter (m_items P) [BANK_SLOT_ITEM_START..<BANK_SLOT_ITEM_END] @
     concat (map (bag_items P) [BANK_SLOT_BAG_START..<BANK_SLOT_BAG_END])"

definition GetItemByGuid :: "'e GuildEnv_scheme \<Rightarrow> uint32 \<Rightarrow> Player \<Rightarrow> uint64 \<Rightarrow> iptr option" where
  "GetItemByGuid E me P guid = find (\<lambda>p. item_guid (gv_itemGuid E me p) = guid) (guid_items P)"

end
