(* ===== verification/Guild_Handler.thy ===== *)
theory Guild_Handler
  imports Guild_Petition
begin

unbundle bit_operations_syntax

text \<open>
  The guild opcodes (src/game/Handlers/GuildHandler.cpp). A handler gets the guid of the session's player; \<open>with_guild\<close>
  is the common prefix, which looks the player's guild up and answers with an error when there is
  none. The roster packet is recorded by the guild it describes, not by its contents.
\<close>

definition SendGuildCommandResult :: "uint32 \<Rightarrow> Typecommand \<Rightarrow> string \<Rightarrow> CommandErrors \<Rightarrow> GWorld \<Rightarrow> GWorld" where
  "SendGuildCommandResult to typecmd str cmdresult = gsend to (SMSG_GUILD_COMMAND_RESULT typecmd str cmdresult)"

definition SendRoster :: "'e GuildEnv_scheme \<Rightarrow> uint32 option \<Rightarrow> gs \<Rightarrow> gs" where
  "SendRoster E to s =
     (case to of
        Some k \<Rightarrow> (fst s, gsend k (SMSG_GUILD_ROSTER (m_Id (fst s))) (snd s))
      | None \<Rightarrow> BroadcastPacket E (SMSG_GUILD_ROSTER (m_Id (fst s))) s)"

definition with_guild :: "GWorld \<Rightarrow> uint32 \<Rightarrow> (GuildPlayer \<Rightarrow> uint32 \<Rightarrow> Guild \<Rightarrow> GWorld) \<Rightarrow> GWorld" where
  "with_guild w me body =
     (case w_players w me of
        None \<Rightarrow> w
      | Some p \<Rightarrow>
          (case GetGuildById w (gp_guildId p) of
             None \<Rightarrow> SendGuildCommandResult me GUILD_CREATE_S [] ERR_GUILD_PLAYER_NOT_IN_GUILD w
           | Some g \<Rightarrow> body p (gp_guildId p) g))"

definition GetRank_pl :: "GuildPlayer \<Rightarrow> uint32" where
  "GetRank_pl p = pl_rank (gp_pl p)"

definition norm :: "string \<Rightarrow> bool \<times> string" where
  "norm name = normalizePlayerName name MAX_INTERNAL_PLAYER_NAME True"

section \<open>Creation, queries\<close>

definition HandleGuildQueryOpcode :: "uint32 \<Rightarrow> uint32 \<Rightarrow> GWorld \<Rightarrow> GWorld" where
  "HandleGuildQueryOpcode me guildId w =
     (case GetGuildById w guildId of
        Some g \<Rightarrow> snd (QueryGuild me (g, w))
      | None \<Rightarrow> SendGuildCommandResult me GUILD_CREATE_S [] ERR_GUILD_PLAYER_NOT_IN_GUILD w)"

definition HandleGuildCreateOpcode :: "'e GuildEnv_scheme \<Rightarrow> uint32 \<Rightarrow> string \<Rightarrow> GWorld \<Rightarrow> GWorld" where
  "HandleGuildCreateOpcode E me gname w =
     (case w_players w me of
        None \<Rightarrow> w
      | Some p \<Rightarrow>
          if gp_guildId p \<noteq> 0 then w
          else case Create E me gname (new_Guild, w) of
                 (False, s) \<Rightarrow> snd s
               | (True, s) \<Rightarrow> AddGuild E s)"

definition HandleGuildInfoOpcode :: "uint32 \<Rightarrow> GWorld \<Rightarrow> GWorld" where
  "HandleGuildInfoOpcode me w = with_guild w me (\<lambda>p i g.
     case GetAccountsNumber g of (n, g1) \<Rightarrow>
       gsend me (SMSG_GUILD_INFO (m_Name g1) (m_Created g1) (length (members g1)) n) (put_guild i (g1, w)))"

definition HandleGuildRosterOpcode :: "'e GuildEnv_scheme \<Rightarrow> uint32 \<Rightarrow> GWorld \<Rightarrow> GWorld" where
  "HandleGuildRosterOpcode E me w =
     (case w_players w me of
        None \<Rightarrow> w
      | Some p \<Rightarrow>
          (case GetGuildById w (gp_guildId p) of None \<Rightarrow> w | Some g \<Rightarrow> snd (SendRoster E (Some me) (g, w))))"

section \<open>Invitations\<close>

definition FindPlayerByName :: "'e GuildEnv_scheme \<Rightarrow> GWorld \<Rightarrow> string \<Rightarrow> uint32 option" where
  "FindPlayerByName E w name =
     (case norm name of
        (False, _) \<Rightarrow> None
      | (True, n) \<Rightarrow>
          (case gv_byName E n of
             None \<Rightarrow> None
           | Some k \<Rightarrow> (case w_players w k of Some p \<Rightarrow> if pl_inworld (gp_pl p) then Some k else None | None \<Rightarrow> None)))"

definition HandleGuildInviteOpcode :: "'e GuildEnv_scheme \<Rightarrow> uint32 \<Rightarrow> string \<Rightarrow> GWorld \<Rightarrow> GWorld" where
  "HandleGuildInviteOpcode E me name0 w =
     (case norm name0 of (ok, Invitedname) \<Rightarrow>
        case (if ok then FindPlayerByName E w Invitedname else None) of
          None \<Rightarrow> SendGuildCommandResult me GUILD_INVITE_S Invitedname ERR_GUILD_PLAYER_NOT_FOUND_S w
        | Some k \<Rightarrow>
            (case w_players w k of
               None \<Rightarrow> w
             | Some invited \<Rightarrow>
                 with_guild w me (\<lambda>p i g.
                   if gv_ignores E k me then w
                   else if \<not> gv_twoSide E \<and> gp_team invited \<noteq> gp_team p then
                     SendGuildCommandResult me GUILD_INVITE_S Invitedname ERR_GUILD_NOT_ALLIED w
                   else if gp_guildId invited \<noteq> 0 then
                     SendGuildCommandResult me GUILD_INVITE_S (pl_name (gp_pl invited)) ERR_ALREADY_IN_GUILD_S w
                   else if gp_guildIdInvited invited \<noteq> 0 then
                     SendGuildCommandResult me GUILD_INVITE_S (pl_name (gp_pl invited)) ERR_ALREADY_INVITED_TO_GUILD_S w
                   else if \<not> HasRankRight g (GetRank_pl p) GR_RIGHT_INVITE then
                     SendGuildCommandResult me GUILD_INVITE_S [] ERR_GUILD_PERMISSIONS w
                   else
                     gsend k (SMSG_GUILD_INVITE (pl_name (gp_pl p)) (m_Name g))
                       (put_guild i (LogGuildEvent E GUILD_EVENT_LOG_INVITE_PLAYER me k 0
                          (g, set_player k (SetGuildIdInvited (gp_guildId p) invited) w))))))"

definition GetPlayerTeamByGUID :: "'e GuildEnv_scheme \<Rightarrow> GWorld \<Rightarrow> uint32 \<Rightarrow> uint32" where
  "GetPlayerTeamByGUID E w guid =
     (case FindPlayer w guid of
        Some p \<Rightarrow> gv_teamForRace E (gp_race p)
      | None \<Rightarrow> (case gv_cache E guid of Some d \<Rightarrow> gv_teamForRace E (ucast (pc_Race d)) | None \<Rightarrow> 0))"

definition HandleGuildAcceptOpcode :: "'e GuildEnv_scheme \<Rightarrow> uint32 \<Rightarrow> GWorld \<Rightarrow> GWorld" where
  "HandleGuildAcceptOpcode E me w =
     (case w_players w me of
        None \<Rightarrow> w
      | Some p \<Rightarrow>
          (case GetGuildById w (gp_guildIdInvited p) of
             None \<Rightarrow> w
           | Some g \<Rightarrow>
               if gp_guildId p \<noteq> 0 then w
               else if \<not> gv_twoSide E \<and> gp_team p \<noteq> GetPlayerTeamByGUID E w (m_LeaderGuid g) then w
               else case AddMember E me (GetLowestRank g) (g, w) of (status, s) \<Rightarrow>
                      if status \<noteq> GuildAdd_OK then put_guild (gp_guildIdInvited p) s
                      else put_guild (gp_guildIdInvited p)
                             (BroadcastEvent E GE_JOINED me [pl_name (gp_pl p)]
                               (LogGuildEvent E GUILD_EVENT_LOG_JOIN_GUILD me 0 0 s))))"

definition HandleGuildDeclineOpcode :: "uint32 \<Rightarrow> GWorld \<Rightarrow> GWorld" where
  "HandleGuildDeclineOpcode me w =
     (case w_players w me of
        None \<Rightarrow> w
      | Some p \<Rightarrow>
          if gp_guildId p \<noteq> 0 \<or> gp_guildIdInvited p = 0 then w
          else
            set_player me (SetGuildIdInvited 0 p)
              (case GetGuildById w (gp_guildIdInvited p) of
                 None \<Rightarrow> w
               | Some g \<Rightarrow>
                   (let inviter = GetGuildInviter g me
                    in if inviter \<noteq> 0 \<and> FindPlayer w inviter \<noteq> None then gsend inviter (SMSG_GUILD_DECLINE (pl_name (gp_pl p))) w
                       else w)))"

section \<open>Removing, promoting, demoting\<close>

definition HandleGuildRemoveOpcode :: "'e GuildEnv_scheme \<Rightarrow> uint32 \<Rightarrow> string \<Rightarrow> GWorld \<Rightarrow> GWorld" where
  "HandleGuildRemoveOpcode E me name0 w =
     (case norm name0 of (ok, plName) \<Rightarrow>
        if \<not> ok then w
        else if FindPlayer w me = None then w
        else with_guild w me (\<lambda>p i g.
          if \<not> HasRankRight g (GetRank_pl p) GR_RIGHT_REMOVE then
            SendGuildCommandResult me GUILD_INVITE_S [] ERR_GUILD_PERMISSIONS w
          else case GetMemberSlotByName g plName of
            None \<Rightarrow> SendGuildCommandResult me GUILD_INVITE_S plName ERR_GUILD_PLAYER_NOT_IN_GUILD_S w
          | Some (k, slot) \<Rightarrow>
              if ms_RankId slot = GR_GUILDMASTER then SendGuildCommandResult me GUILD_QUIT_S [] ERR_GUILD_LEADER_LEAVE w
              else if GetRank_pl p \<ge> ms_RankId slot then SendGuildCommandResult me GUILD_QUIT_S plName ERR_GUILD_RANK_TOO_HIGH_S w
              else case DelMember E (ms_guid slot) False (g, w) of
                (True, s) \<Rightarrow> Disband E s
              | (False, s) \<Rightarrow>
                  put_guild i (BroadcastEvent E GE_REMOVED 0 [plName, pl_name (gp_pl p)]
                    (LogGuildEvent E GUILD_EVENT_LOG_UNINVITE_PLAYER me (ms_guid slot) 0 s))))"

definition HandleGuildPromoteOpcode :: "'e GuildEnv_scheme \<Rightarrow> uint32 \<Rightarrow> string \<Rightarrow> GWorld \<Rightarrow> GWorld" where
  "HandleGuildPromoteOpcode E me name0 w =
     (case norm name0 of (ok, plName) \<Rightarrow>
        if \<not> ok then w
        else with_guild w me (\<lambda>p i g.
          if \<not> HasRankRight g (GetRank_pl p) GR_RIGHT_PROMOTE then
            SendGuildCommandResult me GUILD_INVITE_S [] ERR_GUILD_PERMISSIONS w
          else case GetMemberSlotByName g plName of
            None \<Rightarrow> SendGuildCommandResult me GUILD_INVITE_S plName ERR_GUILD_PLAYER_NOT_IN_GUILD_S w
          | Some (k, slot) \<Rightarrow>
              if ms_guid slot = me then SendGuildCommandResult me GUILD_INVITE_S [] ERR_GUILD_NAME_INVALID w
              else if GetRank_pl p + 1 \<ge> ms_RankId slot then
                SendGuildCommandResult me GUILD_INVITE_S plName ERR_GUILD_RANK_TOO_HIGH_S w
              else
                (let newRankId = ms_RankId slot - 1
                 in put_guild i (BroadcastEvent E GE_PROMOTION 0 [pl_name (gp_pl p), plName, GetRankName g newRankId]
                      (LogGuildEvent E GUILD_EVENT_LOG_PROMOTE_PLAYER me (ms_guid slot) (ucast newRankId)
                        (ChangeRank k newRankId (g, w)))))))"

definition HandleGuildDemoteOpcode :: "'e GuildEnv_scheme \<Rightarrow> uint32 \<Rightarrow> string \<Rightarrow> GWorld \<Rightarrow> GWorld" where
  "HandleGuildDemoteOpcode E me name0 w =
     (case norm name0 of (ok, plName) \<Rightarrow>
        if \<not> ok then w
        else with_guild w me (\<lambda>p i g.
          if \<not> HasRankRight g (GetRank_pl p) GR_RIGHT_DEMOTE then
            SendGuildCommandResult me GUILD_INVITE_S [] ERR_GUILD_PERMISSIONS w
          else case GetMemberSlotByName g plName of
            None \<Rightarrow> SendGuildCommandResult me GUILD_INVITE_S plName ERR_GUILD_PLAYER_NOT_IN_GUILD_S w
          | Some (k, slot) \<Rightarrow>
              if ms_guid slot = me then SendGuildCommandResult me GUILD_INVITE_S [] ERR_GUILD_NAME_INVALID w
              else if GetRank_pl p \<ge> ms_RankId slot then
                SendGuildCommandResult me GUILD_INVITE_S plName ERR_GUILD_RANK_TOO_HIGH_S w
              else if ms_RankId slot \<ge> GetLowestRank g then
                SendGuildCommandResult me GUILD_INVITE_S plName ERR_GUILD_RANK_TOO_LOW_S w
              else
                (let newRankId = ms_RankId slot + 1
                 in put_guild i (BroadcastEvent E GE_DEMOTION 0 [pl_name (gp_pl p), plName, GetRankName g newRankId]
                      (LogGuildEvent E GUILD_EVENT_LOG_DEMOTE_PLAYER me (ms_guid slot) (ucast newRankId)
                        (ChangeRank k newRankId (g, w)))))))"

section \<open>Leaving, disbanding, passing on the lead\<close>

definition HandleGuildLeaveOpcode :: "'e GuildEnv_scheme \<Rightarrow> uint32 \<Rightarrow> GWorld \<Rightarrow> GWorld" where
  "HandleGuildLeaveOpcode E me w = with_guild w me (\<lambda>p i g.
     if me = m_LeaderGuid g \<and> length (members g) > 1 then
       SendGuildCommandResult me GUILD_QUIT_S [] ERR_GUILD_LEADER_LEAVE w
     else if me = m_LeaderGuid g then Disband E (g, w)
     else case DelMember E me False (g, SendGuildCommandResult me GUILD_QUIT_S (m_Name g) ERR_PLAYER_NO_MORE_IN_GUILD w) of
            (True, s) \<Rightarrow> Disband E s
          | (False, s) \<Rightarrow>
              put_guild i (BroadcastEvent E GE_LEFT me [pl_name (gp_pl p)]
                (LogGuildEvent E GUILD_EVENT_LOG_LEAVE_GUILD me 0 0 s)))"

definition HandleGuildDisbandOpcode :: "'e GuildEnv_scheme \<Rightarrow> uint32 \<Rightarrow> GWorld \<Rightarrow> GWorld" where
  "HandleGuildDisbandOpcode E me w = with_guild w me (\<lambda>p i g.
     if me \<noteq> m_LeaderGuid g then SendGuildCommandResult me GUILD_INVITE_S [] ERR_GUILD_PERMISSIONS w
     else Disband E (g, w))"

definition HandleGuildLeaderOpcode :: "'e GuildEnv_scheme \<Rightarrow> uint32 \<Rightarrow> string \<Rightarrow> GWorld \<Rightarrow> GWorld" where
  "HandleGuildLeaderOpcode E me name0 w =
     (case norm name0 of (ok, name) \<Rightarrow>
        if \<not> ok then w
        else with_guild w me (\<lambda>p i g.
          if me \<noteq> m_LeaderGuid g then SendGuildCommandResult me GUILD_INVITE_S [] ERR_GUILD_PERMISSIONS w
          else if GetMemberSlot g me = None then SendGuildCommandResult me GUILD_INVITE_S [] ERR_GUILD_PERMISSIONS w
          else case GetMemberSlotByName g name of
            None \<Rightarrow> SendGuildCommandResult me GUILD_INVITE_S name ERR_GUILD_PLAYER_NOT_IN_GUILD_S w
          | Some (k, slot) \<Rightarrow>
              if k = me then SendGuildCommandResult me GUILD_INVITE_S name ERR_ALREADY_IN_GUILD_S w
              else put_guild i (SetNewLeader E k (Some me) (g, w))))"

section \<open>Texts and notes\<close>

definition HandleGuildMOTDOpcode :: "'e GuildEnv_scheme \<Rightarrow> uint32 \<Rightarrow> string \<Rightarrow> GWorld \<Rightarrow> GWorld" where
  "HandleGuildMOTDOpcode E me MOTD w =
     (if length MOTD > GUILD_MOTD_MAX_LENGTH then w
      else with_guild w me (\<lambda>p i g.
        if \<not> HasRankRight g (GetRank_pl p) GR_RIGHT_SETMOTD then
          SendGuildCommandResult me GUILD_INVITE_S [] ERR_GUILD_PERMISSIONS w
        else put_guild i (BroadcastEvent E GE_MOTD 0 [MOTD] (SetMOTD MOTD (g, w)))))"

definition set_note :: "'e GuildEnv_scheme \<Rightarrow> uint32 \<Rightarrow> (uint32 \<Rightarrow> string \<Rightarrow> gs \<Rightarrow> gs) \<Rightarrow> uint32 \<Rightarrow> string \<Rightarrow> string \<Rightarrow> GWorld \<Rightarrow> GWorld" where
  "set_note E right setter me name0 note0 w =
     (case norm name0 of (ok1, name) \<Rightarrow>
        if \<not> ok1 then w
        else case normalizePlayerName note0 GUILD_NOTE_MAX_LENGTH False of (ok2, note) \<Rightarrow>
          if \<not> ok2 then w
          else with_guild w me (\<lambda>p i g.
            if \<not> HasRankRight g (GetRank_pl p) right then SendGuildCommandResult me GUILD_INVITE_S [] ERR_GUILD_PERMISSIONS w
            else case GetMemberSlotByName g name of
              None \<Rightarrow> SendGuildCommandResult me GUILD_INVITE_S name ERR_GUILD_PLAYER_NOT_IN_GUILD_S w
            | Some (k, slot) \<Rightarrow>
                if length note > GUILD_NOTE_MAX_LENGTH then w
                else put_guild i (SendRoster E (Some me) (setter k note (g, w)))))"

definition HandleGuildSetPublicNoteOpcode :: "'e GuildEnv_scheme \<Rightarrow> uint32 \<Rightarrow> string \<Rightarrow> string \<Rightarrow> GWorld \<Rightarrow> GWorld" where
  "HandleGuildSetPublicNoteOpcode E = set_note E GR_RIGHT_EPNOTE (SetPublicNote E)"

definition HandleGuildSetOfficerNoteOpcode :: "'e GuildEnv_scheme \<Rightarrow> uint32 \<Rightarrow> string \<Rightarrow> string \<Rightarrow> GWorld \<Rightarrow> GWorld" where
  "HandleGuildSetOfficerNoteOpcode E = set_note E GR_RIGHT_EOFFNOTE (SetOfficerNote E)"

definition HandleGuildChangeInfoTextOpcode :: "'e GuildEnv_scheme \<Rightarrow> uint32 \<Rightarrow> string \<Rightarrow> GWorld \<Rightarrow> GWorld" where
  "HandleGuildChangeInfoTextOpcode E me GINFO0 w =
     (case normalizePlayerName GINFO0 GUILD_INFO_MAX_LENGTH False of (ok, GINFO) \<Rightarrow>
        if \<not> ok then w
        else if length GINFO > GUILD_INFO_MAX_LENGTH then w
        else with_guild w me (\<lambda>p i g.
          if \<not> HasRankRight g (GetRank_pl p) GR_RIGHT_MODIFY_GUILD_INFO then
            SendGuildCommandResult me GUILD_CREATE_S [] ERR_GUILD_PERMISSIONS w
          else put_guild i (SetGINFO GINFO (g, w))))"

section \<open>Ranks and the emblem\<close>

definition HandleGuildRankOpcode :: "'e GuildEnv_scheme \<Rightarrow> uint32 \<Rightarrow> uint32 \<Rightarrow> uint32 \<Rightarrow> string \<Rightarrow> GWorld \<Rightarrow> GWorld" where
  "HandleGuildRankOpcode E me rankId rights rankname0 w = with_guild w me (\<lambda>p i g.
     if me \<noteq> m_LeaderGuid g then SendGuildCommandResult me GUILD_INVITE_S [] ERR_GUILD_PERMISSIONS w
     else case normalizePlayerName rankname0 25 False of (ok, rankname) \<Rightarrow>
       if \<not> ok then w
       else put_guild i (SendRoster E None (QueryGuild me
              (SetRankRights rankId (if rankId = GR_GUILDMASTER then GR_RIGHT_ALL else rights)
                (SetRankName rankId rankname (g, w))))))"

definition HandleGuildAddRankOpcode :: "'e GuildEnv_scheme \<Rightarrow> uint32 \<Rightarrow> string \<Rightarrow> GWorld \<Rightarrow> GWorld" where
  "HandleGuildAddRankOpcode E me rankname0 w =
     (case norm rankname0 of (ok, rankname) \<Rightarrow>
        if \<not> ok then w
        else with_guild w me (\<lambda>p i g.
          if me \<noteq> m_LeaderGuid g then SendGuildCommandResult me GUILD_INVITE_S [] ERR_GUILD_PERMISSIONS w
          else if length (m_Ranks g) \<ge> GUILD_RANKS_MAX_COUNT then w
          else put_guild i (SendRoster E None (QueryGuild me
                 (CreateRank rankname (GR_RIGHT_GCHATLISTEN OR GR_RIGHT_GCHATSPEAK) (g, w))))))"

definition HandleGuildDelRankOpcode :: "'e GuildEnv_scheme \<Rightarrow> uint32 \<Rightarrow> GWorld \<Rightarrow> GWorld" where
  "HandleGuildDelRankOpcode E me w = with_guild w me (\<lambda>p i g.
     if me \<noteq> m_LeaderGuid g then SendGuildCommandResult me GUILD_INVITE_S [] ERR_GUILD_PERMISSIONS w
     else put_guild i (SendRoster E None (QueryGuild me (DelRank E (g, w)))))"

text \<open>The handler also ends a feigned death of the player; auras are not part of the guild world.\<close>

definition HandleSaveGuildEmblemOpcode :: "'e GuildEnv_scheme \<Rightarrow> uint32 \<Rightarrow> Emblem \<Rightarrow> GWorld \<Rightarrow> GWorld" where
  "HandleSaveGuildEmblemOpcode E me emblem w =
     (case w_players w me of
        None \<Rightarrow> w
      | Some p \<Rightarrow>
          if \<not> gv_designer E then gsend me (MSG_SAVE_GUILD_EMBLEM ERR_GUILDEMBLEM_FAIL_NO_MESSAGE) w
          else case GetGuildById w (gp_guildId p) of
            None \<Rightarrow> gsend me (MSG_SAVE_GUILD_EMBLEM ERR_GUILDEMBLEM_NOGUILD) w
          | Some g \<Rightarrow>
              if m_LeaderGuid g \<noteq> me then gsend me (MSG_SAVE_GUILD_EMBLEM ERR_GUILDEMBLEM_NOTGUILDMASTER) w
              else if pl_money (gp_pl p) < 10 * GOLD then gsend me (MSG_SAVE_GUILD_EMBLEM ERR_GUILDEMBLEM_NOTENOUGHMONEY) w
              else put_guild (gp_guildId p)
                (case SetEmblem emblem (g, set_player me (p\<lparr>gp_pl := ModifyMoney E (- (10 * GOLD)) (gp_pl p)\<rparr>) w) of
                   (g1, w1) \<Rightarrow> QueryGuild me (g1, gsend me (MSG_SAVE_GUILD_EMBLEM ERR_GUILDEMBLEM_SUCCESS) w1)))"

section \<open>Other callers\<close>

text \<open>The guild part of \<open>Player::DeleteFromDB\<close>: a deleted character leaves its guild, its petition is
  deleted, and its signature.\<close>

definition DeleteFromDB_guild :: "'e GuildEnv_scheme \<Rightarrow> uint32 \<Rightarrow> GWorld \<Rightarrow> GWorld" where
  "DeleteFromDB_guild E guid w =
     (let w1 =
            (case w_guid2guild w guid of
               None \<Rightarrow> w
             | Some i \<Rightarrow>
                 (case GetGuildById w i of
                    None \<Rightarrow> w
                  | Some g \<Rightarrow>
                      (case DelMember E guid False (g, w) of
                         (True, s) \<Rightarrow> Disband E s
                       | (False, s) \<Rightarrow> put_guild i s)));
          w2 = (case GetPetitionByOwnerGuid w1 guid of
                  None \<Rightarrow> w1
                | Some petition \<Rightarrow> DeletePetition (pt_id petition) w1)
      in unsign guid w2)"

text \<open>The guild part of a hardcore character's death: another member becomes guild master.\<close>

definition hardcore_succession :: "'e GuildEnv_scheme \<Rightarrow> uint32 \<Rightarrow> GWorld \<Rightarrow> GWorld" where
  "hardcore_succession E me w =
     (case w_players w me of
        None \<Rightarrow> w
      | Some p \<Rightarrow>
          (case GetGuildById w (gp_guildId p) of
             None \<Rightarrow> w
           | Some g \<Rightarrow>
               if m_LeaderGuid g = me then
                 (case GetSuitableNewLeader True g of
                    (None, old) \<Rightarrow> w
                  | (Some new, old) \<Rightarrow> put_guild (gp_guildId p) (SetNewLeader E new old (g, w)))
               else w))"

text \<open>The guild part of \<open>WorldSession::LogoutPlayer\<close>.\<close>

definition LogoutPlayer_guild :: "'e GuildEnv_scheme \<Rightarrow> uint32 \<Rightarrow> GWorld \<Rightarrow> GWorld" where
  "LogoutPlayer_guild E me w =
     (case w_players w me of
        None \<Rightarrow> w
      | Some p \<Rightarrow>
          (case GetGuildById w (gp_guildId p) of
             None \<Rightarrow> w
           | Some g \<Rightarrow>
               put_guild (gp_guildId p)
                 (BroadcastEvent E GE_SIGNED_OFF me [pl_name (gp_pl p)]
                   (upd_member me (UpdateLogoutTime E \<circ> SetMemberStats p) g, w))))"

text \<open>The opcodes of the guild handlers and their dispatch. The session never lets a client send
  \<open>CMSG_GUILD_CREATE\<close> (\<open>STATUS_NEVER\<close>); its handler is part of the model all the same.\<close>

datatype guild_opcode =
    CMSG_GUILD_QUERY uint32
  | CMSG_GUILD_CREATE string
  | CMSG_GUILD_INVITE string
  | CMSG_GUILD_ACCEPT
  | CMSG_GUILD_DECLINE
  | CMSG_GUILD_INFO
  | CMSG_GUILD_ROSTER
  | CMSG_GUILD_PROMOTE string
  | CMSG_GUILD_DEMOTE string
  | CMSG_GUILD_LEAVE
  | CMSG_GUILD_REMOVE string
  | CMSG_GUILD_DISBAND
  | CMSG_GUILD_LEADER string
  | CMSG_GUILD_MOTD string
  | CMSG_GUILD_RANK uint32 uint32 string
  | CMSG_GUILD_ADD_RANK string
  | CMSG_GUILD_DEL_RANK
  | CMSG_GUILD_SET_PUBLIC_NOTE string string
  | CMSG_GUILD_SET_OFFICER_NOTE string string
  | CMSG_GUILD_INFO_TEXT string
  | CMSG_SAVE_GUILD_EMBLEM Emblem

fun handle_guild :: "'e GuildEnv_scheme \<Rightarrow> uint32 \<Rightarrow> guild_opcode \<Rightarrow> GWorld \<Rightarrow> GWorld" where
  "handle_guild E me (CMSG_GUILD_QUERY i) = HandleGuildQueryOpcode me i"
| "handle_guild E me (CMSG_GUILD_CREATE n) = HandleGuildCreateOpcode E me n"
| "handle_guild E me (CMSG_GUILD_INVITE n) = HandleGuildInviteOpcode E me n"
| "handle_guild E me CMSG_GUILD_ACCEPT = HandleGuildAcceptOpcode E me"
| "handle_guild E me CMSG_GUILD_DECLINE = HandleGuildDeclineOpcode me"
| "handle_guild E me CMSG_GUILD_INFO = HandleGuildInfoOpcode me"
| "handle_guild E me CMSG_GUILD_ROSTER = HandleGuildRosterOpcode E me"
| "handle_guild E me (CMSG_GUILD_PROMOTE n) = HandleGuildPromoteOpcode E me n"
| "handle_guild E me (CMSG_GUILD_DEMOTE n) = HandleGuildDemoteOpcode E me n"
| "handle_guild E me CMSG_GUILD_LEAVE = HandleGuildLeaveOpcode E me"
| "handle_guild E me (CMSG_GUILD_REMOVE n) = HandleGuildRemoveOpcode E me n"
| "handle_guild E me CMSG_GUILD_DISBAND = HandleGuildDisbandOpcode E me"
| "handle_guild E me (CMSG_GUILD_LEADER n) = HandleGuildLeaderOpcode E me n"
| "handle_guild E me (CMSG_GUILD_MOTD m) = HandleGuildMOTDOpcode E me m"
| "handle_guild E me (CMSG_GUILD_RANK k r n) = HandleGuildRankOpcode E me k r n"
| "handle_guild E me (CMSG_GUILD_ADD_RANK n) = HandleGuildAddRankOpcode E me n"
| "handle_guild E me CMSG_GUILD_DEL_RANK = HandleGuildDelRankOpcode E me"
| "handle_guild E me (CMSG_GUILD_SET_PUBLIC_NOTE n t) = HandleGuildSetPublicNoteOpcode E me n t"
| "handle_guild E me (CMSG_GUILD_SET_OFFICER_NOTE n t) = HandleGuildSetOfficerNoteOpcode E me n t"
| "handle_guild E me (CMSG_GUILD_INFO_TEXT t) = HandleGuildChangeInfoTextOpcode E me t"
| "handle_guild E me (CMSG_SAVE_GUILD_EMBLEM e) = HandleSaveGuildEmblemOpcode E me e"

end
