(* ===== verification/Petition_Handler.thy ===== *)
theory Petition_Handler
  imports Guild_Handler
begin

unbundle bit_operations_syntax

text \<open>
  The petition opcodes (src/game/Handlers/PetitionsHandler.cpp): buying a guild charter, showing, offering,
  signing and renaming it, and turning it in, which founds the guild. A handler gets the guid of the
  session's player and what the client sent. Item and creature guids are the 64-bit numbers of the client.
\<close>

abbreviation GUILD_CHARTER :: uint32 where "GUILD_CHARTER \<equiv> 5863"
abbreviation GUILD_CHARTER_COST :: uint32 where "GUILD_CHARTER_COST \<equiv> 1000"

section \<open>Buying a charter\<close>

definition remove_feign :: "'e GuildEnv_scheme \<Rightarrow> uint32 \<Rightarrow> GWorld \<Rightarrow> GWorld" where
  "remove_feign E me w = (if gv_feign E me then gsend me FeignDeathRemoved w else w)"

definition set_charter_petition :: "iptr \<Rightarrow> uint32 \<Rightarrow> Player \<Rightarrow> Player" where
  "set_charter_petition c petitionId P = SetState c ITEM_CHANGED (upd_item c (\<lambda>it. it\<lparr>i_enchant := (i_enchant it)[0 := petitionId]\<rparr>) P)"

text \<open>The purchase itself, after all the checks.\<close>

definition buy_charter :: "'e GuildEnv_scheme \<Rightarrow> uint32 \<Rightarrow> GuildPlayer \<Rightarrow> string \<Rightarrow> dest \<Rightarrow> GWorld \<Rightarrow> GWorld" where
  "buy_charter E me p name dest w =
     (let E' = item_env E w;
          (charter, P) = StoreNewItem E' dest GUILD_CHARTER True 0 (ModifyMoney E' (- GUILD_CHARTER_COST) (gp_pl p))
      in case charter of
           None \<Rightarrow> set_player me (p\<lparr>gp_pl := P\<rparr>) w
         | Some c \<Rightarrow>
             (let petitionId = gv_newPetitionId E;
                  w1 = set_player me (p\<lparr>gp_pl := set_charter_petition c petitionId P\<rparr>) w
              in gsend me InventoryAndGoldSaved
                   (CreatePetition E petitionId me (gp_team p) (gv_itemGuid E me c) name
                     (gsend me (SMSG_ITEM_PUSH_RESULT c 1) w1))))"

definition HandlePetitionBuyOpcode :: "'e GuildEnv_scheme \<Rightarrow> uint32 \<Rightarrow> uint64 \<Rightarrow> string \<Rightarrow> GWorld \<Rightarrow> GWorld" where
  "HandlePetitionBuyOpcode E me guidNPC name w0 =
     (case w_players w0 me of
        None \<Rightarrow> w0
      | Some p \<Rightarrow>
          (case gv_petitioner E me guidNPC of
             None \<Rightarrow> w0
           | Some designer \<Rightarrow>
               if \<not> designer then w0
               else
                 (let w = remove_feign E me w0
                  in if gp_guildId p \<noteq> 0 then w
                     else if GetPetitionByOwnerGuid w me \<noteq> None then w
                     else if GetGuildByName w name \<noteq> None then SendGuildCommandResult me GUILD_CREATE_S name ERR_GUILD_NAME_EXISTS_S w
                     else if IsReservedName (gv_reserved E) name \<or> \<not> IsValidCharterName (gv_nameRules E) name then
                       SendGuildCommandResult me GUILD_CREATE_S name ERR_GUILD_NAME_INVALID w
                     else (case e_protos E GUILD_CHARTER of
                       None \<Rightarrow> gsend me (SMSG_BUY_FAILED BUY_ERR_CANT_FIND_ITEM GUILD_CHARTER) w
                     | Some pProto \<Rightarrow>
                         if pl_money (gp_pl p) < GUILD_CHARTER_COST then
                           gsend me (SMSG_BUY_FAILED BUY_ERR_NOT_ENOUGHT_MONEY GUILD_CHARTER) w
                         else (case CanStoreNewItem (item_env E w) (gp_pl p) NULL_BAG NULL_SLOT GUILD_CHARTER (pr_BuyCount pProto) of
                           (msg, dest, _) \<Rightarrow>
                             if msg \<noteq> EQUIP_ERR_OK then gsend me (SMSG_INVENTORY_CHANGE_FAILURE msg GUILD_CHARTER) w
                             else buy_charter E me p name dest w)))))"

definition SendPetitionShowList :: "'e GuildEnv_scheme \<Rightarrow> uint32 \<Rightarrow> uint64 \<Rightarrow> GWorld \<Rightarrow> GWorld" where
  "SendPetitionShowList E me guid w =
     (case gv_petitioner E me guid of
        None \<Rightarrow> w
      | Some _ \<Rightarrow> gsend me (SMSG_PETITION_SHOWLIST guid) (remove_feign E me w))"

section \<open>Showing and renaming\<close>

text \<open>The petition of the charter the player carries.\<close>

definition charter_petition :: "'e GuildEnv_scheme \<Rightarrow> uint32 \<Rightarrow> GuildPlayer \<Rightarrow> uint64 \<Rightarrow> GWorld \<Rightarrow> (iptr \<times> uint32 \<times> Petition) option" where
  "charter_petition E me p itemGuid w =
     (case GetItemByGuid E me (gp_pl p) itemGuid of
        None \<Rightarrow> None
      | Some c \<Rightarrow>
          (let petitionguid = GetEnchantmentId (iheap (gp_pl p) c) 0
           in map_option (\<lambda>petition. (c, petitionguid, petition)) (GetPetitionById w petitionguid)))"

definition signatures_packet :: "uint64 \<Rightarrow> uint32 \<Rightarrow> uint32 \<Rightarrow> Petition \<Rightarrow> gpacket" where
  "signatures_packet itemguid owner petitionguid petition =
     SMSG_PETITION_SHOW_SIGNATURES itemguid owner petitionguid (GetSignatureCount petition) (map sg_playerGuid (pt_signatures petition))"

definition HandlePetitionShowSignOpcode :: "'e GuildEnv_scheme \<Rightarrow> uint32 \<Rightarrow> uint64 \<Rightarrow> GWorld \<Rightarrow> GWorld" where
  "HandlePetitionShowSignOpcode E me itemguid w =
     (case w_players w me of
        None \<Rightarrow> w
      | Some p \<Rightarrow>
          if gp_guildId p \<noteq> 0 then w
          else (case charter_petition E me p itemguid w of
                 None \<Rightarrow> w
               | Some (c, petitionguid, petition) \<Rightarrow> gsend me (signatures_packet itemguid me petitionguid petition) w))"

definition HandlePetitionQueryOpcode :: "uint32 \<Rightarrow> uint32 \<Rightarrow> GWorld \<Rightarrow> GWorld" where
  "HandlePetitionQueryOpcode me petitionguid w =
     (case GetPetitionById w petitionguid of
        None \<Rightarrow> w
      | Some petition \<Rightarrow> gsend me (SMSG_PETITION_QUERY_RESPONSE petitionguid (pt_ownerGuid petition) (pt_name petition)) w)"

definition HandlePetitionRenameOpcode :: "'e GuildEnv_scheme \<Rightarrow> uint32 \<Rightarrow> uint64 \<Rightarrow> string \<Rightarrow> GWorld \<Rightarrow> GWorld" where
  "HandlePetitionRenameOpcode E me itemGuid newname w =
     (case w_players w me of
        None \<Rightarrow> w
      | Some p \<Rightarrow>
          if GetItemByGuid E me (gp_pl p) itemGuid = None then w
          else if GetGuildByName w newname \<noteq> None then SendGuildCommandResult me GUILD_CREATE_S newname ERR_GUILD_NAME_EXISTS_S w
          else if IsReservedName (gv_reserved E) newname \<or> \<not> IsValidCharterName (gv_nameRules E) newname then
            SendGuildCommandResult me GUILD_CREATE_S newname ERR_GUILD_NAME_INVALID w
          else (case charter_petition E me p itemGuid w of
                 None \<Rightarrow> w
               | Some (c, petitionguid, petition) \<Rightarrow> gsend me (PETITION_RENAMED itemGuid newname) (Petition_Rename petitionguid newname w)))"

section \<open>Signing\<close>

definition HandlePetitionSignOpcode :: "'e GuildEnv_scheme \<Rightarrow> uint32 \<Rightarrow> uint64 \<Rightarrow> GWorld \<Rightarrow> GWorld" where
  "HandlePetitionSignOpcode E me itemGuid w =
     (case w_players w me of
        None \<Rightarrow> w
      | Some p \<Rightarrow>
          (case GetPetitionByCharterGuid w itemGuid of
             None \<Rightarrow> w
           | Some petition \<Rightarrow>
               if IsComplete E petition then w
               else if pt_ownerGuid petition = me then gsend me (SMSG_PETITION_SIGN_RESULTS itemGuid me PETITION_SIGN_CANT_SIGN_OWN) w
               else if \<not> gv_twoSide E \<and> gp_team p \<noteq> pt_team petition then
                 SendGuildCommandResult me GUILD_CREATE_S [] ERR_GUILD_NOT_ALLIED w
               else if gp_guildId p \<noteq> 0 then SendGuildCommandResult me GUILD_INVITE_S (pl_name (gp_pl p)) ERR_ALREADY_IN_GUILD_S w
               else if gp_guildIdInvited p \<noteq> 0 then
                 SendGuildCommandResult me GUILD_INVITE_S (pl_name (gp_pl p)) ERR_ALREADY_INVITED_TO_GUILD_S w
               else if GetSignatureCount petition \<ge> 9 then w
               else if GetSignatureForPlayer petition me (gp_account p) \<noteq> None then
                 (let w1 = gsend me (SMSG_PETITION_SIGN_RESULTS itemGuid me PETITION_SIGN_ALREADY_SIGNED) w
                  in case FindPlayer w (pt_ownerGuid petition) of
                       None \<Rightarrow> w1
                     | Some _ \<Rightarrow>
                         SendGuildCommandResult (pt_ownerGuid petition) GUILD_INVITE_S (pl_name (gp_pl p)) ERR_ALREADY_INVITED_TO_GUILD_S w1)
               else (case AddNewSignature E (pt_id petition) me (gp_account p) (unsign me w) of
                      (False, w1) \<Rightarrow> w1
                    | (True, w1) \<Rightarrow>
                        (let data = SMSG_PETITION_SIGN_RESULTS itemGuid me PETITION_SIGN_OK; w2 = gsend me data w1
                         in case FindPlayer w (pt_ownerGuid petition) of
                              None \<Rightarrow> w2
                            | Some _ \<Rightarrow> gsend (pt_ownerGuid petition) data w2))))"

definition HandlePetitionDeclineOpcode :: "uint32 \<Rightarrow> uint64 \<Rightarrow> GWorld \<Rightarrow> GWorld" where
  "HandlePetitionDeclineOpcode me itemGuid w =
     (case GetPetitionByCharterGuid w itemGuid of
        None \<Rightarrow> w
      | Some petition \<Rightarrow>
          (case FindPlayer w (pt_ownerGuid petition) of
             None \<Rightarrow> w
           | Some _ \<Rightarrow> gsend (pt_ownerGuid petition) (PETITION_DECLINED me) w))"

text \<open>A player guid of the client is 64 bits wide; those of players have nothing above the counter.\<close>

definition HandleOfferPetitionOpcode :: "'e GuildEnv_scheme \<Rightarrow> uint32 \<Rightarrow> uint64 \<Rightarrow> uint64 \<Rightarrow> GWorld \<Rightarrow> GWorld" where
  "HandleOfferPetitionOpcode E me itemGuid playerGuid w =
     (case w_players w me of
        None \<Rightarrow> w
      | Some p \<Rightarrow>
          (case (if unat playerGuid < 2 ^ 32 then FindPlayer w (ucast playerGuid) else None) of
             None \<Rightarrow> w
           | Some other \<Rightarrow>
               if \<not> gv_twoSide E \<and> gp_team p \<noteq> gp_team other then
                 SendGuildCommandResult me GUILD_CREATE_S [] ERR_GUILD_NOT_ALLIED w
               else if gp_guildId other \<noteq> 0 then SendGuildCommandResult me GUILD_INVITE_S (pl_name (gp_pl p)) ERR_ALREADY_IN_GUILD_S w
               else if gp_guildIdInvited other \<noteq> 0 then
                 SendGuildCommandResult me GUILD_INVITE_S (pl_name (gp_pl p)) ERR_ALREADY_INVITED_TO_GUILD_S w
               else (case charter_petition E me p itemGuid w of
                      None \<Rightarrow> w
                    | Some (c, petitionguid, petition) \<Rightarrow>
                        gsend (ucast playerGuid) (signatures_packet itemGuid me petitionguid petition) w)))"

section \<open>Founding the guild\<close>

text \<open>Without an item of that guid, the first charter in the bags is taken.\<close>

definition find_charter :: "'e GuildEnv_scheme \<Rightarrow> uint32 \<Rightarrow> Player \<Rightarrow> uint64 \<Rightarrow> iptr option" where
  "find_charter E me P itemGuid =
     (case GetItemByGuid E me P itemGuid of
        Some c \<Rightarrow> Some c
      | None \<Rightarrow>
          find (\<lambda>c. pr_ItemId (the_proto E (iheap P c)) = GUILD_CHARTER)
            (concat (map (bag_items P) [INVENTORY_SLOT_BAG_START..<INVENTORY_SLOT_BAG_END])))"

definition HandleTurnInPetitionOpcode :: "'e GuildEnv_scheme \<Rightarrow> uint32 \<Rightarrow> uint64 \<Rightarrow> GWorld \<Rightarrow> GWorld" where
  "HandleTurnInPetitionOpcode E me itemGuid w =
     (case w_players w me of
        None \<Rightarrow> w
      | Some p \<Rightarrow>
          (case find_charter E me (gp_pl p) itemGuid of
             None \<Rightarrow> w
           | Some c \<Rightarrow>
               (case GetPetitionById w (GetEnchantmentId (iheap (gp_pl p) c) 0) of
                  None \<Rightarrow> w
                | Some petition \<Rightarrow>
                    if gp_guildId p \<noteq> 0 then gsend me (SMSG_TURN_IN_PETITION_RESULTS PETITION_SIGN_ALREADY_IN_GUILD) w
                    else if me \<noteq> pt_ownerGuid petition then w
                    else if \<not> IsComplete E petition then gsend me (SMSG_TURN_IN_PETITION_RESULTS PETITION_SIGN_NEED_MORE) w
                    else if GetGuildByName w (pt_name petition) \<noteq> None then
                      SendGuildCommandResult me GUILD_CREATE_S (pt_name petition) ERR_GUILD_NAME_EXISTS_S w
                    else (case Create_petition E petition me (new_Guild, w) of
                           (False, s) \<Rightarrow> snd s
                         | (True, s) \<Rightarrow>
                             gsend me (SMSG_TURN_IN_PETITION_RESULTS PETITION_SIGN_OK)
                               (Player_DestroyItem E me (GetBagSlot (gp_pl p) c) (i_slot (iheap (gp_pl p) c))
                                 (DeletePetition (pt_id petition) (AddGuild E s)))))))"

section \<open>Dispatch\<close>

datatype petition_opcode =
    CMSG_PETITION_SHOWLIST uint64
  | CMSG_PETITION_BUY uint64 string
  | CMSG_PETITION_SHOW_SIGNATURES uint64
  | CMSG_PETITION_SIGN uint64
  | MSG_PETITION_DECLINE uint64
  | CMSG_OFFER_PETITION uint64 uint64
  | CMSG_TURN_IN_PETITION uint64
  | CMSG_PETITION_QUERY uint32
  | MSG_PETITION_RENAME uint64 string

fun handle_petition :: "'e GuildEnv_scheme \<Rightarrow> uint32 \<Rightarrow> petition_opcode \<Rightarrow> GWorld \<Rightarrow> GWorld" where
  "handle_petition E me (CMSG_PETITION_SHOWLIST npc) = SendPetitionShowList E me npc"
| "handle_petition E me (CMSG_PETITION_BUY npc name) = HandlePetitionBuyOpcode E me npc name"
| "handle_petition E me (CMSG_PETITION_SHOW_SIGNATURES c) = HandlePetitionShowSignOpcode E me c"
| "handle_petition E me (CMSG_PETITION_SIGN c) = HandlePetitionSignOpcode E me c"
| "handle_petition E me (MSG_PETITION_DECLINE c) = HandlePetitionDeclineOpcode me c"
| "handle_petition E me (CMSG_OFFER_PETITION c k) = HandleOfferPetitionOpcode E me c k"
| "handle_petition E me (CMSG_TURN_IN_PETITION c) = HandleTurnInPetitionOpcode E me c"
| "handle_petition E me (CMSG_PETITION_QUERY i) = HandlePetitionQueryOpcode me i"
| "handle_petition E me (MSG_PETITION_RENAME c n) = HandlePetitionRenameOpcode E me c n"

end
