(* ===== verification/Guild_Invariant.thy ===== *)
theory Guild_Invariant
  imports Petition_Handler
begin

text \<open>
  The invariant of the guild world. \<open>roster_ok\<close> is about one guild: distinct members under their own
  guid, ranks in the range of the table's column, five to ten rank entries, and exactly one guild
  master, the leader. \<open>world_ok\<close> asks it of every guild, and that the member table holds exactly the
  members with their ranks and no guid twice, and that the player object of a member and the
  member index of the manager carry the guild's id. Petitions have distinct ids, nobody has signed twice, and who has
  signed is in no guild (\<open>petitions_ok\<close>).

  An operation on one guild goes through states in which that guild has no master or two, so the
  invariant is split: \<open>base\<close> is the part that each single step keeps, for the guild \<open>g\<close> with id \<open>i\<close> that
  is being worked on, \<open>master_ok\<close> the part that holds again at the end.
\<close>

section \<open>The invariant\<close>

definition roster_base :: "Guild \<Rightarrow> bool" where
  "roster_base g \<longleftrightarrow> distinct (map fst (members g)) \<and>
     (\<forall>(k, m) \<in> set (members g). ms_guid m = k \<and> unat (ms_RankId m) < 256) \<and>
     5 \<le> length (m_Ranks g) \<and> length (m_Ranks g) \<le> 10"

definition master_ok :: "Guild \<Rightarrow> bool" where
  "master_ok g \<longleftrightarrow> m_LeaderGuid g \<in> fst ` set (members g) \<and>
     (\<forall>(k, m) \<in> set (members g). ms_RankId m = 0 \<longleftrightarrow> k = m_LeaderGuid g)"

definition roster_ok :: "Guild \<Rightarrow> bool" where
  "roster_ok g \<longleftrightarrow> roster_base g \<and> master_ok g"

definition in_table :: "MemberRow list \<Rightarrow> uint32 \<Rightarrow> uint32 \<Rightarrow> uint32 \<Rightarrow> bool" where
  "in_table T k i x \<longleftrightarrow> (\<exists>r \<in> set T. mw_guid r = k \<and> mw_guildid r = i \<and> mw_rank r = x)"

definition has_rank :: "Guild \<Rightarrow> uint32 \<Rightarrow> uint32 \<Rightarrow> bool" where
  "has_rank g k x \<longleftrightarrow> (\<exists>m. (k, m) \<in> set (members g) \<and> ms_RankId m = x)"

definition in_guilds :: "(uint32 \<times> Guild) list \<Rightarrow> uint32 \<Rightarrow> uint32 \<Rightarrow> uint32 \<Rightarrow> bool" where
  "in_guilds G k i x \<longleftrightarrow> (\<exists>g. map_of G i = Some g \<and> has_rank g k x)"

definition signers :: "Petition list \<Rightarrow> uint32 list" where
  "signers ps = concat (map (\<lambda>p. map sg_playerGuid (pt_signatures p)) ps)"

definition petitions_ok :: "GWorld \<Rightarrow> bool" where
  "petitions_ok w \<longleftrightarrow> distinct (map pt_id (w_petitions w)) \<and> distinct (signers (w_petitions w)) \<and>
     (\<forall>k \<in> set (signers (w_petitions w)). \<forall>i x. \<not> in_table (gd_member (w_gdb w)) k i x)"

definition players_ok :: "GWorld \<Rightarrow> bool" where
  "players_ok w \<longleftrightarrow> (\<forall>k p. w_players w k = Some p \<longrightarrow>
     unat (pl_rank (gp_pl p)) < 256 \<and> (\<forall>i x. in_table (gd_member (w_gdb w)) k i x \<longrightarrow> gp_guildId p = i)) \<and>
     (\<forall>k i x. in_table (gd_member (w_gdb w)) k i x \<longrightarrow> w_guid2guild w k = Some i) \<and> petitions_ok w"

definition guilds_ok :: "(uint32 \<times> Guild) list \<Rightarrow> bool" where
  "guilds_ok G \<longleftrightarrow> distinct (map fst G) \<and> (\<forall>i g. map_of G i = Some g \<longrightarrow> i \<noteq> 0 \<and> m_Id g = i \<and> roster_ok g)"

definition member_table_ok :: "GWorld \<Rightarrow> bool" where
  "member_table_ok w \<longleftrightarrow> distinct (map mw_guid (gd_member (w_gdb w))) \<and>
     (\<forall>k i x. in_table (gd_member (w_gdb w)) k i x \<longleftrightarrow> in_guilds (w_guilds w) k i x)"

definition world_ok :: "GWorld \<Rightarrow> bool" where
  "world_ok w \<longleftrightarrow> guilds_ok (w_guilds w) \<and> member_table_ok w \<and> players_ok w"

definition base :: "uint32 \<Rightarrow> gs \<Rightarrow> bool" where
  "base i s \<longleftrightarrow> (case s of (g, w) \<Rightarrow>
     i \<noteq> 0 \<and> m_Id g = i \<and> roster_base g \<and> distinct (map fst (w_guilds w)) \<and>
     (\<forall>j h. map_of (w_guilds w) j = Some h \<longrightarrow> j \<noteq> i \<longrightarrow> j \<noteq> 0 \<and> m_Id h = j \<and> roster_ok h) \<and>
     distinct (map mw_guid (gd_member (w_gdb w))) \<and>
     (\<forall>k j x. in_table (gd_member (w_gdb w)) k j x \<longleftrightarrow> (if j = i then has_rank g k x else in_guilds (w_guilds w) k j x)) \<and>
     players_ok w)"

lemma players_okI:
  assumes "\<And>k p. w_players w k = Some p \<Longrightarrow> unat (pl_rank (gp_pl p)) < 256"
    and "\<And>k p i x. w_players w k = Some p \<Longrightarrow> in_table (gd_member (w_gdb w)) k i x \<Longrightarrow> gp_guildId p = i"
    and "\<And>k i x. in_table (gd_member (w_gdb w)) k i x \<Longrightarrow> w_guid2guild w k = Some i" and "petitions_ok w"
  shows "players_ok w"
  using assms unfolding players_ok_def by blast

lemma players_okD:
  assumes "players_ok w" and "w_players w k = Some p"
  shows "unat (pl_rank (gp_pl p)) < 256" and "in_table (gd_member (w_gdb w)) k i x \<Longrightarrow> gp_guildId p = i"
  using assms unfolding players_ok_def by blast+

lemma players_ok_index: "players_ok w \<Longrightarrow> in_table (gd_member (w_gdb w)) k i x \<Longrightarrow> w_guid2guild w k = Some i"
  unfolding players_ok_def by blast

lemma players_ok_petitions: "players_ok w \<Longrightarrow> petitions_ok w"
  unfolding players_ok_def by blast

text \<open>The same petitions, or fewer signatures, and no row of a new player.\<close>

lemma petitions_ok_mono:
  assumes "petitions_ok w" and "w_petitions w' = w_petitions w"
    and "\<And>k i x. in_table (gd_member (w_gdb w')) k i x \<Longrightarrow> \<exists>j y. in_table (gd_member (w_gdb w)) k j y"
  shows "petitions_ok w'"
  using assms unfolding petitions_ok_def by metis

lemma petitions_ok_keeps [simp]:
  "petitions_ok (set_player k p w) = petitions_ok w" "petitions_ok (w\<lparr>w_players := P\<rparr>) = petitions_ok w"
  "petitions_ok (w\<lparr>w_bankSaveTimer := n\<rparr>) = petitions_ok w"
  by (simp_all add: petitions_ok_def set_player_def)

lemma in_guilds_update:
  "in_guilds (AList.update i g G) k j x \<longleftrightarrow> (if j = i then has_rank g k x else in_guilds G k j x)"
  by (simp add: in_guilds_def update_conv')

lemma in_guilds_delete: "in_guilds (AList.delete i G) k j x \<longleftrightarrow> j \<noteq> i \<and> in_guilds G k j x"
  by (auto simp: in_guilds_def delete_conv')

lemma world_base:
  assumes "world_ok w" and "GetGuildById w i = Some g"
  shows "base i (g, w) \<and> master_ok g"
proof -
  have "in_guilds (w_guilds w) k j x \<longleftrightarrow> (if j = i then has_rank g k x else in_guilds (w_guilds w) k j x)" for k j x
    using assms(2) by (simp add: in_guilds_def GetGuildById_def)
  with assms show ?thesis
    by (auto simp: world_ok_def guilds_ok_def member_table_ok_def base_def roster_ok_def GetGuildById_def)
qed

lemma players_ok_guilds [simp]: "players_ok (w\<lparr>w_guilds := G\<rparr>) = players_ok w"
  by (simp add: players_ok_def petitions_ok_def)

lemma base_world: "base i (g, w) \<Longrightarrow> master_ok g \<Longrightarrow> world_ok (put_guild i (g, w))"
  by (auto simp: world_ok_def guilds_ok_def member_table_ok_def base_def roster_ok_def put_guild_def in_guilds_update update_conv' distinct_update)

lemma base_removed:
  assumes "base i (g, w)" and "members g = []"
  shows "world_ok (RemoveGuild i w)"
  using assms
  by (auto simp: world_ok_def guilds_ok_def member_table_ok_def base_def RemoveGuild_def in_guilds_delete delete_conv'
      has_rank_def distinct_delete split: if_splits)

lemma roster_base_alt:
  "roster_base g \<longleftrightarrow> distinct (map fst (members g)) \<and>
     (\<forall>k m. (k, m) \<in> set (members g) \<longrightarrow> ms_guid m = k \<and> unat (ms_RankId m) < 256) \<and>
     5 \<le> length (m_Ranks g) \<and> length (m_Ranks g) \<le> 10"
  by (auto simp: roster_base_def)

lemma master_ok_alt:
  "master_ok g \<longleftrightarrow> m_LeaderGuid g \<in> fst ` set (members g) \<and>
     (\<forall>k m. (k, m) \<in> set (members g) \<longrightarrow> (ms_RankId m = 0 \<longleftrightarrow> k = m_LeaderGuid g))"
  by (auto simp: master_ok_def)

section \<open>What the invariant looks at\<close>

text \<open>\<open>same s s'\<close>: the two states agree on everything the invariant speaks about.\<close>

definition roster :: "Guild \<Rightarrow> (uint32 \<times> uint32 \<times> uint32) list" where
  "roster g = map (\<lambda>(k, m). (k, ms_guid m, ms_RankId m)) (members g)"

lemma roster_has_rank: "has_rank g k x \<longleftrightarrow> (\<exists>u. (k, u, x) \<in> set (roster g))"
  by (force simp: has_rank_def roster_def)

lemma roster_keys: "map fst (roster g) = map fst (members g)"
  by (simp add: roster_def split_def)

lemma roster_all: "(\<forall>(k, m) \<in> set (members g). P k (ms_guid m) (ms_RankId m)) \<longleftrightarrow> (\<forall>(k, u, x) \<in> set (roster g). P k u x)"
  by (auto simp: roster_def)

lemma roster_base_iff:
  "roster_base g \<longleftrightarrow> distinct (map fst (roster g)) \<and> (\<forall>(k, u, x) \<in> set (roster g). u = k \<and> unat x < 256) \<and>
     5 \<le> length (m_Ranks g) \<and> length (m_Ranks g) \<le> 10"
  using roster_all [of g "\<lambda>k u x. u = k \<and> unat x < 256"] by (simp add: roster_base_def roster_keys)

lemma master_ok_iff:
  "master_ok g \<longleftrightarrow> m_LeaderGuid g \<in> fst ` set (roster g) \<and> (\<forall>(k, u, x) \<in> set (roster g). x = 0 \<longleftrightarrow> k = m_LeaderGuid g)"
  using roster_all [of g "\<lambda>k u x. x = 0 \<longleftrightarrow> k = m_LeaderGuid g"] arg_cong [OF roster_keys [of g], of set]
  by (simp add: master_ok_def)

definition same :: "gs \<Rightarrow> gs \<Rightarrow> bool" where
  "same s s' \<longleftrightarrow> m_Id (fst s') = m_Id (fst s) \<and> m_LeaderGuid (fst s') = m_LeaderGuid (fst s) \<and> roster (fst s') = roster (fst s) \<and>
     length (m_Ranks (fst s')) = length (m_Ranks (fst s)) \<and> w_guilds (snd s') = w_guilds (snd s) \<and>
     w_players (snd s') = w_players (snd s) \<and> w_guid2guild (snd s') = w_guid2guild (snd s) \<and> w_petitions (snd s') = w_petitions (snd s) \<and>
     map (\<lambda>r. (mw_guid r, mw_guildid r, mw_rank r)) (gd_member (w_gdb (snd s'))) =
     map (\<lambda>r. (mw_guid r, mw_guildid r, mw_rank r)) (gd_member (w_gdb (snd s)))"

lemma in_table_view: "in_table T k i x \<longleftrightarrow> (k, i, x) \<in> set (map (\<lambda>r. (mw_guid r, mw_guildid r, mw_rank r)) T)"
  by (auto simp: in_table_def)

lemma table_guids: "map mw_guid T = map fst (map (\<lambda>r. (mw_guid r, mw_guildid r, mw_rank r)) T)"
  by simp

lemma same_refl [simp]: "same s s"
  by (simp add: same_def)

lemma same_trans [trans]: "same s s' \<Longrightarrow> same s' s'' \<Longrightarrow> same s s''"
  by (simp add: same_def)

lemma same_base: "same s s' \<Longrightarrow> base i s \<Longrightarrow> base i s'"
proof -
  assume a: "same s s'" and b: "base i s"
  obtain g w g' w' where s: "s = (g, w)" "s' = (g', w')" by (cases s; cases s')
  from a have t: "in_table (gd_member (w_gdb w')) = in_table (gd_member (w_gdb w))" "has_rank g' = has_rank g"
    "map mw_guid (gd_member (w_gdb w')) = map mw_guid (gd_member (w_gdb w))" "roster_base g' = roster_base g"
    unfolding s same_def by (simp_all only: in_table_view table_guids roster_has_rank roster_base_iff fun_eq_iff fst_conv snd_conv simp_thms)
  from a t have "players_ok w' = players_ok w" unfolding s same_def players_ok_def petitions_ok_def by simp
  with a b t show ?thesis unfolding s same_def base_def by simp
qed

lemma same_master: "same s s' \<Longrightarrow> master_ok (fst s) \<Longrightarrow> master_ok (fst s')"
  by (simp add: same_def master_ok_iff)

definition fine :: "uint32 \<Rightarrow> gs \<Rightarrow> bool" where
  "fine i s \<longleftrightarrow> base i s \<and> master_ok (fst s)"

lemma fine_put: "fine i s \<Longrightarrow> world_ok (put_guild i s)"
  by (cases s) (simp add: fine_def base_world)

lemma fine_same: "fine i s \<Longrightarrow> same s s' \<Longrightarrow> fine i s'"
  unfolding fine_def using same_base same_master by blast

lemma world_fine: "world_ok w \<Longrightarrow> GetGuildById w i = Some g \<Longrightarrow> fine i (g, w)"
  using world_base by (simp add: fine_def)

lemma gsend_keeps [simp]:
  "w_guilds (gsend k p w) = w_guilds w" "w_players (gsend k p w) = w_players w" "w_gdb (gsend k p w) = w_gdb w"
  "w_guid2guild (gsend k p w) = w_guid2guild w" "w_petitions (gsend k p w) = w_petitions w"
  by (simp_all add: gsend_def)

lemma world_ok_gsend [simp]: "world_ok (gsend k p w) = world_ok w"
  by (simp add: world_ok_def member_table_ok_def players_ok_def petitions_ok_def)

lemma fold_gsend_keeps:
  assumes "\<And>x w. w_guilds (f x w) = w_guilds w \<and> w_players (f x w) = w_players w \<and> w_gdb (f x w) = w_gdb w \<and>
    w_guid2guild (f x w) = w_guid2guild w \<and> w_petitions (f x w) = w_petitions w"
  shows "w_guilds (fold f xs w) = w_guilds w \<and> w_players (fold f xs w) = w_players w \<and> w_gdb (fold f xs w) = w_gdb w \<and>
    w_guid2guild (fold f xs w) = w_guid2guild w \<and> w_petitions (fold f xs w) = w_petitions w"
  using assms by (induction xs arbitrary: w) auto

lemma BroadcastPacket_same: "same s (BroadcastPacket E p s)"
proof -
  have f: "w_guilds (fold (\<lambda>k. if P k then gsend k p else id) xs w) = w_guilds w \<and>
      w_players (fold (\<lambda>k. if P k then gsend k p else id) xs w) = w_players w \<and>
      w_gdb (fold (\<lambda>k. if P k then gsend k p else id) xs w) = w_gdb w \<and>
      w_guid2guild (fold (\<lambda>k. if P k then gsend k p else id) xs w) = w_guid2guild w \<and> w_petitions (fold (\<lambda>k. if P k then gsend k p else id) xs w) = w_petitions w" for P xs w
    by (rule fold_gsend_keeps) simp
  have h: "w_guilds (fold (\<lambda>(k, m). if P k then gsend k p else id) xs w) = w_guilds w \<and>
      w_players (fold (\<lambda>(k, m). if P k then gsend k p else id) xs w) = w_players w \<and>
      w_gdb (fold (\<lambda>(k, m). if P k then gsend k p else id) xs w) = w_gdb w \<and>
      w_guid2guild (fold (\<lambda>(k, m). if P k then gsend k p else id) xs w) = w_guid2guild w \<and> w_petitions (fold (\<lambda>(k, m). if P k then gsend k p else id) xs w) = w_petitions w" for P and xs :: MemberList and w
    by (rule fold_gsend_keeps) (simp split: prod.split)
  show ?thesis
    by (cases s) (simp add: BroadcastPacket_def Let_def same_def f h)
qed

lemma BroadcastEvent_same: "same s (BroadcastEvent E ev k strs s)"
  by (simp add: BroadcastEvent_def BroadcastPacket_same)


section \<open>Steps that the invariant does not see\<close>

lemma gsql_keeps [simp]:
  "w_guilds (gsql st w) = w_guilds w" "w_players (gsql st w) = w_players w" "w_gdb (gsql st w) = exec_gsql st (w_gdb w)"
  "w_guid2guild (gsql st w) = w_guid2guild w" "w_petitions (gsql st w) = w_petitions w"
  by (simp_all add: gsql_def)

lemma LogGuildEvent_same: "same s (LogGuildEvent E t a b r s)"
  by (cases s) (simp add: LogGuildEvent_def Let_def same_def roster_def)

lemma roster_upd_member:
  "roster (upd_member k f g) = map (\<lambda>(k', m). (k', if k' = k then (ms_guid (f m), ms_RankId (f m)) else (ms_guid m, ms_RankId m))) (members g)"
  by (simp add: roster_def upd_member_def split_def)

lemma roster_upd_note:
  assumes "\<And>m. ms_guid (f m) = ms_guid m" "\<And>m. ms_RankId (f m) = ms_RankId m"
  shows "roster (upd_member k f g) = roster g"
  unfolding roster_upd_member using assms by (simp add: roster_def split_def)

lemma upd_member_keeps [simp]:
  "m_Id (upd_member k f g) = m_Id g" "m_LeaderGuid (upd_member k f g) = m_LeaderGuid g" "m_Ranks (upd_member k f g) = m_Ranks g"
  by (simp_all add: upd_member_def)

lemma SetPublicNote_same: "same s (SetPublicNote E k t s)"
  by (cases s) (simp add: SetPublicNote_def same_def roster_upd_note split: option.split)

lemma SetOfficerNote_same: "same s (SetOfficerNote E k t s)"
  by (cases s) (simp add: SetOfficerNote_def same_def roster_upd_note split: option.split)

lemma SetMOTD_same: "same s (SetMOTD t s)" and SetGINFO_same: "same s (SetGINFO t s)"
  by (cases s; simp add: SetMOTD_def SetGINFO_def same_def roster_def)+

lemma SetEmblem_same: "same s (SetEmblem e s)" and QueryGuild_same: "same s (QueryGuild k s)"
  by (cases s; simp add: SetEmblem_def QueryGuild_def same_def roster_def)+

lemma SendRoster_same: "same s (SendRoster E to s)"
  by (cases to) (simp_all add: SendRoster_def BroadcastPacket_same, simp add: same_def)

lemma SetRankName_same: "same s (SetRankName k n s)" and SetRankRights_same: "same s (SetRankRights k r s)"
  by (cases s; simp add: SetRankName_def SetRankRights_def same_def roster_def)+

lemma bank_call_keeps [simp]:
  "w_guilds (snd (bank_call E f b w)) = w_guilds w" "w_players (snd (bank_call E f b w)) = w_players w"
  "w_gdb (snd (bank_call E f b w)) = w_gdb w" "w_guid2guild (snd (bank_call E f b w)) = w_guid2guild w"
  "w_petitions (snd (bank_call E f b w)) = w_petitions w"
proof -
  let ?f = "\<lambda>e. case e of BroadcastToGuild m \<Rightarrow> gsend 0 (GuildBankMessage m) | _ \<Rightarrow> id"
  have "w_guilds (fold ?f xs w) = w_guilds w \<and> w_players (fold ?f xs w) = w_players w \<and> w_gdb (fold ?f xs w) = w_gdb w \<and>
      w_guid2guild (fold ?f xs w) = w_guid2guild w \<and> w_petitions (fold ?f xs w) = w_petitions w" for xs w
    by (rule fold_gsend_keeps) (simp split: gevent.split)
  then show "w_guilds (snd (bank_call E f b w)) = w_guilds w" "w_players (snd (bank_call E f b w)) = w_players w"
    "w_gdb (snd (bank_call E f b w)) = w_gdb w" "w_guid2guild (snd (bank_call E f b w)) = w_guid2guild w"
    "w_petitions (snd (bank_call E f b w)) = w_petitions w"
    by (simp_all add: bank_call_def Let_def)
qed

lemma on_banks_same: "same s (on_banks E f s)"
  by (cases s) (simp add: on_banks_def same_def roster_def split_def Let_def split: option.split)

lemma on_banks_ranks: "m_Ranks (fst (on_banks E f s)) = m_Ranks (fst s)"
  by (cases s) (simp add: on_banks_def split_def Let_def split: option.split)

text \<open>Changing the rank list within its bounds.\<close>

lemma fine_ranks:
  assumes "fine i (g, w)" and "5 \<le> length R" "length R \<le> 10"
  shows "fine i (g\<lparr>m_Ranks := R\<rparr>, w)"
  using assms by (simp add: fine_def base_def roster_base_def master_ok_def has_rank_def)

lemma fine_ranks_bounds: "fine i s \<Longrightarrow> 5 \<le> length (m_Ranks (fst s)) \<and> length (m_Ranks (fst s)) \<le> 10"
  by (cases s) (simp add: fine_def base_def roster_base_def)

lemma same_gsql:
  assumes "\<And>d. gd_member (exec_gsql st d) = gd_member d"
  shows "same (g, w) (g, gsql st w)"
  by (simp add: same_def assms)

lemma CreateRank_fine: "fine i s \<Longrightarrow> fine i (CreateRank n r s)"
proof -
  assume f: "fine i s"
  obtain g w where s: "s = (g, w)" by (cases s)
  show ?thesis
  proof (cases "length (m_Ranks g) < 10")
    case True
    let ?st = "InsertRank \<lparr>rr_guildid = m_Id g, rr_rid = of_nat (length (m_Ranks g)), rr_name = n, rr_rights = r\<rparr>"
    have "fine i (g, gsql ?st w)" using f unfolding s by (rule fine_same) (rule same_gsql, simp)
    moreover have "5 \<le> length (m_Ranks g)" using fine_ranks_bounds [OF f] by (simp add: s)
    ultimately show ?thesis using True fine_ranks [of i g _ "m_Ranks g @ [\<lparr>ri_Name = n, ri_Rights = r\<rparr>]"]
      by (simp add: s CreateRank_def AddRank_def)
  qed (use f in \<open>simp add: s CreateRank_def\<close>)
qed

lemma DelRank_fine: "fine i s \<Longrightarrow> fine i (DelRank E s)"
proof -
  assume f: "fine i s"
  obtain g w where s: "s = (g, w)" by (cases s)
  let ?r = "GetLowestRank g"
  let ?s = "on_banks E (UpdateMinranks ?r) (g, gsql (DeleteRanksFrom ?r (m_Id g)) w)"
  have "same s ?s" unfolding s by (rule same_trans [OF same_gsql on_banks_same]) simp
  then have f1: "fine i ?s" by (rule fine_same [OF f])
  obtain g1 w1 where 1: "?s = (g1, w1)" by (cases ?s)
  have "m_Ranks g1 = m_Ranks g" using on_banks_ranks [of E _ "(g, gsql (DeleteRanksFrom ?r (m_Id g)) w)"] 1 by (metis fst_conv)
  moreover have "length (m_Ranks g) \<le> 10" using fine_ranks_bounds [OF f] by (simp add: s)
  ultimately show ?thesis using f f1 fine_ranks [of i g1 w1 "butlast (m_Ranks g1)"] by (simp add: s DelRank_def 1)
qed

section \<open>Changing ranks\<close>

lemma members_mem: "distinct (map fst (members g)) \<Longrightarrow> GetMemberSlot g k = Some m \<longleftrightarrow> (k, m) \<in> set (members g)"
  by (simp add: GetMemberSlot_def map_of_eq_Some_iff)

lemma base_member:
  assumes "base i (g, w)" and "GetMemberSlot g k = Some m"
  shows "ms_guid m = k" "unat (ms_RankId m) < 256" "(k, m) \<in> set (members g)"
  using assms by (auto simp: base_def roster_base_def members_mem)

lemma set_upd_member:
  "(k', m') \<in> set (members (upd_member k f g)) \<longleftrightarrow> (if k' = k then \<exists>m. (k, m) \<in> set (members g) \<and> m' = f m else (k', m') \<in> set (members g))"
  by (cases "k' = k") (auto simp: upd_member_def image_iff split_def Bex_def)

lemma keys_upd_member: "map fst (members (upd_member k f g)) = map fst (members g)"
  by (simp add: upd_member_def split_def comp_def if_distrib cong: if_cong)

lemma in_table_rank:
  "in_table (map (\<lambda>r. if mw_guid r = p then r\<lparr>mw_rank := y\<rparr> else r) T) k i x \<longleftrightarrow>
     (if k = p then (\<exists>z. in_table T k i z) \<and> x = y else in_table T k i x)"
proof -
  let ?f = "\<lambda>r. if mw_guid r = p then r\<lparr>mw_rank := y\<rparr> else r"
  have f: "mw_guid (?f r) = mw_guid r" "mw_guildid (?f r) = mw_guildid r" "mw_rank (?f r) = (if mw_guid r = p then y else mw_rank r)" for r
    by simp_all
  have "in_table (map ?f T) k i x \<longleftrightarrow> (\<exists>r \<in> set T. mw_guid r = k \<and> mw_guildid r = i \<and> (if mw_guid r = p then y else mw_rank r) = x)"
    unfolding in_table_def by (simp only: set_map bex_simps f)
  also have "\<dots> \<longleftrightarrow> (if k = p then (\<exists>z. in_table T k i z) \<and> x = y else in_table T k i x)"
    unfolding in_table_def by (cases "k = p") (auto split: if_splits)
  finally show ?thesis .
qed

lemma guids_rank: "map mw_guid (map (\<lambda>r. if mw_guid r = p then r\<lparr>mw_rank := y\<rparr> else r) T) = map mw_guid T"
  by (induction T) auto

text \<open>What \<open>ChangeRank\<close> does to the guild and to the parts of the world the invariant sees.\<close>

lemma ChangeRank_guild:
  "fst (ChangeRank k r s) = (if GetMemberSlot (fst s) k = None then fst s else upd_member k (\<lambda>m. m\<lparr>ms_RankId := r\<rparr>) (fst s))"
  by (cases s) (simp add: ChangeRank_def Let_def split: option.split)

lemma ChangeRank_keeps [simp]:
  "m_LeaderGuid (fst (ChangeRank k r s)) = m_LeaderGuid (fst s)" "m_Id (fst (ChangeRank k r s)) = m_Id (fst s)"
  "m_Ranks (fst (ChangeRank k r s)) = m_Ranks (fst s)" "map fst (members (fst (ChangeRank k r s))) = map fst (members (fst s))"
  by (simp_all add: ChangeRank_guild keys_upd_member)

lemma has_rank_upd:
  "has_rank (upd_member k (\<lambda>m. m\<lparr>ms_RankId := r\<rparr>) g) k' x \<longleftrightarrow> (if k' = k then (\<exists>z. has_rank g k z) \<and> x = r else has_rank g k' x)"
  by (auto simp: has_rank_def set_upd_member)

lemma base_has:
  assumes "base i (g, w)"
  shows "in_table (gd_member (w_gdb w)) k j x \<longleftrightarrow> (if j = i then has_rank g k x else in_guilds (w_guilds w) k j x)"
  using assms by (simp add: base_def)

lemma base_unique:
  assumes "base i (g, w)" and "in_table (gd_member (w_gdb w)) k j x" "in_table (gd_member (w_gdb w)) k j' x'"
  shows "j = j' \<and> x = x'"
proof -
  have d: "distinct (map mw_guid (gd_member (w_gdb w)))" using assms(1) by (simp add: base_def)
  from assms(2,3) obtain r r' where "r \<in> set (gd_member (w_gdb w))" "r' \<in> set (gd_member (w_gdb w))" "mw_guid r = mw_guid r'"
    "mw_guildid r = j" "mw_rank r = x" "mw_guildid r' = j'" "mw_rank r' = x'"
    by (auto simp: in_table_def)
  with d show ?thesis by (auto simp: distinct_map inj_on_def)
qed

lemma roster_base_upd:
  assumes "roster_base g" and "unat r < 256"
  shows "roster_base (upd_member k (\<lambda>m. m\<lparr>ms_RankId := r\<rparr>) g)"
  using assms unfolding roster_base_alt set_upd_member keys_upd_member by (auto split: if_splits)

lemma ChangeRank_base:
  assumes b: "base i s" and r: "unat r < 256"
  shows "base i (ChangeRank k r s)"
proof -
  obtain g w where s: "s = (g, w)" by (cases s)
  show ?thesis
  proof (cases "GetMemberSlot g k")
    case None
    then show ?thesis using b by (simp add: s ChangeRank_def)
  next
    case (Some m)
    note b = b [unfolded s]
    note m = base_member [OF b Some]
    let ?g = "upd_member k (\<lambda>m. m\<lparr>ms_RankId := r\<rparr>) g"
    let ?w1 = "case FindPlayer w k of None \<Rightarrow> w | Some p \<Rightarrow> set_player k (SetRank r p) w"
    let ?w = "gsql (UpdateMemberRank k r) ?w1"
    have e: "ChangeRank k r s = (?g, ?w)" using Some m(1) by (simp add: s ChangeRank_def Let_def cong: option.case_cong)
    have w1: "w_guilds ?w1 = w_guilds w" "w_gdb ?w1 = w_gdb w" "w_guid2guild ?w1 = w_guid2guild w" "w_petitions ?w1 = w_petitions w"
      by (simp_all add: set_player_def split: option.split)
    have p: "w_players ?w1 k' = Some p \<Longrightarrow>
        \<exists>p0. w_players w k' = Some p0 \<and> gp_guildId p = gp_guildId p0 \<and> (pl_rank (gp_pl p) = pl_rank (gp_pl p0) \<or> pl_rank (gp_pl p) = r)" for k' p
      by (auto simp: FindPlayer_def FindPlayerNotInWorld_def set_player_def SetRank_def split: option.splits if_splits)
    have h: "has_rank g k (ms_RankId m)" using m(3) by (auto simp: has_rank_def)
    have o: "\<not> in_guilds (w_guilds w) k j x" if "j \<noteq> i" for j x
      using base_unique [OF b, of k j x i "ms_RankId m"] base_has [OF b] h that by auto
    have t: "in_table (gd_member (w_gdb ?w)) k' j x \<longleftrightarrow> (if j = i then has_rank ?g k' x else in_guilds (w_guilds ?w) k' j x)" for k' j x
      using h o by (auto simp: w1 in_table_rank has_rank_upd base_has [OF b])
    have "players_ok ?w"
    proof (rule players_okI)
      fix k' p assume "w_players ?w k' = Some p"
      then obtain p0 where p0: "w_players w k' = Some p0" "gp_guildId p = gp_guildId p0"
        "pl_rank (gp_pl p) = pl_rank (gp_pl p0) \<or> pl_rank (gp_pl p) = r"
        using p by auto
      have ok: "players_ok w" using b by (simp add: base_def)
      from players_okD(1) [OF ok p0(1)] p0(3) r show "unat (pl_rank (gp_pl p)) < 256" by auto
      fix j x assume "in_table (gd_member (w_gdb ?w)) k' j x"
      then have "\<exists>z. in_table (gd_member (w_gdb w)) k' j z" by (auto simp: w1 in_table_rank split: if_splits)
      with players_okD(2) [OF ok p0(1)] p0(2) show "gp_guildId p = j" by auto
    next
      fix k' j x assume "in_table (gd_member (w_gdb ?w)) k' j x"
      then have "\<exists>z. in_table (gd_member (w_gdb w)) k' j z" by (auto simp: w1 in_table_rank split: if_splits)
      with b show "w_guid2guild ?w k' = Some j" by (auto simp: base_def w1 intro: players_ok_index)
    next
      have "petitions_ok w" using b by (simp add: base_def players_ok_petitions)
      then show "petitions_ok ?w" by (rule petitions_ok_mono) (auto simp: w1 in_table_rank split: if_splits)
    qed
    moreover have "roster_base ?g" using b r by (intro roster_base_upd) (simp_all add: base_def)
    ultimately show ?thesis using b t by (simp add: e base_def w1 guids_rank [unfolded map_map])
  qed
qed

end
