(* ===== verification/Guild_Steps.thy ===== *)
theory Guild_Steps
  imports Guild_Invariant
begin

text \<open>
  The operations that change the roster keep the invariant: a new leader, a member who leaves, a
  guild that is disbanded, a member who joins, a guild that is created.
\<close>

section \<open>A new leader\<close>

lemma master_ok_has:
  "master_ok g \<longleftrightarrow> m_LeaderGuid g \<in> fst ` set (members g) \<and> (\<forall>k x. has_rank g k x \<longrightarrow> (x = 0 \<longleftrightarrow> k = m_LeaderGuid g))"
  unfolding master_ok_alt has_rank_def by blast

lemma base_leader [simp]: "base i (g\<lparr>m_LeaderGuid := l\<rparr>, w) = base i (g, w)"
  by (simp add: base_def roster_base_def has_rank_def)

lemma has_rank_leader [simp]: "has_rank (g\<lparr>m_LeaderGuid := l\<rparr>) = has_rank g"
  by (simp add: has_rank_def fun_eq_iff)

lemma base_gsql:
  assumes "base i (g, w)" and "\<And>d. gd_member (exec_gsql st d) = gd_member d"
  shows "base i (g, gsql st w)"
  using assms(1) same_base [OF same_gsql [of st g w, OF assms(2)]] by blast

lemma GetMemberSlot_None: "GetMemberSlot g k = None \<longleftrightarrow> k \<notin> fst ` set (members g)"
  by (simp add: GetMemberSlot_def map_of_eq_None_iff)

lemma GetMemberSlot_keys: "GetMemberSlot g k = None \<longleftrightarrow> k \<notin> set (map fst (members g))"
  by (simp add: GetMemberSlot_None)

lemma has_rank_keys: "(\<exists>x. has_rank g k x) \<longleftrightarrow> k \<in> set (map fst (members g))"
  by (force simp: has_rank_def)

lemma GetMemberSlot_leader [simp]: "GetMemberSlot (g\<lparr>m_LeaderGuid := l\<rparr>) k = GetMemberSlot g k"
  by (simp add: GetMemberSlot_def)

lemma SetLeader_base: "base i s \<Longrightarrow> base i (SetLeader k s)"
proof -
  assume b: "base i s"
  obtain g w where s: "s = (g, w)" by (cases s)
  show ?thesis
  proof (cases "GetMemberSlot g k")
    case (Some m)
    obtain g1 w1 where c: "ChangeRank k 0 (g\<lparr>m_LeaderGuid := ms_guid m\<rparr>, w) = (g1, w1)" by fastforce
    have "base i (g1, w1)" using ChangeRank_base [of i "(g\<lparr>m_LeaderGuid := ms_guid m\<rparr>, w)" 0 k] b by (simp add: s c)
    then show ?thesis using Some by (simp add: s SetLeader_def c base_gsql)
  qed (use b in \<open>simp add: s SetLeader_def\<close>)
qed

lemma SetLeader_guild:
  assumes "base i (g, w)" and "k \<in> fst ` set (members g)"
  shows "fst (SetLeader k (g, w)) = upd_member k (\<lambda>m. m\<lparr>ms_RankId := 0\<rparr>) (g\<lparr>m_LeaderGuid := k\<rparr>)"
proof -
  from assms(2) obtain m where m: "GetMemberSlot g k = Some m" by (metis GetMemberSlot_None option.exhaust)
  note u = base_member(1) [OF assms(1) m]
  show ?thesis
    using m u ChangeRank_guild [of k 0 "(g\<lparr>m_LeaderGuid := k\<rparr>, w)"]
    by (simp add: SetLeader_def split_def)
qed

text \<open>The new leader is a member, and nobody but the old leader and the new one has the first rank.\<close>

lemma SetNewLeader_fine:
  assumes b: "base i (g, w)" and new: "new \<in> fst ` set (members g)"
    and old: "old \<noteq> Some new" "\<And>k. has_rank g k 0 \<Longrightarrow> k = new \<or> old = Some k"
  shows "fine i (SetNewLeader E new old (g, w))"
    and "m_LeaderGuid (fst (SetNewLeader E new old (g, w))) = new"
    and "map fst (members (fst (SetNewLeader E new old (g, w)))) = map fst (members g)"
proof -
  let ?s1 = "SetLeader new (g, w)"
  let ?g1 = "upd_member new (\<lambda>m. m\<lparr>ms_RankId := 0\<rparr>) (g\<lparr>m_LeaderGuid := new\<rparr>)"
  have g1: "fst ?s1 = ?g1" by (rule SetLeader_guild [OF b new])
  have b1: "base i ?s1" by (rule SetLeader_base [OF b])
  have k1: "map fst (members ?g1) = map fst (members g)" by (simp add: keys_upd_member)
  have h1: "has_rank ?g1 k x \<longleftrightarrow> (if k = new then (\<exists>z. has_rank g k z) \<and> x = 0 else has_rank g k x)" for k x
    using has_rank_upd [of new 0 "g\<lparr>m_LeaderGuid := new\<rparr>" k x] by simp
  have l1: "new \<in> fst ` set (members ?g1)" using new k1 by (metis image_set)
  have "fine i (SetNewLeader E new old (g, w)) \<and> m_LeaderGuid (fst (SetNewLeader E new old (g, w))) = new \<and>
    map fst (members (fst (SetNewLeader E new old (g, w)))) = map fst (members g)"
  proof (cases old)
    case None
    then have "master_ok ?g1" using old(2) l1 by (auto simp: master_ok_has h1)
    then show ?thesis using None b1 g1 k1 by (simp add: SetNewLeader_def Let_def fine_def)
  next
    case (Some o')
    let ?s2 = "ChangeRank o' 1 ?s1"
    have b2: "base i ?s2" by (rule ChangeRank_base [OF b1]) simp
    have k2: "map fst (members (fst ?s2)) = map fst (members g)" by (simp add: g1 k1)
    have l2: "m_LeaderGuid (fst ?s2) = new" by (simp add: g1)
    have n1: "GetMemberSlot ?g1 o' = None \<longleftrightarrow> \<not> (\<exists>z. has_rank g o' z)"
      using k1 by (simp add: GetMemberSlot_keys has_rank_keys)
    have h2: "has_rank (fst ?s2) k x \<longrightarrow> (x = 0 \<longleftrightarrow> k = new)" for k x
      using old Some by (auto simp: ChangeRank_guild g1 has_rank_upd h1 n1 split: if_splits)
    have "new \<in> fst ` set (members (fst ?s2))" using new k2 by (metis image_set)
    with h2 l2 b2 have f: "fine i ?s2" by (simp add: fine_def master_ok_has)
    have sm: "same ?s2 (SetNewLeader E new old (g, w))"
      by (simp add: SetNewLeader_def Let_def Some BroadcastEvent_same)
    have "map fst (roster (fst (SetNewLeader E new old (g, w)))) = map fst (roster (fst ?s2))" using sm by (simp add: same_def)
    then show ?thesis using fine_same [OF f sm] sm l2 k2 by (simp add: roster_keys same_def)
  qed
  then show "fine i (SetNewLeader E new old (g, w))" "m_LeaderGuid (fst (SetNewLeader E new old (g, w))) = new"
    "map fst (members (fst (SetNewLeader E new old (g, w)))) = map fst (members g)" by simp_all
qed

section \<open>Leaving\<close>

lemma in_table_delete: "in_table (filter (\<lambda>r. mw_guid r \<noteq> p) T) k i x \<longleftrightarrow> k \<noteq> p \<and> in_table T k i x"
  by (auto simp: in_table_def)

lemma distinct_guids_filter: "distinct (map mw_guid T) \<Longrightarrow> distinct (map mw_guid (filter P T))"
  by (rule distinct_map_filter)

definition left_player :: "uint32 \<Rightarrow> GWorld \<Rightarrow> GWorld" where
  "left_player guid w =
     (case FindPlayer w guid of None \<Rightarrow> w | Some p \<Rightarrow> set_player guid (SetRank 0 (SetInGuild 0 p)) w)"

lemma left_player_keeps [simp]:
  "w_guilds (left_player k w) = w_guilds w" "w_gdb (left_player k w) = w_gdb w" "w_guid2guild (left_player k w) = w_guid2guild w"
  "w_petitions (left_player k w) = w_petitions w"
  by (simp_all add: left_player_def set_player_def split: option.split)

lemma left_player_other:
  "w_players (left_player k w) k' = Some p \<Longrightarrow>
     (if k' = k then \<exists>p0. w_players w k = Some p0 \<and> (pl_rank (gp_pl p) = 0 \<or> pl_rank (gp_pl p) = pl_rank (gp_pl p0)) else w_players w k' = Some p)"
  by (auto simp: left_player_def set_player_def FindPlayer_def FindPlayerNotInWorld_def SetRank_def SetInGuild_def split: option.splits if_splits)

lemma index_keeps [simp]:
  "w_guilds (GuildMemberRemoved k w) = w_guilds w" "w_gdb (GuildMemberRemoved k w) = w_gdb w"
  "w_players (GuildMemberRemoved k w) = w_players w" "w_guid2guild (GuildMemberRemoved k w) = (w_guid2guild w)(k := None)"
  "w_guilds (GuildMemberAdded i k w) = w_guilds w" "w_gdb (GuildMemberAdded i k w) = w_gdb w"
  "w_players (GuildMemberAdded i k w) = w_players w" "w_guid2guild (GuildMemberAdded i k w) = (w_guid2guild w)(k \<mapsto> i)"
  "w_petitions (GuildMemberRemoved k w) = w_petitions w" "w_petitions (GuildMemberAdded i k w) = w_petitions w"
  by (simp_all add: GuildMemberRemoved_def GuildMemberAdded_def)

lemma erase_base:
  assumes b: "base i (g, w)" and o: "\<And>j x. in_table (gd_member (w_gdb w)) k j x \<Longrightarrow> j = i"
    and g': "m_Id g' = m_Id g" "m_Ranks g' = m_Ranks g" "members g' = filter (\<lambda>(k', m). k' \<noteq> k) (members g)"
  shows "base i (g', gsql (DeleteMember k) (left_player k (GuildMemberRemoved k w)))"
proof -
  let ?w = "gsql (DeleteMember k) (left_player k (GuildMemberRemoved k w))"
  have w: "w_guilds ?w = w_guilds w" "gd_member (w_gdb ?w) = filter (\<lambda>r. mw_guid r \<noteq> k) (gd_member (w_gdb w))"
    "w_guid2guild ?w = (w_guid2guild w)(k := None)" "w_players ?w = w_players (left_player k (GuildMemberRemoved k w))"
    by simp_all
  have ok: "players_ok w" using b by (simp add: base_def)
  have h: "has_rank g' k' x \<longleftrightarrow> k' \<noteq> k \<and> has_rank g k' x" for k' x by (auto simp: has_rank_def g')
  have t: "in_table (gd_member (w_gdb ?w)) k' j x \<longleftrightarrow> (if j = i then has_rank g' k' x else in_guilds (w_guilds ?w) k' j x)" for k' j x
    using o [of j x] base_has [OF b, of k' j x] by (auto simp: w in_table_delete h)
  have "players_ok ?w"
  proof (rule players_okI)
    fix k' p assume "w_players ?w k' = Some p"
    then have "w_players (left_player k (GuildMemberRemoved k w)) k' = Some p" by (simp only: w(4))
    from left_player_other [OF this] have p: "if k' = k then \<exists>p0. w_players w k = Some p0 \<and> (pl_rank (gp_pl p) = 0 \<or> pl_rank (gp_pl p) = pl_rank (gp_pl p0))
        else w_players w k' = Some p"
      by (simp only: index_keeps)
    then show "unat (pl_rank (gp_pl p)) < 256" using players_okD(1) [OF ok] by (auto split: if_splits)
    fix j x assume "in_table (gd_member (w_gdb ?w)) k' j x"
    then show "gp_guildId p = j" using p players_okD(2) [OF ok] by (auto simp: w in_table_delete split: if_splits)
  next
    fix k' j x assume "in_table (gd_member (w_gdb ?w)) k' j x"
    then show "w_guid2guild ?w k' = Some j" using players_ok_index [OF ok] by (auto simp: w in_table_delete)
  next
    show "petitions_ok ?w" by (rule petitions_ok_mono [OF players_ok_petitions [OF ok]]) (auto simp: in_table_delete)
  qed
  moreover have "roster_base g'" using b by (auto simp: base_def roster_base_alt g' distinct_map_filter)
  ultimately show ?thesis using b t by (simp add: base_def w(1) w(2) g' distinct_map_filter)
qed

lemma best_member_in:
  "best_member l ms best = Some (k, m) \<Longrightarrow> best = Some (k, m) \<or> (k, m) \<in> set ms \<and> k \<noteq> l"
  by (induction l ms best rule: best_member.induct) (auto split: if_splits option.splits)

lemma best_member_None: "best_member l ms best = None \<Longrightarrow> best = None \<and> (\<forall>(k, m) \<in> set ms. k = l)"
  by (induction l ms best rule: best_member.induct) (auto split: if_splits option.splits)

text \<open>The chosen successor has the best rank of all other members.\<close>

lemma best_member_least:
  "best_member l ms best = Some (k, m) \<Longrightarrow>
     (\<forall>(k', m') \<in> set ms. k' \<noteq> l \<longrightarrow> ms_RankId m \<le> ms_RankId m') \<and>
     (\<forall>k' m'. best = Some (k', m') \<longrightarrow> ms_RankId m \<le> ms_RankId m')"
proof (induction l ms best rule: best_member.induct)
  case (2 l k0 m0 ms best)
  show ?case
  proof (cases "k0 = l")
    case True
    with 2 show ?thesis by auto
  next
    case False
    with 2 show ?thesis by (fastforce split: option.splits if_splits prod.splits)
  qed
qed auto

text \<open>\<open>DelMember\<close> as an optional change of the leader followed by the removal.\<close>

definition erased :: "uint32 \<Rightarrow> bool \<Rightarrow> Guild \<Rightarrow> Guild" where
  "erased k disb g =
     (let g2 = RemoveFromCache k (g\<lparr>members := filter (\<lambda>(k', m). k' \<noteq> k) (members g)\<rparr>)
      in if disb then g2 else UpdateAccountsNumber g2)"

lemma erased_simps [simp]:
  "m_Id (erased k d g) = m_Id g" "m_Ranks (erased k d g) = m_Ranks g" "m_LeaderGuid (erased k d g) = m_LeaderGuid g"
  "members (erased k d g) = filter (\<lambda>(k', m). k' \<noteq> k) (members g)"
  by (simp_all add: erased_def Let_def RemoveFromCache_def UpdateAccountsNumber_def)

lemma DelMember_other:
  assumes "m_LeaderGuid g \<noteq> k \<or> disb"
  shows "DelMember E k disb (g, w) =
    (members (erased k disb g) = [], erased k disb g, gsql (DeleteMember k) (left_player k (GuildMemberRemoved k w)))"
  using assms by (auto simp: DelMember_def erased_def left_player_def Let_def split_def split: option.split)

lemma DelMember_leader:
  assumes "m_LeaderGuid g = k" and "GetSuitableNewLeader False g = (Some new, old)"
  shows "\<exists>g1 w1. same (SetNewLeader E new old (g, w)) (g1, w1) \<and>
    DelMember E k False (g, w) =
      (members (erased k False g1) = [], erased k False g1, gsql (DeleteMember k) (left_player k (GuildMemberRemoved k w1)))"
proof -
  let ?s1 = "SetNewLeader E new old (g, w)"
  let ?s2 = "case old of None \<Rightarrow> ?s1 | Some k' \<Rightarrow> BroadcastEvent E GE_LEFT k [member_name (fst ?s1) k'] ?s1"
  have "same ?s1 (fst ?s2, snd ?s2)" by (simp add: BroadcastEvent_same split: option.split)
  moreover have "DelMember E k False (g, w) =
      (members (erased k False (fst ?s2)) = [], erased k False (fst ?s2),
       gsql (DeleteMember k) (left_player k (GuildMemberRemoved k (snd ?s2))))"
    using assms by (simp add: DelMember_def erased_def left_player_def Let_def split_def)
  ultimately show ?thesis by blast
qed

lemma has_key: "k \<in> fst ` set xs \<Longrightarrow> xs \<noteq> []"
  by auto

lemma DelMember_fine:
  assumes f: "fine i (g, w)" and o: "\<And>j x. in_table (gd_member (w_gdb w)) k j x \<Longrightarrow> j = i"
  shows "case DelMember E k False (g, w) of (True, s) \<Rightarrow> base i s | (False, s) \<Rightarrow> fine i s"
proof -
  have b: "base i (g, w)" and m: "master_ok g" using f by (simp_all add: fine_def)
  show ?thesis
  proof (cases "m_LeaderGuid g = k")
    case False
    let ?g = "erased k False g"
    from False m have l: "m_LeaderGuid g \<in> fst ` set (members ?g)" by (force simp: master_ok_alt)
    then have "master_ok ?g" using m by (auto simp: master_ok_alt)
    moreover have "members ?g \<noteq> []" by (rule has_key [OF l])
    ultimately show ?thesis using False erase_base [OF b o, where g' = ?g] by (simp add: DelMember_other fine_def)
  next
    case True
    obtain best old where gs: "GetSuitableNewLeader False g = (best, old)" by fastforce
    have old: "old = Some k" using m True gs by (auto simp: GetSuitableNewLeader_def Let_def master_ok_alt)
    show ?thesis
    proof (cases best)
      case None
      then show ?thesis using b True gs by (simp add: DelMember_def)
    next
      case (Some new)
      then obtain mm where "best_member k (members g) None = Some (new, mm)"
        using gs True by (auto simp: GetSuitableNewLeader_def Let_def)
      then have new: "(new, mm) \<in> set (members g)" "new \<noteq> k" using best_member_in by fastforce+
      have nk: "new \<in> fst ` set (members g)" using new(1) by force
      have z: "has_rank g k' 0 \<Longrightarrow> k' = new \<or> old = Some k'" for k' using m True old by (auto simp: master_ok_has)
      have oo: "old \<noteq> Some new" using old new by simp
      note nl = SetNewLeader_fine [OF b nk oo z]
      obtain g1 w1 where sm: "same (SetNewLeader E new old (g, w)) (g1, w1)" and d: "DelMember E k False (g, w) =
          (members (erased k False g1) = [], erased k False g1, gsql (DeleteMember k) (left_player k (GuildMemberRemoved k w1)))"
        using DelMember_leader [OF True, of new old E w] gs Some by blast
      have f1: "fine i (g1, w1)" by (rule fine_same [OF nl(1) sm])
      then have b1: "base i (g1, w1)" and m1: "master_ok g1" by (simp_all add: fine_def)
      have l1: "m_LeaderGuid g1 = new" using sm nl(2) by (simp add: same_def)
      have "map fst (members g1) = map fst (members g)" using sm nl(3) by (simp add: same_def roster_keys [symmetric])
      then have hk: "\<exists>x. has_rank g1 k x" using m True by (simp add: has_rank_keys master_ok_alt)
      have o1: "in_table (gd_member (w_gdb w1)) k j x \<Longrightarrow> j = i" for j x
        using hk base_has [OF b1, of k i] base_unique [OF b1, of k j x i] by auto
      have l: "new \<in> fst ` set (members (erased k False g1))" using m1 l1 new(2) by (force simp: master_ok_alt)
      then have "master_ok (erased k False g1)" using m1 l1 by (auto simp: master_ok_alt)
      moreover have "members (erased k False g1) \<noteq> []" by (rule has_key [OF l])
      ultimately show ?thesis using erase_base [OF b1 o1, where g' = "erased k False g1"] by (simp add: d fine_def)
    qed
  qed
qed

section \<open>Disbanding\<close>

lemma del_members_base:
  "base i s \<Longrightarrow> base i (del_members E s) \<and> members (fst (del_members E s)) = []"
proof (induction E s rule: del_members.induct)
  case (1 E s)
  obtain g w where s: "s = (g, w)" by (cases s)
  show ?case
  proof (cases "members g")
    case Nil
    with 1 show ?thesis by (simp add: s del_members.simps)
  next
    case (Cons km ms)
    obtain k m where km: "km = (k, m)" by (cases km)
    have b: "base i (g, w)" using 1 by (simp add: s)
    have "has_rank g k (ms_RankId m)" using Cons km by (auto simp: has_rank_def)
    then have o: "in_table (gd_member (w_gdb w)) k j x \<Longrightarrow> j = i" for j x
      using base_has [OF b, of k i] base_unique [OF b, of k j x i] by auto
    have "base i (snd (DelMember E k True s))" using erase_base [OF b o, where g' = "erased k True g"] by (simp add: s DelMember_other)
    moreover have c: "members (fst s) = km # ms" by (simp add: s Cons)
    ultimately have "base i (del_members E (snd (DelMember E k True s))) \<and> members (fst (del_members E (snd (DelMember E k True s)))) = []"
      using "1.IH" [OF c km [symmetric]] by blast
    moreover have "del_members E s = del_members E (snd (DelMember E k True s))"
      unfolding del_members.simps [of E s] c km list.case prod.case ..
    ultimately show ?thesis by (simp only:)
  qed
qed

lemma Disband_ok:
  assumes "base i s"
  shows "world_ok (Disband E s)"
proof -
  have "base i (BroadcastEvent E GE_DISBANDED 0 [] s)" by (rule same_base [OF BroadcastEvent_same assms])
  note d = del_members_base [OF this, of E]
  obtain g w where gw: "del_members E (BroadcastEvent E GE_DISBANDED 0 [] s) = (g, w)" by fastforce
  let ?w2 = "(gsql (DeleteEventsOf (m_Id g)) (gsql (DeleteRanksOf (m_Id g)) (gsql (DeleteGuildRow (m_Id g)) w)))"
  let ?w3 = "?w2\<lparr>w_bdb := delete_bank_rows (m_Id g) (w_bdb ?w2)\<rparr>"
  have "same (g, w) (g, ?w3)" by (simp add: same_def)
  then have sm: "same (g, w) (on_banks E DeleteFromDB (g, ?w3))" by (rule same_trans [OF _ on_banks_same])
  obtain g3 w3 where 3: "on_banks E DeleteFromDB (g, ?w3) = (g3, w3)" by fastforce
  have b: "base i (g, w)" and e: "members g = []" using d gw by simp_all
  have b3: "base i (g3, w3)" using same_base [OF sm b] by (simp add: 3)
  have "roster g3 = roster g" using sm by (simp add: 3 same_def)
  then have "members g3 = []" using e by (simp add: roster_def)
  moreover have "m_Id g = i" using b by (simp add: base_def)
  moreover have "Disband E s = RemoveGuild (m_Id g) w3" by (simp add: Disband_def gw Let_def 3)
  ultimately show ?thesis using base_removed [OF b3] by simp
qed

end
