(* ===== verification/Guild_Join.thy ===== *)
theory Guild_Join
  imports Guild_Steps "HOL-Library.Multiset"
begin

text \<open>
  Joining and founding keep the invariant. What is asked of the environment is in \<open>guild_env_ok\<close>: the
  iteration orders of the member map and of the petition map are orders of their entries, and a script that changes the
  rank of a new member neither makes a guild master nor takes that rank away.
\<close>

definition guild_env_ok :: "'e GuildEnv_scheme \<Rightarrow> bool" where
  "guild_env_ok E \<longleftrightarrow> (\<forall>xs. mset (gv_order E xs) = mset xs) \<and> (\<forall>ps. mset (gv_porder E ps) = mset ps) \<and> (\<forall>g k r. gv_onAddMember E g k r = 0 \<longleftrightarrow> r = 0)"

lemma unsign_keeps [simp]:
  "w_guilds (unsign k w) = w_guilds w" "w_players (unsign k w) = w_players w" "w_guid2guild (unsign k w) = w_guid2guild w"
  "gd_member (w_gdb (unsign k w)) = gd_member (w_gdb w)"
  by (simp_all add: unsign_def split: option.split)

lemma map_remove1_distinct:
  "distinct (map f xs) \<Longrightarrow> x \<in> set xs \<Longrightarrow> map f (remove1 x xs) = filter (\<lambda>y. y \<noteq> f x) (map f xs)"
proof (induction xs)
  case (Cons y ys)
  show ?case
  proof (cases "y = x")
    case True
    have "filter (\<lambda>z. z \<noteq> f x) (map f ys) = map f ys" using Cons.prems(1) True by (intro filter_True) force
    with True show ?thesis by simp
  next
    case False
    with Cons have x: "x \<in> set ys" by simp
    then have "f y \<noteq> f x" using Cons.prems(1) by auto
    with False Cons x show ?thesis by simp
  qed
qed simp

text \<open>\<open>unsign\<close> takes the only signature of a player away.\<close>

lemma signers_simps [simp]:
  "signers [] = []" "signers (p # ps) = map sg_playerGuid (pt_signatures p) @ signers ps" "signers (ps @ qs) = signers ps @ signers qs"
  by (simp_all add: signers_def)

lemma drop_signature_None: "drop_signature k ps = None \<Longrightarrow> k \<notin> set (signers ps)"
  by (induction ps) (auto simp: find_None_iff split: option.splits)

lemma drop_signature_Some:
  "drop_signature k ps = Some ps' \<Longrightarrow> distinct (signers ps) \<Longrightarrow>
     map pt_id ps' = map pt_id ps \<and> signers ps' = filter (\<lambda>x. x \<noteq> k) (signers ps)"
proof (induction ps arbitrary: ps')
  case (Cons p ps)
  show ?case
  proof (cases "find (\<lambda>x. sg_playerGuid x = k) (pt_signatures p)")
    case None
    then have "filter (\<lambda>x. x \<noteq> k) (map sg_playerGuid (pt_signatures p)) = map sg_playerGuid (pt_signatures p)"
      by (auto simp: find_None_iff filter_id_conv)
    with None Cons show ?thesis by auto
  next
    case (Some x)
    then have x: "x \<in> set (pt_signatures p)" "sg_playerGuid x = k" by (auto simp: find_Some_iff)
    then have "k \<notin> set (signers ps)" using Cons.prems(2) by auto
    then have "filter (\<lambda>x. x \<noteq> k) (signers ps) = signers ps" by (auto simp: filter_id_conv)
    with Some x Cons.prems map_remove1_distinct [of sg_playerGuid "pt_signatures p" x] show ?thesis by auto
  qed
qed simp

lemma unsign_petitions:
  assumes "petitions_ok w"
  shows "map pt_id (w_petitions (unsign k w)) = map pt_id (w_petitions w)"
    and "signers (w_petitions (unsign k w)) = filter (\<lambda>x. x \<noteq> k) (signers (w_petitions w))"
proof -
  have d: "distinct (signers (w_petitions w))" using assms by (simp add: petitions_ok_def)
  have "map pt_id (w_petitions (unsign k w)) = map pt_id (w_petitions w) \<and>
    signers (w_petitions (unsign k w)) = filter (\<lambda>x. x \<noteq> k) (signers (w_petitions w))"
  proof (cases "drop_signature k (w_petitions w)")
    case None
    with drop_signature_None [OF None] show ?thesis by (auto simp: unsign_def intro!: filter_True [symmetric])
  next
    case (Some ps)
    with drop_signature_Some [OF Some d] show ?thesis by (simp add: unsign_def gsql_def)
  qed
  then show "map pt_id (w_petitions (unsign k w)) = map pt_id (w_petitions w)"
    "signers (w_petitions (unsign k w)) = filter (\<lambda>x. x \<noteq> k) (signers (w_petitions w))" by simp_all
qed

lemma unsign_ok: "petitions_ok w \<Longrightarrow> petitions_ok (unsign k w)"
  using unsign_petitions [of w k] by (simp add: petitions_ok_def)

lemma set_player_keeps [simp]:
  "w_guilds (set_player k p w) = w_guilds w" "w_gdb (set_player k p w) = w_gdb w" "w_guid2guild (set_player k p w) = w_guid2guild w"
  "w_players (set_player k p w) = (w_players w)(k \<mapsto> p)" "w_petitions (set_player k p w) = w_petitions w"
  by (simp_all add: set_player_def)

lemma in_table_snoc: "in_table (T @ [r]) k i x \<longleftrightarrow> in_table T k i x \<or> k = mw_guid r \<and> i = mw_guildid r \<and> x = mw_rank r"
  by (auto simp: in_table_def)

section \<open>A new member\<close>

lemma join_base:
  assumes b: "base i (g, w)" and n: "\<And>j x. \<not> in_table (gd_member (w_gdb w)) k j x"
    and g': "m_Id g' = i" "m_Ranks g' = m_Ranks g" "mset (members g') = mset (members g @ [(k, m)])" "ms_guid m = k" "unat (ms_RankId m) < 256"
    and w': "w_guilds w' = w_guilds w" "gd_member (w_gdb w') = gd_member (w_gdb w) @ [r]" "w_guid2guild w' = (w_guid2guild w)(k \<mapsto> i)"
      "w_petitions w' = w_petitions (unsign k w)"
    and r: "mw_guid r = k" "mw_guildid r = i" "mw_rank r = ms_RankId m"
    and p: "\<forall>k' q. w_players w' k' = Some q \<longrightarrow>
      (if k' = k then gp_guildId q = i \<and> unat (pl_rank (gp_pl q)) < 256 else w_players w k' = Some q)"
  shows "base i (g', w')" and "has_rank g' k' x \<longleftrightarrow> has_rank g k' x \<or> k' = k \<and> x = ms_RankId m"
proof -
  have s: "set (members g') = insert (k, m) (set (members g))" using g'(3) by (metis set_mset_mset set_append list.simps(15) empty_set Un_commute insert_is_Un)
  show h: "has_rank g' k' x \<longleftrightarrow> has_rank g k' x \<or> k' = k \<and> x = ms_RankId m" for k' x by (auto simp: has_rank_def s)
  have ok: "players_ok w" and rb: "roster_base g" and d: "distinct (map mw_guid (gd_member (w_gdb w)))" using b by (simp_all add: base_def)
  have nk: "\<not> has_rank g k x" for x using n [of i] base_has [OF b, of k i x] by simp
  then have k: "k \<notin> set (map fst (members g))" using has_rank_keys by blast
  have t: "in_table (gd_member (w_gdb w')) k' j x \<longleftrightarrow> (if j = i then has_rank g' k' x else in_guilds (w_guilds w') k' j x)" for k' j x
    using base_has [OF b, of k' j x] by (auto simp: w' in_table_snoc h r)
  have "players_ok w'"
  proof (rule players_okI)
    fix k' q assume q: "w_players w' k' = Some q"
    from p [rule_format, OF q] show "unat (pl_rank (gp_pl q)) < 256" using players_okD(1) [OF ok] by (auto split: if_splits)
    fix j x assume "in_table (gd_member (w_gdb w')) k' j x"
    with p [rule_format, OF q] show "gp_guildId q = j" using n players_okD(2) [OF ok] by (auto simp: w' in_table_snoc r split: if_splits)
  next
    fix k' j x assume "in_table (gd_member (w_gdb w')) k' j x"
    then show "w_guid2guild w' k' = Some j" using n players_ok_index [OF ok] by (auto simp: w' in_table_snoc r)
  next
    note po = players_ok_petitions [OF ok]
    show "petitions_ok w'" using po unsign_petitions [OF po, of k] by (auto simp: petitions_ok_def w' in_table_snoc r)
  qed
  moreover have "roster_base g'"
  proof -
    have "mset (map fst (members g')) = mset (map fst (members g @ [(k, m)]))" using g'(3) by (metis mset_map)
    then have "distinct (map fst (members g')) = distinct (map fst (members g @ [(k, m)]))" by (rule mset_eq_imp_distinct_iff)
    then show ?thesis using rb k by (auto simp: roster_base_alt s g')
  qed
  moreover have "distinct (map mw_guid (gd_member (w_gdb w')))"
  proof -
    have "k \<notin> mw_guid ` set (gd_member (w_gdb w))" using n by (auto simp: in_table_def)
    then show ?thesis using d by (simp add: w' r)
  qed
  ultimately show "base i (g', w')" using b t by (simp add: base_def w' g')
qed

text \<open>A player without a guild has no row in the member table.\<close>

lemma no_guild_no_row:
  assumes b: "base i (g, w)" and p: "w_players w k = Some p" "gp_guildId p = 0"
  shows "\<not> in_table (gd_member (w_gdb w)) k j x"
proof
  assume t: "in_table (gd_member (w_gdb w)) k j x"
  have "players_ok w" using b by (simp add: base_def)
  from players_okD(2) [OF this p(1) t] p(2) have "j = 0" by simp
  moreover have "i \<noteq> 0" "map_of (w_guilds w) 0 \<noteq> Some h" for h using b unfolding base_def prod.case by metis+
  ultimately show False using t base_has [OF b, of k j x] by (auto simp: in_guilds_def)
qed

lemma put_member_new:
  assumes "guild_env_ok E" and "k \<notin> set (map fst (members g))"
  shows "m_Id (put_member E k m g) = m_Id g" "m_Ranks (put_member E k m g) = m_Ranks g" "m_LeaderGuid (put_member E k m g) = m_LeaderGuid g"
    "mset (members (put_member E k m g)) = mset (members g @ [(k, m)])"
  using assms by (simp_all add: put_member_def guild_env_ok_def)

lemma cache_keeps [simp]:
  "m_Id (UpdateAccountsNumber g) = m_Id g" "m_Ranks (UpdateAccountsNumber g) = m_Ranks g"
  "m_LeaderGuid (UpdateAccountsNumber g) = m_LeaderGuid g" "members (UpdateAccountsNumber g) = members g"
  "m_Id (AddToCache k g) = m_Id g" "m_Ranks (AddToCache k g) = m_Ranks g"
  "m_LeaderGuid (AddToCache k g) = m_LeaderGuid g" "members (AddToCache k g) = members g"
  by (simp_all add: UpdateAccountsNumber_def AddToCache_def)

lemma ucast_byte_less: "unat (ucast (r :: uint8) :: uint32) < 256"
  using unsigned_less [of r, where ?'a = nat] take_bit_nat_less_eq_self [of 32 "unat r"] by (simp add: unsigned_ucast_eq)

lemma ucast_byte_zero: "(ucast (r :: uint8) :: uint32) = 0 \<longleftrightarrow> r = 0"
proof -
  have "take_bit 32 (unat r) = unat r" using unsigned_less [of r, where ?'a = nat] by (simp add: take_bit_nat_eq_self_iff)
  then have "unat (ucast r :: uint32) = unat r" by (simp add: unsigned_ucast_eq)
  then show ?thesis by (metis unsigned_0 unat_eq_zero)
qed

lemma hook_rank: "guild_env_ok E \<Longrightarrow> (ucast (gv_onAddMember E g k r) :: uint32) = 0 \<longleftrightarrow> r = 0"
  by (simp add: guild_env_ok_def ucast_byte_zero)

text \<open>A new member with another rank than the first leaves the guild master alone.\<close>

lemma master_ok_join:
  assumes m: "master_ok g" and l: "m_LeaderGuid g' = m_LeaderGuid g"
    and h: "\<And>k' x. has_rank g' k' x \<longleftrightarrow> has_rank g k' x \<or> b \<and> k' = k \<and> x = x0"
    and k: "b \<Longrightarrow> x0 \<noteq> 0 \<and> (\<forall>x. \<not> has_rank g k x)"
  shows "master_ok g'"
proof -
  have "\<exists>z. has_rank g (m_LeaderGuid g) z" using m by (simp add: has_rank_keys master_ok_alt)
  then have "m_LeaderGuid g \<in> set (map fst (members g'))" "b \<Longrightarrow> k \<noteq> m_LeaderGuid g" using h k has_rank_keys by metis+
  then show ?thesis using m k by (auto simp: master_ok_has l h)
qed

lemma AddMember_online:
  fixes r :: uint32
  assumes b: "base i (g, w)" and E: "guild_env_ok E"
    and p: "w_players w k = Some p" "gp_guildId p = 0" "k \<noteq> 0"
  defines "x0 \<equiv> ucast (gv_onAddMember E i k (ucast r)) :: uint32"
  shows "\<exists>g' w'. AddMember E k r (g, w) = (GuildAdd_OK, g', w') \<and> base i (g', w') \<and> m_LeaderGuid g' = m_LeaderGuid g \<and>
    (\<forall>k' x. has_rank g' k' x \<longleftrightarrow> has_rank g k' x \<or> k' = k \<and> x = x0)"
proof -
  note n = no_guild_no_row [OF b p(1,2)]
  have id: "m_Id g = i" using b by (simp add: base_def)
  have "\<not> has_rank g k x" for x using n [of i x] base_has [OF b, of k i x] by simp
  then have k: "k \<notin> set (map fst (members g))" using has_rank_keys by blast
  obtain m0 where m0: "member_data E k r (Some p) = Inr m0" "ms_guid m0 = k" by (simp add: member_data_def Let_def)
  let ?m = "m0\<lparr>ms_RankId := x0\<rparr>"
  let ?g = "UpdateAccountsNumber (AddToCache k (put_member E k ?m g))"
  let ?r = "\<lparr>mw_guildid = m_Id g, mw_guid = k, mw_rank = x0, mw_pnote = [], mw_offnote = []\<rparr>"
  let ?p = "SetGuildIdInvited 0 (SetRank x0 (SetInGuild (m_Id g) p))"
  let ?w = "set_player k ?p (gsql (InsertMember ?r) (GuildMemberAdded (m_Id g) k (unsign k w)))"
  have e: "AddMember E k r (g, w) = (GuildAdd_OK, ?g, ?w)"
    using p m0 by (simp add: AddMember_def FindPlayerNotInWorld_def Let_def x0_def id)
  have "\<not> list_ex (\<lambda>z. mw_guid z = k) (gd_member (w_gdb w))" using n by (auto simp: list_ex_iff in_table_def)
  then have w: "gd_member (w_gdb ?w) = gd_member (w_gdb w) @ [?r]" by simp
  have x: "unat x0 < 256" unfolding x0_def by (rule ucast_byte_less)
  note pm = put_member_new [OF E k, of ?m]
  have q: "\<forall>k' q. w_players ?w k' = Some q \<longrightarrow>
      (if k' = k then gp_guildId q = i \<and> unat (pl_rank (gp_pl q)) < 256 else w_players w k' = Some q)"
    using x by (auto simp: id SetGuildIdInvited_def SetRank_def SetInGuild_def split: if_splits)
  note j = join_base [OF b n _ _ _ _ _ _ _ _ _ _ _ _ q, where g' = ?g and m = ?m and r = ?r]
  have "base i (?g, ?w)" "has_rank ?g k' x \<longleftrightarrow> has_rank g k' x \<or> k' = k \<and> x = x0" for k' x
    using j pm m0 x w by (simp_all add: id)
  then show ?thesis using e pm(3) by (intro exI [of _ ?g] exI [of _ ?w]) simp
qed

text \<open>Whatever the outcome, \<open>AddMember\<close> leaves the guild's name, ranks and leader and all other players alone.\<close>

lemma put_member_keeps [simp]:
  "m_Id (put_member E k m g) = m_Id g" "m_Name (put_member E k m g) = m_Name g" "m_Ranks (put_member E k m g) = m_Ranks g"
  "m_LeaderGuid (put_member E k m g) = m_LeaderGuid g"
  by (simp_all add: put_member_def upd_member_def)

lemma AddMember_frame:
  assumes "AddMember E k r (g, w) = (st, g', w')"
  shows "m_Name g' = m_Name g" "m_Ranks g' = m_Ranks g" "w_guilds w' = w_guilds w" "k' \<noteq> k \<Longrightarrow> w_players w' k' = w_players w k'"
    "k' \<noteq> k \<Longrightarrow> in_table (gd_member (w_gdb w')) k' j x \<longleftrightarrow> in_table (gd_member (w_gdb w)) k' j x"
proof -
  have n: "m_Name (UpdateAccountsNumber h) = m_Name h" "m_Name (AddToCache k h) = m_Name h" for h
    by (simp_all add: UpdateAccountsNumber_def AddToCache_def)
  note d = assms [unfolded AddMember_def Let_def]
  show "m_Name g' = m_Name g" "m_Ranks g' = m_Ranks g" "w_guilds w' = w_guilds w" "k' \<noteq> k \<Longrightarrow> w_players w' k' = w_players w k'"
    using d by (auto simp: n split: option.splits sum.splits if_splits)
  show "k' \<noteq> k \<Longrightarrow> in_table (gd_member (w_gdb w')) k' j x \<longleftrightarrow> in_table (gd_member (w_gdb w)) k' j x"
    using d by (auto simp: in_table_snoc split: option.splits sum.splits if_splits)
qed

text \<open>An offline player joins if the character cache has usable data of it.\<close>

definition loadable :: "'e GuildEnv_scheme \<Rightarrow> uint32 \<Rightarrow> bool" where
  "loadable E k \<longleftrightarrow> (case member_data E k 0 None of Inl _ \<Rightarrow> False | Inr _ \<Rightarrow> True)"

lemma offline_data:
  "(\<exists>m. member_data E k r None = Inr m \<and> ms_guid m = k \<and> ms_RankId m = r) \<longleftrightarrow> loadable E k"
  "\<not> loadable E k \<Longrightarrow> \<exists>e. member_data E k r None = Inl e"
  by (auto simp: loadable_def member_data_def Let_def split: option.splits if_splits)

lemma base_unsign: "base i (g, w) \<Longrightarrow> base i (g, unsign k w)"
  by (simp add: base_def players_ok_def unsign_ok)

lemma AddMember_offline:
  assumes b: "base i (g, w)" and E: "guild_env_ok E" and k: "w_players w k = None" "k \<noteq> 0"
    and n: "\<And>j x. \<not> in_table (gd_member (w_gdb w)) k j x" and r: "unat r < 256"
  shows "\<exists>st g' w'. AddMember E k r (g, w) = (st, g', w') \<and> base i (g', w') \<and> m_LeaderGuid g' = m_LeaderGuid g \<and>
    (\<forall>k' x. has_rank g' k' x \<longleftrightarrow> has_rank g k' x \<or> loadable E k \<and> k' = k \<and> x = r)"
proof -
  have id: "m_Id g = i" using b by (simp add: base_def)
  have "\<not> has_rank g k x" for x using n [of i x] base_has [OF b, of k i x] by simp
  then have nk: "k \<notin> set (map fst (members g))" using has_rank_keys by blast
  then have ms: "GetMemberSlot g k = None" by (simp add: GetMemberSlot_keys)
  show ?thesis
  proof (cases "loadable E k")
    case False
    with offline_data(2) [OF this, of r] k ms show ?thesis using base_unsign [OF b]
      by (auto simp: AddMember_def FindPlayerNotInWorld_def Let_def)
  next
    case True
    with offline_data(1) [of E k r] obtain m where m: "member_data E k r None = Inr m" "ms_guid m = k" "ms_RankId m = r" by blast
    let ?g = "UpdateAccountsNumber (put_member E k m g)"
    let ?r = "\<lparr>mw_guildid = m_Id g, mw_guid = k, mw_rank = r, mw_pnote = [], mw_offnote = []\<rparr>"
    let ?w = "gsql (InsertMember ?r) (GuildMemberAdded (m_Id g) k (unsign k w))"
    have e: "AddMember E k r (g, w) = (GuildAdd_OK, ?g, ?w)"
      using k ms m by (simp add: AddMember_def FindPlayerNotInWorld_def Let_def)
    have "\<not> list_ex (\<lambda>z. mw_guid z = k) (gd_member (w_gdb w))" using n by (auto simp: list_ex_iff in_table_def)
    then have w: "gd_member (w_gdb ?w) = gd_member (w_gdb w) @ [?r]" by simp
    note pm = put_member_new [OF E nk, of m]
    have q: "\<forall>k' q. w_players ?w k' = Some q \<longrightarrow>
        (if k' = k then gp_guildId q = i \<and> unat (pl_rank (gp_pl q)) < 256 else w_players w k' = Some q)"
      using k by auto
    note j = join_base [OF b n _ _ _ _ _ _ _ _ _ _ _ _ q, where g' = ?g and m = m and r = ?r]
    have "base i (?g, ?w)" "has_rank ?g k' x \<longleftrightarrow> has_rank g k' x \<or> k' = k \<and> x = r" for k' x
      using j pm m r w by (simp_all add: id)
    then show ?thesis using e True by simp
  qed
qed

section \<open>A new guild\<close>

lemma fresh_base:
  assumes "world_ok w" and "i \<noteq> 0" "GetGuildById w i = None"
    and "m_Id g = i" "members g = []" "5 \<le> length (m_Ranks g)" "length (m_Ranks g) \<le> 10"
    and w': "w_guilds w' = w_guilds w" "w_players w' = w_players w" "w_guid2guild w' = w_guid2guild w"
      "gd_member (w_gdb w') = gd_member (w_gdb w)" "w_petitions w' = w_petitions w"
  shows "base i (g, w')"
proof -
  have "players_ok w'" using assms(1) by (simp add: world_ok_def players_ok_def petitions_ok_def w')
  moreover have "\<not> in_guilds (w_guilds w) k i x" for k x using assms(3) by (simp add: in_guilds_def GetGuildById_def)
  ultimately show ?thesis using assms
    by (auto simp: base_def world_ok_def guilds_ok_def member_table_ok_def roster_base_def has_rank_def GetGuildById_def)
qed

lemma CreateRank_keeps:
  "m_Id (fst (CreateRank n r s)) = m_Id (fst s)" "m_LeaderGuid (fst (CreateRank n r s)) = m_LeaderGuid (fst s)"
  "members (fst (CreateRank n r s)) = members (fst s)"
  "length (m_Ranks (fst (CreateRank n r s))) = (if length (m_Ranks (fst s)) \<ge> 10 then length (m_Ranks (fst s)) else Suc (length (m_Ranks (fst s))))"
  "w_guilds (snd (CreateRank n r s)) = w_guilds (snd s)" "w_players (snd (CreateRank n r s)) = w_players (snd s)"
  "w_guid2guild (snd (CreateRank n r s)) = w_guid2guild (snd s)"
  "gd_member (w_gdb (snd (CreateRank n r s))) = gd_member (w_gdb (snd s))"
  "w_petitions (snd (CreateRank n r s)) = w_petitions (snd s)"
  by (cases s; simp add: CreateRank_def AddRank_def)+

lemma CreateDefaultGuildRanks_keeps:
  fixes E :: "'e GuildEnv_scheme"
  defines "c \<equiv> CreateDefaultGuildRanks E"
  shows "m_Id (fst (c s)) = m_Id (fst s)" "m_LeaderGuid (fst (c s)) = m_LeaderGuid (fst s)"
  "members (fst (c s)) = members (fst s)" "m_Ranks (fst s) = [] \<Longrightarrow> length (m_Ranks (fst (c s))) = 5"
  "w_guilds (snd (c s)) = w_guilds (snd s)" "w_players (snd (c s)) = w_players (snd s)"
  "w_guid2guild (snd (c s)) = w_guid2guild (snd s)"
  "gd_member (w_gdb (snd (c s))) = gd_member (w_gdb (snd s))" "w_petitions (snd (c s)) = w_petitions (snd s)"
  unfolding c_def by (cases s; simp add: CreateDefaultGuildRanks_def Let_def CreateRank_keeps)+

lemma make_banks_same: "same s (make_banks E s)"
proof -
  have "same s ((fst s)\<lparr>m_Bank := Some (new_GuildBank E False), m_InfernoBank := Some (new_GuildBank E True)\<rparr>, snd s)"
    by (simp add: same_def roster_def)
  then show ?thesis unfolding make_banks_def by (rule same_trans [OF _ on_banks_same])
qed

lemma AddGuild_ok: "fine i s \<Longrightarrow> world_ok (AddGuild E s)"
proof -
  assume "fine i s"
  then have f: "fine i (make_banks E s)" by (rule fine_same [OF _ make_banks_same])
  obtain g w where s: "make_banks E s = (g, w)" by fastforce
  have "m_Id g = i" using f by (simp add: s fine_def base_def)
  then show ?thesis using fine_put [OF f] by (simp add: AddGuild_def s)
qed

lemma filter_fresh:
  assumes "world_ok w" and "GetGuildById w i = None"
  shows "filter (\<lambda>r. mw_guildid r \<noteq> i) (gd_member (w_gdb w)) = gd_member (w_gdb w)"
proof -
  have "mw_guildid r \<noteq> i" if "r \<in> set (gd_member (w_gdb w))" for r
  proof
    assume "mw_guildid r = i"
    with that have "in_table (gd_member (w_gdb w)) (mw_guid r) i (mw_rank r)" by (auto simp: in_table_def)
    with assms show False by (auto simp: world_ok_def member_table_ok_def in_guilds_def GetGuildById_def)
  qed
  then show ?thesis by (simp add: filter_id_conv)
qed

lemma new_Guild_simps [simp]: "members new_Guild = []" "m_Ranks new_Guild = []"
  by (simp_all add: new_Guild_def)

lemma name_keeps:
  "m_Name (fst (CreateRank n r s)) = m_Name (fst s)" "m_Name (fst (CreateDefaultGuildRanks E s)) = m_Name (fst s)"
  "m_Name (fst (make_banks E s)) = m_Name (fst s)" "m_Ranks (fst (make_banks E s)) = m_Ranks (fst s)"
  by (cases s; simp add: CreateRank_def AddRank_def CreateDefaultGuildRanks_def Let_def make_banks_def on_banks_def split_def split: option.split)+

text \<open>A player without a guild founds one, with the given name, five ranks and the founder alone.\<close>

lemma Create_fine:
  assumes w: "world_ok w" and E: "guild_env_ok E" and me: "me \<noteq> 0"
    and i: "gv_newGuildId E \<noteq> 0" "GetGuildById w (gv_newGuildId E) = None"
    and p: "w_players w me = Some p" "gp_guildId p = 0" and gn: "GetGuildByName w gname = None"
  obtains g w' where "Create E me gname (new_Guild, w) = (True, g, w')" "fine (gv_newGuildId E) (g, w')" "m_Name g = gname"
    "m_LeaderGuid g = me" "length (m_Ranks g) = 5" "\<And>k x. has_rank g k x \<longleftrightarrow> k = me \<and> x = 0"
    "\<And>k. k \<noteq> me \<Longrightarrow> w_players w' k = w_players w k"
    "\<And>k j x. k \<noteq> me \<Longrightarrow> in_table (gd_member (w_gdb w')) k j x \<longleftrightarrow> in_table (gd_member (w_gdb w)) k j x"
proof -
  let ?i = "gv_newGuildId E"
  let ?g = "new_Guild\<lparr>m_LeaderGuid := me, m_Name := gname, m_info := [], m_motd := ''No message set.'',
                    m_Id := ?i, m_Created := gv_date E (be_now E)\<rparr>"
  let ?w = "gsql (InsertGuild (guild_row E ?g)) (gsql (DeleteMembersOf ?i) w)"
  let ?c = "CreateDefaultGuildRanks E (?g, ?w)"
  have t: "gd_member (w_gdb ?w) = gd_member (w_gdb w)" using filter_fresh [OF w i(2)] by simp
  have r5: "length (m_Ranks (fst ?c)) = 5" by (rule CreateDefaultGuildRanks_keeps(4)) simp
  with t have "base ?i (fst ?c, snd ?c)"
    by (intro fresh_base [OF w i]) (simp_all only: CreateDefaultGuildRanks_keeps fst_conv snd_conv gsql_keeps, simp_all)
  then have b: "base ?i (make_banks E ?c)" by (intro same_base [OF make_banks_same]) simp
  obtain g1 w1 where s1: "make_banks E ?c = (g1, w1)" by fastforce
  have sm: "same ?c (g1, w1)" using make_banks_same [of ?c E] by (simp add: s1)
  have l: "m_LeaderGuid g1 = me" using sm by (simp add: same_def CreateDefaultGuildRanks_keeps)
  have "roster g1 = []" using sm by (simp add: same_def CreateDefaultGuildRanks_keeps roster_def)
  then have e: "\<not> has_rank g1 k x" for k x by (simp add: roster_has_rank)
  have pl: "w_players w1 = w_players w" using sm by (simp add: same_def CreateDefaultGuildRanks_keeps)
  have n1: "m_Name g1 = gname" "length (m_Ranks g1) = 5" using name_keeps(3,4) [of E ?c] name_keeps(2) [of E "(?g, ?w)"] r5 by (simp_all add: s1)
  have t1: "in_table (gd_member (w_gdb w1)) k j x \<longleftrightarrow> in_table (gd_member (w_gdb w)) k j x" for k j x
    using sm t by (simp add: same_def CreateDefaultGuildRanks_keeps in_table_view)
  have x0: "ucast (gv_onAddMember E ?i me (ucast GR_GUILDMASTER)) = (0 :: uint32)" using hook_rank [OF E] by simp
  obtain g2 w2 where 2: "AddMember E me GR_GUILDMASTER (g1, w1) = (GuildAdd_OK, g2, w2)" "base ?i (g2, w2)" "m_LeaderGuid g2 = me"
    "\<And>k' x. has_rank g2 k' x \<longleftrightarrow> k' = me \<and> x = 0"
    using AddMember_online [OF b [unfolded s1] E _ p(2) me, of GR_GUILDMASTER] e l x0 pl p by auto
  have "me \<in> set (map fst (members g2))" using 2(4) has_rank_keys by metis
  then have f: "fine ?i (g2, w2)" using 2 by (simp add: fine_def master_ok_has)
  note fr = AddMember_frame [OF 2(1)]
  show thesis
    using that [of g2 w2] f 2 fr n1 t1 pl gn s1 by (simp add: Create_def Let_def)
qed

lemma HandleGuildCreateOpcode_ok:
  assumes w: "world_ok w" and E: "guild_env_ok E" and me: "me \<noteq> 0"
    and i: "gv_newGuildId E \<noteq> 0" "GetGuildById w (gv_newGuildId E) = None"
  shows "world_ok (HandleGuildCreateOpcode E me gname w)"
proof (cases "w_players w me")
  case (Some p)
  show ?thesis
  proof (cases "gp_guildId p \<noteq> 0 \<or> GetGuildByName w gname \<noteq> None")
    case True
    then show ?thesis using w Some by (auto simp: HandleGuildCreateOpcode_def Create_def)
  next
    case False
    then have *: "gp_guildId p = 0" "GetGuildByName w gname = None" by simp_all
    show ?thesis
      by (rule Create_fine [OF w E me i Some *]) (use Some * in \<open>simp add: HandleGuildCreateOpcode_def AddGuild_ok\<close>)
  qed
qed (use w in \<open>simp add: HandleGuildCreateOpcode_def\<close>)

end
