(* ===== verification/Guild_Run.thy ===== *)
theory Guild_Run
  imports Guild_Join Bank_Transfer_Props
begin

text \<open>
  Every guild opcode, login and logout, the deletion of a character, the death of a hardcore leader
  and the timer of the guild manager keep the invariant of the guild world.
\<close>

section \<open>Rules for one guild\<close>

named_theorems keeps_fine

lemma fine_steps [keeps_fine]:
  "fine i s \<Longrightarrow> fine i (BroadcastEvent E ev k strs s)" "fine i s \<Longrightarrow> fine i (LogGuildEvent E t a b r s)"
  "fine i s \<Longrightarrow> fine i (SetPublicNote E k n s)" "fine i s \<Longrightarrow> fine i (SetOfficerNote E k n s)"
  "fine i s \<Longrightarrow> fine i (SetMOTD n s)" "fine i s \<Longrightarrow> fine i (SetGINFO n s)" "fine i s \<Longrightarrow> fine i (SetEmblem e s)"
  "fine i s \<Longrightarrow> fine i (QueryGuild k s)" "fine i s \<Longrightarrow> fine i (SendRoster E to s)"
  "fine i s \<Longrightarrow> fine i (SetRankName y n s)" "fine i s \<Longrightarrow> fine i (SetRankRights y x s)"
  "fine i s \<Longrightarrow> fine i (on_banks E f s)"
  by (erule fine_same, rule BroadcastEvent_same LogGuildEvent_same SetPublicNote_same SetOfficerNote_same SetMOTD_same SetGINFO_same
      SetEmblem_same QueryGuild_same SendRoster_same SetRankName_same SetRankRights_same on_banks_same)+

declare CreateRank_fine [keeps_fine] DelRank_fine [keeps_fine]

lemma fine_gsend [keeps_fine]: "fine i (g, w) \<Longrightarrow> fine i (g, gsend k p w)"
  by (erule fine_same) (simp add: same_def)

lemma GetAccountsNumber_same: "same (g, w) (snd (GetAccountsNumber g), w)"
  by (simp add: GetAccountsNumber_def Let_def same_def roster_def)

lemma players_ok_update:
  assumes "players_ok w" and "w_players w k = Some p" and "gp_guildId p' = gp_guildId p" "pl_rank (gp_pl p') = pl_rank (gp_pl p)"
  shows "players_ok (set_player k p' w)"
  using assms unfolding players_ok_def by (simp split: if_splits)

lemma fine_player:
  assumes "fine i (g, w)" and "w_players w k = Some p" and "gp_guildId p' = gp_guildId p" "pl_rank (gp_pl p') = pl_rank (gp_pl p)"
  shows "fine i (g, set_player k p' w)"
  using assms players_ok_update [OF _ assms(2-4)] by (simp add: fine_def base_def)

lemma world_player:
  assumes "world_ok w" and "w_players w k = Some p" and "gp_guildId p' = gp_guildId p" "pl_rank (gp_pl p') = pl_rank (gp_pl p)"
  shows "world_ok (set_player k p' w)"
  using assms players_ok_update [OF _ assms(2-4)] by (simp add: world_ok_def member_table_ok_def)

text \<open>Changing the petitions alone.\<close>

lemma world_petitions:
  assumes "world_ok w" and "w_guilds w' = w_guilds w" "w_players w' = w_players w" "w_guid2guild w' = w_guid2guild w"
      "gd_member (w_gdb w') = gd_member (w_gdb w)"
    and "distinct (map pt_id (w_petitions w'))" "distinct (signers (w_petitions w'))"
      "\<And>k i x. k \<in> set (signers (w_petitions w')) \<Longrightarrow> \<not> in_table (gd_member (w_gdb w)) k i x"
  shows "world_ok w'"
proof -
  have "petitions_ok w'" using assms(5-8) by (simp add: petitions_ok_def)
  then have "players_ok w'" using assms(1-5) unfolding world_ok_def players_ok_def by simp
  then show ?thesis using assms(1-5) by (simp add: world_ok_def member_table_ok_def)
qed

lemma world_petitionsD:
  assumes "world_ok w"
  shows "petitions_ok w" "distinct (map pt_id (w_petitions w))" "distinct (signers (w_petitions w))"
    "k \<in> set (signers (w_petitions w)) \<Longrightarrow> \<not> in_table (gd_member (w_gdb w)) k i x"
  using assms by (auto simp: world_ok_def players_ok_def petitions_ok_def)

lemma signers_filter:
  "set (signers (filter P ps)) \<subseteq> set (signers ps)" "distinct (signers ps) \<Longrightarrow> distinct (signers (filter P ps))"
proof -
  show a: "set (signers (filter P ps)) \<subseteq> set (signers ps)" for ps by (induction ps) auto
  show "distinct (signers ps) \<Longrightarrow> distinct (signers (filter P ps))"
  proof (induction ps)
    case (Cons p ps)
    with a [of ps] show ?case by auto
  qed simp
qed

lemma DeletePetition_keeps [simp]:
  "w_guilds (DeletePetition i w) = w_guilds w" "w_players (DeletePetition i w) = w_players w"
  "w_guid2guild (DeletePetition i w) = w_guid2guild w" "gd_member (w_gdb (DeletePetition i w)) = gd_member (w_gdb w)"
  "w_petitions (DeletePetition i w) = filter (\<lambda>p. pt_id p \<noteq> i) (w_petitions w)"
  by (simp_all add: DeletePetition_def Petition_Delete_def)

lemma DeletePetition_ok:
  assumes w: "world_ok w"
  shows "world_ok (DeletePetition i w)"
  using world_petitionsD(2-4) [OF w]
  by (intro world_petitions [OF w]) (auto simp: signers_filter(2) distinct_map_filter dest: subsetD [OF signers_filter(1)])

lemma unsign_world:
  assumes w: "world_ok w"
  shows "world_ok (unsign k w)"
  using unsign_petitions [OF world_petitionsD(1) [OF w], of k] world_petitionsD(2-4) [OF w]
  by (intro world_petitions [OF w]) auto

lemma SendGuildCommandResult_keeps [simp]:
  "world_ok (SendGuildCommandResult k c t e w) = world_ok w"
  "w_players (SendGuildCommandResult k c t e w) = w_players w" "w_guilds (SendGuildCommandResult k c t e w) = w_guilds w"
  "w_gdb (SendGuildCommandResult k c t e w) = w_gdb w" "w_petitions (SendGuildCommandResult k c t e w) = w_petitions w"
  "w_guid2guild (SendGuildCommandResult k c t e w) = w_guid2guild w"
  by (simp_all add: SendGuildCommandResult_def)

lemma with_guild_ok:
  assumes "world_ok w"
    and "\<And>p g. w_players w me = Some p \<Longrightarrow> GetGuildById w (gp_guildId p) = Some g \<Longrightarrow> fine (gp_guildId p) (g, w) \<Longrightarrow>
      world_ok (body p (gp_guildId p) g)"
  shows "world_ok (with_guild w me body)"
  using assms world_fine by (auto simp: with_guild_def split: option.split)

lemma by_name_in: "GetMemberSlotByName g n = Some (k, m) \<Longrightarrow> (k, m) \<in> set (members g)"
  unfolding GetMemberSlotByName_def find_Some_iff by (metis nth_mem)

lemma fine_slot:
  assumes "fine i (g, w)" and "(k, m) \<in> set (members g)"
  shows "ms_guid m = k" "unat (ms_RankId m) < 256" "ms_RankId m = 0 \<longleftrightarrow> k = m_LeaderGuid g"
    "in_table (gd_member (w_gdb w)) k j x \<Longrightarrow> j = i"
proof -
  have b: "base i (g, w)" using assms by (simp add: fine_def)
  show "ms_guid m = k" "unat (ms_RankId m) < 256" "ms_RankId m = 0 \<longleftrightarrow> k = m_LeaderGuid g"
    using assms by (auto simp: fine_def base_def roster_base_alt master_ok_alt)
  have "has_rank g k (ms_RankId m)" using assms by (auto simp: has_rank_def)
  then show "in_table (gd_member (w_gdb w)) k j x \<Longrightarrow> j = i"
    using base_has [OF b, of k i] base_unique [OF b, of k j x i] by auto
qed

lemma ChangeRank_fine:
  assumes f: "fine i (g, w)" and m: "(k, m) \<in> set (members g)" "ms_RankId m \<noteq> 0" and r: "r \<noteq> 0" "unat r < 256"
  shows "fine i (ChangeRank k r (g, w))"
proof -
  have b: "base i (g, w)" and ma: "master_ok g" using f by (simp_all add: fine_def)
  have l: "k \<noteq> m_LeaderGuid g" using fine_slot(3) [OF f m(1)] m(2) by simp
  have n: "GetMemberSlot g k \<noteq> None" using m(1) unfolding GetMemberSlot_None by force
  have k: "map fst (members (upd_member k (\<lambda>m. m\<lparr>ms_RankId := r\<rparr>) g)) = map fst (members g)" by (rule keys_upd_member)
  have "m_LeaderGuid g \<in> fst ` set (members (upd_member k (\<lambda>m. m\<lparr>ms_RankId := r\<rparr>) g))"
    using ma k by (metis image_set master_ok_alt)
  then have "master_ok (upd_member k (\<lambda>m. m\<lparr>ms_RankId := r\<rparr>) g)"
    using ma l r by (simp add: master_ok_has has_rank_upd)
  then show ?thesis using ChangeRank_base [OF b r(2), of k] n by (auto simp: fine_def ChangeRank_guild)
qed

section \<open>The member opcodes\<close>

lemma DelMember_then:
  assumes "fine i (g, w)" and "\<And>j x. in_table (gd_member (w_gdb w)) k j x \<Longrightarrow> j = i"
    and "\<And>s. fine i s \<Longrightarrow> fine i (f s)"
  shows "world_ok (case DelMember E k False (g, w) of (True, s) \<Rightarrow> Disband E s | (False, s) \<Rightarrow> put_guild i (f s))"
proof -
  have "case DelMember E k False (g, w) of (True, s) \<Rightarrow> base i s | (False, s) \<Rightarrow> fine i s"
    by (rule DelMember_fine [OF assms(1)]) (rule assms(2))
  then show ?thesis by (auto split: prod.splits bool.splits intro!: Disband_ok [of i] fine_put assms(3))
qed

lemma slot_rows:
  assumes "GetMemberSlotByName g n = Some (k, m)" and "fine i (g, w)" and "in_table (gd_member (w_gdb w)) (ms_guid m) j x"
  shows "j = i"
  using fine_slot [OF assms(2) by_name_in [OF assms(1)]] assms(3) by metis

lemma HandleGuildRemoveOpcode_ok: "world_ok w \<Longrightarrow> world_ok (HandleGuildRemoveOpcode E me n w)"
  unfolding HandleGuildRemoveOpcode_def
  by (cases "norm n")
     (auto split: option.split intro!: with_guild_ok DelMember_then keeps_fine dest: slot_rows)

lemma less_ranks:
  fixes a b :: uint32
  assumes "unat a < 256" and "unat b < 256"
  shows "\<not> b \<le> a + 1 \<Longrightarrow> b - 1 \<noteq> 0 \<and> unat (b - 1) < 256 \<and> a < b - 1 \<and> a < b \<and> b \<noteq> 0"
proof -
  assume "\<not> b \<le> a + 1"
  moreover have "unat (a + 1) = unat a + 1" using assms by (simp add: unat_word_ariths)
  ultimately have u: "unat a + 1 < unat b" by (simp add: word_le_nat_alt)
  then have v: "unat (b - 1) = unat b - 1" by (simp add: unat_sub word_le_nat_alt)
  have "unat (b - 1) \<noteq> unat 0" using u v by simp
  with u v assms show ?thesis by (auto simp: word_less_nat_alt)
qed

lemma HandleGuildPromoteOpcode_ok: 
  assumes w: "world_ok w"
  shows "world_ok (HandleGuildPromoteOpcode E me n w)"
proof -
  obtain ok name where n: "norm n = (ok, name)" by fastforce
  have *: "fine i (ChangeRank k (ms_RankId m - 1) (g, w))"
    if f: "fine i (g, w)" and p: "w_players w me = Some p" and m: "GetMemberSlotByName g name = Some (k, m)"
      and r: "\<not> ms_RankId m \<le> GetRank_pl p + 1" for i g p k m
  proof -
    have "unat (pl_rank (gp_pl p)) < 256" using w p by (auto simp: world_ok_def dest: players_okD(1))
    from less_ranks [OF this fine_slot(2) [OF f by_name_in [OF m]]] r show ?thesis
      by (intro ChangeRank_fine [OF f by_name_in [OF m]]) (simp_all add: GetRank_pl_def)
  qed
  show ?thesis unfolding HandleGuildPromoteOpcode_def n
    by (auto simp: w Let_def split: option.split intro!: with_guild_ok fine_put keeps_fine *)
qed

lemma unat_small: "n < 256 \<Longrightarrow> unat (of_nat n :: uint32) = n"
  by (simp add: unat_of_nat take_bit_nat_eq_self)

lemma unat_lowest:
  assumes "5 \<le> length (m_Ranks g)" "length (m_Ranks g) \<le> 10"
  shows "unat (GetLowestRank g) = length (m_Ranks g) - 1"
proof -
  have "GetLowestRank g = of_nat (length (m_Ranks g) - 1)" using assms by (simp add: GetLowestRank_def of_nat_diff)
  moreover have "unat (of_nat (length (m_Ranks g) - 1) :: uint32) = length (m_Ranks g) - 1" using assms by (intro unat_small) simp
  ultimately show ?thesis by (simp only:)
qed

lemma lowest_rank_bound: "fine i (g, w) \<Longrightarrow> 4 \<le> unat (GetLowestRank g) \<and> unat (GetLowestRank g) < 10"
  using fine_ranks_bounds [of i "(g, w)"] unat_lowest [of g] by simp linarith

lemma HandleGuildDemoteOpcode_ok: 
  assumes w: "world_ok w"
  shows "world_ok (HandleGuildDemoteOpcode E me n w)"
proof -
  obtain ok name where n: "norm n = (ok, name)" by fastforce
  have *: "fine i (ChangeRank k (ms_RankId m + 1) (g, w))"
    if f: "fine i (g, w)" and m: "GetMemberSlotByName g name = Some (k, m)"
      and r: "\<not> ms_RankId m \<le> GetRank_pl p" "\<not> GetLowestRank g \<le> ms_RankId m" for i g p k m
  proof -
    have "unat (ms_RankId m) < 9" using r(2) lowest_rank_bound [OF f] by (simp add: word_le_nat_alt)
    then have u: "unat (ms_RankId m + 1) = unat (ms_RankId m) + 1" by (simp add: unat_word_ariths)
    then have "ms_RankId m + 1 \<noteq> 0" by (metis add_is_0 one_neq_zero unsigned_0)
    moreover have "ms_RankId m \<noteq> 0" using r(1) by auto
    ultimately show ?thesis using u \<open>unat (ms_RankId m) < 9\<close> by (intro ChangeRank_fine [OF f by_name_in [OF m]]) simp_all
  qed
  show ?thesis unfolding HandleGuildDemoteOpcode_def n
    by (auto simp: w Let_def split: option.split intro!: with_guild_ok fine_put keeps_fine *)
qed

lemma world_rows:
  assumes "world_ok w" and "w_players w k = Some p" and "in_table (gd_member (w_gdb w)) k j x"
  shows "j = gp_guildId p"
  using assms by (auto simp: world_ok_def dest: players_okD(2))

lemma HandleGuildLeaveOpcode_ok: "world_ok w \<Longrightarrow> world_ok (HandleGuildLeaveOpcode E me w)"
  unfolding HandleGuildLeaveOpcode_def SendGuildCommandResult_def
  by (auto simp: fine_def intro!: with_guild_ok Disband_ok DelMember_then keeps_fine world_rows)

lemma HandleGuildDisbandOpcode_ok: "world_ok w \<Longrightarrow> world_ok (HandleGuildDisbandOpcode E me w)"
  unfolding HandleGuildDisbandOpcode_def by (auto simp: fine_def intro!: with_guild_ok Disband_ok)

lemma SetNewLeader_put:
  assumes f: "fine i (g, w)" and k: "(k, m) \<in> set (members g)" "k \<noteq> m_LeaderGuid g"
  shows "fine i (SetNewLeader E k (Some (m_LeaderGuid g)) (g, w))"
proof (rule SetNewLeader_fine(1))
  show "base i (g, w)" using f by (simp add: fine_def)
  show "k \<in> fst ` set (members g)" using k by force
  show "Some (m_LeaderGuid g) \<noteq> Some k" using k by simp
  fix k' assume "has_rank g k' 0"
  then show "k' = k \<or> Some (m_LeaderGuid g) = Some k'" using f by (auto simp: fine_def master_ok_has)
qed

lemma HandleGuildLeaderOpcode_ok: "world_ok w \<Longrightarrow> world_ok (HandleGuildLeaderOpcode E me n w)"
  unfolding HandleGuildLeaderOpcode_def
  by (auto split: prod.split option.split intro!: with_guild_ok fine_put dest!: by_name_in intro: SetNewLeader_put)

section \<open>Texts, ranks, invitations\<close>

lemma HandleGuildMOTDOpcode_ok: "world_ok w \<Longrightarrow> world_ok (HandleGuildMOTDOpcode E me m w)"
  unfolding HandleGuildMOTDOpcode_def by (auto intro!: with_guild_ok fine_put keeps_fine)

lemma set_note_ok:
  assumes w: "world_ok w" and s: "\<And>i k n s. fine i s \<Longrightarrow> fine i (setter k n s)"
  shows "world_ok (set_note E right setter me name note w)"
proof -
  obtain ok1 n where n: "norm name = (ok1, n)" by fastforce
  obtain ok2 t where t: "normalizePlayerName note GUILD_NOTE_MAX_LENGTH False = (ok2, t)" by fastforce
  show ?thesis unfolding set_note_def n t by (auto simp: w split: option.split intro!: with_guild_ok fine_put keeps_fine s)
qed

lemma HandleGuildChangeInfoTextOpcode_ok: "world_ok w \<Longrightarrow> world_ok (HandleGuildChangeInfoTextOpcode E me t w)"
  unfolding HandleGuildChangeInfoTextOpcode_def
  by (cases "normalizePlayerName t GUILD_INFO_MAX_LENGTH False") (auto intro!: with_guild_ok fine_put keeps_fine)

lemma HandleGuildRankOpcode_ok: "world_ok w \<Longrightarrow> world_ok (HandleGuildRankOpcode E me k r n w)"
  unfolding HandleGuildRankOpcode_def
  by (cases "normalizePlayerName n 25 False") (auto intro!: with_guild_ok fine_put keeps_fine)

lemma HandleGuildAddRankOpcode_ok: "world_ok w \<Longrightarrow> world_ok (HandleGuildAddRankOpcode E me n w)"
  unfolding HandleGuildAddRankOpcode_def by (cases "norm n") (auto intro!: with_guild_ok fine_put keeps_fine)

lemma HandleGuildDelRankOpcode_ok: "world_ok w \<Longrightarrow> world_ok (HandleGuildDelRankOpcode E me w)"
  unfolding HandleGuildDelRankOpcode_def by (auto intro!: with_guild_ok fine_put keeps_fine)

lemma ModifyMoney_rank [simp]: "pl_rank (ModifyMoney E d P) = pl_rank P"
  by (simp add: ModifyMoney_def SetMoney_def pemit_def Let_def)

lemma HandleSaveGuildEmblemOpcode_ok:
  assumes w: "world_ok w"
  shows "world_ok (HandleSaveGuildEmblemOpcode E me e w)"
proof (cases "w_players w me")
  case (Some p)
  let ?p = "p\<lparr>gp_pl := ModifyMoney E (- (10 * GOLD)) (gp_pl p)\<rparr>"
  show ?thesis
  proof (cases "GetGuildById w (gp_guildId p)")
    case (Some g)
    have f: "fine (gp_guildId p) (SetEmblem e (g, set_player me ?p w))"
      by (intro keeps_fine fine_player [OF world_fine [OF w Some] \<open>w_players w me = Some p\<close>]) simp_all
    obtain g1 w1 where 1: "SetEmblem e (g, set_player me ?p w) = (g1, w1)" by fastforce
    then show ?thesis using f \<open>w_players w me = Some p\<close> Some w
      by (auto simp: HandleSaveGuildEmblemOpcode_def intro!: fine_put keeps_fine)
  qed (use Some w in \<open>simp add: HandleSaveGuildEmblemOpcode_def\<close>)
qed (use w in \<open>simp add: HandleSaveGuildEmblemOpcode_def\<close>)

lemma HandleGuildInfoOpcode_ok: "world_ok w \<Longrightarrow> world_ok (HandleGuildInfoOpcode me w)"
  unfolding HandleGuildInfoOpcode_def split_def
  by (auto intro!: with_guild_ok fine_put intro: fine_same [OF _ GetAccountsNumber_same])

lemma HandleGuildRosterOpcode_ok: "world_ok w \<Longrightarrow> world_ok (HandleGuildRosterOpcode E me w)"
  by (simp add: HandleGuildRosterOpcode_def SendRoster_def split: option.split)

lemma HandleGuildQueryOpcode_ok: "world_ok w \<Longrightarrow> world_ok (HandleGuildQueryOpcode me i w)"
  by (simp add: HandleGuildQueryOpcode_def QueryGuild_def split: option.split)

lemma HandleGuildInviteOpcode_ok:
  assumes w: "world_ok w"
  shows "world_ok (HandleGuildInviteOpcode E me n w)"
proof -
  obtain ok name where n: "norm n = (ok, name)" by fastforce
  have *: "fine i (g, set_player k (SetGuildIdInvited j q) w)" if "fine i (g, w)" "w_players w k = Some q" for i g k j q
    using fine_player [OF that] by (simp add: SetGuildIdInvited_def)
  show ?thesis unfolding HandleGuildInviteOpcode_def n
    by (auto simp: w split: option.split intro!: with_guild_ok fine_put keeps_fine *)
qed

lemma HandleGuildDeclineOpcode_ok:
  assumes w: "world_ok w"
  shows "world_ok (HandleGuildDeclineOpcode me w)"
proof -
  have "world_ok (set_player me (SetGuildIdInvited 0 p) w')" if "world_ok w'" "w_players w' me = Some p" for p w'
    using world_player [OF that] by (simp add: SetGuildIdInvited_def)
  then show ?thesis using w by (auto simp: HandleGuildDeclineOpcode_def Let_def split: option.split)
qed

lemma HandleGuildAcceptOpcode_ok:
  assumes w: "world_ok w" and E: "guild_env_ok E" and me: "me \<noteq> 0"
  shows "world_ok (HandleGuildAcceptOpcode E me w)"
proof -
  have "world_ok (put_guild i (BroadcastEvent E GE_JOINED me strs (LogGuildEvent E t me 0 0 s))) \<and> st = GuildAdd_OK"
    if p: "w_players w me = Some p" "gp_guildId p = 0" and g: "GetGuildById w i = Some g"
      and a: "AddMember E me (GetLowestRank g) (g, w) = (st, s)" for p i g st s strs t
  proof -
    have f: "fine i (g, w)" by (rule world_fine [OF w g])
    have b: "base i (g, w)" and m: "master_ok g" using f by (simp_all add: fine_def)
    have "unat (ucast (GetLowestRank g) :: uint8) = unat (GetLowestRank g)"
      using lowest_rank_bound [OF f] by (simp add: unsigned_ucast_eq take_bit_nat_eq_self)
    then have "(ucast (GetLowestRank g) :: uint8) \<noteq> 0" using lowest_rank_bound [OF f] by auto
    then have x: "(ucast (gv_onAddMember E i me (ucast (GetLowestRank g))) :: uint32) \<noteq> 0" using hook_rank [OF E] by blast
    obtain g' w' where j: "AddMember E me (GetLowestRank g) (g, w) = (GuildAdd_OK, g', w')" "base i (g', w')" "m_LeaderGuid g' = m_LeaderGuid g"
      "\<And>k' x. has_rank g' k' x \<longleftrightarrow> has_rank g k' x \<or> k' = me \<and> x = ucast (gv_onAddMember E i me (ucast (GetLowestRank g)))"
      using AddMember_online [OF b E p me, of "GetLowestRank g"] by blast
    have n: "\<not> has_rank g me z" for z using no_guild_no_row [OF b p, of i z] base_has [OF b, of me i z] by simp
    have "master_ok g'" by (rule master_ok_join [OF m j(3), where b = True]) (use j(4) n x in auto)
    then have "fine i s" using j a by (simp add: fine_def)
    then show ?thesis using j(1) a by (auto intro!: fine_put keeps_fine)
  qed
  then show ?thesis using w by (auto simp: HandleGuildAcceptOpcode_def split: option.split prod.split)
qed

lemma handle_guild_ok:
  assumes w: "world_ok w" and E: "guild_env_ok E" and me: "me \<noteq> 0"
    and i: "gv_newGuildId E \<noteq> 0" "GetGuildById w (gv_newGuildId E) = None"
  shows "world_ok (handle_guild E me op w)"
  using w by (cases op)
    (simp_all add: HandleGuildQueryOpcode_ok HandleGuildCreateOpcode_ok [OF w E me i] HandleGuildInviteOpcode_ok
      HandleGuildAcceptOpcode_ok [OF w E me] HandleGuildDeclineOpcode_ok HandleGuildInfoOpcode_ok HandleGuildRosterOpcode_ok
      HandleGuildPromoteOpcode_ok HandleGuildDemoteOpcode_ok HandleGuildLeaveOpcode_ok HandleGuildRemoveOpcode_ok
      HandleGuildDisbandOpcode_ok HandleGuildLeaderOpcode_ok HandleGuildMOTDOpcode_ok HandleGuildRankOpcode_ok
      HandleGuildAddRankOpcode_ok HandleGuildDelRankOpcode_ok HandleGuildSetPublicNoteOpcode_def HandleGuildSetOfficerNoteOpcode_def
      set_note_ok keeps_fine HandleGuildChangeInfoTextOpcode_ok HandleSaveGuildEmblemOpcode_ok)

section \<open>Other callers\<close>

lemma DeleteFromDB_guild_ok:
  assumes w: "world_ok w"
  shows "world_ok (DeleteFromDB_guild E k w)"
proof -
  let ?w1 = "case w_guid2guild w k of None \<Rightarrow> w | Some i \<Rightarrow>
    (case GetGuildById w i of None \<Rightarrow> w | Some g \<Rightarrow> (case DelMember E k False (g, w) of (True, s) \<Rightarrow> Disband E s | (False, s) \<Rightarrow> put_guild i s))"
  have "world_ok (case DelMember E k False (g, w) of (True, s) \<Rightarrow> Disband E s | (False, s) \<Rightarrow> put_guild i s)"
    if "w_guid2guild w k = Some i" "GetGuildById w i = Some g" for i g
  proof -
    have "j = i" if "in_table (gd_member (w_gdb w)) k j x" for j x
      using w \<open>w_guid2guild w k = Some i\<close> players_ok_index [OF _ that] by (simp add: world_ok_def)
    then show ?thesis by (intro DelMember_then [where f = "\<lambda>s. s", OF world_fine [OF w that(2)]]) auto
  qed
  then have "world_ok ?w1" using w by (simp split: option.split)
  then show ?thesis unfolding DeleteFromDB_guild_def Let_def
    by (intro unsign_world) (simp add: DeletePetition_ok split: option.split)
qed

lemma oldest_officer_in:
  "oldest_officer g l es = Some k \<Longrightarrow> k \<noteq> l \<and> (\<exists>m. GetMemberSlot g k = Some m)"
  by (induction es) (auto split: if_splits option.splits)

lemma suitable_leader:
  assumes "master_ok g" and "GetSuitableNewLeader prefer g = (Some new, old)"
  shows "old = Some (m_LeaderGuid g)" and "new \<noteq> m_LeaderGuid g" and "\<exists>m. (new, m) \<in> set (members g)"
proof -
  show "old = Some (m_LeaderGuid g)" using assms by (auto simp: GetSuitableNewLeader_def Let_def master_ok_alt split: if_splits)
  consider "oldest_officer g (m_LeaderGuid g) (m_GuildEventLog g) = Some new"
    | m where "best_member (m_LeaderGuid g) (members g) None = Some (new, m)"
    using assms(2) by (auto simp: GetSuitableNewLeader_def Let_def split: if_splits)
  then have "new \<noteq> m_LeaderGuid g \<and> (\<exists>m. (new, m) \<in> set (members g))"
  proof cases
    case 1
    with oldest_officer_in [OF 1] show ?thesis by (auto simp: GetMemberSlot_def dest: map_of_SomeD)
  next
    case 2
    with best_member_in [OF 2] show ?thesis by auto
  qed
  then show "new \<noteq> m_LeaderGuid g" "\<exists>m. (new, m) \<in> set (members g)" by simp_all
qed

lemma hardcore_succession_ok:
  assumes w: "world_ok w"
  shows "world_ok (hardcore_succession E me w)"
proof -
  have "world_ok (put_guild i (SetNewLeader E new old (g, w)))"
    if g: "GetGuildById w i = Some g" and s: "GetSuitableNewLeader True g = (Some new, old)" for i g new old
  proof -
    have f: "fine i (g, w)" by (rule world_fine [OF w g])
    then have m: "master_ok g" by (simp add: fine_def)
    show ?thesis using suitable_leader [OF m s] SetNewLeader_put [OF f] by (auto intro!: fine_put)
  qed
  with w show ?thesis by (auto simp: hardcore_succession_def split: option.split prod.split)
qed

lemma save_banks_ok:
  assumes "world_ok w" and "distinct (map fst xs)" and "\<And>i g. (i, g) \<in> set xs \<Longrightarrow> GetGuildById w i = Some g"
  shows "world_ok (fold (\<lambda>(i, g) w. put_guild i (on_banks E f (g, w))) xs w)"
  using assms
proof (induction xs arbitrary: w)
  case (Cons x xs)
  obtain i g where x: "x = (i, g)" by (cases x)
  have fw: "fine i (g, w)" using Cons.prems by (intro world_fine) (simp_all add: x)
  then have ok: "world_ok (put_guild i (on_banks E f (g, w)))" by (intro fine_put keeps_fine)
  have keep: "w_guilds (snd (on_banks E f (g, w))) = w_guilds w" using on_banks_same [of "(g, w)" E f] by (simp add: same_def)
  have "GetGuildById (put_guild i (on_banks E f (g, w))) j = Some h" if "(j, h) \<in> set xs" for j h
  proof -
    have "j \<noteq> i" using that Cons.prems(2) by (force simp: x)
    moreover have "GetGuildById w j = Some h" using that Cons.prems(3) by simp
    ultimately show ?thesis using keep by (simp add: GetGuildById_def put_guild_def split_def update_conv')
  qed
  with ok Cons show ?case by (simp add: x)
qed simp

lemma GuildMgr_Update_ok:
  assumes w: "world_ok w"
  shows "world_ok (GuildMgr_Update E diff w)"
proof -
  have "players_ok (w\<lparr>w_bankSaveTimer := n\<rparr>) = players_ok w" for n by (simp add: players_ok_def)
  then have t: "world_ok (w\<lparr>w_bankSaveTimer := n\<rparr>)" for n using w by (simp add: world_ok_def member_table_ok_def)
  have d: "distinct (map fst (w_guilds w))" using w by (simp add: world_ok_def guilds_ok_def)
  have "world_ok (SaveGuildBanks E w)" unfolding SaveGuildBanks_def
    by (rule save_banks_ok [OF t d]) (simp add: GetGuildById_def d)
  with t show ?thesis by (simp add: GuildMgr_Update_def)
qed

lemma login_ok:
  assumes w: "world_ok w"
  shows "world_ok (set_player k (LoadGuild w k p) w)"
proof -
  let ?T = "gd_member (w_gdb w)"
  have ok: "players_ok w" and d: "distinct (map mw_guid ?T)"
    and t: "\<And>k i x. in_table ?T k i x \<longleftrightarrow> in_guilds (w_guilds w) k i x" and g: "guilds_ok (w_guilds w)"
    using w by (simp_all add: world_ok_def member_table_ok_def)
  have row: "GetGuildById w (mw_guildid r) \<noteq> None \<and> mw_guildid r \<noteq> 0 \<and> unat (mw_rank r) < 256" if "r \<in> set ?T" for r
  proof -
    have "in_table ?T (mw_guid r) (mw_guildid r) (mw_rank r)" using that by (auto simp: in_table_def)
    then obtain h where h: "map_of (w_guilds w) (mw_guildid r) = Some h" "has_rank h (mw_guid r) (mw_rank r)" using t by (auto simp: in_guilds_def)
    then have "mw_guildid r \<noteq> 0" "roster_base h" using g by (auto simp: guilds_ok_def roster_ok_def)
    moreover have "unat (mw_rank r) < 256" using h(2) \<open>roster_base h\<close> unfolding has_rank_def roster_base_alt by metis
    ultimately show ?thesis using h(1) by (simp add: GetGuildById_def)
  qed
  have "unat (pl_rank (gp_pl (LoadGuild w k p))) < 256 \<and> (\<forall>i x. in_table ?T k i x \<longrightarrow> gp_guildId (LoadGuild w k p) = i)"
  proof (cases "find (\<lambda>r. mw_guid r = k) ?T")
    case None
    then have "\<not> in_table ?T k i x" for i x by (auto simp: in_table_def find_None_iff)
    with None show ?thesis by (simp add: LoadGuild_def SetRank_def SetInGuild_def)
  next
    case (Some r)
    then have r: "r \<in> set ?T" "mw_guid r = k" by (auto simp: find_Some_iff)
    have "mw_guildid r = i" if "in_table ?T k i x" for i x
      using that r d by (auto simp: in_table_def distinct_map inj_on_def)
    with Some row [OF r(1)] show ?thesis by (auto simp: LoadGuild_def SetRank_def SetInGuild_def)
  qed
  then have "players_ok (set_player k (LoadGuild w k p) w)" using ok unfolding players_ok_def by simp
  with w show ?thesis by (simp add: world_ok_def member_table_ok_def)
qed

lemma stats_same: "same (g, w) (upd_member k (UpdateLogoutTime E \<circ> SetMemberStats p) g, w)"
proof -
  have "roster (upd_member k (UpdateLogoutTime E \<circ> SetMemberStats p) g) = roster g"
    by (rule roster_upd_note) (simp_all add: UpdateLogoutTime_def SetMemberStats_def)
  then show ?thesis by (simp add: same_def)
qed

lemma LogoutPlayer_guild_ok: "world_ok w \<Longrightarrow> world_ok (LogoutPlayer_guild E k w)"
  by (auto simp: LogoutPlayer_guild_def split: option.split intro!: fine_put keeps_fine intro: fine_same [OF _ stats_same] world_fine)

end
