(* ===== verification/Guild_Authority.thy ===== *)
theory Guild_Authority
  imports Guild_Run
begin

text \<open>
  Who may change another member's place in a guild. \<open>kept k s s'\<close>: the member \<open>k\<close> of the guild that is being
  worked on has the same rank in \<open>s'\<close> as in \<open>s\<close>, and the guild map is the same. \<open>untouched k w w'\<close>: the
  same for all guilds of the world.
\<close>

section \<open>Members that an operation does not touch\<close>

definition kept :: "uint32 \<Rightarrow> gs \<Rightarrow> gs \<Rightarrow> bool" where
  "kept k s s' \<longleftrightarrow> (\<forall>x. has_rank (fst s) k x \<longrightarrow> has_rank (fst s') k x) \<and> w_guilds (snd s') = w_guilds (snd s)"

definition untouched :: "uint32 \<Rightarrow> GWorld \<Rightarrow> GWorld \<Rightarrow> bool" where
  "untouched k w w' \<longleftrightarrow> (\<forall>i x. in_guilds (w_guilds w) k i x \<longrightarrow> in_guilds (w_guilds w') k i x)"

named_theorems keeps_member

lemma kept_refl [simp, keeps_member]: "kept k s s"
  by (simp add: kept_def)

lemma same_has_rank: "same s s' \<Longrightarrow> has_rank (fst s') = has_rank (fst s)"
  by (simp add: same_def roster_has_rank fun_eq_iff)

lemma kept_same: "kept k s0 s \<Longrightarrow> same s s' \<Longrightarrow> kept k s0 s'"
  by (simp add: kept_def same_def roster_has_rank)

lemma kept_steps [keeps_member]:
  "kept k s0 s \<Longrightarrow> kept k s0 (BroadcastEvent E ev k' strs s)" "kept k s0 s \<Longrightarrow> kept k s0 (LogGuildEvent E t a b r s)"
  "kept k s0 s \<Longrightarrow> kept k s0 (SetPublicNote E k' n s)" "kept k s0 s \<Longrightarrow> kept k s0 (SetOfficerNote E k' n s)"
  "kept k s0 s \<Longrightarrow> kept k s0 (SetMOTD n s)" "kept k s0 s \<Longrightarrow> kept k s0 (SetGINFO n s)" "kept k s0 s \<Longrightarrow> kept k s0 (SetEmblem e s)"
  "kept k s0 s \<Longrightarrow> kept k s0 (QueryGuild k' s)" "kept k s0 s \<Longrightarrow> kept k s0 (SendRoster E to s)"
  "kept k s0 s \<Longrightarrow> kept k s0 (SetRankName y n s)" "kept k s0 s \<Longrightarrow> kept k s0 (SetRankRights y x s)"
  "kept k s0 s \<Longrightarrow> kept k s0 (on_banks E f s)"
  by (erule kept_same, rule BroadcastEvent_same LogGuildEvent_same SetPublicNote_same SetOfficerNote_same SetMOTD_same SetGINFO_same
      SetEmblem_same QueryGuild_same SendRoster_same SetRankName_same SetRankRights_same on_banks_same)+

lemma kept_world [keeps_member]:
  "kept k s0 (g, w) \<Longrightarrow> kept k s0 (g, gsend k' p w)" "kept k s0 (g, w) \<Longrightarrow> kept k s0 (g, gsql st w)"
  "kept k s0 (g, w) \<Longrightarrow> kept k s0 (g, set_player k' q w)"
  by (simp_all add: kept_def)

lemma kept_CreateRank [keeps_member]: "kept k s0 s \<Longrightarrow> kept k s0 (CreateRank n r s)"
  using CreateRank_keeps [of n r s] by (simp add: kept_def has_rank_def)

lemma kept_DelRank [keeps_member]: "kept k s0 s \<Longrightarrow> kept k s0 (DelRank E s)"
proof -
  assume a: "kept k s0 s"
  obtain g w where s: "s = (g, w)" by (cases s)
  let ?s = "on_banks E (UpdateMinranks (GetLowestRank g)) (g, gsql (DeleteRanksFrom (GetLowestRank g) (m_Id g)) w)"
  have "kept k s0 ?s" using a by (intro keeps_member) (simp add: s)
  then show ?thesis using a by (auto simp: s DelRank_def split_def Let_def kept_def has_rank_def)
qed

lemma kept_put:
  assumes "GetGuildById w i = Some g" and "kept k (g, w) s"
  shows "untouched k w (put_guild i s)"
  using assms by (cases s) (auto simp: untouched_def kept_def put_guild_def in_guilds_def update_conv' GetGuildById_def)

lemma kept_put_the:
  assumes "GetGuildById w i \<noteq> None" and "kept k (the (GetGuildById w i), w) s"
  shows "untouched k w (put_guild i s)"
  using assms by (auto intro: kept_put)

lemma untouched_guilds: "w_guilds w' = w_guilds w \<Longrightarrow> untouched k w w'"
  by (simp add: untouched_def)

lemma SendGuildCommandResult_untouched [simp]: "untouched k w (SendGuildCommandResult k' c t e w)"
  by (rule untouched_guilds) simp

lemma untouched_refl [simp]: "untouched k w w"
  by (simp add: untouched_def)

lemma untouched_gsend [simp]: "untouched k w (gsend k' p w') = untouched k w w'" "untouched k w (set_player k' p' w') = untouched k w w'"
  by (simp_all add: untouched_def)

lemma with_guild_untouched:
  assumes "\<And>p g. w_players w me = Some p \<Longrightarrow> GetGuildById w (gp_guildId p) = Some g \<Longrightarrow> untouched k w (body p (gp_guildId p) g)"
  shows "untouched k w (with_guild w me body)"
  using assms by (auto simp: with_guild_def split: option.split)

section \<open>Operations that touch one member\<close>

lemma ChangeRank_guilds [simp]: "w_guilds (snd (ChangeRank k r s)) = w_guilds (snd s)"
  by (cases s) (simp add: ChangeRank_def Let_def split: option.split)

lemma ChangeRank_kept [keeps_member]: "k' \<noteq> k \<Longrightarrow> kept k s0 s \<Longrightarrow> kept k s0 (ChangeRank k' r s)"
  by (auto simp: kept_def ChangeRank_guild has_rank_upd)

lemma SetLeader_guilds [simp]: "w_guilds (snd (SetLeader k s)) = w_guilds (snd s)"
  by (cases s) (simp add: SetLeader_def split_def split: option.split)

lemma BroadcastEvent_guilds [simp]: "w_guilds (snd (BroadcastEvent E ev k strs s)) = w_guilds (snd s)"
  using BroadcastEvent_same [of s E ev k strs] by (simp add: same_def)

lemma SetNewLeader_guilds [simp]: "w_guilds (snd (SetNewLeader E new old s)) = w_guilds (snd s)"
  by (simp add: SetNewLeader_def Let_def split: option.split)

lemma DelMember_guilds: "w_guilds (snd (snd (DelMember E k d (g, w)))) = w_guilds w"
proof (cases "m_LeaderGuid g = k \<and> \<not> d")
  case False
  then show ?thesis by (subst DelMember_other) auto
next
  case True
  show ?thesis
  proof (cases "GetSuitableNewLeader False g")
    case (Pair best old)
    show ?thesis
    proof (cases best)
      case None
      then show ?thesis using True Pair by (simp add: DelMember_def)
    next
      case (Some new)
      obtain g1 w1 where "same (SetNewLeader E new old (g, w)) (g1, w1)"
        "DelMember E k False (g, w) =
          (members (erased k False g1) = [], erased k False g1, gsql (DeleteMember k) (left_player k (GuildMemberRemoved k w1)))"
        using DelMember_leader [of g k new old E w] True Pair Some by blast
      then show ?thesis using True by (simp add: same_def)
    qed
  qed
qed

lemma del_members_frame:
  "w_guilds (snd (del_members E s)) = w_guilds (snd s) \<and> m_Id (fst (del_members E s)) = m_Id (fst s)"
proof (induction E s rule: del_members.induct)
  case (1 E s)
  show ?case
  proof (cases "members (fst s)")
    case Nil
    then show ?thesis by (simp add: del_members.simps)
  next
    case (Cons km ms)
    obtain k m where km: "km = (k, m)" by (cases km)
    have "del_members E s = del_members E (snd (DelMember E k True s))"
      unfolding del_members.simps [of E s] Cons km list.case prod.case ..
    moreover have "w_guilds (snd (snd (DelMember E k True s))) = w_guilds (snd s) \<and> m_Id (fst (snd (DelMember E k True s))) = m_Id (fst s)"
      by (cases s) (simp add: DelMember_other)
    ultimately show ?thesis using "1.IH" [OF Cons km [symmetric]] by simp
  qed
qed

lemma Disband_guilds: "w_guilds (Disband E (g, w)) = AList.delete (m_Id g) (w_guilds w)"
proof -
  let ?b = "BroadcastEvent E GE_DISBANDED 0 [] (g, w)"
  have b: "m_Id (fst ?b) = m_Id g" "w_guilds (snd ?b) = w_guilds w"
    using BroadcastEvent_same [of "(g, w)" E GE_DISBANDED 0 "[]"] by (simp_all add: same_def)
  obtain g1 w1 where 1: "del_members E ?b = (g1, w1)" by fastforce
  have i: "m_Id g1 = m_Id g" "w_guilds w1 = w_guilds w"
    using del_members_frame [of E ?b] b by (simp_all add: 1)
  have "w_guilds (snd (on_banks E DeleteFromDB s)) = w_guilds (snd s)" for s
    using on_banks_same [of s E DeleteFromDB] by (simp add: same_def)
  then show ?thesis by (simp add: Disband_def 1 Let_def split_def RemoveGuild_def i)
qed

text \<open>A member who is not the leader is taken out; the others stay.\<close>

lemma DelMember_kept:
  assumes "master_ok g" and "m_LeaderGuid g \<noteq> k'"
  shows "\<exists>s. DelMember E k' False (g, w) = (False, s) \<and> w_guilds (snd s) = w_guilds w \<and>
    (\<forall>k x. has_rank (fst s) k x \<longleftrightarrow> k \<noteq> k' \<and> has_rank g k x)"
proof -
  have "m_LeaderGuid g \<in> fst ` set (members (erased k' False g))" using assms by (force simp: master_ok_alt)
  then have "members (erased k' False g) \<noteq> []" by (rule has_key)
  then show ?thesis using assms(2) by (auto simp: DelMember_other has_rank_def)
qed

section \<open>What an opcode may do to another member\<close>

definition authority :: "GWorld \<Rightarrow> uint32 \<Rightarrow> GuildPlayer \<Rightarrow> uint32 \<Rightarrow> uint32 \<Rightarrow> uint32 \<Rightarrow> GWorld \<Rightarrow> bool" where
  "authority w me p k i x w' \<longleftrightarrow> gp_guildId p = i \<and> (\<exists>g. GetGuildById w i = Some g \<and>
     (m_LeaderGuid g = me \<or>
      (HasRankRight g (GetRank_pl p) GR_RIGHT_PROMOTE \<or> HasRankRight g (GetRank_pl p) GR_RIGHT_DEMOTE \<or>
       HasRankRight g (GetRank_pl p) GR_RIGHT_REMOVE) \<and>
      GetRank_pl p < x \<and> (\<forall>x'. in_guilds (w_guilds w') k i x' \<longrightarrow> GetRank_pl p < x')))"

definition allowed :: "GWorld \<Rightarrow> uint32 \<Rightarrow> GuildPlayer \<Rightarrow> uint32 \<Rightarrow> GWorld \<Rightarrow> bool" where
  "allowed w me p k w' \<longleftrightarrow>
     (\<forall>i x. in_guilds (w_guilds w) k i x \<longrightarrow> in_guilds (w_guilds w') k i x \<or> authority w me p k i x w')"

lemma untouched_allowed: "untouched k w w' \<Longrightarrow> allowed w me p k w'"
  by (simp add: untouched_def allowed_def)

lemma with_guild_allowed:
  assumes "w_players w me = Some p"
    and "\<And>g. GetGuildById w (gp_guildId p) = Some g \<Longrightarrow> allowed w me p k (body p (gp_guildId p) g)"
  shows "allowed w me p k (with_guild w me body)"
  using assms by (auto simp: with_guild_def untouched_allowed split: option.split)

lemma leader_allowed:
  assumes "GetGuildById w (gp_guildId p) = Some g" and "m_LeaderGuid g = me"
    and "\<And>j x. j \<noteq> gp_guildId p \<Longrightarrow> in_guilds (w_guilds w) k j x \<Longrightarrow> in_guilds (w_guilds w') k j x"
  shows "allowed w me p k w'"
  unfolding allowed_def authority_def using assms by metis

text \<open>An officer acts on a member of lower rank: the member's rank changes within the ranks below the
  officer's, or the member is taken out.\<close>

lemma officer_allowed:
  assumes g: "GetGuildById w (gp_guildId p) = Some g"
    and r: "HasRankRight g (GetRank_pl p) GR_RIGHT_PROMOTE \<or> HasRankRight g (GetRank_pl p) GR_RIGHT_DEMOTE \<or>
       HasRankRight g (GetRank_pl p) GR_RIGHT_REMOVE"
    and m: "\<And>x. has_rank g k' x \<Longrightarrow> GetRank_pl p < x"
    and s: "w_guilds (snd s) = w_guilds w" "\<And>x. has_rank (fst s) k' x \<Longrightarrow> GetRank_pl p < x" "k \<noteq> k' \<Longrightarrow> kept k (g, w) s"
  shows "allowed w me p k (put_guild (gp_guildId p) s)"
proof (cases "k = k'")
  case True
  have "in_guilds (w_guilds (put_guild (gp_guildId p) s)) k j x \<longleftrightarrow>
      (if j = gp_guildId p then has_rank (fst s) k x else in_guilds (w_guilds w) k j x)" for j x
    using s(1) by (cases s) (simp add: put_guild_def in_guilds_update)
  moreover have "in_guilds (w_guilds w) k (gp_guildId p) x \<longleftrightarrow> has_rank g k x" for x using g by (simp add: in_guilds_def GetGuildById_def)
  ultimately show ?thesis using g r m s True by (auto simp: allowed_def authority_def)
next
  case False
  then show ?thesis using kept_put [OF g s(3)] by (simp add: untouched_allowed)
qed

section \<open>Opcodes that touch no other member\<close>

lemma HandleGuildMOTDOpcode_untouched: "untouched k w (HandleGuildMOTDOpcode E me m w)"
  unfolding HandleGuildMOTDOpcode_def by (auto intro!: with_guild_untouched kept_put_the keeps_member)

lemma set_note_untouched:
  assumes s: "\<And>k' n s0 s. kept k s0 s \<Longrightarrow> kept k s0 (setter k' n s)"
  shows "untouched k w (set_note E right setter me name note w)"
proof -
  obtain ok1 n where n: "norm name = (ok1, n)" by fastforce
  obtain ok2 t where t: "normalizePlayerName note GUILD_NOTE_MAX_LENGTH False = (ok2, t)" by fastforce
  show ?thesis unfolding set_note_def n t by (auto split: option.split intro!: with_guild_untouched kept_put_the keeps_member s)
qed

lemma HandleGuildChangeInfoTextOpcode_untouched: "untouched k w (HandleGuildChangeInfoTextOpcode E me t w)"
  unfolding HandleGuildChangeInfoTextOpcode_def
  by (cases "normalizePlayerName t GUILD_INFO_MAX_LENGTH False") (auto intro!: with_guild_untouched kept_put_the keeps_member)

lemma HandleGuildRankOpcode_untouched: "untouched k w (HandleGuildRankOpcode E me y r n w)"
  unfolding HandleGuildRankOpcode_def
  by (cases "normalizePlayerName n 25 False") (auto intro!: with_guild_untouched kept_put_the keeps_member)

lemma HandleGuildAddRankOpcode_untouched: "untouched k w (HandleGuildAddRankOpcode E me n w)"
  unfolding HandleGuildAddRankOpcode_def by (cases "norm n") (auto intro!: with_guild_untouched kept_put_the keeps_member)

lemma HandleGuildDelRankOpcode_untouched: "untouched k w (HandleGuildDelRankOpcode E me w)"
  unfolding HandleGuildDelRankOpcode_def by (auto intro!: with_guild_untouched kept_put_the keeps_member)

lemma kept_accounts: "kept k (g, w) (snd (GetAccountsNumber g), w)"
  by (rule kept_same [OF kept_refl GetAccountsNumber_same])

lemma HandleGuildInfoOpcode_untouched: "untouched k w (HandleGuildInfoOpcode me w)"
  unfolding HandleGuildInfoOpcode_def split_def
  by (auto intro!: with_guild_untouched kept_put_the kept_accounts)

lemma HandleGuildRosterOpcode_untouched: "untouched k w (HandleGuildRosterOpcode E me w)"
  by (simp add: HandleGuildRosterOpcode_def SendRoster_def split: option.split)

lemma HandleGuildQueryOpcode_untouched: "untouched k w (HandleGuildQueryOpcode me i w)"
  by (simp add: HandleGuildQueryOpcode_def QueryGuild_def split: option.split)

lemma HandleGuildDeclineOpcode_untouched: "untouched k w (HandleGuildDeclineOpcode me w)"
  by (simp add: HandleGuildDeclineOpcode_def Let_def split: option.split)

lemma HandleGuildInviteOpcode_untouched: "untouched k w (HandleGuildInviteOpcode E me n w)"
  unfolding HandleGuildInviteOpcode_def
  by (cases "norm n") (auto split: option.split intro!: with_guild_untouched kept_put_the keeps_member)

lemma HandleSaveGuildEmblemOpcode_untouched: "untouched k w (HandleSaveGuildEmblemOpcode E me e w)"
proof (cases "w_players w me")
  case (Some p)
  let ?p = "p\<lparr>gp_pl := ModifyMoney E (- (10 * GOLD)) (gp_pl p)\<rparr>"
  show ?thesis
  proof (cases "GetGuildById w (gp_guildId p)")
    case (Some g)
    have f: "kept k (g, w) (SetEmblem e (g, set_player me ?p w))" by (intro keeps_member)
    obtain g1 w1 where 1: "SetEmblem e (g, set_player me ?p w) = (g1, w1)" by fastforce
    then show ?thesis using f \<open>w_players w me = Some p\<close> Some
      by (auto simp: HandleSaveGuildEmblemOpcode_def intro!: kept_put_the keeps_member)
  qed (use Some in \<open>simp add: HandleSaveGuildEmblemOpcode_def\<close>)
qed (simp add: HandleSaveGuildEmblemOpcode_def)

lemma AddMember_guilds: "w_guilds (snd (snd (AddMember E k r s))) = w_guilds (snd s)"
  by (cases s) (simp add: AddMember_def Let_def split: option.split sum.split)

lemma AddMember_id: "m_Id (fst (snd (AddMember E k r s))) = m_Id (fst s)"
  by (cases s) (simp add: AddMember_def Let_def put_member_def split: option.split sum.split)

lemma make_banks_frame: "w_guilds (snd (make_banks E s)) = w_guilds (snd s) \<and> m_Id (fst (make_banks E s)) = m_Id (fst s)"
  using make_banks_same [of s E] by (simp add: same_def)

lemma Create_frame:
  assumes "Create E k n (g, w) = (ok, g', w')"
  shows "w_guilds w' = w_guilds w" and "ok \<Longrightarrow> m_Id g' = gv_newGuildId E"
proof -
  let ?g = "g\<lparr>m_LeaderGuid := k, m_Name := n, m_info := [], m_motd := ''No message set.'',
    m_Id := gv_newGuildId E, m_Created := gv_date E (be_now E)\<rparr>"
  let ?w = "gsql (InsertGuild (guild_row E ?g)) (gsql (DeleteMembersOf (gv_newGuildId E)) w)"
  let ?s = "make_banks E (CreateDefaultGuildRanks E (?g, ?w))"
  have s: "w_guilds (snd ?s) = w_guilds w" "m_Id (fst ?s) = gv_newGuildId E"
    by (simp_all add: make_banks_frame CreateDefaultGuildRanks_keeps)
  have "Create E k n (g, w) = (if GetGuildByName w n \<noteq> None then (False, g, w)
      else (fst (AddMember E k GR_GUILDMASTER ?s) = GuildAdd_OK, snd (AddMember E k GR_GUILDMASTER ?s)))"
    by (simp add: Create_def Let_def split_def)
  with assms have "(ok, g', w') = (False, g, w) \<or> (g', w') = snd (AddMember E k GR_GUILDMASTER ?s)" by (auto split: if_splits)
  moreover note AddMember_guilds [of E k GR_GUILDMASTER ?s, unfolded s] AddMember_id [of E k GR_GUILDMASTER ?s, unfolded s]
  ultimately show "w_guilds w' = w_guilds w" "ok \<Longrightarrow> m_Id g' = gv_newGuildId E" by (metis prod.inject fst_conv snd_conv)+
qed

lemma HandleGuildCreateOpcode_untouched:
  assumes n: "GetGuildById w (gv_newGuildId E) = None"
  shows "untouched k w (HandleGuildCreateOpcode E me name w)"
proof (cases "w_players w me")
  case (Some p)
  obtain ok g' w' where c: "Create E me name (new_Guild, w) = (ok, g', w')" by (cases "Create E me name (new_Guild, w)") auto
  obtain g2 w2 where 2: "make_banks E (g', w') = (g2, w2)" by fastforce
  have "untouched k w (AddGuild E (g', w'))" if ok
  proof -
    have "m_Id g2 = gv_newGuildId E" "w_guilds w2 = w_guilds w"
      using make_banks_frame [of E "(g', w')"] Create_frame [OF c] that by (simp_all add: 2)
    with n show ?thesis
      by (auto simp: AddGuild_def 2 untouched_def put_guild_def in_guilds_def update_conv' GetGuildById_def)
  qed
  moreover have "untouched k w w'" using Create_frame [OF c] by (simp add: untouched_guilds)
  ultimately show ?thesis using Some c by (auto simp: HandleGuildCreateOpcode_def split: bool.split)
qed (simp add: HandleGuildCreateOpcode_def)

lemma HandleGuildAcceptOpcode_untouched:
  assumes w: "world_ok w" and E: "guild_env_ok E" and me: "me \<noteq> 0"
  shows "untouched k w (HandleGuildAcceptOpcode E me w)"
proof -
  have "kept k (g, w) (snd (AddMember E me (GetLowestRank g) (g, w)))"
    if p: "w_players w me = Some p" "gp_guildId p = 0" and g: "GetGuildById w i = Some g" for p i g
  proof -
    have "base i (g, w)" using world_fine [OF w g] by (simp add: fine_def)
    from AddMember_online [OF this E p me, of "GetLowestRank g"] AddMember_guilds [of E me "GetLowestRank g" "(g, w)"]
    show ?thesis by (auto simp: kept_def)
  qed
  then show ?thesis
    by (auto simp: HandleGuildAcceptOpcode_def split_def split: option.split intro!: kept_put_the keeps_member)
qed

section \<open>Opcodes on other members\<close>

lemma unique_rank:
  assumes "fine i (g, w)" and "(k, m) \<in> set (members g)" "has_rank g k x"
  shows "x = ms_RankId m"
proof -
  have "distinct (map fst (members g))" using assms(1) by (simp add: fine_def base_def roster_base_def)
  with assms(2,3) show ?thesis by (auto simp: has_rank_def dest: eq_key_imp_eq_value)
qed

lemma rank_changed_allowed:
  assumes w: "world_ok w" and g: "GetGuildById w (gp_guildId p) = Some g" and m: "(k', m) \<in> set (members g)"
    and r: "HasRankRight g (GetRank_pl p) GR_RIGHT_PROMOTE \<or> HasRankRight g (GetRank_pl p) GR_RIGHT_DEMOTE"
    and lt: "GetRank_pl p < ms_RankId m" "GetRank_pl p < r'"
  shows "allowed w me p k (put_guild (gp_guildId p) (BroadcastEvent E ev k1 strs (LogGuildEvent E t a b c (ChangeRank k' r' (g, w)))))"
proof (rule officer_allowed [OF g, where k' = k'])
  have f: "fine (gp_guildId p) (g, w)" by (rule world_fine [OF w g])
  let ?s = "BroadcastEvent E ev k1 strs (LogGuildEvent E t a b c (ChangeRank k' r' (g, w)))"
  have sm: "same (ChangeRank k' r' (g, w)) ?s" by (rule same_trans [OF LogGuildEvent_same BroadcastEvent_same])
  show "w_guilds (snd ?s) = w_guilds w" using sm by (simp add: same_def)
  show "GetRank_pl p < x" if "has_rank g k' x" for x using unique_rank [OF f m that] lt by simp
  have "GetMemberSlot g k' \<noteq> None" using m unfolding GetMemberSlot_None by force
  then show "GetRank_pl p < x" if "has_rank (fst ?s) k' x" for x
    using that lt by (auto simp: same_has_rank [OF sm] ChangeRank_guild has_rank_upd)
  show "kept k (g, w) ?s" if "k \<noteq> k'" using that by (intro keeps_member) auto
qed (use r in auto)

lemma HandleGuildPromoteOpcode_allowed:
  assumes w: "world_ok w" and p: "w_players w me = Some p"
  shows "allowed w me p k (HandleGuildPromoteOpcode E me n w)"
proof -
  obtain ok name where n: "norm n = (ok, name)" by fastforce
  have *: "GetRank_pl p < ms_RankId m \<and> GetRank_pl p < ms_RankId m - 1"
    if g: "GetGuildById w (gp_guildId p) = Some g" and m: "GetMemberSlotByName g name = Some (k', m)" and r: "\<not> ms_RankId m \<le> GetRank_pl p + 1" for g k' m
  proof -
    have a: "unat (pl_rank (gp_pl p)) < 256" using w p by (auto simp: world_ok_def dest: players_okD(1))
    from less_ranks [OF a fine_slot(2) [OF world_fine [OF w g] by_name_in [OF m]]] r
    show ?thesis by (simp add: GetRank_pl_def)
  qed
  show ?thesis unfolding HandleGuildPromoteOpcode_def n
    by (auto simp: Let_def untouched_allowed split: option.split intro!: with_guild_allowed p rank_changed_allowed [OF w] dest: * by_name_in)
qed

lemma HandleGuildDemoteOpcode_allowed:
  assumes w: "world_ok w" and p: "w_players w me = Some p"
  shows "allowed w me p k (HandleGuildDemoteOpcode E me n w)"
proof -
  obtain ok name where n: "norm n = (ok, name)" by fastforce
  have *: "GetRank_pl p < ms_RankId m \<and> GetRank_pl p < ms_RankId m + 1"
    if g: "GetGuildById w (gp_guildId p) = Some g" and m: "GetMemberSlotByName g name = Some (k', m)"
      and r: "\<not> ms_RankId m \<le> GetRank_pl p" "\<not> GetLowestRank g \<le> ms_RankId m" for g k' m
  proof -
    have "unat (ms_RankId m) < 9" using r(2) lowest_rank_bound [OF world_fine [OF w g]] by (simp add: word_le_nat_alt)
    then have "unat (ms_RankId m + 1) = unat (ms_RankId m) + 1" by (simp add: unat_word_ariths)
    with r(1) show ?thesis by (simp add: word_less_nat_alt word_le_nat_alt)
  qed
  show ?thesis unfolding HandleGuildDemoteOpcode_def n
    by (auto simp: Let_def untouched_allowed split: option.split intro!: with_guild_allowed p rank_changed_allowed [OF w] dest: * by_name_in)
qed

lemma HandleGuildRemoveOpcode_allowed:
  assumes w: "world_ok w" and p: "w_players w me = Some p"
  shows "allowed w me p k (HandleGuildRemoveOpcode E me n w)"
proof -
  obtain ok name where n: "norm n = (ok, name)" by fastforce
  have *: "allowed w me p k (case DelMember E (ms_guid m) False (g, w) of
        (True, s) \<Rightarrow> Disband E s
      | (False, s) \<Rightarrow> put_guild (gp_guildId p) (BroadcastEvent E ev k1 strs (LogGuildEvent E t a b c s)))"
    if g: "GetGuildById w (gp_guildId p) = Some g" and m: "GetMemberSlotByName g name = Some (k', m)"
      and r: "ms_RankId m \<noteq> 0" "\<not> ms_RankId m \<le> GetRank_pl p" "HasRankRight g (GetRank_pl p) GR_RIGHT_REMOVE"
    for g k' m ev k1 strs t a b c
  proof -
    have f: "fine (gp_guildId p) (g, w)" by (rule world_fine [OF w g])
    note s = fine_slot [OF f by_name_in [OF m]]
    have "master_ok g" "m_LeaderGuid g \<noteq> k'" using f r(1) s(3) by (auto simp: fine_def)
    from DelMember_kept [OF this, of E w] obtain s' where d: "DelMember E k' False (g, w) = (False, s')" "w_guilds (snd s') = w_guilds w"
      "\<And>k x. has_rank (fst s') k x \<longleftrightarrow> k \<noteq> k' \<and> has_rank g k x" by blast
    let ?s = "BroadcastEvent E ev k1 strs (LogGuildEvent E t a b c s')"
    have sm: "same s' ?s" by (rule same_trans [OF LogGuildEvent_same BroadcastEvent_same])
    then have h: "has_rank (fst ?s) k x \<longleftrightarrow> k \<noteq> k' \<and> has_rank g k x" "w_guilds (snd ?s) = w_guilds w" for k x
      using d by (auto simp: same_def roster_has_rank)
    have "allowed w me p k (put_guild (gp_guildId p) ?s)"
    proof (rule officer_allowed [OF g, where k' = k'])
      show "GetRank_pl p < x" if "has_rank g k' x" for x using unique_rank [OF f by_name_in [OF m] that] r(2) by simp
    qed (use r h in \<open>auto simp: kept_def\<close>)
    then show ?thesis by (simp add: s(1) d(1))
  qed
  show ?thesis unfolding HandleGuildRemoveOpcode_def n
    by (auto simp: untouched_allowed split: option.split intro!: with_guild_allowed p *)
qed

lemma Disband_allowed:
  assumes w: "world_ok w" and g: "GetGuildById w (gp_guildId p) = Some g" "m_LeaderGuid g = me"
  shows "allowed w me p k (Disband E (g, w))"
proof (rule leader_allowed [OF g])
  have "m_Id g = gp_guildId p" using world_fine [OF w g(1)] by (simp add: fine_def base_def)
  then show "in_guilds (w_guilds (Disband E (g, w))) k j x" if "j \<noteq> gp_guildId p" "in_guilds (w_guilds w) k j x" for j x
    using that by (simp add: Disband_guilds in_guilds_delete)
qed

lemma SetNewLeader_allowed:
  assumes g: "GetGuildById w (gp_guildId p) = Some g" "m_LeaderGuid g = me"
  shows "allowed w me p k (put_guild (gp_guildId p) (SetNewLeader E a b (g, w)))"
  by (rule leader_allowed [OF g]) (use SetNewLeader_guilds [of E a b "(g, w)"] in \<open>simp add: put_guild_def split_def in_guilds_update\<close>)

lemma HandleGuildLeaveOpcode_allowed:
  assumes w: "world_ok w" and p: "w_players w me = Some p" and k: "k \<noteq> me"
  shows "allowed w me p k (HandleGuildLeaveOpcode E me w)"
proof -
  have *: "allowed w me p k (case DelMember E me False (g, gsend me q w) of
        (True, s) \<Rightarrow> Disband E s
      | (False, s) \<Rightarrow> put_guild (gp_guildId p) (BroadcastEvent E ev k1 strs (LogGuildEvent E t a b c s)))"
    if g: "GetGuildById w (gp_guildId p) = Some g" and l: "me \<noteq> m_LeaderGuid g" for g q ev k1 strs t a b c
  proof -
    have m: "master_ok g" using world_fine [OF w g] by (simp add: fine_def)
    from DelMember_kept [OF m l [symmetric], of E "gsend me q w"]
    obtain s' where d: "DelMember E me False (g, gsend me q w) = (False, s')" "w_guilds (snd s') = w_guilds w"
      "\<And>k x. has_rank (fst s') k x \<longleftrightarrow> k \<noteq> me \<and> has_rank g k x" by auto
    have "kept k (g, w) (BroadcastEvent E ev k1 strs (LogGuildEvent E t a b c s'))"
      using d k by (intro keeps_member) (simp add: kept_def)
    from kept_put [OF g this] show ?thesis by (simp add: d(1) untouched_allowed)
  qed
  show ?thesis unfolding HandleGuildLeaveOpcode_def SendGuildCommandResult_def
    by (auto simp: untouched_allowed intro!: with_guild_allowed p * Disband_allowed w)
qed

lemma HandleGuildDisbandOpcode_allowed:
  assumes w: "world_ok w" and p: "w_players w me = Some p"
  shows "allowed w me p k (HandleGuildDisbandOpcode E me w)"
  unfolding HandleGuildDisbandOpcode_def by (auto simp: untouched_allowed intro!: with_guild_allowed p Disband_allowed w)

lemma HandleGuildLeaderOpcode_allowed:
  assumes p: "w_players w me = Some p"
  shows "allowed w me p k (HandleGuildLeaderOpcode E me n w)"
  unfolding HandleGuildLeaderOpcode_def
  by (cases "norm n") (auto simp: untouched_allowed split: option.split intro!: with_guild_allowed p SetNewLeader_allowed)

lemma handle_guild_allowed:
  assumes w: "world_ok w" and E: "guild_env_ok E" and me: "me \<noteq> 0" and i: "GetGuildById w (gv_newGuildId E) = None"
    and p: "w_players w me = Some p" and k: "k \<noteq> me"
  shows "allowed w me p k (handle_guild E me op w)"
  by (cases op)
    (simp_all add: untouched_allowed HandleGuildQueryOpcode_untouched HandleGuildCreateOpcode_untouched [OF i] HandleGuildInviteOpcode_untouched
      HandleGuildAcceptOpcode_untouched [OF w E me] HandleGuildDeclineOpcode_untouched HandleGuildInfoOpcode_untouched
      HandleGuildRosterOpcode_untouched HandleGuildPromoteOpcode_allowed [OF w p] HandleGuildDemoteOpcode_allowed [OF w p]
      HandleGuildLeaveOpcode_allowed [OF w p k] HandleGuildRemoveOpcode_allowed [OF w p] HandleGuildDisbandOpcode_allowed [OF w p]
      HandleGuildLeaderOpcode_allowed [OF p] HandleGuildMOTDOpcode_untouched HandleGuildRankOpcode_untouched
      HandleGuildAddRankOpcode_untouched HandleGuildDelRankOpcode_untouched HandleGuildSetPublicNoteOpcode_def
      HandleGuildSetOfficerNoteOpcode_def set_note_untouched keeps_member HandleGuildChangeInfoTextOpcode_untouched
      HandleSaveGuildEmblemOpcode_untouched)

end
