(* ===== verification/Guild_Sample.thy ===== *)
theory Guild_Sample
  imports Guild_Authority Sample_State
begin

text \<open>
  A concrete guild world for the witnesses: one guild with six ranks and three members, the leader and a
  member of the lowest rank online.
\<close>

definition sample_rank :: "string \<Rightarrow> RankInfo" where
  "sample_rank n = \<lparr>ri_Name = n, ri_Rights = 0x43\<rparr>"

definition sample_slot :: "uint32 \<Rightarrow> string \<Rightarrow> uint32 \<Rightarrow> MemberSlot" where
  "sample_slot k n r = \<lparr>ms_guid = k, ms_accountId = k, ms_Name = n, ms_RankId = r, ms_Level = 60, ms_Class = 7, ms_ZoneId = 1637,
     ms_LogoutTime = 0, ms_PublicNote = [], ms_OfficerNote = []\<rparr>"

definition sample_guild :: Guild where
  "sample_guild = new_Guild\<lparr>m_Id := 3, m_Name := ''Frostwolf'', m_LeaderGuid := 7,
     m_Ranks := [\<lparr>ri_Name = ''Chief'', ri_Rights = GR_RIGHT_ALL\<rparr>, \<lparr>ri_Name = ''Elder'', ri_Rights = GR_RIGHT_ALL\<rparr>,
       sample_rank ''Warrior'', sample_rank ''Scout'', sample_rank ''Initiate'', sample_rank ''Guest''],
     members := [(7, sample_slot 7 ''Thrall'' 0), (9, sample_slot 9 ''Drekthar'' 1), (8, sample_slot 8 ''Garona'' 5)]\<rparr>"

definition sample_gplayer :: "uint32 \<Rightarrow> string \<Rightarrow> uint32 \<Rightarrow> GuildPlayer" where
  "sample_gplayer k n r = \<lparr>gp_pl = sample_player\<lparr>pl_guid := k, pl_name := n, pl_rank := r\<rparr>, gp_account = k, gp_level = 60, gp_class = 7,
     gp_zone = 1637, gp_race = 2, gp_team = 67, gp_guildId = 3, gp_guildIdInvited = 0\<rparr>"

definition sample_row :: "uint32 \<Rightarrow> uint32 \<Rightarrow> MemberRow" where
  "sample_row k r = \<lparr>mw_guildid = 3, mw_guid = k, mw_rank = r, mw_pnote = [], mw_offnote = []\<rparr>"

definition sample_world :: GWorld where
  "sample_world = \<lparr>w_guilds = [(3, sample_guild)], w_guid2guild = [7 \<mapsto> 3, 8 \<mapsto> 3, 9 \<mapsto> 3],
     w_players = [7 \<mapsto> sample_gplayer 7 ''Thrall'' 0, 8 \<mapsto> sample_gplayer 8 ''Garona'' 5], w_petitions = [],
     w_gdb = \<lparr>gd_guild = [], gd_member = [sample_row 7 0, sample_row 8 5, sample_row 9 1], gd_rank = [], gd_eventlog = [], gd_petition = [], gd_sign = []\<rparr>,
     w_bdb = sample_db, w_out = [], w_bankSaveTimer = 60000\<rparr>"

definition sample_genv :: GuildEnv where
  "sample_genv = \<lparr>e_protos = e_protos sample_env, e_randprops = e_randprops sample_env, e_roll = e_roll sample_env,
     e_gametime = e_gametime sample_env, e_moneyhook = e_moneyhook sample_env, e_petition = e_petition sample_env,
     e_nullproto = e_nullproto sample_env, e_nullsuffix = e_nullsuffix sample_env, be_now = 1000000,
     be_localtime = be_localtime sample_env, be_ranksSize = 5, be_playerName = be_playerName sample_env,
     be_selected = be_selected sample_env, be_menuItems = be_menuItems sample_env, be_near = be_near sample_env,
     be_horde = be_horde sample_env, be_npcAlliance = [], be_npcHorde = [], be_junk = be_junk sample_env,
     gv_date = (\<lambda>_. (1, 1, 2024)), gv_order = (\<lambda>xs. xs), gv_escape = (\<lambda>s. s), gv_onAddMember = (\<lambda>_ _ r. r),
     gv_cache = (\<lambda>_. None), gv_teamForRace = (\<lambda>_. 67), gv_twoSide = False, gv_eventLogCount = 100, gv_string = (\<lambda>_. []), gv_newGuildId = 4,
     gv_byName = (\<lambda>_. None), gv_ignores = (\<lambda>_ _. False), gv_master = (\<lambda>_. False), gv_designer = True, gv_zoneFromDB = (\<lambda>_. 0),
     gv_character = (\<lambda>_. ([], 0, 0, 0, 0, 0)), gv_minSigns = 1, gv_newPetitionId = 6, gv_porder = (\<lambda>ps. ps),
     gv_petitioner = (\<lambda>_ _. Some True), gv_feign = (\<lambda>_. False), gv_itemGuid = (\<lambda>k p. 1000 * k + of_nat p), gv_nameRules = sample_name_rules,
     gv_reserved = [], gv_idle = sample_player, gv_bank0 = sample_bank\<rparr>"

definition sample_guild_row :: GuildRow where
  "sample_guild_row = \<lparr>gr_guildid = 5, gr_name = ''Warsong'', gr_leaderguid = 9, gr_info = [], gr_motd = [], gr_createdate = 1000000,
     gr_emblem = no_emblem\<rparr>"

definition sample_load_row :: "uint32 \<Rightarrow> string \<Rightarrow> LoadRow" where
  "sample_load_row k n = \<lparr>lw_guildid = 5, lw_guid = k, lw_rank = 0, lw_pnote = [], lw_offnote = [], lw_name = n, lw_level = 60,
     lw_class = 7, lw_zone = 1637, lw_logout = 0, lw_account = k\<rparr>"

lemma sample_genv_ok [simp]: "guild_env_ok sample_genv" "gv_newGuildId sample_genv = 4" "gv_order sample_genv xs = xs"
  by (simp_all add: guild_env_ok_def sample_genv_def)

lemma sample_members: "members sample_guild = [(7, sample_slot 7 ''Thrall'' 0), (9, sample_slot 9 ''Drekthar'' 1), (8, sample_slot 8 ''Garona'' 5)]"
  by (simp add: sample_guild_def)

lemma sample_roster: "roster_ok sample_guild"
  by (simp add: roster_ok_def roster_base_def master_ok_def sample_members sample_slot_def) (simp add: sample_guild_def)

lemma has_rank_set: "has_rank g k x \<longleftrightarrow> (k, x) \<in> (\<lambda>(k, m). (k, ms_RankId m)) ` set (members g)"
  by (force simp: has_rank_def)

lemma sample_has: "has_rank sample_guild k x \<longleftrightarrow> (k, x) \<in> {(7, 0), (9, 1), (8, 5)}"
  unfolding has_rank_set sample_members by (simp add: sample_slot_def)

lemma sample_table: "in_table (gd_member (w_gdb sample_world)) k i x \<longleftrightarrow> i = 3 \<and> (k, x) \<in> {(7, 0), (9, 1), (8, 5)}"
  unfolding in_table_view by (simp add: sample_world_def sample_row_def) blast

lemma sample_guilds [simp]: "w_guilds sample_world = [(3, sample_guild)]" "m_Id sample_guild = 3" "m_LeaderGuid sample_guild = 7"
  by (simp_all add: sample_world_def sample_guild_def)

lemma sample_players:
  "w_players sample_world = [7 \<mapsto> sample_gplayer 7 ''Thrall'' 0, 8 \<mapsto> sample_gplayer 8 ''Garona'' 5]"
  by (simp add: sample_world_def)

lemma sample_world_ok [simp]: "world_ok sample_world"
proof -
  have "guilds_ok (w_guilds sample_world)" by (simp add: guilds_ok_def sample_roster)
  moreover have "member_table_ok sample_world"
    unfolding member_table_ok_def sample_table by (auto simp: in_guilds_def sample_has sample_world_def sample_row_def)
  moreover have "players_ok sample_world"
    unfolding players_ok_def sample_table sample_players
    by (auto simp: sample_gplayer_def sample_world_def petitions_ok_def signers_def split: if_splits)
  ultimately show ?thesis by (simp add: world_ok_def)
qed

section \<open>A charter\<close>

text \<open>The same world with two more players who are in no guild: 10 carries a charter that 11 has signed; a second
  petition, of a player who is offline, has no signatures.\<close>

definition charter :: ItemPrototype where
  "charter = cloth\<lparr>pr_ItemId := 5863, pr_Name1 := ''Guild Charter'', pr_Class := 15, pr_Flags := 0x2000, pr_Stackable := 1\<rparr>"

definition charter_genv :: GuildEnv where
  "charter_genv = sample_genv\<lparr>e_protos := (e_protos sample_env)(5863 \<mapsto> charter)\<rparr>"

definition charter_player :: Player where
  "charter_player = sample_player\<lparr>pl_guid := 10, pl_name := ''Rehgar'', m_items := (m_items sample_player)(24 := Some 2),
     iheap := (iheap sample_player)(2 := blank_item\<lparr>i_entry := 5863, i_count := 1, i_slot := 24, i_enchant := (replicate 21 0)[0 := 5]\<rparr>),
     inext := 3\<rparr>"

definition lone_gplayer :: "uint32 \<Rightarrow> Player \<Rightarrow> GuildPlayer" where
  "lone_gplayer k P = \<lparr>gp_pl = P, gp_account = k, gp_level = 60, gp_class = 7,
     gp_zone = 1637, gp_race = 2, gp_team = 67, gp_guildId = 0, gp_guildIdInvited = 0\<rparr>"

definition sample_petition :: "uint32 \<Rightarrow> uint32 \<Rightarrow> uint32 \<Rightarrow> string \<Rightarrow> PetitionSignature list \<Rightarrow> Petition" where
  "sample_petition i c k name xs = \<lparr>pt_id = i, pt_charterGuid = item_guid c, pt_ownerGuid = k, pt_name = name, pt_team = 67, pt_signatures = xs\<rparr>"

definition sample_sign :: SignRow where
  "sample_sign = \<lparr>sr_ownerguid = 10, sr_petitionguid = 5, sr_playerguid = 11, sr_account = 11\<rparr>"

definition sample_petition_row :: PetitionRow where
  "sample_petition_row = \<lparr>pw_ownerguid = 10, pw_petitionguid = 5, pw_charterguid = 10002, pw_name = ''Stormreaver''\<rparr>"

definition charter_world :: GWorld where
  "charter_world = sample_world\<lparr>
     w_players := (w_players sample_world)(10 \<mapsto> lone_gplayer 10 charter_player,
       11 \<mapsto> lone_gplayer 11 (sample_player\<lparr>pl_guid := 11, pl_name := ''Aggra''\<rparr>)),
     w_petitions := [sample_petition 5 10002 10 ''Stormreaver'' [\<lparr>sg_playerGuid = 11, sg_playerAccount = 11\<rparr>],
       sample_petition 8 12007 12 ''Shadowmoon'' []],
     w_gdb := (w_gdb sample_world)\<lparr>gd_petition := [sample_petition_row], gd_sign := [sample_sign]\<rparr>\<rparr>"

lemma charter_genv_sel [simp]:
  "guild_env_ok charter_genv" "gv_newGuildId charter_genv = 4" "gv_newPetitionId charter_genv = 6" "gv_minSigns charter_genv = 1"
  "gv_itemGuid charter_genv k p = 1000 * k + of_nat p" "e_moneyhook charter_genv d = d" "e_protos charter_genv 5863 = Some charter"
  by (simp_all add: guild_env_ok_def charter_genv_def sample_genv_def sample_env_def)

lemma charter_world_ok [simp]: "world_ok charter_world"
proof -
  note ok = sample_world_ok [unfolded world_ok_def]
  have "member_table_ok charter_world" using ok by (simp add: member_table_ok_def charter_world_def)
  moreover have "players_ok charter_world"
    using ok unfolding players_ok_def petitions_ok_def
    by (auto simp: charter_world_def sample_table lone_gplayer_def charter_player_def sample_player_def sample_petition_def signers_def split: if_splits)
  ultimately show ?thesis using ok by (simp add: world_ok_def charter_world_def)
qed

lemma charter_world_sel [simp]:
  "w_players charter_world 10 = Some (lone_gplayer 10 charter_player)"
  "w_players charter_world 11 = Some (lone_gplayer 11 (sample_player\<lparr>pl_guid := 11, pl_name := ''Aggra''\<rparr>))"
  "w_petitions charter_world = [sample_petition 5 10002 10 ''Stormreaver'' [\<lparr>sg_playerGuid = 11, sg_playerAccount = 11\<rparr>],
       sample_petition 8 12007 12 ''Shadowmoon'' []]"
  "gd_petition (w_gdb charter_world) = [sample_petition_row]" "gd_sign (w_gdb charter_world) = [sample_sign]"
  "w_guilds charter_world = [(3, sample_guild)]"
  by (simp_all add: charter_world_def)

end
