(* ===== verification/Guild_Load.thy ===== *)
theory Guild_Load
  imports Guild_Run
begin

text \<open>
  Loading a guild: a guild that passes \<open>LoadMembersFromDB\<close> is repaired by \<open>CheckGuildStructure\<close> to a roster with valid ranks and one
  guild master. The loader does not limit the number of ranks, so the bound is a parameter here. The lemmas speak of the guild object only, since the tables
  may disagree with it while it is loaded.
\<close>

definition valid_roster :: "nat \<Rightarrow> Guild \<Rightarrow> bool" where
  "valid_roster N g \<longleftrightarrow> distinct (map fst (members g)) \<and>
     (\<forall>(k, m) \<in> set (members g). ms_guid m = k \<and> unat (ms_RankId m) < length (m_Ranks g)) \<and>
     5 \<le> length (m_Ranks g) \<and> length (m_Ranks g) \<le> N"

lemma valid_roster_alt:
  "valid_roster N g \<longleftrightarrow> distinct (map fst (members g)) \<and>
     (\<forall>k m. (k, m) \<in> set (members g) \<longrightarrow> ms_guid m = k \<and> unat (ms_RankId m) < length (m_Ranks g)) \<and>
     5 \<le> length (m_Ranks g) \<and> length (m_Ranks g) \<le> N"
  by (auto simp: valid_roster_def)

lemma valid_roster_iff:
  "valid_roster N g \<longleftrightarrow> distinct (map fst (roster g)) \<and> (\<forall>(k, u, x) \<in> set (roster g). u = k \<and> unat x < length (m_Ranks g)) \<and>
     5 \<le> length (m_Ranks g) \<and> length (m_Ranks g) \<le> N"
  using roster_all [of g "\<lambda>k u x. u = k \<and> unat x < length (m_Ranks g)"] by (simp add: valid_roster_def roster_keys)

lemma valid_roster_upd:
  assumes "valid_roster N g" and "unat r < 5"
  shows "valid_roster N (upd_member k (\<lambda>m. m\<lparr>ms_RankId := r\<rparr>) g)"
  using assms unfolding valid_roster_alt set_upd_member keys_upd_member by (auto split: if_splits)

lemma valid_roster_base: "valid_roster 10 g \<Longrightarrow> roster_base g"
  by (fastforce simp: valid_roster_def roster_base_def)

section \<open>Ranks\<close>

lemma load_rank_rows_guild:
  "load_rank_rows rows broken s = (rest, b, s') \<Longrightarrow>
     members (fst s') = members (fst s) \<and> m_Id (fst s') = m_Id (fst s) \<and>
     length (m_Ranks (fst s')) \<le> length (m_Ranks (fst s)) + length (filter (\<lambda>r. rr_guildid r = m_Id (fst s)) rows)"
  by (induction rows broken s rule: load_rank_rows.induct) (force simp: AddRank_def split: if_splits)+

lemma rewrite_ranks_guild: "fst (rewrite_ranks s) = fst s"
  by (cases s) (simp add: rewrite_ranks_def)

lemma LoadRanksFromDB_guild:
  assumes l: "LoadRanksFromDB E ranks s = (ranks', s')" and e: "m_Ranks (fst s) = []"
    and n: "\<And>rows. ranks = Some rows \<Longrightarrow> length (filter (\<lambda>r. rr_guildid r = m_Id (fst s)) rows) \<le> N" and N: "5 \<le> N"
  shows "members (fst s') = members (fst s) \<and> 5 \<le> length (m_Ranks (fst s')) \<and> length (m_Ranks (fst s')) \<le> N"
proof (cases ranks)
  case None
  then show ?thesis using l CreateDefaultGuildRanks_keeps(3,4) [where E = E and s = s] e N by (simp add: LoadRanksFromDB_def)
next
  case (Some rows)
  obtain rest b g w where r: "load_rank_rows rows False s = (rest, b, g, w)" by (metis prod_cases4)
  note k = load_rank_rows_guild [OF r]
  show ?thesis
  proof (cases "length (m_Ranks g) < 5")
    case True
    then have "s' = CreateDefaultGuildRanks E (g\<lparr>m_Ranks := []\<rparr>, w)" using l Some r by (simp add: LoadRanksFromDB_def)
    then show ?thesis using CreateDefaultGuildRanks_keeps(3,4) [where E = E and s = "(g\<lparr>m_Ranks := []\<rparr>, w)"] k N by simp
  next
    case False
    then have "fst s' = g" using l Some r by (auto simp: LoadRanksFromDB_def rewrite_ranks_guild split: if_splits)
    then show ?thesis using False k n [OF Some] e by simp
  qed
qed

section \<open>Members\<close>

lemma loaded_slot_ok:
  assumes "5 \<le> length (m_Ranks g)" "length (m_Ranks g) \<le> 2 ^ 31"
  shows "ms_guid (loaded_slot E g r) = lw_guid r" "unat (ms_RankId (loaded_slot E g r)) < length (m_Ranks g)"
proof -
  have "GetLowestRank g = of_nat (length (m_Ranks g) - 1)" using assms by (simp add: GetLowestRank_def of_nat_diff)
  moreover have "unat (of_nat (length (m_Ranks g) - 1) :: uint32) = length (m_Ranks g) - 1"
    unfolding unat_of_nat by (rule mod_less) (use assms in simp)
  ultimately have "unat (GetLowestRank g) < length (m_Ranks g)" using assms by simp
  then show "ms_guid (loaded_slot E g r) = lw_guid r" "unat (ms_RankId (loaded_slot E g r)) < length (m_Ranks g)"
    by (auto simp: loaded_slot_def)
qed

lemma put_member_base:
  assumes E: "guild_env_ok E" and g: "valid_roster N g" and m: "ms_guid m = k" "unat (ms_RankId m) < length (m_Ranks g)"
  shows "valid_roster N (put_member E k m g)"
proof (cases "k \<in> set (map fst (members g))")
  case True
  then show ?thesis using g m unfolding valid_roster_alt put_member_def
    by (auto simp: set_upd_member keys_upd_member split: if_splits)
next
  case False
  note p = put_member_new [OF E False, of m]
  have "set (members (put_member E k m g)) = set (members g @ [(k, m)])" using p(4) by (metis set_mset_mset)
  moreover have "distinct (map fst (members (put_member E k m g))) = distinct (map fst (members g @ [(k, m)]))"
    by (rule mset_eq_imp_distinct_iff) (use p(4) in \<open>metis mset_map\<close>)
  ultimately show ?thesis using g m False p(2) by (auto simp: valid_roster_alt)
qed

lemma load_member_rows_base:
  "N \<le> 2 ^ 31 \<Longrightarrow> guild_env_ok E \<Longrightarrow> valid_roster N (fst s) \<Longrightarrow> load_member_rows E rows s = (rest, s') \<Longrightarrow> valid_roster N (fst s')"
proof (induction E rows s rule: load_member_rows.induct)
  case (2 E r rs g w)
  have "5 \<le> length (m_Ranks g)" "length (m_Ranks g) \<le> 2 ^ 31" using "2.prems" by (simp_all add: valid_roster_def)
  from put_member_base [OF "2.prems"(2) _ loaded_slot_ok [OF this]] "2.prems"(3)
  have "valid_roster N (put_member E (lw_guid r) (loaded_slot E g r) g)" by simp
  with 2 show ?case by (auto split: if_splits)
qed simp

section \<open>The leader\<close>

lemma GetMemberSlot_mem: "GetMemberSlot g k = Some m \<Longrightarrow> (k, m) \<in> set (members g)"
  by (simp add: GetMemberSlot_def map_of_SomeD)

lemma SetLeader_fst:
  assumes "valid_roster N g" and "GetMemberSlot g k = Some m"
  shows "fst (SetLeader k (g, w)) = upd_member k (\<lambda>m. m\<lparr>ms_RankId := 0\<rparr>) (g\<lparr>m_LeaderGuid := k\<rparr>)"
proof -
  have "ms_guid m = k" using assms GetMemberSlot_mem by (fastforce simp: valid_roster_alt)
  then show ?thesis using assms(2) ChangeRank_guild [of k 0 "(g\<lparr>m_LeaderGuid := k\<rparr>, w)"] by (simp add: SetLeader_def split_def)
qed

text \<open>A guild whose leader has the first rank, perhaps not alone.\<close>

definition led :: "nat \<Rightarrow> Guild \<Rightarrow> bool" where
  "led N g \<longleftrightarrow> valid_roster N g \<and> has_rank g (m_LeaderGuid g) 0"

lemma SetLeader_led:
  assumes g: "valid_roster N g" and m: "GetMemberSlot g k = Some m"
  shows "led N (fst (SetLeader k (g, w)))" and "set (map fst (members (fst (SetLeader k (g, w))))) = set (map fst (members g))"
proof -
  have "has_rank g k (ms_RankId m)" using GetMemberSlot_mem [OF m] by (auto simp: has_rank_def)
  then have "has_rank (upd_member k (\<lambda>m. m\<lparr>ms_RankId := 0\<rparr>) (g\<lparr>m_LeaderGuid := k\<rparr>)) k 0" by (auto simp: has_rank_upd)
  moreover have "valid_roster N (g\<lparr>m_LeaderGuid := k\<rparr>)" using g by (simp add: valid_roster_def)
  ultimately show "led N (fst (SetLeader k (g, w)))"
    by (simp add: led_def SetLeader_fst [OF g m] valid_roster_upd)
  show "set (map fst (members (fst (SetLeader k (g, w))))) = set (map fst (members g))"
    by (simp add: SetLeader_fst [OF g m] keys_upd_member)
qed

lemma one_master_led:
  assumes "led N (fst s)"
  shows "led N (fst (one_master k s)) \<and> m_LeaderGuid (fst (one_master k s)) = m_LeaderGuid (fst s) \<and>
    (\<forall>k' x. has_rank (fst (one_master k s)) k' x \<longrightarrow> x = 0 \<longrightarrow> k' \<noteq> m_LeaderGuid (fst s) \<longrightarrow> has_rank (fst s) k' 0 \<and> k' \<noteq> k)"
proof (cases "GetMemberSlot (fst s) k")
  case None
  then have "\<not> has_rank (fst s) k x" for x using has_rank_keys GetMemberSlot_keys by metis
  then show ?thesis using None assms by (auto simp: one_master_def)
next
  case (Some m)
  have mem: "(k, m) \<in> set (members (fst s))" by (rule GetMemberSlot_mem [OF Some])
  have u: "ms_guid m = k" "distinct (map fst (members (fst s)))" using assms mem by (auto simp: led_def valid_roster_alt)
  have r: "has_rank (fst s) k x \<Longrightarrow> x = ms_RankId m" for x using mem u(2) by (auto simp: has_rank_def dest: eq_key_imp_eq_value)
  show ?thesis
  proof (cases "ms_RankId m = 0 \<and> m_LeaderGuid (fst s) \<noteq> k")
    case True
    then have "fst (one_master k s) = upd_member k (\<lambda>m. m\<lparr>ms_RankId := 1\<rparr>) (fst s)"
      using Some u(1) by (simp add: one_master_def ChangeRank_guild)
    then show ?thesis using assms True by (auto simp: led_def has_rank_upd valid_roster_upd split: if_splits)
  next
    case False
    then have "one_master k s = s" using Some u(1) by (auto simp: one_master_def)
    then show ?thesis using assms False r by auto
  qed
qed

lemma fold_one_master_led:
  "led N (fst s) \<Longrightarrow> led N (fst (fold one_master ks s)) \<and> m_LeaderGuid (fst (fold one_master ks s)) = m_LeaderGuid (fst s) \<and>
    (\<forall>k x. has_rank (fst (fold one_master ks s)) k x \<longrightarrow> x = 0 \<longrightarrow> k \<noteq> m_LeaderGuid (fst s) \<longrightarrow> has_rank (fst s) k 0 \<and> k \<notin> set ks)"
proof (induction ks arbitrary: s)
  case (Cons k ks)
  note o = one_master_led [OF Cons.prems, of k]
  from Cons.IH [of "one_master k s"] o show ?case by auto
qed simp

lemma led_repaired:
  assumes "led N (fst s)"
  shows "valid_roster N (fst (fold one_master (map fst (members (fst s))) s)) \<and> master_ok (fst (fold one_master (map fst (members (fst s))) s))"
proof -
  let ?s = "fold one_master (map fst (members (fst s))) s"
  note f = fold_one_master_led [OF assms, of "map fst (members (fst s))"]
  have l: "m_LeaderGuid (fst ?s) = m_LeaderGuid (fst s)" and d: "led N (fst ?s)" using f by blast+
  have z: "k = m_LeaderGuid (fst s)" if "has_rank (fst ?s) k 0" for k
    using f that has_rank_keys [of "fst s" k] by blast
  have "distinct (map fst (members (fst ?s)))" using d by (simp add: led_def valid_roster_def)
  then have "x = y" if "has_rank (fst ?s) k x" "has_rank (fst ?s) k y" for k x y
    using that by (auto simp: has_rank_def dest: eq_key_imp_eq_value)
  moreover have "m_LeaderGuid (fst ?s) \<in> set (map fst (members (fst ?s)))" using d has_rank_keys by (metis led_def)
  ultimately show ?thesis using d z l by (auto simp: master_ok_has led_def)
qed

text \<open>A guild without its leader: the best of the members takes the place.\<close>

lemma DelMember_lost_leader:
  assumes g: "valid_roster N g" and n: "members g \<noteq> []" and l: "GetMemberSlot g (m_LeaderGuid g) = None"
  shows "\<exists>s'. DelMember E (m_LeaderGuid g) False (g, w) = (False, s') \<and> led N (fst s')"
proof -
  let ?l = "m_LeaderGuid g"
  have nl: "?l \<notin> set (map fst (members g))" using l by (simp add: GetMemberSlot_keys)
  obtain k m where b: "best_member ?l (members g) None = Some (k, m)"
  proof (cases "best_member ?l (members g) None")
    case None
    from best_member_None [OF this] n nl show ?thesis by (cases "members g") auto
  qed auto
  have km: "(k, m) \<in> set (members g)" using best_member_in [OF b] by simp
  then have m: "GetMemberSlot g k = Some m" using g by (simp add: members_mem valid_roster_def)
  have gs: "GetSuitableNewLeader False g = (Some k, None)" using b nl by (simp add: GetSuitableNewLeader_def Let_def)
  obtain g1 w1 where s1: "SetLeader k (g, w) = (g1, w1)" by fastforce
  note led = SetLeader_led [OF g m, of w, unfolded s1]
  from DelMember_leader [OF refl gs, of E w] obtain g2 w2 where sm: "same (g1, w1) (g2, w2)"
    and d: "DelMember E ?l False (g, w) =
      (members (erased ?l False g2) = [], erased ?l False g2, gsql (DeleteMember ?l) (left_player ?l (GuildMemberRemoved ?l w2)))"
    by (auto simp: SetNewLeader_def s1)
  have "map fst (members g2) = map fst (members g1)" using sm by (simp add: same_def roster_keys [symmetric])
  then have nl2: "?l \<notin> set (map fst (members g2))" using led(2) nl by simp
  then have e: "members (erased ?l False g2) = members g2" by (force simp: filter_id_conv)
  have "has_rank g2 = has_rank g1" "valid_roster N g2 = valid_roster N g1" "m_LeaderGuid g2 = m_LeaderGuid g1"
    using sm by (simp_all add: same_def roster_has_rank valid_roster_iff fun_eq_iff)
  then have "led N g2" using led(1) by (simp add: led_def)
  then have "led N (erased ?l False g2)" by (simp add: led_def has_rank_def valid_roster_def e del: erased_simps(4))
  moreover have "members g2 \<noteq> []" using \<open>led N g2\<close> by (auto simp: led_def has_rank_def)
  ultimately show ?thesis using d e by simp
qed

lemma CheckGuildStructure_repairs:
  assumes g: "valid_roster N (fst s)" and n: "members (fst s) \<noteq> []" and N: "N \<le> 2 ^ 31"
  shows "\<exists>s'. CheckGuildStructure E s = (True, s') \<and> valid_roster N (fst s') \<and> master_ok (fst s')"
proof -
  obtain g w where s: "s = (g, w)" by (cases s)
  have "\<exists>s1. led N (fst s1) \<and> CheckGuildStructure E s = (True, fold one_master (map fst (members (fst s1))) s1)"
  proof (cases "GetMemberSlot g (m_LeaderGuid g)")
    case None
    then obtain s1 where "DelMember E (m_LeaderGuid g) False (g, w) = (False, s1)" "led N (fst s1)"
      using DelMember_lost_leader [of N g E w] assms by (auto simp: s)
    then show ?thesis using None by (intro exI [of _ s1]) (simp add: s CheckGuildStructure_def GetRank_def)
  next
    case (Some m)
    have mem: "(m_LeaderGuid g, m) \<in> set (members g)" by (rule GetMemberSlot_mem [OF Some])
    have "length (m_Ranks g) \<le> N" using g by (simp add: s valid_roster_def)
    moreover have "unat (ms_RankId m) < length (m_Ranks g)" using g mem unfolding s fst_conv valid_roster_def by blast
    ultimately have "unat (ms_RankId m) < 2147483648" using N by simp
    then have "int (unat (ms_RankId m)) < 2147483648" by linarith
    then have "uint (ms_RankId m) < 2147483648" by simp
    then have r: "sint (ms_RankId m) = uint (ms_RankId m)"
      using signed_take_bit_int_eq_self [of 31 "uint (ms_RankId m)"] uint_ge_0 [of "ms_RankId m"] by (simp add: sint_uint)
    show ?thesis
    proof (cases "ms_RankId m = 0")
      case True
      then have "led N g" using mem g by (auto simp: led_def has_rank_def s)
      then show ?thesis using True Some r by (intro exI [of _ s]) (simp add: s CheckGuildStructure_def GetRank_def)
    next
      case False
      then have "sint (ms_RankId m) \<noteq> 0 \<and> sint (ms_RankId m) \<noteq> -1"
        using r order_less_le_trans [of "-1" 0 "uint (ms_RankId m)"] by (auto simp: unsigned_eq_0_iff)
      moreover have "led N (fst (SetLeader (m_LeaderGuid g) (g, w)))" using SetLeader_led(1) [OF _ Some] g by (simp add: s)
      ultimately show ?thesis using Some by (intro exI [of _ "SetLeader (m_LeaderGuid g) (g, w)"]) (simp add: s CheckGuildStructure_def GetRank_def)
    qed
  qed
  then show ?thesis using led_repaired by blast
qed

end
