(* ===== verification/Petition_Found.thy ===== *)
theory Petition_Found
  imports Guild_Run
begin

text \<open>
  Founding a guild by petition: every signer who is in no guild, online or with usable data in the
  character cache, becomes a member of the lowest rank; the invariant holds again afterwards.
\<close>

section \<open>One signer\<close>

text \<open>Who joins, and with which rank: a script may change the rank of an online player.\<close>

definition joins :: "'e GuildEnv_scheme \<Rightarrow> GWorld \<Rightarrow> uint32 \<Rightarrow> bool" where
  "joins E w k \<longleftrightarrow> k \<noteq> 0 \<and> (case w_players w k of Some p \<Rightarrow> gp_guildId p = 0 | None \<Rightarrow> loadable E k)"

definition join_rank :: "'e GuildEnv_scheme \<Rightarrow> GWorld \<Rightarrow> uint32 \<Rightarrow> uint32 \<Rightarrow> uint32 \<Rightarrow> uint32" where
  "join_rank E w i k r = (case w_players w k of Some _ \<Rightarrow> ucast (gv_onAddMember E i k (ucast r)) | None \<Rightarrow> r)"

lemma lowest_join_rank:
  assumes "fine i (g, w)" and "guild_env_ok E"
  shows "join_rank E w' i k (GetLowestRank g) \<noteq> 0"
proof -
  note l = lowest_rank_bound [OF assms(1)]
  have "unat (ucast (GetLowestRank g) :: uint8) = unat (GetLowestRank g)"
    using l by (simp add: unsigned_ucast_eq take_bit_nat_eq_self)
  then have "(ucast (GetLowestRank g) :: uint8) \<noteq> 0" "GetLowestRank g \<noteq> 0" using l by auto
  with hook_rank [OF assms(2)] show ?thesis by (simp add: join_rank_def split: option.split)
qed

lemma AddMember_already:
  assumes "case FindPlayerNotInWorld w k of Some p \<Rightarrow> gp_guildId p \<noteq> 0 | None \<Rightarrow> GetMemberSlot g k \<noteq> None"
  shows "AddMember E k r (g, w) = (ALREADY_IN_GUILD, g, w)"
  using assms by (simp add: AddMember_def Let_def)

lemma AddMember_signer:
  assumes f: "fine i (g, w)" and E: "guild_env_ok E" and k: "k \<noteq> 0"
    and o: "\<forall>j x. in_table (gd_member (w_gdb w)) k j x \<longrightarrow> j = i"
  shows "\<exists>st g' w'. AddMember E k (GetLowestRank g) (g, w) = (st, g', w') \<and> fine i (g', w') \<and> m_LeaderGuid g' = m_LeaderGuid g \<and>
    (\<forall>k' x. has_rank g' k' x \<longleftrightarrow>
       has_rank g k' x \<or> (joins E w k \<and> (\<forall>y. \<not> has_rank g k y)) \<and> k' = k \<and> x = join_rank E w i k (GetLowestRank g))"
proof -
  have b: "base i (g, w)" and m: "master_ok g" using f by (simp_all add: fine_def)
  have ok: "players_ok w" and i: "i \<noteq> 0" using b by (simp_all add: base_def)
  let ?r = "GetLowestRank g"
  have stay: ?thesis if "AddMember E k ?r (g, w) = (ALREADY_IN_GUILD, g, w)" "\<not> (joins E w k \<and> (\<forall>y. \<not> has_rank g k y))"
    using that f by auto
  have join: ?thesis
    if "AddMember E k ?r (g, w) = (st, g', w')" "base i (g', w')" "m_LeaderGuid g' = m_LeaderGuid g"
      "\<And>k' x. has_rank g' k' x \<longleftrightarrow> has_rank g k' x \<or> joins E w k \<and> k' = k \<and> x = join_rank E w i k ?r" "\<And>y. \<not> has_rank g k y"
    for st g' w'
  proof -
    have "master_ok g'" by (rule master_ok_join [OF m that(3,4)]) (use lowest_join_rank [OF f E] that(5) in blast)
    then show ?thesis using that by (auto simp: fine_def)
  qed
  show ?thesis
  proof (cases "\<exists>y. has_rank g k y")
    case True
    then have t: "\<exists>x. in_table (gd_member (w_gdb w)) k i x" using base_has [OF b, of k i] by simp
    have s: "GetMemberSlot g k \<noteq> None" using True has_rank_keys GetMemberSlot_keys by blast
    show ?thesis
    proof (rule stay)
      show "AddMember E k ?r (g, w) = (ALREADY_IN_GUILD, g, w)"
        using t s k i players_okD(2) [OF ok] by (intro AddMember_already) (auto simp: FindPlayerNotInWorld_def split: option.split)
    qed (use True in blast)
  next
    case False
    then have n: "\<not> in_table (gd_member (w_gdb w)) k j x" for j x using o base_has [OF b, of k i x] by auto
    show ?thesis
    proof (cases "w_players w k")
      case None
      have r: "unat ?r < 256" using lowest_rank_bound [OF f] by simp
      from AddMember_offline [OF b E None k n r] obtain st g' w' where a: "AddMember E k ?r (g, w) = (st, g', w')" "base i (g', w')"
        "m_LeaderGuid g' = m_LeaderGuid g" "\<And>k' x. has_rank g' k' x \<longleftrightarrow> has_rank g k' x \<or> loadable E k \<and> k' = k \<and> x = ?r"
        by blast
      show ?thesis by (rule join [OF a(1-3)]) (use None k False a(4) in \<open>auto simp: joins_def join_rank_def\<close>)
    next
      case (Some p)
      show ?thesis
      proof (cases "gp_guildId p = 0")
        case True
        obtain g' w' where a: "AddMember E k ?r (g, w) = (GuildAdd_OK, g', w')" "base i (g', w')" "m_LeaderGuid g' = m_LeaderGuid g"
          "\<And>k' x. has_rank g' k' x \<longleftrightarrow> has_rank g k' x \<or> k' = k \<and> x = ucast (gv_onAddMember E i k (ucast ?r))"
          using AddMember_online [OF b E Some True k, of ?r] by blast
        show ?thesis by (rule join [OF a(1-3)]) (use Some True k False a(4) in \<open>auto simp: joins_def join_rank_def\<close>)
      next
        case False
        show ?thesis by (rule stay, rule AddMember_already) (use Some k False in \<open>auto simp: FindPlayerNotInWorld_def joins_def\<close>)
      qed
    qed
  qed
qed

section \<open>All signers\<close>

definition add_signer :: "'e GuildEnv_scheme \<Rightarrow> PetitionSignature \<Rightarrow> gs \<Rightarrow> gs" where
  "add_signer E x s = (if sg_playerGuid x = 0 then s else snd (AddMember E (sg_playerGuid x) (GetLowestRank (fst s)) s))"

lemma Create_petition_alt:
  "Create_petition E petition leader s =
     (case Create E leader (pt_name petition) s of
        (False, s1) \<Rightarrow> (False, s1)
      | (True, s1) \<Rightarrow> (True, fold (add_signer E) (pt_signatures petition) s1))"
proof -
  have "add_signer E = (\<lambda>x s. if sg_playerGuid x = 0 then s else snd (AddMember E (sg_playerGuid x) (GetLowestRank (fst s)) s))"
    by (simp add: fun_eq_iff add_signer_def)
  then show ?thesis unfolding Create_petition_def by (simp only:)
qed

lemma add_signer_step:
  assumes f: "fine i (g, w)" and E: "guild_env_ok E" and o: "\<forall>j y. in_table (gd_member (w_gdb w)) (sg_playerGuid x) j y \<longrightarrow> j = i"
  obtains g' w' where "add_signer E x (g, w) = (g', w')" "fine i (g', w')" "m_LeaderGuid g' = m_LeaderGuid g" "m_Name g' = m_Name g"
    "m_Ranks g' = m_Ranks g" "\<And>k. k \<noteq> sg_playerGuid x \<Longrightarrow> w_players w' k = w_players w k"
    "\<And>k j y. k \<noteq> sg_playerGuid x \<Longrightarrow> in_table (gd_member (w_gdb w')) k j y \<longleftrightarrow> in_table (gd_member (w_gdb w)) k j y"
    "\<And>k y. has_rank g' k y \<longleftrightarrow>
       has_rank g k y \<or> (joins E w (sg_playerGuid x) \<and> (\<forall>z. \<not> has_rank g (sg_playerGuid x) z)) \<and> k = sg_playerGuid x \<and>
         y = join_rank E w i k (GetLowestRank g)"
proof (cases "sg_playerGuid x = 0")
  case True
  then show thesis using that [of g w] f by (auto simp: add_signer_def joins_def)
next
  case False
  obtain st g' w' where a: "AddMember E (sg_playerGuid x) (GetLowestRank g) (g, w) = (st, g', w')" "fine i (g', w')"
      "m_LeaderGuid g' = m_LeaderGuid g"
      "\<And>k y. has_rank g' k y \<longleftrightarrow>
         has_rank g k y \<or> (joins E w (sg_playerGuid x) \<and> (\<forall>z. \<not> has_rank g (sg_playerGuid x) z)) \<and> k = sg_playerGuid x \<and>
           y = join_rank E w i (sg_playerGuid x) (GetLowestRank g)"
    using AddMember_signer [OF f E False o] by blast
  show thesis by (rule that [of g' w']) (use a AddMember_frame [OF a(1)] False in \<open>auto simp: add_signer_def\<close>)
qed

lemma joins_cong: "w_players w' k = w_players w k \<Longrightarrow> joins E w' k = joins E w k \<and> join_rank E w' i k r = join_rank E w i k r"
  by (simp add: joins_def join_rank_def)

lemma add_signers:
  assumes "fine i (g, w)" and "guild_env_ok E" and "distinct (map sg_playerGuid xs)"
    and "\<forall>x \<in> set xs. \<forall>j y. in_table (gd_member (w_gdb w)) (sg_playerGuid x) j y \<longrightarrow> j = i"
  shows "\<exists>g' w'. fold (add_signer E) xs (g, w) = (g', w') \<and> fine i (g', w') \<and> m_LeaderGuid g' = m_LeaderGuid g \<and> m_Name g' = m_Name g \<and>
    (\<forall>k. k \<notin> sg_playerGuid ` set xs \<longrightarrow> w_players w' k = w_players w k) \<and>
    (\<forall>k y. has_rank g' k y \<longleftrightarrow> has_rank g k y \<or>
       k \<in> sg_playerGuid ` set xs \<and> joins E w k \<and> (\<forall>z. \<not> has_rank g k z) \<and> y = join_rank E w i k (GetLowestRank g))"
  using assms
proof (induction xs arbitrary: g w)
  case (Cons x xs)
  obtain g1 w1 where 1: "add_signer E x (g, w) = (g1, w1)" "fine i (g1, w1)" "m_LeaderGuid g1 = m_LeaderGuid g" "m_Name g1 = m_Name g"
    "m_Ranks g1 = m_Ranks g" "\<And>k. k \<noteq> sg_playerGuid x \<Longrightarrow> w_players w1 k = w_players w k"
    "\<And>k j y. k \<noteq> sg_playerGuid x \<Longrightarrow> in_table (gd_member (w_gdb w1)) k j y \<longleftrightarrow> in_table (gd_member (w_gdb w)) k j y"
    "\<And>k y. has_rank g1 k y \<longleftrightarrow>
       has_rank g k y \<or> (joins E w (sg_playerGuid x) \<and> (\<forall>z. \<not> has_rank g (sg_playerGuid x) z)) \<and> k = sg_playerGuid x \<and>
         y = join_rank E w i k (GetLowestRank g)"
    by (rule add_signer_step [OF Cons.prems(1,2), of x]) (use Cons.prems(4) in auto)
  have d: "distinct (map sg_playerGuid xs)" "sg_playerGuid x \<notin> sg_playerGuid ` set xs" using Cons.prems(3) by simp_all
  then have ne: "sg_playerGuid y \<noteq> sg_playerGuid x" if "y \<in> set xs" for y using that d(2) by (metis imageI)
  have o1: "\<forall>y \<in> set xs. \<forall>j z. in_table (gd_member (w_gdb w1)) (sg_playerGuid y) j z \<longrightarrow> j = i"
    using Cons.prems(4) 1(7) [OF ne] by simp
  obtain g2 w2 where 2: "fold (add_signer E) xs (g1, w1) = (g2, w2)" "fine i (g2, w2)" "m_LeaderGuid g2 = m_LeaderGuid g1" "m_Name g2 = m_Name g1"
    "\<forall>k. k \<notin> sg_playerGuid ` set xs \<longrightarrow> w_players w2 k = w_players w1 k"
    "\<forall>k y. has_rank g2 k y \<longleftrightarrow> has_rank g1 k y \<or>
       k \<in> sg_playerGuid ` set xs \<and> joins E w1 k \<and> (\<forall>z. \<not> has_rank g1 k z) \<and> y = join_rank E w1 i k (GetLowestRank g1)"
    using Cons.IH [OF 1(2) Cons.prems(2) d(1) o1] by blast
  have l: "GetLowestRank g1 = GetLowestRank g" by (simp add: GetLowestRank_def 1(5))
  have c: "joins E w1 k = joins E w k" "join_rank E w1 i k r = join_rank E w i k r" "has_rank g1 k z = has_rank g k z"
    if "k \<in> sg_playerGuid ` set xs" for k r z
  proof -
    have k: "k \<noteq> sg_playerGuid x" using that d(2) by metis
    from joins_cong [OF 1(6) [OF k], of E i r] k show "joins E w1 k = joins E w k" "join_rank E w1 i k r = join_rank E w i k r" "has_rank g1 k z = has_rank g k z"
      by (simp_all add: 1(8))
  qed
  have "has_rank g2 k y \<longleftrightarrow> has_rank g k y \<or>
      k \<in> sg_playerGuid ` set (x # xs) \<and> joins E w k \<and> (\<forall>z. \<not> has_rank g k z) \<and> y = join_rank E w i k (GetLowestRank g)" for k y
    using 2(6) [rule_format, of k y] 1(8) [of k y] c l d(2) by auto
  then show ?case using 1 2 by auto
qed auto

text \<open>A player without a guild turns a petition in whose signers are in no guild.\<close>

lemma Create_petition_fine:
  assumes w: "world_ok w" and E: "guild_env_ok E" and me: "me \<noteq> 0"
    and i: "gv_newGuildId E \<noteq> 0" "GetGuildById w (gv_newGuildId E) = None"
    and p: "w_players w me = Some p" "gp_guildId p = 0" and pt: "petition \<in> set (w_petitions w)"
    and gn: "GetGuildByName w (pt_name petition) = None"
  obtains g w' where "Create_petition E petition me (new_Guild, w) = (True, g, w')" "fine (gv_newGuildId E) (g, w')" "m_Name g = pt_name petition"
    "m_LeaderGuid g = me"
    "\<And>k y. has_rank g k y \<longleftrightarrow> k = me \<and> y = 0 \<or>
       k \<noteq> me \<and> k \<in> sg_playerGuid ` set (pt_signatures petition) \<and> joins E w k \<and> y = join_rank E w (gv_newGuildId E) k 4"
proof -
  let ?i = "gv_newGuildId E" and ?xs = "pt_signatures petition"
  obtain g1 w1 where 1: "Create E me (pt_name petition) (new_Guild, w) = (True, g1, w1)" "fine ?i (g1, w1)" "m_Name g1 = pt_name petition"
    "m_LeaderGuid g1 = me" "length (m_Ranks g1) = 5" "\<And>k x. has_rank g1 k x \<longleftrightarrow> k = me \<and> x = 0"
    "\<And>k. k \<noteq> me \<Longrightarrow> w_players w1 k = w_players w k"
    "\<And>k j x. k \<noteq> me \<Longrightarrow> in_table (gd_member (w_gdb w1)) k j x \<longleftrightarrow> in_table (gd_member (w_gdb w)) k j x"
    by (rule Create_fine [OF w E me i p gn]) blast
  have sg: "set (map sg_playerGuid ?xs) \<subseteq> set (signers (w_petitions w))" using pt by (auto simp: signers_def)
  have d: "distinct (map sg_playerGuid ?xs)"
    using world_petitionsD(3) [OF w] split_list [OF pt] by (auto simp: signers_def)
  have b1: "base ?i (g1, w1)" using 1(2) by (simp add: fine_def)
  have "j = ?i" if "x \<in> set ?xs" "in_table (gd_member (w_gdb w1)) (sg_playerGuid x) j y" for x j y
  proof (cases "sg_playerGuid x = me")
    case True
    have "in_table (gd_member (w_gdb w1)) me ?i 0" using base_has [OF b1, of me ?i 0] 1(6) by simp
    then show ?thesis using base_unique [OF b1 that(2) [unfolded True]] by blast
  next
    case False
    with that sg world_petitionsD(4) [OF w] 1(8) show ?thesis by auto
  qed
  then have o: "\<forall>x \<in> set ?xs. \<forall>j y. in_table (gd_member (w_gdb w1)) (sg_playerGuid x) j y \<longrightarrow> j = ?i" by blast
  obtain g2 w2 where 2: "fold (add_signer E) ?xs (g1, w1) = (g2, w2)" "fine ?i (g2, w2)" "m_LeaderGuid g2 = m_LeaderGuid g1" "m_Name g2 = m_Name g1"
    "\<And>k y. has_rank g2 k y \<longleftrightarrow> has_rank g1 k y \<or>
       k \<in> sg_playerGuid ` set ?xs \<and> joins E w1 k \<and> (\<forall>z. \<not> has_rank g1 k z) \<and> y = join_rank E w1 ?i k (GetLowestRank g1)"
    using add_signers [OF 1(2) E d o] by blast
  have l: "GetLowestRank g1 = 4" by (simp add: GetLowestRank_def 1(5))
  have "has_rank g2 k y \<longleftrightarrow> k = me \<and> y = 0 \<or> k \<noteq> me \<and> k \<in> sg_playerGuid ` set ?xs \<and> joins E w k \<and> y = join_rank E w ?i k 4" for k y
  proof (cases "k = me")
    case True
    then show ?thesis by (auto simp: 2(5) 1(6))
  next
    case False
    with joins_cong [OF 1(7) [OF False], of E ?i] show ?thesis by (simp add: 2(5) 1(6) l)
  qed
  with that [of g2 w2] 1 2 show thesis by (simp add: Create_petition_alt)
qed

end
