(* ===== verification/Petition_Run.thy ===== *)
theory Petition_Run
  imports Petition_Found
begin

text \<open>
  The petition opcodes keep the invariant of the guild world, and with them every run of the guild
  system: guild and petition opcodes, logins and logouts, destroyed items, deleted characters, deaths of hardcore
  leaders and the timer of the guild manager.
\<close>

section \<open>Items\<close>

text \<open>Storing and destroying items leave the player's identity, rank and money alone, whatever the state
  of the inventory.\<close>

lemma frame_DestroyItem_upto: "pl_frame (DestroyItem_upto n E b s u P) = pl_frame P"
proof (induction n arbitrary: b s P)
  case (Suc n)
  have "pl_frame (fold (\<lambda>i Q. DestroyItem_upto n E s (of_nat i) u Q) xs P) = pl_frame P" for xs :: "nat list" and P
    by (rule pl_frame_fold) (rule Suc)
  then show ?case by (simp add: Let_def split: option.split)
qed simp

lemma frame_DestroyItem: "pl_frame (DestroyItem E b s u P) = pl_frame P"
  by (simp add: DestroyItem_def frame_DestroyItem_upto)

lemma frame_CreateItem: "pl_frame (snd (CreateItem E e n P)) = pl_frame P"
  by (simp add: CreateItem_def Let_def alloc_item_def split_def split: option.split)

lemma frame_StoreItem_at: "pl_frame (snd (StoreItem_at E pos p n c u P)) = pl_frame P"
  using frame_CreateItem [of E "i_entry (iheap P p)" n P]
  by (auto simp: StoreItem_at_def CloneItem_def Let_def split: option.split prod.split)

lemma frame_StoreItem: "pl_frame (snd (StoreItem E dest p u P)) = pl_frame P"
  by (induction E dest p u P rule: StoreItem.induct) (simp_all add: frame_StoreItem_at)

lemma frame_StoreNewItem: "pl_frame (snd (StoreNewItem E dest item u r P)) = pl_frame P"
  using frame_CreateItem [of E item "dest_count dest" P]
  by (auto simp: StoreNewItem_def Let_def frame_StoreItem split: option.split prod.split)

lemma frame_rank: "pl_frame P = pl_frame Q \<Longrightarrow> pl_rank P = pl_rank Q"
  by (simp add: pl_frame_def)

lemma fold_DeletePetition_ok: "world_ok w \<Longrightarrow> world_ok (fold DeletePetition is w)"
  by (induction "is" arbitrary: w) (simp_all add: DeletePetition_ok)

lemma Player_DestroyItem_ok:
  assumes w: "world_ok w"
  shows "world_ok (Player_DestroyItem E me b s w)"
proof (cases "w_players w me")
  case (Some p)
  have "world_ok (set_player me (p\<lparr>gp_pl := DestroyItem (item_env E w) b s True (gp_pl p)\<rparr>) w)"
    by (rule world_player [OF w Some]) (simp_all add: frame_rank [OF frame_DestroyItem])
  then show ?thesis using Some by (simp add: Player_DestroyItem_def Let_def fold_DeletePetition_ok)
qed (use w in \<open>simp add: Player_DestroyItem_def\<close>)

section \<open>The petition map\<close>

lemma signers_mset: "mset (signers ps) = sum_mset (image_mset (\<lambda>p. mset (map sg_playerGuid (pt_signatures p))) (mset ps))"
  by (induction ps) simp_all

lemma signers_perm:
  assumes "mset qs = mset ps"
  shows "distinct (map pt_id qs) = distinct (map pt_id ps)" "distinct (signers qs) = distinct (signers ps)" "set (signers qs) = set (signers ps)"
proof -
  have a: "mset (signers qs) = mset (signers ps)" using assms by (simp add: signers_mset)
  then show "distinct (signers qs) = distinct (signers ps)" "set (signers qs) = set (signers ps)"
    by (rule mset_eq_imp_distinct_iff, metis a set_mset_mset)
  have "mset (map pt_id qs) = mset (map pt_id ps)" using assms by simp
  then show "distinct (map pt_id qs) = distinct (map pt_id ps)" by (rule mset_eq_imp_distinct_iff)
qed

text \<open>A petition without signatures comes into the map, or replaces one with its id.\<close>

lemma replaced_signers:
  assumes "pt_signatures q = []"
  shows "set (signers (map (\<lambda>p. if P p then q else p) ps)) \<subseteq> set (signers ps)"
    "distinct (signers ps) \<Longrightarrow> distinct (signers (map (\<lambda>p. if P p then q else p) ps))"
proof -
  have a: "set (signers (map (\<lambda>p. if P p then q else p) ps)) \<subseteq> set (signers ps)" for ps using assms by (induction ps) auto
  then show "set (signers (map (\<lambda>p. if P p then q else p) ps)) \<subseteq> set (signers ps)" .
  show "distinct (signers ps) \<Longrightarrow> distinct (signers (map (\<lambda>p. if P p then q else p) ps))"
  proof (induction ps)
    case (Cons p ps)
    with a [of ps] assms show ?case by auto
  qed simp
qed

lemma map_ids: "map pt_id (map (\<lambda>p. if pt_id p = i then f p else p) ps) = map pt_id ps" if "\<And>p. pt_id p = i \<Longrightarrow> pt_id (f p) = i"
  using that by (induction ps) auto

lemma upd_petition_keeps [simp]:
  "w_guilds (upd_petition i f w) = w_guilds w" "w_players (upd_petition i f w) = w_players w"
  "w_guid2guild (upd_petition i f w) = w_guid2guild w" "w_gdb (upd_petition i f w) = w_gdb w"
  "w_petitions (upd_petition i f w) = map (\<lambda>p. if pt_id p = i then f p else p) (w_petitions w)"
  by (simp_all add: upd_petition_def)

lemma put_petition_ok:
  assumes w: "world_ok w" and E: "guild_env_ok E" and q: "pt_signatures q = []"
  shows "world_ok (put_petition E q w)"
proof (cases "pt_id q \<in> set (map pt_id (w_petitions w))")
  case True
  note d = world_petitionsD(2-4) [OF w]
  show ?thesis using True d replaced_signers [OF q, where ps = "w_petitions w" and P = "\<lambda>p. pt_id p = pt_id q"]
    by (intro world_petitions [OF w]) (auto simp: put_petition_def map_ids [unfolded map_map])
next
  case False
  have m: "mset (gv_porder E (w_petitions w @ [q])) = mset (w_petitions w @ [q])" using E by (simp add: guild_env_ok_def)
  note d = world_petitionsD(2-4) [OF w]
  show ?thesis using False d q signers_perm [OF m]
    by (intro world_petitions [OF w]) (auto simp: put_petition_def)
qed

lemma gsql_ok:
  assumes "world_ok w" and "\<And>d. gd_member (exec_gsql st d) = gd_member d"
  shows "world_ok (gsql st w)"
  using world_petitionsD(2-4) [OF assms(1)] by (intro world_petitions [OF assms(1)]) (simp_all add: assms(2))

lemma CreatePetition_ok:
  assumes "world_ok w" and "guild_env_ok E"
  shows "world_ok (CreatePetition E i me t c n w)"
  using assms unfolding CreatePetition_def Let_def Petition_SaveToDB_def
  by (intro put_petition_ok gsql_ok) simp_all

lemma Petition_Rename_ok:
  assumes w: "world_ok w"
  shows "world_ok (Petition_Rename i n w)"
proof -
  have s: "signers (map (\<lambda>p. if pt_id p = i then p\<lparr>pt_name := n\<rparr> else p) ps) = signers ps" for ps by (induction ps) auto
  show ?thesis using world_petitionsD(2-4) [OF w]
    by (intro world_petitions [OF w]) (auto simp: Petition_Rename_def s map_ids [unfolded map_map])
qed

section \<open>Signing\<close>

lemma mset_signed:
  assumes "distinct (map pt_id ps)" and "i \<in> set (map pt_id ps)"
  shows "mset (signers (map (\<lambda>p. if pt_id p = i then AddSignature x p else p) ps)) = add_mset (sg_playerGuid x) (mset (signers ps))"
  using assms
proof (induction ps)
  case (Cons p ps)
  show ?case
  proof (cases "pt_id p = i")
    case True
    have "pt_id q \<noteq> i" if "q \<in> set ps" for q using that True Cons.prems(1) by (metis distinct.simps(2) imageI list.set_map list.simps(9))
    then have "map (\<lambda>p. if pt_id p = i then AddSignature x p else p) ps = ps" by (intro map_idI) simp
    then show ?thesis using True by (simp add: AddSignature_def)
  qed (use Cons in simp)
qed simp

text \<open>A player who has signed nothing and is in no guild signs.\<close>

lemma AddNewSignature_ok:
  assumes w: "world_ok w" and me: "me \<notin> set (signers (w_petitions w))" "\<And>i x. \<not> in_table (gd_member (w_gdb w)) me i x"
  shows "world_ok (snd (AddNewSignature E i me acc w))"
proof (cases "GetPetitionById w i")
  case (Some q)
  then have q: "q \<in> set (w_petitions w)" "pt_id q = i" by (auto simp: GetPetitionById_def find_Some_iff)
  note d = world_petitionsD(2-4) [OF w]
  let ?x = "\<lparr>sg_playerGuid = me, sg_playerAccount = acc\<rparr>"
  let ?ps = "map (\<lambda>p. if pt_id p = i then AddSignature ?x p else p) (w_petitions w)"
  have i: "i \<in> set (map pt_id (w_petitions w))" using q by (metis imageI list.set_map)
  have m: "mset (signers ?ps) = mset (me # signers (w_petitions w))" using mset_signed [OF d(1) i, of ?x] by simp
  have "distinct (signers ?ps)" using mset_eq_imp_distinct_iff [OF m] me d by simp
  moreover have "set (signers ?ps) = insert me (set (signers (w_petitions w)))" using m [THEN arg_cong, of set_mset] by (simp only: set_mset_mset list.simps(15))
  moreover have "map pt_id ?ps = map pt_id (w_petitions w)" by (rule map_ids) (simp add: AddSignature_def)
  then have "distinct (map pt_id ?ps)" using d(1) by (simp only:)
  ultimately have "world_ok (upd_petition i (AddSignature ?x) (PetitionSignature_SaveToDB q ?x w))"
    using d me by (intro world_petitions [OF w]) (auto simp: PetitionSignature_SaveToDB_def)
  then show ?thesis using Some w by (simp add: AddNewSignature_def Let_def)
qed (use w in \<open>simp add: AddNewSignature_def\<close>)

lemma no_guild_world:
  assumes w: "world_ok w" and p: "w_players w me = Some p" "gp_guildId p = 0"
  shows "\<not> in_table (gd_member (w_gdb w)) me i x"
proof
  assume t: "in_table (gd_member (w_gdb w)) me i x"
  have "players_ok w" using w by (simp add: world_ok_def)
  from players_okD(2) [OF this p(1) t] p(2) have "i = 0" by simp
  moreover have "in_guilds (w_guilds w) me i x" using t w by (simp add: world_ok_def member_table_ok_def)
  ultimately obtain g where "map_of (w_guilds w) 0 = Some g" by (auto simp: in_guilds_def)
  with w show False unfolding world_ok_def guilds_ok_def by blast
qed

lemma HandlePetitionSignOpcode_ok:
  assumes w: "world_ok w"
  shows "world_ok (HandlePetitionSignOpcode E me c w)"
proof -
  have "world_ok w1" if p: "w_players w me = Some p" "gp_guildId p = 0" and a: "AddNewSignature E i me acc (unsign me w) = (b, w1)" for p i acc b w1
  proof -
    have "world_ok (snd (AddNewSignature E i me acc (unsign me w)))"
      using unsign_petitions [OF world_petitionsD(1) [OF w], of me] no_guild_world [OF w p]
      by (intro AddNewSignature_ok unsign_world [OF w]) auto
    with a show ?thesis by simp
  qed
  then show ?thesis using w by (auto simp: HandlePetitionSignOpcode_def Let_def split: option.split prod.split bool.split)
qed

section \<open>Buying and turning in\<close>

lemma remove_feign_keeps [simp]:
  "w_players (remove_feign E me w) = w_players w" "w_petitions (remove_feign E me w) = w_petitions w" "w_guilds (remove_feign E me w) = w_guilds w"
  "world_ok (remove_feign E me w) = world_ok w"
  by (simp_all add: remove_feign_def)

lemma buy_charter_ok:
  assumes w: "world_ok w" and E: "guild_env_ok E" and p: "w_players w me = Some p"
  shows "world_ok (buy_charter E me p name dest w)"
proof -
  let ?E = "item_env E w"
  let ?s = "StoreNewItem ?E dest GUILD_CHARTER True 0 (ModifyMoney ?E (- GUILD_CHARTER_COST) (gp_pl p))"
  have r: "pl_rank (snd ?s) = pl_rank (gp_pl p)" by (simp add: frame_rank [OF frame_StoreNewItem])
  have "pl_rank (set_charter_petition c i P) = pl_rank P" for c i P by (rule frame_rank) (simp add: set_charter_petition_def)
  then have "world_ok (set_player me (p\<lparr>gp_pl := set_charter_petition c i (snd ?s)\<rparr>) w)" "world_ok (set_player me (p\<lparr>gp_pl := snd ?s\<rparr>) w)" for c i
    by (auto intro!: world_player [OF w p] simp: r)
  then show ?thesis using E by (simp add: buy_charter_def Let_def split_def CreatePetition_ok split: option.split)
qed

lemma HandlePetitionBuyOpcode_ok:
  assumes w: "world_ok w" and E: "guild_env_ok E"
  shows "world_ok (HandlePetitionBuyOpcode E me npc name w)"
  using w by (auto simp: HandlePetitionBuyOpcode_def Let_def split: option.split prod.split intro!: buy_charter_ok [OF _ E])

lemma HandleTurnInPetitionOpcode_ok:
  assumes w: "world_ok w" and E: "guild_env_ok E" and me: "me \<noteq> 0"
    and i: "gv_newGuildId E \<noteq> 0" "GetGuildById w (gv_newGuildId E) = None"
  shows "world_ok (HandleTurnInPetitionOpcode E me c w)"
proof -
  have "\<exists>s. Create_petition E petition me (new_Guild, w) = (True, s) \<and> world_ok (AddGuild E s)"
    if p: "w_players w me = Some p" "gp_guildId p = 0" and q: "GetPetitionById w j = Some petition"
      and g: "GetGuildByName w (pt_name petition) = None" for p j petition
  proof -
    have "petition \<in> set (w_petitions w)" using q by (auto simp: GetPetitionById_def find_Some_iff)
    then obtain g1 w1 where "Create_petition E petition me (new_Guild, w) = (True, g1, w1)" "fine (gv_newGuildId E) (g1, w1)"
      by (rule Create_petition_fine [OF w E me i p _ g]) blast
    then show ?thesis by (auto intro: AddGuild_ok)
  qed
  then show ?thesis using w
    by (fastforce simp: HandleTurnInPetitionOpcode_def split: option.split intro!: Player_DestroyItem_ok DeletePetition_ok)
qed

lemma handle_petition_ok:
  assumes w: "world_ok w" and E: "guild_env_ok E" and me: "me \<noteq> 0"
    and i: "gv_newGuildId E \<noteq> 0" "GetGuildById w (gv_newGuildId E) = None"
  shows "world_ok (handle_petition E me op w)"
  using w
  by (cases op)
    (auto simp: HandlePetitionSignOpcode_ok HandlePetitionBuyOpcode_ok [OF w E] HandleTurnInPetitionOpcode_ok [OF w E me i] Petition_Rename_ok
      SendPetitionShowList_def HandlePetitionShowSignOpcode_def HandlePetitionDeclineOpcode_def HandleOfferPetitionOpcode_def
      HandlePetitionQueryOpcode_def HandlePetitionRenameOpcode_def split: option.split)

section \<open>Runs\<close>

text \<open>What happens to the guild world, one thing at a time, each with its own environment: an opcode
  or a petition opcode of a player, a login, a logout, the destruction of an item, a change of a player object by other parts of the server (which
  never write its guild or its rank), the deletion of a character, the death of a hardcore leader,
  a tick of the guild manager.\<close>

datatype guild_step =
    Opcode uint32 guild_opcode
  | PetitionOpcode uint32 petition_opcode
  | Login uint32 GuildPlayer
  | Logout uint32
  | ItemDestroyed uint32 uint8 uint8
  | Elsewhere uint32 "GuildPlayer \<Rightarrow> GuildPlayer"
  | DeleteCharacter uint32
  | HardcoreDeath uint32
  | Tick uint32

fun guild_do :: "GuildEnv \<times> guild_step \<Rightarrow> GWorld \<Rightarrow> GWorld" where
  "guild_do (E, Opcode me op) w = handle_guild E me op w"
| "guild_do (E, PetitionOpcode me op) w = handle_petition E me op w"
| "guild_do (E, ItemDestroyed me bag slot) w = Player_DestroyItem E me bag slot w"
| "guild_do (E, Login k p) w = set_player k (LoadGuild w k p) w"
| "guild_do (E, Logout k) w = (let w1 = LogoutPlayer_guild E k w in w1\<lparr>w_players := (w_players w1)(k := None)\<rparr>)"
| "guild_do (E, Elsewhere k f) w = (case w_players w k of None \<Rightarrow> w | Some p \<Rightarrow> set_player k (f p) w)"
| "guild_do (E, DeleteCharacter k) w = DeleteFromDB_guild E k w"
| "guild_do (E, HardcoreDeath k) w = hardcore_succession E k w"
| "guild_do (E, Tick diff) w = GuildMgr_Update E diff w"

text \<open>The environment keeps its laws, the id generator gives an unused id, and the session's player
  has a guid.\<close>

fun guild_may :: "GuildEnv \<times> guild_step \<Rightarrow> GWorld \<Rightarrow> bool" where
  "guild_may (E, Opcode me op) w \<longleftrightarrow>
     guild_env_ok E \<and> me \<noteq> 0 \<and> gv_newGuildId E \<noteq> 0 \<and> GetGuildById w (gv_newGuildId E) = None"
| "guild_may (E, PetitionOpcode me op) w \<longleftrightarrow>
     guild_env_ok E \<and> me \<noteq> 0 \<and> gv_newGuildId E \<noteq> 0 \<and> GetGuildById w (gv_newGuildId E) = None"
| "guild_may (E, Elsewhere k f) w \<longleftrightarrow>
     (\<forall>p. w_players w k = Some p \<longrightarrow> gp_guildId (f p) = gp_guildId p \<and> pl_rank (gp_pl (f p)) = pl_rank (gp_pl p))"
| "guild_may _ w \<longleftrightarrow> True"

lemma guild_do_ok:
  assumes w: "world_ok w" and may: "guild_may (E, x) w"
  shows "world_ok (guild_do (E, x) w)"
proof (cases x)
  case (Opcode me op)
  with may have "guild_env_ok E" "me \<noteq> 0" "gv_newGuildId E \<noteq> 0" "GetGuildById w (gv_newGuildId E) = None" by simp_all
  from handle_guild_ok [OF w this] show ?thesis by (simp add: Opcode)
next
  case (PetitionOpcode me op)
  with may have "guild_env_ok E" "me \<noteq> 0" "gv_newGuildId E \<noteq> 0" "GetGuildById w (gv_newGuildId E) = None" by simp_all
  from handle_petition_ok [OF w this] show ?thesis by (simp add: PetitionOpcode)
next
  case (Logout k)
  have w1: "world_ok (LogoutPlayer_guild E k w)" by (rule LogoutPlayer_guild_ok [OF w])
  then have "players_ok ((LogoutPlayer_guild E k w)\<lparr>w_players := (w_players (LogoutPlayer_guild E k w))(k := None)\<rparr>)"
    unfolding world_ok_def players_ok_def by simp
  then show ?thesis using w1 by (simp add: Logout Let_def world_ok_def member_table_ok_def)
next
  case (Elsewhere k f)
  then show ?thesis using w may world_player [OF w] by (auto split: option.split)
qed (simp_all add: w login_ok Player_DestroyItem_ok DeleteFromDB_guild_ok hardcore_succession_ok GuildMgr_Update_ok)

interpretation gr: guarded guild_do guild_may world_ok
  by unfold_locales (metis guild_do_ok surj_pair)

end
