(* ===== verification/Props_Guild.thy ===== *)
theory Props_Guild
  imports Guild_Sample Guild_Load Petition_Run
begin

unbundle bit_operations_syntax

text \<open>
  The properties of the guilds, over the lemmas of the guild theories.
\<close>

text \<open>C12: In any run of guild opcodes, petition opcodes, logins, logouts, destroyed items, other changes of player objects, deletions of
  characters, deaths of hardcore leaders and ticks of the guild manager that starts in a consistent
  guild world, the world stays consistent: each guild has distinct members, five to ten ranks and
  exactly one guild master, who is its leader; the member table holds exactly the members with their
  ranks; the player objects and the manager's index name the guild of each member; the petitions have
  distinct ids, and a player has signed at most one of them and is then in no guild. This holds while
  each step has an environment that keeps its laws: an iteration order permutes the members, a
  script neither makes nor unmakes a guild master when a member joins, and the id generator gives
  unused ids.\<close>

theorem guild_run_consistent:
  assumes "world_ok w" and "guarded_run guild_do guild_may steps w"
  shows "world_ok (fold guild_do steps w)"
  using assms by (rule gr.run_good)

lemma HandlePetitionSignOpcode_guilds: "w_guilds (HandlePetitionSignOpcode E me c w) = w_guilds w"
proof -
  have "w_guilds v = w_guilds u" if "AddNewSignature E i me acc u = (b, v)" for i acc u b v
    using that by (auto simp: AddNewSignature_def Let_def PetitionSignature_SaveToDB_def split: option.splits if_splits)
  from this [of _ _ "unsign me w"] show ?thesis
    by (auto simp: HandlePetitionSignOpcode_def Let_def split: option.split prod.split bool.split)
qed

theorem guild_run_consistent_witness:
  "world_ok (fold guild_do
     [(charter_genv, Login 9 (sample_gplayer 9 ''Drekthar'' 0)), (charter_genv, PetitionOpcode 11 (CMSG_PETITION_SIGN (item_guid 12007))),
      (charter_genv, PetitionOpcode 10 (CMSG_TURN_IN_PETITION (item_guid 10002))), (charter_genv, DeleteCharacter 7),
      (charter_genv, HardcoreDeath 8), (charter_genv, ItemDestroyed 10 255 24), (charter_genv, Logout 9), (charter_genv, Tick 1000)] charter_world)"
  by (rule guild_run_consistent [of charter_world]) (simp_all add: GetGuildById_def HandlePetitionSignOpcode_guilds)

text \<open>C13: Whatever guild opcode a player sends, another member's place in a guild changes only by authority: the
  player is in the same guild, and is its leader or holds the right to promote, demote or remove
  and has a better rank than the member, before and, if the member is still there, after.\<close>

theorem handle_guild_authority:
  assumes "world_ok w" and "guild_env_ok E" and "me \<noteq> 0" and "GetGuildById w (gv_newGuildId E) = None"
    and "w_players w me = Some p" and "k \<noteq> me" and "in_guilds (w_guilds w) k i x"
  shows "in_guilds (w_guilds (handle_guild E me op w)) k i x \<or>
    gp_guildId p = i \<and> (\<exists>g. GetGuildById w i = Some g \<and>
     (m_LeaderGuid g = me \<or>
      (HasRankRight g (GetRank_pl p) GR_RIGHT_PROMOTE \<or> HasRankRight g (GetRank_pl p) GR_RIGHT_DEMOTE \<or>
       HasRankRight g (GetRank_pl p) GR_RIGHT_REMOVE) \<and>
      GetRank_pl p < x \<and> (\<forall>x'. in_guilds (w_guilds (handle_guild E me op w)) k i x' \<longrightarrow> GetRank_pl p < x')))"
  using handle_guild_allowed [OF assms(1-6), of op] assms(7) unfolding allowed_def authority_def by blast

theorem handle_guild_authority_witness:
  "in_guilds (w_guilds (handle_guild sample_genv 8 (CMSG_GUILD_REMOVE ''Thrall'') sample_world)) 7 3 0 \<or>
    gp_guildId (sample_gplayer 8 ''Garona'' 5) = 3 \<and> (\<exists>g. GetGuildById sample_world 3 = Some g \<and>
     (m_LeaderGuid g = 8 \<or>
      (HasRankRight g (GetRank_pl (sample_gplayer 8 ''Garona'' 5)) GR_RIGHT_PROMOTE \<or>
       HasRankRight g (GetRank_pl (sample_gplayer 8 ''Garona'' 5)) GR_RIGHT_DEMOTE \<or>
       HasRankRight g (GetRank_pl (sample_gplayer 8 ''Garona'' 5)) GR_RIGHT_REMOVE) \<and>
      GetRank_pl (sample_gplayer 8 ''Garona'' 5) < 0 \<and>
      (\<forall>x'. in_guilds (w_guilds (handle_guild sample_genv 8 (CMSG_GUILD_REMOVE ''Thrall'') sample_world)) 7 3 x' \<longrightarrow>
        GetRank_pl (sample_gplayer 8 ''Garona'' 5) < x')))"
  by (rule handle_guild_authority [of sample_world sample_genv 8 "sample_gplayer 8 ''Garona'' 5" 7 3 0])
     (simp_all add: GetGuildById_def sample_players in_guilds_def sample_has)

text \<open>C26: loading repairs a guild. Let the guild have at most N rank rows, N from 5 to 2^31 (the loader has no limit of its own, and
  the structure check reads ranks as signed numbers). Whatever else the tables hold, once the ranks and at
  least one member are loaded the structure check succeeds and leaves distinct members under their own
  guids, each with a rank that exists, at least five and at most N ranks, and exactly one guild master,
  the leader; a leader who is no member is replaced, a leader with another rank gets the first one, and
  other guild masters become officers.\<close>

theorem loaded_guild_repaired:
  assumes "guild_env_ok E" and "5 \<le> N" "N \<le> 2 ^ 31"
    and "\<And>rows. ranks = Some rows \<Longrightarrow> length (filter (\<lambda>x. rr_guildid x = gr_guildid r) rows) \<le> N"
    and "LoadRanksFromDB E ranks (LoadGuildFromDB E r new_Guild, w) = (ranks1, s1)"
    and "LoadMembersFromDB E mems s1 = (True, mems1, s2)"
  shows "\<exists>s3. CheckGuildStructure E s2 = (True, s3) \<and> distinct (map fst (members (fst s3))) \<and>
    (\<forall>(k, m) \<in> set (members (fst s3)). ms_guid m = k \<and> unat (ms_RankId m) < length (m_Ranks (fst s3))) \<and>
    5 \<le> length (m_Ranks (fst s3)) \<and> length (m_Ranks (fst s3)) \<le> N \<and> master_ok (fst s3)"
proof -
  let ?g = "LoadGuildFromDB E r new_Guild"
  have g: "m_Id ?g = gr_guildid r" "m_Ranks ?g = []" "members ?g = []" by (simp_all add: LoadGuildFromDB_def Let_def)
  from LoadRanksFromDB_guild [OF assms(5) _ _ assms(2)] assms(4)
  have "valid_roster N (fst s1)" by (simp add: g valid_roster_def)
  moreover obtain rows rest g2 w2 where l: "load_member_rows E rows s1 = (rest, g2, w2)" "members g2 \<noteq> []" "fst s2 = UpdateAccountsNumber g2"
    using assms(6) by (auto simp: LoadMembersFromDB_def split: option.splits prod.splits if_splits)
  ultimately have "valid_roster N g2" using load_member_rows_base [OF assms(3,1) _ l(1)] by simp
  then have "valid_roster N (fst s2)" "members (fst s2) \<noteq> []" using l by (simp_all add: valid_roster_def)
  from CheckGuildStructure_repairs [OF this assms(3)] show ?thesis unfolding valid_roster_def by blast
qed

text \<open>The leader of the sample row is no member, and both members have the first rank.\<close>

theorem loaded_guild_repaired_witness:
  "\<exists>ranks1 s1 mems1 s2 s3.
    LoadRanksFromDB sample_genv None (LoadGuildFromDB sample_genv sample_guild_row new_Guild, sample_world) = (ranks1, s1) \<and>
    LoadMembersFromDB sample_genv (Some [sample_load_row 7 ''Thrall'', sample_load_row 8 ''Garona'']) s1 = (True, mems1, s2) \<and>
    CheckGuildStructure sample_genv s2 = (True, s3) \<and>
    list_all (\<lambda>(k, m). unat (ms_RankId m) < length (m_Ranks (fst s3))) (members (fst s3)) \<and> length (m_Ranks (fst s3)) = 5 \<and> master_ok (fst s3)"
proof -
  let ?c = "CreateDefaultGuildRanks sample_genv (LoadGuildFromDB sample_genv sample_guild_row new_Guild, sample_world)"
  let ?rows = "[sample_load_row 7 ''Thrall'', sample_load_row 8 ''Garona'']"
  have 1: "LoadRanksFromDB sample_genv None (LoadGuildFromDB sample_genv sample_guild_row new_Guild, sample_world) = (None, ?c)"
    by (simp add: LoadRanksFromDB_def)
  have i: "m_Id (fst ?c) = 5" "members (fst ?c) = []"
    by (simp_all add: CreateDefaultGuildRanks_keeps LoadGuildFromDB_def sample_guild_row_def Let_def)
  obtain g w where c: "?c = (g, w)" by fastforce
  have o: "class_playable 7" by (simp add: class_playable_def)
  have g: "m_Id g = 5" "members g = []" using i by (simp_all add: c)
  have "members (fst (snd (load_member_rows sample_genv ?rows (g, w)))) \<noteq> []"
    by (simp add: g sample_load_row_def o put_member_def)
  moreover obtain rest g2 w2 where l: "load_member_rows sample_genv ?rows (g, w) = (rest, g2, w2)" by (rule prod_cases3)
  ultimately have "members g2 \<noteq> []" unfolding l by simp
  then have 2: "LoadMembersFromDB sample_genv (Some ?rows) ?c = (True, Some rest, UpdateAccountsNumber g2, w2)"
    unfolding LoadMembersFromDB_def c option.case l prod.case by simp
  let ?s2 = "(UpdateAccountsNumber g2, w2)"
  from loaded_guild_repaired [OF _ _ _ _ 1 2, of 5] obtain s3 where s3: "CheckGuildStructure sample_genv ?s2 = (True, s3)"
    "\<forall>(k, m) \<in> set (members (fst s3)). ms_guid m = k \<and> unat (ms_RankId m) < length (m_Ranks (fst s3))"
    "length (m_Ranks (fst s3)) = 5" "master_ok (fst s3)"
    by auto
  then have "list_all (\<lambda>(k, m). unat (ms_RankId m) < length (m_Ranks (fst s3))) (members (fst s3))"
    unfolding list_all_iff by blast
  with 1 2 s3 show ?thesis by blast
qed

text \<open>C30: When the leader deletes the lowest of more than five ranks, its members keep the deleted rank, and a member
  with a rank that does not exist has every right: the rights of a missing rank are 0, and the check
  compares with the bit that every right contains instead of testing for it.\<close>

theorem deleted_rank_has_all_rights:
  assumes "w_players w me = Some p" and "GetGuildById w (gp_guildId p) = Some g" and "m_LeaderGuid g = me"
    and "5 < length (m_Ranks g)" and "length (m_Ranks g) \<le> 10" and "has_rank g k (GetLowestRank g)"
  shows "\<exists>g'. GetGuildById (handle_guild E me CMSG_GUILD_DEL_RANK w) (gp_guildId p) = Some g' \<and>
    has_rank g' k (GetLowestRank g) \<and> (\<forall>right. HasRankRight g' (GetLowestRank g) right)"
proof -
  let ?d = "DelRank E (g, w)"
  let ?s = "SendRoster E None (QueryGuild me ?d)"
  have sm: "same ?d ?s" by (rule same_trans [OF QueryGuild_same SendRoster_same])
  have d: "length (m_Ranks (fst ?d)) = length (m_Ranks g) - 1"
    using assms(4) on_banks_ranks [of E "UpdateMinranks (GetLowestRank g)" "(g, gsql (DeleteRanksFrom (GetLowestRank g) (m_Id g)) w)"]
    by (simp add: DelRank_def split_def Let_def)
  have u: "unat (GetLowestRank g) = length (m_Ranks g) - 1" using assms(4,5) by (intro unat_lowest) simp_all
  have l: "length (m_Ranks (fst ?s)) = length (m_Ranks g) - 1" using sm d by (simp add: same_def)
  have "GetRankRights (fst ?s) (GetLowestRank g) = 0" by (simp add: GetRankRights_def l u)
  then have "HasRankRight (fst ?s) (GetLowestRank g) right" for right by (simp add: HasRankRight_def)
  moreover have "kept k (g, w) ?s" by (intro keeps_member)
  moreover have "GetGuildById (handle_guild E me CMSG_GUILD_DEL_RANK w) (gp_guildId p) = Some (fst ?s)"
    using assms(1-3) by (simp add: HandleGuildDelRankOpcode_def with_guild_def put_guild_def GetGuildById_def split_def update_conv')
  ultimately show ?thesis using assms(6) by (auto simp: kept_def)
qed

theorem deleted_rank_has_all_rights_witness:
  "\<exists>g'. GetGuildById (handle_guild sample_genv 7 CMSG_GUILD_DEL_RANK sample_world) 3 = Some g' \<and>
    has_rank g' 8 5 \<and> (\<forall>right. HasRankRight g' 5 right)"
proof -
  have r: "GetLowestRank sample_guild = 5" "length (m_Ranks sample_guild) = 6" by (simp_all add: GetLowestRank_def sample_guild_def)
  have p: "w_players sample_world 7 = Some (sample_gplayer 7 ''Thrall'' 0)" "gp_guildId (sample_gplayer 7 ''Thrall'' 0) = 3"
    by (simp_all add: sample_players sample_gplayer_def)
  have "GetGuildById sample_world (gp_guildId (sample_gplayer 7 ''Thrall'' 0)) = Some sample_guild" by (simp add: p GetGuildById_def)
  from deleted_rank_has_all_rights [OF p(1) this, of 8 sample_genv] show ?thesis by (simp add: r p(2) sample_has)
qed

end
