(* ===== verification/Props_Petition.thy ===== *)
theory Props_Petition
  imports Guild_Sample Petition_Run
begin

text \<open>
  Properties of guild charters: buying one, signing, turning it in.
\<close>

section \<open>Turning in\<close>

lemma GetGuildById_AddGuild:
  assumes "m_Id g = i"
  shows "\<exists>h. GetGuildById (AddGuild E (g, w)) i = Some h \<and> m_Name h = m_Name g \<and> m_LeaderGuid h = m_LeaderGuid g \<and> has_rank h = has_rank g"
proof -
  obtain h v where h: "make_banks E (g, w) = (h, v)" by fastforce
  have sm: "same (g, w) (h, v)" using make_banks_same [of "(g, w)" E] by (simp add: h)
  have "m_Name h = m_Name g" using name_keeps(3) [of E "(g, w)"] by (simp add: h)
  moreover have "m_Id h = i" "m_LeaderGuid h = m_LeaderGuid g" "has_rank h = has_rank g"
    using sm assms by (simp_all add: same_def fun_eq_iff roster_has_rank)
  ultimately show ?thesis by (simp add: AddGuild_def h put_guild_def GetGuildById_def update_conv')
qed

lemma fold_DeletePetition_keeps:
  "w_guilds (fold DeletePetition is w) = w_guilds w" "set (w_petitions (fold DeletePetition is w)) \<subseteq> set (w_petitions w)"
  by (induction "is" arbitrary: w) force+

lemma Player_DestroyItem_keeps:
  "w_guilds (Player_DestroyItem E me b s w) = w_guilds w" "set (w_petitions (Player_DestroyItem E me b s w)) \<subseteq> set (w_petitions w)"
  by (auto simp: Player_DestroyItem_def Let_def fold_DeletePetition_keeps(1) split: option.splits
      dest!: subsetD [OF fold_DeletePetition_keeps(2)])

lemma find_ids: "find (\<lambda>p. pt_id p = i) ps = None \<longleftrightarrow> i \<notin> pt_id ` set ps"
  by (auto simp: find_None_iff)

text \<open>C14: turning in a complete charter founds the guild: if the player is in no guild, owns the petition of the charter
  the client names (or of the first charter in the bags), the petition has the configured number of
  signatures and no guild has its name, then afterwards the guild manager has a guild under the new id with the
  petition's name and the player as its leader and only guild master; its other members are exactly the
  signers who are in no guild and are online or have usable data in the character cache,
  with the lowest rank (or the one a script gives them); the petition is gone; and the guild world is
  consistent.\<close>

theorem turn_in_founds_guild:
  assumes "world_ok w" and "guild_env_ok E" and "me \<noteq> 0" and "gv_newGuildId E \<noteq> 0" and "GetGuildById w (gv_newGuildId E) = None"
    and "w_players w me = Some p" and "gp_guildId p = 0" and "find_charter E me (gp_pl p) itemGuid = Some c"
    and "GetPetitionById w (GetEnchantmentId (iheap (gp_pl p) c) 0) = Some petition" and "pt_ownerGuid petition = me"
    and "IsComplete E petition" and "GetGuildByName w (pt_name petition) = None"
    and "HandleTurnInPetitionOpcode E me itemGuid w = w'"
  shows "world_ok w' \<and> GetPetitionById w' (pt_id petition) = None \<and>
    (\<exists>g. GetGuildById w' (gv_newGuildId E) = Some g \<and> m_Name g = pt_name petition \<and> m_LeaderGuid g = me \<and>
      (\<forall>k y. has_rank g k y \<longleftrightarrow> k = me \<and> y = 0 \<or>
        k \<noteq> me \<and> k \<in> sg_playerGuid ` set (pt_signatures petition) \<and> joins E w k \<and> y = join_rank E w (gv_newGuildId E) k 4))"
proof -
  let ?i = "gv_newGuildId E"
  have "petition \<in> set (w_petitions w)" using assms(9) by (auto simp: GetPetitionById_def find_Some_iff)
  then obtain g1 w1 where 1: "Create_petition E petition me (new_Guild, w) = (True, g1, w1)" "fine ?i (g1, w1)" "m_Name g1 = pt_name petition"
    "m_LeaderGuid g1 = me" "\<And>k y. has_rank g1 k y \<longleftrightarrow> k = me \<and> y = 0 \<or>
        k \<noteq> me \<and> k \<in> sg_playerGuid ` set (pt_signatures petition) \<and> joins E w k \<and> y = join_rank E w ?i k 4"
    by (rule Create_petition_fine [OF assms(1-7) _ assms(12)]) blast
  have "m_Id g1 = ?i" using 1(2) by (simp add: fine_def base_def)
  from GetGuildById_AddGuild [OF this, of E w1] obtain h where h: "GetGuildById (AddGuild E (g1, w1)) ?i = Some h" "m_Name h = m_Name g1"
    "m_LeaderGuid h = m_LeaderGuid g1" "has_rank h = has_rank g1" by blast
  let ?w2 = "DeletePetition (pt_id petition) (AddGuild E (g1, w1))"
  let ?w3 = "Player_DestroyItem E me (GetBagSlot (gp_pl p) c) (i_slot (iheap (gp_pl p) c)) ?w2"
  have w': "w' = gsend me (SMSG_TURN_IN_PETITION_RESULTS PETITION_SIGN_OK) ?w3"
    using assms(6-13) 1(1) by (simp add: HandleTurnInPetitionOpcode_def)
  have "world_ok w'" using HandleTurnInPetitionOpcode_ok [OF assms(1-5)] assms(13) by blast
  moreover have "GetPetitionById w' (pt_id petition) = None"
    using Player_DestroyItem_keeps(2) [of E me _ _ ?w2] by (auto simp: w' GetPetitionById_def find_None_iff dest!: subsetD)
  moreover have "GetGuildById w' ?i = Some h" using h(1) by (simp add: w' GetGuildById_def Player_DestroyItem_keeps)
  ultimately show ?thesis using h 1 by auto
qed

lemma charter_found: "find_charter charter_genv 10 charter_player (item_guid 10002) = Some 2"
  by (simp add: find_charter_def GetItemByGuid_def guid_items_def charter_player_def sample_player_def map_filter_simps upt_rec item_guid_def)

theorem turn_in_founds_guild_witness:
  "\<exists>g. GetGuildById (HandleTurnInPetitionOpcode charter_genv 10 (item_guid 10002) charter_world) 4 = Some g \<and>
     m_Name g = ''Stormreaver'' \<and> m_LeaderGuid g = 10 \<and> has_rank g 10 0 \<and> has_rank g 11 4"
proof -
  have "joins charter_genv charter_world 11" "join_rank charter_genv charter_world 4 11 4 = 4"
    by (simp_all add: joins_def join_rank_def lone_gplayer_def) (simp add: charter_genv_def sample_genv_def)
  moreover have "GetEnchantmentId (iheap charter_player 2) 0 = 5"
    by (simp add: charter_player_def GetEnchantmentId_def)
  ultimately show ?thesis
    using turn_in_founds_guild [of charter_world charter_genv 10 "lone_gplayer 10 charter_player" "item_guid 10002" 2
        "sample_petition 5 10002 10 ''Stormreaver'' [\<lparr>sg_playerGuid = 11, sg_playerAccount = 11\<rparr>]", OF charter_world_ok _ _ _ _ _ _ _ _ _ _ _ refl]
    by (simp add: charter_found lone_gplayer_def GetPetitionById_def sample_petition_def GetGuildById_def GetGuildByName_def sample_guild_def IsComplete_def) auto
qed

section \<open>Buying\<close>

lemma item_env_sel [simp]:
  "e_protos (item_env E w) = e_protos E" "e_moneyhook (item_env E w) = e_moneyhook E"
  by (simp_all add: item_env_def)

lemma item_env_same [simp]:
  "storable (item_env E w) = storable E" "bag_sizes_ok (item_env E w) = bag_sizes_ok E"
  by (simp_all add: storable_def bag_sizes_ok_def GetProto_def fun_eq_iff)

lemma good_dest_view:
  assumes "inv_view P = inv_view Q"
  shows "good_dest P pr None n dest c = good_dest Q pr None n dest c"
  using assms by (simp add: good_dest_def place_ok_stock stock_view [OF assms] reach_pos_view [OF assms])

lemma ModifyMoney_ifreed [simp]: "ifreed (ModifyMoney E d P) = ifreed P"
  by (simp add: ModifyMoney_def SetMoney_def Let_def pemit_def)

lemma charge_money:
  assumes "e_moneyhook E (- 1000) = - 1000" and "1000 \<le> pl_money P"
  shows "unat (pl_money (ModifyMoney E (- 1000) P)) + 1000 = unat (pl_money P)"
proof -
  have s: "sint (- 1000 :: int32) < 0" by simp
  have u: "1000 \<le> unat (pl_money P)" using assms(2) by (simp add: word_le_nat_alt)
  show ?thesis
  proof (cases "pl_money P > 1000")
    case True
    have "pl_money P + (- 1000) = pl_money P - 1000" by simp
    then have "unat (pl_money P + (- 1000)) = unat (pl_money P) - 1000" using assms(2) by (simp only: unat_sub) simp
    then show ?thesis using True s u by (simp add: ModifyMoney_def SetMoney_def pemit_def assms(1))
  next
    case False
    then have "pl_money P = 1000" using assms(2) by simp
    then show ?thesis using s by (simp add: ModifyMoney_def SetMoney_def pemit_def assms(1))
  qed
qed

text \<open>The purchase, once the check has found room.\<close>

definition bought :: "'e GuildEnv_scheme \<Rightarrow> uint32 \<Rightarrow> string \<Rightarrow> nat \<Rightarrow> GuildPlayer \<Rightarrow> GWorld \<Rightarrow> GWorld \<Rightarrow> bool" where
  "bought E me name n p w w' \<longleftrightarrow>
     (\<exists>p' q. w_players w' = (w_players w)(me \<mapsto> p') \<and> inv_wf (gp_pl p') \<and> unat (pl_money (gp_pl p')) + 1000 = unat (pl_money (gp_pl p)) \<and>
       (\<forall>e. stored_count (gp_pl p') e = stored_count (gp_pl p) e + (if e = 5863 then n else 0)) \<and>
       mset (w_petitions w') = add_mset q (mset (w_petitions w)) \<and>
       pt_id q = gv_newPetitionId E \<and> pt_ownerGuid q = me \<and> pt_name q = name \<and> pt_signatures q = [])"

lemma set_charter_view [simp]:
  "inv_view (set_charter_petition c i P) = inv_view P"
  by (simp add: set_charter_petition_def inv_view_upd_item core_def)

lemma CreatePetition_adds:
  assumes "guild_env_ok E" and "i \<notin> set (map pt_id (w_petitions w))"
  shows "\<exists>q. mset (w_petitions (CreatePetition E i me t c name w)) = add_mset q (mset (w_petitions w)) \<and>
      pt_id q = i \<and> pt_ownerGuid q = me \<and> pt_name q = name \<and> pt_signatures q = []"
    and "w_players (CreatePetition E i me t c name w) = w_players w"
  using assms by (auto simp: CreatePetition_def Let_def put_petition_def Petition_SaveToDB_def guild_env_ok_def)

lemma buy_charter_bought:
  assumes E: "guild_env_ok E" and new: "gv_newPetitionId E \<notin> set (map pt_id (w_petitions w))"
    and hook: "e_moneyhook E (- 1000) = - 1000" and money: "1000 \<le> pl_money (gp_pl p)"
    and wf: "inv_wf (gp_pl p)" and st: "storable E 5863 pr" "stack_ok pr" "bag_sizes_ok E (gp_pl p)" and n: "pr_BuyCount pr \<noteq> 0"
    and can: "CanStoreNewItem (item_env E w) (gp_pl p) NULL_BAG NULL_SLOT 5863 (pr_BuyCount pr) = (EQUIP_ERR_OK, dest, left)"
  shows "bought E me name (unat (pr_BuyCount pr)) p w (buy_charter E me p name dest w)"
proof -
  let ?E = "item_env E w" and ?P = "gp_pl p" and ?n = "unat (pr_BuyCount pr)"
  let ?M = "ModifyMoney ?E (- 1000) ?P"
  have proto: "e_protos ?E 5863 = Some pr" using st(1) by (simp add: storable_def)
  have "good_dest ?P pr None ?n dest 0"
    by (rule CanStoreItem_impl_sound(1) [OF proto st(2) _ _ n can [unfolded CanStoreNewItem_def]]) (use st(3) in simp_all)
  then have good: "good_dest ?M pr None ?n dest 0" by (simp add: good_dest_view [of ?M ?P])
  have wfM: "inv_wf ?M" using wf inv_wf_view [of ?M ?P] by simp
  obtain r P' where run: "StoreNewItem ?E dest 5863 True 0 ?M = (r, P')" by fastforce
  have "0 < ?n" "0 < unat (pr_Stackable pr)" using n st(2) by (simp_all add: unat_gt_0 stack_ok_def)
  from StoreNewItem_adds [OF wfM _ good this(1) unat32_lt this(2) run] st(1)
  obtain c where c: "r = Some c" "inv_wf P'" "pl_frame P' = pl_frame ?M" "\<And>e. stored_count P' e = stored_count ?M e + (if e = 5863 then ?n else 0)"
    by auto
  let ?Q = "set_charter_petition c (gv_newPetitionId E) P'"
  let ?w1 = "gsend me (SMSG_ITEM_PUSH_RESULT c 1) (set_player me (p\<lparr>gp_pl := ?Q\<rparr>) w)"
  have fr: "ifreed ?Q = ifreed P'" by (simp add: set_charter_petition_def)
  have b: "buy_charter E me p name dest w = gsend me InventoryAndGoldSaved
      (CreatePetition E (gv_newPetitionId E) me (gp_team p) (gv_itemGuid E me c) name ?w1)"
    using run c(1) by (simp add: buy_charter_def Let_def)
  have money': "unat (pl_money ?Q) + 1000 = unat (pl_money ?P)"
  proof -
    have "pl_frame ?Q = pl_frame ?M" using c(3) by (simp add: set_charter_petition_def)
    then have "pl_money ?Q = pl_money ?M" by (simp add: pl_frame_def)
    then show ?thesis using charge_money [of ?E ?P] hook money by simp
  qed
  have cnt: "stored_count ?Q e = stored_count ?P e + (if e = 5863 then ?n else 0)" for e
    using c(4) stock_view [of ?Q P'] stock_view [of ?M ?P] by (simp add: stored_count_def)
  have wfQ: "inv_wf ?Q" using c(2) inv_wf_view [of ?Q P'] fr by simp
  from CreatePetition_adds [OF E, of "gv_newPetitionId E" ?w1 me "gp_team p" "gv_itemGuid E me c" name] new
  show ?thesis unfolding bought_def b using money' cnt wfQ by (intro exI [of _ "p\<lparr>gp_pl := ?Q\<rparr>"]) auto
qed

text \<open>C15: buying a charter is all or nothing: the opcode either leaves the players, the petitions and the tables as they are,
  or the player is in no guild, owns no petition, the name is free, not reserved and valid, and then the player
  pays exactly 1000 copper, the inventory stays well-formed and gains exactly the charter (the purchase count of its
  template) and nothing else, and the map gains one petition, owned by the player, with that name and
  without signatures. This is for a well-formed inventory, a template that can be stored, money hooks that leave the
  price alone, and an unused petition id.\<close>

theorem charter_purchase:
  assumes "guild_env_ok E" and "gv_newPetitionId E \<notin> set (map pt_id (w_petitions w))" and "e_moneyhook E (- 1000) = - 1000"
    and "w_players w me = Some p" and "inv_wf (gp_pl p)" and "bag_sizes_ok E (gp_pl p)"
    and "storable E 5863 pr" and "stack_ok pr" and "pr_BuyCount pr \<noteq> 0"
    and "HandlePetitionBuyOpcode E me npc name w = w'"
  shows "w_players w' = w_players w \<and> w_petitions w' = w_petitions w \<and> w_gdb w' = w_gdb w \<or>
    gp_guildId p = 0 \<and> GetPetitionByOwnerGuid w me = None \<and> GetGuildByName w name = None \<and>
    \<not> IsReservedName (gv_reserved E) name \<and> IsValidCharterName (gv_nameRules E) name \<and> bought E me name (unat (pr_BuyCount pr)) p w w'"
proof -
  let ?w = "remove_feign E me w"
  have pr: "e_protos E 5863 = Some pr" using assms(7) by (simp add: storable_def)
  have keep: "w_players ?w = w_players w" "w_petitions ?w = w_petitions w" "w_gdb ?w = w_gdb w" "item_env E ?w = item_env E w"
    "GetPetitionByOwnerGuid ?w me = GetPetitionByOwnerGuid w me" "GetGuildByName ?w name = GetGuildByName w name"
    by (simp_all add: remove_feign_def GetPetitionByOwnerGuid_def GetGuildByName_def item_env_def GetPetitionById_def)
  have buy: "bought E me name (unat (pr_BuyCount pr)) p ?w (buy_charter E me p name dest ?w)"
    if "\<not> pl_money (gp_pl p) < 1000"
      "CanStoreNewItem (item_env E ?w) (gp_pl p) NULL_BAG NULL_SLOT 5863 (pr_BuyCount pr) = (EQUIP_ERR_OK, dest, left)" for dest left
    by (rule buy_charter_bought [OF assms(1) _ assms(3) _ assms(5,7,8,6,9) that(2)]) (use assms(2) that(1) keep in simp_all)
  have b: "bought E me name n p ?w v = bought E me name n p w v" for n v by (simp add: bought_def keep)
  show ?thesis using assms(4,10) keep pr buy
    by (auto simp: HandlePetitionBuyOpcode_def Let_def b SendGuildCommandResult_def split: option.splits if_splits prod.splits)
qed

theorem charter_purchase_witness:
  "\<exists>p. w_players charter_world 11 = Some p \<and>
     bought charter_genv 11 ''Frostwind'' 1 p charter_world (HandlePetitionBuyOpcode charter_genv 11 1 ''Frostwind'' charter_world)"
proof -
  let ?P = "sample_player\<lparr>pl_guid := 11, pl_name := ''Aggra''\<rparr>"
  have "inv_view ?P = inv_view sample_player" by (simp add: inv_view_def)
  then have wf: "inv_wf ?P" using sample_wf inv_wf_view [of ?P sample_player] by simp
  have bags: "bag_sizes_ok charter_genv ?P"
    using sample_bags by (auto simp: bag_sizes_ok_def GetProto_def charter_genv_def sample_player_def blank_item_def split: if_splits)
  have pr: "storable charter_genv 5863 charter" "stack_ok charter" "pr_BuyCount charter = 1"
    by (simp_all add: storable_def stack_ok_def creatable_def charter_def cloth_def)
  have "length (w_petitions (HandlePetitionBuyOpcode charter_genv 11 1 ''Frostwind'' charter_world)) = 3" by code_simp
  then have "w_petitions (HandlePetitionBuyOpcode charter_genv 11 1 ''Frostwind'' charter_world) \<noteq> w_petitions charter_world" by auto
  then show ?thesis using wf bags pr
    charter_purchase [of charter_genv charter_world 11 "lone_gplayer 11 ?P" charter 1 "''Frostwind''", OF _ _ _ _ _ _ _ _ _ refl]
    by (auto simp: sample_petition_def lone_gplayer_def)
qed

section \<open>Signatures and restarts\<close>

definition has_signed :: "GWorld \<Rightarrow> uint32 \<Rightarrow> uint32 \<Rightarrow> bool" where
  "has_signed w a k \<longleftrightarrow> (\<exists>q \<in> set (w_petitions w). pt_id q = a \<and> k \<in> sg_playerGuid ` set (pt_signatures q))"

lemma signed_unique:
  assumes "world_ok w" and "has_signed w a k" "has_signed w b k"
  shows "a = b"
proof -
  have "p = q" if "distinct (signers ps)" "p \<in> set ps" "q \<in> set ps" "k \<in> sg_playerGuid ` set (pt_signatures p)"
    "k \<in> sg_playerGuid ` set (pt_signatures q)" for ps p q
    using that by (induction ps) (auto simp: signers_def)
  with assms world_petitionsD(3) [OF assms(1)] show ?thesis unfolding has_signed_def by blast
qed

lemma AddSignature_sel [simp]: "pt_id (AddSignature x p) = pt_id p" "pt_signatures (AddSignature x p) = pt_signatures p @ [x]"
  by (simp_all add: AddSignature_def)

lemma load_signature_petitions:
  "w_petitions (load_signature r w) =
     map (\<lambda>p. if pt_id p = sr_petitionguid r then AddSignature \<lparr>sg_playerGuid = sr_playerguid r, sg_playerAccount = sr_account r\<rparr> p else p) (w_petitions w)"
proof (cases "GetPetitionById w (sr_petitionguid r)")
  case None
  then have "pt_id p \<noteq> sr_petitionguid r" if "p \<in> set (w_petitions w)" for p using that by (auto simp: GetPetitionById_def find_None_iff)
  with None show ?thesis by (auto simp: load_signature_def intro!: map_idI [symmetric])
next
  case (Some q)
  then have "pt_id q = sr_petitionguid r" by (auto simp: GetPetitionById_def find_Some_iff)
  with Some show ?thesis by (simp add: load_signature_def)
qed

lemma load_signature_ids: "set (map pt_id (w_petitions (load_signature r w))) = set (map pt_id (w_petitions w))"
proof -
  have "map pt_id (w_petitions (load_signature r w)) = map pt_id (w_petitions w)"
    unfolding load_signature_petitions by (rule map_ids) simp
  then show ?thesis by (simp only:)
qed

lemma load_signature_signed:
  "has_signed w a k \<Longrightarrow> has_signed (load_signature r w) a k"
  "sr_petitionguid r \<in> set (map pt_id (w_petitions w)) \<Longrightarrow> has_signed (load_signature r w) (sr_petitionguid r) (sr_playerguid r)"
proof -
  let ?f = "\<lambda>p. if pt_id p = sr_petitionguid r then AddSignature \<lparr>sg_playerGuid = sr_playerguid r, sg_playerAccount = sr_account r\<rparr> p else p"
  have mem: "?f q \<in> set (w_petitions (load_signature r w))" if "q \<in> set (w_petitions w)" for q
    using that unfolding load_signature_petitions by simp
  show "has_signed w a k \<Longrightarrow> has_signed (load_signature r w) a k"
    unfolding has_signed_def by (elim bexE conjE) (rule bexI [OF _ mem], auto)
  show "has_signed (load_signature r w) (sr_petitionguid r) (sr_playerguid r)" if a: "sr_petitionguid r \<in> set (map pt_id (w_petitions w))"
  proof -
    from a obtain q where "q \<in> set (w_petitions w)" "pt_id q = sr_petitionguid r" by auto
    then show ?thesis unfolding has_signed_def by (intro bexI [OF _ mem [of q]]) simp_all
  qed
qed

lemma fold_load_signature:
  assumes "sr_petitionguid r \<in> set (map pt_id (w_petitions w))"
  shows "has_signed w a k \<Longrightarrow> has_signed (fold load_signature rs w) a k"
    and "r \<in> set rs \<Longrightarrow> has_signed (fold load_signature rs w) (sr_petitionguid r) (sr_playerguid r)"
proof -
  have keep: "has_signed w a k \<Longrightarrow> has_signed (fold load_signature rs w) a k" for rs w a k
    by (induction rs arbitrary: w) (simp_all add: load_signature_signed(1))
  then show "has_signed w a k \<Longrightarrow> has_signed (fold load_signature rs w) a k" .
  show "r \<in> set rs \<Longrightarrow> has_signed (fold load_signature rs w) (sr_petitionguid r) (sr_playerguid r)"
    using assms
  proof (induction rs arbitrary: w)
    case (Cons x rs)
    show ?case
    proof (cases "x = r")
      case True
      then show ?thesis using keep load_signature_signed(2) [OF Cons.prems(2)] by simp
    next
      case False
      with Cons show ?thesis using load_signature_ids [of x w] by auto
    qed
  qed simp
qed

lemma put_petition_ids:
  assumes "guild_env_ok E"
  shows "set (map pt_id (w_petitions (put_petition E q w))) = insert (pt_id q) (set (map pt_id (w_petitions w)))"
proof (cases "pt_id q \<in> set (map pt_id (w_petitions w))")
  case True
  have "map pt_id (w_petitions (upd_petition (pt_id q) (\<lambda>_. q) w)) = map pt_id (w_petitions w)"
    unfolding upd_petition_keeps by (rule map_ids) simp
  then have "set (map pt_id (w_petitions (upd_petition (pt_id q) (\<lambda>_. q) w))) = set (map pt_id (w_petitions w))" by (simp only:)
  then show ?thesis using True by (simp add: put_petition_def insert_absorb)
next
  case False
  have "mset (gv_porder E (w_petitions w @ [q])) = mset (w_petitions w @ [q])" using assms by (simp add: guild_env_ok_def)
  then have "set (gv_porder E (w_petitions w @ [q])) = set (w_petitions w @ [q])" by (metis set_mset_mset)
  then show ?thesis using False by (auto simp: put_petition_def)
qed

lemma LoadPetitions_signed:
  assumes E: "guild_env_ok E" and "pr \<in> set (gd_petition (w_gdb w))" "r \<in> set (gd_sign (w_gdb w))" "sr_petitionguid r = pw_petitionguid pr"
  shows "has_signed (LoadPetitions E team w) (sr_petitionguid r) (sr_playerguid r)"
proof -
  have ids: "set (map pt_id (w_petitions (fold (\<lambda>r. put_petition E (Petition_LoadFromDB team r)) rows v))) =
      pw_petitionguid ` set rows \<union> set (map pt_id (w_petitions v))" for rows v
  proof (induction rows arbitrary: v)
    case (Cons x rows)
    have "pt_id (Petition_LoadFromDB team x) = pw_petitionguid x" by (simp add: Petition_LoadFromDB_def)
    then show ?case using Cons.IH put_petition_ids [OF E, of "Petition_LoadFromDB team x" v] by auto
  qed simp
  have "gd_petition (w_gdb w) \<noteq> []" using assms(2) by auto
  moreover have "sr_petitionguid r \<in> pw_petitionguid ` set (gd_petition (w_gdb w))" using assms(2,4) by auto
  ultimately show ?thesis unfolding LoadPetitions_def Let_def
    by (simp only: if_False) (rule fold_load_signature(2) [OF _ assms(3)], simp only: ids, blast)
qed

lemma unsign_rows:
  "gd_petition (w_gdb (unsign k w)) = gd_petition (w_gdb w)"
  "r \<in> set (gd_sign (w_gdb w)) \<Longrightarrow> sr_ownerguid r \<noteq> k \<Longrightarrow> r \<in> set (gd_sign (w_gdb (unsign k w)))"
  by (auto simp: unsign_def gsql_def split: option.split)

lemma AddNewSignature_rows:
  "gd_petition (w_gdb (snd (AddNewSignature E i k acc w))) = gd_petition (w_gdb w)"
  "r \<in> set (gd_sign (w_gdb w)) \<Longrightarrow> r \<in> set (gd_sign (w_gdb (snd (AddNewSignature E i k acc w))))"
  by (auto simp: AddNewSignature_def Let_def PetitionSignature_SaveToDB_def split: option.split)

lemma HandlePetitionSignOpcode_rows:
  "gd_petition (w_gdb (HandlePetitionSignOpcode E me c w)) = gd_petition (w_gdb w)"
  "r \<in> set (gd_sign (w_gdb w)) \<Longrightarrow> sr_ownerguid r \<noteq> me \<Longrightarrow> r \<in> set (gd_sign (w_gdb (HandlePetitionSignOpcode E me c w)))"
proof -
  have a: "gd_petition (w_gdb v) = gd_petition (w_gdb w)" if "AddNewSignature E i me acc (unsign me w) = (b, v)" for i acc b v
    using AddNewSignature_rows(1) [of E i me acc "unsign me w"] that by (simp add: unsign_rows)
  show "gd_petition (w_gdb (HandlePetitionSignOpcode E me c w)) = gd_petition (w_gdb w)"
    by (auto simp: HandlePetitionSignOpcode_def Let_def split: option.split prod.split bool.split dest: a)
  assume r: "r \<in> set (gd_sign (w_gdb w))" "sr_ownerguid r \<noteq> me"
  have b: "r \<in> set (gd_sign (w_gdb v))" if "AddNewSignature E i me acc (unsign me w) = (b, v)" for i acc b v
    using AddNewSignature_rows(2) [OF unsign_rows(2) [OF r], of E i me acc] that by simp
  show "r \<in> set (gd_sign (w_gdb (HandlePetitionSignOpcode E me c w)))"
    using r by (auto simp: HandlePetitionSignOpcode_def Let_def split: option.split prod.split bool.split dest: b)
qed

text \<open>C31: an old signature comes back with a restart. In memory a player has signed at most one petition, also after signing another one, since signing first removes
  the earlier signature. But its row is deleted by the owner of the petition instead of by the signer, so the row of
  a petition that somebody else owns stays, and loading the petitions again, as a restart does,
  restores the signature the player gave up.\<close>

theorem withdrawn_signature_returns:
  assumes "world_ok w" and "guild_env_ok E"
    and "pr \<in> set (gd_petition (w_gdb w))" and "r \<in> set (gd_sign (w_gdb w))" and "sr_petitionguid r = pw_petitionguid pr"
    and "sr_playerguid r = me" and "sr_ownerguid r \<noteq> me"
  shows "(\<forall>a b. has_signed (HandlePetitionSignOpcode E me c w) a me \<longrightarrow> has_signed (HandlePetitionSignOpcode E me c w) b me \<longrightarrow> a = b) \<and>
    has_signed (LoadPetitions E team (HandlePetitionSignOpcode E me c w)) (sr_petitionguid r) me"
proof -
  let ?w = "HandlePetitionSignOpcode E me c w"
  have "world_ok ?w" by (rule HandlePetitionSignOpcode_ok [OF assms(1)])
  then have "\<forall>a b. has_signed ?w a me \<longrightarrow> has_signed ?w b me \<longrightarrow> a = b" using signed_unique by blast
  moreover have "has_signed (LoadPetitions E team ?w) (sr_petitionguid r) me"
    using LoadPetitions_signed [OF assms(2), of pr ?w r team] assms(3-7) HandlePetitionSignOpcode_rows by metis
  ultimately show ?thesis by blast
qed

theorem withdrawn_signature_returns_witness:
  "has_signed (HandlePetitionSignOpcode charter_genv 11 (item_guid 12007) charter_world) 8 11 \<and>
   \<not> has_signed (HandlePetitionSignOpcode charter_genv 11 (item_guid 12007) charter_world) 5 11 \<and>
   has_signed (LoadPetitions charter_genv (\<lambda>_. 67) (HandlePetitionSignOpcode charter_genv 11 (item_guid 12007) charter_world)) 5 11"
proof -
  let ?w = "HandlePetitionSignOpcode charter_genv 11 (item_guid 12007) charter_world"
  have 8: "has_signed ?w 8 11"
    by (simp add: has_signed_def HandlePetitionSignOpcode_def GetPetitionByCharterGuid_def sample_petition_def IsComplete_def item_guid_def
        lone_gplayer_def GetSignatureCount_def GetSignatureForPlayer_def GetSignatureForPlayerGuid_def GetSignatureForAccount_def AddNewSignature_def
        unsign_def GetPetitionById_def upd_petition_def AddSignature_def PetitionSignature_SaveToDB_def FindPlayer_def FindPlayerNotInWorld_def Let_def split: option.split)
  have "(\<forall>a b. has_signed ?w a 11 \<longrightarrow> has_signed ?w b 11 \<longrightarrow> a = b) \<and> has_signed (LoadPetitions charter_genv (\<lambda>_. 67) ?w) (sr_petitionguid sample_sign) 11"
    by (rule withdrawn_signature_returns [of _ _ sample_petition_row]) (simp_all add: sample_sign_def sample_petition_row_def)
  then have "has_signed ?w 5 11 \<Longrightarrow> (8 :: uint32) = 5" and "has_signed (LoadPetitions charter_genv (\<lambda>_. 67) ?w) 5 11"
    using 8 by (blast, simp add: sample_sign_def)
  with 8 show ?thesis by auto
qed

end
