(* ===== verification/Chat_Model.thy ===== *)
theory Chat_Model
  imports Name_Rules
begin

unbundle bit_operations_syntax

text \<open>
  Chat channels (src/game/Chat/Channel.h): the data of a channel, its members, the players and managers
  around it, and the notices a channel sends. Channels are objects in a heap, since the players keep pointers to
  the channels they have joined and the manager deletes channels. A guid of a player is its counter; 0 is the empty guid.
\<close>

type_synonym cptr = nat

section \<open>Flags\<close>

abbreviation CHANNEL_FLAG_CUSTOM :: uint8 where "CHANNEL_FLAG_CUSTOM \<equiv> 0x01"
abbreviation CHANNEL_FLAG_TRADE :: uint8 where "CHANNEL_FLAG_TRADE \<equiv> 0x04"
abbreviation CHANNEL_FLAG_NOT_LFG :: uint8 where "CHANNEL_FLAG_NOT_LFG \<equiv> 0x08"
abbreviation CHANNEL_FLAG_GENERAL :: uint8 where "CHANNEL_FLAG_GENERAL \<equiv> 0x10"
abbreviation CHANNEL_FLAG_CITY :: uint8 where "CHANNEL_FLAG_CITY \<equiv> 0x20"
abbreviation CHANNEL_FLAG_LFG :: uint8 where "CHANNEL_FLAG_LFG \<equiv> 0x40"
abbreviation CHANNEL_FLAG_NATIONAL :: uint32 where "CHANNEL_FLAG_NATIONAL \<equiv> 0x100"

abbreviation CHANNEL_DBC_FLAG_ZONE_DEP :: uint32 where "CHANNEL_DBC_FLAG_ZONE_DEP \<equiv> 0x2"
abbreviation CHANNEL_DBC_FLAG_TRADE :: uint32 where "CHANNEL_DBC_FLAG_TRADE \<equiv> 0x8"
abbreviation CHANNEL_DBC_FLAG_CITY_ONLY2 :: uint32 where "CHANNEL_DBC_FLAG_CITY_ONLY2 \<equiv> 0x20"
abbreviation CHANNEL_DBC_FLAG_LFG :: uint32 where "CHANNEL_DBC_FLAG_LFG \<equiv> 0x40000"

abbreviation MEMBER_FLAG_OWNER :: uint8 where "MEMBER_FLAG_OWNER \<equiv> 0x01"
abbreviation MEMBER_FLAG_MODERATOR :: uint8 where "MEMBER_FLAG_MODERATOR \<equiv> 0x02"
abbreviation MEMBER_FLAG_MUTED :: uint8 where "MEMBER_FLAG_MUTED \<equiv> 0x08"

abbreviation SEC_PLAYER :: uint32 where "SEC_PLAYER \<equiv> 0"
abbreviation SEC_OBSERVER :: uint32 where "SEC_OBSERVER \<equiv> 1"
abbreviation SEC_MODERATOR :: uint8 where "SEC_MODERATOR \<equiv> 2"
abbreviation SEC_DEVELOPER :: uint8 where "SEC_DEVELOPER \<equiv> 3"

abbreviation ALLIANCE :: uint32 where "ALLIANCE \<equiv> 469"
abbreviation HORDE :: uint32 where "HORDE \<equiv> 67"

abbreviation CHANNEL_ID_LOCAL_DEFENSE :: uint32 where "CHANNEL_ID_LOCAL_DEFENSE \<equiv> 22"
abbreviation CHANNEL_ID_WORLD_DEFENSE :: uint32 where "CHANNEL_ID_WORLD_DEFENSE \<equiv> 23"

abbreviation LANG_UNIVERSAL :: uint32 where "LANG_UNIVERSAL \<equiv> 0"
abbreviation LANG_ADDON :: uint32 where "LANG_ADDON \<equiv> 0xFFFFFFFF"
abbreviation ACCOUNT_FLAG_MUTED_FROM_PUBLIC_CHANNELS :: uint32 where "ACCOUNT_FLAG_MUTED_FROM_PUBLIC_CHANNELS \<equiv> 0x1"

definition IsDefenseChannel :: "uint32 \<Rightarrow> bool" where
  "IsDefenseChannel channelId \<longleftrightarrow> channelId = CHANNEL_ID_LOCAL_DEFENSE \<or> channelId = CHANNEL_ID_WORLD_DEFENSE"

section \<open>Members\<close>

record PlayerInfo =
  pi_player :: uint32
  pi_flags :: uint8

definition no_info :: PlayerInfo where
  "no_info = \<lparr>pi_player = 0, pi_flags = 0\<rparr>"

definition has_mflag :: "uint8 \<Rightarrow> PlayerInfo \<Rightarrow> bool" where
  "has_mflag f x \<longleftrightarrow> pi_flags x AND f \<noteq> 0"

definition set_mflag :: "uint8 \<Rightarrow> bool \<Rightarrow> PlayerInfo \<Rightarrow> PlayerInfo" where
  "set_mflag f state x = x\<lparr>pi_flags := (if state then pi_flags x OR f else pi_flags x AND NOT f)\<rparr>"

abbreviation IsOwner :: "PlayerInfo \<Rightarrow> bool" where "IsOwner \<equiv> has_mflag MEMBER_FLAG_OWNER"
abbreviation IsModerator :: "PlayerInfo \<Rightarrow> bool" where "IsModerator \<equiv> has_mflag MEMBER_FLAG_MODERATOR"
abbreviation IsMuted :: "PlayerInfo \<Rightarrow> bool" where "IsMuted \<equiv> has_mflag MEMBER_FLAG_MUTED"

text \<open>The member map is a \<open>std::map\<close>, in the order of the guids.\<close>

type_synonym PlayerList = "(uint32 \<times> PlayerInfo) list"

fun put_info :: "uint32 \<Rightarrow> PlayerInfo \<Rightarrow> PlayerList \<Rightarrow> PlayerList" where
  "put_info k x [] = [(k, x)]"
| "put_info k x ((j, y) # ps) =
     (if k < j then (k, x) # (j, y) # ps
      else if k = j then (k, x) # ps
      else (j, y) # put_info k x ps)"

definition erase_info :: "uint32 \<Rightarrow> PlayerList \<Rightarrow> PlayerList" where
  "erase_info k = filter (\<lambda>(j, _). j \<noteq> k)"

section \<open>Channels\<close>

record Channel =
  ch_announce :: bool
  ch_moderate :: bool
  ch_levelRestricted :: bool
  ch_name :: string
  ch_password :: string
  ch_flags :: uint8
  ch_securityLevel :: uint8
  ch_Team :: uint32
  ch_channelId :: uint32
  ch_ownerGuid :: uint32
  ch_players :: PlayerList
  ch_banned :: "uint32 list"

definition IsConstant :: "Channel \<Rightarrow> bool" where
  "IsConstant c \<longleftrightarrow> ch_channelId c \<noteq> 0"

definition HasChannelFlag :: "Channel \<Rightarrow> uint8 \<Rightarrow> bool" where
  "HasChannelFlag c f \<longleftrightarrow> ch_flags c AND f \<noteq> 0"

definition IsOn :: "Channel \<Rightarrow> uint32 \<Rightarrow> bool" where
  "IsOn c who \<longleftrightarrow> map_of (ch_players c) who \<noteq> None"

definition IsBanned :: "Channel \<Rightarrow> uint32 \<Rightarrow> bool" where
  "IsBanned c guid \<longleftrightarrow> guid \<in> set (ch_banned c)"

text \<open>\<open>m_players[guid]\<close> where it is only read after a check that the guid is there.\<close>

definition info_of :: "Channel \<Rightarrow> uint32 \<Rightarrow> PlayerInfo" where
  "info_of c guid = (case map_of (ch_players c) guid of Some x \<Rightarrow> x | None \<Rightarrow> no_info)"

definition GetPlayerFlags :: "Channel \<Rightarrow> uint32 \<Rightarrow> uint8" where
  "GetPlayerFlags c guid = (case map_of (ch_players c) guid of None \<Rightarrow> 0 | Some x \<Rightarrow> pi_flags x)"

text \<open>\<open>m_players[guid].f()\<close>: a missing entry is added first.\<close>

definition upd_info :: "uint32 \<Rightarrow> (PlayerInfo \<Rightarrow> PlayerInfo) \<Rightarrow> Channel \<Rightarrow> Channel" where
  "upd_info guid f c = c\<lparr>ch_players := put_info guid (f (info_of c guid)) (ch_players c)\<rparr>"

section \<open>Built-in channels\<close>

record ChatChannelsEntry =
  ce_id :: uint32
  ce_flags :: uint32
  ce_name :: "string list"
  ce_shortcut :: "string list"

text \<open>\<open>find("%s")\<close>: what stands before and after the first marker.\<close>

fun zone_marker :: "string \<Rightarrow> (string \<times> string) option" where
  "zone_marker [] = None"
| "zone_marker (a # s) =
     (case s of
        b # t \<Rightarrow> if a = CHR 0x25 \<and> b = CHR ''s'' then Some ([], t) else map_option (\<lambda>(x, y). (a # x, y)) (zone_marker s)
      | [] \<Rightarrow> None)"

definition entry_name_matches :: "string \<Rightarrow> string \<Rightarrow> bool" where
  "entry_name_matches name entryName \<longleftrightarrow> entryName \<noteq> [] \<and>
     (case zone_marker entryName of
        None \<Rightarrow> entryName = name
      | Some (prefix, suffix) \<Rightarrow>
          length prefix + length suffix \<le> length name \<and> take (length prefix) name = prefix \<and>
          drop (length name - length suffix) name = suffix)"

definition GetChannelEntryFor :: "ChatChannelsEntry list \<Rightarrow> string \<Rightarrow> ChatChannelsEntry option" where
  "GetChannelEntryFor entries name =
     find (\<lambda>e. (\<exists>n \<in> set (ce_name e). entry_name_matches name n) \<or> (\<exists>n \<in> set (ce_shortcut e). n \<noteq> [] \<and> n = name)) entries"

section \<open>Notices\<close>

text \<open>The notices carry the name of the channel.\<close>

datatype chat_packet =
    CHAT_JOINED_NOTICE string uint32
  | CHAT_LEFT_NOTICE string uint32
  | CHAT_YOU_JOINED_NOTICE string uint32
  | CHAT_YOU_LEFT_NOTICE string
  | CHAT_WRONG_PASSWORD_NOTICE string
  | CHAT_NOT_MEMBER_NOTICE string
  | CHAT_NOT_MODERATOR_NOTICE string
  | CHAT_PASSWORD_CHANGED_NOTICE string uint32
  | CHAT_OWNER_CHANGED_NOTICE string uint32
  | CHAT_PLAYER_NOT_FOUND_NOTICE string string
  | CHAT_NOT_OWNER_NOTICE string
  | CHAT_CHANNEL_OWNER_NOTICE string string
  | CHAT_MODE_CHANGE_NOTICE string uint32 uint8 uint8
  | CHAT_ANNOUNCEMENTS_ON_NOTICE string uint32
  | CHAT_ANNOUNCEMENTS_OFF_NOTICE string uint32
  | CHAT_MODERATION_ON_NOTICE string uint32
  | CHAT_MODERATION_OFF_NOTICE string uint32
  | CHAT_MUTED_NOTICE string
  | CHAT_PLAYER_KICKED_NOTICE string uint32 uint32
  | CHAT_BANNED_NOTICE string
  | CHAT_PLAYER_BANNED_NOTICE string uint32 uint32
  | CHAT_PLAYER_UNBANNED_NOTICE string uint32 uint32
  | CHAT_PLAYER_NOT_BANNED_NOTICE string string
  | CHAT_PLAYER_ALREADY_MEMBER_NOTICE string uint32
  | CHAT_INVITE_NOTICE string uint32
  | CHAT_INVITE_WRONG_FACTION_NOTICE string
  | CHAT_INVALID_NAME_NOTICE string
  | CHAT_PLAYER_INVITED_NOTICE string string
  | CHAT_PLAYER_INVITE_BANNED_NOTICE string string
  | SMSG_CHANNEL_LIST string uint8 "(uint32 \<times> uint8) list"
  | CHAT_MSG_CHANNEL string uint32 uint8 uint32 string uint8
  | SysMessage string

section \<open>The world of the channels\<close>

record ChatPlayer =
  cp_name :: string
  cp_team :: uint32
  cp_race :: uint8
  cp_security :: uint32
  cp_guildId :: uint32
  cp_level :: uint32
  cp_inworld :: bool
  cp_honorRank :: uint8
  cp_chatTag :: uint8
  cp_fingerprintBanned :: bool
  cp_accountFlags :: uint32
  cp_accountMaxLevel :: uint32
  cp_channels :: "cptr list"

record ChannelMessage =
  cm_Message :: string
  cm_ChannelName :: string
  cm_PlayerGuid :: uint32
  cm_Language :: uint32
  cm_ChannelTeam :: uint32
  cm_bSkipChecks :: bool

text \<open>The two managers are singletons; each has a map from lower-case names to channels.\<close>

datatype chat_mgr = AllianceChannelMgr | HordeChannelMgr

record ChatWorld =
  cw_heap :: "cptr \<Rightarrow> Channel"
  cw_next :: cptr
  cw_freed :: "cptr list"
  cw_channels :: "chat_mgr \<Rightarrow> (uint16 list \<times> cptr) list"
  cw_players :: "uint32 \<Rightarrow> ChatPlayer option"
  cw_queue :: "ChannelMessage list"
  cw_out :: "(uint32 \<times> chat_packet) list"

text \<open>The configuration and what is read elsewhere: the index of players by name, the ignore lists, the name cache,
  visibility, the base language of a race, and, for chat messages, the checks of other components.\<close>

record ChatEnv =
  cv_twoSide :: bool
  cv_silentGM :: bool
  cv_gmOpposite :: bool
  cv_gmLevelInWho :: uint32
  cv_inviteMinLevel :: uint32
  cv_vanishLevel :: uint32
  cv_worldChanMinLevel :: uint32
  cv_gmsPublic :: bool
  cv_pvpRealm :: bool
  cv_entries :: "ChatChannelsEntry list"
  cv_byName :: "string \<Rightarrow> uint32 option"
  cv_nameOf :: "uint32 \<Rightarrow> string option"
  cv_ignores :: "uint32 \<Rightarrow> uint32 \<Rightarrow> bool"
  cv_visible :: "uint32 \<Rightarrow> uint32 \<Rightarrow> bool"
  cv_baseLanguage :: "uint8 \<Rightarrow> uint32"
  cv_enforceEnglish :: "uint32 \<Rightarrow> string \<Rightarrow> bool"
  cv_cooldown :: "uint32 \<Rightarrow> uint32"
  cv_antispam :: "uint32 \<Rightarrow> string \<Rightarrow> bool"

definition csend :: "uint32 \<Rightarrow> chat_packet \<Rightarrow> ChatWorld \<Rightarrow> ChatWorld" where
  "csend k p w = w\<lparr>cw_out := cw_out w @ [(k, p)]\<rparr>"

definition upd_chan :: "cptr \<Rightarrow> (Channel \<Rightarrow> Channel) \<Rightarrow> ChatWorld \<Rightarrow> ChatWorld" where
  "upd_chan a f w = w\<lparr>cw_heap := (cw_heap w)(a := f (cw_heap w a))\<rparr>"

definition upd_cplayer :: "uint32 \<Rightarrow> (ChatPlayer \<Rightarrow> ChatPlayer) \<Rightarrow> ChatWorld \<Rightarrow> ChatWorld" where
  "upd_cplayer k f w = w\<lparr>cw_players := (cw_players w)(k := map_option f (cw_players w k))\<rparr>"

text \<open>The limit of a player name is 15 (\<open>MAX_INTERNAL_PLAYER_NAME\<close>). \<open>m_area_dependant\<close> is true for every channel, so the players are those of the object accessor, in the world or not.\<close>

definition chan_player :: "ChatWorld \<Rightarrow> uint32 \<Rightarrow> ChatPlayer option" where
  "chan_player w guid = (if guid = 0 then None else cw_players w guid)"

definition chan_find :: "ChatEnv \<Rightarrow> ChatWorld \<Rightarrow> string \<Rightarrow> (uint32 \<times> ChatPlayer) option" where
  "chan_find E w name =
     (case normalizePlayerName name 15 True of
        (False, _) \<Rightarrow> None
      | (True, n) \<Rightarrow>
          (case cv_byName E n of
             None \<Rightarrow> None
           | Some k \<Rightarrow> map_option (Pair k) (cw_players w k)))"

definition chan_find_inworld :: "ChatEnv \<Rightarrow> ChatWorld \<Rightarrow> string \<Rightarrow> (uint32 \<times> ChatPlayer) option" where
  "chan_find_inworld E w name =
     (case chan_find E w name of
        None \<Rightarrow> None
      | Some (k, p) \<Rightarrow> if cp_inworld p then Some (k, p) else None)"

text \<open>The security of a sender who may be missing.\<close>

definition sec_of :: "ChatWorld \<Rightarrow> uint32 \<Rightarrow> uint32" where
  "sec_of w guid = (case chan_player w guid of None \<Rightarrow> SEC_PLAYER | Some p \<Rightarrow> cp_security p)"

end
