(* ===== verification/Chat_Channel.thy ===== *)
theory Chat_Channel
  imports Chat_Model
begin

unbundle bit_operations_syntax

text \<open>
  The operations of a channel (src/game/Chat/Channel.cpp). A method of the channel at address \<open>a\<close> maps the chat
  world to the chat world; \<open>guid\<close> is the player who sends the command.
\<close>

section \<open>Construction\<close>

text \<open>The flag of the national channels does not fit the eight bits of \<open>m_flags\<close>.\<close>

definition builtin_flags :: "uint32 \<Rightarrow> uint8" where
  "builtin_flags flags =
     CHANNEL_FLAG_GENERAL OR
     (if flags AND CHANNEL_DBC_FLAG_TRADE \<noteq> 0 then CHANNEL_FLAG_TRADE else 0) OR
     (if flags AND CHANNEL_DBC_FLAG_CITY_ONLY2 \<noteq> 0 then CHANNEL_FLAG_CITY else 0) OR
     (if flags AND CHANNEL_DBC_FLAG_LFG \<noteq> 0 then CHANNEL_FLAG_LFG else CHANNEL_FLAG_NOT_LFG)"

definition new_Channel :: "ChatEnv \<Rightarrow> string \<Rightarrow> uint32 \<Rightarrow> Channel" where
  "new_Channel E name team =
     (let c = \<lparr>ch_announce = True, ch_moderate = False, ch_levelRestricted = True, ch_name = name, ch_password = [], ch_flags = 0,
            ch_securityLevel = 0, ch_Team = team, ch_channelId = 0, ch_ownerGuid = 0, ch_players = [], ch_banned = []\<rparr>
      in case GetChannelEntryFor (cv_entries E) name of
           Some ch \<Rightarrow> c\<lparr>ch_channelId := ce_id ch, ch_announce := False, ch_flags := builtin_flags (ce_flags ch)\<rparr>
         | None \<Rightarrow>
             (let (ok, n) = normalizePlayerName name 128 True;
                  c1 = (if ok then c\<lparr>ch_name := n\<rparr> else c\<lparr>ch_name := ''INVALIDCHANNEL'', ch_announce := False\<rparr>)
              in if ch_name c1 \<in> {''Ru'', ''Welt'', ''China''} then
                   c1\<lparr>ch_flags := ucast (ucast (ch_flags c1) OR CHANNEL_FLAG_NATIONAL), ch_announce := False\<rparr>
                 else
                   (let c2 = c1\<lparr>ch_flags := ch_flags c1 OR CHANNEL_FLAG_CUSTOM, ch_levelRestricted := False\<rparr>
                    in if ch_name c2 \<in> {''World'', ''English''} then
                         c2\<lparr>ch_flags := (ch_flags c2 OR CHANNEL_FLAG_GENERAL) AND NOT CHANNEL_FLAG_CUSTOM, ch_announce := False\<rparr>
                       else c2)))"

section \<open>Sending\<close>

definition deliver :: "ChatEnv \<Rightarrow> chat_packet \<Rightarrow> uint32 \<Rightarrow> uint32 \<Rightarrow> ChatWorld \<Rightarrow> ChatWorld" where
  "deliver E data guid k w =
     (case chan_player w k of
        None \<Rightarrow> w
      | Some p \<Rightarrow> if cv_ignores E k guid then w else csend k data w)"

definition SendToAll :: "ChatEnv \<Rightarrow> cptr \<Rightarrow> chat_packet \<Rightarrow> uint32 \<Rightarrow> ChatWorld \<Rightarrow> ChatWorld" where
  "SendToAll E a data guid w = fold (\<lambda>(k, _). deliver E data guid k) (ch_players (cw_heap w a)) w"

definition SendToOne :: "chat_packet \<Rightarrow> uint32 \<Rightarrow> ChatWorld \<Rightarrow> ChatWorld" where
  "SendToOne data who w = (case chan_player w who of None \<Rightarrow> w | Some p \<Rightarrow> csend who data w)"

section \<open>Owner and modes\<close>

definition ch_SetOwner :: "ChatEnv \<Rightarrow> cptr \<Rightarrow> uint32 \<Rightarrow> bool \<Rightarrow> ChatWorld \<Rightarrow> ChatWorld" where
  "ch_SetOwner E a guid exclaim w =
     (case chan_player w guid of
        None \<Rightarrow> w
      | Some p \<Rightarrow>
          (let c = cw_heap w a
           in if HasChannelFlag c CHANNEL_FLAG_GENERAL \<and> cp_security p < SEC_OBSERVER then w
              else
                (let c1 = (if ch_ownerGuid c \<noteq> 0 \<and> IsOn c (ch_ownerGuid c)
                           then upd_info (ch_ownerGuid c) (set_mflag MEMBER_FLAG_OWNER False) c else c);
                     oldFlag = GetPlayerFlags c1 guid;
                     c2 = upd_info guid (set_mflag MEMBER_FLAG_OWNER True) (c1\<lparr>ch_ownerGuid := guid\<rparr>);
                     w1 = SendToAll E a (CHAT_MODE_CHANGE_NOTICE (ch_name c) guid oldFlag (GetPlayerFlags c2 guid)) 0 (upd_chan a (\<lambda>_. c2) w)
                 in if exclaim then SendToAll E a (CHAT_OWNER_CHANGED_NOTICE (ch_name c) guid) 0 w1 else w1)))"

definition set_member_mode :: "ChatEnv \<Rightarrow> cptr \<Rightarrow> uint8 \<Rightarrow> uint32 \<Rightarrow> bool \<Rightarrow> ChatWorld \<Rightarrow> ChatWorld" where
  "set_member_mode E a f guid state w =
     (let c = cw_heap w a
      in if has_mflag f (info_of c guid) \<noteq> state then
           (let c1 = upd_info guid (set_mflag f state) c
            in SendToAll E a (CHAT_MODE_CHANGE_NOTICE (ch_name c) guid (GetPlayerFlags c guid) (GetPlayerFlags c1 guid)) 0
                 (upd_chan a (\<lambda>_. c1) w))
         else w)"

section \<open>Joining and leaving\<close>

definition JoinedChannel :: "cptr \<Rightarrow> ChatPlayer \<Rightarrow> ChatPlayer" where
  "JoinedChannel a p = p\<lparr>cp_channels := cp_channels p @ [a]\<rparr>"

definition LeftChannel :: "cptr \<Rightarrow> ChatPlayer \<Rightarrow> ChatPlayer" where
  "LeftChannel a p = p\<lparr>cp_channels := removeAll a (cp_channels p)\<rparr>"

text \<open>Announcements are left out for silent game masters.\<close>

definition announce :: "ChatEnv \<Rightarrow> cptr \<Rightarrow> chat_packet \<Rightarrow> ChatPlayer option \<Rightarrow> ChatWorld \<Rightarrow> ChatWorld" where
  "announce E a data pPlayer w =
     (if ch_announce (cw_heap w a) \<and> (case pPlayer of None \<Rightarrow> True | Some p \<Rightarrow> cp_security p < SEC_OBSERVER \<or> \<not> cv_silentGM E)
      then SendToAll E a data 0 w else w)"

definition join_member :: "ChatEnv \<Rightarrow> cptr \<Rightarrow> uint32 \<Rightarrow> ChatWorld \<Rightarrow> ChatWorld" where
  "join_member E a guid w0 =
     (let w1 = SendToOne (CHAT_YOU_JOINED_NOTICE (ch_name (cw_heap w0 a)) (ucast (ch_flags (cw_heap w0 a)))) guid
                 (upd_chan a (upd_info guid (\<lambda>_. \<lparr>pi_player = guid, pi_flags = 0\<rparr>)) w0);
          c = cw_heap w1 a
      in if HasChannelFlag c CHANNEL_FLAG_CUSTOM \<and> \<not> IsConstant c \<and> ch_ownerGuid c = 0 then
           upd_chan a (upd_info guid (set_mflag MEMBER_FLAG_MODERATOR True)) (ch_SetOwner E a guid (length (ch_players c) > 1) w1)
         else w1)"

definition ch_Join :: "ChatEnv \<Rightarrow> cptr \<Rightarrow> uint32 \<Rightarrow> string \<Rightarrow> bool \<Rightarrow> ChatWorld \<Rightarrow> ChatWorld" where
  "ch_Join E a guid password checkPassword w =
     (let c = cw_heap w a; pPlayer = chan_player w guid
      in if IsOn c guid then
           (if \<not> IsConstant c then SendToOne (CHAT_PLAYER_ALREADY_MEMBER_NOTICE (ch_name c) guid) guid w else w)
         else if IsBanned c guid then SendToOne (CHAT_BANNED_NOTICE (ch_name c)) guid w
         else if checkPassword \<and> ch_password c \<noteq> [] \<and> password \<noteq> ch_password c then
           SendToOne (CHAT_WRONG_PASSWORD_NOTICE (ch_name c)) guid w
         else if ch_securityLevel c \<noteq> 0 \<and> (case pPlayer of None \<Rightarrow> True | Some p \<Rightarrow> cp_security p < ucast (ch_securityLevel c)) then
           SendToOne (CHAT_WRONG_PASSWORD_NOTICE (ch_name c)) guid w
         else if (case pPlayer of None \<Rightarrow> False | Some p \<Rightarrow> cp_guildId p \<noteq> 0 \<and> ch_flags c = 0x38) then w
         else
           join_member E a guid
             (announce E a (CHAT_JOINED_NOTICE (ch_name c) guid) pPlayer
               (if pPlayer = None then w else upd_cplayer guid (JoinedChannel a) w)))"

text \<open>With \<open>send\<close> the leaving player is a session's player, so there is an object whose list is changed.\<close>

definition leave_member :: "ChatEnv \<Rightarrow> cptr \<Rightarrow> uint32 \<Rightarrow> ChatPlayer option \<Rightarrow> ChatWorld \<Rightarrow> ChatWorld" where
  "leave_member E a guid pPlayer w =
     (let c = cw_heap w a;
          w1 = announce E a (CHAT_LEFT_NOTICE (ch_name c) guid) pPlayer
                 (upd_chan a (\<lambda>c. c\<lparr>ch_players := erase_info guid (ch_players c)\<rparr>) w)
      in if IsOwner (info_of c guid) then
           ch_SetOwner E a (case ch_players (cw_heap w1 a) of [] \<Rightarrow> 0 | (_, x) # _ \<Rightarrow> pi_player x) True w1
         else w1)"

definition ch_Leave :: "ChatEnv \<Rightarrow> cptr \<Rightarrow> uint32 \<Rightarrow> bool \<Rightarrow> ChatWorld \<Rightarrow> ChatWorld" where
  "ch_Leave E a guid sendIt w =
     (let c = cw_heap w a
      in if \<not> IsOn c guid then (if sendIt then SendToOne (CHAT_NOT_MEMBER_NOTICE (ch_name c)) guid w else w)
         else
           leave_member E a guid (chan_player w guid)
             (if sendIt then upd_cplayer guid (LeftChannel a) (SendToOne (CHAT_YOU_LEFT_NOTICE (ch_name c)) guid w) else w))"

section \<open>Moderation\<close>

text \<open>The checks most commands start with: the sender is on the channel, and is a moderator or a game master.\<close>

definition as_member :: "cptr \<Rightarrow> uint32 \<Rightarrow> (ChatWorld \<Rightarrow> ChatWorld) \<Rightarrow> ChatWorld \<Rightarrow> ChatWorld" where
  "as_member a guid f w =
     (let c = cw_heap w a
      in if \<not> IsOn c guid then SendToOne (CHAT_NOT_MEMBER_NOTICE (ch_name c)) guid w else f w)"

definition as_moderator :: "cptr \<Rightarrow> uint32 \<Rightarrow> (ChatWorld \<Rightarrow> ChatWorld) \<Rightarrow> ChatWorld \<Rightarrow> ChatWorld" where
  "as_moderator a guid f =
     as_member a guid (\<lambda>w.
       (let c = cw_heap w a
        in if \<not> IsModerator (info_of c guid) \<and> sec_of w guid < SEC_OBSERVER then SendToOne (CHAT_NOT_MODERATOR_NOTICE (ch_name c)) guid w
           else f w))"

definition not_found :: "cptr \<Rightarrow> uint32 \<Rightarrow> string \<Rightarrow> ChatWorld \<Rightarrow> ChatWorld" where
  "not_found a guid targetName w = SendToOne (CHAT_PLAYER_NOT_FOUND_NOTICE (ch_name (cw_heap w a)) targetName) guid w"

definition remove_member :: "ChatEnv \<Rightarrow> cptr \<Rightarrow> uint32 \<Rightarrow> uint32 \<Rightarrow> bool \<Rightarrow> ChatWorld \<Rightarrow> ChatWorld" where
  "remove_member E a guid targetGuid ban w =
     (let c = cw_heap w a; changeowner = (ch_ownerGuid c = targetGuid);
          w1 = (if ban \<and> \<not> IsBanned c targetGuid
                then SendToAll E a (CHAT_PLAYER_BANNED_NOTICE (ch_name c) targetGuid guid) 0
                       (upd_chan a (\<lambda>c. c\<lparr>ch_banned := targetGuid # ch_banned c\<rparr>) w)
                else SendToAll E a (CHAT_PLAYER_KICKED_NOTICE (ch_name c) targetGuid guid) 0 w);
          w2 = upd_cplayer targetGuid (LeftChannel a) (upd_chan a (\<lambda>c. c\<lparr>ch_players := erase_info targetGuid (ch_players c)\<rparr>) w1)
      in if changeowner then ch_SetOwner E a (if ch_players (cw_heap w2 a) \<noteq> [] then guid else 0) True w2 else w2)"

definition KickOrBan :: "ChatEnv \<Rightarrow> cptr \<Rightarrow> uint32 \<Rightarrow> string \<Rightarrow> bool \<Rightarrow> ChatWorld \<Rightarrow> ChatWorld" where
  "KickOrBan E a guid targetName ban =
     as_moderator a guid (\<lambda>w.
       (case chan_find_inworld E w targetName of
          None \<Rightarrow> not_found a guid targetName w
        | Some (targetGuid, _) \<Rightarrow>
            (let c = cw_heap w a
             in if \<not> IsOn c targetGuid then not_found a guid targetName w
                else if sec_of w guid < SEC_OBSERVER \<and> ch_ownerGuid c = targetGuid \<and> guid \<noteq> ch_ownerGuid c then
                  SendToOne (CHAT_NOT_OWNER_NOTICE (ch_name c)) guid w
                else remove_member E a guid targetGuid ban w)))"

definition UnBan :: "ChatEnv \<Rightarrow> cptr \<Rightarrow> uint32 \<Rightarrow> string \<Rightarrow> ChatWorld \<Rightarrow> ChatWorld" where
  "UnBan E a guid targetName =
     as_moderator a guid (\<lambda>w.
       (case chan_find_inworld E w targetName of
          None \<Rightarrow> not_found a guid targetName w
        | Some (targetGuid, _) \<Rightarrow>
            (let c = cw_heap w a
             in if \<not> IsBanned c targetGuid then SendToOne (CHAT_PLAYER_NOT_BANNED_NOTICE (ch_name c) targetName) guid w
                else
                  SendToAll E a (CHAT_PLAYER_UNBANNED_NOTICE (ch_name c) targetGuid guid) 0
                    (upd_chan a (\<lambda>c. c\<lparr>ch_banned := removeAll targetGuid (ch_banned c)\<rparr>) w))))"

definition ch_Password :: "ChatEnv \<Rightarrow> cptr \<Rightarrow> uint32 \<Rightarrow> string \<Rightarrow> ChatWorld \<Rightarrow> ChatWorld" where
  "ch_Password E a guid password =
     as_moderator a guid (\<lambda>w.
       SendToAll E a (CHAT_PASSWORD_CHANGED_NOTICE (ch_name (cw_heap w a)) guid) 0 (upd_chan a (\<lambda>c. c\<lparr>ch_password := password\<rparr>) w))"

definition SetMode :: "ChatEnv \<Rightarrow> cptr \<Rightarrow> uint32 \<Rightarrow> string \<Rightarrow> bool \<Rightarrow> bool \<Rightarrow> ChatWorld \<Rightarrow> ChatWorld" where
  "SetMode E a guid targetName moderator state w =
     (case chan_player w guid of
        None \<Rightarrow> w
      | Some p \<Rightarrow>
          as_moderator a guid (\<lambda>w.
            (case chan_find E w targetName of
               None \<Rightarrow> not_found a guid targetName w
             | Some (targetGuid, t) \<Rightarrow>
                 (let c = cw_heap w a
                  in if moderator \<and> guid = ch_ownerGuid c \<and> targetGuid = ch_ownerGuid c then w
                     else if \<not> IsOn c targetGuid then not_found a guid targetName w
                     else if (cp_security p < SEC_OBSERVER \<or> cp_security t < SEC_OBSERVER) \<and> cp_team p \<noteq> cp_team t \<and> \<not> cv_twoSide E then
                       not_found a guid targetName w
                     else if ch_ownerGuid c = targetGuid \<and> ch_ownerGuid c \<noteq> guid then SendToOne (CHAT_NOT_OWNER_NOTICE (ch_name c)) guid w
                     else if moderator then
                       (if HasChannelFlag c CHANNEL_FLAG_GENERAL \<and> cp_security t < SEC_OBSERVER then w
                        else set_member_mode E a MEMBER_FLAG_MODERATOR targetGuid state w)
                     else set_member_mode E a MEMBER_FLAG_MUTED targetGuid state w))) w)"

definition SetOwner_name :: "ChatEnv \<Rightarrow> cptr \<Rightarrow> uint32 \<Rightarrow> string \<Rightarrow> ChatWorld \<Rightarrow> ChatWorld" where
  "SetOwner_name E a guid targetName w =
     (case chan_player w guid of
        None \<Rightarrow> w
      | Some p \<Rightarrow>
          as_member a guid (\<lambda>w.
            (let c = cw_heap w a
             in if cp_security p < SEC_OBSERVER \<and> guid \<noteq> ch_ownerGuid c then SendToOne (CHAT_NOT_OWNER_NOTICE (ch_name c)) guid w
                else
                  (case chan_find_inworld E w targetName of
                     None \<Rightarrow> not_found a guid targetName w
                   | Some (targetGuid, t) \<Rightarrow>
                       if \<not> IsOn c targetGuid then not_found a guid targetName w
                       else if cp_team t \<noteq> cp_team p \<and> \<not> cv_twoSide E then not_found a guid targetName w
                       else if HasChannelFlag c CHANNEL_FLAG_GENERAL \<and> cp_security t < SEC_OBSERVER then w
                       else ch_SetOwner E a targetGuid True (upd_chan a (upd_info targetGuid (set_mflag MEMBER_FLAG_MODERATOR True)) w)))) w)"

definition SendWhoOwner :: "ChatEnv \<Rightarrow> cptr \<Rightarrow> uint32 \<Rightarrow> ChatWorld \<Rightarrow> ChatWorld" where
  "SendWhoOwner E a guid =
     as_member a guid (\<lambda>w.
       (let c = cw_heap w a;
            name = (case cv_nameOf E (ch_ownerGuid c) of None \<Rightarrow> ''PLAYER_NOT_FOUND'' | Some n \<Rightarrow> if n = [] then ''PLAYER_NOT_FOUND'' else n)
        in SendToOne (CHAT_CHANNEL_OWNER_NOTICE (ch_name c) (if IsConstant c \<or> ch_ownerGuid c = 0 then ''Nobody'' else name)) guid w))"

definition ch_List :: "ChatEnv \<Rightarrow> cptr \<Rightarrow> uint32 \<Rightarrow> ChatWorld \<Rightarrow> ChatWorld" where
  "ch_List E a guid =
     as_member a guid (\<lambda>w.
       (let c = cw_heap w a;
            seen = (\<lambda>(k, x). (case chan_player w k of
                      None \<Rightarrow> False
                    | Some p \<Rightarrow> cp_inworld p \<and> (sec_of w guid > SEC_PLAYER \<or> cp_security p \<le> cv_gmLevelInWho E) \<and> cv_visible E k guid))
        in SendToOne (SMSG_CHANNEL_LIST (ch_name c) (ch_flags c) (map (\<lambda>(k, x). (k, pi_flags x)) (filter seen (ch_players c)))) guid w))"

definition ch_Announce :: "ChatEnv \<Rightarrow> cptr \<Rightarrow> uint32 \<Rightarrow> ChatWorld \<Rightarrow> ChatWorld" where
  "ch_Announce E a guid =
     as_moderator a guid (\<lambda>w.
       (let c = cw_heap w a; on = (\<not> ch_announce c)
        in SendToAll E a (if on then CHAT_ANNOUNCEMENTS_ON_NOTICE (ch_name c) guid else CHAT_ANNOUNCEMENTS_OFF_NOTICE (ch_name c) guid) 0
             (upd_chan a (\<lambda>c. c\<lparr>ch_announce := on\<rparr>) w)))"

definition ch_Moderate :: "ChatEnv \<Rightarrow> cptr \<Rightarrow> uint32 \<Rightarrow> ChatWorld \<Rightarrow> ChatWorld" where
  "ch_Moderate E a guid =
     as_moderator a guid (\<lambda>w.
       (let c = cw_heap w a; on = (\<not> ch_moderate c)
        in SendToAll E a (if on then CHAT_MODERATION_ON_NOTICE (ch_name c) guid else CHAT_MODERATION_OFF_NOTICE (ch_name c) guid) 0
             (upd_chan a (\<lambda>c. c\<lparr>ch_moderate := on\<rparr>) w)))"

definition ch_Invite :: "ChatEnv \<Rightarrow> cptr \<Rightarrow> uint32 \<Rightarrow> string \<Rightarrow> ChatWorld \<Rightarrow> ChatWorld" where
  "ch_Invite E a guid targetName =
     as_member a guid (\<lambda>w.
       (let c = cw_heap w a
        in case chan_find E w targetName of
             None \<Rightarrow> not_found a guid targetName w
           | Some (targetGuid, t) \<Rightarrow>
               if IsOn c targetGuid then SendToOne (CHAT_PLAYER_ALREADY_MEMBER_NOTICE (ch_name c) targetGuid) guid w
               else if IsBanned c targetGuid then SendToOne (CHAT_PLAYER_INVITE_BANNED_NOTICE (ch_name c) targetName) guid w
               else
                 (case chan_player w guid of
                    None \<Rightarrow> w
                  | Some p \<Rightarrow>
                      if cp_team t \<noteq> cp_team p \<and> \<not> cv_twoSide E then SendToOne (CHAT_INVITE_WRONG_FACTION_NOTICE (ch_name c)) guid w
                      else
                        SendToOne (CHAT_PLAYER_INVITED_NOTICE (ch_name c) (cp_name t)) guid
                          (if cv_ignores E targetGuid guid then w
                           else SendToOne (CHAT_INVITE_NOTICE (ch_name c) guid) targetGuid w))))"

section \<open>Talking\<close>

datatype SayRefusal = SAY_OK | SAY_NOT_MEMBER | SAY_MUTED | SAY_NOT_MODERATOR

definition CheckSay :: "ChatWorld \<Rightarrow> cptr \<Rightarrow> uint32 \<Rightarrow> bool \<Rightarrow> SayRefusal" where
  "CheckSay w a guid skipCheck =
     (let c = cw_heap w a; honor_rank = (case chan_player w guid of None \<Rightarrow> 0 | Some p \<Rightarrow> cp_honorRank p)
      in if skipCheck then SAY_OK
         else if \<not> IsOn c guid then SAY_NOT_MEMBER
         else if IsMuted (info_of c guid) \<or> ch_channelId c = CHANNEL_ID_WORLD_DEFENSE \<and> honor_rank < 15 then SAY_MUTED
         else if ch_moderate c \<and> \<not> IsModerator (info_of c guid) \<and> sec_of w guid < SEC_OBSERVER then SAY_NOT_MODERATOR
         else SAY_OK)"

text \<open>A sender whose account is muted in public gets the message back and nobody else hears it.\<close>

definition echo_only :: "ChatEnv \<Rightarrow> ChatPlayer \<Rightarrow> bool" where
  "echo_only E p \<longleftrightarrow> cp_fingerprintBanned p \<or>
     cp_accountFlags p AND ACCOUNT_FLAG_MUTED_FROM_PUBLIC_CHANNELS \<noteq> 0 \<and> cp_accountMaxLevel p < cv_vanishLevel E"

definition say_language :: "ChatEnv \<Rightarrow> Channel \<Rightarrow> ChatPlayer option \<Rightarrow> uint32 \<Rightarrow> uint32" where
  "say_language E c pPlayer lang =
     (case pPlayer of
        Some p \<Rightarrow> if IsDefenseChannel (ch_channelId c) then cv_baseLanguage E (cp_race p) else if cv_twoSide E then LANG_UNIVERSAL else lang
      | None \<Rightarrow> if cv_twoSide E then LANG_UNIVERSAL else lang)"

definition ch_Say :: "ChatEnv \<Rightarrow> cptr \<Rightarrow> uint32 \<Rightarrow> string \<Rightarrow> uint32 \<Rightarrow> bool \<Rightarrow> ChatWorld \<Rightarrow> ChatWorld" where
  "ch_Say E a guid str lang skipCheck w =
     (let c = cw_heap w a; pPlayer = chan_player w guid;
          data = CHAT_MSG_CHANNEL str (say_language E c pPlayer lang) (case pPlayer of None \<Rightarrow> 0 | Some p \<Rightarrow> cp_chatTag p) guid (ch_name c)
                   (case pPlayer of None \<Rightarrow> 0 | Some p \<Rightarrow> cp_honorRank p)
      in case CheckSay w a guid skipCheck of
           SAY_NOT_MEMBER \<Rightarrow> SendToOne (CHAT_NOT_MEMBER_NOTICE (ch_name c)) guid w
         | SAY_MUTED \<Rightarrow> SendToOne (CHAT_MUTED_NOTICE (ch_name c)) guid w
         | SAY_NOT_MODERATOR \<Rightarrow> SendToOne (CHAT_NOT_MODERATOR_NOTICE (ch_name c)) guid w
         | SAY_OK \<Rightarrow>
             if \<not> skipCheck \<and> (case pPlayer of None \<Rightarrow> False | Some p \<Rightarrow> echo_only E p) then csend guid data w
             else SendToAll E a data (if \<not> skipCheck \<and> \<not> IsModerator (info_of c guid) then guid else 0) w)"

text \<open>Messages go through the queue of the broadcaster. The script hooks that listen are not modelled.\<close>

definition AsyncSay :: "cptr \<Rightarrow> uint32 \<Rightarrow> string \<Rightarrow> uint32 \<Rightarrow> bool \<Rightarrow> ChatWorld \<Rightarrow> ChatWorld" where
  "AsyncSay a guid what lang skipCheck w =
     w\<lparr>cw_queue := cw_queue w @ [\<lparr>cm_Message = what, cm_ChannelName = ch_name (cw_heap w a), cm_PlayerGuid = guid, cm_Language = lang,
        cm_ChannelTeam = ch_Team (cw_heap w a), cm_bSkipChecks = skipCheck\<rparr>]\<rparr>"

end
