(* ===== verification/Chat_Handler.thy ===== *)
theory Chat_Handler
  imports Chat_Channel Text_Util "HOL-Library.AList"
begin

unbundle bit_operations_syntax

text \<open>
  The channel managers of the two factions (src/game/Chat/ChannelMgr.cpp), the queue of messages
  (src/game/Handlers/ChannelBroadcaster.cpp), the channel opcodes (src/game/Handlers/ChannelHandler.cpp) and the parts of a player
  object and of the chat handler that work on channels. A handler gets the guid of the session's player.
\<close>

section \<open>Managers\<close>

definition chan_key :: "string \<Rightarrow> uint16 list" where
  "chan_key name = wstrToLower (snd (Utf8toWStr name))"

definition channelMgr :: "ChatEnv \<Rightarrow> uint32 \<Rightarrow> chat_mgr option" where
  "channelMgr E team =
     (if cv_twoSide E then Some AllianceChannelMgr
      else if team = ALLIANCE then Some AllianceChannelMgr
      else if team = HORDE then Some HordeChannelMgr
      else None)"

fun mgr_team :: "chat_mgr \<Rightarrow> uint32" where
  "mgr_team AllianceChannelMgr = ALLIANCE"
| "mgr_team HordeChannelMgr = HORDE"

definition find_channel :: "chat_mgr \<Rightarrow> string \<Rightarrow> ChatWorld \<Rightarrow> cptr option" where
  "find_channel m name w = map_of (cw_channels w m) (chan_key name)"

text \<open>\<open>GetOrCreateChannel\<close> with the value of \<open>m_team\<close>.\<close>

definition get_or_create :: "ChatEnv \<Rightarrow> chat_mgr \<Rightarrow> uint32 \<Rightarrow> string \<Rightarrow> bool \<Rightarrow> ChatWorld \<Rightarrow> cptr option \<times> ChatWorld" where
  "get_or_create E m team name allowAreaDependantChans w =
     (case find_channel m name w of
        Some a \<Rightarrow> (Some a, w)
      | None \<Rightarrow>
          if \<not> allowAreaDependantChans \<and>
             (case GetChannelEntryFor (cv_entries E) name of None \<Rightarrow> False | Some ch \<Rightarrow> ce_flags ch AND CHANNEL_DBC_FLAG_ZONE_DEP \<noteq> 0)
          then (None, w)
          else
            (let a = cw_next w
             in (Some a, w\<lparr>cw_heap := (cw_heap w)(a := new_Channel E name team), cw_next := Suc a,
                   cw_channels := (cw_channels w)(m := AList.update (chan_key name) a (cw_channels w m))\<rparr>)))"

definition GetOrCreateChannel :: "ChatEnv \<Rightarrow> chat_mgr \<Rightarrow> string \<Rightarrow> ChatWorld \<Rightarrow> cptr option \<times> ChatWorld" where
  "GetOrCreateChannel E m name w = get_or_create E m (mgr_team m) name True w"

definition GetChannel :: "chat_mgr \<Rightarrow> string \<Rightarrow> uint32 \<Rightarrow> ChatWorld \<Rightarrow> cptr option \<times> ChatWorld" where
  "GetChannel m name me w =
     (case find_channel m name w of
        None \<Rightarrow> (None, csend me (CHAT_NOT_MEMBER_NOTICE name) w)
      | Some a \<Rightarrow> (Some a, w))"

definition mgr_LeftChannel :: "chat_mgr \<Rightarrow> string \<Rightarrow> ChatWorld \<Rightarrow> ChatWorld" where
  "mgr_LeftChannel m name w =
     (case find_channel m name w of
        None \<Rightarrow> w
      | Some a \<Rightarrow>
          (let c = cw_heap w a
           in if ch_players c = [] \<and> \<not> IsConstant c \<and> ch_securityLevel c = 0 then
                w\<lparr>cw_channels := (cw_channels w)(m := AList.delete (chan_key name) (cw_channels w m)), cw_freed := a # cw_freed w\<rparr>
              else w))"

definition default_channels :: "bool \<Rightarrow> (string \<times> uint8) list" where
  "default_channels pvp =
     [(''Warden'', SEC_DEVELOPER), (''Anticrash'', SEC_DEVELOPER), (''Antiflood'', SEC_MODERATOR), (''ItemsCheck'', SEC_DEVELOPER),
      (''GoldDupe'', SEC_DEVELOPER), (''SAC'', SEC_DEVELOPER), (''MailsAC'', SEC_DEVELOPER), (''BotsDetector'', SEC_DEVELOPER),
      (''ChatSpam'', SEC_MODERATOR), (''LowLevelBots'', SEC_DEVELOPER), (''Global'', SEC_MODERATOR)] @
     (if pvp then [(''WorldH'', SEC_MODERATOR), (''WorldA'', SEC_MODERATOR)] else [])"

definition create_default :: "ChatEnv \<Rightarrow> chat_mgr \<Rightarrow> string \<times> uint8 \<Rightarrow> ChatWorld \<Rightarrow> ChatWorld" where
  "create_default E m = (\<lambda>(name, sec) w.
     (case get_or_create E m ALLIANCE name True w of
        (Some a, w1) \<Rightarrow> upd_chan a (\<lambda>c. c\<lparr>ch_securityLevel := sec\<rparr>) w1
      | (None, w1) \<Rightarrow> w1))"

text \<open>The constructor of \<open>ChannelMgr\<close> makes the default channels. The derived constructor sets \<open>m_team\<close> only after
  that, so it still has its initial value, the Alliance, in both managers.\<close>

definition CreateDefaultChannels :: "ChatEnv \<Rightarrow> chat_mgr \<Rightarrow> ChatWorld \<Rightarrow> ChatWorld" where
  "CreateDefaultChannels E m w =
     (let w1 = fold (create_default E m) (default_channels (cv_pvpRealm E)) w
      in fold (\<lambda>(_, a). upd_chan a (\<lambda>c. c\<lparr>ch_announce := False\<rparr>)) (cw_channels w1 m) w1)"

definition empty_channel :: Channel where
  "empty_channel = \<lparr>ch_announce = False, ch_moderate = False, ch_levelRestricted = False, ch_name = [], ch_password = [], ch_flags = 0,
     ch_securityLevel = 0, ch_Team = 0, ch_channelId = 0, ch_ownerGuid = 0, ch_players = [], ch_banned = []\<rparr>"

definition chat_start :: "ChatEnv \<Rightarrow> ChatWorld" where
  "chat_start E = CreateDefaultChannels E HordeChannelMgr (CreateDefaultChannels E AllianceChannelMgr
     \<lparr>cw_heap = (\<lambda>_. empty_channel), cw_next = 0, cw_freed = [], cw_channels = (\<lambda>_. []), cw_players = (\<lambda>_. None), cw_queue = [], cw_out = []\<rparr>)"

text \<open>Use of an optional channel.\<close>

definition on_channel :: "cptr option \<times> ChatWorld \<Rightarrow> (cptr \<Rightarrow> ChatWorld \<Rightarrow> ChatWorld) \<Rightarrow> ChatWorld" where
  "on_channel s f = (case s of (None, w) \<Rightarrow> w | (Some a, w) \<Rightarrow> f a w)"

definition say_in :: "ChatEnv \<Rightarrow> uint32 \<Rightarrow> string \<Rightarrow> uint32 \<Rightarrow> string \<Rightarrow> ChatWorld \<Rightarrow> ChatWorld" where
  "say_in E team channelName guid message w =
     (case channelMgr E team of
        None \<Rightarrow> w
      | Some m \<Rightarrow> on_channel (GetOrCreateChannel E m channelName w) (\<lambda>a. AsyncSay a guid message LANG_UNIVERSAL True))"

definition AnnounceBothFactionsChannel :: "ChatEnv \<Rightarrow> string \<Rightarrow> uint32 \<Rightarrow> string \<Rightarrow> ChatWorld \<Rightarrow> ChatWorld" where
  "AnnounceBothFactionsChannel E channelName playerGuid message w =
     (let w1 = say_in E HORDE channelName playerGuid message w
      in if cv_twoSide E then w1 else say_in E ALLIANCE channelName playerGuid message w1)"

section \<open>The broadcaster\<close>

text \<open>The team of a message is that of a channel, the Alliance or the Horde, so there is always a manager.\<close>

definition broadcast_one :: "ChatEnv \<Rightarrow> ChatWorld \<Rightarrow> ChatWorld" where
  "broadcast_one E w =
     (case cw_queue w of
        [] \<Rightarrow> w
      | msg # rest \<Rightarrow>
          (let w1 = w\<lparr>cw_queue := rest\<rparr>
           in case channelMgr E (cm_ChannelTeam msg) of
                None \<Rightarrow> w1
              | Some m \<Rightarrow>
                  on_channel (GetOrCreateChannel E m (cm_ChannelName msg) w1)
                    (\<lambda>a. ch_Say E a (cm_PlayerGuid msg) (cm_Message msg) (cm_Language msg) (cm_bSkipChecks msg))))"

text \<open>A round of the worker thread takes at most five messages.\<close>

definition broadcast_round :: "ChatEnv \<Rightarrow> ChatWorld \<Rightarrow> ChatWorld" where
  "broadcast_round E = (broadcast_one E ^^ 5)"

section \<open>Opcodes\<close>

text \<open>The player pointer of the session; \<open>channelMgr\<close> of the player's team and of the other one.\<close>

definition other_team :: "uint32 \<Rightarrow> uint32" where
  "other_team team = (if team = ALLIANCE then HORDE else ALLIANCE)"

definition is_alpha :: "char \<Rightarrow> bool" where
  "is_alpha c \<longleftrightarrow> of_char c \<in> {65..(90 :: nat)} \<or> of_char c \<in> {97..(122 :: nat)}"

definition with_mgr :: "ChatEnv \<Rightarrow> uint32 \<Rightarrow> (chat_mgr \<Rightarrow> ChatWorld \<Rightarrow> ChatWorld) \<Rightarrow> ChatWorld \<Rightarrow> ChatWorld" where
  "with_mgr E team f w = (case channelMgr E team of None \<Rightarrow> w | Some m \<Rightarrow> f m w)"

definition HandleJoinChannelOpcode :: "ChatEnv \<Rightarrow> uint32 \<Rightarrow> string \<Rightarrow> string \<Rightarrow> ChatWorld \<Rightarrow> ChatWorld" where
  "HandleJoinChannelOpcode E me channelname pass w =
     (case chan_player w me of
        None \<Rightarrow> w
      | Some p \<Rightarrow>
          if channelname = [] \<or> (of_char (hd channelname) \<le> (127 :: nat) \<and> \<not> is_alpha (hd channelname)) then
            csend me (CHAT_INVALID_NAME_NOTICE channelname) w
          else
            (let w1 = with_mgr E (cp_team p) (\<lambda>m w. on_channel (GetOrCreateChannel E m channelname w) (\<lambda>a. ch_Join E a me pass True)) w
             in if cp_security p > SEC_PLAYER \<and> cv_gmOpposite E then
                  with_mgr E (other_team (cp_team p))
                    (\<lambda>m w. on_channel (GetOrCreateChannel E m channelname w)
                       (\<lambda>a w. if ch_securityLevel (cw_heap w a) = 0 then ch_Join E a me pass True w else w)) w1
                else w1))"

definition leave_named :: "ChatEnv \<Rightarrow> uint32 \<Rightarrow> string \<Rightarrow> chat_mgr \<Rightarrow> ChatWorld \<Rightarrow> ChatWorld" where
  "leave_named E me channelname m w =
     mgr_LeftChannel m channelname (on_channel (GetChannel m channelname me w) (\<lambda>a. ch_Leave E a me True))"

definition HandleLeaveChannelOpcode :: "ChatEnv \<Rightarrow> uint32 \<Rightarrow> string \<Rightarrow> ChatWorld \<Rightarrow> ChatWorld" where
  "HandleLeaveChannelOpcode E me channelname w =
     (case chan_player w me of
        None \<Rightarrow> w
      | Some p \<Rightarrow>
          if channelname = [] then w
          else
            (let w1 = with_mgr E (cp_team p) (leave_named E me channelname) w
             in if cp_security p > SEC_PLAYER \<and> cv_gmOpposite E then
                  with_mgr E (other_team (cp_team p)) (leave_named E me channelname) w1
                else w1))"

text \<open>The other handlers look the channel up in the manager of the player's team and call one method. Those with a
  player's name normalize it first.\<close>

definition to_channel :: "ChatEnv \<Rightarrow> uint32 \<Rightarrow> string \<Rightarrow> (cptr \<Rightarrow> ChatWorld \<Rightarrow> ChatWorld) \<Rightarrow> ChatWorld \<Rightarrow> ChatWorld" where
  "to_channel E me channelname f w =
     (case chan_player w me of
        None \<Rightarrow> w
      | Some p \<Rightarrow> with_mgr E (cp_team p) (\<lambda>m w. on_channel (GetChannel m channelname me w) f) w)"

definition with_name :: "string \<Rightarrow> (string \<Rightarrow> ChatWorld \<Rightarrow> ChatWorld) \<Rightarrow> ChatWorld \<Rightarrow> ChatWorld" where
  "with_name name f w = (case normalizePlayerName name 15 True of (False, _) \<Rightarrow> w | (True, n) \<Rightarrow> f n w)"

definition HandleChannelListOpcode :: "ChatEnv \<Rightarrow> uint32 \<Rightarrow> string \<Rightarrow> ChatWorld \<Rightarrow> ChatWorld" where
  "HandleChannelListOpcode E me channelname = to_channel E me channelname (\<lambda>a. ch_List E a me)"

definition HandleChannelPasswordOpcode :: "ChatEnv \<Rightarrow> uint32 \<Rightarrow> string \<Rightarrow> string \<Rightarrow> ChatWorld \<Rightarrow> ChatWorld" where
  "HandleChannelPasswordOpcode E me channelname pass = to_channel E me channelname (\<lambda>a. ch_Password E a me pass)"

definition HandleChannelSetOwnerOpcode :: "ChatEnv \<Rightarrow> uint32 \<Rightarrow> string \<Rightarrow> string \<Rightarrow> ChatWorld \<Rightarrow> ChatWorld" where
  "HandleChannelSetOwnerOpcode E me channelname newp =
     with_name newp (\<lambda>n. to_channel E me channelname (\<lambda>a. SetOwner_name E a me n))"

definition HandleChannelOwnerOpcode :: "ChatEnv \<Rightarrow> uint32 \<Rightarrow> string \<Rightarrow> ChatWorld \<Rightarrow> ChatWorld" where
  "HandleChannelOwnerOpcode E me channelname = to_channel E me channelname (\<lambda>a. SendWhoOwner E a me)"

text \<open>Moderator, unmoderator, mute and unmute.\<close>

definition HandleChannelModeOpcode :: "ChatEnv \<Rightarrow> uint32 \<Rightarrow> string \<Rightarrow> string \<Rightarrow> bool \<Rightarrow> bool \<Rightarrow> ChatWorld \<Rightarrow> ChatWorld" where
  "HandleChannelModeOpcode E me channelname otp moderator state =
     with_name otp (\<lambda>n. to_channel E me channelname (\<lambda>a. SetMode E a me n moderator state))"

definition HandleChannelInviteOpcode :: "ChatEnv \<Rightarrow> uint32 \<Rightarrow> string \<Rightarrow> string \<Rightarrow> ChatWorld \<Rightarrow> ChatWorld" where
  "HandleChannelInviteOpcode E me channelname otp =
     with_name otp (\<lambda>n w.
       (case chan_player w me of
          None \<Rightarrow> w
        | Some p \<Rightarrow> if cp_level p < cv_inviteMinLevel E then w else to_channel E me channelname (\<lambda>a. ch_Invite E a me n) w))"

definition HandleChannelKickOpcode :: "ChatEnv \<Rightarrow> uint32 \<Rightarrow> string \<Rightarrow> string \<Rightarrow> ChatWorld \<Rightarrow> ChatWorld" where
  "HandleChannelKickOpcode E me channelname otp = with_name otp (\<lambda>n. to_channel E me channelname (\<lambda>a. KickOrBan E a me n False))"

definition HandleChannelBanOpcode :: "ChatEnv \<Rightarrow> uint32 \<Rightarrow> string \<Rightarrow> string \<Rightarrow> ChatWorld \<Rightarrow> ChatWorld" where
  "HandleChannelBanOpcode E me channelname otp = with_name otp (\<lambda>n. to_channel E me channelname (\<lambda>a. KickOrBan E a me n True))"

definition HandleChannelUnbanOpcode :: "ChatEnv \<Rightarrow> uint32 \<Rightarrow> string \<Rightarrow> string \<Rightarrow> ChatWorld \<Rightarrow> ChatWorld" where
  "HandleChannelUnbanOpcode E me channelname otp = with_name otp (\<lambda>n. to_channel E me channelname (\<lambda>a. UnBan E a me n))"

definition HandleChannelAnnouncementsOpcode :: "ChatEnv \<Rightarrow> uint32 \<Rightarrow> string \<Rightarrow> ChatWorld \<Rightarrow> ChatWorld" where
  "HandleChannelAnnouncementsOpcode E me channelname = to_channel E me channelname (\<lambda>a. ch_Announce E a me)"

definition HandleChannelModerateOpcode :: "ChatEnv \<Rightarrow> uint32 \<Rightarrow> string \<Rightarrow> ChatWorld \<Rightarrow> ChatWorld" where
  "HandleChannelModerateOpcode E me channelname = to_channel E me channelname (\<lambda>a. ch_Moderate E a me)"

datatype channel_opcode =
    CMSG_JOIN_CHANNEL string string
  | CMSG_LEAVE_CHANNEL string
  | CMSG_CHANNEL_LIST string
  | CMSG_CHANNEL_PASSWORD string string
  | CMSG_CHANNEL_SET_OWNER string string
  | CMSG_CHANNEL_OWNER string
  | CMSG_CHANNEL_MODERATOR string string
  | CMSG_CHANNEL_UNMODERATOR string string
  | CMSG_CHANNEL_MUTE string string
  | CMSG_CHANNEL_UNMUTE string string
  | CMSG_CHANNEL_INVITE string string
  | CMSG_CHANNEL_KICK string string
  | CMSG_CHANNEL_BAN string string
  | CMSG_CHANNEL_UNBAN string string
  | CMSG_CHANNEL_ANNOUNCEMENTS string
  | CMSG_CHANNEL_MODERATE string

fun handle_channel :: "ChatEnv \<Rightarrow> uint32 \<Rightarrow> channel_opcode \<Rightarrow> ChatWorld \<Rightarrow> ChatWorld" where
  "handle_channel E me (CMSG_JOIN_CHANNEL n pw) = HandleJoinChannelOpcode E me n pw"
| "handle_channel E me (CMSG_LEAVE_CHANNEL n) = HandleLeaveChannelOpcode E me n"
| "handle_channel E me (CMSG_CHANNEL_LIST n) = HandleChannelListOpcode E me n"
| "handle_channel E me (CMSG_CHANNEL_PASSWORD n pw) = HandleChannelPasswordOpcode E me n pw"
| "handle_channel E me (CMSG_CHANNEL_SET_OWNER n t) = HandleChannelSetOwnerOpcode E me n t"
| "handle_channel E me (CMSG_CHANNEL_OWNER n) = HandleChannelOwnerOpcode E me n"
| "handle_channel E me (CMSG_CHANNEL_MODERATOR n t) = HandleChannelModeOpcode E me n t True True"
| "handle_channel E me (CMSG_CHANNEL_UNMODERATOR n t) = HandleChannelModeOpcode E me n t True False"
| "handle_channel E me (CMSG_CHANNEL_MUTE n t) = HandleChannelModeOpcode E me n t False True"
| "handle_channel E me (CMSG_CHANNEL_UNMUTE n t) = HandleChannelModeOpcode E me n t False False"
| "handle_channel E me (CMSG_CHANNEL_INVITE n t) = HandleChannelInviteOpcode E me n t"
| "handle_channel E me (CMSG_CHANNEL_KICK n t) = HandleChannelKickOpcode E me n t"
| "handle_channel E me (CMSG_CHANNEL_BAN n t) = HandleChannelBanOpcode E me n t"
| "handle_channel E me (CMSG_CHANNEL_UNBAN n t) = HandleChannelUnbanOpcode E me n t"
| "handle_channel E me (CMSG_CHANNEL_ANNOUNCEMENTS n) = HandleChannelAnnouncementsOpcode E me n"
| "handle_channel E me (CMSG_CHANNEL_MODERATE n) = HandleChannelModerateOpcode E me n"

section \<open>Other callers\<close>

text \<open>A chat message to a channel (\<open>HandleMessagechatOpcode\<close>, the case \<open>CHAT_MSG_CHANNEL\<close>). Whether the antispam
  component lets a message pass, the cooldown and the language filter are parameters.\<close>

definition public_refusal :: "ChatEnv \<Rightarrow> uint32 \<Rightarrow> ChatPlayer \<Rightarrow> string \<Rightarrow> Channel \<Rightarrow> (ChatWorld \<Rightarrow> ChatWorld) option" where
  "public_refusal E me p msg c =
     (if HasChannelFlag c CHANNEL_FLAG_CUSTOM then None
      else if cp_security p > SEC_PLAYER \<and> \<not> cv_gmsPublic E then Some (csend me (SysMessage ''GMs can't use public channels.''))
      else if HasChannelFlag c CHANNEL_FLAG_GENERAL \<and> cv_enforceEnglish E me msg then Some id
      else if cv_cooldown E me \<noteq> 0 then Some (csend me (SysMessage (''Please wait '' @ to_string (cv_cooldown E me) @ '' seconds before sending another message.'')))
      else None)"

definition global_text :: "uint32 \<Rightarrow> string \<Rightarrow> string" where
  "global_text team msg = ''|cff'' @ (if team = HORDE then ''ff0000'' else ''2773ff'') @ msg @ ''|r''"

definition say_to_channel :: "ChatEnv \<Rightarrow> uint32 \<Rightarrow> ChatPlayer \<Rightarrow> string \<Rightarrow> string \<Rightarrow> uint32 \<Rightarrow> cptr \<Rightarrow> ChatWorld \<Rightarrow> ChatWorld" where
  "say_to_channel E me p channel msg lang a w =
     (let c = cw_heap w a
      in if ch_levelRestricted c \<and> cp_level p < cv_worldChanMinLevel E \<and> cp_accountMaxLevel p < cv_vanishLevel E then
           csend me (SysMessage ''You cannot use this channel yet.'') w
         else
           (case public_refusal E me p msg c of
              Some f \<Rightarrow> f w
            | None \<Rightarrow>
                if channel = ''World'' \<and> cv_enforceEnglish E me msg then w
                else
                  (let w1 = (if cv_pvpRealm E \<and> channel = ''WorldH'' then say_in E HORDE ''World'' me msg w else w);
                       w2 = (if cv_pvpRealm E \<and> channel = ''WorldA'' then say_in E ALLIANCE ''World'' me msg w1 else w1)
                   in if lang = LANG_ADDON \<or> cv_antispam E me msg then
                        (let w3 = AsyncSay a me msg lang False w2
                         in if lang \<noteq> LANG_ADDON \<and> channel = ''World''
                            then AnnounceBothFactionsChannel E ''Global'' me (global_text (cp_team p) msg) w3 else w3)
                      else w2)))"

definition HandleChannelMessage :: "ChatEnv \<Rightarrow> uint32 \<Rightarrow> string \<Rightarrow> string \<Rightarrow> uint32 \<Rightarrow> ChatWorld \<Rightarrow> ChatWorld" where
  "HandleChannelMessage E me channel msg lang w =
     (case chan_player w me of
        None \<Rightarrow> w
      | Some p \<Rightarrow> to_channel E me channel (say_to_channel E me p channel msg lang) w)"

text \<open>The loop of \<open>CleanupChannels\<close> takes the first channel of the player's list; leaving does not change the list.\<close>

fun cleanup_loop :: "ChatEnv \<Rightarrow> uint32 \<Rightarrow> uint32 \<Rightarrow> cptr list \<Rightarrow> ChatWorld \<Rightarrow> ChatWorld" where
  "cleanup_loop E k team [] w = w"
| "cleanup_loop E k team (a # as) w =
     (let w1 = ch_Leave E a k False (upd_cplayer k (\<lambda>p. p\<lparr>cp_channels := as\<rparr>) w);
          w2 = with_mgr E team (\<lambda>m. mgr_LeftChannel m (ch_name (cw_heap w1 a))) w1
      in cleanup_loop E k team as w2)"

definition CleanupChannels :: "ChatEnv \<Rightarrow> uint32 \<Rightarrow> ChatWorld \<Rightarrow> ChatWorld" where
  "CleanupChannels E k w = (case chan_player w k of None \<Rightarrow> w | Some p \<Rightarrow> cleanup_loop E k (cp_team p) (cp_channels p) w)"

definition LeaveLFGChannel :: "ChatEnv \<Rightarrow> uint32 \<Rightarrow> ChatWorld \<Rightarrow> ChatWorld" where
  "LeaveLFGChannel E k w =
     (case chan_player w k of
        None \<Rightarrow> w
      | Some p \<Rightarrow>
          (case find (\<lambda>a. HasChannelFlag (cw_heap w a) CHANNEL_FLAG_LFG) (cp_channels p) of
             None \<Rightarrow> w
           | Some a \<Rightarrow> ch_Leave E a k True w))"

text \<open>The game master command that puts the selected player into a channel.\<close>

definition ForceJoinChannelCommand :: "ChatEnv \<Rightarrow> uint32 \<Rightarrow> string \<Rightarrow> ChatWorld \<Rightarrow> ChatWorld" where
  "ForceJoinChannelCommand E k channelName w =
     (case chan_player w k of
        None \<Rightarrow> w
      | Some p \<Rightarrow>
          if channelName = [] then w
          else with_mgr E (cp_team p) (\<lambda>m w. on_channel (GetOrCreateChannel E m channelName w) (\<lambda>a. ch_Join E a k [] False)) w)"

end
