(* ===== verification/Chat_Invariant.thy ===== *)
theory Chat_Invariant
  imports Chat_Handler
begin

unbundle bit_operations_syntax

text \<open>
  What the channel code keeps. \<open>chat_ok\<close> is memory safety and the structure of the channels: the managers and the
  players hold no pointer to a deleted channel, a player is a member of every channel in the own list, and a channel has at most one
  owner. \<open>strict\<close> says in addition that members are online players who know of the channel and are not banned.
\<close>

named_theorems calm_intros

section \<open>Member maps\<close>

lemma map_of_put_info [simp]: "map_of (put_info k x ps) = (map_of ps)(k \<mapsto> x)"
  by (induction k x ps rule: put_info.induct) auto

lemma map_of_erase_info [simp]: "map_of (erase_info k ps) = (map_of ps)(k := None)"
  by (induction ps) (auto simp: erase_info_def)

lemma put_info_keys: "fst ` set (put_info k x ps) = insert k (fst ` set ps)"
  by (induction k x ps rule: put_info.induct) auto

definition sorted_keys :: "PlayerList \<Rightarrow> bool" where
  "sorted_keys ps \<longleftrightarrow> sorted_wrt (<) (map fst ps)"

lemma sorted_put_info: "sorted_keys ps \<Longrightarrow> sorted_keys (put_info k x ps)"
proof (induction k x ps rule: put_info.induct)
  case (2 k x j y ps)
  have "\<forall>i \<in> fst ` set (put_info k x ps). j < i" if "\<not> k < j" "k \<noteq> j"
    using that 2(2) by (auto simp: sorted_keys_def put_info_keys)
  then show ?case using 2 by (auto simp: sorted_keys_def dest: order.strict_trans)
qed (simp add: sorted_keys_def)

lemma sorted_erase_info: "sorted_keys ps \<Longrightarrow> sorted_keys (erase_info k ps)"
  by (induction ps) (auto simp: sorted_keys_def erase_info_def)

lemma info_of_eq: "info_of c k = (case map_of (ch_players c) k of None \<Rightarrow> no_info | Some x \<Rightarrow> x)"
  by (simp add: info_of_def split: option.split)

lemma upd_info_sel [simp]:
  "map_of (ch_players (upd_info k f c)) = (map_of (ch_players c))(k \<mapsto> f (info_of c k))"
  "ch_ownerGuid (upd_info k f c) = ch_ownerGuid c" "ch_banned (upd_info k f c) = ch_banned c" "ch_name (upd_info k f c) = ch_name c"
  "ch_password (upd_info k f c) = ch_password c" "ch_moderate (upd_info k f c) = ch_moderate c" "ch_announce (upd_info k f c) = ch_announce c"
  "ch_flags (upd_info k f c) = ch_flags c" "ch_channelId (upd_info k f c) = ch_channelId c"
  by (simp_all add: upd_info_def)

lemma set_mflag_sel [simp]: "pi_player (set_mflag f b x) = pi_player x"
  by (simp add: set_mflag_def)

lemma no_info_sel [simp]: "pi_player no_info = 0" "pi_flags no_info = 0"
  by (simp_all add: no_info_def)

lemma mflag_bits [simp]: "IsOwner (set_mflag MEMBER_FLAG_OWNER b x) = b"
  "IsOwner (set_mflag MEMBER_FLAG_MODERATOR b x) = IsOwner x" "IsOwner (set_mflag MEMBER_FLAG_MUTED b x) = IsOwner x"
  by (auto simp: has_mflag_def set_mflag_def and_one_eq even_or_iff even_and_iff odd_iff_mod_2_eq_one [symmetric])

section \<open>Channels\<close>

text \<open>An entry that the indexing operator adds has the empty guid as its player.\<close>

definition chan_ok :: "Channel \<Rightarrow> bool" where
  "chan_ok c \<longleftrightarrow> sorted_keys (ch_players c) \<and>
     (\<forall>k x. map_of (ch_players c) k = Some x \<longrightarrow> (IsOwner x \<longrightarrow> k = ch_ownerGuid c \<and> k \<noteq> 0) \<and> pi_player x \<in> {0, k})"

lemma chan_okD:
  assumes "chan_ok c" and "map_of (ch_players c) k = Some x"
  shows "IsOwner x \<Longrightarrow> k = ch_ownerGuid c \<and> k \<noteq> 0" and "pi_player x \<noteq> 0 \<Longrightarrow> pi_player x = k"
  using assms by (auto simp: chan_ok_def)

lemma chan_ok_upd_info:
  assumes "chan_ok c" and "IsOwner (f (info_of c k)) \<Longrightarrow> k = ch_ownerGuid c \<and> k \<noteq> 0" and "pi_player (f (info_of c k)) \<in> {0, k}"
  shows "chan_ok (upd_info k f c)"
  using assms by (auto simp: chan_ok_def upd_info_def sorted_put_info)

lemma info_of_ok:
  assumes "chan_ok c"
  shows "pi_player (info_of c k) \<in> {0, k}" and "IsOwner (info_of c k) \<Longrightarrow> k = ch_ownerGuid c \<and> k \<noteq> 0"
  using assms by (auto simp: info_of_def chan_ok_def no_info_def has_mflag_def split: option.splits)

section \<open>Quiet changes\<close>

text \<open>A change is calm if it allocates and deletes nothing, leaves the players and the set of members alone, and bans nobody.\<close>

definition entry :: "ChatWorld \<Rightarrow> cptr \<Rightarrow> uint32 \<Rightarrow> uint32 option" where
  "entry w a k = map_option pi_player (map_of (ch_players (cw_heap w a)) k)"

definition calm :: "ChatWorld \<Rightarrow> ChatWorld \<Rightarrow> bool" where
  "calm w w' \<longleftrightarrow> cw_next w' = cw_next w \<and> cw_freed w' = cw_freed w \<and> cw_channels w' = cw_channels w \<and> cw_players w' = cw_players w \<and>
     (\<forall>b. (chan_ok (cw_heap w b) \<longrightarrow> chan_ok (cw_heap w' b)) \<and> (\<forall>k. entry w' b k = entry w b k) \<and>
        set (ch_banned (cw_heap w' b)) \<subseteq> set (ch_banned (cw_heap w b)))"

lemma calm_refl [simp, intro, calm_intros]: "calm w w"
  by (simp add: calm_def)

lemma calm_trans: "calm u v \<Longrightarrow> calm v w \<Longrightarrow> calm u w"
  by (auto simp: calm_def) blast

text \<open>Sending changes only the packets.\<close>

definition sent :: "ChatWorld \<Rightarrow> ChatWorld \<Rightarrow> bool" where
  "sent w w' \<longleftrightarrow> (\<exists>xs. w' = w\<lparr>cw_out := xs\<rparr>)"

lemma sent_refl [simp]: "sent w w"
  unfolding sent_def by (rule exI [of _ "cw_out w"]) simp

lemma sent_trans: "sent u v \<Longrightarrow> sent v w \<Longrightarrow> sent u w"
  by (auto simp: sent_def)

lemma sent_csend [simp]: "sent w (csend k p w)"
  by (auto simp: sent_def csend_def)

lemma sent_SendToOne [simp]: "sent w (SendToOne p k w)"
  by (simp add: SendToOne_def split: option.split)

lemma sent_deliver: "sent w (deliver E p g k w)"
  by (simp add: deliver_def split: option.split)

lemma sent_SendToAll [simp]: "sent w (SendToAll E a p g w)"
proof -
  have "sent v (fold (\<lambda>(k, _). deliver E p g k) ps v)" for ps v
  proof (induction ps arbitrary: v)
    case (Cons x ps)
    show ?case using sent_trans [OF sent_deliver Cons.IH, of v E p g "fst x"] by (simp add: case_prod_beta)
  qed simp
  then show ?thesis by (simp add: SendToAll_def)
qed

lemma sent_announce [simp]: "sent w (announce E a p q w)"
  by (simp add: announce_def)

lemma sent_not_found [simp]: "sent w (not_found a k n w)"
  by (simp add: not_found_def)

lemma sentD:
  assumes "sent w w'"
  shows "cw_heap w' = cw_heap w" "cw_next w' = cw_next w" "cw_freed w' = cw_freed w" "cw_channels w' = cw_channels w" "cw_players w' = cw_players w"
    "cw_queue w' = cw_queue w"
  using assms by (auto simp: sent_def)

lemmas send_keeps [simp] = sentD [OF sent_csend] sentD [OF sent_SendToOne] sentD [OF sent_SendToAll] sentD [OF sent_announce] sentD [OF sent_not_found]

lemma chan_player_send [simp]:
  "chan_player (csend k p w) = chan_player w" "chan_player (SendToOne p k w) = chan_player w" "chan_player (SendToAll E a p g w) = chan_player w"
  "chan_player (announce E a p q w) = chan_player w" "chan_player (upd_chan a f w) = chan_player w"
  by (simp_all add: chan_player_def fun_eq_iff upd_chan_def)

lemma sent_calm: "sent w w' \<Longrightarrow> calm w w'"
  by (auto simp: calm_def entry_def dest: sentD)

lemma calm_sent: "calm u v \<Longrightarrow> sent v w \<Longrightarrow> calm u w"
  by (blast intro: calm_trans sent_calm)

lemma upd_chan_sel [simp]:
  "cw_heap (upd_chan a f w) = (cw_heap w)(a := f (cw_heap w a))" "cw_next (upd_chan a f w) = cw_next w" "cw_freed (upd_chan a f w) = cw_freed w"
  "cw_channels (upd_chan a f w) = cw_channels w" "cw_players (upd_chan a f w) = cw_players w" "cw_queue (upd_chan a f w) = cw_queue w"
  by (simp_all add: upd_chan_def)

lemma calm_upd:
  assumes "\<And>c. c = cw_heap w a \<Longrightarrow> chan_ok c \<Longrightarrow> chan_ok (f c)"
    and "map_option pi_player \<circ> map_of (ch_players (f (cw_heap w a))) = map_option pi_player \<circ> map_of (ch_players (cw_heap w a))"
    and "set (ch_banned (f (cw_heap w a))) \<subseteq> set (ch_banned (cw_heap w a))"
  shows "calm w (upd_chan a f w)"
  using assms by (auto simp: calm_def entry_def fun_eq_iff)

lemma IsOn_map: "IsOn c k \<longleftrightarrow> k \<in> dom (map_of (ch_players c))"
  by (auto simp: IsOn_def)

section \<open>Calm operations\<close>

lemma calm_fields [calm_intros]:
  assumes "\<And>c. ch_players (f c) = ch_players c" "\<And>c. ch_ownerGuid (f c) = ch_ownerGuid c" "\<And>c. set (ch_banned (f c)) \<subseteq> set (ch_banned c)"
  shows "calm w (upd_chan a f w)"
  by (rule calm_upd) (use assms in \<open>auto simp: chan_ok_def\<close>)

lemma calm_upd_info:
  assumes "IsOn (cw_heap w a) k" and "\<And>x. pi_player (f x) = pi_player x" and "\<And>x. IsOwner (f x) = IsOwner x"
  shows "calm w (upd_chan a (upd_info k f) w)"
proof (rule calm_upd)
  let ?c = "cw_heap w a"
  from assms(1) obtain x where x: "map_of (ch_players ?c) k = Some x" by (auto simp: IsOn_def)
  show "map_option pi_player \<circ> map_of (ch_players (upd_info k f ?c)) = map_option pi_player \<circ> map_of (ch_players ?c)"
    using x assms(2) by (auto simp: fun_eq_iff info_of_def)
qed (auto intro!: chan_ok_upd_info dest: info_of_ok simp: assms)

lemma calm_set_member_mode:
  assumes "IsOn (cw_heap w a) k" and "f = MEMBER_FLAG_MODERATOR \<or> f = MEMBER_FLAG_MUTED"
  shows "calm w (set_member_mode E a f k b w)"
proof -
  have "calm w (upd_chan a (upd_info k (set_mflag f b)) w)"
    by (rule calm_upd_info [OF assms(1)]) (use assms(2) in auto)
  moreover have "upd_chan a (\<lambda>_. upd_info k (set_mflag f b) (cw_heap w a)) w = upd_chan a (upd_info k (set_mflag f b)) w"
    by (simp add: upd_chan_def)
  ultimately show ?thesis by (auto simp: set_member_mode_def Let_def intro: calm_sent)
qed

text \<open>Setting the owner is calm if the new owner is a member or not online; otherwise it adds an entry.\<close>

definition owner_set :: "uint32 \<Rightarrow> Channel \<Rightarrow> Channel" where
  "owner_set k c =
     (let c1 = (if ch_ownerGuid c \<noteq> 0 \<and> IsOn c (ch_ownerGuid c) then upd_info (ch_ownerGuid c) (set_mflag MEMBER_FLAG_OWNER False) c else c)
      in upd_info k (set_mflag MEMBER_FLAG_OWNER True) (c1\<lparr>ch_ownerGuid := k\<rparr>))"

lemma SetOwner_cases: "\<exists>w1. (w1 = w \<or> chan_player w k \<noteq> None \<and> w1 = upd_chan a (owner_set k) w) \<and> sent w1 (ch_SetOwner E a k ex w)"
proof (cases "chan_player w k")
  case None
  then have "ch_SetOwner E a k ex w = w" by (simp add: ch_SetOwner_def)
  then show ?thesis by (intro exI [of _ w]) simp
next
  case (Some p)
  let ?w1 = "upd_chan a (owner_set k) w"
  have same: "upd_chan a (\<lambda>_. owner_set k (cw_heap w a)) w = ?w1" by (simp add: upd_chan_def)
  have shape: "\<exists>x y. ch_SetOwner E a k ex w = (let v = SendToAll E a x 0 ?w1 in if ex then SendToAll E a y 0 v else v)"
    if "\<not> (HasChannelFlag (cw_heap w a) CHANNEL_FLAG_GENERAL \<and> cp_security p < SEC_OBSERVER)"
    using that Some unfolding ch_SetOwner_def same [symmetric] owner_set_def Let_def by simp blast
  have "ch_SetOwner E a k ex w = w \<or> sent ?w1 (ch_SetOwner E a k ex w)"
  proof (cases "HasChannelFlag (cw_heap w a) CHANNEL_FLAG_GENERAL \<and> cp_security p < SEC_OBSERVER")
    case True
    then show ?thesis using Some by (simp add: ch_SetOwner_def)
  next
    case False
    from shape [OF this] obtain x y where e: "ch_SetOwner E a k ex w = (let v = SendToAll E a x 0 ?w1 in if ex then SendToAll E a y 0 v else v)" by blast
    have "sent ?w1 (let v = SendToAll E a x 0 ?w1 in if ex then SendToAll E a y 0 v else v)"
      by (simp add: Let_def sent_trans [OF sent_SendToAll sent_SendToAll])
    then show ?thesis unfolding e by blast
  qed
  then show ?thesis using Some by (metis option.distinct(1) sent_refl)
qed

lemma owner_set_players:
  "map_of (ch_players (owner_set k c)) j =
     (if j = k then Some (set_mflag MEMBER_FLAG_OWNER True (if k = ch_ownerGuid c \<and> k \<noteq> 0 \<and> IsOn c k
        then set_mflag MEMBER_FLAG_OWNER False (info_of c k) else info_of c k))
      else if j = ch_ownerGuid c \<and> j \<noteq> 0 \<and> IsOn c j then Some (set_mflag MEMBER_FLAG_OWNER False (info_of c j))
      else map_of (ch_players c) j)"
  by (auto simp: owner_set_def Let_def info_of_def)

lemma owner_set_sel [simp]:
  "ch_ownerGuid (owner_set k c) = k" "ch_banned (owner_set k c) = ch_banned c" "ch_name (owner_set k c) = ch_name c"
  "ch_password (owner_set k c) = ch_password c" "ch_moderate (owner_set k c) = ch_moderate c" "ch_announce (owner_set k c) = ch_announce c"
  by (simp_all add: owner_set_def Let_def)

lemma owner_set_ok:
  assumes "chan_ok c" and "k \<noteq> 0"
  shows "chan_ok (owner_set k c)"
proof -
  have "sorted_keys (ch_players (owner_set k c))"
    using assms(1) by (auto simp: owner_set_def Let_def upd_info_def chan_ok_def intro!: sorted_put_info)
  moreover have "(IsOwner x \<longrightarrow> j = k) \<and> pi_player x \<in> {0, j}" if "map_of (ch_players (owner_set k c)) j = Some x" for j x
    using that chan_okD [OF assms(1), of j x] info_of_ok(1) [OF assms(1), of j] info_of_ok(1) [OF assms(1), of k] unfolding owner_set_players
    by (auto split: if_splits simp: IsOn_def)
  ultimately show ?thesis using assms(2) unfolding chan_ok_def by auto
qed

lemma calm_owner_set:
  assumes "IsOn (cw_heap w a) k" and "k \<noteq> 0"
  shows "calm w (upd_chan a (owner_set k) w)"
proof (rule calm_upd)
  show "map_option pi_player \<circ> map_of (ch_players (owner_set k (cw_heap w a))) = map_option pi_player \<circ> map_of (ch_players (cw_heap w a))"
    using assms(1) unfolding fun_eq_iff o_def owner_set_players by (auto simp: IsOn_def info_of_def)
qed (use assms(2) in \<open>simp_all add: owner_set_ok\<close>)

lemma calm_SetOwner:
  assumes "chan_player w k \<noteq> None \<Longrightarrow> IsOn (cw_heap w a) k"
  shows "calm w (ch_SetOwner E a k ex w)"
proof -
  obtain w1 where w1: "w1 = w \<or> chan_player w k \<noteq> None \<and> w1 = upd_chan a (owner_set k) w" "sent w1 (ch_SetOwner E a k ex w)"
    using SetOwner_cases by blast
  have "k \<noteq> 0" if "chan_player w k \<noteq> None" using that by (auto simp: chan_player_def)
  then have "calm w w1" using w1(1) assms by (auto intro: calm_owner_set)
  then show ?thesis by (rule calm_sent [OF _ w1(2)])
qed

text \<open>Commands that are calm on every branch.\<close>

lemma calm_as_member [calm_intros]:
  assumes "\<And>v. IsOn (cw_heap v a) k \<Longrightarrow> calm v (f v)"
  shows "calm w (as_member a k f w)"
  using assms by (auto simp: as_member_def Let_def intro: sent_calm)

lemma calm_as_moderator [calm_intros]:
  assumes "\<And>v. IsOn (cw_heap v a) k \<Longrightarrow> calm v (f v)"
  shows "calm w (as_moderator a k f w)"
  unfolding as_moderator_def by (rule calm_as_member) (use assms in \<open>auto simp: Let_def intro: sent_calm\<close>)

lemma calm_send [calm_intros]:
  "calm w v \<Longrightarrow> calm w (SendToAll E a p g v)" "calm w v \<Longrightarrow> calm w (SendToOne p k v)" "calm w v \<Longrightarrow> calm w (csend k p v)"
  "calm w v \<Longrightarrow> calm w (not_found a k n v)"
  by (auto elim: calm_sent)

lemma calm_if [calm_intros]: "(b \<Longrightarrow> calm w u) \<Longrightarrow> (\<not> b \<Longrightarrow> calm w v) \<Longrightarrow> calm w (if b then u else v)"
  by simp

lemma calm_option [calm_intros]: "calm w u \<Longrightarrow> (\<And>x. calm w (f x)) \<Longrightarrow> calm w (case x of None \<Rightarrow> u | Some x \<Rightarrow> f x)"
  by (simp split: option.split)

lemma calm_prod [calm_intros]: "(\<And>x y. calm w (f x y)) \<Longrightarrow> calm w (case x of (x, y) \<Rightarrow> f x y)"
  by (simp split: prod.split)

lemma calm_commands:
  "calm w (UnBan E a me n w)" "calm w (ch_Password E a me pw w)" "calm w (ch_Announce E a me w)" "calm w (ch_Moderate E a me w)"
  "calm w (SendWhoOwner E a me w)" "calm w (ch_List E a me w)" "calm w (ch_Invite E a me n w)"
  unfolding UnBan_def ch_Password_def ch_Announce_def ch_Moderate_def SendWhoOwner_def ch_List_def ch_Invite_def Let_def
  by (intro calm_intros; auto)+

lemma calm_SetMode: "calm w (SetMode E a me n m b w)"
  unfolding SetMode_def Let_def by (intro calm_intros calm_set_member_mode; auto)

lemma calm_SetOwner_name: "calm w (SetOwner_name E a me n w)"
proof -
  have "calm v (ch_SetOwner E a t True (upd_chan a (upd_info t (set_mflag MEMBER_FLAG_MODERATOR True)) v))" if "IsOn (cw_heap v a) t" for v t
    by (rule calm_trans [OF calm_upd_info calm_SetOwner]) (use that in \<open>auto simp: IsOn_def\<close>)
  then show ?thesis unfolding SetOwner_name_def Let_def by (intro calm_intros; auto)
qed

lemma calm_Say: "calm w (ch_Say E a me t lang b w)"
  by (auto simp: ch_Say_def Let_def intro!: sent_calm split: SayRefusal.split)

lemma calm_AsyncSay: "calm w (AsyncSay a me t lang b w)"
  by (simp add: AsyncSay_def calm_def entry_def)

section \<open>The invariants\<close>

definition live :: "ChatWorld \<Rightarrow> cptr \<Rightarrow> bool" where
  "live w a \<longleftrightarrow> a < cw_next w \<and> a \<notin> set (cw_freed w)"

definition chat_ok :: "ChatWorld \<Rightarrow> bool" where
  "chat_ok w \<longleftrightarrow>
     (\<forall>m n a. map_of (cw_channels w m) n = Some a \<longrightarrow> live w a) \<and>
     (\<forall>m n a m' n'. map_of (cw_channels w m) n = Some a \<longrightarrow> map_of (cw_channels w m') n' = Some a \<longrightarrow> m = m' \<and> n = n') \<and>
     (\<forall>k p. cw_players w k = Some p \<longrightarrow> distinct (cp_channels p) \<and> (\<forall>a \<in> set (cp_channels p). live w a \<and> IsOn (cw_heap w a) k)) \<and>
     (\<forall>a. chan_ok (cw_heap w a)) \<and> (\<forall>a \<in> set (cw_freed w). a < cw_next w)"

definition strict :: "(cptr \<times> uint32) set \<Rightarrow> ChatWorld \<Rightarrow> bool" where
  "strict X w \<longleftrightarrow> (\<forall>a k x. live w a \<longrightarrow> (a, k) \<notin> X \<longrightarrow> entry w a k = Some x \<longrightarrow>
     x = k \<and> k \<notin> set (ch_banned (cw_heap w a)) \<and> (\<exists>p. cw_players w k = Some p \<and> a \<in> set (cp_channels p)))"

lemma strictD:
  assumes "strict {} w" and "live w a" and "entry w a k = Some x"
  shows "x = k" and "k \<notin> set (ch_banned (cw_heap w a))" and "\<exists>p. cw_players w k = Some p \<and> a \<in> set (cp_channels p)"
  using assms unfolding strict_def by (metis empty_iff)+

lemma IsOn_entry: "IsOn (cw_heap w a) k \<longleftrightarrow> entry w a k \<noteq> None"
  by (simp add: IsOn_def entry_def)

lemma entry_send [simp]: "entry (SendToOne p j w) = entry w"
  by (simp add: entry_def fun_eq_iff)

lemma calm_live: "calm w w' \<Longrightarrow> live w' a = live w a"
  by (simp add: calm_def live_def)

lemma calm_chat_ok: "calm w w' \<Longrightarrow> chat_ok w \<Longrightarrow> chat_ok w'"
  unfolding chat_ok_def IsOn_entry by (simp add: calm_def live_def)

lemma calm_strict: "calm w w' \<Longrightarrow> strict X w \<Longrightarrow> strict X w'"
  unfolding strict_def by (simp add: calm_def live_def) blast

section \<open>Members come and go\<close>

definition enrolled :: "cptr \<Rightarrow> uint32 \<Rightarrow> ChatWorld \<Rightarrow> ChatWorld" where
  "enrolled a k w = upd_chan a (upd_info k (\<lambda>_. \<lparr>pi_player = k, pi_flags = 0\<rparr>)) (upd_cplayer k (JoinedChannel a) w)"

definition expelled :: "cptr \<Rightarrow> uint32 \<Rightarrow> ChatWorld \<Rightarrow> ChatWorld" where
  "expelled a k w = upd_chan a (\<lambda>c. c\<lparr>ch_players := erase_info k (ch_players c)\<rparr>) w"

lemma upd_cplayer_sel [simp]:
  "cw_heap (upd_cplayer k f w) = cw_heap w" "cw_next (upd_cplayer k f w) = cw_next w" "cw_freed (upd_cplayer k f w) = cw_freed w"
  "cw_channels (upd_cplayer k f w) = cw_channels w" "cw_players (upd_cplayer k f w) = (cw_players w)(k := map_option f (cw_players w k))"
  by (simp_all add: upd_cplayer_def)

lemma live_upd [simp]: "live (upd_chan a f w) = live w" "live (upd_cplayer k g w) = live w"
  by (simp_all add: live_def fun_eq_iff)

lemma list_sel [simp]: "cp_channels (JoinedChannel a p) = cp_channels p @ [a]" "cp_channels (LeftChannel a p) = removeAll a (cp_channels p)"
  by (simp_all add: JoinedChannel_def LeftChannel_def)

lemma enrolled_entry: "entry (enrolled a k w) b j = (if b = a \<and> j = k then Some k else entry w b j)"
  by (simp add: enrolled_def entry_def)

lemma expelled_entry: "entry (expelled a k w) b j = (if b = a \<and> j = k then None else entry w b j)"
  by (simp add: expelled_def entry_def)

lemma upd_cplayer_entry [simp]: "entry (upd_cplayer k f w) = entry w"
  by (simp add: entry_def fun_eq_iff)

lemma enrolled_chat_ok:
  assumes "chat_ok w" and "live w a" and "\<not> IsOn (cw_heap w a) k"
  shows "chat_ok (enrolled a k w)"
proof -
  have c: "chan_ok (cw_heap (enrolled a k w) b)" for b
    using assms(1) by (auto simp: enrolled_def chat_ok_def has_mflag_def intro!: chan_ok_upd_info)
  have "a \<notin> set (cp_channels p)" if "cw_players w k = Some p" for p using that assms(1,3) unfolding chat_ok_def by blast
  moreover have "live (enrolled a k w) = live w" "cw_channels (enrolled a k w) = cw_channels w" by (simp_all add: enrolled_def)
  ultimately show ?thesis using assms(1,2) c unfolding chat_ok_def IsOn_entry enrolled_entry by (auto simp: enrolled_def)
qed

lemma enrolled_strict:
  assumes "strict X w" and "cw_players w k \<noteq> None" and "\<not> IsBanned (cw_heap w a) k"
  shows "strict X (enrolled a k w)"
  using assms unfolding strict_def enrolled_entry by (auto simp: enrolled_def IsBanned_def) (metis option.inject)

lemma expelled_chat_ok:
  assumes "chat_ok w" and "\<And>p. cw_players w k = Some p \<Longrightarrow> a \<notin> set (cp_channels p)"
  shows "chat_ok (expelled a k w)"
proof -
  have c: "chan_ok (cw_heap (expelled a k w) b)" for b
    using assms(1) by (auto simp: expelled_def chat_ok_def chan_ok_def sorted_erase_info)
  have "live (expelled a k w) = live w" "cw_channels (expelled a k w) = cw_channels w" "cw_players (expelled a k w) = cw_players w"
    "cw_freed (expelled a k w) = cw_freed w" "cw_next (expelled a k w) = cw_next w"
    by (simp_all add: expelled_def)
  then show ?thesis using assms c unfolding chat_ok_def IsOn_entry expelled_entry by auto
qed

lemma expelled_strict: "strict {(a, k)} w \<Longrightarrow> strict {} (expelled a k w)"
  unfolding strict_def expelled_entry by (auto simp: expelled_def)

lemma unlisted_chat_ok:
  assumes "chat_ok w" and "\<And>p. cw_players w k = Some p \<Longrightarrow> distinct (cp_channels (f p)) \<and> set (cp_channels (f p)) \<subseteq> set (cp_channels p)"
  shows "chat_ok (upd_cplayer k f w)"
  using assms unfolding chat_ok_def by (auto simp: subset_iff split: if_splits)

lemma strict_mono: "strict X w \<Longrightarrow> X \<subseteq> Y \<Longrightarrow> strict Y w"
  unfolding strict_def by blast

lemma unlisted_strict:
  assumes "strict {(a, k)} w" and "\<And>p. cw_players w k = Some p \<Longrightarrow> set (cp_channels p) \<subseteq> insert a (set (cp_channels (f p)))"
  shows "strict {(a, k)} (upd_cplayer k f w)"
  using assms unfolding strict_def by (fastforce simp: subset_iff)

lemma sent_upd_chan: "sent u v \<Longrightarrow> sent (upd_chan a f u) (upd_chan a f v)"
proof -
  assume "sent u v"
  then obtain xs where "v = u\<lparr>cw_out := xs\<rparr>" by (auto simp: sent_def)
  then have "upd_chan a f v = (upd_chan a f u)\<lparr>cw_out := xs\<rparr>" by (simp add: upd_chan_def)
  then show ?thesis by (auto simp: sent_def)
qed

lemma calm_join_member:
  assumes "u = upd_chan a (upd_info k (\<lambda>_. \<lparr>pi_player = k, pi_flags = 0\<rparr>)) w"
  shows "calm u (join_member E a k w)"
proof -
  let ?d = "CHAT_YOU_JOINED_NOTICE (ch_name (cw_heap w a)) (ucast (ch_flags (cw_heap w a)))"
  let ?v = "SendToOne ?d k u"
  have on: "IsOn (cw_heap v a) k" if "calm ?v v" for v
  proof -
    have "IsOn (cw_heap ?v a) k" by (simp add: IsOn_def assms)
    then show ?thesis using that by (simp add: IsOn_entry calm_def)
  qed
  have 1: "calm u ?v" by (simp add: sent_calm)
  have o: "calm ?v (ch_SetOwner E a k ex ?v)" for ex by (rule calm_SetOwner) (rule on [OF calm_refl])
  have "calm ?v (upd_chan a (upd_info k (set_mflag MEMBER_FLAG_MODERATOR True)) (ch_SetOwner E a k ex ?v))" for ex
    by (rule calm_trans [OF o calm_upd_info]) (simp_all add: on [OF o])
  then show ?thesis using 1 calm_trans unfolding join_member_def Let_def assms [symmetric] by auto
qed

lemma Join_cases:
  assumes "chan_player w k \<noteq> None"
  shows "calm w (ch_Join E a k pw b w) \<or>
    \<not> IsOn (cw_heap w a) k \<and> \<not> IsBanned (cw_heap w a) k \<and> calm (enrolled a k w) (ch_Join E a k pw b w)"
proof -
  have "calm (enrolled a k w) (join_member E a k (announce E a d q (upd_cplayer k (JoinedChannel a) w)))" for d q
  proof -
    have "calm (enrolled a k w) (upd_chan a (upd_info k (\<lambda>_. \<lparr>pi_player = k, pi_flags = 0\<rparr>)) (announce E a d q (upd_cplayer k (JoinedChannel a) w)))"
      unfolding enrolled_def by (intro sent_calm sent_upd_chan sent_announce)
    then show ?thesis by (rule calm_trans [OF _ calm_join_member [OF refl]])
  qed
  then show ?thesis using assms unfolding ch_Join_def Let_def by (auto intro: sent_calm)
qed

end
