(* ===== verification/Chat_Safety.thy ===== *)
theory Chat_Safety
  imports Chat_Invariant Bank_Transfer_Props
begin

text \<open>
  The laws the channel handlers rely on, as a locale, and that every handler and every run keeps a
  predicate with these laws. It is interpreted twice: with \<open>chat_ok\<close> for all runs, and with \<open>strict\<close> for the runs in
  which nobody kicks himself.
\<close>

section \<open>Leaving and removing\<close>

text \<open>The first entry of the member map names a member, or nobody.\<close>

lemma first_member_on:
  fixes E a k q w
  defines "v \<equiv> announce E a (CHAT_LEFT_NOTICE (ch_name (cw_heap w a)) k) q (expelled a k w)"
  defines "n \<equiv> (case ch_players (cw_heap v a) of [] \<Rightarrow> 0 | (_, x) # _ \<Rightarrow> pi_player x)"
  assumes "chan_ok (cw_heap w a)" and "chan_player v n \<noteq> None"
  shows "IsOn (cw_heap v a) n"
proof -
  have n: "n \<noteq> 0" using assms(4) by (auto simp: chan_player_def)
  then obtain j x ps where ps: "ch_players (cw_heap v a) = (j, x) # ps" by (auto simp: n_def split: list.splits)
  then have e: "map_of (ch_players (cw_heap v a)) j = Some x" by simp
  then have "map_of (ch_players (cw_heap w a)) j = Some x" by (auto simp: v_def expelled_def split: if_splits)
  from chan_okD(2) [OF assms(3) this] n ps have "n = j" by (simp add: n_def)
  then show ?thesis using e by (simp add: IsOn_def)
qed

lemma calm_leave_member:
  assumes "chan_ok (cw_heap w a)"
  shows "calm (expelled a k w) (leave_member E a k q w)"
proof -
  let ?u = "expelled a k w"
  have u: "upd_chan a (\<lambda>c. c\<lparr>ch_players := erase_info k (ch_players c)\<rparr>) w = ?u" by (simp add: expelled_def)
  let ?v = "announce E a (CHAT_LEFT_NOTICE (ch_name (cw_heap w a)) k) q ?u"
  let ?n = "case ch_players (cw_heap ?v a) of [] \<Rightarrow> 0 | (_, x) # _ \<Rightarrow> pi_player x"
  have 1: "calm ?u ?v" by (simp add: sent_calm)
  have "calm ?v (ch_SetOwner E a ?n True ?v)" by (rule calm_SetOwner) (rule first_member_on [OF assms])
  then show ?thesis using 1 calm_trans unfolding leave_member_def Let_def u by auto
qed

lemma leave_keeps:
  assumes "chat_ok w" and "\<forall>p. cw_players w k = Some p \<longrightarrow> a \<notin> set (cp_channels p)"
  shows "chat_ok (leave_member E a k q w)" and "strict {(a, k)} w \<Longrightarrow> strict {} (leave_member E a k q w)"
proof -
  have c: "calm (expelled a k w) (leave_member E a k q w)" using assms(1) by (intro calm_leave_member) (simp add: chat_ok_def)
  show "chat_ok (leave_member E a k q w)" by (rule calm_chat_ok [OF c expelled_chat_ok]) (use assms in auto)
  show "strict {(a, k)} w \<Longrightarrow> strict {} (leave_member E a k q w)" by (rule calm_strict [OF c expelled_strict])
qed

lemma chat_ok_unlist:
  assumes "chat_ok w" shows "chat_ok (upd_cplayer k (LeftChannel a) w)"
  using assms by (intro unlisted_chat_ok) (auto simp: chat_ok_def distinct_removeAll)

lemma Leave_keeps:
  assumes "chat_ok w"
  shows "chat_ok (ch_Leave E a k True w)" and "strict {} w \<Longrightarrow> strict {} (ch_Leave E a k True w)"
proof -
  let ?v = "upd_cplayer k (LeftChannel a) (SendToOne (CHAT_YOU_LEFT_NOTICE (ch_name (cw_heap w a))) k w)"
  have 1: "chat_ok ?v" using assms by (intro chat_ok_unlist calm_chat_ok [OF sent_calm [OF sent_SendToOne]])
  have 2: "strict {(a, k)} ?v" if "strict {} w"
    by (rule unlisted_strict [OF calm_strict [OF sent_calm [OF sent_SendToOne] strict_mono [OF that]]]) auto
  have n: "\<forall>p. cw_players ?v k = Some p \<longrightarrow> a \<notin> set (cp_channels p)" by auto
  have s: "calm w (SendToOne p k w)" for p by (simp add: sent_calm)
  note k = leave_keeps [OF 1 n, where E = E and q = "chan_player w k"]
  show "chat_ok (ch_Leave E a k True w)" using k(1) calm_chat_ok [OF s assms] by (simp add: ch_Leave_def Let_def)
  show "strict {} (ch_Leave E a k True w)" if "strict {} w"
    using k(2) [OF 2 [OF that]] calm_strict [OF s that] by (simp add: ch_Leave_def Let_def)
qed

lemma Leave_quiet_keeps:
  assumes "chat_ok w" and p: "cw_players w k = Some p" "cp_channels p = a # as"
  defines "v \<equiv> upd_cplayer k (\<lambda>p. p\<lparr>cp_channels := as\<rparr>) w"
  shows "chat_ok (ch_Leave E a k False v)" and "strict {} w \<Longrightarrow> strict {} (ch_Leave E a k False v)"
proof -
  have d: "a \<notin> set as" "distinct as" "IsOn (cw_heap w a) k" using assms(1) p unfolding chat_ok_def by fastforce+
  have 1: "chat_ok v" unfolding v_def by (rule unlisted_chat_ok [OF assms(1)]) (use p d in auto)
  have 2: "strict {(a, k)} v" if "strict {} w" unfolding v_def by (rule unlisted_strict [OF strict_mono [OF that]]) (use p in auto)
  have n: "\<forall>q. cw_players v k = Some q \<longrightarrow> a \<notin> set (cp_channels q)" using p d by (auto simp: v_def)
  have "ch_Leave E a k False v = leave_member E a k (chan_player v k) v" using d(3) by (simp add: ch_Leave_def v_def)
  then show "chat_ok (ch_Leave E a k False v)" "strict {} w \<Longrightarrow> strict {} (ch_Leave E a k False v)"
    using leave_keeps [OF 1 n] 2 by simp_all
qed

definition banning :: "bool \<Rightarrow> cptr \<Rightarrow> uint32 \<Rightarrow> ChatWorld \<Rightarrow> ChatWorld" where
  "banning ban a t w = (if ban \<and> \<not> IsBanned (cw_heap w a) t then upd_chan a (\<lambda>c. c\<lparr>ch_banned := t # ch_banned c\<rparr>) w else w)"

lemma remove_shape:
  "\<exists>u. sent (banning ban a t w) u \<and>
     (let v = expelled a t (upd_cplayer t (LeftChannel a) u)
      in remove_member E a g t ban w =
         (if ch_ownerGuid (cw_heap w a) = t then ch_SetOwner E a (if ch_players (cw_heap v a) \<noteq> [] then g else 0) True v else v))"
proof -
  have c: "upd_cplayer t f (upd_chan a h u) = upd_chan a h (upd_cplayer t f u)" for f h u by (simp add: upd_chan_def upd_cplayer_def)
  let ?u = "if ban \<and> \<not> IsBanned (cw_heap w a) t
    then SendToAll E a (CHAT_PLAYER_BANNED_NOTICE (ch_name (cw_heap w a)) t g) 0 (upd_chan a (\<lambda>c. c\<lparr>ch_banned := t # ch_banned c\<rparr>) w)
    else SendToAll E a (CHAT_PLAYER_KICKED_NOTICE (ch_name (cw_heap w a)) t g) 0 w"
  have "sent (banning ban a t w) ?u" by (simp add: banning_def)
  then show ?thesis unfolding remove_member_def Let_def expelled_def c by (intro exI [of _ ?u] conjI refl)
qed

lemma banning_keeps:
  "chat_ok w \<Longrightarrow> chat_ok (banning ban a t w)" "strict {} w \<Longrightarrow> strict {(a, t)} (banning ban a t w)"
proof -
  have e: "entry (banning ban a t w) = entry w" "cw_players (banning ban a t w) = cw_players w" "live (banning ban a t w) = live w"
    "cw_channels (banning ban a t w) = cw_channels w" "cw_freed (banning ban a t w) = cw_freed w" "cw_next (banning ban a t w) = cw_next w"
    by (simp_all add: banning_def entry_def fun_eq_iff live_def)
  have o: "chan_ok (cw_heap (banning ban a t w) b) = chan_ok (cw_heap w b)" for b by (simp add: banning_def chan_ok_def)
  show "chat_ok w \<Longrightarrow> chat_ok (banning ban a t w)" unfolding chat_ok_def IsOn_entry e o by blast
  have b: "set (ch_banned (cw_heap (banning ban a t w) b)) \<subseteq> set (ch_banned (cw_heap w b)) \<union> (if b = a then {t} else {})" for b
    by (auto simp: banning_def)
  show "strict {(a, t)} (banning ban a t w)" if "strict {} w"
    unfolding strict_def e
  proof (intro allI impI)
    fix c k x assume *: "live w c" "(c, k) \<notin> {(a, t)}" "entry w c k = Some x"
    from that * have "x = k \<and> k \<notin> set (ch_banned (cw_heap w c)) \<and> (\<exists>p. cw_players w k = Some p \<and> c \<in> set (cp_channels p))"
      unfolding strict_def by blast
    moreover have "k \<notin> (if c = a then {t} else {})" using *(2) by auto
    ultimately show "x = k \<and> k \<notin> set (ch_banned (cw_heap (banning ban a t w) c)) \<and> (\<exists>p. cw_players w k = Some p \<and> c \<in> set (cp_channels p))"
      using b [of c] by blast
  qed
qed

text \<open>Only a member who kicks himself as the owner is not covered by the second part.\<close>

lemma SetOwner_chat_ok:
  assumes "chat_ok w" shows "chat_ok (ch_SetOwner E a k ex w)"
proof -
  obtain w1 where w1: "w1 = w \<or> chan_player w k \<noteq> None \<and> w1 = upd_chan a (owner_set k) w" "sent w1 (ch_SetOwner E a k ex w)"
    using SetOwner_cases by blast
  have "chat_ok (upd_chan a (owner_set k) w)" if "k \<noteq> 0"
  proof -
    have "entry w b j \<noteq> None \<Longrightarrow> entry (upd_chan a (owner_set k) w) b j \<noteq> None" for b j
      by (auto simp: entry_def owner_set_players IsOn_def split: if_splits)
    moreover have "chan_ok (cw_heap (upd_chan a (owner_set k) w) b)" for b using assms that by (simp add: chat_ok_def owner_set_ok)
    ultimately show ?thesis using assms unfolding chat_ok_def IsOn_entry upd_chan_sel(2-5) live_upd by blast
  qed
  moreover have "k \<noteq> 0" if "chan_player w k \<noteq> None" using that by (auto simp: chan_player_def)
  ultimately have "chat_ok w1" using w1(1) assms by auto
  then show ?thesis by (rule calm_chat_ok [OF sent_calm [OF w1(2)]])
qed

lemma remove_keeps:
  assumes "chat_ok w"
  shows "chat_ok (remove_member E a g t ban w)"
    and "strict {} w \<Longrightarrow> IsOn (cw_heap w a) g \<Longrightarrow> g \<noteq> t \<Longrightarrow> strict {} (remove_member E a g t ban w)"
proof -
  obtain u where u: "sent (banning ban a t w) u" "(let v = expelled a t (upd_cplayer t (LeftChannel a) u)
      in remove_member E a g t ban w =
         (if ch_ownerGuid (cw_heap w a) = t then ch_SetOwner E a (if ch_players (cw_heap v a) \<noteq> [] then g else 0) True v else v))"
    using remove_shape by blast
  define v where "v = expelled a t (upd_cplayer t (LeftChannel a) u)"
  have cu: "chat_ok u" by (rule calm_chat_ok [OF sent_calm [OF u(1)] banning_keeps(1) [OF assms]])
  have v: "chat_ok v" unfolding v_def by (rule expelled_chat_ok [OF chat_ok_unlist [OF cu]]) auto
  note r = u(2) [folded v_def, unfolded Let_def]
  show "chat_ok (remove_member E a g t ban w)" using v SetOwner_chat_ok r by simp
  assume s: "strict {} w" "IsOn (cw_heap w a) g" "g \<noteq> t"
  have su: "strict {(a, t)} u" by (rule calm_strict [OF sent_calm [OF u(1)] banning_keeps(2) [OF s(1)]])
  have sv: "strict {} v" unfolding v_def by (rule expelled_strict, rule unlisted_strict [OF su]) auto
  have "entry v a g = entry w a g" unfolding v_def expelled_entry using s(3) sentD(1) [OF u(1)]
    by (simp add: entry_def banning_def)
  then have "IsOn (cw_heap v a) g" using s(2) by (simp add: IsOn_entry)
  then have "calm v (ch_SetOwner E a (if ch_players (cw_heap v a) \<noteq> [] then g else 0) True v)"
    by (intro calm_SetOwner) (auto simp: chan_player_def split: if_splits)
  then show "strict {} (remove_member E a g t ban w)" using sv calm_strict r by auto
qed

section \<open>Managers\<close>

definition created :: "ChatEnv \<Rightarrow> chat_mgr \<Rightarrow> uint32 \<Rightarrow> string \<Rightarrow> ChatWorld \<Rightarrow> ChatWorld" where
  "created E m team name w =
     w\<lparr>cw_heap := (cw_heap w)(cw_next w := new_Channel E name team), cw_next := Suc (cw_next w),
       cw_channels := (cw_channels w)(m := AList.update (chan_key name) (cw_next w) (cw_channels w m))\<rparr>"

lemma new_Channel_empty [simp]: "ch_players (new_Channel E name team) = []" "ch_ownerGuid (new_Channel E name team) = 0"
  by (auto simp: new_Channel_def Let_def split: option.split prod.split)

lemma chan_ok_new: "chan_ok (new_Channel E name team)"
  by (simp add: chan_ok_def sorted_keys_def)

lemma created_keeps:
  assumes "chat_ok w"
  shows "chat_ok (created E m team name w)" and "strict {} w \<Longrightarrow> strict {} (created E m team name w)"
proof -
  let ?w = "created E m team name w"
  have l: "live w a \<Longrightarrow> live ?w a \<and> a \<noteq> cw_next w" "live ?w a \<Longrightarrow> a \<noteq> cw_next w \<Longrightarrow> live w a" for a
    by (auto simp: live_def created_def)
  have e: "entry ?w a k = (if a = cw_next w then None else entry w a k)" for a k by (simp add: entry_def created_def)
  have p: "cw_players ?w = cw_players w" by (simp add: created_def)
  have c: "map_of (cw_channels ?w i) n = (if i = m \<and> n = chan_key name then Some (cw_next w) else map_of (cw_channels w i) n)" for i n
    by (simp add: created_def update_conv')
  have o: "chan_ok (cw_heap ?w a)" for a using assms by (simp add: created_def chat_ok_def chan_ok_new)
  have fresh: "live ?w (cw_next w)" using assms by (auto simp: live_def created_def chat_ok_def)
  have other: "a \<noteq> cw_next w" if "map_of (cw_channels w i) n = Some a" for i n a using that assms by (auto simp: chat_ok_def live_def)
  have old: "live ?w a" if "map_of (cw_channels w i) n = Some a" for i n a using that assms l(1) unfolding chat_ok_def by blast
  show "strict {} ?w" if s: "strict {} w"
    unfolding strict_def p
  proof (intro allI impI)
    fix a k x assume *: "live ?w a" "entry ?w a k = Some x"
    then have a: "a \<noteq> cw_next w" "entry w a k = Some x" by (auto simp: e split: if_splits)
    moreover have "cw_heap ?w a = cw_heap w a" using a(1) by (simp add: created_def)
    ultimately show "x = k \<and> k \<notin> set (ch_banned (cw_heap ?w a)) \<and> (\<exists>p. cw_players w k = Some p \<and> a \<in> set (cp_channels p))"
      using s l(2) [OF *(1) a(1)] unfolding strict_def by simp
  qed
  have "distinct (cp_channels q) \<and> (\<forall>a \<in> set (cp_channels q). live ?w a \<and> IsOn (cw_heap ?w a) k)" if "cw_players w k = Some q" for k q
    using that assms l(1) unfolding chat_ok_def IsOn_entry e by auto
  note lists = this
  have inj: "i = j \<and> n = n'" if "map_of (cw_channels w i) n = Some a" "map_of (cw_channels w j) n' = Some a" for i j n n' a
    using that assms unfolding chat_ok_def by blast
  show "chat_ok ?w" unfolding chat_ok_def p c
  proof (intro conjI)
    show "\<forall>i n a. (if i = m \<and> n = chan_key name then Some (cw_next w) else map_of (cw_channels w i) n) = Some a \<longrightarrow> live ?w a"
      using fresh old by (auto simp del: fun_upd_apply)
    show "\<forall>i n a j n'. (if i = m \<and> n = chan_key name then Some (cw_next w) else map_of (cw_channels w i) n) = Some a \<longrightarrow>
        (if j = m \<and> n' = chan_key name then Some (cw_next w) else map_of (cw_channels w j) n') = Some a \<longrightarrow> i = j \<and> n = n'"
      using other by (metis inj option.inject)
    show "\<forall>a \<in> set (cw_freed ?w). a < cw_next ?w" using assms by (auto simp: created_def chat_ok_def)
  qed (use lists o in blast)+
qed

lemma get_or_create_keeps:
  assumes "chat_ok w"
  shows "chat_ok (snd (get_or_create E m team name b w))" and "strict {} w \<Longrightarrow> strict {} (snd (get_or_create E m team name b w))"
    and "get_or_create E m team name b w = (Some a, w') \<Longrightarrow> live w' a"
    and "cw_players (snd (get_or_create E m team name b w)) = cw_players w"
proof -
  have r: "get_or_create E m team name b w = (find_channel m name w, w) \<or> get_or_create E m team name b w = (None, w) \<or>
      get_or_create E m team name b w = (Some (cw_next w), created E m team name w)"
    by (auto simp: get_or_create_def created_def Let_def split: option.split)
  with assms created_keeps [OF assms]
  show "chat_ok (snd (get_or_create E m team name b w))" "strict {} w \<Longrightarrow> strict {} (snd (get_or_create E m team name b w))" by auto
  show "cw_players (snd (get_or_create E m team name b w)) = cw_players w" using r by (auto simp: created_def)
  have "live (created E m team name w) (cw_next w)" using assms by (auto simp: chat_ok_def live_def created_def)
  moreover have "live w a" if "find_channel m name w = Some a" using that assms unfolding chat_ok_def find_channel_def by blast
  ultimately show "get_or_create E m team name b w = (Some a, w') \<Longrightarrow> live w' a" using r by auto
qed

lemma drop_keeps:
  assumes "chat_ok w"
  shows "chat_ok (mgr_LeftChannel m name w)" and "strict {} w \<Longrightarrow> strict {} (mgr_LeftChannel m name w)"
proof -
  define a where "a = the (find_channel m name w)"
  let ?w = "w\<lparr>cw_channels := (cw_channels w)(m := AList.delete (chan_key name) (cw_channels w m)), cw_freed := a # cw_freed w\<rparr>"
  have r: "mgr_LeftChannel m name w = w \<or> find_channel m name w = Some a \<and> ch_players (cw_heap w a) = [] \<and> mgr_LeftChannel m name w = ?w"
    by (auto simp: mgr_LeftChannel_def a_def Let_def split: option.split)
  have l: "live ?w b \<longleftrightarrow> live w b \<and> b \<noteq> a" for b by (auto simp: live_def)
  have e: "entry ?w = entry w" by (simp add: entry_def fun_eq_iff)
  have c: "map_of (cw_channels ?w i) n = (if i = m \<and> n = chan_key name then None else map_of (cw_channels w i) n)" for i n
    by (simp add: delete_conv')
  have "chat_ok ?w" if f: "find_channel m name w = Some a" "ch_players (cw_heap w a) = []"
  proof -
    have la: "live w a" and inj: "map_of (cw_channels w i) n = Some a \<Longrightarrow> i = m \<and> n = chan_key name" for i n
      using assms f(1) unfolding chat_ok_def find_channel_def by blast+
    have "a \<notin> set (cp_channels p)" if "cw_players w k = Some p" for k p 
    proof
      assume "a \<in> set (cp_channels p)"
      with that assms have "IsOn (cw_heap w a) k" unfolding chat_ok_def by blast
      then show False using f(2) by (simp add: IsOn_def)
    qed
    then show ?thesis using assms la inj unfolding chat_ok_def IsOn_entry e l c
      by (intro conjI allI impI ballI) (auto split: if_splits simp: live_def)
  qed
  then show "chat_ok (mgr_LeftChannel m name w)" using r assms by auto
  have "strict {} ?w" if "strict {} w" using that unfolding strict_def e l by auto
  then show "strict {} w \<Longrightarrow> strict {} (mgr_LeftChannel m name w)" using r by auto
qed

section \<open>Interface: laws of a channel invariant\<close>

text \<open>The name a kick or ban opcode is aimed at, and the player it means.\<close>

fun kick_target :: "channel_opcode \<Rightarrow> string option" where
  "kick_target (CMSG_CHANNEL_KICK n t) = Some t"
| "kick_target (CMSG_CHANNEL_BAN n t) = Some t"
| "kick_target _ = None"

definition aims_at :: "ChatEnv \<Rightarrow> channel_opcode \<Rightarrow> ChatWorld \<Rightarrow> uint32 \<Rightarrow> bool" where
  "aims_at E op w k \<longleftrightarrow>
     (case kick_target op of
        None \<Rightarrow> False
      | Some t \<Rightarrow>
          (case normalizePlayerName t 15 True of
             (False, _) \<Rightarrow> False
           | (True, n) \<Rightarrow> map_option fst (chan_find_inworld E w n) = Some k))"

text \<open>Who is online does not change.\<close>

lemma get_or_create_players: "cw_players (snd (get_or_create E m team n b w)) = cw_players w"
  by (simp add: get_or_create_def Let_def split: option.split)

lemma join_named_online:
  assumes "chan_player w k \<noteq> None"
  shows "chan_player (on_channel (get_or_create E m team n b w) (\<lambda>a. ch_Join E a k pw c)) k \<noteq> None"
proof -
  obtain x v where r: "get_or_create E m team n b w = (x, v)" by fastforce
  have v: "chan_player v k \<noteq> None" using get_or_create_players [of E m team n b w] r assms by (simp add: chan_player_def split: if_splits)
  have "chan_player (ch_Join E a k pw c v) k \<noteq> None" for a
    using Join_cases [OF v, of E a pw c] v by (auto simp: calm_def chan_player_def enrolled_def split: if_splits)
  then show ?thesis using v by (cases x) (simp_all add: on_channel_def r)
qed

lemma quiet_players:
  "cw_players (ch_Leave E a k False w) = cw_players w" "cw_players (with_mgr E team (\<lambda>m. mgr_LeftChannel m n) w) = cw_players w"
proof -
  have "cw_players (ch_SetOwner E a j ex v) = cw_players v" for v j ex
    using SetOwner_cases [of v j a E ex] by (auto dest: sentD)
  then show "cw_players (ch_Leave E a k False w) = cw_players w" by (simp add: ch_Leave_def leave_member_def Let_def)
  show "cw_players (with_mgr E team (\<lambda>m. mgr_LeftChannel m n) w) = cw_players w"
    by (simp add: with_mgr_def mgr_LeftChannel_def Let_def split: option.split)
qed

locale channel_law =
  fixes P :: "ChatWorld \<Rightarrow> bool" and may_remove :: "uint32 \<Rightarrow> uint32 \<Rightarrow> bool"
  assumes law_calm: "P w \<Longrightarrow> calm w w' \<Longrightarrow> P w'"
    and law_safe: "P w \<Longrightarrow> chat_ok w"
    and law_enrol: "P w \<Longrightarrow> live w a \<Longrightarrow> chan_player w k \<noteq> None \<Longrightarrow> \<not> IsOn (cw_heap w a) k \<Longrightarrow> \<not> IsBanned (cw_heap w a) k \<Longrightarrow> P (enrolled a k w)"
    and law_leave: "P w \<Longrightarrow> P (ch_Leave E a k True w)"
    and law_quiet: "P w \<Longrightarrow> cw_players w k = Some p \<Longrightarrow> cp_channels p = a # as \<Longrightarrow>
      P (ch_Leave E a k False (upd_cplayer k (\<lambda>p. p\<lparr>cp_channels := as\<rparr>) w))"
    and law_create: "P w \<Longrightarrow> P (snd (get_or_create E m team n b w))"
    and law_drop: "P w \<Longrightarrow> P (mgr_LeftChannel m n w)"
    and law_remove: "P w \<Longrightarrow> IsOn (cw_heap w a) g \<Longrightarrow> may_remove g t \<Longrightarrow> P (remove_member E a g t ban w)"
begin

lemma keep_sent: "P w \<Longrightarrow> sent w w' \<Longrightarrow> P w'"
  by (rule law_calm [OF _ sent_calm])

lemma keep_create:
  assumes "P w" and "\<And>a v. P v \<Longrightarrow> live v a \<Longrightarrow> cw_players v = cw_players w \<Longrightarrow> P (f a v)"
  shows "P (on_channel (get_or_create E m team n b w) f)"
proof -
  obtain x v where r: "get_or_create E m team n b w = (x, v)" by fastforce
  note k = get_or_create_keeps [OF law_safe [OF assms(1)], where E = E and m = m and team = team and name = n and b = b, unfolded r]
  have "P v" using law_create [OF assms(1), of E m team n b] r by simp
  then show ?thesis using assms(2) k(3,4) by (cases x) (simp_all add: on_channel_def r)
qed

lemma keep_join: "P w \<Longrightarrow> live w a \<Longrightarrow> chan_player w k \<noteq> None \<Longrightarrow> P (ch_Join E a k pw b w)"
  using Join_cases [of w k E a pw b] law_calm law_enrol by blast

lemma keep_join_named:
  assumes "P w" and "chan_player w k \<noteq> None"
  shows "P (on_channel (get_or_create E m team n b w) (\<lambda>a. ch_Join E a k pw c))"
    and "P (on_channel (get_or_create E m team n b w) (\<lambda>a w. if ch_securityLevel (cw_heap w a) = 0 then ch_Join E a k pw c w else w))"
proof -
  have "P (ch_Join E a k pw c v)" if "P v" "live v a" "cw_players v = cw_players w" for a v
    by (rule keep_join [OF that(1,2)]) (use that(3) assms(2) in \<open>simp add: chan_player_def split: if_splits\<close>)
  then show "P (on_channel (get_or_create E m team n b w) (\<lambda>a. ch_Join E a k pw c))"
    "P (on_channel (get_or_create E m team n b w) (\<lambda>a w. if ch_securityLevel (cw_heap w a) = 0 then ch_Join E a k pw c w else w))"
    by (auto intro!: keep_create [OF assms(1)])
qed

lemma keep_mgr: "P w \<Longrightarrow> (\<And>m. P (f m w)) \<Longrightarrow> P (with_mgr E team f w)"
  by (simp add: with_mgr_def split: option.split)

lemma keep_lookup:
  assumes "P w" and "\<And>a. P (f a w)"
  shows "P (on_channel (GetChannel m n k w) f)"
  using assms law_calm [OF assms(1) sent_calm [OF sent_csend]] by (auto simp: on_channel_def GetChannel_def split: option.split)

lemma keep_to_channel: "P w \<Longrightarrow> (\<And>a. P (f a w)) \<Longrightarrow> P (to_channel E me n f w)"
  by (auto simp: to_channel_def intro!: keep_mgr keep_lookup split: option.split)

lemma keep_calm_command: "P w \<Longrightarrow> (\<And>a. calm w (f a w)) \<Longrightarrow> P (to_channel E me n f w)"
  by (blast intro: keep_to_channel law_calm)

lemma keep_kick:
  assumes "P w" and "\<And>k p. chan_find_inworld E w n = Some (k, p) \<Longrightarrow> may_remove me k"
  shows "P (KickOrBan E a me n ban w)"
proof -
  have c: "P (SendToOne p me w)" "P (not_found a me n w)" for p by (rule keep_sent [OF assms(1)], simp)+
  then show ?thesis using assms law_remove [OF assms(1)]
    by (auto simp: KickOrBan_def as_moderator_def as_member_def Let_def split: option.split prod.split)
qed

lemma keep_Join_opcode: "P w \<Longrightarrow> P (HandleJoinChannelOpcode E me n pw w)"
proof (cases "chan_player w me")
  case (Some p)
  assume w: "P w"
  let ?v = "with_mgr E (cp_team p) (\<lambda>m w. on_channel (GetOrCreateChannel E m n w) (\<lambda>a. ch_Join E a me pw True)) w"
  have s: "P (csend me q w)" for q by (rule keep_sent [OF w]) simp
  have v: "P ?v" unfolding GetOrCreateChannel_def by (intro keep_mgr keep_join_named w) (simp add: Some)
  have "chan_player ?v me \<noteq> None" using join_named_online [of w me] Some by (auto simp: with_mgr_def GetOrCreateChannel_def split: option.split)
  from keep_join_named(2) [OF v this]
  have "P (with_mgr E (other_team (cp_team p)) (\<lambda>m w. on_channel (GetOrCreateChannel E m n w)
      (\<lambda>a w. if ch_securityLevel (cw_heap w a) = 0 then ch_Join E a me pw True w else w)) ?v)"
    unfolding GetOrCreateChannel_def by (rule keep_mgr [OF v [unfolded GetOrCreateChannel_def]])
  then show ?thesis using Some s v by (simp add: HandleJoinChannelOpcode_def Let_def)
qed (simp add: HandleJoinChannelOpcode_def)

lemma keep_leave_named: "P w \<Longrightarrow> P (leave_named E me n m w)"
  unfolding leave_named_def by (intro law_drop keep_lookup law_leave)

lemma keep_Leave_opcode: "P w \<Longrightarrow> P (HandleLeaveChannelOpcode E me n w)"
  by (auto simp: HandleLeaveChannelOpcode_def Let_def intro!: keep_mgr keep_leave_named split: option.split)

lemma keep_with_name: "P w \<Longrightarrow> (\<And>n. normalizePlayerName t 15 True = (True, n) \<Longrightarrow> P (f n w)) \<Longrightarrow> P (with_name t f w)"
  by (auto simp: with_name_def split: prod.split bool.split)

lemma keep_Kick_opcodes:
  assumes "P w" and "\<And>n' k p. normalizePlayerName t 15 True = (True, n') \<Longrightarrow> chan_find_inworld E w n' = Some (k, p) \<Longrightarrow> may_remove me k"
  shows "P (with_name t (\<lambda>n'. to_channel E me n (\<lambda>a. KickOrBan E a me n' ban)) w)"
  by (intro keep_with_name keep_to_channel keep_kick assms)

lemma keep_opcode:
  assumes "P w" and "\<And>k. aims_at E op w k \<Longrightarrow> may_remove me k"
  shows "P (handle_channel E me op w)"
proof -
  have kick: "P (with_name t (\<lambda>n'. to_channel E me n (\<lambda>a. KickOrBan E a me n' ban)) w)" if "kick_target op = Some t" for t n ban
    by (rule keep_Kick_opcodes [OF assms(1)]) (use that assms(2) in \<open>simp add: aims_at_def\<close>)
  note c = calm_commands calm_SetMode calm_SetOwner_name
  show ?thesis
  proof (cases op)
    case (CMSG_CHANNEL_INVITE n t)
    have "P (to_channel E me n (\<lambda>a. ch_Invite E a me n') w)" for n' by (rule keep_calm_command [OF assms(1)]) (rule c(7))
    then show ?thesis using assms(1)
      by (auto simp: CMSG_CHANNEL_INVITE HandleChannelInviteOpcode_def intro!: keep_with_name split: option.split)
  qed (use assms(1) kick c in \<open>auto simp: HandleChannelListOpcode_def HandleChannelPasswordOpcode_def HandleChannelSetOwnerOpcode_def
      HandleChannelOwnerOpcode_def HandleChannelModeOpcode_def HandleChannelKickOpcode_def HandleChannelBanOpcode_def HandleChannelUnbanOpcode_def
      HandleChannelAnnouncementsOpcode_def HandleChannelModerateOpcode_def
      intro!: keep_Join_opcode keep_Leave_opcode keep_with_name keep_calm_command\<close>)
qed

lemma keep_say: "P w \<Longrightarrow> P (ch_Say E a k t lang b w)" "P w \<Longrightarrow> P (AsyncSay a k t lang b w)"
  by (auto intro: law_calm calm_Say calm_AsyncSay)

lemma keep_say_in: "P w \<Longrightarrow> P (say_in E team n k t w)"
  by (auto simp: say_in_def GetOrCreateChannel_def intro!: keep_create keep_say split: option.split)

lemma keep_announce: "P w \<Longrightarrow> P (AnnounceBothFactionsChannel E n k t w)"
  by (auto simp: AnnounceBothFactionsChannel_def Let_def intro!: keep_say_in)

lemma keep_message: "P w \<Longrightarrow> P (HandleChannelMessage E me n t lang w)"
proof -
  assume w: "P w"
  have s: "P (csend me q w)" for q by (rule keep_sent [OF w]) simp
  have r: "P (f w)" if "public_refusal E me p t c = Some f" for p c f
    using that s w by (auto simp: public_refusal_def split: if_splits)
  have "P (say_to_channel E me p n t lang a w)" for p a
    unfolding say_to_channel_def Let_def
    by (auto split: option.split intro!: keep_say keep_say_in keep_announce simp: w s r)
  then show ?thesis by (auto simp: HandleChannelMessage_def w intro!: keep_to_channel split: option.split)
qed

lemma keep_queue: "P w \<Longrightarrow> P (w\<lparr>cw_queue := q\<rparr>)"
  by (erule law_calm) (simp add: calm_def entry_def)

lemma keep_broadcast_one: "P w \<Longrightarrow> P (broadcast_one E w)"
  by (auto simp: broadcast_one_def Let_def GetOrCreateChannel_def intro!: keep_queue keep_create keep_say split: list.split option.split)

lemma keep_broadcast: "P w \<Longrightarrow> P (broadcast_round E w)"
proof -
  have "P w \<Longrightarrow> P ((broadcast_one E ^^ n) w)" for n by (induction n) (simp_all add: keep_broadcast_one)
  then show "P w \<Longrightarrow> P (broadcast_round E w)" by (simp add: broadcast_round_def)
qed

lemma keep_cleanup_loop:
  assumes "P w" and "cw_players w k = Some p" and "cp_channels p = as"
  shows "P (cleanup_loop E k team as w)"
  using assms
proof (induction as arbitrary: w p)
  case (Cons a as)
  let ?v = "ch_Leave E a k False (upd_cplayer k (\<lambda>p. p\<lparr>cp_channels := as\<rparr>) w)"
  let ?u = "with_mgr E team (\<lambda>m. mgr_LeftChannel m (ch_name (cw_heap ?v a))) ?v"
  have v: "P ?v" by (rule law_quiet [OF Cons.prems])
  have "P ?u" by (intro keep_mgr law_drop v)
  moreover have "cw_players ?u k = Some (p\<lparr>cp_channels := as\<rparr>)" using Cons.prems(2) by (simp add: quiet_players)
  ultimately show ?case using Cons.IH [of ?u "p\<lparr>cp_channels := as\<rparr>"] by (simp add: Let_def)
qed simp

lemma keep_cleanup: "P w \<Longrightarrow> P (CleanupChannels E k w)"
  by (auto simp: CleanupChannels_def chan_player_def intro!: keep_cleanup_loop split: option.split if_splits)

lemma keep_LFG: "P w \<Longrightarrow> P (LeaveLFGChannel E k w)"
  by (auto simp: LeaveLFGChannel_def intro!: law_leave split: option.split)

lemma keep_force_join: "P w \<Longrightarrow> P (ForceJoinChannelCommand E k n w)"
  by (auto simp: ForceJoinChannelCommand_def GetOrCreateChannel_def intro!: keep_mgr keep_join_named split: option.split)

end

end
