(* ===== verification/Chat_Run.thy ===== *)
theory Chat_Run
  imports Chat_Safety
begin

text \<open>
  The two interpretations of \<open>channel_law\<close>, the start of the managers, and runs of the channel code.
\<close>

interpretation cs: channel_law chat_ok "\<lambda>_ _. True"
proof unfold_locales
  show "P \<Longrightarrow> P" for P :: bool .
qed (auto intro: calm_chat_ok enrolled_chat_ok Leave_keeps(1) Leave_quiet_keeps(1) get_or_create_keeps(1) drop_keeps(1) remove_keeps(1))

interpretation ct: channel_law "\<lambda>w. chat_ok w \<and> strict {} w" "\<lambda>g t. g \<noteq> t"
proof unfold_locales
  fix w w' assume "chat_ok w \<and> strict {} w" "calm w w'"
  then show "chat_ok w' \<and> strict {} w'" by (auto intro: calm_chat_ok calm_strict)
next
  fix w a k assume "chat_ok w \<and> strict {} w" "live w a" "chan_player w k \<noteq> None" "\<not> IsOn (cw_heap w a) k" "\<not> IsBanned (cw_heap w a) k"
  then show "chat_ok (enrolled a k w) \<and> strict {} (enrolled a k w)"
    by (intro conjI enrolled_chat_ok enrolled_strict) (auto simp: chan_player_def split: if_splits)
qed (auto intro: Leave_keeps Leave_quiet_keeps get_or_create_keeps(1,2) drop_keeps remove_keeps)

section \<open>The start\<close>

lemma create_default_keeps: "chat_ok w \<Longrightarrow> strict {} w \<Longrightarrow> chat_ok (create_default E m x w) \<and> strict {} (create_default E m x w)"
proof -
  assume w: "chat_ok w" "strict {} w"
  obtain n s where x: "x = (n, s)" by fastforce
  obtain y v where r: "get_or_create E m ALLIANCE n True w = (y, v)" by fastforce
  have v: "chat_ok v \<and> strict {} v" using ct.law_create [of w E m ALLIANCE n True] w r by simp
  have "calm v (upd_chan a (\<lambda>c. c\<lparr>ch_securityLevel := s\<rparr>) v)" for a by (rule calm_fields) simp_all
  then show ?thesis using v ct.law_calm [OF v] by (cases y) (simp_all add: create_default_def x r)
qed

lemma CreateDefaultChannels_keeps:
  assumes "chat_ok w" and "strict {} w"
  shows "chat_ok (CreateDefaultChannels E m w) \<and> strict {} (CreateDefaultChannels E m w)"
proof -
  have 1: "chat_ok (fold (create_default E m) xs w) \<and> strict {} (fold (create_default E m) xs w)" for xs
    using assms by (induction xs arbitrary: w) (simp_all add: create_default_keeps)
  have 2: "calm v (fold (\<lambda>(_, a). upd_chan a (\<lambda>c. c\<lparr>ch_announce := False\<rparr>)) ys v)" for ys :: "(uint16 list \<times> cptr) list" and v
  proof (induction ys arbitrary: v)
    case (Cons y ys)
    have "calm v (upd_chan a (\<lambda>c. c\<lparr>ch_announce := False\<rparr>) v)" for a by (rule calm_fields) simp_all
    from calm_trans [OF this Cons.IH] show ?case by (cases y) simp
  qed simp
  show ?thesis unfolding CreateDefaultChannels_def Let_def by (rule ct.law_calm [OF 1 2])
qed

lemma chat_start_ok: "chat_ok (chat_start E)" "strict {} (chat_start E)"
proof -
  let ?w = "\<lparr>cw_heap = (\<lambda>_. empty_channel), cw_next = 0, cw_freed = [], cw_channels = (\<lambda>_. []), cw_players = (\<lambda>_. None), cw_queue = [], cw_out = []\<rparr>"
  have "chan_ok empty_channel" by (simp add: chan_ok_def empty_channel_def sorted_keys_def)
  then have "chat_ok ?w" "strict {} ?w" by (simp_all add: chat_ok_def strict_def live_def)
  then show "chat_ok (chat_start E)" "strict {} (chat_start E)" using CreateDefaultChannels_keeps unfolding chat_start_def by blast+
qed

section \<open>Runs\<close>

datatype chat_step =
    ChannelOpcode uint32 channel_opcode
  | ChannelText uint32 string string uint32
  | ChatLogin uint32 ChatPlayer
  | ChatLogout uint32
  | ChatElsewhere uint32 "ChatPlayer \<Rightarrow> ChatPlayer"
  | LeaveLFG uint32
  | ForceJoin uint32 string
  | Broadcast

fun chat_do :: "ChatEnv \<times> chat_step \<Rightarrow> ChatWorld \<Rightarrow> ChatWorld" where
  "chat_do (E, ChannelOpcode me op) w = handle_channel E me op w"
| "chat_do (E, ChannelText me n t lang) w = HandleChannelMessage E me n t lang w"
| "chat_do (E, ChatLogin k p) w = w\<lparr>cw_players := (cw_players w)(k \<mapsto> p\<lparr>cp_channels := []\<rparr>)\<rparr>"
| "chat_do (E, ChatLogout k) w = (let w1 = CleanupChannels E k w in w1\<lparr>cw_players := (cw_players w1)(k := None)\<rparr>)"
| "chat_do (E, ChatElsewhere k f) w = upd_cplayer k f w"
| "chat_do (E, LeaveLFG k) w = LeaveLFGChannel E k w"
| "chat_do (E, ForceJoin k n) w = ForceJoinChannelCommand E k n w"
| "chat_do (E, Broadcast) w = broadcast_round E w"

text \<open>A player who logs in is not yet there, and other code leaves the list of channels alone.\<close>

fun chat_may :: "ChatEnv \<times> chat_step \<Rightarrow> ChatWorld \<Rightarrow> bool" where
  "chat_may (E, ChatLogin k p) w \<longleftrightarrow> k \<noteq> 0 \<and> cw_players w k = None"
| "chat_may (E, ChatElsewhere k f) w \<longleftrightarrow> (\<forall>p. cw_players w k = Some p \<longrightarrow> cp_channels (f p) = cp_channels p)"
| "chat_may _ w \<longleftrightarrow> True"

text \<open>In addition, nobody kicks or bans himself, and logouts are of players with a guid.\<close>

fun chat_fair :: "ChatEnv \<times> chat_step \<Rightarrow> ChatWorld \<Rightarrow> bool" where
  "chat_fair (E, ChannelOpcode me op) w \<longleftrightarrow> \<not> aims_at E op w me"
| "chat_fair (E, ChatLogout k) w \<longleftrightarrow> k \<noteq> 0"
| "chat_fair x w \<longleftrightarrow> chat_may x w"

lemma drop_player: "chat_ok w \<Longrightarrow> chat_ok (w\<lparr>cw_players := (cw_players w)(k := None)\<rparr>)"
  by (auto simp: chat_ok_def live_def split: if_splits)

lemma add_player: "chat_ok w \<Longrightarrow> chat_ok (w\<lparr>cw_players := (cw_players w)(k \<mapsto> p\<lparr>cp_channels := []\<rparr>)\<rparr>)"
  by (auto simp: chat_ok_def live_def split: if_splits)

lemma same_list:
  assumes "chat_ok w" and "\<forall>p. cw_players w k = Some p \<longrightarrow> cp_channels (f p) = cp_channels p"
  shows "chat_ok (upd_cplayer k f w)" and "strict {} w \<Longrightarrow> strict {} (upd_cplayer k f w)"
proof -
  show "chat_ok (upd_cplayer k f w)" by (rule unlisted_chat_ok [OF assms(1)]) (use assms in \<open>auto simp: chat_ok_def\<close>)
  show "strict {} (upd_cplayer k f w)" if s: "strict {} w"
    unfolding strict_def
  proof (intro allI impI)
    fix a j x assume *: "live (upd_cplayer k f w) a" "entry (upd_cplayer k f w) a j = Some x"
    then have d: "live w a" "entry w a j = Some x" by simp_all
    then obtain p where "cw_players w j = Some p" "a \<in> set (cp_channels p)" using strictD(3) [OF s] by blast
    with strictD(1,2) [OF s d] show "x = j \<and> j \<notin> set (ch_banned (cw_heap (upd_cplayer k f w) a)) \<and>
        (\<exists>p. cw_players (upd_cplayer k f w) j = Some p \<and> a \<in> set (cp_channels p))"
      using assms(2) by auto
  qed
qed

lemma chat_do_safe: "chat_ok w \<Longrightarrow> chat_may (E, x) w \<Longrightarrow> chat_ok (chat_do (E, x) w)"
  by (cases x) (auto simp: Let_def intro: cs.keep_opcode cs.keep_message cs.keep_cleanup cs.keep_LFG cs.keep_force_join cs.keep_broadcast
      drop_player add_player same_list(1))

interpretation cr: guarded chat_do chat_may chat_ok
  by unfold_locales (metis chat_do_safe surj_pair)

section \<open>Logging out\<close>

lemma cleanup_empties:
  assumes "cw_players w k = Some p"
  shows "\<exists>q. cw_players (cleanup_loop E k team as w) k = Some q \<and> (as = cp_channels p \<longrightarrow> cp_channels q = [])"
  using assms
proof (induction as arbitrary: w p)
  case (Cons a as)
  let ?v = "ch_Leave E a k False (upd_cplayer k (\<lambda>p. p\<lparr>cp_channels := as\<rparr>) w)"
  let ?u = "with_mgr E team (\<lambda>m. mgr_LeftChannel m (ch_name (cw_heap ?v a))) ?v"
  have "cw_players ?u k = Some (p\<lparr>cp_channels := as\<rparr>)" using Cons.prems by (simp add: quiet_players)
  from Cons.IH [OF this] show ?case by (auto simp: Let_def)
qed auto

lemma logout_strict:
  assumes w: "chat_ok w" "strict {} w" and "k \<noteq> 0"
  shows "strict {} (chat_do (E, ChatLogout k) w)"
proof -
  let ?v = "CleanupChannels E k w"
  have v: "strict {} ?v" using ct.keep_cleanup [of w E k] w by simp
  have e: "entry ?v a k = None" if lv: "live ?v a" for a
  proof (rule ccontr)
    assume "entry ?v a k \<noteq> None"
    then obtain p where p: "cw_players ?v k = Some p" "a \<in> set (cp_channels p)" using strictD(3) [OF v lv] by blast
    show False
    proof (cases "cw_players w k")
      case None
      then show ?thesis using p assms(3) by (simp add: CleanupChannels_def chan_player_def)
    next
      case (Some q)
      then show ?thesis using p assms(3) cleanup_empties [OF Some, of E "cp_team q" "cp_channels q"] by (simp add: CleanupChannels_def chan_player_def)
    qed
  qed
  have d: "chat_do (E, ChatLogout k) w = ?v\<lparr>cw_players := (cw_players ?v)(k := None)\<rparr>" by (simp add: Let_def)
  have l: "live (?v\<lparr>cw_players := P\<rparr>) = live ?v" "entry (?v\<lparr>cw_players := P\<rparr>) = entry ?v" for P
    by (simp_all add: live_def entry_def fun_eq_iff)
  show ?thesis unfolding strict_def d l
  proof (intro allI impI)
    fix a j x assume *: "live ?v a" "entry ?v a j = Some x"
    then have "j \<noteq> k" using e by auto
    then show "x = j \<and> j \<notin> set (ch_banned (cw_heap (?v\<lparr>cw_players := (cw_players ?v)(k := None)\<rparr>) a)) \<and>
        (\<exists>p. cw_players (?v\<lparr>cw_players := (cw_players ?v)(k := None)\<rparr>) j = Some p \<and> a \<in> set (cp_channels p))"
      using * v unfolding strict_def by simp
  qed
qed

lemma login_strict:
  assumes "strict {} w" and "cw_players w k = None"
  shows "strict {} (w\<lparr>cw_players := (cw_players w)(k \<mapsto> p)\<rparr>)"
proof -
  have l: "live (w\<lparr>cw_players := P\<rparr>) = live w" "entry (w\<lparr>cw_players := P\<rparr>) = entry w" for P
    by (simp_all add: live_def entry_def fun_eq_iff)
  show ?thesis using assms unfolding strict_def l by fastforce
qed

lemma chat_do_fair:
  assumes "chat_ok w \<and> strict {} w" and "chat_fair (E, x) w"
  shows "chat_ok (chat_do (E, x) w) \<and> strict {} (chat_do (E, x) w)"
proof (cases x)
  case (ChannelOpcode me op)
  then show ?thesis using ct.keep_opcode [OF assms(1), of E op me] assms(2) by auto
next
  case (ChatLogout k)
  then show ?thesis using assms logout_strict [of w k E] chat_do_safe [of w E x] by simp
next
  case (ChatLogin k p)
  then show ?thesis using assms add_player login_strict by simp
qed (use assms same_list [of w] ct.keep_message ct.keep_LFG ct.keep_force_join ct.keep_broadcast in auto)

interpretation cf: guarded chat_do chat_fair "\<lambda>w. chat_ok w \<and> strict {} w"
  by unfold_locales (metis chat_do_fair surj_pair)

end
