(* ===== verification/Chat_Authority.thy ===== *)
theory Chat_Authority
  imports Chat_Run
begin

unbundle bit_operations_syntax

text \<open>
  Who may change what on a channel: its settings (password, bans, moderation, announcements) and the
  membership and the moderator and mute flags of other members.
\<close>

definition settings :: "Channel \<Rightarrow> string \<times> uint32 set \<times> bool \<times> bool" where
  "settings c = (ch_password c, set (ch_banned c), ch_moderate c, ch_announce c)"

text \<open>The moderator and mute bits of a member.\<close>

definition modes :: "Channel \<Rightarrow> uint32 \<Rightarrow> uint8 option" where
  "modes c k = map_option (\<lambda>x. pi_flags x AND 0x0A) (map_of (ch_players c) k)"

definition in_charge :: "ChatWorld \<Rightarrow> cptr \<Rightarrow> uint32 \<Rightarrow> bool" where
  "in_charge w a me \<longleftrightarrow> IsOn (cw_heap w a) me \<and>
     (IsModerator (info_of (cw_heap w a) me) \<or> \<not> sec_of w me < SEC_OBSERVER \<or> me = ch_ownerGuid (cw_heap w a))"

definition chan_untouched :: "uint32 \<Rightarrow> cptr \<Rightarrow> ChatWorld \<Rightarrow> ChatWorld \<Rightarrow> bool" where
  "chan_untouched me a w w' \<longleftrightarrow> settings (cw_heap w' a) = settings (cw_heap w a) \<and> (\<forall>k. k \<noteq> me \<longrightarrow> modes (cw_heap w' a) k = modes (cw_heap w a) k)"

text \<open>A plain moderator does not change the modes of the owner either.\<close>

definition permitted :: "uint32 \<Rightarrow> cptr \<Rightarrow> ChatWorld \<Rightarrow> ChatWorld \<Rightarrow> bool" where
  "permitted me a w w' \<longleftrightarrow> chan_untouched me a w w' \<or>
     in_charge w a me \<and> (sec_of w me < SEC_OBSERVER \<longrightarrow> ch_ownerGuid (cw_heap w a) \<noteq> me \<longrightarrow>
       modes (cw_heap w' a) (ch_ownerGuid (cw_heap w a)) = modes (cw_heap w a) (ch_ownerGuid (cw_heap w a)))"

lemma chan_untouched_refl [simp]: "chan_untouched me a w w"
  by (simp add: chan_untouched_def)

lemma chan_untouched_trans: "chan_untouched me a u v \<Longrightarrow> chan_untouched me a v w \<Longrightarrow> chan_untouched me a u w"
  by (simp add: chan_untouched_def)

lemma chan_untouched_heap: "cw_heap w' a = cw_heap w a \<Longrightarrow> chan_untouched me a w w'"
  by (simp add: chan_untouched_def)

lemma chan_untouched_sent: "sent w w' \<Longrightarrow> chan_untouched me a w w'"
  by (simp add: chan_untouched_heap sentD)

lemma owner_bit [simp]: "pi_flags (set_mflag MEMBER_FLAG_OWNER b x) AND 0x0A = pi_flags x AND 0x0A"
  by (simp add: set_mflag_def bit.conj_disj_distrib2 and.assoc)

lemma chan_untouched_owner_set:
  assumes "IsOn (cw_heap w b) k \<or> k = me"
  shows "chan_untouched me a w (upd_chan b (owner_set k) w)"
  using assms by (auto simp: chan_untouched_def settings_def modes_def owner_set_players IsOn_def info_of_def split: option.splits)

lemma untouched_SetOwner:
  assumes "chan_player w k \<noteq> None \<Longrightarrow> IsOn (cw_heap w b) k \<or> k = me"
  shows "chan_untouched me a w (ch_SetOwner E b k ex w)"
proof -
  obtain w1 where w1: "w1 = w \<or> chan_player w k \<noteq> None \<and> w1 = upd_chan b (owner_set k) w" "sent w1 (ch_SetOwner E b k ex w)"
    using SetOwner_cases by blast
  then have "chan_untouched me a w w1" using assms chan_untouched_owner_set by auto
  then show ?thesis by (rule chan_untouched_trans [OF _ chan_untouched_sent [OF w1(2)]])
qed

lemma chan_untouched_own_info: "chan_untouched me a w (upd_chan b (upd_info me f) w)"
  by (simp add: chan_untouched_def settings_def modes_def)

lemma untouched_Join: "chan_untouched me a w (ch_Join E b me pw c w)"
proof -
  have j: "chan_untouched me a v (join_member E b me v)" for v
  proof -
    let ?u = "SendToOne (CHAT_YOU_JOINED_NOTICE (ch_name (cw_heap v b)) (ucast (ch_flags (cw_heap v b)))) me
       (upd_chan b (upd_info me (\<lambda>_. \<lparr>pi_player = me, pi_flags = 0\<rparr>)) v)"
    have u: "chan_untouched me a v ?u" by (rule chan_untouched_trans [OF chan_untouched_own_info chan_untouched_sent [OF sent_SendToOne]])
    have "chan_untouched me a ?u (upd_chan b (upd_info me (set_mflag MEMBER_FLAG_MODERATOR True)) (ch_SetOwner E b me ex ?u))" for ex
      by (rule chan_untouched_trans [OF untouched_SetOwner chan_untouched_own_info]) simp
    then show ?thesis using u chan_untouched_trans unfolding join_member_def Let_def by auto
  qed
  have "chan_untouched me a w (announce E b d q (upd_cplayer me f w))" "chan_untouched me a w (announce E b d q w)" for d q f
    by (rule chan_untouched_heap, simp)+
  then have "chan_untouched me a w (join_member E b me (announce E b d q (upd_cplayer me f w)))" "chan_untouched me a w (join_member E b me (announce E b d q w))" for d q f
    using j chan_untouched_trans by blast+
  then show ?thesis unfolding ch_Join_def Let_def by (auto simp: chan_untouched_sent)
qed

lemma untouched_Leave:
  assumes "chan_ok (cw_heap w b)"
  shows "chan_untouched me a w (ch_Leave E b me s w)"
proof -
  have m: "chan_untouched me a v (leave_member E b me q v)" if ok: "chan_ok (cw_heap v b)" for v q
  proof -
    have c: "calm (expelled b me v) (leave_member E b me q v)" by (rule calm_leave_member [OF ok])
    have e: "chan_untouched me a v (expelled b me v)" by (simp add: chan_untouched_def expelled_def settings_def modes_def)
    let ?u = "announce E b (CHAT_LEFT_NOTICE (ch_name (cw_heap v b)) me) q (expelled b me v)"
    let ?n = "case ch_players (cw_heap ?u b) of [] \<Rightarrow> 0 | (_, x) # _ \<Rightarrow> pi_player x"
    have u: "chan_untouched me a v ?u" by (rule chan_untouched_trans [OF e chan_untouched_sent]) simp
    have "IsOn (cw_heap ?u b) ?n \<or> ?n = me" if "chan_player ?u ?n \<noteq> None"
      using first_member_on [OF ok that] by blast
    then have "chan_untouched me a ?u (ch_SetOwner E b ?n True ?u)" by (rule untouched_SetOwner)
    then show ?thesis using u chan_untouched_trans unfolding leave_member_def Let_def expelled_def [symmetric] by auto
  qed
  have "chan_untouched me a w (upd_cplayer me f (SendToOne d me w))" for f d by (rule chan_untouched_heap) simp
  then show ?thesis using assms m chan_untouched_sent chan_untouched_trans unfolding ch_Leave_def Let_def by (auto; metis m sentD(1) sent_SendToOne upd_cplayer_sel(1))
qed

section \<open>Commands\<close>

text \<open>What a command does to its channel: nothing without authority, and a plain moderator leaves the owner alone. Other
  channels do not change.\<close>

definition lawful :: "uint32 \<Rightarrow> cptr \<Rightarrow> ChatWorld \<Rightarrow> ChatWorld \<Rightarrow> bool" where
  "lawful me b w w' \<longleftrightarrow> (\<forall>a. a \<noteq> b \<longrightarrow> cw_heap w' a = cw_heap w a) \<and> permitted me b w w'"

lemma lawful_permitted: "lawful me b w w' \<Longrightarrow> permitted me a w w'"
  by (cases "a = b") (auto simp: lawful_def permitted_def intro: chan_untouched_heap)

lemma lawful_sent: "sent w w' \<Longrightarrow> lawful me b w w'"
  by (simp add: lawful_def permitted_def chan_untouched_sent sentD)

lemma SetOwner_local: "a \<noteq> b \<Longrightarrow> cw_heap (ch_SetOwner E b k ex w) a = cw_heap w a"
  using SetOwner_cases [of w k b E ex] by (auto dest: sentD)

lemma lawful_as_moderator:
  assumes "\<And>a. a \<noteq> b \<Longrightarrow> cw_heap (f w) a = cw_heap w a"
    and "\<lbrakk>IsOn (cw_heap w b) me; ch_ownerGuid (cw_heap w b) \<noteq> me; sec_of w me < SEC_OBSERVER\<rbrakk> \<Longrightarrow>
      modes (cw_heap (f w) b) (ch_ownerGuid (cw_heap w b)) = modes (cw_heap w b) (ch_ownerGuid (cw_heap w b))"
  shows "lawful me b w (as_moderator b me f w)"
proof (cases "IsOn (cw_heap w b) me \<and> (IsModerator (info_of (cw_heap w b) me) \<or> \<not> sec_of w me < SEC_OBSERVER)")
  case True
  then have "as_moderator b me f w = f w" by (auto simp: as_moderator_def as_member_def)
  moreover have "in_charge w b me" using True by (auto simp: in_charge_def)
  ultimately show ?thesis using assms True by (auto simp: lawful_def permitted_def)
next
  case False
  then have "sent w (as_moderator b me f w)" by (auto simp: as_moderator_def as_member_def Let_def)
  then show ?thesis by (rule lawful_sent)
qed

lemma lawful_settings:
  "lawful me b w (UnBan E b me n w)" "lawful me b w (ch_Password E b me pw w)" "lawful me b w (ch_Announce E b me w)" "lawful me b w (ch_Moderate E b me w)"
  unfolding UnBan_def ch_Password_def ch_Announce_def ch_Moderate_def Let_def
  by (rule lawful_as_moderator; simp add: modes_def split: option.split prod.split)+

lemma remove_other:
  assumes "ch_ownerGuid (cw_heap w b) \<noteq> t"
  shows "modes (cw_heap (remove_member E b g t ban w) b) (ch_ownerGuid (cw_heap w b)) = modes (cw_heap w b) (ch_ownerGuid (cw_heap w b))"
  using assms by (simp add: remove_member_def Let_def modes_def)

lemma remove_local: "a \<noteq> b \<Longrightarrow> cw_heap (remove_member E b g t ban w) a = cw_heap w a"
  by (simp add: remove_member_def Let_def SetOwner_local)

lemma lawful_kick: "lawful me b w (KickOrBan E b me n ban w)"
  unfolding KickOrBan_def
  by (rule lawful_as_moderator) (auto simp: remove_local remove_other Let_def split: option.split prod.split)

lemma lawful_mode: "lawful me b w (SetMode E b me n m s w)"
proof (cases "chan_player w me")
  case (Some p)
  have l: "cw_heap (set_member_mode E b f t s v) a = cw_heap v a" if "a \<noteq> b" for a f t v
    using that by (simp add: set_member_mode_def Let_def)
  have o: "modes (cw_heap (set_member_mode E b f t s v) b) k = modes (cw_heap v b) k" if "k \<noteq> t" for f t v k
    using that by (simp add: set_member_mode_def Let_def modes_def)
  show ?thesis unfolding SetMode_def Some option.case
    by (rule lawful_as_moderator) (auto simp: l o Let_def split: option.split prod.split)
qed (simp add: SetMode_def lawful_sent)

lemma lawful_owner: "lawful me b w (SetOwner_name E b me n w)"
proof (cases "chan_player w me")
  case (Some p)
  have "\<not> sec_of w me < SEC_OBSERVER \<or> ch_ownerGuid (cw_heap w b) = me" if "cp_security p < SEC_OBSERVER \<longrightarrow> me = ch_ownerGuid (cw_heap w b)"
    using that Some by (auto simp: sec_of_def)
  then have c: "lawful me b w v" if "IsOn (cw_heap w b) me" "cp_security p < SEC_OBSERVER \<longrightarrow> me = ch_ownerGuid (cw_heap w b)"
    "\<forall>a. a \<noteq> b \<longrightarrow> cw_heap v a = cw_heap w a" for v
    using that by (auto simp: lawful_def permitted_def in_charge_def)
  have m: "lawful me b w (ch_SetOwner E b t True (upd_chan b g w))"
    if "IsOn (cw_heap w b) me" "cp_security p < SEC_OBSERVER \<longrightarrow> me = ch_ownerGuid (cw_heap w b)" for t g
    by (rule c [OF that]) (simp add: SetOwner_local)
  show ?thesis unfolding SetOwner_name_def Some option.case as_member_def Let_def
    using m by (simp add: lawful_sent split: option.split prod.split)
qed (simp add: SetOwner_name_def lawful_sent)

lemma lawful_quiet:
  "lawful me b w (SendWhoOwner E b me w)" "lawful me b w (ch_List E b me w)" "lawful me b w (ch_Invite E b me n w)"
proof -
  have t: "sent w (SendToOne p k (SendToOne q j w))" for p k q j by (rule sent_trans [OF sent_SendToOne sent_SendToOne])
  show "lawful me b w (SendWhoOwner E b me w)" "lawful me b w (ch_List E b me w)" "lawful me b w (ch_Invite E b me n w)"
    unfolding SendWhoOwner_def ch_List_def ch_Invite_def as_member_def Let_def
    by (rule lawful_sent; simp add: t split: option.split prod.split)+
qed

lemma permitted_sent: "sent w w' \<Longrightarrow> permitted me a w w'"
  by (simp add: permitted_def chan_untouched_sent)

lemma permitted_to_channel:
  assumes "\<And>b. lawful me b w (f b w)"
  shows "permitted me a w (to_channel E me n f w)"
  using lawful_permitted [OF assms]
  by (auto simp: to_channel_def with_mgr_def on_channel_def GetChannel_def permitted_sent split: option.split)

lemma permitted_with_name: "(\<And>n. permitted me a w (f n w)) \<Longrightarrow> permitted me a w (with_name t f w)"
  by (auto simp: with_name_def permitted_sent split: prod.split bool.split)

section \<open>Joining and leaving\<close>

lemma chan_untouched_create:
  assumes "a < cw_next w" and "\<And>b v. chan_untouched me a v (f b v)"
  shows "chan_untouched me a w (on_channel (get_or_create E m team n c w) f)"
proof -
  obtain x v where r: "get_or_create E m team n c w = (x, v)" by fastforce
  then have "cw_heap v a = cw_heap w a" using assms(1) by (auto simp: get_or_create_def Let_def split: option.splits if_splits)
  then show ?thesis using chan_untouched_trans [OF chan_untouched_heap assms(2)] chan_untouched_heap r by (cases x) (auto simp: on_channel_def)
qed

lemma permitted_Join: "a < cw_next w \<Longrightarrow> permitted me a w (HandleJoinChannelOpcode E me n pw w)"
proof (cases "chan_player w me")
  case (Some p)
  assume a: "a < cw_next w"
  let ?v = "with_mgr E (cp_team p) (\<lambda>m w. on_channel (GetOrCreateChannel E m n w) (\<lambda>a. ch_Join E a me pw True)) w"
  have j: "chan_untouched me a v (with_mgr E t (\<lambda>m w. on_channel (GetOrCreateChannel E m n w) f) v)"
    if "a < cw_next v" "\<And>b v. chan_untouched me a v (f b v)" for v t f
    using chan_untouched_create [OF that] by (auto simp: with_mgr_def GetOrCreateChannel_def split: option.split)
  have next_join: "cw_next v \<le> cw_next (on_channel (get_or_create E m t n True v) (\<lambda>a. ch_Join E a me pw True))" for m t v
  proof -
    obtain x u where r: "get_or_create E m t n True v = (x, u)" by fastforce
    then have "cw_next v \<le> cw_next u" by (auto simp: get_or_create_def Let_def split: option.splits if_splits)
    moreover have "cw_next (ch_Join E b me pw True u) = cw_next u" for b
    proof (cases "chan_player u me = None")
      case False
      show ?thesis using Join_cases [OF False, of E b pw True] by (auto simp: calm_def enrolled_def)
    next
      case True
      have "cw_next (join_member E b me y) = cw_next y" for y
        using calm_join_member [OF refl, of b me y E] by (simp add: calm_def)
      then show ?thesis using True by (simp add: ch_Join_def Let_def)
    qed
    ultimately show ?thesis by (cases x) (auto simp: on_channel_def r)
  qed
  have "a < cw_next ?v"
    using a order.strict_trans2 [OF a next_join] by (auto simp: with_mgr_def GetOrCreateChannel_def split: option.split)
  from chan_untouched_trans [OF j [OF a untouched_Join] j [OF this]]
  show ?thesis using Some j [OF a untouched_Join] untouched_Join
    by (auto simp: HandleJoinChannelOpcode_def Let_def permitted_def chan_untouched_sent)
qed (simp add: HandleJoinChannelOpcode_def permitted_sent)

lemma chan_untouched_leave_named:
  assumes "chat_ok w" shows "chan_untouched me a w (leave_named E me n m w)"
proof -
  have l: "chan_untouched me a v (mgr_LeftChannel m n v)" for v
    by (rule chan_untouched_heap) (simp add: mgr_LeftChannel_def Let_def split: option.split)
  have "chan_untouched me a w (on_channel (GetChannel m n me w) (\<lambda>a. ch_Leave E a me True))"
    using assms by (auto simp: on_channel_def GetChannel_def chat_ok_def chan_untouched_sent intro: untouched_Leave split: option.split)
  from chan_untouched_trans [OF this l] show ?thesis by (simp add: leave_named_def)
qed

lemma permitted_Leave: "chat_ok w \<Longrightarrow> permitted me a w (HandleLeaveChannelOpcode E me n w)"
proof -
  assume w: "chat_ok w"
  have "chan_untouched me a v (with_mgr E t (leave_named E me n) v) \<and> chat_ok (with_mgr E t (leave_named E me n) v)" if "chat_ok v" for v t
    using that by (auto simp: with_mgr_def chan_untouched_leave_named cs.keep_leave_named split: option.split)
  then show ?thesis using w chan_untouched_trans
    by (auto simp: HandleLeaveChannelOpcode_def Let_def permitted_def split: option.split) blast+
qed

lemma handle_channel_permitted:
  assumes "chat_ok w" and "a < cw_next w"
  shows "permitted me a w (handle_channel E me op w)"
proof -
  note l = lawful_settings lawful_kick lawful_mode lawful_owner lawful_quiet
  have i: "permitted me a w (case chan_player w me of None \<Rightarrow> w | Some p \<Rightarrow> if c p then w else to_channel E me n (\<lambda>b. ch_Invite E b me t) w)" for c n t
    using permitted_to_channel [where f = "\<lambda>b. ch_Invite E b me t", OF lawful_quiet(3)] by (auto simp: permitted_sent split: option.split)
  show ?thesis
    by (cases op; simp only: handle_channel.simps HandleChannelListOpcode_def HandleChannelPasswordOpcode_def HandleChannelSetOwnerOpcode_def
      HandleChannelOwnerOpcode_def HandleChannelModeOpcode_def HandleChannelKickOpcode_def HandleChannelBanOpcode_def HandleChannelUnbanOpcode_def
      HandleChannelAnnouncementsOpcode_def HandleChannelModerateOpcode_def HandleChannelInviteOpcode_def;
      (rule permitted_with_name)?; (rule permitted_to_channel l permitted_Join permitted_Leave assms i)+)
qed

end
