(* ===== verification/Props_Chat.thy ===== *)
theory Props_Chat
  imports Chat_Authority
begin

unbundle bit_operations_syntax

text \<open>
  Properties of the chat channels.
\<close>

section \<open>A sample\<close>

definition sample_chat_env :: ChatEnv where
  "sample_chat_env = \<lparr>cv_twoSide = False, cv_silentGM = False, cv_gmOpposite = False, cv_gmLevelInWho = 0, cv_inviteMinLevel = 1, cv_vanishLevel = 20,
     cv_worldChanMinLevel = 10, cv_gmsPublic = False, cv_pvpRealm = False, cv_entries = [],
     cv_byName = [''Thrall'' \<mapsto> 7, ''Garona'' \<mapsto> 8], cv_nameOf = (\<lambda>_. None), cv_ignores = (\<lambda>_ _. False), cv_visible = (\<lambda>_ _. True),
     cv_baseLanguage = (\<lambda>_. 1), cv_enforceEnglish = (\<lambda>_ _. False), cv_cooldown = (\<lambda>_. 0), cv_antispam = (\<lambda>_ _. True)\<rparr>"

definition sample_chatter :: "string \<Rightarrow> ChatPlayer" where
  "sample_chatter n = \<lparr>cp_name = n, cp_team = HORDE, cp_race = 2, cp_security = 0, cp_guildId = 0, cp_level = 60, cp_inworld = True, cp_honorRank = 0,
     cp_chatTag = 0, cp_fingerprintBanned = False, cp_accountFlags = 0, cp_accountMaxLevel = 60, cp_channels = [0]\<rparr>"

definition wolves :: Channel where
  "wolves = empty_channel\<lparr>ch_name := ''Wolves'', ch_flags := CHANNEL_FLAG_CUSTOM, ch_Team := HORDE, ch_ownerGuid := 7,
     ch_players := [(7, \<lparr>pi_player = 7, pi_flags = 3\<rparr>), (8, \<lparr>pi_player = 8, pi_flags = 0\<rparr>)]\<rparr>"

definition sample_chat :: ChatWorld where
  "sample_chat = \<lparr>cw_heap = (\<lambda>_. empty_channel)(0 := wolves), cw_next = 1, cw_freed = [],
     cw_channels = (\<lambda>_. [])(HordeChannelMgr := [(chan_key ''Wolves'', 0)]),
     cw_players = [7 \<mapsto> sample_chatter ''Thrall'', 8 \<mapsto> sample_chatter ''Garona''], cw_queue = [], cw_out = []\<rparr>"

lemma sample_chat_sel [simp]:
  "cw_heap sample_chat 0 = wolves" "cw_next sample_chat = 1" "cw_players sample_chat 7 = Some (sample_chatter ''Thrall'')"
  "cw_players sample_chat 8 = Some (sample_chatter ''Garona'')" "cw_queue sample_chat = []" "cw_out sample_chat = []"
  by (simp_all add: sample_chat_def)

lemma wolves_sel [simp]:
  "ch_players wolves = [(7, \<lparr>pi_player = 7, pi_flags = 3\<rparr>), (8, \<lparr>pi_player = 8, pi_flags = 0\<rparr>)]" "ch_ownerGuid wolves = 7" "ch_flags wolves = 1"
  "ch_name wolves = ''Wolves''" "ch_moderate wolves = False" "ch_channelId wolves = 0" "ch_banned wolves = []"
  by (simp_all add: wolves_def empty_channel_def)

lemma sample_chat_ok: "chat_ok sample_chat"
proof -
  have "chan_ok empty_channel" "chan_ok wolves"
    by (auto simp: chan_ok_def sorted_keys_def empty_channel_def has_mflag_def split: if_splits)
  then show ?thesis
    by (auto simp: chat_ok_def live_def sample_chat_def sample_chatter_def IsOn_def split: if_splits)
qed

lemma sample_names:
  "normalizePlayerName ''Thrall'' 15 True = (True, ''Thrall'')" "normalizePlayerName ''Garona'' 15 True = (True, ''Garona'')"
  by code_simp+

section \<open>Memory safety\<close>

lemma chat_start_players: "cw_players (chat_start E) = (\<lambda>_. None)" "cw_queue (chat_start E) = []"
  "\<forall>a < cw_next (chat_start E). ch_Team (cw_heap (chat_start E) a) = ALLIANCE"
proof -
  define Q where "Q w \<longleftrightarrow> cw_players w = (\<lambda>_. None) \<and> cw_queue w = [] \<and> (\<forall>a < cw_next w. ch_Team (cw_heap w a) = ALLIANCE)" for w :: ChatWorld
  have t: "ch_Team (new_Channel E n x) = x" for n x by (auto simp: new_Channel_def Let_def split: option.split prod.split)
  have u: "Q w \<Longrightarrow> (\<And>c. ch_Team (f c) = ch_Team c) \<Longrightarrow> Q (upd_chan a f w)" for w a f by (simp add: Q_def)
  have c: "Q w \<Longrightarrow> Q (create_default E m x w)" for w m x
  proof -
    assume w: "Q w"
    obtain n s where x: "x = (n, s)" by fastforce
    obtain y v where r: "get_or_create E m ALLIANCE n True w = (y, v)" by fastforce
    then have "Q v" using w by (auto simp: get_or_create_def Let_def Q_def t less_Suc_eq split: option.splits)
    then show ?thesis by (cases y) (simp_all add: create_default_def x r u)
  qed
  have f: "Q w \<Longrightarrow> Q (fold (create_default E m) xs w)" for w m xs by (induction xs arbitrary: w) (simp_all add: c)
  have g: "Q w \<Longrightarrow> Q (fold (\<lambda>(_, a). upd_chan a (\<lambda>c. c\<lparr>ch_announce := False\<rparr>)) ys w)" for w and ys :: "(uint16 list \<times> cptr) list"
    by (induction ys arbitrary: w) (auto simp: u)
  have "Q (chat_start E)" unfolding chat_start_def CreateDefaultChannels_def Let_def by (intro f g) (simp add: Q_def)
  then show "cw_players (chat_start E) = (\<lambda>_. None)" "cw_queue (chat_start E) = []"
    "\<forall>a < cw_next (chat_start E). ch_Team (cw_heap (chat_start E) a) = ALLIANCE"
    by (simp_all add: Q_def)
qed

text \<open>C16: the channel code keeps no pointer to a deleted channel. After any run, from the start of the server, of channel
  opcodes, chat messages, broadcasts, logins, logouts and the other callers, every channel in the list of a player is
  allocated, not deleted, and has the player as a member, and is there once; the managers point to
  channels that are not deleted; and a channel has at most one member with the owner flag.\<close>

theorem channels_memory_safe:
  assumes "guarded_run chat_do chat_may steps (chat_start E)" and "fold chat_do steps (chat_start E) = w"
  shows "(\<forall>k p. cw_players w k = Some p \<longrightarrow> distinct (cp_channels p) \<and> (\<forall>a \<in> set (cp_channels p). live w a \<and> IsOn (cw_heap w a) k)) \<and>
    (\<forall>m n a. find_channel m n w = Some a \<longrightarrow> live w a) \<and>
    (\<forall>a j k x y. map_of (ch_players (cw_heap w a)) j = Some x \<longrightarrow> map_of (ch_players (cw_heap w a)) k = Some y \<longrightarrow>
       IsOwner x \<longrightarrow> IsOwner y \<longrightarrow> j = k)"
proof -
  have w: "chat_ok w" using cr.run_good [OF chat_start_ok(1) assms(1)] assms(2) by simp
  have "j = k" if "map_of (ch_players (cw_heap w a)) j = Some x" "map_of (ch_players (cw_heap w a)) k = Some y" "IsOwner x" "IsOwner y" for a j k x y
  proof -
    have c: "chan_ok (cw_heap w a)" using w by (simp add: chat_ok_def)
    from chan_okD(1) [OF c that(1,3)] chan_okD(1) [OF c that(2,4)] show ?thesis by simp
  qed
  then show ?thesis using w unfolding chat_ok_def find_channel_def by blast
qed

definition sample_steps :: "(ChatEnv \<times> chat_step) list" where
  "sample_steps = map (Pair sample_chat_env)
     [ChatLogin 7 (sample_chatter ''Thrall''), ChatLogin 8 (sample_chatter ''Garona''), ChannelOpcode 7 (CMSG_JOIN_CHANNEL ''wolves'' []),
      ChannelOpcode 8 (CMSG_JOIN_CHANNEL ''Wolves'' []), ChannelText 8 ''Wolves'' ''Lok'' 1, Broadcast, ChannelOpcode 7 (CMSG_CHANNEL_BAN ''wolves'' ''Garona''),
      ChannelOpcode 8 (CMSG_LEAVE_CHANNEL ''wolves''), ChatLogout 7]"

lemma sample_steps_may: "guarded_run chat_do chat_may sample_steps (chat_start sample_chat_env)"
  by (simp add: sample_steps_def chat_start_players del: chat_do.simps(1,2,4-8))

theorem channels_memory_safe_witness:
  "\<exists>w. fold chat_do sample_steps (chat_start sample_chat_env) = w \<and>
     (case cw_players w 8 of None \<Rightarrow> True | Some p \<Rightarrow> list_all (\<lambda>a. live w a \<and> IsOn (cw_heap w a) 8) (cp_channels p))"
proof -
  let ?w = "fold chat_do sample_steps (chat_start sample_chat_env)"
  have "\<forall>p. cw_players ?w 8 = Some p \<longrightarrow> (\<forall>a \<in> set (cp_channels p). live ?w a \<and> IsOn (cw_heap ?w a) 8)"
    using channels_memory_safe [OF sample_steps_may refl] by blast
  then show ?thesis by (simp add: list_all_iff split: option.split)
qed

section \<open>Members\<close>

text \<open>C17: members are known. After any run from the start in which nobody kicks or bans himself, every member of a
  channel is an online player who has the channel in the own list and is not banned there; so a player who logs out is on no
  channel any more.\<close>

theorem channel_members_known:
  assumes "guarded_run chat_do chat_fair steps (chat_start E)" and "fold chat_do steps (chat_start E) = w" and "live w a" and "IsOn (cw_heap w a) k"
  shows "\<not> IsBanned (cw_heap w a) k \<and> (\<exists>p. cw_players w k = Some p \<and> a \<in> set (cp_channels p))"
proof -
  have w: "strict {} w" using cf.run_good [of "chat_start E" steps] chat_start_ok assms(1,2) by simp
  obtain x where "entry w a k = Some x" using assms(4) unfolding IsOn_entry by blast
  from strictD(2,3) [OF w assms(3) this] show ?thesis by (simp add: IsBanned_def)
qed

lemma sample_steps_fair: "guarded_run chat_do chat_fair sample_steps (chat_start sample_chat_env)"
proof -
  have "\<not> aims_at sample_chat_env (CMSG_CHANNEL_BAN n ''Garona'') w 7" for n w
    by (auto simp: aims_at_def sample_names chan_find_inworld_def chan_find_def sample_chat_env_def split: option.splits if_splits)
  then show ?thesis by (simp add: sample_steps_def chat_start_players aims_at_def [where op = "CMSG_JOIN_CHANNEL _ _"]
      aims_at_def [where op = "CMSG_LEAVE_CHANNEL _"] del: chat_do.simps(1,2,4-8))
qed

theorem channel_members_known_witness:
  "\<not> (live (fold chat_do sample_steps (chat_start sample_chat_env)) 22 \<and> IsOn (cw_heap (fold chat_do sample_steps (chat_start sample_chat_env)) 22) 7)"
  using channel_members_known [OF sample_steps_fair refl, of 22 7] by (auto simp: sample_steps_def Let_def)

text \<open>C32: an owner who kicks himself becomes a ghost. If the owner of a channel, who is a moderator there, names himself in
  a kick or ban while somebody else is on the channel, then the code removes him, drops the
  channel from his list, and makes him the owner again, which adds him back: afterwards he is a member with the owner flag although his
  own list does not have the channel, so that logging out does not remove him; after a ban he is a banned
  member.\<close>

theorem self_kick_ghost:
  assumes "chan_find_inworld E w n = Some (me, p)" and "chan_player w me = Some p" and "IsOn (cw_heap w a) me" and "IsModerator (info_of (cw_heap w a) me)"
    and "ch_ownerGuid (cw_heap w a) = me" and "\<not> HasChannelFlag (cw_heap w a) CHANNEL_FLAG_GENERAL" and "IsOn (cw_heap w a) j" and "j \<noteq> me"
    and "KickOrBan E a me n ban w = w'"
  shows "IsOn (cw_heap w' a) me \<and> IsOwner (info_of (cw_heap w' a) me) \<and> ch_ownerGuid (cw_heap w' a) = me \<and>
    (\<exists>q. cw_players w' me = Some q \<and> a \<notin> set (cp_channels q)) \<and> (ban \<longrightarrow> IsBanned (cw_heap w' a) me)"
proof -
  obtain u where u: "sent (banning ban a me w) u" "(let v = expelled a me (upd_cplayer me (LeftChannel a) u)
      in remove_member E a me me ban w =
         (if ch_ownerGuid (cw_heap w a) = me then ch_SetOwner E a (if ch_players (cw_heap v a) \<noteq> [] then me else 0) True v else v))"
    using remove_shape by blast
  define v where "v = expelled a me (upd_cplayer me (LeftChannel a) u)"
  have me: "me \<noteq> 0" "cw_players w me = Some p" using assms(2) by (auto simp: chan_player_def split: if_splits)
  have h: "cw_heap u = cw_heap (banning ban a me w)" "cw_players u = cw_players w" using sentD [OF u(1)] by (simp_all add: banning_def)
  have "map_of (ch_players (cw_heap v a)) j = map_of (ch_players (cw_heap w a)) j" using assms(8) by (simp add: v_def expelled_def h banning_def)
  then have ne: "ch_players (cw_heap v a) \<noteq> []" using assms(7) by (auto simp: IsOn_def)
  have r: "w' = ch_SetOwner E a me True v"
    using u(2) [folded v_def] ne assms by (simp add: KickOrBan_def as_moderator_def as_member_def Let_def)
  have pv: "cw_players v me = Some (LeftChannel a p)" using me h by (simp add: v_def expelled_def)
  have fl: "\<not> HasChannelFlag (cw_heap v a) CHANNEL_FLAG_GENERAL" using assms(6) by (simp add: v_def expelled_def h banning_def HasChannelFlag_def)
  let ?c = "owner_set me (cw_heap v a)"
  have heap: "cw_heap w' a = ?c" "cw_players w' = cw_players v"
    using r pv me fl by (simp_all add: ch_SetOwner_def chan_player_def Let_def owner_set_def)
  have "map_of (ch_players ?c) me = Some (set_mflag MEMBER_FLAG_OWNER True (info_of (cw_heap v a) me))"
    unfolding owner_set_players by (simp add: IsOn_def v_def expelled_def)
  then have "IsOn ?c me \<and> IsOwner (info_of ?c me)" by (simp add: IsOn_def info_of_def)
  moreover have "ban \<longrightarrow> IsBanned ?c me" by (auto simp: IsBanned_def v_def expelled_def h banning_def)
  ultimately show ?thesis using heap pv by simp
qed

theorem self_kick_ghost_witness:
  "IsOn (cw_heap (KickOrBan sample_chat_env 0 7 ''Thrall'' True sample_chat) 0) 7 \<and>
   IsBanned (cw_heap (KickOrBan sample_chat_env 0 7 ''Thrall'' True sample_chat) 0) 7"
  using self_kick_ghost [of sample_chat_env sample_chat "''Thrall''" 7 "sample_chatter ''Thrall''" 0 8 True, OF _ _ _ _ _ _ _ _ refl]
  by (simp add: chan_find_inworld_def chan_find_def sample_names sample_chat_env_def sample_chatter_def chan_player_def IsOn_def info_of_def
      has_mflag_def HasChannelFlag_def)

section \<open>Authority\<close>

text \<open>C18: who may change a channel. Whatever channel opcode a player sends, on every existing channel either the settings (password, bans,
  moderation, announcements) and the membership, moderator and mute flags of all other players stay the same, or the
  player is on the channel and is a moderator, its owner or a game master; and a moderator who is neither owner nor game master
  leaves the membership and the flags of the owner as they are.\<close>

theorem channel_authority:
  assumes "chat_ok w" and "a < cw_next w" and "handle_channel E me op w = w'"
  shows "settings (cw_heap w' a) = settings (cw_heap w a) \<and> (\<forall>k. k \<noteq> me \<longrightarrow> modes (cw_heap w' a) k = modes (cw_heap w a) k) \<or>
    IsOn (cw_heap w a) me \<and>
    (IsModerator (info_of (cw_heap w a) me) \<or> \<not> sec_of w me < SEC_OBSERVER \<or> me = ch_ownerGuid (cw_heap w a)) \<and>
    (sec_of w me < SEC_OBSERVER \<longrightarrow> ch_ownerGuid (cw_heap w a) \<noteq> me \<longrightarrow>
       modes (cw_heap w' a) (ch_ownerGuid (cw_heap w a)) = modes (cw_heap w a) (ch_ownerGuid (cw_heap w a)))"
  using handle_channel_permitted [OF assms(1,2), of me E op] unfolding permitted_def chan_untouched_def in_charge_def assms(3) by blast

theorem channel_authority_witness:
  "modes (cw_heap (handle_channel sample_chat_env 8 (CMSG_CHANNEL_KICK ''Wolves'' ''Thrall'') sample_chat) 0) 7 = modes wolves 7"
  using channel_authority [OF sample_chat_ok, of 0 sample_chat_env 8 "CMSG_CHANNEL_KICK ''Wolves'' ''Thrall''", OF _ refl]
  by (auto simp: has_mflag_def info_of_def sec_of_def chan_player_def sample_chatter_def)

section \<open>Messages\<close>

lemma fold_deliver:
  "cw_out (fold (\<lambda>(k, _). deliver E d g k) ps w) = cw_out w @ map (\<lambda>k. (k, d)) (filter (\<lambda>k. chan_player w k \<noteq> None \<and> \<not> cv_ignores E k g) (map fst ps))"
proof (induction ps arbitrary: w)
  case (Cons x ps)
  have "chan_player (deliver E d g k w) = chan_player w" for k by (auto simp: deliver_def split: option.split)
  moreover have "cw_out (deliver E d g k w) = cw_out w @ (if chan_player w k \<noteq> None \<and> \<not> cv_ignores E k g then [(k, d)] else [])" for k
    by (auto simp: deliver_def csend_def split: option.split)
  ultimately show ?case by (simp add: case_prod_beta Cons.IH [unfolded case_prod_beta])
qed simp

text \<open>C19: a message that passes the checks reaches exactly the members of the channel who are online and do not ignore the speaker (a
  moderator cannot be ignored there), once each, in the order of the member map, with the text, the speaker and the name of the channel.\<close>

theorem say_reaches_members:
  assumes "CheckSay w a me False = SAY_OK" and "chan_player w me = Some p" and "\<not> echo_only E p" and "ch_Say E a me str lang False w = w'"
  shows "\<exists>lang'. cw_out w' = cw_out w @
    map (\<lambda>k. (k, CHAT_MSG_CHANNEL str lang' (cp_chatTag p) me (ch_name (cw_heap w a)) (cp_honorRank p)))
      (filter (\<lambda>k. chan_player w k \<noteq> None \<and> \<not> cv_ignores E k (if IsModerator (info_of (cw_heap w a) me) then 0 else me))
        (map fst (ch_players (cw_heap w a))))"
proof -
  have "w' = SendToAll E a (CHAT_MSG_CHANNEL str (say_language E (cw_heap w a) (Some p) lang) (cp_chatTag p) me (ch_name (cw_heap w a)) (cp_honorRank p))
      (if IsModerator (info_of (cw_heap w a) me) then 0 else me) w"
    using assms by (auto simp: ch_Say_def Let_def)
  then show ?thesis by (auto simp: SendToAll_def fold_deliver)
qed

theorem say_reaches_members_witness:
  "\<exists>lang'. cw_out (ch_Say sample_chat_env 0 8 ''Lok'' 1 False sample_chat) =
     [(7, CHAT_MSG_CHANNEL ''Lok'' lang' 0 8 ''Wolves'' 0), (8, CHAT_MSG_CHANNEL ''Lok'' lang' 0 8 ''Wolves'' 0)]"
  using say_reaches_members [of sample_chat 0 8 "sample_chatter ''Garona''" sample_chat_env "''Lok''" 1, OF _ _ _ refl]
  by (simp add: CheckSay_def IsOn_def info_of_def has_mflag_def chan_player_def sample_chatter_def echo_only_def sample_chat_env_def)

section \<open>Announcements to both factions\<close>

lemma get_or_create_find:
  "find_channel m n (snd (get_or_create E m t n True w)) \<noteq> None"
  "find_channel i j w \<noteq> None \<Longrightarrow> find_channel i j (snd (get_or_create E m t n True w)) \<noteq> None"
  by (auto simp: get_or_create_def find_channel_def Let_def update_conv' split: option.split)

lemma create_default_find:
  "find_channel m n (create_default E m (n, s) w) \<noteq> None"
  "find_channel i j w \<noteq> None \<Longrightarrow> find_channel i j (create_default E m x w) \<noteq> None"
proof -
  have c: "cw_channels (create_default E m (n, s) w) = cw_channels (snd (get_or_create E m ALLIANCE n True w))" for n s
    by (auto simp: create_default_def split: option.split prod.split)
  show "find_channel m n (create_default E m (n, s) w) \<noteq> None" using get_or_create_find(1) [of m n E ALLIANCE w] by (simp add: find_channel_def c)
  show "find_channel i j w \<noteq> None \<Longrightarrow> find_channel i j (create_default E m x w) \<noteq> None"
    using get_or_create_find(2) [of i j w E m ALLIANCE "fst x"] by (cases x) (simp add: find_channel_def c)
qed

lemma defaults_find:
  "(n, s) \<in> set xs \<Longrightarrow> find_channel m n (fold (create_default E m) xs w) \<noteq> None"
  "find_channel i j w \<noteq> None \<Longrightarrow> find_channel i j (fold (create_default E m) xs w) \<noteq> None"
proof -
  have k: "find_channel i j w \<noteq> None \<Longrightarrow> find_channel i j (fold (create_default E m) xs w) \<noteq> None" for i j xs w
    by (induction xs arbitrary: w) (simp, metis create_default_find(2) fold_simps(2))
  then show "find_channel i j w \<noteq> None \<Longrightarrow> find_channel i j (fold (create_default E m) xs w) \<noteq> None" .
  show "(n, s) \<in> set xs \<Longrightarrow> find_channel m n (fold (create_default E m) xs w) \<noteq> None"
  proof (induction xs arbitrary: w)
    case (Cons x xs)
    then show ?case using k [OF create_default_find(1)] by (cases "x = (n, s)") auto
  qed simp
qed

lemma CreateDefaultChannels_find:
  "(n, s) \<in> set (default_channels (cv_pvpRealm E)) \<Longrightarrow> find_channel m n (CreateDefaultChannels E m w) \<noteq> None"
  "find_channel i j w \<noteq> None \<Longrightarrow> find_channel i j (CreateDefaultChannels E m w) \<noteq> None"
proof -
  have "cw_channels (fold (\<lambda>(_, a). upd_chan a (\<lambda>c. c\<lparr>ch_announce := False\<rparr>)) ys v) = cw_channels v" for ys :: "(uint16 list \<times> cptr) list" and v
    by (induction ys arbitrary: v) auto
  then have c: "find_channel i j (CreateDefaultChannels E m w) = find_channel i j (fold (create_default E m) (default_channels (cv_pvpRealm E)) w)" for i j
    by (simp add: CreateDefaultChannels_def find_channel_def Let_def)
  show "(n, s) \<in> set (default_channels (cv_pvpRealm E)) \<Longrightarrow> find_channel m n (CreateDefaultChannels E m w) \<noteq> None"
    "find_channel i j w \<noteq> None \<Longrightarrow> find_channel i j (CreateDefaultChannels E m w) \<noteq> None"
    unfolding c by (rule defaults_find, assumption)+
qed

text \<open>C33: announcements to both factions reach only the Alliance. On a realm with separate channels, an announcement in the default channel
  Global puts two messages in the queue, one for each manager's channel; but the default channels of the Horde manager carry the
  Alliance as their team, so the broadcaster takes both messages to the manager of the Alliance.\<close>

theorem announcement_misses_horde:
  assumes "\<not> cv_twoSide E"
  shows "map cm_Message (cw_queue (AnnounceBothFactionsChannel E ''Global'' k t (chat_start E))) = [t, t] \<and>
    map (\<lambda>msg. channelMgr E (cm_ChannelTeam msg)) (cw_queue (AnnounceBothFactionsChannel E ''Global'' k t (chat_start E))) =
      [Some AllianceChannelMgr, Some AllianceChannelMgr]"
proof -
  let ?w = "chat_start E"
  have g: "(''Global'', SEC_MODERATOR) \<in> set (default_channels (cv_pvpRealm E))" by (simp add: default_channels_def)
  have "find_channel HordeChannelMgr ''Global'' ?w \<noteq> None" unfolding chat_start_def by (rule CreateDefaultChannels_find(1) [OF g])
  moreover have "find_channel AllianceChannelMgr ''Global'' ?w \<noteq> None" unfolding chat_start_def
    by (rule CreateDefaultChannels_find(2), rule CreateDefaultChannels_find(1) [OF g])
  ultimately obtain a b where f: "find_channel HordeChannelMgr ''Global'' ?w = Some a" "find_channel AllianceChannelMgr ''Global'' ?w = Some b" by blast
  then have "a < cw_next ?w" "b < cw_next ?w" using chat_start_ok(1) [of E] unfolding chat_ok_def live_def find_channel_def by blast+
  then have t: "ch_Team (cw_heap ?w a) = ALLIANCE" "ch_Team (cw_heap ?w b) = ALLIANCE" using chat_start_players(3) by blast+
  have 1: "say_in E HORDE ''Global'' k t ?w = AsyncSay a k t LANG_UNIVERSAL True ?w"
    using assms f by (simp add: say_in_def channelMgr_def GetOrCreateChannel_def get_or_create_def on_channel_def)
  have 2: "say_in E ALLIANCE ''Global'' k t (AsyncSay a k t LANG_UNIVERSAL True ?w) = AsyncSay b k t LANG_UNIVERSAL True (AsyncSay a k t LANG_UNIVERSAL True ?w)"
    using assms f by (simp add: say_in_def channelMgr_def GetOrCreateChannel_def get_or_create_def on_channel_def AsyncSay_def find_channel_def)
  show ?thesis using assms t chat_start_players(2) [of E]
    by (simp add: AnnounceBothFactionsChannel_def Let_def 1 2) (simp add: AsyncSay_def channelMgr_def)
qed

theorem announcement_misses_horde_witness:
  "map (\<lambda>msg. channelMgr sample_chat_env (cm_ChannelTeam msg)) (cw_queue (AnnounceBothFactionsChannel sample_chat_env ''Global'' 7 ''Hail'' (chat_start sample_chat_env))) =
     [Some AllianceChannelMgr, Some AllianceChannelMgr]"
  using announcement_misses_horde [of sample_chat_env 7 "''Hail''"] by (simp add: sample_chat_env_def)

end
